(* ===== verification/PyFloat.thy ===== *)
theory PyFloat
  imports Complex_Main "HOL-Library.Log_Nat"
begin

section \<open>Python floats: IEEE 754 binary64 with round-half-even\<close>

text \<open>
  Every number the trading code computes with is a Python \<^verbatim>\<open>float\<close>. A finite float is
  modelled by the rational it denotes, an operation by the exact rational operation
  followed by the rounding \<open>fl\<close> to binary64 (53 significant bits, smallest exponent
  \<open>-1074\<close>, overflow to an infinity at \<open>2 ^ 1024\<close>, ties to even), so results, error
  branches and comparisons are the ones CPython computes. The two zeros are identified:
  Python raises on division by either zero, and no comparison tells them apart.
  Everything here computes, so concrete inputs are evaluated by \<open>simp\<close>.
\<close>

named_theorems flt_simps \<open>unfolding of the float operations on finite arguments\<close>

datatype flt = Fin rat | PInf | NInf | NaN

subsection \<open>Rounding\<close>

definition flog2 :: "rat \<Rightarrow> int" where
  \<comment> \<open>\<open>floor (log 2 x)\<close> for \<open>0 < x\<close>\<close>
  "flog2 x = (if 1 \<le> x then bitlen \<lfloor>x\<rfloor> - 1 else - bitlen (\<lceil>1 / x\<rceil> - 1))"

definition rhe :: "rat \<Rightarrow> int" where
  \<comment> \<open>nearest integer, ties to even\<close>
  "rhe x = (let f = \<lfloor>x\<rfloor>; r = x - of_int f in
     if 2 * r < 1 then f else if 1 < 2 * r then f + 1 else if even f then f else f + 1)"

definition fl_exp :: "rat \<Rightarrow> int" where
  "fl_exp x = max (flog2 x - 52) (- 1074)"

definition fl_mag :: "rat \<Rightarrow> rat" where
  \<comment> \<open>the rounded magnitude of a positive rational, before the overflow check\<close>
  "fl_mag x = of_int (rhe (x / 2 powi fl_exp x)) * 2 powi fl_exp x"

definition fl_limit :: rat where
  "fl_limit = 2 ^ 1024"

definition fl :: "rat \<Rightarrow> flt" where
  "fl x =
    (if x = 0 then Fin 0
     else if 0 < x then (if fl_limit \<le> fl_mag x then PInf else Fin (fl_mag x))
     else (if fl_limit \<le> fl_mag (- x) then NInf else Fin (- fl_mag (- x))))"

definition is_f64 :: "flt \<Rightarrow> bool" where
  \<comment> \<open>the values a Python float can hold\<close>
  "is_f64 x = (case x of Fin r \<Rightarrow> fl r = Fin r | _ \<Rightarrow> True)"

subsection \<open>Facts about \<open>flog2\<close>\<close>

lemma bitlen_pos_bounds:
  assumes "0 < (n::int)"
  shows "(2::rat) powi (bitlen n - 1) \<le> of_int n" "of_int n < (2::rat) powi bitlen n" "1 \<le> bitlen n"
proof -
  have b: "2 ^ nat (bitlen n - 1) \<le> n" "n < 2 ^ nat (bitlen n)"
    using bitlen_bounds [OF assms] by auto
  show p: "1 \<le> bitlen n" using assms by (simp add: bitlen_alt_def)
  have "(of_int (2 ^ nat (bitlen n - 1)) :: rat) \<le> of_int n" using b(1) by (simp only: of_int_le_iff)
  then show "(2::rat) powi (bitlen n - 1) \<le> of_int n" using p by (simp add: power_int_def)
  have "(of_int n :: rat) < of_int (2 ^ nat (bitlen n))" using b(2) by (simp only: of_int_less_iff)
  then show "of_int n < (2::rat) powi bitlen n" using p by (simp add: power_int_def)
qed

lemma flog2_lower: "0 < x \<Longrightarrow> 2 powi flog2 x \<le> x"
proof (cases "1 \<le> x")
  case True
  then have "0 < \<lfloor>x\<rfloor>" by (simp add: le_floor_iff)
  from bitlen_pos_bounds(1) [OF this] have "2 powi flog2 x \<le> (of_int \<lfloor>x\<rfloor> :: rat)"
    using True by (simp add: flog2_def)
  also have "\<dots> \<le> x" by simp
  finally show ?thesis .
next
  case False
  assume x: "0 < x"
  let ?n = "\<lceil>1 / x\<rceil> - 1"
  have "1 < 1 / x" using False x by simp
  then have "1 < \<lceil>1 / x\<rceil>" by (simp add: less_ceiling_iff)
  then have n: "0 < ?n" by simp
  have "(of_int ?n :: rat) + 1 \<le> 2 powi bitlen ?n"
  proof -
    have e: "(2::rat) powi bitlen ?n = of_int (2 ^ nat (bitlen ?n))"
      using bitlen_pos_bounds(3) [OF n] by (simp add: power_int_def)
    with bitlen_pos_bounds(2) [OF n] have "?n < 2 ^ nat (bitlen ?n)" by (simp only: of_int_less_iff)
    then have "?n + 1 \<le> 2 ^ nat (bitlen ?n)" by simp
    then have "(of_int (?n + 1) :: rat) \<le> of_int (2 ^ nat (bitlen ?n))" by (simp only: of_int_le_iff)
    then show ?thesis using e by simp
  qed
  moreover have "1 / x \<le> of_int ?n + 1" by simp
  ultimately have "1 / x \<le> 2 powi bitlen ?n" by linarith
  then have "1 / 2 powi bitlen ?n \<le> x" using x by (simp add: field_simps)
  then show ?thesis using False by (simp add: flog2_def power_int_minus_divide)
qed

lemma flog2_upper: "0 < x \<Longrightarrow> x < 2 powi (flog2 x + 1)"
proof (cases "1 \<le> x")
  case True
  then have "0 < \<lfloor>x\<rfloor>" by (simp add: le_floor_iff)
  note b = bitlen_pos_bounds [OF this]
  have e: "(2::rat) powi bitlen \<lfloor>x\<rfloor> = of_int (2 ^ nat (bitlen \<lfloor>x\<rfloor>))"
    using b(3) by (simp add: power_int_def)
  with b(2) have "\<lfloor>x\<rfloor> < 2 ^ nat (bitlen \<lfloor>x\<rfloor>)" by (simp only: of_int_less_iff)
  then have "x < of_int (2 ^ nat (bitlen \<lfloor>x\<rfloor>))" by (simp only: floor_less_iff)
  then show ?thesis using True e by (simp add: flog2_def)
next
  case False
  assume x: "0 < x"
  let ?n = "\<lceil>1 / x\<rceil> - 1"
  have "1 < 1 / x" using False x by simp
  then have "1 < \<lceil>1 / x\<rceil>" by (simp add: less_ceiling_iff)
  then have n: "0 < ?n" by simp
  have "(2::rat) powi (bitlen ?n - 1) \<le> of_int ?n" by (rule bitlen_pos_bounds(1) [OF n])
  also have "of_int ?n < 1 / x" by (simp add: ceiling_correct [THEN conjunct1])
  finally have "2 powi (bitlen ?n - 1) < 1 / x" .
  then have "x < 1 / 2 powi (bitlen ?n - 1)" using x by (simp add: field_simps)
  also have "\<dots> = 2 powi (- (bitlen ?n - 1))" by (simp only: power_int_minus_divide)
  finally show ?thesis using False by (simp add: flog2_def)
qed

lemma flog2_le_iff: "0 < x \<Longrightarrow> flog2 x < k \<longleftrightarrow> x < 2 powi k"
proof
  assume x: "0 < x" and "flog2 x < k"
  then have "(2::rat) powi (flog2 x + 1) \<le> 2 powi k" by (intro power_int_increasing) auto
  with flog2_upper [OF x] show "x < 2 powi k" by linarith
next
  assume x: "0 < x" and "x < 2 powi k"
  with flog2_lower [OF x] have "(2::rat) powi flog2 x < 2 powi k" by linarith
  then show "flog2 x < k" using power_int_increasing [of k "flog2 x" "2::rat"] by fastforce
qed

lemma flog2_mono: "0 < x \<Longrightarrow> x \<le> y \<Longrightarrow> flog2 x \<le> flog2 y"
  using flog2_le_iff [of x "flog2 y + 1"] flog2_upper [of y] by fastforce

lemma flog2_eqI: "2 powi k \<le> x \<Longrightarrow> x < 2 powi (k + 1) \<Longrightarrow> flog2 x = k"
proof -
  assume a: "2 powi k \<le> x" "x < 2 powi (k + 1)"
  have x: "0 < x" using a(1) zero_less_power_int [of "2::rat" k] by linarith
  show ?thesis using flog2_le_iff [OF x, of "k + 1"] flog2_le_iff [OF x, of k] a by linarith
qed

subsection \<open>Facts about rounding to an integer\<close>

lemma rhe_of_int [simp]: "rhe (of_int n) = n"
  by (simp add: rhe_def Let_def)

lemma rhe_numeral [simp]: "rhe (numeral n) = numeral n" "rhe 0 = 0" "rhe 1 = 1"
  using rhe_of_int [of "numeral n"] rhe_of_int [of 0] rhe_of_int [of 1] by simp_all

lemma rhe_bounds: "\<lfloor>x\<rfloor> \<le> rhe x" "rhe x \<le> \<lfloor>x\<rfloor> + 1"
  by (simp_all add: rhe_def Let_def)

lemma rhe_near: "\<bar>of_int (rhe x) - x\<bar> \<le> 1 / 2"
  using floor_correct [of x] by (auto simp: rhe_def Let_def abs_le_iff)

lemma rhe_mono: "x \<le> y \<Longrightarrow> rhe x \<le> rhe y"
proof -
  assume le: "x \<le> y"
  show ?thesis
  proof (cases "\<lfloor>x\<rfloor> = \<lfloor>y\<rfloor>")
    case True
    then show ?thesis using le by (auto simp: rhe_def Let_def)
  next
    case False
    with floor_mono [OF le] have "\<lfloor>x\<rfloor> + 1 \<le> \<lfloor>y\<rfloor>" by simp
    with rhe_bounds(2) [of x] rhe_bounds(1) [of y] show ?thesis by linarith
  qed
qed

lemma rhe_nonneg: "0 \<le> x \<Longrightarrow> 0 \<le> rhe x"
  using rhe_mono [of 0 x] by simp

lemma rhe_le_int: "x \<le> of_int n \<Longrightarrow> rhe x \<le> n"
  using rhe_mono [of x "of_int n"] by simp

lemma rhe_ge_int: "of_int n \<le> x \<Longrightarrow> n \<le> rhe x"
  using rhe_mono [of "of_int n" x] by simp

subsection \<open>Facts about rounding to a float\<close>

lemma fl_exp_mono: "0 < x \<Longrightarrow> x \<le> y \<Longrightarrow> fl_exp x \<le> fl_exp y"
  using flog2_mono [of x y] by (simp add: fl_exp_def)

lemma fl_mag_nonneg: "0 < x \<Longrightarrow> 0 \<le> fl_mag x"
  by (simp add: fl_mag_def rhe_nonneg)

lemma fl_mag_le_pow: "0 < x \<Longrightarrow> x \<le> 2 powi k \<Longrightarrow> fl_exp x \<le> k \<Longrightarrow> fl_mag x \<le> 2 powi k"
proof -
  assume x: "0 < x" "x \<le> 2 powi k" "fl_exp x \<le> k"
  have e: "(2::rat) powi k = of_int (2 ^ nat (k - fl_exp x)) * 2 powi fl_exp x"
    using x(3) power_int_add [of "2::rat" "k - fl_exp x" "fl_exp x"]
    by (simp add: power_int_def)
  have "x / 2 powi fl_exp x \<le> of_int (2 ^ nat (k - fl_exp x))"
    using x(2) unfolding e by (simp add: divide_le_eq)
  then have "rhe (x / 2 powi fl_exp x) \<le> 2 ^ nat (k - fl_exp x)" by (rule rhe_le_int)
  then have "(of_int (rhe (x / 2 powi fl_exp x)) :: rat) \<le> of_int (2 ^ nat (k - fl_exp x))"
    by (simp only: of_int_le_iff)
  then show ?thesis unfolding fl_mag_def e by (rule mult_right_mono) simp
qed

lemma fl_mag_ge_pow: "0 < x \<Longrightarrow> 2 powi k \<le> x \<Longrightarrow> fl_exp x \<le> k \<Longrightarrow> 2 powi k \<le> fl_mag x"
proof -
  assume x: "0 < x" "2 powi k \<le> x" "fl_exp x \<le> k"
  have e: "(2::rat) powi k = of_int (2 ^ nat (k - fl_exp x)) * 2 powi fl_exp x"
    using x(3) power_int_add [of "2::rat" "k - fl_exp x" "fl_exp x"]
    by (simp add: power_int_def)
  have "of_int (2 ^ nat (k - fl_exp x)) \<le> x / 2 powi fl_exp x"
    using x(2) unfolding e by (simp add: le_divide_eq)
  then have "2 ^ nat (k - fl_exp x) \<le> rhe (x / 2 powi fl_exp x)" by (rule rhe_ge_int)
  then have "(of_int (2 ^ nat (k - fl_exp x)) :: rat) \<le> of_int (rhe (x / 2 powi fl_exp x))"
    by (simp only: of_int_le_iff)
  then show ?thesis unfolding fl_mag_def e by (rule mult_right_mono) simp
qed

lemma fl_mag_mono: "0 < x \<Longrightarrow> x \<le> y \<Longrightarrow> fl_mag x \<le> fl_mag y"
proof -
  assume x: "0 < x" and le: "x \<le> y"
  then have y: "0 < y" by simp
  show ?thesis
  proof (cases "fl_exp x = fl_exp y")
    case True
    have "rhe (x / 2 powi fl_exp y) \<le> rhe (y / 2 powi fl_exp y)"
      using le by (intro rhe_mono divide_right_mono) auto
    then show ?thesis using True by (simp add: fl_mag_def mult_right_mono)
  next
    case False
    with fl_exp_mono [OF x le] have lt: "fl_exp x < fl_exp y" by simp
    then have ey: "fl_exp y = flog2 y - 52" by (simp add: fl_exp_def max_def split: if_splits)
    have "flog2 x < flog2 y" using lt by (simp add: fl_exp_def max_def split: if_splits)
    then have "x < 2 powi flog2 y" using flog2_le_iff [OF x] by simp
    then have "fl_mag x \<le> 2 powi flog2 y"
      using lt ey by (intro fl_mag_le_pow [OF x]) auto
    also have "\<dots> \<le> fl_mag y"
      using ey by (intro fl_mag_ge_pow [OF y] flog2_lower [OF y]) auto
    finally show ?thesis .
  qed
qed

lemma fl_mag_exact:
  assumes n: "0 < n" "n \<le> 2 ^ 53" and q: "- 1074 \<le> q"
  shows "fl_mag (of_int n * 2 powi q) = of_int n * 2 powi q"
proof -
  let ?x = "of_int n * 2 powi q :: rat"
  have x: "0 < ?x" using n by simp
  have "(of_int n :: rat) \<le> 2 ^ 53" using n(2) by (metis of_int_le_iff of_int_numeral of_int_power)
  then have le: "?x \<le> 2 powi (53 + q)"
    by (simp add: power_int_add mult_right_mono)
  show ?thesis
  proof (cases "?x = 2 powi (53 + q)")
    case True
    then have "flog2 ?x = 53 + q" by (intro flog2_eqI) (simp_all add: power_int_add)
    then have e: "fl_exp ?x = q + 1" using q by (simp add: fl_exp_def)
    have "?x / 2 powi (q + 1) = of_int (2 ^ 52)" unfolding True by (simp add: power_int_add)
    then have "rhe (?x / 2 powi (q + 1)) = 2 ^ 52" by (simp only: rhe_of_int)
    then have "fl_mag ?x = of_int (2 ^ 52) * 2 powi (q + 1)" unfolding fl_mag_def e by simp
    also have "\<dots> = 2 powi (53 + q)" by (simp add: power_int_add)
    finally show ?thesis using True by simp
  next
    case False
    with le have "?x < 2 powi (53 + q)" by simp
    then have "flog2 ?x < 53 + q" using flog2_le_iff [OF x] by simp
    then have e: "fl_exp ?x \<le> q" using q by (simp add: fl_exp_def)
    have s: "(2::rat) powi q = of_int (2 ^ nat (q - fl_exp ?x)) * 2 powi fl_exp ?x"
      using e power_int_add [of "2::rat" "q - fl_exp ?x" "fl_exp ?x"]
      by (simp add: power_int_def)
    have "?x / 2 powi fl_exp ?x = of_int (n * 2 ^ nat (q - fl_exp ?x))"
      by (subst s) simp
    then have "rhe (?x / 2 powi fl_exp ?x) = n * 2 ^ nat (q - fl_exp ?x)" by (simp only: rhe_of_int)
    then have "fl_mag ?x = of_int n * (of_int (2 ^ nat (q - fl_exp ?x)) * 2 powi fl_exp ?x)"
      unfolding fl_mag_def by simp
    then show ?thesis using s by simp
  qed
qed


lemma fl_0 [simp]: "fl 0 = Fin 0"
  by (simp add: fl_def)

lemma fl_exp_ge: "- 1074 \<le> fl_exp x"
  by (simp add: fl_exp_def)

lemma rhe_scaled_le:
  assumes x: "0 < x"
  shows "rhe (x / 2 powi fl_exp x) \<le> 2 ^ 53"
proof -
  have "x \<le> 2 powi (flog2 x + 1)" using flog2_upper [OF x] by simp
  also have "\<dots> \<le> 2 powi (53 + fl_exp x)" by (intro power_int_increasing) (auto simp: fl_exp_def)
  also have "\<dots> = of_int (2 ^ 53) * 2 powi fl_exp x" by (simp add: power_int_add)
  finally have "x / 2 powi fl_exp x \<le> of_int (2 ^ 53)" by (simp add: divide_le_eq)
  then show ?thesis by (rule rhe_le_int)
qed

lemma fl_mag_idem:
  assumes x: "0 < x" and p: "0 < fl_mag x"
  shows "fl_mag (fl_mag x) = fl_mag x"
proof -
  let ?n = "rhe (x / 2 powi fl_exp x)"
  have "0 < (of_int ?n :: rat) * 2 powi fl_exp x" using p by (simp add: fl_mag_def)
  then have "0 < (of_int ?n :: rat)" by (rule zero_less_mult_pos2) simp
  then have n: "0 < ?n" by (simp only: of_int_0_less_iff)
  show ?thesis
    unfolding fl_mag_def [of x] by (rule fl_mag_exact [OF n rhe_scaled_le [OF x] fl_exp_ge])
qed

lemma fl_is_f64: "is_f64 (fl x)"
proof -
  have "fl (fl_mag y) = Fin (fl_mag y)" if "0 < y" "fl_mag y < fl_limit" for y
    using that fl_mag_nonneg [of y] fl_mag_idem [of y] by (auto simp: fl_def)
  moreover have "fl (- fl_mag y) = Fin (- fl_mag y)" if "0 < y" "fl_mag y < fl_limit" for y
    using that fl_mag_nonneg [of y] fl_mag_idem [of y] by (auto simp: fl_def)
  ultimately show ?thesis
    by (auto simp: fl_def [of x] is_f64_def not_le not_less)
qed

lemma fl_fl: "fl x = Fin r \<Longrightarrow> fl r = Fin r"
  using fl_is_f64 [of x] by (simp add: is_f64_def)

lemma fl_minus: "fl (- x) = (case fl x of Fin r \<Rightarrow> Fin (- r) | PInf \<Rightarrow> NInf | NInf \<Rightarrow> PInf | NaN \<Rightarrow> NaN)"
  by (auto simp: fl_def)

lemma fl_int:
  assumes "\<bar>n\<bar> \<le> 2 ^ 53"
  shows "fl (of_int n) = Fin (of_int n)"
proof -
  have pos: "fl (of_int k) = Fin (of_int k)" if k: "0 < k" "k \<le> 2 ^ 53" for k
  proof -
    have m: "fl_mag (of_int k) = of_int k" using fl_mag_exact [of k 0] k by simp
    have "(of_int k :: rat) \<le> of_int (2 ^ 53)" using k(2) by (simp only: of_int_le_iff)
    then have "(of_int k :: rat) < fl_limit" by (simp add: fl_limit_def)
    then show ?thesis using m k by (simp add: fl_def)
  qed
  consider "n = 0" | "0 < n" | "n < 0" by linarith
  then show ?thesis
  proof cases
    case 3
    then have "fl (of_int (- n)) = Fin (of_int (- n))" using assms by (intro pos) auto
    then show ?thesis using fl_minus [of "of_int (- n)"] by simp
  qed (use assms pos in auto)
qed

lemma fl_numeral: "(numeral k :: int) \<le> 2 ^ 53 \<Longrightarrow> fl (numeral k) = Fin (numeral k)"
  using fl_int [of "numeral k"] by simp

lemma fl_1 [simp]: "fl 1 = Fin 1"
  using fl_int [of 1] by simp

subsection \<open>Comparisons\<close>

fun flt_less :: "flt \<Rightarrow> flt \<Rightarrow> bool" where
  \<comment> \<open>\<open>x < y\<close>; any comparison with a NaN is false\<close>
  "flt_less (Fin a) (Fin b) = (a < b)"
| "flt_less NInf (Fin b) = True"
| "flt_less NInf PInf = True"
| "flt_less (Fin a) PInf = True"
| "flt_less _ _ = False"

fun flt_eq :: "flt \<Rightarrow> flt \<Rightarrow> bool" where
  \<comment> \<open>\<open>x == y\<close>\<close>
  "flt_eq NaN _ = False"
| "flt_eq x y = (x = y)"

definition flt_le :: "flt \<Rightarrow> flt \<Rightarrow> bool" where
  "flt_le x y \<longleftrightarrow> flt_less x y \<or> flt_eq x y"

definition is_finite :: "flt \<Rightarrow> bool" where
  \<comment> \<open>\<open>math.isfinite\<close>\<close>
  "is_finite x = (case x of Fin _ \<Rightarrow> True | _ \<Rightarrow> False)"

lemma is_finite_simps [simp]:
  "is_finite (Fin r)" "\<not> is_finite PInf" "\<not> is_finite NInf" "\<not> is_finite NaN"
  by (simp_all add: is_finite_def)

lemma is_finiteE [elim]: "is_finite x \<Longrightarrow> (\<And>r. x = Fin r \<Longrightarrow> P) \<Longrightarrow> P"
  by (cases x) auto

lemma flt_le_simps [simp]:
  "flt_le (Fin a) (Fin b) = (a \<le> b)" "flt_le NInf (Fin b)" "flt_le NInf PInf" "flt_le (Fin a) PInf"
  "flt_le NInf NInf" "flt_le PInf PInf" "\<not> flt_le NaN x" "\<not> flt_le x NaN"
  "\<not> flt_le PInf (Fin b)" "\<not> flt_le PInf NInf" "\<not> flt_le (Fin a) NInf"
  by (auto simp: flt_le_def elim: flt_less.elims flt_eq.elims)

lemma flt_eq_fin [simp]: "flt_eq (Fin a) y \<longleftrightarrow> y = Fin a" "flt_eq x (Fin a) \<longleftrightarrow> x = Fin a"
  by (cases y; fastforce) (cases x; fastforce)

lemma flt_eq_self: "flt_eq x x \<longleftrightarrow> x \<noteq> NaN"
  by (cases x) auto

lemma flt_less_nan [simp]: "\<not> flt_less NaN x" "\<not> flt_less x NaN"
  by (auto elim: flt_less.elims)

lemma flt_less_irrefl [simp]: "\<not> flt_less x x"
  by (cases x) auto

lemma flt_less_trans: "flt_less x y \<Longrightarrow> flt_less y z \<Longrightarrow> flt_less x z"
  by (cases x; cases y; cases z) auto

lemma flt_le_trans: "flt_le x y \<Longrightarrow> flt_le y z \<Longrightarrow> flt_le x z"
  by (cases x; cases y; cases z) auto

lemma flt_le_inf [simp]: "flt_le x PInf \<longleftrightarrow> x \<noteq> NaN" "flt_le NInf x \<longleftrightarrow> x \<noteq> NaN"
  by (cases x; simp)+

lemma flt_not_less: "x \<noteq> NaN \<Longrightarrow> y \<noteq> NaN \<Longrightarrow> \<not> flt_less x y \<longleftrightarrow> flt_le y x"
  by (cases x; cases y) auto

text \<open>Rounding is monotone: the order of exact results survives in the floats.\<close>

lemma fl_not_nan [simp]: "fl x \<noteq> NaN"
  by (simp add: fl_def)

lemma fl_mono: "x \<le> y \<Longrightarrow> flt_le (fl x) (fl y)"
proof -
  assume le: "x \<le> y"
  consider "0 < x" | "x \<le> 0" "0 \<le> y" | "y < 0" using le by linarith
  then show ?thesis
  proof cases
    case 1
    then show ?thesis using fl_mag_mono [OF 1 le] le by (auto simp: fl_def)
  next
    case 2
    then show ?thesis using fl_mag_nonneg [of "- x"] fl_mag_nonneg [of y]
      by (cases "x = 0"; cases "y = 0"; auto simp: fl_def)
  next
    case 3
    then show ?thesis using fl_mag_mono [of "- y" "- x"] le by (auto simp: fl_def)
  qed
qed

lemma fl_nonneg: "0 \<le> x \<Longrightarrow> flt_le (Fin 0) (fl x)"
  using fl_mono [of 0 x] by simp

lemma fl_nonneg_fin: "0 \<le> x \<Longrightarrow> fl x = Fin r \<Longrightarrow> 0 \<le> r"
  using fl_nonneg [of x] by simp

lemma fl_le_fin: "x \<le> y \<Longrightarrow> fl y = Fin y \<Longrightarrow> fl x = Fin r \<Longrightarrow> r \<le> y"
  using fl_mono [of x y] by simp

lemma fl_ge_fin: "y \<le> x \<Longrightarrow> fl y = Fin y \<Longrightarrow> fl x = Fin r \<Longrightarrow> y \<le> r"
  using fl_mono [of y x] by simp

subsection \<open>Arithmetic\<close>

fun fneg :: "flt \<Rightarrow> flt" where
  "fneg (Fin a) = Fin (- a)" | "fneg PInf = NInf" | "fneg NInf = PInf" | "fneg NaN = NaN"

fun flt_abs :: "flt \<Rightarrow> flt" where
  "flt_abs (Fin a) = Fin \<bar>a\<bar>" | "flt_abs NaN = NaN" | "flt_abs _ = PInf"

fun fadd :: "flt \<Rightarrow> flt \<Rightarrow> flt" where
  "fadd (Fin a) (Fin b) = fl (a + b)"
| "fadd NaN _ = NaN"
| "fadd _ NaN = NaN"
| "fadd PInf NInf = NaN"
| "fadd NInf PInf = NaN"
| "fadd PInf _ = PInf"
| "fadd _ PInf = PInf"
| "fadd NInf _ = NInf"
| "fadd _ NInf = NInf"

definition fsub :: "flt \<Rightarrow> flt \<Rightarrow> flt" where
  "fsub x y = fadd x (fneg y)"

definition flt_inf :: "rat \<Rightarrow> flt" where
  \<comment> \<open>the infinity with the sign of a nonzero rational, a NaN for zero\<close>
  "flt_inf s = (if 0 < s then PInf else if s < 0 then NInf else NaN)"

fun flt_sgn :: "flt \<Rightarrow> rat" where
  "flt_sgn (Fin a) = sgn a" | "flt_sgn PInf = 1" | "flt_sgn NInf = -1" | "flt_sgn NaN = 0"

fun fmul :: "flt \<Rightarrow> flt \<Rightarrow> flt" where
  "fmul (Fin a) (Fin b) = fl (a * b)"
| "fmul NaN _ = NaN"
| "fmul _ NaN = NaN"
| "fmul x y = flt_inf (flt_sgn x * flt_sgn y)"

fun fdiv :: "flt \<Rightarrow> flt \<Rightarrow> flt" where
  \<comment> \<open>\<open>x / y\<close> for a nonzero \<open>y\<close>; the division by zero is an exception, in the caller\<close>
  "fdiv (Fin a) (Fin b) = fl (a / b)"
| "fdiv NaN _ = NaN"
| "fdiv _ NaN = NaN"
| "fdiv (Fin a) _ = Fin 0"
| "fdiv x (Fin b) = flt_inf (flt_sgn x * sgn b)"
| "fdiv _ _ = NaN"

definition py_max :: "flt \<Rightarrow> flt \<Rightarrow> flt" where
  \<comment> \<open>\<open>max(x, y)\<close> keeps the first argument unless the second is larger\<close>
  "py_max x y = (if flt_less x y then y else x)"

definition py_min :: "flt \<Rightarrow> flt \<Rightarrow> flt" where
  "py_min x y = (if flt_less y x then y else x)"

definition py_round :: "flt \<Rightarrow> nat \<Rightarrow> flt" where
  \<comment> \<open>\<open>round(x, n)\<close>: the exact value rounded half-even at \<open>n\<close> decimals, then to a float\<close>
  "py_round x n = (case x of Fin r \<Rightarrow> fl (of_int (rhe (r * 10 ^ n)) / 10 ^ n) | _ \<Rightarrow> x)"

definition flt_sum :: "flt list \<Rightarrow> flt" where
  \<comment> \<open>\<open>sum(xs)\<close>: a left fold from the integer 0 (CPython 3.11)\<close>
  "flt_sum xs = foldl fadd (Fin 0) xs"

definition flt_fsum :: "rat list \<Rightarrow> flt" where
  \<comment> \<open>\<open>math.fsum\<close> of finite values: the exact sum, rounded once\<close>
  "flt_fsum xs = fl (sum_list xs)"

subsection \<open>Facts about the arithmetic\<close>

lemma fadd_0 [simp]: "is_f64 x \<Longrightarrow> fadd x (Fin 0) = x"
  by (cases x) (auto simp: is_f64_def)

lemma py_max_simps [simp]:
  "py_max (Fin a) (Fin b) = Fin (max a b)"
  "py_max NInf (Fin b) = Fin b" "py_max PInf (Fin b) = PInf" "py_max NaN (Fin b) = NaN"
  by (auto simp: py_max_def max_def)

lemma py_min_simps [simp]:
  "py_min (Fin a) (Fin b) = Fin (min a b)"
  "py_min NInf (Fin b) = NInf" "py_min PInf (Fin b) = Fin b" "py_min NaN (Fin b) = NaN"
  by (auto simp: py_min_def min_def)

lemma fmul_nonneg: "0 \<le> a \<Longrightarrow> 0 \<le> b \<Longrightarrow> flt_le (Fin 0) (fmul (Fin a) (Fin b))"
  by (simp add: fl_nonneg)

lemma fadd_nonneg: "flt_le (Fin 0) x \<Longrightarrow> flt_le (Fin 0) y \<Longrightarrow> flt_le (Fin 0) (fadd x y)"
  by (cases x; cases y) (auto intro: fl_nonneg)

lemma fadd_mono: "flt_le x y \<Longrightarrow> flt_le (Fin 0) x \<Longrightarrow> flt_le (Fin 0) z \<Longrightarrow> flt_le (fadd x z) (fadd y z)"
  by (cases x; cases y; cases z) (auto intro: fl_mono)

lemma py_round_nonneg: "flt_le (Fin 0) x \<Longrightarrow> flt_le (Fin 0) (py_round x n)"
  by (cases x) (auto simp: py_round_def rhe_nonneg intro!: fl_nonneg)

lemma py_round_mono: "flt_le x y \<Longrightarrow> flt_le (py_round x n) (py_round y n)"
  by (cases x; cases y)
    (auto simp: py_round_def intro!: fl_mono divide_right_mono rhe_mono mult_right_mono)

lemma py_round_0 [simp]: "py_round (Fin 0) n = Fin 0"
  by (simp add: py_round_def)

lemma flt_f64_simps [simp]: "is_f64 PInf" "is_f64 NInf" "is_f64 NaN" "is_f64 (fl x)"
  by (simp_all add: is_f64_def fl_is_f64 [unfolded is_f64_def])

lemma fadd_f64: "is_f64 (fadd x y)"
  by (cases x; cases y) (auto simp: fl_is_f64)

lemma fmul_f64: "is_f64 (fmul x y)"
  by (cases x; cases y) (auto simp: fl_is_f64 flt_inf_def)

subsection \<open>Evaluation on numerals\<close>

text \<open>
  \<open>bitlen\<close> of a numeral by halving, so that the rounding of a concrete rational is
  computed by the simplifier.
\<close>

lemma floor_numeral_divide [simp]:
  "\<lfloor>numeral a / numeral b :: rat\<rfloor> = numeral a div numeral b"
  "\<lfloor>1 / numeral b :: rat\<rfloor> = 1 div numeral b"
  "\<lfloor>- (numeral a / numeral b) :: rat\<rfloor> = - numeral a div numeral b"
  "\<lfloor>- (1 / numeral b) :: rat\<rfloor> = - 1 div numeral b"
  using floor_divide_of_int_eq [of "numeral a" "numeral b", where ?'a = rat]
    floor_divide_of_int_eq [of 1 "numeral b", where ?'a = rat]
    floor_divide_of_int_eq [of "- numeral a" "numeral b", where ?'a = rat]
    floor_divide_of_int_eq [of "- 1" "numeral b", where ?'a = rat]
  by simp_all

lemma ceiling_numeral_divide [simp]:
  "\<lceil>numeral a / numeral b :: rat\<rceil> = - (- numeral a div numeral b)"
  "\<lceil>1 / numeral b :: rat\<rceil> = - (- 1 div numeral b)"
  by (simp_all add: ceiling_def)

lemma bitlen_1 [simp]: "bitlen 1 = 1"
  by (simp add: bitlen_alt_def)

lemma bitlen_numeral [simp]:
  "bitlen (numeral Num.One) = 1"
  "bitlen (numeral (num.Bit0 n)) = bitlen (numeral n) + 1"
  "bitlen (numeral (num.Bit1 n)) = bitlen (numeral n) + 1"
proof -
  show "bitlen (numeral Num.One) = 1" by (simp add: bitlen_alt_def)
  have half: "bitlen m = bitlen (m div 2) + 1" if "0 < m" for m :: int
    using that by (simp add: bitlen_def compute_floorlog [of 2 "nat m"] nat_div_distrib)
  show "bitlen (numeral (num.Bit0 n)) = bitlen (numeral n) + 1"
    and "bitlen (numeral (num.Bit1 n)) = bitlen (numeral n) + 1"
    using half [of "numeral (num.Bit0 n)"] half [of "numeral (num.Bit1 n)"] by simp_all
qed

lemmas fl_eval = fl_def fl_mag_def fl_exp_def flog2_def rhe_def Let_def fl_limit_def
  fsub_def py_round_def

end
