(* ===== verification/PyVal.thy ===== *)
theory PyVal
  imports PyFloat "HOL-Library.Char_ord" "HOL-Library.List_Lexorder"
begin

section \<open>Python values, exceptions and the built-ins the code calls\<close>

text \<open>
  The modules pass loosely typed dictionaries around (\<^verbatim>\<open>Mapping[str, Any]\<close>), so what a
  guard sees may be None, a bool, an int, a float, a string, a list or a dict, and
  \<^verbatim>\<open>float(value)\<close> may raise. A value is a \<open>pyval\<close>, a dictionary an association list
  with string keys (read by \<open>map_of\<close>), and an operation that can raise returns
  \<open>exc + 'a\<close> with the exception on the left. Strings are ASCII text. The messages of
  exceptions raised by the interpreter itself are not modelled; those the code writes are.
\<close>

named_theorems py_simps \<open>unfolding of the built-ins on constructor arguments\<close>

subsection \<open>Exceptions\<close>

datatype exc =
    TypeError
  | ValueError string
  | OverflowError
  | ZeroDivisionError
  | KeyError string
  | RuntimeError string
  | ControlError string
  | IntegrityError
  | DatabaseError
  | AttributeError
  | AssertionError

type_synonym 'a py = "exc + 'a"

definition bindE :: "'a py \<Rightarrow> ('a \<Rightarrow> 'b py) \<Rightarrow> 'b py" where
  "bindE m f = (case m of Inl e \<Rightarrow> Inl e | Inr x \<Rightarrow> f x)"

fun type_or_value :: "exc \<Rightarrow> bool" where
  \<comment> \<open>what \<^verbatim>\<open>except (TypeError, ValueError)\<close> catches; an OverflowError is neither\<close>
  "type_or_value TypeError = True"
| "type_or_value (ValueError _) = True"
| "type_or_value _ = False"

definition catch_tv :: "'a py \<Rightarrow> 'a \<Rightarrow> 'a py" where
  \<comment> \<open>\<^verbatim>\<open>try: m except (TypeError, ValueError): d\<close>\<close>
  "catch_tv m d = (case m of Inl e \<Rightarrow> if type_or_value e then Inr d else Inl e | Inr x \<Rightarrow> Inr x)"

definition catch_value :: "'a py \<Rightarrow> 'a \<Rightarrow> 'a py" where
  \<comment> \<open>\<^verbatim>\<open>try: m except ValueError: d\<close>\<close>
  "catch_value m d = (case m of Inl (ValueError _) \<Rightarrow> Inr d | _ \<Rightarrow> m)"

lemma bindE_simps [simp]: "bindE (Inl e) f = Inl e" "bindE (Inr x) f = f x"
  by (simp_all add: bindE_def)

lemma bindE_Inr_iff: "bindE m f = Inr y \<longleftrightarrow> (\<exists>x. m = Inr x \<and> f x = Inr y)"
  by (cases m) auto

lemma bindE_Inl_iff: "bindE m f = Inl e \<longleftrightarrow> m = Inl e \<or> (\<exists>x. m = Inr x \<and> f x = Inl e)"
  by (cases m) auto

lemma bindE_assoc: "bindE (bindE m f) g = bindE m (\<lambda>x. bindE (f x) g)"
  by (cases m) auto

lemma catch_tv_simps [simp]:
  "catch_tv (Inr x) d = Inr x" "catch_tv (Inl TypeError) d = Inr d"
  "catch_tv (Inl (ValueError s)) d = Inr d" "catch_tv (Inl OverflowError) d = Inl OverflowError"
  by (simp_all add: catch_tv_def)

lemma catch_tv_Inl: "catch_tv m d = Inl e \<longleftrightarrow> m = Inl e \<and> \<not> type_or_value e"
  by (auto simp: catch_tv_def split: sum.splits)

lemma catch_value_simps [simp]:
  "catch_value (Inr x) d = Inr x" "catch_value (Inl (ValueError s)) d = Inr d"
  "catch_value (Inl TypeError) d = Inl TypeError"
  "catch_value (Inl OverflowError) d = Inl OverflowError"
  by (simp_all add: catch_value_def)

subsection \<open>Values\<close>

datatype pyval =
    VNone
  | VBool bool
  | VInt int
  | VFloat flt
  | VStr string
  | VList "pyval list"
  | VDict "(string \<times> pyval) list"

type_synonym pydict = "(string \<times> pyval) list"

definition dget_or :: "pydict \<Rightarrow> string \<Rightarrow> pyval \<Rightarrow> pyval" where
  \<comment> \<open>\<^verbatim>\<open>d.get(k, v)\<close>\<close>
  "dget_or d k v = (case map_of d k of None \<Rightarrow> v | Some x \<Rightarrow> x)"

definition dget :: "pydict \<Rightarrow> string \<Rightarrow> pyval" where
  \<comment> \<open>\<^verbatim>\<open>d.get(k)\<close>\<close>
  "dget d k = dget_or d k VNone"

fun dset :: "string \<Rightarrow> pyval \<Rightarrow> pydict \<Rightarrow> pydict" where
  \<comment> \<open>\<^verbatim>\<open>d[k] = v\<close>: an existing key keeps its place\<close>
  "dset k v [] = [(k, v)]"
| "dset k v ((k', w) # d) = (if k' = k then (k, v) # d else (k', w) # dset k v d)"

definition dupdate :: "pydict \<Rightarrow> pydict \<Rightarrow> pydict" where
  \<comment> \<open>\<^verbatim>\<open>d.update(e)\<close>\<close>
  "dupdate d e = foldl (\<lambda>acc (k, v). dset k v acc) d e"

fun truthy :: "pyval \<Rightarrow> bool" where
  "truthy VNone = False"
| "truthy (VBool b) = b"
| "truthy (VInt n) = (n \<noteq> 0)"
| "truthy (VFloat x) = (x \<noteq> Fin 0)"
| "truthy (VStr s) = (s \<noteq> [])"
| "truthy (VList xs) = (xs \<noteq> [])"
| "truthy (VDict d) = (d \<noteq> [])"

definition py_or :: "pyval \<Rightarrow> pyval \<Rightarrow> pyval" where
  "py_or v w = (if truthy v then v else w)"

fun num_value :: "pyval \<Rightarrow> flt option" where
  \<comment> \<open>the number a value compares as; an int is compared exactly\<close>
  "num_value (VBool b) = Some (Fin (if b then 1 else 0))"
| "num_value (VInt n) = Some (Fin (of_int n))"
| "num_value (VFloat x) = Some x"
| "num_value _ = None"

fun py_eq :: "pyval \<Rightarrow> pyval \<Rightarrow> bool"
  and py_eq_list :: "pyval list \<Rightarrow> pyval list \<Rightarrow> bool" where
  \<comment> \<open>\<^verbatim>\<open>v == w\<close>; a dict equals one with the same keys and equal values\<close>
  "py_eq (VList xs) (VList ys) = py_eq_list xs ys"
| "py_eq (VDict d) (VDict e) =
     (set (map fst d) = set (map fst e) \<and>
      (\<forall>p \<in> set d. case map_of e (fst p) of None \<Rightarrow> False | Some w \<Rightarrow> py_eq (snd p) w))"
| "py_eq (VStr s) (VStr t) = (s = t)"
| "py_eq VNone VNone = True"
| "py_eq v w =
     (case (num_value v, num_value w) of (Some x, Some y) \<Rightarrow> flt_eq x y | _ \<Rightarrow> False)"
| "py_eq_list [] [] = True"
| "py_eq_list (x # xs) (y # ys) = (py_eq x y \<and> py_eq_list xs ys)"
| "py_eq_list _ _ = False"

definition in_strs :: "pyval \<Rightarrow> string list \<Rightarrow> bool" where
  \<comment> \<open>\<^verbatim>\<open>v in (None, s1, s2, ...)\<close> for strings \<^verbatim>\<open>s1, s2, ...\<close>\<close>
  "in_strs v ss = (case v of VNone \<Rightarrow> True | VStr s \<Rightarrow> s \<in> set ss | _ \<Rightarrow> False)"

fun is_bool :: "pyval \<Rightarrow> bool" where
  "is_bool (VBool _) = True" | "is_bool _ = False"

subsection \<open>Text\<close>

definition upper_char :: "char \<Rightarrow> char" where
  "upper_char c = (if 97 \<le> (of_char c :: nat) \<and> (of_char c :: nat) \<le> 122
     then char_of ((of_char c :: nat) - 32) else c)"

definition lower_char :: "char \<Rightarrow> char" where
  "lower_char c = (if 65 \<le> (of_char c :: nat) \<and> (of_char c :: nat) \<le> 90
     then char_of ((of_char c :: nat) + 32) else c)"

definition py_upper :: "string \<Rightarrow> string" where "py_upper s = map upper_char s"
definition py_lower :: "string \<Rightarrow> string" where "py_lower s = map lower_char s"

definition is_space :: "char \<Rightarrow> bool" where
  "is_space c \<longleftrightarrow> (let n = (of_char c :: nat) in n = 32 \<or> (9 \<le> n \<and> n \<le> 13) \<or> (28 \<le> n \<and> n \<le> 31))"

definition py_strip :: "string \<Rightarrow> string" where
  "py_strip s = rev (dropWhile is_space (rev (dropWhile is_space s)))"

definition is_digit_char :: "char \<Rightarrow> bool" where
  "is_digit_char c \<longleftrightarrow> 48 \<le> (of_char c :: nat) \<and> (of_char c :: nat) \<le> 57"

fun show_nat :: "nat \<Rightarrow> string" where
  "show_nat n = (if n < 10 then [char_of (48 + n)] else show_nat (n div 10) @ [char_of (48 + n mod 10)])"

declare show_nat.simps [simp del]

definition show_int :: "int \<Rightarrow> string" where
  "show_int n = (if n < 0 then CHR ''-'' # show_nat (nat (- n)) else show_nat (nat n))"

fun digits_value :: "nat \<Rightarrow> string \<Rightarrow> nat" where
  "digits_value acc [] = acc"
| "digits_value acc (c # cs) = digits_value (10 * acc + ((of_char c :: nat) - 48)) cs"


subsection \<open>\<^verbatim>\<open>float(value)\<close>\<close>

fun underscores_ok :: "bool \<Rightarrow> string \<Rightarrow> bool" where
  \<comment> \<open>an underscore is allowed between two digits only; the flag: was the last one a digit\<close>
  "underscores_ok d [] = True"
| "underscores_ok d (c # cs) =
     (if c = CHR ''_'' then d \<and> (case cs of [] \<Rightarrow> False | c' # _ \<Rightarrow> is_digit_char c') \<and> underscores_ok False cs
      else underscores_ok (is_digit_char c) cs)"

definition split_sign :: "string \<Rightarrow> bool \<times> string" where
  "split_sign s = (case s of [] \<Rightarrow> (False, [])
     | c # cs \<Rightarrow> if c = CHR ''-'' then (True, cs) else if c = CHR ''+'' then (False, cs) else (False, c # cs))"

definition parse_exponent :: "string \<Rightarrow> int option" where
  "parse_exponent s = (case s of [] \<Rightarrow> Some 0
     | c # cs \<Rightarrow> if c \<noteq> CHR ''e'' then None
         else let (neg, ds) = split_sign cs in
           if ds \<noteq> [] \<and> list_all is_digit_char ds
           then Some ((if neg then - 1 else 1) * int (digits_value 0 ds)) else None)"

definition parse_decimal :: "string \<Rightarrow> rat option" where
  \<comment> \<open>digits, an optional fraction, an optional exponent (lower case by now)\<close>
  "parse_decimal s =
    (let ip = takeWhile is_digit_char s; r = dropWhile is_digit_char s;
         dot = (case r of c # _ \<Rightarrow> c = CHR ''.'' | [] \<Rightarrow> False);
         fp = (if dot then takeWhile is_digit_char (tl r) else []);
         rest = (if dot then dropWhile is_digit_char (tl r) else r)
     in if ip @ fp = [] then None
        else case parse_exponent rest of None \<Rightarrow> None
          | Some e \<Rightarrow> Some (of_nat (digits_value 0 (ip @ fp)) * 10 powi (e - int (length fp))))"

definition parse_float :: "string \<Rightarrow> flt option" where
  "parse_float s =
    (let t = py_lower (py_strip s); (neg, body) = split_sign t in
     if body = ''inf'' \<or> body = ''infinity'' then Some (if neg then NInf else PInf)
     else if body = ''nan'' then Some NaN
     else if \<not> underscores_ok False body then None
     else map_option (\<lambda>r. fl (if neg then - r else r))
            (parse_decimal (filter (\<lambda>c. c \<noteq> CHR ''_'') body)))"

definition int_to_float :: "int \<Rightarrow> flt py" where
  "int_to_float n = (if is_finite (fl (of_int n)) then Inr (fl (of_int n)) else Inl OverflowError)"

fun py_float :: "pyval \<Rightarrow> flt py" where
  "py_float VNone = Inl TypeError"
| "py_float (VBool b) = Inr (Fin (if b then 1 else 0))"
| "py_float (VInt n) = int_to_float n"
| "py_float (VFloat x) = Inr x"
| "py_float (VStr s) =
     (case parse_float s of None \<Rightarrow> Inl (ValueError ''could not convert string to float'') | Some x \<Rightarrow> Inr x)"
| "py_float (VList _) = Inl TypeError"
| "py_float (VDict _) = Inl TypeError"

lemma py_float_errors: "py_float v = Inl e \<Longrightarrow> type_or_value e \<or> e = OverflowError"
  by (cases v) (auto simp: int_to_float_def split: if_splits option.splits)

lemma int_to_float_small: "\<bar>n\<bar> \<le> 2 ^ 53 \<Longrightarrow> int_to_float n = Inr (Fin (of_int n))"
  by (simp add: int_to_float_def fl_int)

subsection \<open>\<^verbatim>\<open>str(value)\<close> and \<^verbatim>\<open>repr(value)\<close>\<close>

definition flog10 :: "rat \<Rightarrow> int" where
  \<comment> \<open>\<open>floor (log 10 x)\<close> for \<open>0 < x\<close>\<close>
  "flog10 x = (if 1 \<le> x then int (floorlog 10 (nat \<lfloor>x\<rfloor>)) - 1
               else - int (floorlog 10 (nat (\<lceil>1 / x\<rceil> - 1))))"

definition short_digits :: "rat \<Rightarrow> nat \<Rightarrow> (nat \<times> int) option" where
  \<comment> \<open>an \<open>n\<close>-digit decimal \<open>m * 10 ^ k\<close> that reads back as \<open>x\<close>, the closest one first\<close>
  "short_digits x n =
    (let k = flog10 x - int n + 1; s = x / 10 powi k; f = \<lfloor>s\<rfloor>;
         back = (\<lambda>m. fl (of_int m * 10 powi k) = Fin x)
     in if back (rhe s) then Some (nat (rhe s), k)
        else if back f then Some (nat f, k)
        else if back (f + 1) then Some (nat (f + 1), k) else None)"

fun strip_zeros :: "nat \<Rightarrow> int \<Rightarrow> nat \<times> int" where
  "strip_zeros m k = (if m \<noteq> 0 \<and> m mod 10 = 0 then strip_zeros (m div 10) (k + 1) else (m, k))"

declare strip_zeros.simps [simp del]

definition shortest :: "rat \<Rightarrow> nat \<times> int" where
  \<comment> \<open>17 significant digits always read back, so the search over \<open>1 .. 17\<close> succeeds\<close>
  "shortest x = (case List.map_filter (short_digits x) [1..<18] of [] \<Rightarrow> (0, 0) | p # _ \<Rightarrow> strip_zeros (fst p) (snd p))"

definition show_pos_float :: "rat \<Rightarrow> string" where
  "show_pos_float x =
    (let (m, k) = shortest x; ds = show_nat m; e = int (length ds) - 1 + k in
     if - 4 \<le> e \<and> e < 16 then
       (if 0 \<le> k then ds @ replicate (nat k) (CHR ''0'') @ ''.0''
        else if 0 \<le> e then take (nat (e + 1)) ds @ ''.'' @ drop (nat (e + 1)) ds
        else ''0.'' @ replicate (nat (- e - 1)) (CHR ''0'') @ ds)
     else take 1 ds @ (if length ds > 1 then ''.'' @ drop 1 ds else []) @ ''e''
       @ (if e < 0 then ''-'' else ''+'')
       @ (if nat \<bar>e\<bar> < 10 then ''0'' else []) @ show_nat (nat \<bar>e\<bar>))"

fun show_float :: "flt \<Rightarrow> string" where
  "show_float NaN = ''nan''"
| "show_float PInf = ''inf''"
| "show_float NInf = ''-inf''"
| "show_float (Fin r) = (if r = 0 then ''0.0''
     else if 0 < r then show_pos_float r else CHR ''-'' # show_pos_float (- r))"

definition hex_digit :: "nat \<Rightarrow> char" where
  "hex_digit n = (if n < 10 then char_of (48 + n) else char_of (87 + n))"

definition repr_char :: "char \<Rightarrow> char \<Rightarrow> string" where
  "repr_char q c =
    (let n = (of_char c :: nat) in
     if c = q \<or> n = 92 then [char_of (92 :: nat), c]
     else if n = 10 then [char_of (92 :: nat), CHR ''n'']
     else if n = 13 then [char_of (92 :: nat), CHR ''r'']
     else if n = 9 then [char_of (92 :: nat), CHR ''t'']
     else if n < 32 \<or> n = 127
       then [char_of (92 :: nat), CHR ''x'', hex_digit (n div 16), hex_digit (n mod 16)]
     else [c])"

definition repr_str :: "string \<Rightarrow> string" where
  "repr_str s =
    (let q = (if char_of (39 :: nat) \<in> set s \<and> char_of (34 :: nat) \<notin> set s
              then char_of (34 :: nat) else char_of (39 :: nat))
     in q # concat (map (repr_char q) s) @ [q])"

fun join :: "string \<Rightarrow> string list \<Rightarrow> string" where
  "join sep [] = []"
| "join sep [x] = x"
| "join sep (x # xs) = x @ sep @ join sep xs"

fun py_repr :: "pyval \<Rightarrow> string" where
  "py_repr VNone = ''None''"
| "py_repr (VBool b) = (if b then ''True'' else ''False'')"
| "py_repr (VInt n) = show_int n"
| "py_repr (VFloat x) = show_float x"
| "py_repr (VStr s) = repr_str s"
| "py_repr (VList xs) = ''['' @ join '', '' (map py_repr xs) @ '']''"
| "py_repr (VDict d) = ''{'' @ join '', '' (map (\<lambda>p. repr_str (fst p) @ '': '' @ py_repr (snd p)) d) @ ''}''"

fun py_str :: "pyval \<Rightarrow> string" where
  "py_str (VStr s) = s"
| "py_str v = py_repr v"

definition str_or :: "pyval \<Rightarrow> string \<Rightarrow> string" where
  \<comment> \<open>\<^verbatim>\<open>str(v or d)\<close>\<close>
  "str_or v d = py_str (py_or v (VStr d))"

lemma str_or_VStr [simp]: "str_or (VStr s) d = (if s = [] then d else s)"
  by (simp add: str_or_def py_or_def)

lemma str_or_VNone [simp]: "str_or VNone d = d"
  by (simp add: str_or_def py_or_def)

lemma py_upper_id: "list_all (\<lambda>c. \<not> (97 \<le> (of_char c :: nat) \<and> (of_char c :: nat) \<le> 122)) s \<Longrightarrow> py_upper s = s"
  by (induction s) (auto simp: py_upper_def upper_char_def)

lemma py_strip_id: "s \<noteq> [] \<Longrightarrow> \<not> is_space (hd s) \<Longrightarrow> \<not> is_space (last s) \<Longrightarrow> py_strip s = s"
proof -
  assume a: "s \<noteq> []" "\<not> is_space (hd s)" "\<not> is_space (last s)"
  have d: "dropWhile is_space t = t" if "t \<noteq> []" "\<not> is_space (hd t)" for t
    using that by (cases t) auto
  have "dropWhile is_space (rev s) = rev s" using a d [of "rev s"] by (simp add: hd_rev)
  then show ?thesis using d [of s] a by (simp add: py_strip_def)
qed

lemma py_strip_Nil [simp]: "py_strip [] = []" "py_upper [] = []"
  by (simp_all add: py_strip_def py_upper_def)

lemma py_strip_idem [simp]: "py_strip (py_strip s) = py_strip s"
proof (cases "py_strip s = []")
  case True
  then show ?thesis by simp
next
  case False
  define a where "a = dropWhile is_space s"
  define b where "b = rev (dropWhile is_space (rev a))"
  have s: "py_strip s = b" by (simp add: py_strip_def a_def b_def)
  have "b \<noteq> []" using False s by simp
  have last: "\<not> is_space (last b)"
    using hd_dropWhile [of is_space "rev a"] \<open>b \<noteq> []\<close> by (auto simp: b_def last_rev)
  have "hd b = hd a"
  proof -
    have "a = b @ rev (takeWhile is_space (rev a))"
      by (metis b_def rev_append rev_rev_ident takeWhile_dropWhile_id)
    then show ?thesis using \<open>b \<noteq> []\<close> by (metis hd_append2)
  qed
  moreover have "a \<noteq> []" using \<open>b \<noteq> []\<close> by (auto simp: b_def)
  then have "\<not> is_space (hd a)" unfolding a_def by (rule hd_dropWhile)
  ultimately have "\<not> is_space (hd b)" by simp
  then show ?thesis using last \<open>b \<noteq> []\<close> s py_strip_id by metis
qed

lemmas str_eval = py_upper_def py_lower_def upper_char_def lower_char_def char_of_def bit_Suc_0_iff
  py_strip_def is_space_def is_digit_char_def

lemmas float_text_eval = str_eval parse_float_def split_sign_def parse_decimal_def parse_exponent_def

subsection \<open>Lists, sets and order\<close>

fun unique_from :: "'a list \<Rightarrow> 'a list \<Rightarrow> 'a list" where
  "unique_from seen [] = []"
| "unique_from seen (x # xs) =
     (if x \<in> set seen then unique_from seen xs else x # unique_from (x # seen) xs)"

definition py_unique :: "'a list \<Rightarrow> 'a list" where
  \<comment> \<open>\<^verbatim>\<open>list(dict.fromkeys(xs))\<close>: the first occurrence of each element, in order\<close>
  "py_unique xs = unique_from [] xs"

definition sorted_set :: "string list \<Rightarrow> string list" where
  \<comment> \<open>\<^verbatim>\<open>sorted(set(xs))\<close>\<close>
  "sorted_set xs = sort (remdups xs)"

lemma set_unique_from: "set (unique_from seen xs) = set xs - set seen"
  by (induction xs arbitrary: seen) auto

lemma set_py_unique [simp]: "set (py_unique xs) = set xs"
  by (simp add: py_unique_def set_unique_from)

lemma py_unique_Nil [simp]: "py_unique [] = []"
  by (simp add: py_unique_def)

lemma py_unique_eq_Nil [simp]: "py_unique xs = [] \<longleftrightarrow> xs = []"
  by (metis set_py_unique set_empty)

lemma distinct_unique_from: "distinct (unique_from seen xs)"
  by (induction xs arbitrary: seen) (auto simp: set_unique_from)

lemma distinct_py_unique [simp]: "distinct (py_unique xs)"
  by (simp add: py_unique_def distinct_unique_from)

lemma set_sorted_set [simp]: "set (sorted_set xs) = set xs"
  by (simp add: sorted_set_def)

lemma sorted_sorted_set [simp]: "sorted (sorted_set xs)" "distinct (sorted_set xs)"
  by (simp_all add: sorted_set_def)

lemma sorted_set_eq_Nil [simp]: "sorted_set xs = [] \<longleftrightarrow> xs = []"
  by (metis set_sorted_set set_empty)

lemma dget_simps [simp]:
  "dget [] k = VNone" "dget ((k', v) # d) k = (if k = k' then v else dget d k)"
  by (auto simp: dget_def dget_or_def)

lemma dget_or_simps [simp]:
  "dget_or [] k w = w" "dget_or ((k', v) # d) k w = (if k = k' then v else dget_or d k w)"
  by (auto simp: dget_or_def)

lemma map_of_dset: "map_of (dset k v d) = (map_of d)(k \<mapsto> v)"
  by (induction k v d rule: dset.induct) auto

lemma dget_dset: "dget (dset k v d) k' = (if k = k' then v else dget d k')"
  by (simp add: dget_def dget_or_def map_of_dset)


subsection \<open>Loops that may raise, substrings\<close>

fun filterE :: "('a \<Rightarrow> bool py) \<Rightarrow> 'a list \<Rightarrow> 'a list py" where
  "filterE f [] = Inr []"
| "filterE f (x # xs) = bindE (f x) (\<lambda>b. bindE (filterE f xs) (\<lambda>ys. Inr (if b then x # ys else ys)))"

fun mapE :: "('a \<Rightarrow> 'b py) \<Rightarrow> 'a list \<Rightarrow> 'b list py" where
  "mapE f [] = Inr []"
| "mapE f (x # xs) = bindE (f x) (\<lambda>y. bindE (mapE f xs) (\<lambda>ys. Inr (y # ys)))"

fun str_contains :: "string \<Rightarrow> string \<Rightarrow> bool" where
  \<comment> \<open>\<^verbatim>\<open>sub in s\<close>\<close>
  "str_contains sub [] = (sub = [])"
| "str_contains sub (c # cs) = (take (length sub) (c # cs) = sub \<or> str_contains sub cs)"

lemma filterE_Inr: "filterE f xs = Inr ys \<Longrightarrow> set ys = {x \<in> set xs. f x = Inr True} \<and> (\<forall>x \<in> set xs. \<exists>b. f x = Inr b)"
  by (induction xs arbitrary: ys) (auto simp: bindE_Inr_iff split: if_splits)

lemma mapE_Inr: "mapE f xs = Inr ys \<longleftrightarrow> list_all2 (\<lambda>x y. f x = Inr y) xs ys"
  by (induction xs arbitrary: ys) (auto simp: bindE_Inr_iff list_all2_Cons1)

lemma mapE_lookup:
  "mapE f ks = Inr vals \<Longrightarrow> k \<in> set ks \<Longrightarrow> \<exists>v. map_of (zip ks vals) k = Some v \<and> f k = Inr v"
  by (induction ks arbitrary: vals) (auto simp: bindE_Inr_iff)

lemma find_first:
  "find P xs = Some x \<Longrightarrow> P x \<and> (\<exists>before after. xs = before @ x # after \<and> (\<forall>y \<in> set before. \<not> P y))"
proof (induction xs)
  case (Cons a xs)
  show ?case
  proof (cases "P a")
    case True then show ?thesis using Cons.prems by (intro conjI exI [of _ "[]"] exI [of _ xs]) auto
  next
    case False
    then obtain b c where "P x" "xs = b @ x # c" "\<forall>y \<in> set b. \<not> P y" using Cons by auto
    then have "P x" "a # xs = (a # b) @ x # c" "\<forall>y \<in> set (a # b). \<not> P y" using False by auto
    then show ?thesis by blast
  qed
qed simp

definition opt_flt :: "flt option \<Rightarrow> flt" where
  \<comment> \<open>\<^verbatim>\<open>x or 0.0\<close> for an optional float\<close>
  "opt_flt x = (case x of None \<Rightarrow> Fin 0 | Some y \<Rightarrow> y)"

lemma opt_flt_simps [simp]: "opt_flt None = Fin 0" "opt_flt (Some y) = y"
  by (simp_all add: opt_flt_def)

definition flt_opt_val :: "flt option \<Rightarrow> pyval" where
  "flt_opt_val x = (case x of None \<Rightarrow> VNone | Some y \<Rightarrow> VFloat y)"

definition str_opt_val :: "string option \<Rightarrow> pyval" where
  "str_opt_val x = (case x of None \<Rightarrow> VNone | Some y \<Rightarrow> VStr y)"

end
