(* ===== verification/ExecutionCost.thy ===== *)
theory ExecutionCost
  imports PyVal
begin

section \<open>Execution costs and evidence (\<^verbatim>\<open>execution.py\<close>, \<^verbatim>\<open>effective_rr.py\<close>)\<close>

text \<open>
  The execution context is the dictionary of measured or estimated trading costs. This
  theory models how its evidence is classified, the penalties its fields carry, the
  risk/reward after those penalties, and the breakdown with its reject flags. The JSON text
  of the breakdown's diagnostics is kept as the dictionary that is serialised.
\<close>

subsection \<open>Constants\<close>

definition EXECUTION_EVIDENCE_COMPLETE_MEASURED :: string where
  "EXECUTION_EVIDENCE_COMPLETE_MEASURED = ''COMPLETE_MEASURED''"
definition EXECUTION_EVIDENCE_PARTIAL_ESTIMATED :: string where
  "EXECUTION_EVIDENCE_PARTIAL_ESTIMATED = ''PARTIAL_ESTIMATED''"
definition EXECUTION_EVIDENCE_UNAVAILABLE_BLOCKING :: string where
  "EXECUTION_EVIDENCE_UNAVAILABLE_BLOCKING = ''UNAVAILABLE_BLOCKING''"
definition EXECUTION_EVIDENCE_INVALID_FAKE_ZERO :: string where
  "EXECUTION_EVIDENCE_INVALID_FAKE_ZERO = ''INVALID_FAKE_ZERO''"

lemmas evidence_names = EXECUTION_EVIDENCE_COMPLETE_MEASURED_def EXECUTION_EVIDENCE_PARTIAL_ESTIMATED_def
  EXECUTION_EVIDENCE_UNAVAILABLE_BLOCKING_def EXECUTION_EVIDENCE_INVALID_FAKE_ZERO_def

definition MEASURED_STATUSES :: "string list" where
  "MEASURED_STATUSES = [''MEASURED'', ''MEASURED_PUBLIC'', ''MEASURED_EXCHANGE'']"
definition ESTIMATED_STATUSES :: "string list" where
  "ESTIMATED_STATUSES = [''MODEL_ESTIMATE'', ''ESTIMATED'', ''ESTIMATED_BACKTEST'']"
definition UNAVAILABLE_STATUSES :: "string list" where
  "UNAVAILABLE_STATUSES = [[], ''UNKNOWN'', ''UNAVAILABLE'', ''UNAVAILABLE_BACKTEST'', ''NULL'']"

definition REQUIRED_EXECUTION_FIELDS :: "string list" where
  "REQUIRED_EXECUTION_FIELDS = [''spread_pct'', ''expected_slippage_pct'', ''fee_pct'', ''latency_ms'',
     ''liquidity_score'', ''funding_rate_pct'', ''orderbook_imbalance'', ''volatility_regime'']"

definition SOURCE_MEASURED :: string where "SOURCE_MEASURED = ''MEASURED''"
definition SOURCE_ESTIMATED_BACKTEST :: string where "SOURCE_ESTIMATED_BACKTEST = ''ESTIMATED_BACKTEST''"
definition SOURCE_MODELLED :: string where "SOURCE_MODELLED = ''MODELLED''"
definition SOURCE_UNAVAILABLE :: string where "SOURCE_UNAVAILABLE = ''UNAVAILABLE''"

definition unavailable_value :: "pyval \<Rightarrow> bool" where
  \<comment> \<open>\<^verbatim>\<open>value in (None, "", "UNKNOWN", "UNAVAILABLE", "UNAVAILABLE_BACKTEST")\<close>\<close>
  "unavailable_value v = in_strs v [[], ''UNKNOWN'', ''UNAVAILABLE'', ''UNAVAILABLE_BACKTEST'']"

definition upper_or_blank :: "pydict \<Rightarrow> string \<Rightarrow> string" where
  \<comment> \<open>\<^verbatim>\<open>str(ctx.get(k, "") or "").upper()\<close>\<close>
  "upper_or_blank ctx k = py_upper (str_or (dget_or ctx k (VStr [])) [])"

subsection \<open>Evidence classification\<close>

definition status_text :: "pydict \<Rightarrow> string \<Rightarrow> string" where
  \<comment> \<open>\<^verbatim>\<open>str(execution_ctx.get(k, "")).upper()\<close>\<close>
  "status_text ctx k = py_upper (py_str (dget_or ctx k (VStr [])))"

definition evidence_statuses :: "pydict \<Rightarrow> (string \<times> string) list" where
  "evidence_statuses ctx =
    [(''spread_pct'', status_text ctx ''spread_status''),
     (''expected_slippage_pct'', status_text ctx ''slippage_status''),
     (''latency_ms'', status_text ctx ''latency_status''),
     (''liquidity_score'', status_text ctx ''liquidity_status''),
     (''funding_rate_pct'', status_text ctx ''funding_status''),
     (''orderbook_imbalance'', status_text ctx ''orderbook_status''),
     (''volatility_regime'', status_text ctx ''volatility_status'')]"

definition zero_verified :: "pydict \<Rightarrow> string \<Rightarrow> bool" where
  "zero_verified ctx field = truthy (dget_or ctx (field @ ''_zero_verified'') (VBool False))"

definition is_fake_zero :: "pydict \<Rightarrow> bool \<Rightarrow> string \<Rightarrow> bool py" where
  "is_fake_zero ctx require_measured field =
    bindE (catch_tv (bindE (py_float (dget ctx field)) (\<lambda>x. Inr (flt_eq x (Fin 0)))) False) (\<lambda>is_zero.
      let status = (case map_of (evidence_statuses ctx) field of None \<Rightarrow> [] | Some s \<Rightarrow> s)
      in Inr (is_zero \<and> (require_measured \<or> status \<in> set MEASURED_STATUSES) \<and> \<not> zero_verified ctx field))"

definition classify_execution_evidence :: "pydict \<Rightarrow> bool \<Rightarrow> string py" where
  "classify_execution_evidence ctx require_measured =
    (let statuses = map snd (evidence_statuses ctx);
         missing = filter (\<lambda>f. unavailable_value (dget ctx f)) REQUIRED_EXECUTION_FIELDS
     in bindE (filterE (is_fake_zero ctx require_measured)
                [''spread_pct'', ''expected_slippage_pct'', ''latency_ms'', ''funding_rate_pct'', ''orderbook_imbalance''])
          (\<lambda>fake_zero_fields. Inr (
            if fake_zero_fields \<noteq> [] then EXECUTION_EVIDENCE_INVALID_FAKE_ZERO
            else if missing \<noteq> [] \<or> (\<exists>s \<in> set statuses. s \<in> set UNAVAILABLE_STATUSES)
              then EXECUTION_EVIDENCE_UNAVAILABLE_BLOCKING
            else if require_measured \<and> (\<exists>s \<in> set statuses. s \<notin> set MEASURED_STATUSES)
              then EXECUTION_EVIDENCE_UNAVAILABLE_BLOCKING
            else if \<forall>s \<in> set statuses. s \<in> set MEASURED_STATUSES then EXECUTION_EVIDENCE_COMPLETE_MEASURED
            else if \<exists>s \<in> set statuses. s \<in> set ESTIMATED_STATUSES then EXECUTION_EVIDENCE_PARTIAL_ESTIMATED
            else EXECUTION_EVIDENCE_UNAVAILABLE_BLOCKING)))"

definition execution_context_is_unavailable :: "pydict \<Rightarrow> bool" where
  "execution_context_is_unavailable ctx =
    (let status_raw = dget_or ctx ''safety_evidence_status'' (dget ctx ''evidence_status'') in
     if status_raw = VNone then True
     else py_upper (py_strip (py_str status_raw)) \<in>
       {[], ''UNKNOWN'', ''UNAVAILABLE'', ''UNAVAILABLE_BACKTEST'', EXECUTION_EVIDENCE_UNAVAILABLE_BLOCKING,
        EXECUTION_EVIDENCE_INVALID_FAKE_ZERO, ''NULL''})"

subsection \<open>The cost model\<close>

record ExecutionCostModel =
  spread_penalty :: flt
  slippage_penalty :: flt
  latency_penalty :: flt
  fee_penalty :: flt
  funding_penalty :: flt
  liquidity_penalty :: flt
  volatility_penalty :: flt
  total_penalty :: flt
  missing_fields :: "string list"
  completeness :: string

definition req_float :: "pydict \<Rightarrow> string \<Rightarrow> flt option py" where
  \<comment> \<open>None where the field is recorded as missing\<close>
  "req_float ctx k =
    (let v = dget ctx k in
     if unavailable_value v then Inr None
     else catch_tv (bindE (py_float v) (\<lambda>x. Inr (Some x))) None)"

definition spread_cost :: "flt option \<Rightarrow> flt" where
  "spread_cost x = py_max (fmul (opt_flt x) (Fin 25)) (Fin 0)"
definition slippage_cost :: "flt option \<Rightarrow> flt" where
  "slippage_cost x = py_max (fmul (opt_flt x) (Fin 30)) (Fin 0)"
definition latency_cost :: "flt option \<Rightarrow> flt" where
  "latency_cost x = py_max (fmul (fdiv (opt_flt x) (Fin 1000)) (fl (2 / 10))) (Fin 0)"
definition fee_cost :: "flt option \<Rightarrow> flt" where
  "fee_cost x = py_max (fmul (flt_abs (opt_flt x)) (Fin 10)) (Fin 0)"
definition funding_cost :: "flt option \<Rightarrow> flt" where
  "funding_cost x = py_max (fmul (flt_abs (opt_flt x)) (Fin (5 / 2))) (Fin 0)"
definition liquidity_cost :: "flt option \<Rightarrow> flt" where
  "liquidity_cost x =
    py_max (fmul (fsub (Fin 1) (py_max (py_min (case x of None \<Rightarrow> Fin 1 | Some y \<Rightarrow> y) (Fin 1)) (Fin 0)))
       (fl (6 / 10))) (Fin 0)"
definition volatility_cost :: "string \<Rightarrow> flt" where
  "volatility_cost regime =
    (case map_of [(''low'', fl (2 / 100)), (''normal'', Fin 0), (''high'', fl (12 / 100)), (''extreme'', fl (25 / 100))] regime of
       None \<Rightarrow> fl (10 / 100) | Some p \<Rightarrow> p)"

lemmas cost_defs = spread_cost_def slippage_cost_def latency_cost_def fee_cost_def funding_cost_def
  liquidity_cost_def volatility_cost_def

definition volatility_regime_of :: "pydict \<Rightarrow> string" where
  "volatility_regime_of ctx = py_lower (str_or (dget_or ctx ''volatility_regime'' (VStr [])) [])"

definition cost_fields :: "string list" where
  "cost_fields = [''spread_pct'', ''expected_slippage_pct'', ''latency_ms'', ''funding_rate_pct'', ''fee_pct'', ''liquidity_score'']"

definition total_cost :: "flt \<Rightarrow> flt \<Rightarrow> flt \<Rightarrow> flt \<Rightarrow> flt \<Rightarrow> flt \<Rightarrow> flt \<Rightarrow> flt" where
  "total_cost sp sl fe la fu li vo = fadd (fadd (fadd (fadd (fadd (fadd sp sl) fe) la) fu) li) vo"

definition build_execution_cost_model :: "pydict \<Rightarrow> bool \<Rightarrow> ExecutionCostModel py" where
  "build_execution_cost_model ctx include_missing_penalty =
    bindE (mapE (req_float ctx) cost_fields) (\<lambda>vals.
      let spread = vals ! 0; slippage = vals ! 1; latency = vals ! 2; funding = vals ! 3;
          fee = vals ! 4; liquidity = vals ! 5; regime = volatility_regime_of ctx;
          missing = map fst (filter (\<lambda>p. snd p = None) (zip cost_fields vals))
            @ (if regime \<in> {[], ''unknown'', ''unavailable''} then [''volatility_regime''] else []);
          total = total_cost (spread_cost spread) (slippage_cost slippage) (fee_cost fee) (latency_cost latency)
                    (funding_cost funding) (liquidity_cost liquidity) (volatility_cost regime);
          total' = (if include_missing_penalty \<and> missing \<noteq> []
                    then fadd total (py_min (Fin (1 / 2)) (fmul (fl (1 / 10)) (Fin (of_nat (length missing)))))
                    else total)
      in bindE (classify_execution_evidence ctx False) (\<lambda>comp. Inr
          \<lparr>spread_penalty = spread_cost spread, slippage_penalty = slippage_cost slippage,
           latency_penalty = latency_cost latency, fee_penalty = fee_cost fee,
           funding_penalty = funding_cost funding, liquidity_penalty = liquidity_cost liquidity,
           volatility_penalty = volatility_cost regime, total_penalty = py_round total' 6,
           missing_fields = sorted_set missing, completeness = comp\<rparr>))"

subsection \<open>Effective risk/reward\<close>

record EffectiveRRResult =
  raw_rr :: flt
  effective_rr :: flt
  cost_penalty_total :: flt
  rr_spread_penalty :: flt
  rr_slippage_penalty :: flt
  rr_latency_penalty :: flt
  rr_fee_penalty :: flt
  rr_funding_penalty :: flt
  rr_liquidity_penalty :: flt
  rr_volatility_penalty :: flt
  rr_missing_fields :: "string list"
  rr_completeness :: string

definition raw_number :: "pyval \<Rightarrow> flt py" where
  \<comment> \<open>\<^verbatim>\<open>try: float(raw_rr or 0.0) except (TypeError, ValueError): 0.0\<close>\<close>
  "raw_number v = catch_tv (py_float (py_or v (VFloat (Fin 0)))) (Fin 0)"

definition net_rr :: "flt \<Rightarrow> flt \<Rightarrow> flt" where
  "net_rr raw penalty = py_round (py_max (fsub raw penalty) (Fin 0)) 6"

definition calculate_effective_rr :: "pyval \<Rightarrow> pydict \<Rightarrow> bool \<Rightarrow> EffectiveRRResult py" where
  "calculate_effective_rr raw0 ctx include_missing_penalty =
    bindE (raw_number raw0) (\<lambda>raw.
      bindE (build_execution_cost_model ctx include_missing_penalty) (\<lambda>model.
        Inr \<lparr>raw_rr = py_round raw 6, effective_rr = net_rr raw (total_penalty model),
             cost_penalty_total = total_penalty model, rr_spread_penalty = spread_penalty model,
             rr_slippage_penalty = slippage_penalty model, rr_latency_penalty = latency_penalty model,
             rr_fee_penalty = fee_penalty model, rr_funding_penalty = funding_penalty model,
             rr_liquidity_penalty = liquidity_penalty model, rr_volatility_penalty = volatility_penalty model,
             rr_missing_fields = missing_fields model, rr_completeness = completeness model\<rparr>))"

definition effective_rr_as_dict :: "EffectiveRRResult \<Rightarrow> pydict" where
  "effective_rr_as_dict r =
    [(''raw_rr'', VFloat (raw_rr r)), (''effective_rr'', VFloat (effective_rr r)),
     (''cost_penalty_total'', VFloat (cost_penalty_total r)),
     (''spread_penalty'', VFloat (rr_spread_penalty r)), (''slippage_penalty'', VFloat (rr_slippage_penalty r)),
     (''latency_penalty'', VFloat (rr_latency_penalty r)), (''fee_penalty'', VFloat (rr_fee_penalty r)),
     (''funding_penalty'', VFloat (rr_funding_penalty r)), (''liquidity_penalty'', VFloat (rr_liquidity_penalty r)),
     (''volatility_penalty'', VFloat (rr_volatility_penalty r)),
     (''missing_fields'', VList (map VStr (rr_missing_fields r))),
     (''execution_cost_completeness'', VStr (rr_completeness r))]"

subsection \<open>The cost breakdown and its reject flags\<close>

record ExecutionCostBreakdown =
  bd_spread_pct :: "flt option"
  bd_spread_source :: string
  bd_slippage_pct :: "flt option"
  bd_slippage_source :: string
  bd_fee_pct :: "flt option"
  bd_fee_source :: string
  bd_funding_rate_pct :: "flt option"
  bd_funding_source :: string
  bd_latency_ms :: "flt option"
  bd_latency_source :: string
  bd_liquidity_score :: "flt option"
  bd_liquidity_status :: string
  bd_volatility_penalty_pct :: flt
  bd_volatility_source :: string
  total_explicit_cost_pct :: flt
  bd_raw_rr :: flt
  bd_effective_rr :: flt
  cost_penalty_rr :: flt
  reject_flags :: "string list"
  unavailable_fields :: "string list"
  diagnostics :: pydict

definition source_from_status :: "pydict \<Rightarrow> string \<Rightarrow> string \<Rightarrow> string \<Rightarrow> string" where
  "source_from_status ctx status_key source_key estimated =
    (let status = upper_or_blank ctx status_key; source = upper_or_blank ctx source_key in
     if status \<in> set UNAVAILABLE_STATUSES \<or> source \<in> set UNAVAILABLE_STATUSES then SOURCE_UNAVAILABLE
     else if str_contains ''BACKTEST'' status \<or> str_contains ''BACKTEST'' source then SOURCE_ESTIMATED_BACKTEST
     else if status \<in> set ESTIMATED_STATUSES then estimated
     else if status \<in> set MEASURED_STATUSES \<or> source \<notin> {[], ''UNKNOWN''} then SOURCE_MEASURED
     else SOURCE_UNAVAILABLE)"

fun dget_first :: "pydict \<Rightarrow> string list \<Rightarrow> pyval \<Rightarrow> pyval" where
  \<comment> \<open>\<^verbatim>\<open>t.get(k1, t.get(k2, ... d))\<close>\<close>
  "dget_first t [] d = d"
| "dget_first t (k # ks) d = dget_or t k (dget_first t ks d)"

definition limit_or :: "pydict \<Rightarrow> string list \<Rightarrow> rat \<Rightarrow> flt py" where
  \<comment> \<open>\<^verbatim>\<open>float(t.get(k1, t.get(k2, d)) or d)\<close>\<close>
  "limit_or t ks d = py_float (py_or (dget_first t ks (VFloat (fl d))) (VFloat (fl d)))"

definition flag_if :: "bool \<Rightarrow> string \<Rightarrow> string list" where
  "flag_if c f = (if c then [f] else [])"

definition above :: "flt option \<Rightarrow> flt \<Rightarrow> bool" where
  \<comment> \<open>\<^verbatim>\<open>x is not None and x > limit\<close>\<close>
  "above x limit = (case x of None \<Rightarrow> False | Some y \<Rightarrow> flt_less limit y)"

definition below :: "flt option \<Rightarrow> flt \<Rightarrow> bool" where
  "below x limit = (case x of None \<Rightarrow> False | Some y \<Rightarrow> flt_less y limit)"

definition explicit_cost :: "flt option list \<Rightarrow> flt" where
  \<comment> \<open>\<^verbatim>\<open>round(sum(abs(x) for x in xs if x is not None), 10)\<close>\<close>
  "explicit_cost xs = py_round (flt_sum (map flt_abs (List.map_filter (\<lambda>x. x) xs))) 10"

definition breakdown_flags ::
  "(string \<Rightarrow> flt option) \<Rightarrow> pydict \<Rightarrow> ExecutionCostModel \<Rightarrow> flt \<Rightarrow> flt \<Rightarrow> pyval \<Rightarrow> string list py" where
  "breakdown_flags f t model tot effective min_effective_rr =
    bindE (limit_or t [''MAX_SPREAD_PCT'', ''max_spread_pct''] (25 / 10000)) (\<lambda>max_spread.
    bindE (limit_or t [''MAX_SLIPPAGE_PCT'', ''MAX_EXPECTED_SLIPPAGE_PCT''] (2 / 1000)) (\<lambda>max_slip.
    bindE (limit_or t [''MAX_TOTAL_COST_PCT''] (20 / 100)) (\<lambda>max_total.
    bindE (limit_or t [''MIN_LIQUIDITY_SCORE''] (30 / 100)) (\<lambda>min_liq.
    bindE (limit_or t [''MAX_LATENCY_MS''] 2500) (\<lambda>max_latency.
    bindE (limit_or t [''MAX_VOLATILITY_PENALTY_PCT''] (20 / 100)) (\<lambda>max_vol_pen.
    let reject_unknown = truthy (dget_or t ''REJECT_UNKNOWN_EXECUTION_CONTEXT'' (VBool False));
        require_funding = truthy (dget_or t ''REQUIRE_FUNDING_RATE'' (VBool False)) in
    bindE (limit_or t [''MAX_ABS_FUNDING_RATE_PCT''] 1) (\<lambda>max_funding.
    bindE (py_float min_effective_rr) (\<lambda>min_rr. Inr (py_unique (
       flag_if (above (f ''expected_slippage_pct'') max_slip) ''HIGH_SLIPPAGE''
     @ flag_if (above (f ''spread_pct'') max_spread) ''HIGH_SPREAD''
     @ flag_if (flt_less max_total tot) ''HIGH_TOTAL_COST''
     @ flag_if (below (f ''liquidity_score'') min_liq) ''LOW_LIQUIDITY''
     @ flag_if (above (f ''latency_ms'') max_latency) ''HIGH_LATENCY''
     @ flag_if (flt_less max_vol_pen (volatility_penalty model)) ''EXCESSIVE_VOLATILITY_PENALTY''
     @ flag_if (f ''funding_rate_pct'' = None \<and> require_funding) ''FUNDING_UNAVAILABLE''
     @ flag_if (above (map_option flt_abs (f ''funding_rate_pct'')) max_funding) ''FUNDING_TOO_HIGH''
     @ flag_if (missing_fields model \<noteq> [] \<and> reject_unknown) ''EXECUTION_CONTEXT_UNAVAILABLE''
     @ flag_if (flt_less effective min_rr) ''LOW_EFFECTIVE_RR''))))))))))"

definition cost_model_dict :: "ExecutionCostModel \<Rightarrow> pydict" where
  "cost_model_dict m =
    [(''spread_penalty'', VFloat (spread_penalty m)), (''slippage_penalty'', VFloat (slippage_penalty m)),
     (''latency_penalty'', VFloat (latency_penalty m)), (''fee_penalty'', VFloat (fee_penalty m)),
     (''funding_penalty'', VFloat (funding_penalty m)), (''liquidity_penalty'', VFloat (liquidity_penalty m)),
     (''volatility_penalty'', VFloat (volatility_penalty m)), (''total_penalty'', VFloat (total_penalty m)),
     (''missing_fields'', VList (map VStr (missing_fields m))), (''completeness'', VStr (completeness m))]"

definition build_execution_cost_breakdown ::
  "pyval \<Rightarrow> pydict \<Rightarrow> pyval \<Rightarrow> pydict \<Rightarrow> bool \<Rightarrow> ExecutionCostBreakdown py" where
  "build_execution_cost_breakdown raw0 ctx min_effective_rr t include_missing_penalty =
    bindE (raw_number raw0) (\<lambda>raw.
    bindE (build_execution_cost_model ctx include_missing_penalty) (\<lambda>model.
    bindE (mapE (req_float ctx) cost_fields) (\<lambda>vals.
      let f = (\<lambda>k. case map_of (zip cost_fields vals) k of None \<Rightarrow> None | Some x \<Rightarrow> x);
          effective = net_rr raw (total_penalty model);
          total = explicit_cost [f ''spread_pct'', f ''expected_slippage_pct'', f ''fee_pct'', f ''funding_rate_pct'']
      in bindE (breakdown_flags f t model total effective min_effective_rr) (\<lambda>flags. Inr
        \<lparr>bd_spread_pct = f ''spread_pct'',
         bd_spread_source = source_from_status ctx ''spread_status'' ''spread_source'' SOURCE_ESTIMATED_BACKTEST,
         bd_slippage_pct = f ''expected_slippage_pct'',
         bd_slippage_source = source_from_status ctx ''slippage_status'' ''slippage_source'' SOURCE_MODELLED,
         bd_fee_pct = f ''fee_pct'',
         bd_fee_source = source_from_status ctx ''fee_status'' ''fee_source'' SOURCE_MODELLED,
         bd_funding_rate_pct = f ''funding_rate_pct'',
         bd_funding_source = source_from_status ctx ''funding_status'' ''funding_source'' SOURCE_ESTIMATED_BACKTEST,
         bd_latency_ms = f ''latency_ms'',
         bd_latency_source = source_from_status ctx ''latency_status'' ''latency_source'' SOURCE_MODELLED,
         bd_liquidity_score = f ''liquidity_score'',
         bd_liquidity_status = str_or (dget_or ctx ''liquidity_status'' (VStr SOURCE_UNAVAILABLE)) SOURCE_UNAVAILABLE,
         bd_volatility_penalty_pct = volatility_penalty model,
         bd_volatility_source = source_from_status ctx ''volatility_status'' ''volatility_source'' SOURCE_ESTIMATED_BACKTEST,
         total_explicit_cost_pct = total, bd_raw_rr = py_round raw 6, bd_effective_rr = effective,
         cost_penalty_rr = total_penalty model, reject_flags = flags,
         unavailable_fields = missing_fields model,
         diagnostics = cost_model_dict model @
           [(''total_explicit_cost_pct'', VFloat total), (''total_rr_penalty'', VFloat (total_penalty model)),
            (''cost_penalty_rr'', VFloat (total_penalty model)),
            (''formula'', VStr ''effective_rr = raw_rr - spread_penalty - slippage_penalty - fee_penalty - funding_penalty - latency_penalty - liquidity_penalty - volatility_penalty'')]\<rparr>))))"

definition breakdown_as_dict :: "ExecutionCostBreakdown \<Rightarrow> pydict" where
  "breakdown_as_dict b =
    [(''spread_pct'', flt_opt_val (bd_spread_pct b)), (''spread_source'', VStr (bd_spread_source b)),
     (''slippage_pct'', flt_opt_val (bd_slippage_pct b)), (''expected_slippage_pct'', flt_opt_val (bd_slippage_pct b)),
     (''slippage_source'', VStr (bd_slippage_source b)),
     (''fee_pct'', flt_opt_val (bd_fee_pct b)), (''fee_source'', VStr (bd_fee_source b)),
     (''funding_rate_pct'', flt_opt_val (bd_funding_rate_pct b)), (''funding_source'', VStr (bd_funding_source b)),
     (''latency_ms'', flt_opt_val (bd_latency_ms b)), (''latency_source'', VStr (bd_latency_source b)),
     (''liquidity_score'', flt_opt_val (bd_liquidity_score b)), (''liquidity_status'', VStr (bd_liquidity_status b)),
     (''volatility_penalty_pct'', VFloat (bd_volatility_penalty_pct b)),
     (''volatility_source'', VStr (bd_volatility_source b)),
     (''total_explicit_cost_pct'', VFloat (total_explicit_cost_pct b)),
     (''total_cost_pct'', VFloat (total_explicit_cost_pct b)),
     (''raw_rr'', VFloat (bd_raw_rr b)), (''effective_rr'', VFloat (bd_effective_rr b)),
     (''cost_penalty'', VFloat (cost_penalty_rr b)), (''cost_penalty_rr'', VFloat (cost_penalty_rr b)),
     (''cost_penalty_total'', VFloat (cost_penalty_rr b)),
     (''reject_flags'', VList (map VStr (reject_flags b))),
     (''unavailable_fields'', VList (map VStr (unavailable_fields b))),
     (''diagnostics_json'', VDict (diagnostics b))]"

definition normalize_pct_input :: "pyval \<Rightarrow> (flt \<times> string) py" where
  "normalize_pct_input value =
    catch_tv (bindE (py_float (py_or value (VFloat (Fin 0)))) (\<lambda>raw.
        let v = flt_abs raw in
        Inr (if flt_less (fl (5 / 100)) v then (fdiv v (Fin 100), ''PERCENT_POINT_NORMALIZED'')
             else (v, ''FRACTIONAL_RATE''))))
      (Fin 0, ''UNAVAILABLE'')"

subsection \<open>Facts about the costs\<close>

lemma py_max_zero_nonneg: "x \<noteq> NaN \<Longrightarrow> flt_le (Fin 0) (py_max x (Fin 0))"
  by (cases x) auto

lemma py_max_mono: "flt_le x y \<Longrightarrow> flt_le (py_max x (Fin 0)) (py_max y (Fin 0))"
  by (cases x; cases y) auto

lemma fmul_not_nan: "x \<noteq> NaN \<Longrightarrow> 0 < c \<Longrightarrow> fmul x (Fin c) \<noteq> NaN"
  by (cases x) (auto simp: flt_inf_def)

lemma fdiv_not_nan: "x \<noteq> NaN \<Longrightarrow> 0 < c \<Longrightarrow> fdiv x (Fin c) \<noteq> NaN"
  by (cases x) (auto simp: flt_inf_def)

lemma fmul_mono: "flt_le x y \<Longrightarrow> 0 < c \<Longrightarrow> flt_le (fmul x (Fin c)) (fmul y (Fin c))"
  by (cases x; cases y) (auto simp: flt_inf_def intro!: fl_mono mult_right_mono)

lemma fsub_mono: "flt_le p q \<Longrightarrow> flt_le (fsub (Fin x) q) (fsub (Fin x) p)"
  by (cases p; cases q) (auto simp: fsub_def intro!: fl_mono)

lemma fsub_le: "flt_le (Fin 0) p \<Longrightarrow> is_f64 (Fin x) \<Longrightarrow> flt_le (fsub (Fin x) p) (Fin x)"
  using fl_mono [of "x - y" x for y] by (cases p) (auto simp: fsub_def is_f64_def)

lemma fl_pos_fin: "fl (2 / 10) = Fin (3602879701896397 / 18014398509481984)"
  "fl (6 / 10) = Fin (5404319552844595 / 9007199254740992)"
  by (simp_all add: fl_eval)

lemma cost_nonneg:
  assumes "x \<noteq> Some NaN"
  shows "flt_le (Fin 0) (spread_cost x)" "flt_le (Fin 0) (slippage_cost x)" "flt_le (Fin 0) (latency_cost x)"
    "flt_le (Fin 0) (fee_cost x)" "flt_le (Fin 0) (funding_cost x)" "flt_le (Fin 0) (liquidity_cost x)"
proof -
  have n: "opt_flt x \<noteq> NaN" using assms by (cases x) auto
  then have a: "flt_abs (opt_flt x) \<noteq> NaN" by (cases "opt_flt x") auto
  show "flt_le (Fin 0) (spread_cost x)" "flt_le (Fin 0) (slippage_cost x)" "flt_le (Fin 0) (latency_cost x)"
    "flt_le (Fin 0) (fee_cost x)" "flt_le (Fin 0) (funding_cost x)"
    unfolding spread_cost_def slippage_cost_def latency_cost_def fee_cost_def funding_cost_def fl_pos_fin
    using n a by (simp_all add: py_max_zero_nonneg fmul_not_nan fdiv_not_nan)
  define y where "y = (case x of None \<Rightarrow> Fin 1 | Some y \<Rightarrow> y)"
  have "y \<noteq> NaN" using assms by (cases x) (auto simp: y_def)
  then have "fsub (Fin 1) (py_max (py_min y (Fin 1)) (Fin 0)) \<noteq> NaN"
    by (cases y) (auto simp: fsub_def)
  then show "flt_le (Fin 0) (liquidity_cost x)"
    unfolding liquidity_cost_def fl_pos_fin y_def [symmetric] by (intro py_max_zero_nonneg fmul_not_nan) auto
qed

lemma volatility_cost_nonneg: "flt_le (Fin 0) (volatility_cost r)"
  by (auto simp: volatility_cost_def fl_nonneg)

lemma total_cost_nonneg:
  "flt_le (Fin 0) sp \<Longrightarrow> flt_le (Fin 0) sl \<Longrightarrow> flt_le (Fin 0) fe \<Longrightarrow> flt_le (Fin 0) la \<Longrightarrow> flt_le (Fin 0) fu \<Longrightarrow>
   flt_le (Fin 0) li \<Longrightarrow> flt_le (Fin 0) vo \<Longrightarrow> flt_le (Fin 0) (total_cost sp sl fe la fu li vo)"
  by (simp add: total_cost_def fadd_nonneg)

lemma total_cost_mono_spread:
  assumes "flt_le sp sp'" "flt_le (Fin 0) sp" "flt_le (Fin 0) sl" "flt_le (Fin 0) fe" "flt_le (Fin 0) la"
    "flt_le (Fin 0) fu" "flt_le (Fin 0) li" "flt_le (Fin 0) vo"
  shows "flt_le (total_cost sp sl fe la fu li vo) (total_cost sp' sl fe la fu li vo)"
  unfolding total_cost_def using assms by (intro fadd_mono fadd_nonneg)

definition missing_cost :: "nat \<Rightarrow> flt" where
  "missing_cost n = py_min (Fin (1 / 2)) (fmul (fl (1 / 10)) (Fin (of_nat n)))"

lemma missing_cost_nonneg: "flt_le (Fin 0) (missing_cost n)"
proof -
  have "fl (1 / 10) = Fin (3602879701896397 / 36028797018963968)" by (simp add: fl_eval)
  then have "flt_le (Fin 0) (fmul (fl (1 / 10)) (Fin (of_nat n)))" by (simp add: fl_nonneg)
  then show ?thesis unfolding missing_cost_def by (cases "fmul (fl (1 / 10)) (Fin (of_nat n))") (auto simp: py_min_def)
qed

definition missing_costs :: "pydict \<Rightarrow> flt option list \<Rightarrow> string list" where
  "missing_costs ctx vals = map fst (filter (\<lambda>p. snd p = None) (zip cost_fields vals))
     @ (if volatility_regime_of ctx \<in> {[], ''unknown'', ''unavailable''} then [''volatility_regime''] else [])"

definition cost_total :: "pydict \<Rightarrow> flt option list \<Rightarrow> flt" where
  "cost_total ctx vals = total_cost (spread_cost (vals ! 0)) (slippage_cost (vals ! 1)) (fee_cost (vals ! 4))
     (latency_cost (vals ! 2)) (funding_cost (vals ! 3)) (liquidity_cost (vals ! 5))
     (volatility_cost (volatility_regime_of ctx))"

lemma cost_model_Inr:
  "build_execution_cost_model ctx b = Inr m \<longleftrightarrow>
     (\<exists>vals c. mapE (req_float ctx) cost_fields = Inr vals \<and> classify_execution_evidence ctx False = Inr c \<and>
        m = \<lparr>spread_penalty = spread_cost (vals ! 0), slippage_penalty = slippage_cost (vals ! 1),
             latency_penalty = latency_cost (vals ! 2), fee_penalty = fee_cost (vals ! 4),
             funding_penalty = funding_cost (vals ! 3), liquidity_penalty = liquidity_cost (vals ! 5),
             volatility_penalty = volatility_cost (volatility_regime_of ctx),
             total_penalty = py_round (if b \<and> missing_costs ctx vals \<noteq> []
               then fadd (cost_total ctx vals) (missing_cost (length (missing_costs ctx vals)))
               else cost_total ctx vals) 6,
             missing_fields = sorted_set (missing_costs ctx vals), completeness = c\<rparr>)"
  unfolding build_execution_cost_model_def bindE_Inr_iff Let_def missing_costs_def cost_total_def missing_cost_def
  by (simp only: sum.inject) blast

lemma length_cost_vals: "mapE (req_float ctx) cost_fields = Inr vals \<Longrightarrow> length vals = 6"
  unfolding mapE_Inr by (drule list_all2_lengthD) (simp add: cost_fields_def)

lemma cost_vals_no_nan:
  assumes "mapE (req_float ctx) cost_fields = Inr vals"
    and "\<forall>k \<in> set cost_fields. req_float ctx k \<noteq> Inr (Some NaN)" and "i < 6"
  shows "vals ! i \<noteq> Some NaN"
proof -
  have l: "length cost_fields = 6" by (simp add: cost_fields_def)
  have "req_float ctx (cost_fields ! i) = Inr (vals ! i)"
    using assms(1,3) l unfolding mapE_Inr by (auto dest: list_all2_nthD)
  then show ?thesis using assms(2,3) l by (metis nth_mem)
qed

lemma cost_total_nonneg:
  assumes "mapE (req_float ctx) cost_fields = Inr vals"
    and "\<forall>k \<in> set cost_fields. req_float ctx k \<noteq> Inr (Some NaN)"
  shows "flt_le (Fin 0) (cost_total ctx vals)"
  unfolding cost_total_def
  by (intro total_cost_nonneg cost_nonneg volatility_cost_nonneg cost_vals_no_nan [OF assms]) simp_all

lemma total_penalty_nonneg:
  assumes "build_execution_cost_model ctx b = Inr m"
    and "\<forall>k \<in> set cost_fields. req_float ctx k \<noteq> Inr (Some NaN)"
  shows "flt_le (Fin 0) (total_penalty m)"
  using assms(1) unfolding cost_model_Inr
  by (auto intro!: py_round_nonneg fadd_nonneg missing_cost_nonneg cost_total_nonneg [OF _ assms(2)])

lemma net_rr_bounds:
  assumes "flt_le (Fin 0) p" and "is_f64 (Fin x)"
  shows "flt_le (Fin 0) (net_rr (Fin x) p)" "flt_le (net_rr (Fin x) p) (py_max (py_round (Fin x) 6) (Fin 0))"
proof -
  have le: "flt_le (fsub (Fin x) p) (Fin x)" by (rule fsub_le [OF assms])
  show "flt_le (Fin 0) (net_rr (Fin x) p)"
    unfolding net_rr_def using le by (intro py_round_nonneg py_max_zero_nonneg) auto
  have "flt_le (net_rr (Fin x) p) (py_round (py_max (Fin x) (Fin 0)) 6)"
    unfolding net_rr_def by (intro py_round_mono py_max_mono le)
  also have "py_round (py_max (Fin x) (Fin 0)) 6 = py_max (py_round (Fin x) 6) (Fin 0)"
  proof (cases "0 \<le> x")
    case True
    then have "flt_le (Fin 0) (py_round (Fin x) 6)" by (intro py_round_nonneg) simp
    then show ?thesis using True by (cases "py_round (Fin x) 6") (auto simp: max_def)
  next
    case False
    then have "flt_le (py_round (Fin x) 6) (Fin 0)" using py_round_mono [of "Fin x" "Fin 0" 6] by simp
    then show ?thesis using False by (cases "py_round (Fin x) 6") (auto simp: max_def)
  qed
  finally show "flt_le (net_rr (Fin x) p) (py_max (py_round (Fin x) 6) (Fin 0))" .
qed


subsection \<open>Properties\<close>

text \<open>Costs never improve a trade. When no cost field parses to a NaN and the raw
  risk/reward is a finite float, the total penalty is not negative and the effective
  risk/reward lies between zero and the larger of zero and the rounded raw value.\<close>

theorem effective_rr_bounds:
  assumes "calculate_effective_rr raw0 ctx b = Inr r"
    and "\<forall>k \<in> set cost_fields. req_float ctx k \<noteq> Inr (Some NaN)"
    and "raw_number raw0 = Inr (Fin x)" and "is_f64 (Fin x)"
  shows "flt_le (Fin 0) (cost_penalty_total r) \<and> flt_le (Fin 0) (effective_rr r) \<and>
    flt_le (effective_rr r) (py_max (raw_rr r) (Fin 0))"
proof -
  obtain m where m: "build_execution_cost_model ctx b = Inr m"
      "raw_rr r = py_round (Fin x) 6" "effective_rr r = net_rr (Fin x) (total_penalty m)"
      "cost_penalty_total r = total_penalty m"
    using assms(1,3) by (auto simp: calculate_effective_rr_def bindE_Inr_iff)
  have "flt_le (Fin 0) (total_penalty m)" by (rule total_penalty_nonneg [OF m(1) assms(2)])
  then show ?thesis using net_rr_bounds [OF _ assms(4)] m by auto
qed

definition demo_ctx :: pydict where
  "demo_ctx = [(''spread_pct'', VFloat (Fin (1 / 1024))), (''expected_slippage_pct'', VFloat (Fin (1 / 1024))),
     (''latency_ms'', VInt 50), (''funding_rate_pct'', VFloat (Fin 0)), (''fee_pct'', VFloat (Fin (1 / 2048))),
     (''liquidity_score'', VInt 1), (''volatility_regime'', VStr ''low'')]"

lemma demo_req [simp]:
  "req_float demo_ctx ''spread_pct'' = Inr (Some (Fin (1 / 1024)))"
  "req_float demo_ctx ''expected_slippage_pct'' = Inr (Some (Fin (1 / 1024)))"
  "req_float demo_ctx ''latency_ms'' = Inr (Some (Fin 50))"
  "req_float demo_ctx ''funding_rate_pct'' = Inr (Some (Fin 0))"
  "req_float demo_ctx ''fee_pct'' = Inr (Some (Fin (1 / 2048)))"
  "req_float demo_ctx ''liquidity_score'' = Inr (Some (Fin 1))"
  by (simp_all add: demo_ctx_def req_float_def unavailable_value_def in_strs_def int_to_float_small)

lemma demo_not_nan: "\<forall>k \<in> set cost_fields. req_float demo_ctx k \<noteq> Inr (Some NaN)"
  by (simp add: cost_fields_def)

lemma demo_classified: "\<exists>c. classify_execution_evidence demo_ctx b = Inr c"
  by (simp add: classify_execution_evidence_def Let_def bindE_def is_fake_zero_def demo_ctx_def int_to_float_small)

lemma demo_effective: "\<exists>r. calculate_effective_rr (VInt 2) demo_ctx False = Inr r"
proof -
  obtain c where "classify_execution_evidence demo_ctx False = Inr c" using demo_classified by blast
  then show ?thesis
    by (simp add: calculate_effective_rr_def raw_number_def py_or_def int_to_float_small build_execution_cost_model_def
        cost_fields_def Let_def)
qed

theorem effective_rr_bounds_witness:
  "\<exists>r. calculate_effective_rr (VInt 2) demo_ctx False = Inr r \<and> flt_le (Fin 0) (effective_rr r) \<and>
     flt_le (effective_rr r) (py_max (raw_rr r) (Fin 0))"
proof -
  obtain r where r: "calculate_effective_rr (VInt 2) demo_ctx False = Inr r" using demo_effective by blast
  have "raw_number (VInt 2) = Inr (Fin 2)" by (simp add: raw_number_def py_or_def int_to_float_small)
  moreover have "is_f64 (Fin 2)" by (simp add: is_f64_def fl_eval)
  ultimately show ?thesis using effective_rr_bounds [OF r demo_not_nan] r by blast
qed


lemma req_float_dset: "k \<noteq> k' \<Longrightarrow> req_float (dset k v ctx) k' = req_float ctx k'"
  by (simp add: req_float_def dget_dset)

lemma req_float_dset_same: "req_float (dset k (VFloat (Fin s)) ctx) k = Inr (Some (Fin s))"
  by (simp add: req_float_def dget_dset unavailable_value_def in_strs_def)

lemma mapE_spread:
  "mapE (req_float (dset ''spread_pct'' (VFloat (Fin s)) ctx)) cost_fields = Inr vals \<longleftrightarrow>
     (\<exists>rest. mapE (req_float ctx) (tl cost_fields) = Inr rest \<and> vals = Some (Fin s) # rest)"
  by (auto simp: cost_fields_def bindE_Inr_iff req_float_dset req_float_dset_same)

lemma cost_total_spread_mono:
  assumes "mapE (req_float ctx) (tl cost_fields) = Inr rest" and "s \<le> s'"
    and "\<forall>k \<in> set (tl cost_fields). req_float ctx k \<noteq> Inr (Some NaN)"
  shows "flt_le (cost_total (dset ''spread_pct'' (VFloat (Fin s)) ctx) (Some (Fin s) # rest))
     (cost_total (dset ''spread_pct'' (VFloat (Fin s')) ctx) (Some (Fin s') # rest))"
proof -
  let ?c = "dset ''spread_pct'' (VFloat (Fin s)) ctx"
  have m: "mapE (req_float ?c) cost_fields = Inr (Some (Fin s) # rest)"
    using assms(1) mapE_spread by blast
  have nn: "\<forall>k \<in> set cost_fields. req_float ?c k \<noteq> Inr (Some NaN)"
    using assms(3) by (simp add: cost_fields_def req_float_dset req_float_dset_same)
  have reg: "volatility_regime_of (dset ''spread_pct'' v ctx) = volatility_regime_of ctx" for v
    by (simp add: volatility_regime_of_def dget_or_def map_of_dset)
  have sp: "flt_le (spread_cost (Some (Fin s))) (spread_cost (Some (Fin s')))"
    unfolding spread_cost_def using assms(2) by (intro py_max_mono fmul_mono) simp_all
  note v = cost_vals_no_nan [OF m nn]
  have t: "(Some (Fin s') # rest) ! Suc i = (Some (Fin s) # rest) ! Suc i" for i by simp
  have e: "(Some (Fin s') # rest) ! 1 = (Some (Fin s) # rest) ! 1" "(Some (Fin s') # rest) ! 2 = (Some (Fin s) # rest) ! 2"
    "(Some (Fin s') # rest) ! 3 = (Some (Fin s) # rest) ! 3" "(Some (Fin s') # rest) ! 4 = (Some (Fin s) # rest) ! 4"
    "(Some (Fin s') # rest) ! 5 = (Some (Fin s) # rest) ! 5"
    using t by (simp_all add: eval_nat_numeral)
  show ?thesis unfolding cost_total_def reg e
    by (intro total_cost_mono_spread cost_nonneg volatility_cost_nonneg v) (simp_all add: sp)
qed

lemma missing_costs_spread:
  "missing_costs (dset ''spread_pct'' (VFloat (Fin s)) ctx) (Some (Fin s) # rest) =
   missing_costs (dset ''spread_pct'' (VFloat (Fin s')) ctx) (Some (Fin s') # rest)"
  by (simp add: missing_costs_def cost_fields_def volatility_regime_of_def dget_or_def map_of_dset)

lemma total_penalty_spread_mono:
  assumes "build_execution_cost_model (dset ''spread_pct'' (VFloat (Fin s)) ctx) b = Inr m"
    and "build_execution_cost_model (dset ''spread_pct'' (VFloat (Fin s')) ctx) b = Inr m'"
    and "s \<le> s'" and "\<forall>k \<in> set (tl cost_fields). req_float ctx k \<noteq> Inr (Some NaN)"
  shows "flt_le (total_penalty m) (total_penalty m')"
proof -
  let ?c = "dset ''spread_pct'' (VFloat (Fin s)) ctx" and ?c' = "dset ''spread_pct'' (VFloat (Fin s')) ctx"
  obtain rest where r: "mapE (req_float ctx) (tl cost_fields) = Inr rest"
    and p: "total_penalty m = py_round (if b \<and> missing_costs ?c (Some (Fin s) # rest) \<noteq> []
        then fadd (cost_total ?c (Some (Fin s) # rest)) (missing_cost (length (missing_costs ?c (Some (Fin s) # rest))))
        else cost_total ?c (Some (Fin s) # rest)) 6"
    using assms(1) unfolding cost_model_Inr mapE_spread by auto
  have p': "total_penalty m' = py_round (if b \<and> missing_costs ?c' (Some (Fin s') # rest) \<noteq> []
        then fadd (cost_total ?c' (Some (Fin s') # rest)) (missing_cost (length (missing_costs ?c' (Some (Fin s') # rest))))
        else cost_total ?c' (Some (Fin s') # rest)) 6"
    using assms(2) r unfolding cost_model_Inr mapE_spread by auto
  have mono: "flt_le (cost_total ?c (Some (Fin s) # rest)) (cost_total ?c' (Some (Fin s') # rest))"
    by (rule cost_total_spread_mono [OF r assms(3,4)])
  have nn: "flt_le (Fin 0) (cost_total ?c (Some (Fin s) # rest))"
    using assms(4) r by (intro cost_total_nonneg)
      (auto simp: mapE_spread req_float_dset req_float_dset_same cost_fields_def)
  show ?thesis unfolding p p' missing_costs_spread [of s ctx rest s']
    using mono nn by (intro py_round_mono) (auto intro!: fadd_mono missing_cost_nonneg)
qed

text \<open>A wider spread is never better. With everything else equal, raising the spread
  cannot raise the effective risk/reward nor lower the penalty.\<close>

theorem wider_spread_costs_more:
  assumes "calculate_effective_rr raw0 (dset ''spread_pct'' (VFloat (Fin s)) ctx) b = Inr r"
    and "calculate_effective_rr raw0 (dset ''spread_pct'' (VFloat (Fin s')) ctx) b = Inr r'"
    and "s \<le> s'" and "\<forall>k \<in> set (tl cost_fields). req_float ctx k \<noteq> Inr (Some NaN)"
    and "raw_number raw0 = Inr (Fin x)"
  shows "flt_le (cost_penalty_total r) (cost_penalty_total r') \<and> flt_le (effective_rr r') (effective_rr r)"
proof -
  obtain m m' where m: "build_execution_cost_model (dset ''spread_pct'' (VFloat (Fin s)) ctx) b = Inr m"
      "build_execution_cost_model (dset ''spread_pct'' (VFloat (Fin s')) ctx) b = Inr m'"
      "effective_rr r = net_rr (Fin x) (total_penalty m)" "effective_rr r' = net_rr (Fin x) (total_penalty m')"
      "cost_penalty_total r = total_penalty m" "cost_penalty_total r' = total_penalty m'"
    using assms(1,2,5) by (auto simp: calculate_effective_rr_def bindE_Inr_iff)
  have p: "flt_le (total_penalty m) (total_penalty m')"
    by (rule total_penalty_spread_mono [OF m(1,2) assms(3,4)])
  then have "flt_le (effective_rr r') (effective_rr r)"
    unfolding m net_rr_def by (intro py_round_mono py_max_mono fsub_mono)
  then show ?thesis using p m by simp
qed

lemma classify_total: "(\<And>k. \<exists>x. catch_tv (py_float (dget ctx k)) NaN = Inr x) \<Longrightarrow> \<exists>c. classify_execution_evidence ctx b = Inr c"
proof -
  assume a: "\<And>k. \<exists>x. catch_tv (py_float (dget ctx k)) NaN = Inr x"
  have "\<exists>z. is_fake_zero ctx b k = Inr z" for k
    using a [of k] by (auto simp: is_fake_zero_def catch_tv_def Let_def bindE_def split: sum.splits if_splits)
  then obtain z where z: "is_fake_zero ctx b k = Inr (z k)" for k by metis
  have "\<exists>ys. filterE (is_fake_zero ctx b) ks = Inr ys" for ks
    by (induction ks) (auto simp: z)
  then show ?thesis unfolding classify_execution_evidence_def Let_def bindE_Inr_iff by blast
qed

theorem wider_spread_costs_more_witness:
  "\<exists>r r'. calculate_effective_rr (VInt 2) (dset ''spread_pct'' (VFloat (Fin (1 / 512))) demo_ctx) False = Inr r \<and>
     calculate_effective_rr (VInt 2) (dset ''spread_pct'' (VFloat (Fin (1 / 256))) demo_ctx) False = Inr r' \<and>
     flt_le (effective_rr r') (effective_rr r)"
proof -
  have raw: "raw_number (VInt 2) = Inr (Fin 2)" by (simp add: raw_number_def py_or_def int_to_float_small)
  have ex: "\<exists>r. calculate_effective_rr (VInt 2) (dset ''spread_pct'' (VFloat (Fin s)) demo_ctx) False = Inr r" for s
  proof -
    have "\<exists>c. classify_execution_evidence (dset ''spread_pct'' (VFloat (Fin s)) demo_ctx) False = Inr c"
      by (rule classify_total) (simp add: demo_ctx_def int_to_float_small split: option.split)
    moreover have "mapE (req_float (dset ''spread_pct'' (VFloat (Fin s)) demo_ctx)) cost_fields =
        Inr [Some (Fin s), Some (Fin (1 / 1024)), Some (Fin 50), Some (Fin 0), Some (Fin (1 / 2048)), Some (Fin 1)]"
      by (simp add: cost_fields_def req_float_dset req_float_dset_same)
    ultimately show ?thesis
      by (auto simp: calculate_effective_rr_def raw build_execution_cost_model_def Let_def)
  qed
  obtain r r' where r: "calculate_effective_rr (VInt 2) (dset ''spread_pct'' (VFloat (Fin (1 / 512))) demo_ctx) False = Inr r"
      "calculate_effective_rr (VInt 2) (dset ''spread_pct'' (VFloat (Fin (1 / 256))) demo_ctx) False = Inr r'"
    using ex by meson
  moreover have "\<forall>k \<in> set (tl cost_fields). req_float demo_ctx k \<noteq> Inr (Some NaN)" by (simp add: cost_fields_def)
  ultimately show ?thesis using wider_spread_costs_more [OF r] raw by auto
qed

text \<open>The breakdown shown next to an order and the effective risk/reward the gates use
  are one calculation. The breakdown succeeds only where the calculation does, agrees with
  it on the risk/reward, the penalty and the missing fields, and raises LOW_EFFECTIVE_RR
  exactly when that value is below the minimum.\<close>

theorem breakdown_agrees:
  assumes "build_execution_cost_breakdown raw0 ctx min_rr t b = Inr d"
  shows "\<exists>r lim. calculate_effective_rr raw0 ctx b = Inr r \<and> py_float min_rr = Inr lim \<and>
     bd_raw_rr d = raw_rr r \<and> bd_effective_rr d = effective_rr r \<and> cost_penalty_rr d = cost_penalty_total r \<and>
     unavailable_fields d = rr_missing_fields r \<and>
     (''LOW_EFFECTIVE_RR'' \<in> set (reject_flags d) \<longleftrightarrow> flt_less (effective_rr r) lim)"
  using assms
  by (auto simp: build_execution_cost_breakdown_def calculate_effective_rr_def bindE_Inr_iff Let_def
      breakdown_flags_def flag_if_def)

theorem breakdown_agrees_witness:
  "\<exists>d r. build_execution_cost_breakdown (VInt 2) demo_ctx (VInt 1) [] False = Inr d \<and>
     calculate_effective_rr (VInt 2) demo_ctx False = Inr r \<and> bd_effective_rr d = effective_rr r"
proof -
  obtain r where r: "calculate_effective_rr (VInt 2) demo_ctx False = Inr r" using demo_effective by blast
  then obtain m where m: "build_execution_cost_model demo_ctx False = Inr m"
    by (auto simp: calculate_effective_rr_def bindE_Inr_iff)
  have raw: "raw_number (VInt 2) = Inr (Fin 2)" by (simp add: raw_number_def py_or_def int_to_float_small)
  obtain vals where v: "mapE (req_float demo_ctx) cost_fields = Inr vals" using m cost_model_Inr by blast
  have lim: "limit_or [] ks d = Inr (fl d)" for ks d
  proof -
    have "dget_first [] ks w = w" for w by (induction ks) simp_all
    then show ?thesis by (simp add: limit_or_def py_or_def)
  qed
  have "\<exists>fl. breakdown_flags f [] mm tot eff (VInt 1) = Inr fl" for f mm tot eff
    by (simp add: lim breakdown_flags_def Let_def int_to_float_small)
  then obtain d where d: "build_execution_cost_breakdown (VInt 2) demo_ctx (VInt 1) [] False = Inr d"
    by (simp add: build_execution_cost_breakdown_def raw m v Let_def) (metis bindE_simps(2))
  show ?thesis using breakdown_agrees [OF d] r d by auto
qed

lemma measured_available: "s \<in> set MEASURED_STATUSES \<Longrightarrow> s \<notin> set UNAVAILABLE_STATUSES"
  by (auto simp: MEASURED_STATUSES_def UNAVAILABLE_STATUSES_def)

lemma filterE_none: "filterE f xs = Inr [] \<longleftrightarrow> (\<forall>x \<in> set xs. f x = Inr False)"
  by (induction xs) (auto simp: bindE_Inr_iff)

text \<open>Evidence is COMPLETE_MEASURED exactly when every required field has a value, all
  seven statuses are measured ones, and none of the zero-sensitive fields is an unverified
  zero; asked for measured evidence, the classifier never answers PARTIAL_ESTIMATED.\<close>

theorem complete_measured_evidence:
  assumes "classify_execution_evidence ctx rm = Inr c"
  shows "(c = EXECUTION_EVIDENCE_COMPLETE_MEASURED \<longleftrightarrow>
      (\<forall>f \<in> set REQUIRED_EXECUTION_FIELDS. \<not> unavailable_value (dget ctx f)) \<and>
      (\<forall>s \<in> set (map snd (evidence_statuses ctx)). s \<in> set MEASURED_STATUSES) \<and>
      (\<forall>f \<in> {''spread_pct'', ''expected_slippage_pct'', ''latency_ms'', ''funding_rate_pct'', ''orderbook_imbalance''}.
         is_fake_zero ctx rm f = Inr False)) \<and>
    (rm \<longrightarrow> c \<noteq> EXECUTION_EVIDENCE_PARTIAL_ESTIMATED)"
proof -
  let ?zs = "[''spread_pct'', ''expected_slippage_pct'', ''latency_ms'', ''funding_rate_pct'', ''orderbook_imbalance'']"
  let ?st = "set (map snd (evidence_statuses ctx))"
  obtain ys where ys: "filterE (is_fake_zero ctx rm) ?zs = Inr ys"
    using assms by (auto simp only: classify_execution_evidence_def Let_def bindE_Inr_iff)
  have z: "ys = [] \<longleftrightarrow> (\<forall>f \<in> set ?zs. is_fake_zero ctx rm f = Inr False)"
    using ys filterE_none [of "is_fake_zero ctx rm" ?zs] by auto
  have ne: "?st \<noteq> {}" by (simp add: evidence_statuses_def)
  have mis: "filter (\<lambda>f. unavailable_value (dget ctx f)) REQUIRED_EXECUTION_FIELDS = [] \<longleftrightarrow>
      (\<forall>f \<in> set REQUIRED_EXECUTION_FIELDS. \<not> unavailable_value (dget ctx f))"
    by (simp add: filter_empty_conv)
  have av: "\<forall>s \<in> ?st. s \<in> set MEASURED_STATUSES \<Longrightarrow> \<not> (\<exists>s \<in> ?st. s \<in> set UNAVAILABLE_STATUSES)"
    using measured_available by blast
  have c: "c = (if ys \<noteq> [] then EXECUTION_EVIDENCE_INVALID_FAKE_ZERO
      else if \<not> (\<forall>f \<in> set REQUIRED_EXECUTION_FIELDS. \<not> unavailable_value (dget ctx f)) \<or> (\<exists>s \<in> ?st. s \<in> set UNAVAILABLE_STATUSES)
        then EXECUTION_EVIDENCE_UNAVAILABLE_BLOCKING
      else if rm \<and> (\<exists>s \<in> ?st. s \<notin> set MEASURED_STATUSES) then EXECUTION_EVIDENCE_UNAVAILABLE_BLOCKING
      else if \<forall>s \<in> ?st. s \<in> set MEASURED_STATUSES then EXECUTION_EVIDENCE_COMPLETE_MEASURED
      else if \<exists>s \<in> ?st. s \<in> set ESTIMATED_STATUSES then EXECUTION_EVIDENCE_PARTIAL_ESTIMATED
      else EXECUTION_EVIDENCE_UNAVAILABLE_BLOCKING)"
    using assms ys unfolding classify_execution_evidence_def Let_def mis by (simp del: set_map)
  have names: "EXECUTION_EVIDENCE_COMPLETE_MEASURED \<noteq> EXECUTION_EVIDENCE_INVALID_FAKE_ZERO"
    "EXECUTION_EVIDENCE_COMPLETE_MEASURED \<noteq> EXECUTION_EVIDENCE_UNAVAILABLE_BLOCKING"
    "EXECUTION_EVIDENCE_COMPLETE_MEASURED \<noteq> EXECUTION_EVIDENCE_PARTIAL_ESTIMATED"
    "EXECUTION_EVIDENCE_PARTIAL_ESTIMATED \<noteq> EXECUTION_EVIDENCE_INVALID_FAKE_ZERO"
    "EXECUTION_EVIDENCE_PARTIAL_ESTIMATED \<noteq> EXECUTION_EVIDENCE_UNAVAILABLE_BLOCKING"
    by (simp_all add: evidence_names)
  show ?thesis unfolding c using av z names by (auto simp del: set_map)
qed

definition measured_ctx :: pydict where
  "measured_ctx = map (\<lambda>k. (k, VStr ''MEASURED'')) [''spread_status'', ''slippage_status'', ''latency_status'',
      ''liquidity_status'', ''funding_status'', ''orderbook_status'', ''volatility_status'', ''fee_status'']
    @ map (\<lambda>k. (k, VFloat (Fin (1 / 4096)))) [''spread_pct'', ''expected_slippage_pct'', ''fee_pct'', ''latency_ms'',
      ''funding_rate_pct'', ''orderbook_imbalance'']
    @ [(''liquidity_score'', VInt 1), (''volatility_regime'', VStr ''normal'')]"

lemma measured_ctx_class: "classify_execution_evidence measured_ctx True = Inr EXECUTION_EVIDENCE_COMPLETE_MEASURED"
  by (simp add: classify_execution_evidence_def Let_def is_fake_zero_def measured_ctx_def evidence_statuses_def
      status_text_def py_upper_id REQUIRED_EXECUTION_FIELDS_def unavailable_value_def in_strs_def zero_verified_def
      MEASURED_STATUSES_def UNAVAILABLE_STATUSES_def)

theorem complete_measured_evidence_witness:
  "classify_execution_evidence measured_ctx True = Inr EXECUTION_EVIDENCE_COMPLETE_MEASURED \<and>
   status_text measured_ctx ''orderbook_status'' \<in> set MEASURED_STATUSES"
proof -
  have "status_text measured_ctx ''orderbook_status'' \<in> set (map snd (evidence_statuses measured_ctx))"
    by (simp add: evidence_statuses_def)
  then show ?thesis using complete_measured_evidence [OF measured_ctx_class] measured_ctx_class by blast
qed

end
