(* ===== verification/ExecutionGeometry.thy ===== *)
theory ExecutionGeometry
  imports ExecutionCost
begin

section \<open>Fills, decision risk/reward and stop risk (\<^verbatim>\<open>execution.py\<close>)\<close>

text \<open>
  The price geometry around an order: the cost decomposition entry, expected fill, actual
  fill; the adverse fill estimate; the risk/reward at decision time; the stop-distance
  evidence and its policy; the quantity-weighted fill price. A loosely typed argument is a
  \<open>pyval\<close>, a missing one is \<open>VNone\<close>.
\<close>

subsection \<open>Prices and provenance\<close>

definition PROVENANCE_ACTUAL :: string where "PROVENANCE_ACTUAL = ''ACTUAL''"
definition PROVENANCE_ESTIMATED :: string where "PROVENANCE_ESTIMATED = ''ESTIMATED''"
definition PROVENANCE_ASSUMED :: string where "PROVENANCE_ASSUMED = ''ASSUMED''"
definition PROVENANCE_MODELLED :: string where "PROVENANCE_MODELLED = SOURCE_MODELLED"
definition PROVENANCE_UNAVAILABLE :: string where "PROVENANCE_UNAVAILABLE = SOURCE_UNAVAILABLE"

definition EXECUTION_COST_PROVENANCE :: "string list" where
  "EXECUTION_COST_PROVENANCE =
    [PROVENANCE_ACTUAL, PROVENANCE_ESTIMATED, PROVENANCE_ASSUMED, PROVENANCE_MODELLED, PROVENANCE_UNAVAILABLE]"

lemmas provenance_names = PROVENANCE_ACTUAL_def PROVENANCE_ESTIMATED_def PROVENANCE_ASSUMED_def
  PROVENANCE_MODELLED_def PROVENANCE_UNAVAILABLE_def SOURCE_MODELLED_def SOURCE_UNAVAILABLE_def

definition finite_positive_price :: "pyval \<Rightarrow> string \<Rightarrow> flt py" where
  "finite_positive_price value field =
    (let bad = Inl (ValueError (field @ '' must be a finite positive price'')) in
     if is_bool value then bad
     else case py_float value of
       Inl e \<Rightarrow> if type_or_value e then bad else Inl e
     | Inr price \<Rightarrow> if flt_less (Fin 0) price \<and> is_finite price then Inr price else bad)"

definition execution_cost_provenance :: "pyval \<Rightarrow> bool \<Rightarrow> string py" where
  "execution_cost_provenance value actual_fill_available =
    (let provenance = py_upper (py_strip (str_or value PROVENANCE_UNAVAILABLE)) in
     if provenance \<notin> set EXECUTION_COST_PROVENANCE
       then Inl (ValueError (''unsupported execution-cost provenance: '' @ provenance))
     else if \<not> actual_fill_available then Inr PROVENANCE_UNAVAILABLE
     else Inr provenance)"

definition normalized_side :: "pyval \<Rightarrow> string" where
  "normalized_side side = py_upper (py_strip (str_or side []))"

definition require_side :: "pyval \<Rightarrow> string py" where
  "require_side side =
    (let s = normalized_side side in
     if s \<in> {''LONG'', ''SHORT''} then Inr s else Inl (ValueError ''side must be LONG or SHORT''))"

subsection \<open>The cost decomposition\<close>

record ExecutionCostSemantics =
  cs_side :: string
  cs_entry :: flt
  cs_expected_fill :: flt
  cs_actual_fill :: "flt option"
  expected_execution_cost_price :: flt
  expected_execution_cost_pct :: flt
  expected_execution_cost_bps :: flt
  realized_execution_deviation_price :: "flt option"
  realized_execution_deviation_pct :: "flt option"
  realized_execution_deviation_bps :: "flt option"
  total_realized_execution_cost_price :: "flt option"
  total_realized_execution_cost_pct :: "flt option"
  total_realized_execution_cost_bps :: "flt option"
  expected_fill_provenance :: string
  actual_fill_provenance :: string
  decision_timestamp :: pyval
  fill_timestamp :: pyval

definition optional_price :: "pyval \<Rightarrow> string \<Rightarrow> flt option py" where
  "optional_price v field = (if v = VNone then Inr None else bindE (finite_positive_price v field) (\<lambda>p. Inr (Some p)))"

definition build_execution_cost_semantics ::
  "pyval \<Rightarrow> pyval \<Rightarrow> pyval \<Rightarrow> pyval \<Rightarrow> pyval \<Rightarrow> pyval \<Rightarrow> pyval \<Rightarrow> pyval \<Rightarrow> ExecutionCostSemantics py" where
  "build_execution_cost_semantics entry expected_fill actual_fill side exp_provenance act_provenance decision_ts fill_ts =
    bindE (require_side side) (\<lambda>s.
    bindE (finite_positive_price entry ''entry'') (\<lambda>entry_price.
    bindE (finite_positive_price expected_fill ''expected_fill'') (\<lambda>expected_price.
    bindE (optional_price actual_fill ''actual_fill'') (\<lambda>actual_price.
    let sign = Fin (if s = ''LONG'' then 1 else - 1);
        expected_cost = fmul sign (fsub expected_price entry_price);
        expected_pct = fdiv expected_cost entry_price;
        deviation = map_option (\<lambda>a. fmul sign (fsub a expected_price)) actual_price;
        total_cost = map_option (\<lambda>a. fmul sign (fsub a entry_price)) actual_price
    in bindE (execution_cost_provenance exp_provenance True) (\<lambda>exp_prov.
       bindE (execution_cost_provenance act_provenance (actual_price \<noteq> None)) (\<lambda>act_prov. Inr
         \<lparr>cs_side = s, cs_entry = entry_price, cs_expected_fill = expected_price, cs_actual_fill = actual_price,
          expected_execution_cost_price = expected_cost, expected_execution_cost_pct = expected_pct,
          expected_execution_cost_bps = fmul expected_pct (Fin 10000),
          realized_execution_deviation_price = deviation,
          realized_execution_deviation_pct = map_option (\<lambda>d. fdiv d entry_price) deviation,
          realized_execution_deviation_bps = map_option (\<lambda>d. fmul (fdiv d entry_price) (Fin 10000)) deviation,
          total_realized_execution_cost_price = total_cost,
          total_realized_execution_cost_pct = map_option (\<lambda>d. fdiv d entry_price) total_cost,
          total_realized_execution_cost_bps = map_option (\<lambda>d. fmul (fdiv d entry_price) (Fin 10000)) total_cost,
          expected_fill_provenance = exp_prov, actual_fill_provenance = act_prov, decision_timestamp = decision_ts,
          fill_timestamp = (if actual_price \<noteq> None then fill_ts else VNone)\<rparr>))))))"

definition decision_time_dict :: "ExecutionCostSemantics \<Rightarrow> pydict" where
  "decision_time_dict c =
    [(''entry'', VFloat (cs_entry c)), (''expected_fill'', VFloat (cs_expected_fill c)),
     (''expected_execution_cost_price'', VFloat (expected_execution_cost_price c)),
     (''expected_execution_cost_pct'', VFloat (expected_execution_cost_pct c)),
     (''expected_execution_cost_bps'', VFloat (expected_execution_cost_bps c)),
     (''expected_fill_provenance'', VStr (expected_fill_provenance c)),
     (''decision_timestamp'', decision_timestamp c),
     (''reference_price'', VStr ''STRATEGY_ENTRY''), (''percentage_denominator'', VStr ''STRATEGY_ENTRY''),
     (''sign_convention'', VStr ''POSITIVE_IS_ADVERSE''), (''fee_treatment'', VStr ''SEPARATE_NOT_INCLUDED'')]"

definition cost_semantics_as_dict :: "ExecutionCostSemantics \<Rightarrow> pydict" where
  "cost_semantics_as_dict c = decision_time_dict c @
    [(''actual_fill'', flt_opt_val (cs_actual_fill c)),
     (''realized_execution_deviation_price'', flt_opt_val (realized_execution_deviation_price c)),
     (''realized_execution_deviation_pct'', flt_opt_val (realized_execution_deviation_pct c)),
     (''realized_execution_deviation_bps'', flt_opt_val (realized_execution_deviation_bps c)),
     (''total_realized_execution_cost_price'', flt_opt_val (total_realized_execution_cost_price c)),
     (''total_realized_execution_cost_pct'', flt_opt_val (total_realized_execution_cost_pct c)),
     (''total_realized_execution_cost_bps'', flt_opt_val (total_realized_execution_cost_bps c)),
     (''actual_fill_provenance'', VStr (actual_fill_provenance c)), (''fill_timestamp'', fill_timestamp c)]"

definition adverse_expected_fill_price :: "pyval \<Rightarrow> pyval \<Rightarrow> pyval \<Rightarrow> flt py" where
  "adverse_expected_fill_price entry side slippage_pct =
    bindE (finite_positive_price entry ''entry'') (\<lambda>entry_price.
    bindE (require_side side) (\<lambda>s.
    let bad = Inl (ValueError ''slippage_pct must be finite and non-negative'') in
    bindE (case py_float slippage_pct of
        Inl e \<Rightarrow> if type_or_value e then bad else Inl e
      | Inr slip \<Rightarrow> if is_finite slip \<and> \<not> flt_less slip (Fin 0) then Inr slip else bad) (\<lambda>slip.
      finite_positive_price (VFloat (fmul entry_price
        (if s = ''LONG'' then fadd (Fin 1) slip else fsub (Fin 1) slip))) ''expected_fill'')))"

subsection \<open>Risk/reward at decision time\<close>

record DecisionRR =
  candidate_rr :: flt
  expected_fill :: "flt option"
  fill_slippage_pct :: "flt option"
  cost_semantics :: "pydict option"
  executable_raw_rr :: flt
  remaining_execution_penalty :: flt
  decision_effective_rr :: flt

definition decision_fill :: "pydict \<Rightarrow> pydict \<Rightarrow> string \<Rightarrow> pyval \<Rightarrow> (flt option \<times> flt option) py" where
  \<comment> \<open>the expected fill and its slippage; both None where the inputs do not give them\<close>
  "decision_fill market_ctx execution_ctx mode_value paper_slippage_bps =
    catch_tv
      (bindE (py_float (dget market_ctx ''entry'')) (\<lambda>entry.
        if \<not> is_finite entry \<or> flt_le entry (Fin 0) then Inl (ValueError ''invalid entry'')
        else bindE (if mode_value = ''PAPER'' \<and> paper_slippage_bps \<noteq> VNone
            then bindE (py_float paper_slippage_bps) (\<lambda>b. Inr (fdiv (py_max b (Fin 0)) (Fin 10000)))
            else (let raw_slippage = dget execution_ctx ''expected_slippage_pct'' in
                  if raw_slippage = VNone then Inl (ValueError ''missing expected slippage'')
                  else bindE (py_float raw_slippage) (\<lambda>x. Inr (py_max x (Fin 0))))) (\<lambda>slip.
          bindE (adverse_expected_fill_price (VFloat entry) (py_or (dget market_ctx ''side'') (VStr ''LONG'')) (VFloat slip))
            (\<lambda>fill. Inr (Some (py_round fill 8), Some slip)))))
      (None, None)"

definition reward_over_risk :: "flt \<Rightarrow> flt \<Rightarrow> flt" where
  "reward_over_risk risk reward =
    (if flt_le risk (Fin 0) \<or> flt_le reward (Fin 0) then Fin 0
     else if is_finite (fdiv reward risk) then fdiv reward risk else Fin 0)"

definition geometry_rr :: "flt option \<Rightarrow> pydict \<Rightarrow> flt option py" where
  \<comment> \<open>reward over risk from the expected fill; None where the geometry is not usable\<close>
  "geometry_rr fill market_ctx =
    catch_tv
      (bindE (case fill of None \<Rightarrow> Inl TypeError | Some p \<Rightarrow> Inr p) (\<lambda>fill_price.
       bindE (py_float (dget market_ctx ''sl'')) (\<lambda>stop_price.
       bindE (py_float (dget market_ctx ''tp'')) (\<lambda>target_price.
         if \<not> (is_finite fill_price \<and> is_finite stop_price \<and> is_finite target_price)
           then Inl (ValueError ''invalid geometry'')
         else
           (let side = normalized_side (dget market_ctx ''side'')
            in if side = ''LONG'' then Inr (Some (reward_over_risk (fsub fill_price stop_price) (fsub target_price fill_price)))
               else if side = ''SHORT'' then Inr (Some (reward_over_risk (fsub stop_price fill_price) (fsub fill_price target_price)))
               else Inl (ValueError ''invalid side''))))))
      None"

definition build_decision_rr_metrics ::
  "pyval \<Rightarrow> pydict \<Rightarrow> pydict \<Rightarrow> string \<Rightarrow> pyval \<Rightarrow> DecisionRR py" where
  "build_decision_rr_metrics raw0 market_ctx execution_ctx mode paper_slippage_bps =
    (let mode_value = py_upper mode in
     bindE (raw_number raw0) (\<lambda>candidate.
     bindE (decision_fill market_ctx execution_ctx mode_value paper_slippage_bps) (\<lambda>(fill, slip).
     bindE (geometry_rr fill market_ctx) (\<lambda>geometry.
     bindE (build_execution_cost_model execution_ctx False) (\<lambda>model.
     let executable = (case geometry of None \<Rightarrow> candidate | Some g \<Rightarrow> g);
         remaining = (case geometry of None \<Rightarrow> total_penalty model
            | Some _ \<Rightarrow> py_max (fsub (total_penalty model) (fdiv (slippage_penalty model) (Fin 2))) (Fin 0));
         effective = py_max (fsub executable remaining) (Fin 0)
     in bindE (case fill of None \<Rightarrow> Inr None
           | Some p \<Rightarrow> catch_value (bindE (build_execution_cost_semantics (dget market_ctx ''entry'') (VFloat p) VNone
                 (dget market_ctx ''side'')
                 (VStr (if mode_value = ''PAPER'' then PROVENANCE_MODELLED else PROVENANCE_ESTIMATED))
                 (VStr PROVENANCE_UNAVAILABLE) (dget market_ctx ''decision_timestamp'') VNone)
               (\<lambda>c. Inr (Some (decision_time_dict c)))) None) (\<lambda>sem. Inr
        \<lparr>candidate_rr = py_round candidate 6, expected_fill = fill, fill_slippage_pct = slip, cost_semantics = sem,
         executable_raw_rr = py_round executable 6, remaining_execution_penalty = py_round remaining 6,
         decision_effective_rr = py_round effective 6\<rparr>))))))"

definition semantics_entry :: "pydict option \<Rightarrow> string \<Rightarrow> pyval" where
  \<comment> \<open>\<^verbatim>\<open>cost_semantics.get(k) if cost_semantics else None\<close>\<close>
  "semantics_entry sem k = (case sem of None \<Rightarrow> VNone | Some d \<Rightarrow> dget d k)"

definition decision_rr_as_dict :: "DecisionRR \<Rightarrow> pydict" where
  "decision_rr_as_dict d =
    [(''candidate_rr'', VFloat (candidate_rr d)), (''expected_fill'', flt_opt_val (expected_fill d)),
     (''fill_slippage_pct'', flt_opt_val (fill_slippage_pct d)),
     (''expected_execution_cost_price'', semantics_entry (cost_semantics d) ''expected_execution_cost_price''),
     (''expected_execution_cost_pct'', semantics_entry (cost_semantics d) ''expected_execution_cost_pct''),
     (''expected_execution_cost_bps'', semantics_entry (cost_semantics d) ''expected_execution_cost_bps''),
     (''execution_cost_semantics'', (case cost_semantics d of None \<Rightarrow> VNone | Some s \<Rightarrow> VDict s)),
     (''executable_raw_rr'', VFloat (executable_raw_rr d)),
     (''remaining_execution_penalty'', VFloat (remaining_execution_penalty d)),
     (''effective_rr'', VFloat (decision_effective_rr d))]"

subsection \<open>Stop-distance evidence and policy\<close>

definition price_or_none :: "pyval \<Rightarrow> string \<Rightarrow> flt option py" where
  \<comment> \<open>\<^verbatim>\<open>try: _finite_positive_price(v, field=f) except ValueError: None\<close>\<close>
  "price_or_none v field = catch_value (bindE (finite_positive_price v field) (\<lambda>p. Inr (Some p))) None"

definition distance_pct :: "flt option \<Rightarrow> flt option \<Rightarrow> flt option" where
  "distance_pct entry stop = (case (entry, stop) of
     (Some e, Some s) \<Rightarrow> Some (fmul (fdiv (flt_abs (fsub e s)) e) (Fin 100)) | _ \<Rightarrow> None)"

definition build_stop_risk_metrics :: "pyval \<Rightarrow> pyval \<Rightarrow> pyval \<Rightarrow> bool \<Rightarrow> pydict py" where
  "build_stop_risk_metrics planned_entry fill stop allow_planned_fallback =
    bindE (price_or_none planned_entry ''planned_entry'') (\<lambda>planned.
    bindE (price_or_none stop ''stop'') (\<lambda>stop_price.
    bindE (price_or_none fill ''expected_fill'') (\<lambda>executable0.
    let fallback = (executable0 = None \<and> allow_planned_fallback \<and> planned \<noteq> None);
        executable = (if fallback then planned else executable0);
        basis = (if fallback then ''PLANNED_ENTRY_BACKTEST'' else ''EXPECTED_FILL'');
        status = (if planned = None \<or> stop_price = None then EXECUTION_EVIDENCE_UNAVAILABLE_BLOCKING
                  else if executable0 \<noteq> None then ''COMPLETE''
                  else if fallback then ''PLANNED_FALLBACK'' else EXECUTION_EVIDENCE_UNAVAILABLE_BLOCKING);
        missing = flag_if (planned = None) ''planned_entry'' @ flag_if (stop_price = None) ''stop''
          @ flag_if (executable0 = None \<and> \<not> fallback) ''expected_fill'';
        executable_pct = distance_pct executable stop_price
    in Inr [(''planned_entry'', flt_opt_val planned), (''executable_entry'', flt_opt_val executable),
        (''stop'', flt_opt_val stop_price),
        (''planned_stop_distance_pct'', flt_opt_val (distance_pct planned stop_price)),
        (''executable_stop_distance_pct'', flt_opt_val executable_pct), (''stop_distance_pct'', flt_opt_val executable_pct),
        (''stop_distance_basis'', VStr basis), (''stop_risk_evidence_status'', VStr status),
        (''stop_risk_missing_fields'', VList (map VStr (sorted_set missing)))])))"

definition dindex :: "pydict \<Rightarrow> string \<Rightarrow> pyval py" where
  \<comment> \<open>\<^verbatim>\<open>d[k]\<close>\<close>
  "dindex d k = (case map_of d k of None \<Rightarrow> Inl (KeyError k) | Some v \<Rightarrow> Inr v)"

definition config_float :: "pydict \<Rightarrow> string \<Rightarrow> flt py" where
  "config_float config k = bindE (dindex config k) py_float"

definition float_or_ninf :: "pyval \<Rightarrow> flt py" where
  \<comment> \<open>\<^verbatim>\<open>try: float(v) except (TypeError, ValueError): float("-inf")\<close>\<close>
  "float_or_ninf v = catch_tv (py_float v) NInf"

definition unknown_stop :: "pydict \<Rightarrow> pydict" where
  "unknown_stop metrics = dupdate metrics
    [(''accepted'', VBool False), (''reject_reason'', VStr ''UNKNOWN_EXECUTION_CONTEXT''),
     (''stop_too_wide_softened'', VBool False), (''risk_scale'', VFloat (Fin 1))]"

definition wide_stop :: "pydict \<Rightarrow> flt \<Rightarrow> flt \<Rightarrow> pyval \<Rightarrow> pyval \<Rightarrow> pydict \<Rightarrow> bool \<Rightarrow> pydict py" where
  \<comment> \<open>the branch of a stop wider than the maximum\<close>
  "wide_stop result stop_value max_stop score eff config bypass =
    bindE (config_float config ''STOP_TOO_WIDE_SOFT_SCORE_MIN'') (\<lambda>soft_score_min.
    bindE (float_or_ninf score) (\<lambda>score0.
    let score_value = (if flt_less (Fin 1) soft_score_min \<and> flt_le (Fin 0) score0 \<and> flt_less score0 (Fin 1)
                       then fmul score0 (Fin 10) else score0) in
    bindE (float_or_ninf eff) (\<lambda>effective_value.
    bindE (config_float config ''STOP_TOO_WIDE_EXTREME_MULT'') (\<lambda>mult.
    let extreme = flt_less (fmul max_stop mult) stop_value;
        eligible0 = (truthy (dget_or config ''STOP_TOO_WIDE_SOFTEN_FOR_HIGH_SCORE'' (VBool True)) \<and>
          is_finite score_value \<and> flt_le soft_score_min score_value \<and> is_finite effective_value) in
    bindE (if eligible0 then bindE (config_float config ''STOP_TOO_WIDE_SOFT_EFFECTIVE_RR_MIN'')
             (\<lambda>m. Inr (flt_le m effective_value)) else Inr False) (\<lambda>soft_eligible.
    bindE (dindex config ''STOP_TOO_WIDE_HARD_REJECT'') (\<lambda>hard.
    if truthy hard \<and> (extreme \<or> \<not> soft_eligible) \<and> \<not> bypass then
      Inr (dupdate result [(''accepted'', VBool False), (''reject_reason'', VStr ''STOP_TOO_WIDE''),
        (''stop_too_wide_softened'', VBool False), (''stop_too_wide_extreme'', VBool extreme),
        (''stop_too_wide_soft_eligible'', VBool soft_eligible)])
    else bindE (config_float config ''STOP_TOO_WIDE_MAX_RISK_SCALE'') (\<lambda>scale.
      Inr (dupdate result [(''accepted'', VBool True), (''reject_reason'', VStr []),
        (''stop_too_wide_softened'', VBool True), (''stop_too_wide_extreme'', VBool extreme),
        (''stop_too_wide_soft_eligible'', VBool soft_eligible), (''stop_too_wide_bypassed'', VBool bypass),
        (''risk_scale'', VFloat (py_min (py_max scale (Fin 0)) (Fin 1)))]))))))))"

definition evaluate_stop_risk_policy :: "pydict \<Rightarrow> pyval \<Rightarrow> pyval \<Rightarrow> pydict \<Rightarrow> bool \<Rightarrow> pydict py" where
  "evaluate_stop_risk_policy metrics score eff config bypass_wide_reject =
    (if dget metrics ''stop_risk_evidence_status'' = VStr EXECUTION_EVIDENCE_UNAVAILABLE_BLOCKING
       then Inr (unknown_stop metrics)
     else bindE (catch_tv (bindE (py_float (dget metrics ''stop_distance_pct'')) (\<lambda>x. Inr (Some x))) None) (\<lambda>stop.
       case Option.bind stop (\<lambda>x. if is_finite x then Some x else None) of
         None \<Rightarrow> Inr (unknown_stop metrics)
       | Some stop_value \<Rightarrow>
          bindE (config_float config ''MIN_SL_PCT'') (\<lambda>min_stop.
          bindE (config_float config ''MAX_SL_PCT'') (\<lambda>max_stop.
          let result = dupdate metrics [(''min_stop_pct'', VFloat min_stop), (''max_stop_pct'', VFloat max_stop),
                (''accepted'', VBool True), (''reject_reason'', VStr []), (''stop_too_wide_softened'', VBool False),
                (''risk_scale'', VFloat (Fin 1))]
          in if flt_less stop_value min_stop then
               Inr (dupdate result [(''accepted'', VBool False), (''reject_reason'', VStr ''STOP_TOO_TIGHT'')])
             else if flt_le stop_value max_stop then Inr result
             else wide_stop result stop_value max_stop score eff config bypass_wide_reject))))"

subsection \<open>The weighted fill price\<close>

fun fin_rat :: "flt \<Rightarrow> rat" where
  \<comment> \<open>the value of a finite float; only finite ones reach \<^verbatim>\<open>math.fsum\<close> below\<close>
  "fin_rat (Fin r) = r" | "fin_rat _ = 0"

definition fill_row :: "pyval \<Rightarrow> (flt \<times> flt) py" where
  "fill_row row = (case row of
     VDict d \<Rightarrow> bindE (finite_positive_price (dget d ''price'') ''fill.price'') (\<lambda>price.
       bindE (finite_positive_price (dget_or d ''qty'' (dget d ''quantity'')) ''fill.qty'') (\<lambda>quantity. Inr (price, quantity)))
   | _ \<Rightarrow> Inl (ValueError ''fill evidence must be a mapping''))"

definition max_of :: "flt list \<Rightarrow> flt" where
  \<comment> \<open>\<^verbatim>\<open>max(xs)\<close> of a nonempty list\<close>
  "max_of xs = foldl py_max (hd xs) (tl xs)"

definition weighted_ratio :: "flt list \<Rightarrow> flt list \<Rightarrow> flt" where
  "weighted_ratio prices quantities =
    (let weights = map (\<lambda>q. fdiv q (max_of quantities)) quantities in
     fdiv (flt_fsum (map2 (\<lambda>p w. fin_rat (fmul (fdiv p (max_of prices)) w)) prices weights))
          (flt_fsum (map fin_rat weights)))"

definition weighted_average_fill_price :: "pyval list \<Rightarrow> flt option py" where
  "weighted_average_fill_price rows =
    (if rows = [] then Inr None
     else bindE (mapE fill_row rows) (\<lambda>fills.
       let prices = map fst fills; quantities = map snd fills in
       bindE (finite_positive_price (VFloat (fmul (max_of prices) (py_min (weighted_ratio prices quantities) (Fin 1))))
         ''weighted_fill'') (\<lambda>p. Inr (Some p))))"

subsection \<open>Persisted records and fill review\<close>

definition record_side :: "pydict \<Rightarrow> string" where
  "record_side record =
    (let raw = normalized_side (dget record ''side'') in
     if raw = ''BUY'' then ''LONG'' else if raw = ''SELL'' then ''SHORT'' else raw)"

definition record_expected_fill :: "pydict \<Rightarrow> string \<Rightarrow> pyval option py" where
  \<comment> \<open>None where the function gives up\<close>
  "record_expected_fill record side =
    (let entry = dget_first record [''entry'', ''entry_price''] VNone;
         expected = dget_first record [''expected_fill'', ''expected_fill_price''] VNone in
     if expected = VNone \<and> dget record ''expected_slippage_pct'' \<noteq> VNone then
       catch_tv (bindE (finite_positive_price entry ''entry'') (\<lambda>entry_price.
         bindE (py_float (dget record ''expected_slippage_pct'')) (\<lambda>pct.
           Inr (Some (VFloat (fmul entry_price
             (if side = ''LONG'' then fadd (Fin 1) (flt_abs pct) else fsub (Fin 1) (flt_abs pct)))))))) None
     else Inr (Some expected))"

definition execution_cost_semantics_from_record :: "pydict \<Rightarrow> ExecutionCostSemantics option py" where
  "execution_cost_semantics_from_record record =
    (let side = record_side record in
     if side \<notin> {''LONG'', ''SHORT''} then Inr None
     else bindE (record_expected_fill record side) (\<lambda>expected0.
       case expected0 of None \<Rightarrow> Inr None
       | Some expected \<Rightarrow>
         (let entry = dget_first record [''entry'', ''entry_price''] VNone;
              actual = dget_first record [''actual_fill'', ''filled_entry_price''] VNone;
              mode = normalized_side (dget record ''mode'');
              exp_prov = str_or (dget record ''expected_fill_provenance'')
                (if mode = ''PAPER'' then PROVENANCE_MODELLED else PROVENANCE_ESTIMATED);
              act0 = dget record ''actual_fill_provenance'';
              act_prov = (if act0 = VNone
                then (if actual \<noteq> VNone \<and> mode = ''PAPER'' then PROVENANCE_MODELLED else PROVENANCE_UNAVAILABLE)
                else py_str act0)
          in catch_value (bindE (build_execution_cost_semantics entry expected actual (VStr side) (VStr exp_prov)
                (VStr act_prov) (dget_first record [''decision_timestamp'', ''decision_time''] VNone)
                (dget_first record [''fill_timestamp'', ''filled_at''] VNone)) (\<lambda>c. Inr (Some c))) None)))"

definition fill_quality :: "flt option \<Rightarrow> flt option" where
  "fill_quality deviation_pct = map_option (\<lambda>d.
     py_max (Fin 0) (py_min (Fin 1) (fsub (Fin 1) (fmul (py_max d (Fin 0)) (Fin 100))))) deviation_pct"

definition build_execution_review_metrics :: "pydict \<Rightarrow> pydict py" where
  "build_execution_review_metrics record =
    bindE (execution_cost_semantics_from_record record) (\<lambda>sem. Inr (case sem of
      None \<Rightarrow>
       [(''entry_price'', dget record ''entry_price''), (''expected_fill_price'', dget record ''expected_fill''),
        (''filled_entry_price'', dget record ''filled_entry_price''), (''expected_slippage_pct'', VNone),
        (''realized_slippage_pct'', VNone), (''fill_quality_score'', VNone),
        (''actual_fill_provenance'', VStr PROVENANCE_UNAVAILABLE),
        (''execution_cost_semantics_status'', VStr ''UNAVAILABLE'')]
    | Some c \<Rightarrow> dupdate (cost_semantics_as_dict c)
       [(''entry_price'', VFloat (cs_entry c)), (''expected_fill_price'', VFloat (cs_expected_fill c)),
        (''filled_entry_price'', flt_opt_val (cs_actual_fill c)),
        (''expected_slippage_pct'', VFloat (expected_execution_cost_pct c)),
        (''realized_slippage_pct'', flt_opt_val (total_realized_execution_cost_pct c)),
        (''actual_slippage_pct_semantics'', VStr ''TOTAL_REALIZED_EXECUTION_COST_PCT''),
        (''fill_quality_score'', flt_opt_val (fill_quality (realized_execution_deviation_pct c))),
        (''execution_cost_semantics_status'', VStr ''AVAILABLE'')]))"

subsection \<open>Facts about prices\<close>

lemma finite_positive_price_Inr:
  "finite_positive_price v f = Inr p \<longleftrightarrow> \<not> is_bool v \<and> py_float v = Inr p \<and> flt_less (Fin 0) p \<and> is_finite p"
  by (auto simp: finite_positive_price_def Let_def split: sum.splits if_splits)

lemma finite_positive_fin: "flt_less (Fin 0) p \<Longrightarrow> is_finite p \<Longrightarrow> \<exists>x. p = Fin x \<and> 0 < x"
  by (cases p) auto

lemma require_side_Inr: "require_side s = Inr t \<longleftrightarrow> t = normalized_side s \<and> t \<in> {''LONG'', ''SHORT''}"
  by (auto simp: require_side_def Let_def)

lemma is_f64_fin: "is_f64 (Fin x) \<longleftrightarrow> fl x = Fin x"
  by (simp add: is_f64_def)

lemma fmul_fin_ge:
  assumes "fl x = Fin x" "0 < x" "flt_le (Fin 1) m"
  shows "flt_le (Fin x) (fmul (Fin x) m)"
  using fl_mono [of x "x * y" for y] assms by (cases m) (auto simp: flt_inf_def)

lemma fmul_fin_le:
  assumes "fl x = Fin x" "0 < x" "flt_le m (Fin 1)"
  shows "flt_le (fmul (Fin x) m) (Fin x)"
  using fl_mono [of "x * y" x for y] assms by (cases m) (auto simp: flt_inf_def mult_left_le)

subsection \<open>Properties\<close>

text \<open>The decision-time fill estimate is never better than the entry. For an entry
  that is a float, the estimate of a LONG is at or above the entry and the estimate of a
  SHORT is at or below it.\<close>

theorem expected_fill_is_adverse:
  assumes "adverse_expected_fill_price entry side slip = Inr p"
    and "py_float entry = Inr e" and "is_f64 e"
  shows "normalized_side side = ''LONG'' \<and> flt_le e p \<or> normalized_side side = ''SHORT'' \<and> flt_le p e"
proof -
  obtain s where s: "is_finite s" "\<not> flt_less s (Fin 0)" and side: "normalized_side side \<in> {''LONG'', ''SHORT''}"
    and pe: "flt_less (Fin 0) e" "is_finite e"
    and p: "p = fmul e (if normalized_side side = ''LONG'' then fadd (Fin 1) s else fsub (Fin 1) s)"
    using assms(1,2)
    by (auto simp: adverse_expected_fill_price_def bindE_Inr_iff finite_positive_price_Inr require_side_Inr Let_def
        split: sum.splits if_splits)
  obtain x where x: "e = Fin x" "0 < x" using finite_positive_fin [OF pe] by blast
  obtain y where y: "s = Fin y" "0 \<le> y" using s by (auto elim!: is_finiteE)
  have "flt_le (Fin 1) (fadd (Fin 1) s)" "flt_le (fsub (Fin 1) s) (Fin 1)"
    using fl_mono [of 1 "1 + y"] fl_mono [of "1 - y" 1] y by (simp_all add: fsub_def)
  then show ?thesis
    using side p x assms(3) fmul_fin_ge [of x] fmul_fin_le [of x] by (auto simp: is_f64_fin)
qed

theorem expected_fill_is_adverse_witness:
  "\<exists>p. adverse_expected_fill_price (VInt 100) (VStr ''short'') (VFloat (Fin (1 / 1024))) = Inr p \<and> flt_le p (Fin 100)"
proof -
  have side: "normalized_side (VStr ''short'') = ''SHORT''"
    by (simp add: normalized_side_def str_eval)
  have "fmul (Fin 100) (fsub (Fin 1) (Fin (1 / 1024))) = Fin (25575 / 256)" by (simp add: fl_eval)
  then have r: "adverse_expected_fill_price (VInt 100) (VStr ''short'') (VFloat (Fin (1 / 1024))) = Inr (Fin (25575 / 256))"
    by (simp add: adverse_expected_fill_price_def finite_positive_price_def int_to_float_small require_side_def side Let_def)
  have "is_f64 (Fin 100)" by (simp add: is_f64_fin fl_eval)
  then show ?thesis
    using expected_fill_is_adverse [OF r] r side by (auto simp: int_to_float_small)
qed

lemma signed_cost_pos:
  assumes "flt_less (Fin 0) (fmul (Fin sg) (fsub (Fin a) (Fin b)))" "sg = 1 \<or> sg = - 1"
  shows "sg = 1 \<and> b < a \<or> sg = - 1 \<and> a < b"
proof (rule ccontr)
  assume n: "\<not> ?thesis"
  then have le: "sg * (a - b) \<le> 0" using assms(2) by auto
  show False
  proof (cases "fl (a - b)")
    case (Fin d)
    have "sg * d \<le> 0"
    proof (cases "sg = 1")
      case True then show ?thesis using fl_mono [of "a - b" 0] le Fin by simp
    next
      case False
      then have "sg = - 1" using assms(2) by simp
      then show ?thesis using fl_mono [of 0 "a - b"] le Fin by simp
    qed
    then have "flt_le (fl (sg * d)) (Fin 0)" using fl_mono [of "sg * d" 0] by simp
    then show False using assms(1) Fin by (cases "fl (sg * d)") (auto simp: fsub_def)
  next
    case PInf
    then have "sg = - 1" using le assms(2) fl_mono [of "a - b" 0] by auto
    then show False using assms(1) PInf by (simp add: fsub_def flt_inf_def)
  next
    case NInf
    then have "sg = 1" using le assms(2) fl_mono [of 0 "a - b"] by auto
    then show False using assms(1) NInf by (simp add: fsub_def flt_inf_def)
  qed simp
qed

text \<open>Costs are signed against the trader, and no actual fill is made up. A positive
  expected cost means a fill above the entry of a LONG or below the entry of a SHORT, the
  same holds for the realised cost, and without an actual fill every realised figure, the
  fill time and the fill's provenance are absent.\<close>

theorem cost_sign_and_provenance:
  assumes "build_execution_cost_semantics entry expected actual side ep ap dt ft = Inr c"
  shows "(flt_less (Fin 0) (expected_execution_cost_price c) \<longrightarrow>
      cs_side c = ''LONG'' \<and> flt_less (cs_entry c) (cs_expected_fill c) \<or>
      cs_side c = ''SHORT'' \<and> flt_less (cs_expected_fill c) (cs_entry c)) \<and>
    (\<forall>t a. total_realized_execution_cost_price c = Some t \<and> cs_actual_fill c = Some a \<and> flt_less (Fin 0) t \<longrightarrow>
      cs_side c = ''LONG'' \<and> flt_less (cs_entry c) a \<or> cs_side c = ''SHORT'' \<and> flt_less a (cs_entry c)) \<and>
    (cs_actual_fill c = None \<longleftrightarrow> actual = VNone) \<and>
    (actual = VNone \<longrightarrow> actual_fill_provenance c = PROVENANCE_UNAVAILABLE \<and> fill_timestamp c = VNone \<and>
      realized_execution_deviation_price c = None \<and> total_realized_execution_cost_bps c = None)"
proof -
  obtain s e x a where s: "require_side side = Inr s" "finite_positive_price entry ''entry'' = Inr e"
      "finite_positive_price expected ''expected_fill'' = Inr x" "optional_price actual ''actual_fill'' = Inr a"
    and c: "cs_side c = s" "cs_entry c = e" "cs_expected_fill c = x" "cs_actual_fill c = a"
      "expected_execution_cost_price c = fmul (Fin (if s = ''LONG'' then 1 else - 1)) (fsub x e)"
      "total_realized_execution_cost_price c = map_option (\<lambda>a. fmul (Fin (if s = ''LONG'' then 1 else - 1)) (fsub a e)) a"
      "realized_execution_deviation_price c = map_option (\<lambda>a. fmul (Fin (if s = ''LONG'' then 1 else - 1)) (fsub a x)) a"
      "total_realized_execution_cost_bps c = map_option (\<lambda>d. fmul (fdiv d e) (Fin 10000)) (total_realized_execution_cost_price c)"
      "execution_cost_provenance ap (a \<noteq> None) = Inr (actual_fill_provenance c)"
      "fill_timestamp c = (if a \<noteq> None then ft else VNone)"
    using assms unfolding build_execution_cost_semantics_def bindE_Inr_iff Let_def by (elim exE conjE) (simp only: sum.inject, hypsubst, rule that, assumption+, simp_all)
  have side: "s = ''LONG'' \<or> s = ''SHORT''" using s(1) by (auto simp: require_side_Inr)
  obtain re rx where r: "e = Fin re" "x = Fin rx"
    using s(2,3) by (auto simp: finite_positive_price_Inr elim!: is_finiteE)
  have anone: "a = None \<longleftrightarrow> actual = VNone" using s(4) by (auto simp: optional_price_def bindE_Inr_iff split: if_splits)
  have prov: "a = None \<Longrightarrow> actual_fill_provenance c = PROVENANCE_UNAVAILABLE"
    using c(9) by (auto simp: execution_cost_provenance_def Let_def split: if_splits)
  have fin: "\<And>p. a = Some p \<Longrightarrow> \<exists>r. p = Fin r"
    using s(4) finite_positive_fin
    by (auto simp: optional_price_def bindE_Inr_iff finite_positive_price_Inr split: if_splits)
  have 1: "flt_less (Fin 0) (expected_execution_cost_price c) \<longrightarrow>
      cs_side c = ''LONG'' \<and> flt_less (cs_entry c) (cs_expected_fill c) \<or>
      cs_side c = ''SHORT'' \<and> flt_less (cs_expected_fill c) (cs_entry c)"
    using side signed_cost_pos [of "if s = ''LONG'' then 1 else - 1" rx re] unfolding c r by (auto split: if_splits)
  have 2: "\<forall>t p. total_realized_execution_cost_price c = Some t \<and> cs_actual_fill c = Some p \<and> flt_less (Fin 0) t \<longrightarrow>
      cs_side c = ''LONG'' \<and> flt_less (cs_entry c) p \<or> cs_side c = ''SHORT'' \<and> flt_less p (cs_entry c)"
  proof (intro allI impI)
    fix t p assume h: "total_realized_execution_cost_price c = Some t \<and> cs_actual_fill c = Some p \<and> flt_less (Fin 0) t"
    then obtain ra where ra: "p = Fin ra" using fin c by auto
    then show "cs_side c = ''LONG'' \<and> flt_less (cs_entry c) p \<or> cs_side c = ''SHORT'' \<and> flt_less p (cs_entry c)"
      using h side signed_cost_pos [of "if s = ''LONG'' then 1 else - 1" ra re] unfolding c r by (auto split: if_splits)
  qed
  show ?thesis using 1 2 anone prov c(4,6,7,8,10) by (intro conjI impI) simp_all
qed

theorem cost_sign_and_provenance_witness:
  "\<exists>c. build_execution_cost_semantics (VInt 100) (VInt 101) VNone (VStr ''LONG'') (VStr ''ESTIMATED'')
      (VStr ''ACTUAL'') VNone (VStr ''t'') = Inr c \<and> actual_fill_provenance c = PROVENANCE_UNAVAILABLE"
proof -
  have side: "normalized_side (VStr ''LONG'') = ''LONG''" by (simp add: normalized_side_def str_eval)
  have prov: "execution_cost_provenance (VStr ''ESTIMATED'') True = Inr ''ESTIMATED''"
    "execution_cost_provenance (VStr ''ACTUAL'') False = Inr PROVENANCE_UNAVAILABLE"
    by (simp_all add: execution_cost_provenance_def EXECUTION_COST_PROVENANCE_def provenance_names str_eval)
  obtain c where c: "build_execution_cost_semantics (VInt 100) (VInt 101) VNone (VStr ''LONG'') (VStr ''ESTIMATED'')
      (VStr ''ACTUAL'') VNone (VStr ''t'') = Inr c"
    by (simp add: build_execution_cost_semantics_def require_side_def side finite_positive_price_def int_to_float_small
        optional_price_def prov Let_def)
  then show ?thesis using cost_sign_and_provenance [OF c] by blast
qed

lemma dget_dupdate_cons: "dget (dupdate d ((k, v) # e)) k' = dget (dupdate (dset k v d) e) k'"
  by (simp add: dupdate_def)

lemma dget_dupdate_nil: "dget (dupdate d []) k = dget d k"
  by (simp add: dupdate_def)

lemmas dget_dupdate = dget_dupdate_cons dget_dupdate_nil dget_dset

lemma unit_clamp: "s \<noteq> NaN \<Longrightarrow> flt_le (Fin 0) (py_min (py_max s (Fin 0)) (Fin 1)) \<and> flt_le (py_min (py_max s (Fin 0)) (Fin 1)) (Fin 1)"
  by (cases s) auto

lemma wide_stop_accepts:
  assumes "wide_stop result stop mx score eff config bypass = Inr res" and "dget res ''accepted'' = VBool True"
  shows "\<exists>hard scale. dindex config ''STOP_TOO_WIDE_HARD_REJECT'' = Inr hard \<and>
    config_float config ''STOP_TOO_WIDE_MAX_RISK_SCALE'' = Inr scale \<and>
    (truthy hard \<and> \<not> bypass \<longrightarrow> dget res ''stop_too_wide_extreme'' = VBool False \<and>
       dget res ''stop_too_wide_soft_eligible'' = VBool True) \<and>
    dget res ''stop_too_wide_softened'' = VBool True \<and>
    dget res ''risk_scale'' = VFloat (py_min (py_max scale (Fin 0)) (Fin 1))"
proof -
  obtain ext elig hard where h: "dindex config ''STOP_TOO_WIDE_HARD_REJECT'' = Inr hard"
    and r: "(if truthy hard \<and> (ext \<or> \<not> elig) \<and> \<not> bypass then
      Inr (dupdate result [(''accepted'', VBool False), (''reject_reason'', VStr ''STOP_TOO_WIDE''),
        (''stop_too_wide_softened'', VBool False), (''stop_too_wide_extreme'', VBool ext),
        (''stop_too_wide_soft_eligible'', VBool elig)])
    else bindE (config_float config ''STOP_TOO_WIDE_MAX_RISK_SCALE'') (\<lambda>scale.
      Inr (dupdate result [(''accepted'', VBool True), (''reject_reason'', VStr []),
        (''stop_too_wide_softened'', VBool True), (''stop_too_wide_extreme'', VBool ext),
        (''stop_too_wide_soft_eligible'', VBool elig), (''stop_too_wide_bypassed'', VBool bypass),
        (''risk_scale'', VFloat (py_min (py_max scale (Fin 0)) (Fin 1)))]))) = Inr res"
    using assms(1) unfolding wide_stop_def Let_def bindE_Inr_iff by (elim exE conjE)
  show ?thesis
  proof (cases "truthy hard \<and> (ext \<or> \<not> elig) \<and> \<not> bypass")
    case True
    then have "dget res ''accepted'' = VBool False" using r by (auto simp: dget_dupdate)
    then show ?thesis using assms(2) by simp
  next
    case False
    then obtain scale where s: "config_float config ''STOP_TOO_WIDE_MAX_RISK_SCALE'' = Inr scale"
      and res: "res = dupdate result [(''accepted'', VBool True), (''reject_reason'', VStr []),
        (''stop_too_wide_softened'', VBool True), (''stop_too_wide_extreme'', VBool ext),
        (''stop_too_wide_soft_eligible'', VBool elig), (''stop_too_wide_bypassed'', VBool bypass),
        (''risk_scale'', VFloat (py_min (py_max scale (Fin 0)) (Fin 1)))]"
      using r unfolding if_not_P [OF False] bindE_Inr_iff by blast
    show ?thesis using h s False unfolding res by (simp add: dget_dupdate) blast
  qed
qed

lemma unknown_stop_rejects: "dget (unknown_stop m) ''accepted'' = VBool False"
  "dget (unknown_stop m) ''reject_reason'' = VStr ''UNKNOWN_EXECUTION_CONTEXT''"
  by (simp_all add: unknown_stop_def dget_dupdate)

text \<open>A stop passes the policy only inside its band or through a documented exception.
  An accepted stop is a finite distance not below the minimum; if it exceeds the maximum,
  then either hard rejection is switched off, or the caller bypasses it, or the stop is not
  extreme and the trade is soft-eligible. The risk scale is then between 0 and 1 unless
  the configured scale is a NaN.\<close>

theorem stop_policy_accepts:
  assumes "evaluate_stop_risk_policy metrics score eff config bypass = Inr res"
    and "dget res ''accepted'' = VBool True"
  shows "\<exists>stop mn mx. py_float (dget metrics ''stop_distance_pct'') = Inr (Fin stop) \<and>
    config_float config ''MIN_SL_PCT'' = Inr mn \<and> config_float config ''MAX_SL_PCT'' = Inr mx \<and>
    \<not> flt_less (Fin stop) mn \<and>
    (\<exists>scale. dget res ''risk_scale'' = VFloat scale \<and>
       (flt_le (Fin stop) mx \<and> scale = Fin 1 \<or>
        \<not> flt_le (Fin stop) mx \<and> dget res ''stop_too_wide_softened'' = VBool True \<and>
        (\<exists>hard cfg. dindex config ''STOP_TOO_WIDE_HARD_REJECT'' = Inr hard \<and>
          config_float config ''STOP_TOO_WIDE_MAX_RISK_SCALE'' = Inr cfg \<and>
          (cfg = NaN \<or> flt_le (Fin 0) scale \<and> flt_le scale (Fin 1)) \<and>
          (\<not> truthy hard \<or> bypass \<or> dget res ''stop_too_wide_extreme'' = VBool False \<and>
             dget res ''stop_too_wide_soft_eligible'' = VBool True))))"
proof -
  have st: "dget metrics ''stop_risk_evidence_status'' \<noteq> VStr EXECUTION_EVIDENCE_UNAVAILABLE_BLOCKING"
    using assms by (auto simp: evaluate_stop_risk_policy_def unknown_stop_rejects)
  obtain s0 where s0: "catch_tv (bindE (py_float (dget metrics ''stop_distance_pct'')) (\<lambda>x. Inr (Some x))) None = Inr s0"
    and rest: "(case Option.bind s0 (\<lambda>x. if is_finite x then Some x else None) of None \<Rightarrow> Inr (unknown_stop metrics)
       | Some stop_value \<Rightarrow>
          bindE (config_float config ''MIN_SL_PCT'') (\<lambda>min_stop.
          bindE (config_float config ''MAX_SL_PCT'') (\<lambda>max_stop.
          let result = dupdate metrics [(''min_stop_pct'', VFloat min_stop), (''max_stop_pct'', VFloat max_stop),
                (''accepted'', VBool True), (''reject_reason'', VStr []), (''stop_too_wide_softened'', VBool False),
                (''risk_scale'', VFloat (Fin 1))]
          in if flt_less stop_value min_stop then
               Inr (dupdate result [(''accepted'', VBool False), (''reject_reason'', VStr ''STOP_TOO_TIGHT'')])
             else if flt_le stop_value max_stop then Inr result
             else wide_stop result stop_value max_stop score eff config bypass))) = Inr res"
    using assms(1) unfolding evaluate_stop_risk_policy_def if_not_P [OF st] by (cases "catch_tv (bindE (py_float (dget metrics ''stop_distance_pct'')) (\<lambda>x. Inr (Some x))) None") (simp_all only: bindE_simps sum.simps)
  obtain stop where stop: "s0 = Some (Fin stop)"
    using rest assms(2) by (cases s0) (auto simp: unknown_stop_rejects split: if_splits elim!: is_finiteE)
  have f: "py_float (dget metrics ''stop_distance_pct'') = Inr (Fin stop)"
    using s0 stop by (auto simp: catch_tv_def bindE_Inr_iff split: sum.splits if_splits)
  obtain mn mx where m: "config_float config ''MIN_SL_PCT'' = Inr mn" "config_float config ''MAX_SL_PCT'' = Inr mx"
    using rest stop by (auto simp: bindE_Inr_iff)
  have tight: "\<not> flt_less (Fin stop) mn"
    using rest stop m assms(2) by (auto simp: Let_def dget_dupdate)
  show ?thesis
  proof (cases "flt_le (Fin stop) mx")
    case True
    then have "dget res ''risk_scale'' = VFloat (Fin 1)"
      using rest stop m tight by (auto simp: Let_def dget_dupdate)
    then show ?thesis using f m tight True by blast
  next
    case False
    then obtain r0 where "wide_stop r0 (Fin stop) mx score eff config bypass = Inr res"
      using rest stop m tight by (auto simp: Let_def)
    from wide_stop_accepts [OF this assms(2)] obtain hard scale where
      "dindex config ''STOP_TOO_WIDE_HARD_REJECT'' = Inr hard"
      "config_float config ''STOP_TOO_WIDE_MAX_RISK_SCALE'' = Inr scale"
      "truthy hard \<and> \<not> bypass \<longrightarrow> dget res ''stop_too_wide_extreme'' = VBool False \<and>
         dget res ''stop_too_wide_soft_eligible'' = VBool True"
      "dget res ''stop_too_wide_softened'' = VBool True"
      "dget res ''risk_scale'' = VFloat (py_min (py_max scale (Fin 0)) (Fin 1))" by blast
    then show ?thesis using f m tight False unit_clamp [of scale] by blast
  qed
qed

definition stop_config :: pydict where
  "stop_config = [(''MIN_SL_PCT'', VFloat (Fin (1 / 4))), (''MAX_SL_PCT'', VInt 2),
     (''STOP_TOO_WIDE_SOFT_SCORE_MIN'', VInt 8), (''STOP_TOO_WIDE_EXTREME_MULT'', VInt 2),
     (''STOP_TOO_WIDE_SOFT_EFFECTIVE_RR_MIN'', VInt 2), (''STOP_TOO_WIDE_HARD_REJECT'', VBool True),
     (''STOP_TOO_WIDE_MAX_RISK_SCALE'', VFloat (Fin (1 / 2)))]"

theorem stop_policy_accepts_witness:
  "\<exists>res scale. evaluate_stop_risk_policy [(''stop_distance_pct'', VInt 3)] (VInt 9) (VInt 3) stop_config False = Inr res \<and>
     dget res ''risk_scale'' = VFloat scale"
proof -
  have m: "py_float (VInt 3) = Inr (Fin 3)" "py_float (VInt 9) = Inr (Fin 9)" by (simp_all add: int_to_float_small)
  have mul: "fmul (Fin 2) (Fin 2) = Fin 4" by (simp add: fl_eval)
  have "\<exists>res. evaluate_stop_risk_policy [(''stop_distance_pct'', VInt 3)] (VInt 9) (VInt 3) stop_config False = Inr res \<and>
     dget res ''accepted'' = VBool True"
    by (simp add: evaluate_stop_risk_policy_def m stop_config_def config_float_def dindex_def int_to_float_small
        wide_stop_def float_or_ninf_def mul dget_dupdate Let_def del: fmul.simps)
  then obtain res where r: "evaluate_stop_risk_policy [(''stop_distance_pct'', VInt 3)] (VInt 9) (VInt 3) stop_config False = Inr res"
     "dget res ''accepted'' = VBool True" by blast
  show ?thesis using stop_policy_accepts [OF r] r by blast
qed

text \<open>A stop without executable evidence is rejected. When the planned entry or the stop
  is not a usable price, or the expected fill is not and the planned entry may not stand in
  for it, the metrics are marked blocking and the policy rejects with
  UNKNOWN_EXECUTION_CONTEXT, whatever the score, the configuration or the bypass.\<close>

theorem stop_evidence_fails_closed:
  assumes "build_stop_risk_metrics planned fill stop fallback = Inr metrics"
    and "price_or_none planned ''planned_entry'' = Inr None \<or> price_or_none stop ''stop'' = Inr None \<or>
      (price_or_none fill ''expected_fill'' = Inr None \<and> \<not> fallback)"
  shows "\<exists>res. evaluate_stop_risk_policy metrics score eff config bypass = Inr res \<and>
    dget res ''accepted'' = VBool False \<and> dget res ''reject_reason'' = VStr ''UNKNOWN_EXECUTION_CONTEXT''"
proof -
  have "dget metrics ''stop_risk_evidence_status'' = VStr EXECUTION_EVIDENCE_UNAVAILABLE_BLOCKING"
    using assms unfolding build_stop_risk_metrics_def bindE_Inr_iff Let_def
    by (elim exE conjE) (simp only: sum.inject, hypsubst, auto)
  then show ?thesis by (auto simp: evaluate_stop_risk_policy_def unknown_stop_rejects)
qed

theorem stop_evidence_fails_closed_witness:
  "\<exists>m res. build_stop_risk_metrics (VInt 100) VNone (VInt 99) False = Inr m \<and>
     evaluate_stop_risk_policy m (VInt 9) (VInt 3) stop_config True = Inr res \<and> dget res ''accepted'' = VBool False"
proof -
  have n: "price_or_none VNone ''expected_fill'' = Inr None"
    by (simp add: price_or_none_def finite_positive_price_def Let_def)
  obtain m where m: "build_stop_risk_metrics (VInt 100) VNone (VInt 99) False = Inr m"
    by (simp add: build_stop_risk_metrics_def n price_or_none_def finite_positive_price_def int_to_float_small Let_def)
  show ?thesis using stop_evidence_fails_closed [OF m] n m by blast
qed

lemma foldl_max_fin:
  assumes "is_finite a" "\<forall>x \<in> set xs. is_finite x"
  shows "is_finite (foldl py_max a xs) \<and> foldl py_max a xs \<in> insert a (set xs) \<and>
    (\<forall>x \<in> insert a (set xs). flt_le x (foldl py_max a xs))"
  using assms
proof (induction xs arbitrary: a)
  case Nil then show ?case by (auto elim!: is_finiteE)
next
  case (Cons b xs)
  obtain ra rb where r: "a = Fin ra" "b = Fin rb" using Cons.prems by (auto elim!: is_finiteE)
  have m: "is_finite (py_max a b)" "py_max a b \<in> {a, b}" "flt_le a (py_max a b)" "flt_le b (py_max a b)"
    by (auto simp: r max_def)
  have IH: "is_finite (foldl py_max (py_max a b) xs) \<and> foldl py_max (py_max a b) xs \<in> insert (py_max a b) (set xs) \<and>
      (\<forall>x \<in> insert (py_max a b) (set xs). flt_le x (foldl py_max (py_max a b) xs))"
    using Cons.prems m(1) by (intro Cons.IH) auto
  then have "flt_le a (foldl py_max (py_max a b) xs)" "flt_le b (foldl py_max (py_max a b) xs)"
    using flt_le_trans [OF m(3)] flt_le_trans [OF m(4)] by blast+
  moreover have "py_max a b = a \<or> py_max a b = b" using m(2) by simp
  ultimately show ?case unfolding foldl_Cons list.set using IH by (elim disjE) auto
qed

lemma max_of_fin:
  assumes "xs \<noteq> []" "\<forall>x \<in> set xs. is_finite x"
  shows "max_of xs \<in> set xs" "\<And>x. x \<in> set xs \<Longrightarrow> flt_le x (max_of xs)"
proof -
  obtain a ys where xs: "xs = a # ys" using assms(1) by (cases xs) auto
  have "is_finite a" "\<forall>x \<in> set ys. is_finite x" using assms(2) xs by auto
  note m = foldl_max_fin [OF this]
  show "max_of xs \<in> set xs" "\<And>x. x \<in> set xs \<Longrightarrow> flt_le x (max_of xs)"
    using m unfolding xs max_of_def by auto
qed

lemma fill_row_pos:
  "fill_row row = Inr (p, q) \<Longrightarrow> \<exists>a b. p = Fin a \<and> 0 < a \<and> q = Fin b \<and> 0 < b"
  by (auto simp: fill_row_def bindE_Inr_iff finite_positive_price_Inr elim!: is_finiteE split: pyval.splits)

lemma fills_pos:
  assumes "mapE fill_row rows = Inr fills" "x \<in> set fills"
  shows "\<exists>a b. fst x = Fin a \<and> 0 < a \<and> snd x = Fin b \<and> 0 < b"
proof -
  obtain i where "i < length fills" "x = fills ! i" using assms(2) by (auto simp: in_set_conv_nth)
  then have "fill_row (rows ! i) = Inr x" using assms(1) by (auto simp: mapE_Inr list_all2_conv_all_nth)
  then show ?thesis using fill_row_pos [of "rows ! i" "fst x" "snd x"] by simp
qed

lemma weights_eq_1:
  assumes "\<forall>q \<in> set qs. \<exists>b. q = Fin b \<and> 0 < b" and "p = Fin c" "0 < c" and "length ps = length qs"
    and "set ps \<subseteq> {p}" and "qs \<noteq> []"
  shows "weighted_ratio ps qs = Fin 1 \<or> weighted_ratio ps qs = NaN"
proof -
  have pm: "max_of ps = p"
  proof -
    have "max_of ps \<in> set ps" using assms by (intro max_of_fin) auto
    then show ?thesis using assms(5) by blast
  qed
  have "max_of qs \<in> set qs" using assms(1,6) by (intro max_of_fin) auto
  then obtain m where m: "max_of qs = Fin m" "0 < m" "Fin m \<in> set qs" using assms(1) by force
  have fin: "\<forall>x \<in> set qs. is_finite x" using assms(1) by auto
  have le: "b \<le> m" if "Fin b \<in> set qs" for b using max_of_fin(2) [OF assms(6) fin that] m(1) by simp
  have w: "\<exists>v. fdiv q (max_of qs) = Fin v \<and> 0 \<le> v \<and> fl v = Fin v" if q: "q \<in> set qs" for q
  proof -
    obtain b where b0: "q = Fin b" "0 < b" using bspec [OF assms(1) q] by blast
    then have b: "q = Fin b" "0 < b" "b \<le> m" using le q by auto
    have "flt_le (fl (b / m)) (Fin 1)" "flt_le (Fin 0) (fl (b / m))"
      using b m fl_mono [of "b / m" 1] by (auto intro: fl_nonneg)
    then show ?thesis using b m fl_fl by (cases "fl (b / m)") auto
  qed
  define ws where "ws = map (\<lambda>q. fdiv q (max_of qs)) qs"
  have dp: "fdiv x (max_of ps) = Fin 1" if "x \<in> set ps" for x
    using that assms(2,3,5) by (auto simp: pm)
  have len: "length ps = length ws" by (simp add: ws_def assms(4))
  have mul: "fin_rat (fmul (fdiv x (max_of ps)) v) = fin_rat v" if xv: "(x, v) \<in> set (zip ps ws)" for x v
  proof -
    obtain q where "q \<in> set qs" "v = fdiv q (max_of qs)" using set_zip_rightD [OF xv] by (auto simp: ws_def)
    with w obtain u where "v = Fin u" "fl u = Fin u" by metis
    then show ?thesis using dp [OF set_zip_leftD [OF xv]] by simp
  qed
  have "map2 (\<lambda>p w. fin_rat (fmul (fdiv p (max_of ps)) w)) ps ws = map2 (\<lambda>p w. fin_rat w) ps ws"
    using mul by (intro map_cong) auto
  also have "\<dots> = map fin_rat ws" using len by (induction ps ws rule: list_induct2) auto
  finally have num: "map2 (\<lambda>p w. fin_rat (fmul (fdiv p (max_of ps)) w)) ps ws = map fin_rat ws" .
  have one: "1 \<in> set (map fin_rat ws)"
  proof -
    have "fdiv (Fin m) (max_of qs) = Fin 1" using m by simp
    then have "Fin 1 \<in> set ws" using m(3) by (auto simp: ws_def image_iff) (metis)
    then show ?thesis by force
  qed
  have nn: "\<forall>v \<in> set (map fin_rat ws). 0 \<le> v"
  proof
    fix v assume "v \<in> set (map fin_rat ws)"
    then obtain q where "q \<in> set qs" "v = fin_rat (fdiv q (max_of qs))" by (auto simp: ws_def)
    then show "0 \<le> v" using w [of q] by auto
  qed
  have "1 \<le> sum_list (map fin_rat ws)"
    using one nn by (intro member_le_sum_list) auto
  then have "flt_le (Fin 1) (fl (sum_list (map fin_rat ws)))" using fl_mono [of 1] by simp
  then show ?thesis
    by (cases "fl (sum_list (map fin_rat ws))")
      (auto simp: weighted_ratio_def Let_def ws_def [symmetric] num flt_fsum_def)
qed


text \<open>The average of fills is a price the fills support. When the fills' prices are
  floats, the quantity-weighted price is positive and not above the highest fill, and fills
  at one price average to exactly that price; an empty ledger has no fill price.\<close>

theorem weighted_fill_price_bounds:
  assumes "weighted_average_fill_price rows = Inr (Some p)" and "mapE fill_row rows = Inr fills"
    and "\<forall>x \<in> set fills. is_f64 (fst x)"
  shows "flt_less (Fin 0) p \<and> flt_le p (max_of (map fst fills)) \<and>
    (\<forall>c. set (map fst fills) \<subseteq> {c} \<longrightarrow> p = c) \<and> weighted_average_fill_price [] = Inr None"
proof -
  let ?ps = "map fst fills" and ?qs = "map snd fills"
  have ne: "rows \<noteq> []" using assms(1) by (auto simp: weighted_average_fill_price_def)
  have len: "length fills = length rows" using assms(2) by (auto simp: mapE_Inr dest: list_all2_lengthD)
  then have nf: "fills \<noteq> []" using ne by auto
  have p: "p = fmul (max_of ?ps) (py_min (weighted_ratio ?ps ?qs) (Fin 1))" "flt_less (Fin 0) p" "is_finite p"
    using assms(1,2) ne
    by (auto simp: weighted_average_fill_price_def Let_def bindE_Inr_iff finite_positive_price_Inr)
  note pos = fills_pos [OF assms(2)]
  have fin: "\<forall>x \<in> set ?ps. is_finite x"
  proof
    fix x assume "x \<in> set ?ps"
    then obtain y where "y \<in> set fills" "x = fst y" by auto
    then show "is_finite x" using pos [of y] by auto
  qed
  have "max_of ?ps \<in> set ?ps" using nf fin by (intro max_of_fin) auto
  then obtain m where m: "max_of ?ps = Fin m" "0 < m" "fl m = Fin m"
    using pos assms(3) by (auto simp: is_f64_fin) (metis is_f64_fin fst_conv)
  have r: "flt_le (py_min (weighted_ratio ?ps ?qs) (Fin 1)) (Fin 1) \<or> weighted_ratio ?ps ?qs = NaN"
    by (cases "weighted_ratio ?ps ?qs") auto
  have nn: "weighted_ratio ?ps ?qs \<noteq> NaN" using p by (auto simp: m)
  have le: "flt_le p (max_of ?ps)" unfolding p(1) m(1) using r nn by (intro fmul_fin_le m(2,3)) auto
  have eq: "p = c" if c: "set ?ps \<subseteq> {c}" for c
  proof -
    have mc: "max_of ?ps = c" using \<open>max_of ?ps \<in> set ?ps\<close> c by blast
    have "weighted_ratio ?ps ?qs = Fin 1 \<or> weighted_ratio ?ps ?qs = NaN"
      using pos nf m mc c by (intro weights_eq_1 [of _ c m]) auto
    then have "weighted_ratio ?ps ?qs = Fin 1" using nn by simp
    then show ?thesis using p(1) m mc by simp
  qed
  show ?thesis using p(2) le eq by (simp add: weighted_average_fill_price_def)
qed

theorem weighted_fill_price_bounds_witness:
  "\<exists>p. weighted_average_fill_price [VDict [(''price'', VInt 10), (''qty'', VInt 2)], VDict [(''price'', VInt 10), (''quantity'', VInt 1)]]
      = Inr (Some p) \<and> p = Fin 10"
proof -
  let ?rows = "[VDict [(''price'', VInt 10), (''qty'', VInt 2)], VDict [(''price'', VInt 10), (''quantity'', VInt 1)]]"
  have f: "mapE fill_row ?rows = Inr [(Fin 10, Fin 2), (Fin 10, Fin 1)]"
    by (simp add: fill_row_def finite_positive_price_def int_to_float_small)
  have a: "max_of [Fin 10, Fin 10] = Fin 10" "max_of [Fin 2, Fin 1] = Fin 2" by (simp_all add: max_of_def)
  have w: "weighted_ratio [Fin 10, Fin 10] [Fin 2, Fin 1] = Fin 1"
    by (simp add: weighted_ratio_def a flt_fsum_def fl_eval)
  have "weighted_average_fill_price ?rows = Inr (Some (fmul (Fin 10) (Fin 1)))"
    by (simp only: weighted_average_fill_price_def f bindE_simps Let_def list.map fst_conv snd_conv a w)
      (simp add: finite_positive_price_def fl_eval)
  then have r: "weighted_average_fill_price ?rows = Inr (Some (Fin 10))" by (simp add: fl_eval)
  have f64: "\<forall>x \<in> set [(Fin 10, Fin 2), (Fin 10, Fin 1)]. is_f64 (fst x)" by (simp add: is_f64_fin fl_eval)
  show ?thesis using weighted_fill_price_bounds [OF r f f64] r by blast
qed

lemma reward_over_risk_f64: "\<exists>y. reward_over_risk risk reward = Fin y \<and> is_f64 (Fin y)"
  unfolding reward_over_risk_def
  by (cases reward; cases risk) (auto simp: is_f64_fin flt_inf_def elim!: is_finiteE dest: fl_fl)

lemma decision_executable_f64:
  assumes "geometry_rr fill market_ctx = Inr (Some g)"
  shows "\<exists>y. g = Fin y \<and> is_f64 (Fin y)"
proof -
  have "\<exists>risk reward. g = reward_over_risk risk reward"
    using assms unfolding geometry_rr_def
    by (auto simp: catch_tv_def Let_def bindE_Inr_iff split: sum.splits if_split_asm option.splits)
  then show ?thesis using reward_over_risk_f64 by metis
qed

text \<open>At decision time, costs never improve the risk/reward either. When no cost field
  parses to a NaN, the candidate is a finite float and the remaining penalty is a number, the
  remaining penalty is not negative and the effective risk/reward lies between zero and the
  larger of zero and the executable one.\<close>

theorem decision_rr_bounds:
  assumes "build_decision_rr_metrics raw0 market_ctx ctx mode bps = Inr d"
    and "\<forall>k \<in> set cost_fields. req_float ctx k \<noteq> Inr (Some NaN)"
    and "raw_number raw0 = Inr (Fin x)" and "is_f64 (Fin x)" and "remaining_execution_penalty d \<noteq> NaN"
  shows "flt_le (Fin 0) (remaining_execution_penalty d) \<and> flt_le (Fin 0) (decision_effective_rr d) \<and>
    flt_le (decision_effective_rr d) (py_max (executable_raw_rr d) (Fin 0))"
proof -
  obtain model fill geometry where m: "build_execution_cost_model ctx False = Inr model"
      "geometry_rr fill market_ctx = Inr geometry"
    and d: "executable_raw_rr d = py_round (case geometry of None \<Rightarrow> Fin x | Some g \<Rightarrow> g) 6"
      "remaining_execution_penalty d = py_round (case geometry of None \<Rightarrow> total_penalty model
            | Some _ \<Rightarrow> py_max (fsub (total_penalty model) (fdiv (slippage_penalty model) (Fin 2))) (Fin 0)) 6"
      "decision_effective_rr d = net_rr (case geometry of None \<Rightarrow> Fin x | Some g \<Rightarrow> g)
         (case geometry of None \<Rightarrow> total_penalty model
            | Some _ \<Rightarrow> py_max (fsub (total_penalty model) (fdiv (slippage_penalty model) (Fin 2))) (Fin 0))"
    using assms(1,3) unfolding build_decision_rr_metrics_def net_rr_def
    by (auto simp: bindE_Inr_iff Let_def case_prod_unfold)
  define rem where "rem = (case geometry of None \<Rightarrow> total_penalty model
            | Some _ \<Rightarrow> py_max (fsub (total_penalty model) (fdiv (slippage_penalty model) (Fin 2))) (Fin 0))"
  have nn: "rem \<noteq> NaN" using assms(5) d(2) by (auto simp: rem_def [symmetric] py_round_def)
  have r: "flt_le (Fin 0) rem"
  proof (cases geometry)
    case None then show ?thesis using total_penalty_nonneg [OF m(1) assms(2)] by (simp add: rem_def)
  next
    case (Some a)
    then have "fsub (total_penalty model) (fdiv (slippage_penalty model) (Fin 2)) \<noteq> NaN"
      using nn by (auto simp: rem_def)
    then show ?thesis using Some py_max_zero_nonneg by (simp add: rem_def)
  qed
  obtain y where y: "(case geometry of None \<Rightarrow> Fin x | Some g \<Rightarrow> g) = Fin y" "is_f64 (Fin y)"
    using assms(4) decision_executable_f64 [of fill market_ctx] m(2) by (cases geometry) auto
  show ?thesis
    unfolding d rem_def [symmetric] y(1) using net_rr_bounds [OF r y(2)] r py_round_nonneg by blast
qed

theorem decision_rr_bounds_witness:
  "\<exists>d. build_decision_rr_metrics (VInt 2) [] demo_ctx ''PAPER'' VNone = Inr d \<and> flt_le (Fin 0) (decision_effective_rr d)"
proof -
  obtain r m where m: "build_execution_cost_model demo_ctx False = Inr m"
    using demo_effective by (auto simp: calculate_effective_rr_def bindE_Inr_iff)
  have raw: "raw_number (VInt 2) = Inr (Fin 2)" by (simp add: raw_number_def py_or_def int_to_float_small)
  have up: "py_upper ''PAPER'' = ''PAPER''" by (simp add: py_upper_id)
  obtain d where d: "build_decision_rr_metrics (VInt 2) [] demo_ctx ''PAPER'' VNone = Inr d"
      "remaining_execution_penalty d = py_round (total_penalty m) 6"
    by (simp add: build_decision_rr_metrics_def up raw decision_fill_def geometry_rr_def m Let_def)
  have "flt_le (Fin 0) (remaining_execution_penalty d)"
    unfolding d by (intro py_round_nonneg total_penalty_nonneg [OF m demo_not_nan])
  then have "remaining_execution_penalty d \<noteq> NaN" by auto
  moreover have "is_f64 (Fin 2)" by (simp add: is_f64_fin fl_eval)
  ultimately show ?thesis using decision_rr_bounds [OF d(1) demo_not_nan raw] d(1) by blast
qed

end
