(* ===== verification/PortfolioSizing.thy ===== *)
theory PortfolioSizing
  imports ExecutionGeometry "HOL-Library.AList"
begin

section \<open>Capital scaling and risk-based sizing (\<^verbatim>\<open>portfolio_risk.py\<close>)\<close>

text \<open>
  The two functions that turn capital into a position size. Their result dictionaries have
  one shape per outcome: a refusal with its status and reason, or the complete projection.
  Each outcome is a constructor here.
\<close>

definition num_finite :: "pyval \<Rightarrow> flt option py" where
  \<comment> \<open>the local \<^verbatim>\<open>num\<close>: a finite float or None\<close>
  "num_finite v = catch_tv (bindE (py_float v) (\<lambda>x. Inr (if is_finite x then Some x else None))) None"

subsection \<open>Scaling\<close>

datatype scaling =
    BadNotional
  | BadScale flt
  | BadQuantity flt flt
  | Scaled flt flt "flt option"

definition float_or_nan :: "pyval \<Rightarrow> flt py" where
  "float_or_nan v = catch_tv (py_float v) NaN"

definition scale_candidate_exposure :: "pyval \<Rightarrow> pyval \<Rightarrow> pyval \<Rightarrow> bool \<Rightarrow> scaling py" where
  \<comment> \<open>\<open>Scaled notional scale quantity\<close>: the effective values are products, below\<close>
  "scale_candidate_exposure original_notional risk_scale original_quantity require_scale =
    bindE (float_or_nan original_notional) (\<lambda>notional.
    if \<not> is_finite notional \<or> flt_le notional (Fin 0) then Inr BadNotional
    else
      (let raw_scale = (if risk_scale = VNone \<and> \<not> require_scale then VFloat (Fin 1) else risk_scale) in
       bindE (float_or_nan raw_scale) (\<lambda>scale.
       if \<not> is_finite scale \<or> flt_less scale (Fin 0) \<or> flt_less (Fin 1) scale then Inr (BadScale notional)
       else if original_quantity = VNone then Inr (Scaled notional scale None)
       else bindE (float_or_nan original_quantity) (\<lambda>qty.
         if \<not> is_finite qty \<or> flt_le qty (Fin 0) then Inr (BadQuantity notional scale)
         else Inr (Scaled notional scale (Some qty))))))"

fun effective_notional :: "scaling \<Rightarrow> flt option" where
  "effective_notional (Scaled notional scale _) = Some (fmul notional scale)"
| "effective_notional _ = None"

fun effective_quantity :: "scaling \<Rightarrow> flt option" where
  "effective_quantity (Scaled _ scale (Some qty)) = Some (fmul qty scale)"
| "effective_quantity _ = None"

fun scaling_as_dict :: "scaling \<Rightarrow> pydict" where
  "scaling_as_dict BadNotional =
    [(''status'', VStr ''INVALID''), (''reason'', VStr ''INVALID_ORIGINAL_NOTIONAL''), (''original_notional'', VNone),
     (''risk_scale'', VNone), (''effective_notional'', VNone), (''original_quantity'', VNone), (''effective_quantity'', VNone)]"
| "scaling_as_dict (BadScale notional) =
    [(''status'', VStr ''INVALID''), (''reason'', VStr ''INVALID_RISK_SCALE''), (''original_notional'', VFloat notional),
     (''risk_scale'', VNone), (''effective_notional'', VNone), (''original_quantity'', VNone), (''effective_quantity'', VNone)]"
| "scaling_as_dict (BadQuantity notional scale) =
    [(''status'', VStr ''INVALID''), (''reason'', VStr ''INVALID_ORIGINAL_QUANTITY''), (''original_notional'', VFloat notional),
     (''risk_scale'', VFloat scale), (''effective_notional'', VNone), (''original_quantity'', VNone), (''effective_quantity'', VNone)]"
| "scaling_as_dict (Scaled notional scale qty) =
    [(''status'', VStr ''COMPLETE''), (''reason'', VStr []), (''original_notional'', VFloat notional),
     (''risk_scale'', VFloat scale), (''effective_notional'', VFloat (fmul notional scale)),
     (''original_quantity'', flt_opt_val qty), (''effective_quantity'', flt_opt_val (map_option (\<lambda>q. fmul q scale) qty))]"

subsection \<open>Risk-based sizing\<close>

record SizingInputs =
  in_equity :: pyval
  in_entry :: pyval
  in_stop :: pyval
  in_risk_pct :: pyval
  in_drawdown :: pyval
  in_max_drawdown :: pyval
  in_slippage :: pyval
  in_max_slippage :: pyval
  in_volatility :: pyval
  in_max_volatility :: pyval
  in_depth :: pyval
  in_participation :: pyval
  in_leverage :: pyval
  in_min_notional :: pyval
  in_caps :: pydict
  in_require_limits :: bool

record SizingPlan =
  entry_basis :: flt
  plan_stop :: flt
  stop_distance_pct :: flt
  risk_pct_per_trade :: flt
  risk_budget_usdt :: flt
  drawdown_multiplier :: flt
  volatility_multiplier :: flt
  raw_risk_notional :: flt
  selected_notional :: flt
  plan_quantity :: flt
  risk_at_stop_usdt :: flt
  risk_at_stop_pct_equity :: flt
  plan_caps :: "(string \<times> flt) list"

datatype sizing =
    Refused string string
  | BelowMinimum flt flt "(string \<times> flt) list"
  | NoCapacity "(string \<times> flt) list"
  | Sized SizingPlan

definition unit_interval :: "flt \<Rightarrow> flt" where
  \<comment> \<open>\<^verbatim>\<open>max(0.0, min(1.0, x))\<close>\<close>
  "unit_interval x = py_max (Fin 0) (py_min (Fin 1) x)"

fun collect_caps :: "bool \<Rightarrow> (string \<times> pyval) list \<Rightarrow> (string \<times> flt) list \<Rightarrow> (sizing + (string \<times> flt) list) py" where
  \<comment> \<open>the loop over the hard caps; an unreadable one refuses when limits are required\<close>
  "collect_caps required [] caps = Inr (Inr caps)"
| "collect_caps required ((name, v) # rest) caps =
     bindE (num_finite v) (\<lambda>parsed. case parsed of
       None \<Rightarrow> if required then Inr (Inl (Refused ''UNAVAILABLE'' (py_upper name @ ''_CAP_UNAVAILABLE'')))
               else collect_caps required rest caps
     | Some x \<Rightarrow> collect_caps required rest (AList.update name (py_max (Fin 0) x) caps))"

definition min_of :: "flt list \<Rightarrow> flt" where
  \<comment> \<open>\<^verbatim>\<open>min(xs)\<close> of a nonempty list\<close>
  "min_of xs = foldl py_min (hd xs) (tl xs)"

definition sized_plan :: "flt \<Rightarrow> flt \<Rightarrow> flt \<Rightarrow> flt \<Rightarrow> flt \<Rightarrow> flt \<Rightarrow> flt \<Rightarrow> flt \<Rightarrow> (string \<times> flt) list \<Rightarrow> sizing" where
  \<comment> \<open>from the selected budget to the outcome\<close>
  "sized_plan eq px sl gap risk_pct dd_mult vol_mult min_size caps =
    (let budget = fmul (fmul (fmul eq risk_pct) dd_mult) vol_mult;
         raw = fdiv budget gap;
         selected = min_of (raw # map snd caps) in
     if flt_le selected (Fin 0) then NoCapacity caps
     else if flt_less (Fin 0) min_size \<and> flt_less selected min_size then BelowMinimum selected min_size caps
     else Sized \<lparr>entry_basis = px, plan_stop = sl, stop_distance_pct = gap, risk_pct_per_trade = risk_pct,
       risk_budget_usdt = budget, drawdown_multiplier = dd_mult, volatility_multiplier = vol_mult,
       raw_risk_notional = raw, selected_notional = selected, plan_quantity = fdiv selected px,
       risk_at_stop_usdt = fmul selected gap, risk_at_stop_pct_equity = fdiv (fmul selected gap) eq,
       plan_caps = caps\<rparr>)"

definition volatility_factor :: "flt option \<Rightarrow> flt option \<Rightarrow> flt option" where
  \<comment> \<open>the multiplier, None where the volatility is excessive\<close>
  "volatility_factor penalty max_penalty =
    (case (penalty, max_penalty) of
       (Some p, Some m) \<Rightarrow>
         if flt_le m (Fin 0) then (if flt_less (Fin 0) p then None else Some (Fin 1))
         else if flt_less m p then None else Some (unit_interval (fsub (Fin 1) (fdiv p m)))
     | _ \<Rightarrow> Some (Fin 1))"

definition out_of_unit :: "flt option \<Rightarrow> bool" where
  \<comment> \<open>\<^verbatim>\<open>x is None or x < 0 or x > 1\<close>\<close>
  "out_of_unit x = (case x of None \<Rightarrow> True | Some y \<Rightarrow> flt_less y (Fin 0) \<or> flt_less (Fin 1) y)"

definition not_positive :: "flt option \<Rightarrow> bool" where
  \<comment> \<open>\<^verbatim>\<open>x is None or x <= 0\<close>\<close>
  "not_positive x = (case x of None \<Rightarrow> True | Some y \<Rightarrow> flt_le y (Fin 0))"

definition drawdown_factor :: "flt \<Rightarrow> flt option \<Rightarrow> flt" where
  "drawdown_factor dd max_dd =
    (case max_dd of Some m \<Rightarrow> if flt_less (Fin 0) m then unit_interval (fsub (Fin 1) (fdiv dd m)) else Fin 1
     | None \<Rightarrow> Fin 1)"

definition size_within_limits :: "SizingInputs \<Rightarrow> (flt option \<Rightarrow> flt \<Rightarrow> (string \<times> flt) list \<Rightarrow> sizing) \<Rightarrow> flt \<Rightarrow>
    flt option \<Rightarrow> flt option \<Rightarrow> flt option \<Rightarrow> flt option \<Rightarrow> flt option \<Rightarrow> flt option \<Rightarrow> flt option \<Rightarrow> flt \<Rightarrow> sizing py" where
  \<comment> \<open>the limits and the caps; \<^term>\<open>plan\<close> is the rest of the computation\<close>
  "size_within_limits i plan eq slip max_slip vol max_vol depth part lev min_size =
    (if in_require_limits i \<and> (slip = None \<or> max_slip = None \<or> vol = None \<or> max_vol = None \<or> depth = None)
       then Inr (Refused ''UNAVAILABLE'' ''RISK_SIZING_EXECUTION_EVIDENCE_UNAVAILABLE'')
     else if (case (slip, max_slip) of (Some s, Some m) \<Rightarrow> flt_less m s | _ \<Rightarrow> False)
       then Inr (Refused ''REJECTED'' ''EXCESSIVE_EXPECTED_SLIPPAGE'')
     else if out_of_unit part then Inr (Refused ''INVALID'' ''INVALID_LIQUIDITY_PARTICIPATION'')
     else if not_positive lev \<or> out_of_unit lev then Inr (Refused ''INVALID'' ''INVALID_PAPER_MAX_LEVERAGE'')
     else if flt_less min_size (Fin 0) then Inr (Refused ''INVALID'' ''INVALID_MIN_NOTIONAL'')
     else if volatility_factor vol max_vol = None then Inr (Refused ''REJECTED'' ''EXCESSIVE_VOLATILITY'')
     else bindE (collect_caps (in_require_limits i) (in_caps i)
            ([(''leverage_cap'', fmul eq (opt_flt lev))] @
             (case depth of None \<Rightarrow> [] | Some d \<Rightarrow> [(''liquidity_cap'', py_max (Fin 0) (fmul d (opt_flt part)))]))) (\<lambda>caps.
         Inr (case caps of Inl refused \<Rightarrow> refused
              | Inr cs \<Rightarrow> plan (volatility_factor vol max_vol) min_size cs)))"

definition size_with_limits :: "SizingInputs \<Rightarrow> flt \<Rightarrow> flt \<Rightarrow> flt \<Rightarrow> flt \<Rightarrow> flt \<Rightarrow> flt \<Rightarrow> sizing py" where
  \<comment> \<open>the second half: execution evidence, limits and caps\<close>
  "size_with_limits i eq px sl gap risk_pct dd_mult =
    bindE (num_finite (in_slippage i)) (\<lambda>slip.
    bindE (num_finite (in_max_slippage i)) (\<lambda>max_slip.
    bindE (num_finite (in_volatility i)) (\<lambda>vol.
    bindE (num_finite (in_max_volatility i)) (\<lambda>max_vol.
    bindE (num_finite (in_depth i)) (\<lambda>depth.
    bindE (num_finite (in_participation i)) (\<lambda>part.
    bindE (num_finite (in_leverage i)) (\<lambda>lev.
    bindE (num_finite (in_min_notional i)) (\<lambda>min0.
      size_within_limits i (\<lambda>vol_mult. sized_plan eq px sl gap risk_pct dd_mult (opt_flt vol_mult))
        eq slip max_slip vol max_vol depth part lev (opt_flt min0)))))))))"

definition size_with_drawdown :: "SizingInputs \<Rightarrow> flt \<Rightarrow> flt \<Rightarrow> flt \<Rightarrow> flt \<Rightarrow> flt \<Rightarrow> sizing py" where
  \<comment> \<open>the drawdown evidence and its multiplier\<close>
  "size_with_drawdown i eq px sl gap risk_pct =
    bindE (num_finite (in_drawdown i)) (\<lambda>dd0.
    bindE (num_finite (in_max_drawdown i)) (\<lambda>max_dd.
    case dd0 of None \<Rightarrow> Inr (Refused ''UNAVAILABLE'' ''DRAWDOWN_EVIDENCE_UNAVAILABLE'')
    | Some dd \<Rightarrow>
      if flt_less dd (Fin 0) then Inr (Refused ''UNAVAILABLE'' ''DRAWDOWN_EVIDENCE_UNAVAILABLE'')
      else if flt_le (drawdown_factor dd max_dd) (Fin 0) then Inr (Refused ''REJECTED'' ''MAX_ROLLING_DRAWDOWN'')
      else size_with_limits i eq px sl gap risk_pct (drawdown_factor dd max_dd)))"

definition risk_based_candidate_exposure :: "SizingInputs \<Rightarrow> sizing py" where
  "risk_based_candidate_exposure i =
    bindE (num_finite (in_equity i)) (\<lambda>eq0.
    bindE (num_finite (in_entry i)) (\<lambda>px0.
    bindE (num_finite (in_stop i)) (\<lambda>sl0.
    bindE (num_finite (in_risk_pct i)) (\<lambda>risk0.
    if not_positive eq0 \<or> not_positive px0 \<or> sl0 = None
      then Inr (Refused ''UNAVAILABLE'' ''RISK_SIZING_CORE_EVIDENCE_UNAVAILABLE'')
    else if not_positive risk0 \<or> out_of_unit risk0 then Inr (Refused ''INVALID'' ''INVALID_RISK_PCT_PER_TRADE'')
    else
      (let eq = opt_flt eq0; px = opt_flt px0; sl = opt_flt sl0; risk_pct = opt_flt risk0;
           gap = fdiv (flt_abs (fsub px sl)) px in
       if \<not> is_finite gap \<or> flt_le gap (Fin 0) then Inr (Refused ''INVALID'' ''INVALID_STOP_DISTANCE'')
       else size_with_drawdown i eq px sl gap risk_pct)))))"

subsection \<open>Facts about sizing\<close>

lemma num_finite_Some: "num_finite v = Inr (Some x) \<Longrightarrow> is_finite x \<and> py_float v = Inr x"
  by (auto simp: num_finite_def catch_tv_def bindE_Inr_iff split: sum.splits if_splits)

lemma unit_interval_bounds: "x \<noteq> NaN \<Longrightarrow> flt_le (Fin 0) (unit_interval x) \<and> flt_le (unit_interval x) (Fin 1)"
  by (cases x) (auto simp: unit_interval_def py_max_def py_min_def)

lemma fmul_shrinks:
  assumes "flt_le (Fin 0) x" "flt_le (Fin 0) m" "flt_le m (Fin 1)" "is_f64 x" "is_finite x"
  shows "flt_le (Fin 0) (fmul x m) \<and> flt_le (fmul x m) x \<and> is_f64 (fmul x m) \<and> is_finite (fmul x m)"
proof -
  obtain a b where r: "x = Fin a" "0 \<le> a" "m = Fin b" "0 \<le> b" "b \<le> 1"
    using assms by (cases m) (auto elim!: is_finiteE)
  have "a * b \<le> a" using r by (simp add: mult_left_le)
  then have le: "flt_le (fl (a * b)) (Fin a)" using fl_mono [of "a * b" a] assms(4) r by (simp add: is_f64_fin)
  moreover have ge: "flt_le (Fin 0) (fl (a * b))" using r by (intro fl_nonneg) simp
  moreover have "is_finite (fl (a * b))" using le ge by (cases "fl (a * b)") auto
  ultimately show ?thesis using r fmul_f64 [of x m] by simp
qed

lemma foldl_min_le:
  assumes "a \<noteq> NaN" "NaN \<notin> set xs"
  shows "foldl py_min a xs \<noteq> NaN \<and> (\<forall>x \<in> insert a (set xs). flt_le (foldl py_min a xs) x)"
  using assms
proof (induction xs arbitrary: a)
  case Nil then show ?case by (cases a) auto
next
  case (Cons b xs)
  have m: "py_min a b \<noteq> NaN" "flt_le (py_min a b) a" "flt_le (py_min a b) b"
    using Cons.prems by (cases a; cases b; auto simp: py_min_def)+
  have IH: "foldl py_min (py_min a b) xs \<noteq> NaN \<and>
      (\<forall>x \<in> insert (py_min a b) (set xs). flt_le (foldl py_min (py_min a b) xs) x)"
    using Cons.prems m(1) by (intro Cons.IH) auto
  then have "flt_le (foldl py_min (py_min a b) xs) a" "flt_le (foldl py_min (py_min a b) xs) b"
    using flt_le_trans [OF _ m(2)] flt_le_trans [OF _ m(3)] by blast+
  then show ?case using IH by auto
qed

lemma min_of_le: "NaN \<notin> set xs \<Longrightarrow> x \<in> set xs \<Longrightarrow> flt_le (min_of xs) x"
  using foldl_min_le [of "hd xs" "tl xs"] by (cases xs) (auto simp: min_of_def)

lemma volatility_factor_bounds:
  assumes "volatility_factor p m = Some v" "\<And>x. p = Some x \<Longrightarrow> is_finite x" "\<And>x. m = Some x \<Longrightarrow> is_finite x"
  shows "flt_le (Fin 0) v \<and> flt_le v (Fin 1)"
proof -
  have n: "fsub (Fin 1) (fdiv a b) \<noteq> NaN" if "is_finite a" "is_finite b" for a b
    using that by (cases "fdiv a b") (auto simp: fsub_def elim!: is_finiteE)
  show ?thesis
    using assms unit_interval_bounds [OF n]
    by (auto simp: volatility_factor_def split: option.splits if_splits)
qed

lemma drawdown_factor_bounds:
  assumes "is_finite dd" "\<And>x. m = Some x \<Longrightarrow> is_finite x"
  shows "flt_le (Fin 0) (drawdown_factor dd m) \<and> flt_le (drawdown_factor dd m) (Fin 1)"
proof -
  have n: "fsub (Fin 1) (fdiv dd b) \<noteq> NaN" if "is_finite b" for b
    using that assms(1) by (cases "fdiv dd b") (auto simp: fsub_def elim!: is_finiteE)
  show ?thesis using assms(2) unit_interval_bounds [OF n] by (auto simp: drawdown_factor_def split: option.splits)
qed

lemma collect_caps_ok:
  assumes "collect_caps req vs caps = Inr (Inr cs)" "NaN \<notin> snd ` set caps"
  shows "NaN \<notin> snd ` set cs"
  using assms
proof (induction vs arbitrary: caps)
  case Nil then show ?case by simp
next
  case (Cons p vs)
  obtain name v where p: "p = (name, v)" by (cases p)
  obtain parsed where n: "num_finite v = Inr parsed" using Cons.prems(1) by (auto simp: p bindE_Inr_iff)
  have upd: "snd ` set (AList.update name x al) \<subseteq> insert x (snd ` set al)" for x and al :: "(string \<times> flt) list"
    by (induction al) auto
  show ?case
  proof (cases parsed)
    case None then show ?thesis using Cons n by (auto simp: p split: if_splits)
  next
    case (Some x)
    then have "py_max (Fin 0) x \<noteq> NaN" using num_finite_Some n by (auto simp: py_max_def)
    then have "NaN \<notin> insert (py_max (Fin 0) x) (snd ` set caps)" using Cons.prems(2) by (metis insertE)
    then have "NaN \<notin> snd ` set (AList.update name (py_max (Fin 0) x) caps)" by (rule contra_subsetD [OF upd])
    then show ?thesis using Cons.IH Cons.prems(1) n Some by (simp add: p)
  qed
qed

lemma collect_caps_refused: "collect_caps req vs caps = Inr (Inl x) \<Longrightarrow> \<exists>a b. x = Refused a b"
  by (induction vs arbitrary: caps) (auto simp: bindE_Inr_iff split: option.splits if_splits)

text \<open>A cap given under a name is the cap of that name, the others stay as they were.\<close>

lemma collect_caps_other:
  "collect_caps req vs caps = Inr (Inr cs) \<Longrightarrow> n \<notin> fst ` set vs \<Longrightarrow> map_of cs n = map_of caps n"
  by (induction vs arbitrary: caps) (auto simp: bindE_Inr_iff update_conv' split: option.splits if_splits)

lemma collect_caps_given:
  "\<lbrakk>collect_caps req vs caps = Inr (Inr cs); distinct (map fst vs); (n, v) \<in> set vs; num_finite v = Inr (Some x)\<rbrakk>
    \<Longrightarrow> map_of cs n = Some (py_max (Fin 0) x)"
proof (induction vs arbitrary: caps)
  case (Cons q vs)
  show ?case
  proof (cases "q = (n, v)")
    case True
    then have "collect_caps req vs (AList.update n (py_max (Fin 0) x) caps) = Inr (Inr cs)" "n \<notin> fst ` set vs"
      using Cons.prems by (auto simp: bindE_Inr_iff)
    then show ?thesis by (simp add: collect_caps_other update_conv')
  next
    case False
    then show ?thesis using Cons by (cases q) (auto simp: bindE_Inr_iff split: option.splits if_splits)
  qed
qed simp

definition start_caps :: "flt \<Rightarrow> flt option \<Rightarrow> flt option \<Rightarrow> flt option \<Rightarrow> (string \<times> flt) list" where
  \<comment> \<open>the caps before the given ones\<close>
  "start_caps eq lev depth part = [(''leverage_cap'', fmul eq (opt_flt lev))] @
     (case depth of None \<Rightarrow> [] | Some d \<Rightarrow> [(''liquidity_cap'', py_max (Fin 0) (fmul d (opt_flt part)))])"

lemma size_within_limitsE:
  assumes "size_within_limits i plan eq slip max_slip vol max_vol depth part lev min_size = Inr (Sized p)"
  obtains vf caps where "\<not> not_positive lev" "\<not> out_of_unit lev" "\<not> out_of_unit part" "volatility_factor vol max_vol = Some vf"
    "collect_caps (in_require_limits i) (in_caps i) (start_caps eq lev depth part) = Inr (Inr caps)"
    "plan (Some vf) min_size caps = Sized p"
    "\<forall>a m. slip = Some a \<and> max_slip = Some m \<longrightarrow> \<not> flt_less m a"
    "in_require_limits i \<Longrightarrow> slip \<noteq> None \<and> max_slip \<noteq> None \<and> vol \<noteq> None \<and> max_vol \<noteq> None \<and> depth \<noteq> None"
proof -
  have l: "\<forall>a m. slip = Some a \<and> max_slip = Some m \<longrightarrow> \<not> flt_less m a"
    "in_require_limits i \<Longrightarrow> slip \<noteq> None \<and> max_slip \<noteq> None \<and> vol \<noteq> None \<and> max_vol \<noteq> None \<and> depth \<noteq> None"
    using assms unfolding size_within_limits_def by (force split: if_splits)+
  obtain vf where r: "\<not> not_positive lev" "\<not> out_of_unit lev" "\<not> out_of_unit part" "volatility_factor vol max_vol = Some vf"
    using assms unfolding size_within_limits_def by (fastforce split: if_splits)
  obtain caps where c: "collect_caps (in_require_limits i) (in_caps i) (start_caps eq lev depth part) = Inr caps"
      "(case caps of Inl refused \<Rightarrow> refused | Inr cs \<Rightarrow> plan (volatility_factor vol max_vol) min_size cs) = Sized p"
    using assms unfolding size_within_limits_def start_caps_def by (simp add: bindE_Inr_iff split: if_splits) blast
  show ?thesis using that [OF r _ _ l] c r(4) collect_caps_refused by (cases caps) fastforce+
qed

lemma sized_planD:
  assumes "sized_plan eq px sl gap risk_pct dd vol min_size caps = Sized p"
  shows "risk_budget_usdt p = fmul (fmul (fmul eq risk_pct) dd) vol" "raw_risk_notional p = fdiv (risk_budget_usdt p) gap"
    "selected_notional p = min_of (raw_risk_notional p # map snd caps)" "plan_caps p = caps"
    "\<not> flt_le (selected_notional p) (Fin 0)" "\<not> (flt_less (Fin 0) min_size \<and> flt_less (selected_notional p) min_size)"
    "stop_distance_pct p = gap" "risk_pct_per_trade p = risk_pct" "drawdown_multiplier p = dd" "volatility_multiplier p = vol"
    "plan_quantity p = fdiv (selected_notional p) px"
  using assms by (auto simp: sized_plan_def Let_def split: if_splits)

lemma sizing_Sized:
  assumes "risk_based_candidate_exposure i = Inr (Sized p)"
  obtains eq px sl risk gap dd max_dd slip max_slip vol max_vol depth part lev vf min0 caps where
    "num_finite (in_equity i) = Inr (Some eq)" "flt_less (Fin 0) eq"
    "num_finite (in_entry i) = Inr (Some px)" "flt_less (Fin 0) px" "num_finite (in_stop i) = Inr (Some sl)"
    "num_finite (in_risk_pct i) = Inr (Some risk)" "flt_less (Fin 0) risk" "flt_le risk (Fin 1)"
    "gap = fdiv (flt_abs (fsub px sl)) px" "is_finite gap" "flt_less (Fin 0) gap"
    "num_finite (in_drawdown i) = Inr (Some dd)" "num_finite (in_max_drawdown i) = Inr max_dd"
    "\<not> flt_le (drawdown_factor dd max_dd) (Fin 0)"
    "num_finite (in_slippage i) = Inr slip" "num_finite (in_max_slippage i) = Inr max_slip"
    "\<forall>a m. slip = Some a \<and> max_slip = Some m \<longrightarrow> \<not> flt_less m a"
    "num_finite (in_volatility i) = Inr vol" "num_finite (in_max_volatility i) = Inr max_vol"
    "volatility_factor vol max_vol = Some vf" "num_finite (in_depth i) = Inr depth"
    "num_finite (in_participation i) = Inr (Some part)" "num_finite (in_leverage i) = Inr (Some lev)" "flt_le lev (Fin 1)"
    "in_require_limits i \<Longrightarrow> slip \<noteq> None \<and> max_slip \<noteq> None \<and> vol \<noteq> None \<and> max_vol \<noteq> None \<and> depth \<noteq> None"
    "collect_caps (in_require_limits i) (in_caps i) (start_caps eq (Some lev) depth (Some part)) = Inr (Inr caps)"
    "NaN \<notin> snd ` set caps" "num_finite (in_min_notional i) = Inr min0"
    "sized_plan eq px sl gap risk (drawdown_factor dd max_dd) vf (opt_flt min0) caps = Sized p"
proof -
  have pos: "\<not> not_positive x \<Longrightarrow> \<exists>y. x = Some y \<and> \<not> flt_le y (Fin 0)" for x
    by (auto simp: not_positive_def split: option.splits)
  have unit: "\<not> out_of_unit x \<Longrightarrow> \<exists>y. x = Some y \<and> \<not> flt_less (Fin 1) y" for x
    by (auto simp: out_of_unit_def split: option.splits)
  obtain eq0 px0 sl0 risk0 where a: "num_finite (in_equity i) = Inr eq0" "num_finite (in_entry i) = Inr px0"
      "num_finite (in_stop i) = Inr sl0" "num_finite (in_risk_pct i) = Inr risk0"
    using assms unfolding risk_based_candidate_exposure_def bindE_Inr_iff by blast
  define gap where "gap = fdiv (flt_abs (fsub (opt_flt px0) (opt_flt sl0))) (opt_flt px0)"
  have g: "\<not> not_positive eq0" "\<not> not_positive px0" "sl0 \<noteq> None" "\<not> not_positive risk0" "\<not> out_of_unit risk0"
      "is_finite gap" "\<not> flt_le gap (Fin 0)"
    and w: "size_with_drawdown i (opt_flt eq0) (opt_flt px0) (opt_flt sl0) gap (opt_flt risk0) = Inr (Sized p)"
    using assms a unfolding risk_based_candidate_exposure_def gap_def by (auto simp: Let_def split: if_splits)
  obtain eq px sl risk where o: "eq0 = Some eq" "px0 = Some px" "sl0 = Some sl" "risk0 = Some risk"
    using pos g by (metis option.exhaust)
  obtain dd max_dd where d: "num_finite (in_drawdown i) = Inr (Some dd)" "num_finite (in_max_drawdown i) = Inr max_dd"
      "\<not> flt_le (drawdown_factor dd max_dd) (Fin 0)"
    and s: "size_with_limits i eq px sl gap risk (drawdown_factor dd max_dd) = Inr (Sized p)"
    using w o unfolding size_with_drawdown_def by (auto simp: bindE_Inr_iff split: if_splits option.splits)
  obtain slip max_slip vol max_vol depth part0 lev0 min0 where e: "num_finite (in_slippage i) = Inr slip"
      "num_finite (in_max_slippage i) = Inr max_slip"
      "num_finite (in_volatility i) = Inr vol" "num_finite (in_max_volatility i) = Inr max_vol"
      "num_finite (in_depth i) = Inr depth" "num_finite (in_participation i) = Inr part0"
      "num_finite (in_leverage i) = Inr lev0" "num_finite (in_min_notional i) = Inr min0"
    using s unfolding size_with_limits_def bindE_Inr_iff by blast
  have z: "size_within_limits i (\<lambda>v. sized_plan eq px sl gap risk (drawdown_factor dd max_dd) (opt_flt v))
      eq slip max_slip vol max_vol depth part0 lev0 (opt_flt min0) = Inr (Sized p)"
    using s unfolding size_with_limits_def by (simp add: e)
  obtain vf caps where l: "\<not> not_positive lev0" "\<not> out_of_unit lev0" "\<not> out_of_unit part0" and v: "volatility_factor vol max_vol = Some vf"
    and c: "collect_caps (in_require_limits i) (in_caps i) (start_caps eq lev0 depth part0) = Inr (Inr caps)"
    and pl: "sized_plan eq px sl gap risk (drawdown_factor dd max_dd) vf (opt_flt min0) caps = Sized p"
    and lim: "\<forall>a m. slip = Some a \<and> max_slip = Some m \<longrightarrow> \<not> flt_less m a"
      "in_require_limits i \<Longrightarrow> slip \<noteq> None \<and> max_slip \<noteq> None \<and> vol \<noteq> None \<and> max_vol \<noteq> None \<and> depth \<noteq> None"
    using size_within_limitsE [OF z] by (metis opt_flt_simps(2))
  obtain lev part where o2: "lev0 = Some lev" "part0 = Some part" using pos l(1) unit l(3) by metis
  have fin: "is_finite eq" "is_finite px" "is_finite risk" "is_finite lev" "is_finite part"
    using a(1,2,4) e(6,7) o o2 num_finite_Some by blast+
  have nn: "fmul x y \<noteq> NaN" if "is_finite x" "is_finite y" for x y using that by (auto elim!: is_finiteE)
  have "NaN \<notin> snd ` set (start_caps eq lev0 depth part0)"
  proof (cases depth)
    case None then show ?thesis using nn [OF fin(1,4)] o2 by (auto simp: start_caps_def dest: sym)
  next
    case (Some dp)
    have "fmul dp part \<noteq> NaN" using nn num_finite_Some e(5,6) Some o2 by blast
    then have "py_max (Fin 0) (fmul dp part) \<noteq> NaN" by (simp add: py_max_def)
    then show ?thesis using Some nn [OF fin(1,4)] o2 by (auto simp: start_caps_def dest: sym)
  qed
  then have caps: "NaN \<notin> snd ` set caps" by (rule collect_caps_ok [OF c])
  have pr: "flt_less (Fin 0) eq" "flt_less (Fin 0) px" "flt_less (Fin 0) risk" "flt_le risk (Fin 1)" "flt_less (Fin 0) gap" "flt_le lev (Fin 1)"
    using g(1,2,4,5,7,6) l(2) o o2 fin by (auto simp: not_positive_def out_of_unit_def elim!: is_finiteE)
  show ?thesis
    by (rule that [OF _ pr(1) _ pr(2) _ _ pr(3,4) _ g(6) pr(5) d e(1,2) lim(1) e(3,4) v e(5) _ _ pr(6) lim(2) _ caps e(8) pl])
      (use a e c o o2 gap_def in simp_all)
qed

lemma fdiv_mono: "flt_le x y \<Longrightarrow> is_finite x \<Longrightarrow> is_finite y \<Longrightarrow> is_finite g \<Longrightarrow> flt_less (Fin 0) g \<Longrightarrow> flt_le (fdiv x g) (fdiv y g)"
  by (auto elim!: is_finiteE intro!: fl_mono simp: divide_right_mono)

lemma sizing_budget:
  assumes p: "sized_plan eq px sl gap risk (drawdown_factor dd max_dd) vf min_size caps = Sized p"
    and "is_f64 eq" "is_finite eq" "flt_less (Fin 0) eq"
    and r: "num_finite rv = Inr (Some risk)" "flt_less (Fin 0) risk" "flt_le risk (Fin 1)"
    and g: "is_finite gap" "flt_less (Fin 0) gap"
    and d: "num_finite dv = Inr (Some dd)" "num_finite mv = Inr max_dd"
    and v: "num_finite vv = Inr vol" "num_finite wv = Inr max_vol" "volatility_factor vol max_vol = Some vf"
  shows "raw_risk_notional p \<noteq> NaN" "flt_le (raw_risk_notional p) (fdiv (fmul eq risk) gap)"
    "flt_le (Fin 0) (drawdown_multiplier p)" "flt_le (drawdown_multiplier p) (Fin 1)"
    "flt_le (Fin 0) (volatility_multiplier p)" "flt_le (volatility_multiplier p) (Fin 1)"
    "flt_le (risk_budget_usdt p) (fmul eq (risk_pct_per_trade p))"
proof -
  note P = sized_planD [OF p]
  have ddb: "flt_le (Fin 0) (drawdown_factor dd max_dd) \<and> flt_le (drawdown_factor dd max_dd) (Fin 1)"
    using d num_finite_Some by (intro drawdown_factor_bounds) auto
  have vfb: "flt_le (Fin 0) vf \<and> flt_le vf (Fin 1)"
    using v num_finite_Some by (intro volatility_factor_bounds [OF v(3)]) auto
  have e0: "flt_le (Fin 0) eq" using assms(4) by (simp add: flt_le_def)
  have r0: "flt_le (Fin 0) risk" using r(2) by (simp add: flt_le_def)
  note b1 = fmul_shrinks [OF e0 r0 r(3) assms(2,3)]
  note b2 = fmul_shrinks [OF conjunct1 [OF b1] conjunct1 [OF ddb] conjunct2 [OF ddb]]
  have b2': "flt_le (Fin 0) (fmul (fmul eq risk) (drawdown_factor dd max_dd)) \<and>
      flt_le (fmul (fmul eq risk) (drawdown_factor dd max_dd)) (fmul eq risk) \<and>
      is_f64 (fmul (fmul eq risk) (drawdown_factor dd max_dd)) \<and> is_finite (fmul (fmul eq risk) (drawdown_factor dd max_dd))"
    using b1 by (intro b2) auto
  have b3: "flt_le (Fin 0) (risk_budget_usdt p) \<and> flt_le (risk_budget_usdt p) (fmul (fmul eq risk) (drawdown_factor dd max_dd)) \<and>
      is_f64 (risk_budget_usdt p) \<and> is_finite (risk_budget_usdt p)"
    unfolding P(1) using b2' vfb by (intro fmul_shrinks) auto
  show "raw_risk_notional p \<noteq> NaN" unfolding P(2) using b3 g by (auto elim!: is_finiteE)
  have bud: "flt_le (risk_budget_usdt p) (fmul eq risk)" using b3 b2' flt_le_trans by blast
  then show "flt_le (raw_risk_notional p) (fdiv (fmul eq risk) gap)"
    unfolding P(2) using b1 b3 g by (intro fdiv_mono) auto
  show "flt_le (Fin 0) (drawdown_multiplier p)" "flt_le (drawdown_multiplier p) (Fin 1)" using ddb by (simp_all add: P(9))
  show "flt_le (Fin 0) (volatility_multiplier p)" "flt_le (volatility_multiplier p) (Fin 1)" using vfb by (simp_all add: P(10))
  show "flt_le (risk_budget_usdt p) (fmul eq (risk_pct_per_trade p))" using bud by (simp add: P(8))
qed

text \<open>C32: sizing never exceeds what its inputs allow. A computed size is positive and not above any of:
  the equity times the risk per trade, also times the drawdown and volatility multipliers of the inputs,
  divided by the distance of the stop from the entry; the equity
  times the leverage, which is at most 1; the participation in the measured depth; each cap given by the
  caller (a given cap of the same name replaces one of the two before it). The risk per trade is at most
  1, the expected slippage is not above its limit, and where execution limits are required none of
  their evidence is missing. The multipliers lie between 0 and 1, so the budget
  never exceeds the equity times the risk per trade, and the size reaches the minimum notional.\<close>

theorem sizing_within_budget:
  assumes "risk_based_candidate_exposure i = Inr (Sized p)"
    and "py_float (in_equity i) = Inr eq" and "is_f64 eq" and "distinct (map fst (in_caps i))"
  shows "\<exists>px sl risk lev part. py_float (in_entry i) = Inr px \<and> py_float (in_stop i) = Inr sl \<and> py_float (in_risk_pct i) = Inr risk \<and>
    py_float (in_leverage i) = Inr lev \<and> py_float (in_participation i) = Inr part \<and>
    flt_less (Fin 0) eq \<and> flt_less (Fin 0) px \<and> flt_less (Fin 0) risk \<and> flt_le risk (Fin 1) \<and> flt_le lev (Fin 1) \<and>
    flt_less (Fin 0) (selected_notional p) \<and>
    flt_le (selected_notional p) (fdiv (fmul eq risk) (fdiv (flt_abs (fsub px sl)) px)) \<and>
    flt_le (selected_notional p)
      (fdiv (fmul (fmul (fmul eq risk) (drawdown_multiplier p)) (volatility_multiplier p)) (fdiv (flt_abs (fsub px sl)) px)) \<and>
    (\<exists>dd max_dd vol max_vol. num_finite (in_drawdown i) = Inr (Some dd) \<and> num_finite (in_max_drawdown i) = Inr max_dd \<and>
       num_finite (in_volatility i) = Inr vol \<and> num_finite (in_max_volatility i) = Inr max_vol \<and>
       drawdown_multiplier p = drawdown_factor dd max_dd \<and> volatility_factor vol max_vol = Some (volatility_multiplier p)) \<and>
    (''leverage_cap'' \<notin> fst ` set (in_caps i) \<longrightarrow> flt_le (selected_notional p) (fmul eq lev)) \<and>
    (''liquidity_cap'' \<notin> fst ` set (in_caps i) \<longrightarrow> (\<forall>d. num_finite (in_depth i) = Inr (Some d) \<longrightarrow>
       flt_le (selected_notional p) (py_max (Fin 0) (fmul d part)))) \<and>
    (\<forall>(n, v) \<in> set (in_caps i). \<forall>x. num_finite v = Inr (Some x) \<longrightarrow> flt_le (selected_notional p) (py_max (Fin 0) x)) \<and>
    (\<forall>a m. num_finite (in_slippage i) = Inr (Some a) \<and> num_finite (in_max_slippage i) = Inr (Some m) \<longrightarrow> \<not> flt_less m a) \<and>
    (in_require_limits i \<longrightarrow> (\<forall>v \<in> {in_slippage i, in_max_slippage i, in_volatility i, in_max_volatility i, in_depth i}. num_finite v \<noteq> Inr None)) \<and>
    (\<forall>m. num_finite (in_min_notional i) = Inr (Some m) \<and> flt_less (Fin 0) m \<longrightarrow> \<not> flt_less (selected_notional p) m) \<and>
    stop_distance_pct p = fdiv (flt_abs (fsub px sl)) px \<and> plan_quantity p = fdiv (selected_notional p) px \<and>
    (\<forall>c \<in> snd ` set (plan_caps p). flt_le (selected_notional p) c) \<and>
    flt_le (Fin 0) (drawdown_multiplier p) \<and> flt_le (drawdown_multiplier p) (Fin 1) \<and>
    flt_le (Fin 0) (volatility_multiplier p) \<and> flt_le (volatility_multiplier p) (Fin 1) \<and>
    flt_le (selected_notional p) (raw_risk_notional p) \<and>
    flt_le (risk_budget_usdt p) (fmul eq (risk_pct_per_trade p)) \<and> risk_pct_per_trade p = risk"
  using assms(1)
proof (rule sizing_Sized)
  fix eq' px sl risk gap dd max_dd slip max_slip vol max_vol depth part lev vf min0 caps
  assume e: "num_finite (in_equity i) = Inr (Some eq')" "flt_less (Fin 0) eq'"
    and x: "num_finite (in_entry i) = Inr (Some px)" "flt_less (Fin 0) px" "num_finite (in_stop i) = Inr (Some sl)"
    and r: "num_finite (in_risk_pct i) = Inr (Some risk)" "flt_less (Fin 0) risk" "flt_le risk (Fin 1)"
    and g: "gap = fdiv (flt_abs (fsub px sl)) px" "is_finite gap" "flt_less (Fin 0) gap"
    and d: "num_finite (in_drawdown i) = Inr (Some dd)" "num_finite (in_max_drawdown i) = Inr max_dd"
    and sl: "num_finite (in_slippage i) = Inr slip" "num_finite (in_max_slippage i) = Inr max_slip"
      "\<forall>a m. slip = Some a \<and> max_slip = Some m \<longrightarrow> \<not> flt_less m a"
    and v: "num_finite (in_volatility i) = Inr vol" "num_finite (in_max_volatility i) = Inr max_vol"
      "volatility_factor vol max_vol = Some vf"
    and lv: "num_finite (in_depth i) = Inr depth" "num_finite (in_participation i) = Inr (Some part)"
      "num_finite (in_leverage i) = Inr (Some lev)" "flt_le lev (Fin 1)"
    and q: "in_require_limits i \<Longrightarrow> slip \<noteq> None \<and> max_slip \<noteq> None \<and> vol \<noteq> None \<and> max_vol \<noteq> None \<and> depth \<noteq> None"
    and cc: "collect_caps (in_require_limits i) (in_caps i) (start_caps eq' (Some lev) depth (Some part)) = Inr (Inr caps)"
    and c: "NaN \<notin> snd ` set caps" and m: "num_finite (in_min_notional i) = Inr min0"
    and p: "sized_plan eq' px sl gap risk (drawdown_factor dd max_dd) vf (opt_flt min0) caps = Sized p"
  have eq: "eq' = eq" "is_finite eq" using e(1) assms(2) num_finite_Some by fastforce+
  note P = sized_planD [OF p, unfolded eq(1)]
  note bud = sizing_budget [OF p [unfolded eq(1)] assms(3) eq(2) e(2) [unfolded eq(1)] r(1-3) g(2,3) d v]
  have nn: "NaN \<notin> set (raw_risk_notional p # map snd caps)" using bud(1) c by auto
  have le: "flt_le (selected_notional p) x" if "x \<in> set (raw_risk_notional p # map snd caps)" for x
    unfolding P(3) by (rule min_of_le [OF nn that])
  have cap: "flt_le (selected_notional p) x" if "map_of caps n = Some x" for n x
    using map_of_SomeD [OF that] by (intro le) force
  have "selected_notional p \<noteq> NaN" using le [of "raw_risk_notional p"] by auto
  then have pos: "flt_less (Fin 0) (selected_notional p)" using P(5) flt_not_less by blast
  have raw: "flt_le (selected_notional p) (fdiv (fmul eq risk) gap)"
    using flt_le_trans [OF le [of "raw_risk_notional p"] bud(2)] by simp
  have scaled: "flt_le (selected_notional p)
      (fdiv (fmul (fmul (fmul eq risk) (drawdown_multiplier p)) (volatility_multiplier p)) (fdiv (flt_abs (fsub px sl)) px))"
    using le [of "raw_risk_notional p"] by (simp add: P(1,2,9,10) g(1))
  have multipliers: "\<exists>dd max_dd vol max_vol. num_finite (in_drawdown i) = Inr (Some dd) \<and> num_finite (in_max_drawdown i) = Inr max_dd \<and>
       num_finite (in_volatility i) = Inr vol \<and> num_finite (in_max_volatility i) = Inr max_vol \<and>
       drawdown_multiplier p = drawdown_factor dd max_dd \<and> volatility_factor vol max_vol = Some (volatility_multiplier p)"
    using d v by (simp add: P(9,10))
  have lev: "flt_le (selected_notional p) (fmul eq lev)" if "''leverage_cap'' \<notin> fst ` set (in_caps i)"
    using cap collect_caps_other [OF cc that] by (simp add: start_caps_def eq(1))
  have liq: "flt_le (selected_notional p) (py_max (Fin 0) (fmul d part))"
    if "''liquidity_cap'' \<notin> fst ` set (in_caps i)" "num_finite (in_depth i) = Inr (Some d)" for d
    using cap collect_caps_other [OF cc that(1)] that(2) lv(1) by (simp add: start_caps_def)
  have given: "flt_le (selected_notional p) (py_max (Fin 0) x)" if "(n, v) \<in> set (in_caps i)" "num_finite v = Inr (Some x)" for n v x
    by (rule cap [OF collect_caps_given [OF cc assms(4) that]])
  have lim: "\<forall>v \<in> {in_slippage i, in_max_slippage i, in_volatility i, in_max_volatility i, in_depth i}. num_finite v \<noteq> Inr None"
    if "in_require_limits i"
    using q [OF that] sl(1,2) v(1,2) lv(1) by auto
  have floats: "py_float (in_entry i) = Inr px" "py_float (in_stop i) = Inr sl" "py_float (in_risk_pct i) = Inr risk"
    "py_float (in_leverage i) = Inr lev" "py_float (in_participation i) = Inr part"
    using x r(1) lv(2,3) num_finite_Some by blast+
  show ?thesis
    by (rule exI [of _ px], rule exI [of _ sl], rule exI [of _ risk], rule exI [of _ lev], rule exI [of _ part])
      (intro conjI; (rule multipliers scaled)?; use floats e(2) eq x(2) r(2,3) lv(4) pos raw lev liq given sl lim m le bud P in \<open>auto simp: g(1)\<close>)
qed

text \<open>Scaling is monotone: an effective notional or quantity is never above the original one,
  the scale lies between 0 and 1, and an absent scale becomes 1 only where none is required.\<close>

theorem scaling_never_enlarges:
  assumes "scale_candidate_exposure notional0 scale0 qty0 req = Inr (Scaled notional scale qty)"
    and "is_f64 notional" "qty = None \<or> is_f64 (opt_flt qty)"
  shows "flt_less (Fin 0) notional \<and> flt_le (Fin 0) scale \<and> flt_le scale (Fin 1) \<and>
    flt_le (fmul notional scale) notional \<and>
    (qty = None \<or> flt_le (opt_flt (effective_quantity (Scaled notional scale qty))) (opt_flt qty)) \<and>
    (scale0 \<noteq> VNone \<or> \<not> req \<and> scale = Fin 1)"
proof -
  have h: "is_finite notional" "\<not> flt_le notional (Fin 0)" "is_finite scale" "\<not> flt_less scale (Fin 0)"
      "\<not> flt_less (Fin 1) scale" "qty = None \<or> is_finite (opt_flt qty) \<and> \<not> flt_le (opt_flt qty) (Fin 0)"
      "scale0 \<noteq> VNone \<or> \<not> req \<and> scale = Fin 1"
    using assms(1) unfolding scale_candidate_exposure_def
    by (auto simp: bindE_Inr_iff Let_def float_or_nan_def catch_tv_def split: if_splits)
  have s: "flt_le (Fin 0) scale" "flt_le scale (Fin 1)" using h(3-5) by (auto elim!: is_finiteE)
  have pos: "flt_less (Fin 0) x" "flt_le (Fin 0) x" if "is_finite x" "\<not> flt_le x (Fin 0)" for x
    using that by (auto elim!: is_finiteE)
  have q: "qty = None \<or> flt_le (opt_flt (effective_quantity (Scaled notional scale qty))) (opt_flt qty)"
    using h(6) assms(3) fmul_shrinks [OF _ s] pos by (cases qty) auto
  have "flt_le (fmul notional scale) notional"
    using fmul_shrinks [OF pos(2) [OF h(1,2)] s assms(2) h(1)] by simp
  then show ?thesis using pos(1) [OF h(1,2)] s q h(7) by simp
qed

theorem scaling_never_enlarges_witness:
  "flt_le (opt_flt (effective_quantity (Scaled (Fin 8) (Fin (1/2)) (Some (Fin 4))))) (Fin 4)"
proof -
  have "scale_candidate_exposure (VFloat (Fin 8)) (VFloat (Fin (1/2))) (VFloat (Fin 4)) True =
      Inr (Scaled (Fin 8) (Fin (1/2)) (Some (Fin 4)))"
    by (simp add: scale_candidate_exposure_def float_or_nan_def catch_tv_def)
  from scaling_never_enlarges [OF this] show ?thesis by (simp add: is_f64_fin fl_eval)
qed

definition demo_sizing :: SizingInputs where
  "demo_sizing = \<lparr>in_equity = VFloat (Fin 1024), in_entry = VFloat (Fin 128), in_stop = VFloat (Fin 127),
     in_risk_pct = VFloat (Fin (1/64)), in_drawdown = VFloat (Fin 0), in_max_drawdown = VNone,
     in_slippage = VNone, in_max_slippage = VNone, in_volatility = VNone, in_max_volatility = VNone,
     in_depth = VNone, in_participation = VFloat (Fin 1), in_leverage = VFloat (Fin 1), in_min_notional = VNone,
     in_caps = [(''portfolio_cap'', VFloat (Fin 512))], in_require_limits = False\<rparr>"

theorem sizing_within_budget_witness:
  "\<exists>p. risk_based_candidate_exposure demo_sizing = Inr (Sized p) \<and> selected_notional p = Fin 512 \<and>
     flt_le (selected_notional p) (fdiv (fmul (Fin 1024) (Fin (1/64))) (fdiv (flt_abs (fsub (Fin 128) (Fin 127))) (Fin 128)))"
proof -
  have "\<exists>p. risk_based_candidate_exposure demo_sizing = Inr (Sized p) \<and> selected_notional p = Fin 512"
    by (simp add: risk_based_candidate_exposure_def demo_sizing_def num_finite_def catch_tv_def not_positive_def
        out_of_unit_def size_with_drawdown_def drawdown_factor_def size_with_limits_def size_within_limits_def
        volatility_factor_def sized_plan_def Let_def min_of_def py_min_def py_max_def fl_eval)
  then obtain p where p: "risk_based_candidate_exposure demo_sizing = Inr (Sized p)" "selected_notional p = Fin 512" by blast
  show ?thesis using sizing_within_budget [OF p(1), of "Fin 1024"] p by (simp add: demo_sizing_def is_f64_fin fl_eval)
qed

end
