(* ===== verification/PortfolioRisk.thy ===== *)
theory PortfolioRisk
  imports PortfolioSizing
begin

section \<open>The portfolio snapshot and its risk gate (\<^verbatim>\<open>portfolio_risk.py\<close>)\<close>

text \<open>
  \<^verbatim>\<open>snapshot_from_state\<close> folds the open positions into exposures per symbol, side and
  correlation group, and \<^verbatim>\<open>evaluate_portfolio_risk\<close> decides on one candidate against
  that snapshot. A configuration is a mapping; a limit stays the value the configuration
  holds, so a comparison with it may raise. The JSON diagnostics of a snapshot and of a
  decision are not modelled. The wall clock is an argument.
\<close>

subsection \<open>Numbers\<close>

definition maybe_num :: "pyval \<Rightarrow> flt option \<Rightarrow> flt option py" where
  \<comment> \<open>\<^verbatim>\<open>_num(value, default)\<close>\<close>
  "maybe_num v d =
    (if in_strs v ['''', ''UNKNOWN'', ''UNAVAILABLE''] then Inr d
     else catch_tv (bindE (py_float v) (\<lambda>x. Inr (Some x))) d)"

definition parse_int :: "string \<Rightarrow> int option" where
  "parse_int s =
    (let (neg, body) = split_sign (py_strip s); ds = filter (\<lambda>c. c \<noteq> CHR ''_'') body in
     if ds = [] \<or> \<not> underscores_ok False body \<or> \<not> list_all is_digit_char ds then None
     else Some ((if neg then - 1 else 1) * int (digits_value 0 ds)))"

fun py_int :: "pyval \<Rightarrow> int py" where
  \<comment> \<open>\<^verbatim>\<open>int(value)\<close>: a float is truncated towards zero\<close>
  "py_int (VInt n) = Inr n"
| "py_int (VBool b) = Inr (if b then 1 else 0)"
| "py_int (VFloat (Fin r)) = Inr (if r < 0 then - \<lfloor>- r\<rfloor> else \<lfloor>r\<rfloor>)"
| "py_int (VFloat NaN) = Inl (ValueError ''cannot convert float NaN to integer'')"
| "py_int (VFloat _) = Inl OverflowError"
| "py_int (VStr s) =
    (case parse_int s of None \<Rightarrow> Inl (ValueError ''invalid literal for int() with base 10'') | Some n \<Rightarrow> Inr n)"
| "py_int _ = Inl TypeError"

definition py_ge :: "pyval \<Rightarrow> pyval \<Rightarrow> bool py" where
  \<comment> \<open>\<^verbatim>\<open>v >= w\<close> where \<^verbatim>\<open>v\<close> is a number\<close>
  "py_ge v w = (case (num_value v, num_value w) of (Some x, Some y) \<Rightarrow> Inr (flt_le y x) | _ \<Rightarrow> Inl TypeError)"

definition int_opt_val :: "int option \<Rightarrow> pyval" where
  "int_opt_val x = (case x of None \<Rightarrow> VNone | Some n \<Rightarrow> VInt n)"

subsection \<open>Correlation groups\<close>

definition ends_with :: "string \<Rightarrow> string \<Rightarrow> bool" where
  "ends_with suffix s \<longleftrightarrow> drop (length s - length suffix) s = suffix"

definition QUOTE_SUFFIXES :: "string list" where
  "QUOTE_SUFFIXES = [''USDT'', ''USD'', ''USDC'', ''BUSD'', ''BTC'', ''ETH'']"

definition base_asset :: "string \<Rightarrow> string" where
  \<comment> \<open>the loop over the quote currencies: the first that matches is cut off\<close>
  "base_asset s =
    (case find (\<lambda>q. ends_with q s \<and> length q < length s) QUOTE_SUFFIXES of
       None \<Rightarrow> s | Some q \<Rightarrow> take (length s - length q) s)"

definition group_of_base :: "string \<Rightarrow> string" where
  "group_of_base b =
    (if b \<in> set [''BTC'', ''WBTC'', ''ETH'', ''STETH'', ''WETH''] then ''CRYPTO_MAJOR''
     else if b \<in> set [''DOGE'', ''SHIB'', ''PEPE'', ''BONK'', ''FLOKI'', ''WIF''] then ''CRYPTO_MEME_LOW_LIQUIDITY''
     else if b \<in> set [''SOL'', ''AVAX'', ''BNB'', ''XRP'', ''ADA'', ''LINK'', ''DOT'', ''MATIC'', ''ARB'', ''OP'']
       then ''CRYPTO_HIGH_BETA_ALT''
     else if b \<in> set [''USDT'', ''USDC'', ''DAI'', ''USD'', ''EUR''] then ''STABLE_FIAT''
     else ''UNKNOWN_CONSERVATIVE'')"

definition correlation_group_for_symbol :: "string \<Rightarrow> (string \<times> string) list \<Rightarrow> string" where
  "correlation_group_for_symbol symb override =
    (let s = filter (\<lambda>c. c \<noteq> CHR ''-'') (py_upper symb) in
     case map_of (rev (map (\<lambda>(k, v). (py_upper k, v)) override)) s of
       Some g \<Rightarrow> g
     | None \<Rightarrow> group_of_base (base_asset s))"

subsection \<open>The snapshot\<close>

record PortfolioRiskSnapshot =
  snap_mode :: string
  snap_timestamp :: string
  snap_equity :: "flt option"
  available_balance :: "flt option"
  open_position_count :: "int option"
  max_open_positions :: pyval
  concurrent_position_count :: "int option"
  max_concurrent_positions :: pyval
  total_notional_exposure :: "flt option"
  max_notional_exposure :: pyval
  symbol_notional_exposure :: "flt option"
  max_symbol_notional :: pyval
  side_exposure_long :: "flt option"
  side_exposure_short :: "flt option"
  net_exposure :: "flt option"
  gross_exposure :: "flt option"
  leverage_estimate :: "flt option"
  symbol_cooldown_remaining_sec :: pyval
  trades_today_symbol :: pyval
  trades_today_global :: "int option"
  daily_realized_pnl :: "flt option"
  daily_loss_pct :: "flt option"
  max_daily_loss_pct :: pyval
  rolling_peak_equity :: "flt option"
  rolling_drawdown_pct :: "flt option"
  max_rolling_drawdown_pct :: pyval
  consecutive_loss_count :: "int option"
  symbol_consecutive_loss_count :: pyval
  loss_cluster_active :: "bool option"
  symbol_loss_cluster_active :: pyval
  risk_state_complete :: pyval
  risk_state_source :: pyval
  risk_state_missing_fields :: "string list"
  correlation_group :: "string option"
  correlation_group_exposure :: "flt option"
  max_correlation_group_exposure :: pyval
  correlated_position_count :: "int option"
  max_correlated_positions :: pyval
  symbol_notional_exposures :: "(string \<times> flt) list"
  correlation_group_exposures :: "(string \<times> flt) list"
  correlated_position_counts :: "(string \<times> int) list"

record Exposures =
  \<comment> \<open>the locals the loop over the positions accumulates\<close>
  exp_total :: flt
  exp_sym :: flt
  exp_long :: flt
  exp_short :: flt
  exp_group :: flt
  exp_group_count :: int
  exp_symbols :: "(string \<times> flt) list"
  exp_groups :: "(string \<times> flt) list"
  exp_counts :: "(string \<times> int) list"

definition no_exposure :: Exposures where
  "no_exposure = \<lparr>exp_total = Fin 0, exp_sym = Fin 0, exp_long = Fin 0, exp_short = Fin 0, exp_group = Fin 0,
     exp_group_count = 0, exp_symbols = [], exp_groups = [], exp_counts = []\<rparr>"

definition flt_at :: "(string \<times> flt) list \<Rightarrow> string \<Rightarrow> flt" where
  \<comment> \<open>\<^verbatim>\<open>d.get(k, 0.0)\<close>\<close>
  "flt_at d k = (case map_of d k of None \<Rightarrow> Fin 0 | Some x \<Rightarrow> x)"

definition int_at :: "(string \<times> int) list \<Rightarrow> string \<Rightarrow> int" where
  "int_at d k = (case map_of d k of None \<Rightarrow> 0 | Some n \<Rightarrow> n)"

definition bump :: "string \<Rightarrow> flt \<Rightarrow> (string \<times> flt) list \<Rightarrow> (string \<times> flt) list" where
  "bump k x d = AList.update k (fadd (flt_at d k) x) d"

definition bump_int :: "string \<Rightarrow> (string \<times> int) list \<Rightarrow> (string \<times> int) list" where
  "bump_int k d = AList.update k (int_at d k + 1) d"

definition correlation_sides :: "string \<Rightarrow> string list" where
  "correlation_sides pside = (if pside \<in> {''LONG'', ''SHORT''} then [pside] else [''LONG'', ''SHORT''])"

definition group_key :: "string \<Rightarrow> string \<Rightarrow> string" where
  "group_key g s = g @ '':'' @ s"

definition position_values :: "pyval \<Rightarrow> (flt option \<times> string) py" where
  \<comment> \<open>notional and side of a position: a mapping or a bare number\<close>
  "position_values pdata =
    (case pdata of
       VDict d \<Rightarrow> bindE (maybe_num (py_or (dget d ''notional'') (dget d ''notional_usdt'')) None) (\<lambda>n.
         Inr (n, py_upper (py_str (dget_or d ''side'' (VStr ''LONG'')))))
     | v \<Rightarrow> bindE (maybe_num v None) (\<lambda>n. Inr (n, ''LONG'')))"

definition add_position :: "string \<Rightarrow> string \<Rightarrow> (string \<times> string) list \<Rightarrow> Exposures \<Rightarrow> string \<Rightarrow> flt \<Rightarrow> string \<Rightarrow> Exposures" where
  \<comment> \<open>the loop body for a position with a notional\<close>
  "add_position symb cside overrides e psym notional pside =
    (let x = flt_abs notional; g = correlation_group_for_symbol psym overrides;
         keys = map (group_key g) (correlation_sides pside);
         same_direction = (pside = cside \<or> pside \<notin> {''LONG'', ''SHORT''});
         same_group = (g = correlation_group_for_symbol symb overrides \<and> same_direction) in
     \<lparr>exp_total = fadd (exp_total e) x,
      exp_sym = (if py_upper psym = py_upper symb then fadd (exp_sym e) x else exp_sym e),
      exp_long = (if pside = ''SHORT'' then exp_long e else fadd (exp_long e) x),
      exp_short = (if pside = ''SHORT'' then fadd (exp_short e) x else exp_short e),
      exp_group = (if same_group then fadd (exp_group e) x else exp_group e),
      exp_group_count = (if same_group then exp_group_count e + 1 else exp_group_count e),
      exp_symbols = bump (py_upper psym) x (exp_symbols e),
      exp_groups = foldl (\<lambda>d k. bump k x d) (exp_groups e) keys,
      exp_counts = foldl (\<lambda>d k. bump_int k d) (exp_counts e) keys\<rparr>)"

fun add_positions :: "string \<Rightarrow> string \<Rightarrow> (string \<times> string) list \<Rightarrow> Exposures \<Rightarrow> (string \<times> pyval) list \<Rightarrow> Exposures py" where
  "add_positions symb cside overrides e [] = Inr e"
| "add_positions symb cside overrides e ((psym, pdata) # ps) =
    bindE (position_values pdata) (\<lambda>(n, pside).
      case n of None \<Rightarrow> add_positions symb cside overrides e ps
      | Some notional \<Rightarrow> add_positions symb cside overrides (add_position symb cside overrides e psym notional pside) ps)"

record StateInputs =
  \<comment> \<open>the keyword arguments of \<^verbatim>\<open>snapshot_from_state\<close>\<close>
  st_mode :: string
  st_symbol :: string
  st_side :: string
  st_equity :: "flt option"
  st_available :: "flt option"
  st_positions :: "(string \<times> pyval) list"
  st_config :: pydict
  st_now :: "flt option"
  st_cooldown_until :: "(string \<times> flt) list"
  st_daily_pnl :: "flt option"
  st_trades_symbol :: "int option"
  st_trades_global :: "int option"
  st_losses :: "int option"
  st_symbol_losses :: "int option"
  st_peak :: "flt option"
  st_drawdown :: "flt option"
  st_complete :: pyval
  st_source :: pyval
  st_missing :: "string list"
  st_overrides :: "(string \<times> string) list"

definition cooldown_remaining :: "StateInputs \<Rightarrow> flt option" where
  "cooldown_remaining i =
    (case st_now i of
       Some now \<Rightarrow> if st_cooldown_until i = [] then None
         else Some (py_max (Fin 0) (fsub (flt_at (st_cooldown_until i) (st_symbol i)) now))
     | None \<Rightarrow> None)"

definition no_equity :: "flt option \<Rightarrow> bool" where
  \<comment> \<open>\<^verbatim>\<open>equity in (None, 0)\<close>\<close>
  "no_equity e = (case e of None \<Rightarrow> True | Some x \<Rightarrow> x = Fin 0)"

definition daily_loss :: "StateInputs \<Rightarrow> flt option" where
  "daily_loss i =
    (case st_daily_pnl i of
       Some pnl \<Rightarrow> if no_equity (st_equity i) then None
         else Some (py_max (Fin 0) (fdiv (fneg pnl) (opt_flt (st_equity i))))
     | None \<Rightarrow> None)"

definition loss_active :: "int option \<Rightarrow> pyval \<Rightarrow> bool option py" where
  \<comment> \<open>a loss streak that has reached its limit\<close>
  "loss_active count bound =
    (case count of None \<Rightarrow> Inr None
     | Some n \<Rightarrow> if bound = VNone then Inr None else bindE (py_int bound) (\<lambda>b. Inr (Some (b \<le> n))))"

definition bool_opt_val :: "bool option \<Rightarrow> pyval" where
  "bool_opt_val b = (case b of None \<Rightarrow> VNone | Some x \<Rightarrow> VBool x)"

definition snapshot_from_state :: "string \<Rightarrow> StateInputs \<Rightarrow> PortfolioRiskSnapshot py" where
  "snapshot_from_state ts i =
    (let cfg = st_config i; cside = py_upper (if st_side i = [] then ''LONG'' else st_side i);
         count = int (length (st_positions i)) in
     bindE (add_positions (st_symbol i) cside (st_overrides i) no_exposure (st_positions i)) (\<lambda>e.
     bindE (loss_active (st_losses i) (dget_or cfg ''global_loss_streak_limit'' (dget_or cfg ''max_consecutive_losses'' (VInt 999999)))) (\<lambda>global_active.
     bindE (loss_active (st_symbol_losses i) (dget_or cfg ''symbol_loss_streak_limit'' (VInt 999999))) (\<lambda>symbol_active.
     let gross = fadd (exp_long e) (exp_short e) in
     Inr \<lparr>snap_mode = st_mode i, snap_timestamp = ts, snap_equity = st_equity i, available_balance = st_available i,
       open_position_count = Some count,
       max_open_positions = dget_or cfg ''max_open_positions'' (dget cfg ''max_concurrent_positions''),
       concurrent_position_count = Some count, max_concurrent_positions = dget cfg ''max_concurrent_positions'',
       total_notional_exposure = Some (exp_total e), max_notional_exposure = dget cfg ''max_notional_exposure'',
       symbol_notional_exposure = Some (exp_sym e), max_symbol_notional = dget cfg ''max_symbol_notional'',
       side_exposure_long = Some (exp_long e), side_exposure_short = Some (exp_short e),
       net_exposure = Some (fsub (exp_long e) (exp_short e)), gross_exposure = Some gross,
       leverage_estimate = (if no_equity (st_equity i) then None else Some (fdiv gross (opt_flt (st_equity i)))),
       symbol_cooldown_remaining_sec = flt_opt_val (cooldown_remaining i),
       trades_today_symbol = int_opt_val (st_trades_symbol i), trades_today_global = st_trades_global i,
       daily_realized_pnl = st_daily_pnl i, daily_loss_pct = daily_loss i, max_daily_loss_pct = dget cfg ''max_daily_loss_pct'',
       rolling_peak_equity = st_peak i, rolling_drawdown_pct = st_drawdown i,
       max_rolling_drawdown_pct = dget cfg ''max_rolling_drawdown_pct'',
       consecutive_loss_count = st_losses i, symbol_consecutive_loss_count = int_opt_val (st_symbol_losses i),
       loss_cluster_active = global_active, symbol_loss_cluster_active = bool_opt_val symbol_active,
       risk_state_complete = st_complete i, risk_state_source = st_source i, risk_state_missing_fields = st_missing i,
       correlation_group = Some (correlation_group_for_symbol (st_symbol i) (st_overrides i)),
       correlation_group_exposure = Some (exp_group e),
       max_correlation_group_exposure = dget cfg ''max_correlation_group_exposure'',
       correlated_position_count = Some (exp_group_count e), max_correlated_positions = dget cfg ''max_correlated_positions'',
       symbol_notional_exposures = exp_symbols e, correlation_group_exposures = exp_groups e,
       correlated_position_counts = exp_counts e\<rparr>))))"

subsection \<open>The gate\<close>

record PortfolioRiskDecision =
  risk_accepted :: bool
  risk_reject_reason :: string
  risk_flags :: "string list"
  risk_state :: string
  size_multiplier :: flt
  max_allowed_size :: "flt option"

definition risk_fail :: "string \<Rightarrow> PortfolioRiskDecision" where
  "risk_fail reason = \<lparr>risk_accepted = False, risk_reject_reason = reason, risk_flags = [reason], risk_state = reason,
     size_multiplier = Fin 0, max_allowed_size = Some (Fin 0)\<rparr>"

definition risk_pass :: "flt \<Rightarrow> PortfolioRiskDecision" where
  "risk_pass notional = \<lparr>risk_accepted = True, risk_reject_reason = [], risk_flags = [], risk_state = ''ACCEPTED'',
     size_multiplier = Fin 1, max_allowed_size = Some notional\<rparr>"

fun first_reason :: "string option py list \<Rightarrow> string option py" where
  \<comment> \<open>a sequence of \<^verbatim>\<open>if ...: return fail(reason)\<close>: the first that raises or fails ends it\<close>
  "first_reason [] = Inr None"
| "first_reason (c # cs) = bindE c (\<lambda>r. case r of None \<Rightarrow> first_reason cs | Some s \<Rightarrow> Inr (Some s))"

definition check_limit :: "pyval \<Rightarrow> pyval \<Rightarrow> flt \<Rightarrow> string \<Rightarrow> string option py" where
  "check_limit current bound inc reason =
    (if bound = VNone \<or> current = VNone then Inr None
     else bindE (py_float current) (\<lambda>c. bindE (py_float bound) (\<lambda>b.
       Inr (if flt_less b (fadd c inc) then Some reason else None))))"

definition check_pct :: "flt option \<Rightarrow> pyval \<Rightarrow> string \<Rightarrow> string option py" where
  "check_pct current bound reason =
    (case current of None \<Rightarrow> Inr None
     | Some c \<Rightarrow> if bound = VNone then Inr None
         else bindE (py_ge (VFloat c) bound) (\<lambda>b. Inr (if b then Some reason else None)))"

definition check_count :: "pyval \<Rightarrow> pyval \<Rightarrow> string \<Rightarrow> string option py" where
  "check_count current bound reason =
    (if bound = VNone \<or> current = VNone then Inr None
     else bindE (py_int current) (\<lambda>c. bindE (py_int bound) (\<lambda>b. Inr (if b \<le> c then Some reason else None))))"

definition check_cooldown :: "pyval \<Rightarrow> string option py" where
  \<comment> \<open>\<^verbatim>\<open>(remaining or 0) > 0\<close>\<close>
  "check_cooldown v =
    (if \<not> truthy v then Inr None
     else case num_value v of None \<Rightarrow> Inl TypeError
       | Some x \<Rightarrow> Inr (if flt_less (Fin 0) x then Some ''SYMBOL_COOLDOWN_ACTIVE'' else None))"

definition trade_limit :: "pydict \<Rightarrow> string \<Rightarrow> string \<Rightarrow> string \<Rightarrow> pyval" where
  "trade_limit cfg k1 k2 k3 = dget_or cfg k1 (dget_or cfg k2 (dget cfg k3))"

definition candidate_side :: "pydict \<Rightarrow> string" where
  "candidate_side cand = py_upper (str_or (dget cand ''side'') ''LONG'')"

definition check_side :: "pydict \<Rightarrow> string \<Rightarrow> PortfolioRiskSnapshot \<Rightarrow> flt \<Rightarrow> string option py" where
  "check_side cfg side snap notional =
    check_limit (flt_opt_val (if side = ''SHORT'' then side_exposure_short snap else side_exposure_long snap))
      (dget cfg ''max_same_side_exposure'') notional ''SAME_SIDE_OVEREXPOSURE''"

definition check_net :: "pydict \<Rightarrow> string \<Rightarrow> PortfolioRiskSnapshot \<Rightarrow> flt \<Rightarrow> string option py" where
  "check_net cfg side snap notional =
    (let bound = dget cfg ''max_net_exposure''; signed = (if side = ''SHORT'' then fneg notional else notional) in
     case net_exposure snap of None \<Rightarrow> Inr None
     | Some net \<Rightarrow> if bound = VNone then Inr None
         else bindE (py_float bound) (\<lambda>b.
           Inr (if flt_less b (flt_abs (fadd net signed)) then Some ''NET_EXPOSURE_TOO_HIGH'' else None)))"

definition exposure_checks :: "PortfolioRiskSnapshot \<Rightarrow> flt \<Rightarrow> string option py list" where
  "exposure_checks snap notional =
    [check_limit (int_opt_val (open_position_count snap)) (max_open_positions snap) (Fin 1) ''MAX_OPEN_POSITIONS'',
     check_limit (int_opt_val (concurrent_position_count snap)) (max_concurrent_positions snap) (Fin 1) ''MAX_CONCURRENT_POSITIONS'',
     check_limit (flt_opt_val (total_notional_exposure snap)) (max_notional_exposure snap) notional ''MAX_NOTIONAL_EXPOSURE'',
     check_limit (flt_opt_val (symbol_notional_exposure snap)) (max_symbol_notional snap) notional ''MAX_SYMBOL_NOTIONAL_EXPOSURE'',
     check_limit (flt_opt_val (correlation_group_exposure snap)) (max_correlation_group_exposure snap) notional ''CORRELATION_OVEREXPOSURE'',
     check_limit (int_opt_val (correlated_position_count snap)) (max_correlated_positions snap) (Fin 1) ''CORRELATION_OVEREXPOSURE'']"

definition risk_checks :: "pydict \<Rightarrow> pydict \<Rightarrow> PortfolioRiskSnapshot \<Rightarrow> flt \<Rightarrow> string option py list" where
  "risk_checks cand cfg snap notional =
    exposure_checks snap notional @
    [check_pct (daily_loss_pct snap) (max_daily_loss_pct snap) ''MAX_DAILY_LOSS'',
     check_pct (rolling_drawdown_pct snap) (max_rolling_drawdown_pct snap) ''MAX_ROLLING_DRAWDOWN'',
     check_cooldown (symbol_cooldown_remaining_sec snap),
     check_count (trades_today_symbol snap)
       (trade_limit cfg ''max_daily_symbol_trades'' ''max_symbol_trades_per_day'' ''max_trades_symbol_per_day'') ''DAILY_SYMBOL_TRADE_LIMIT'',
     check_count (int_opt_val (trades_today_global snap))
       (trade_limit cfg ''max_daily_global_trades'' ''max_global_trades_per_day'' ''max_trades_global_per_day'') ''DAILY_GLOBAL_TRADE_LIMIT'',
     check_side cfg (candidate_side cand) snap notional,
     check_net cfg (candidate_side cand) snap notional,
     Inr (if truthy (symbol_loss_cluster_active snap) \<or> loss_cluster_active snap = Some True then Some ''LOSS_CLUSTER_ACTIVE'' else None)]"

definition candidate_notional :: "pydict \<Rightarrow> pydict \<Rightarrow> flt option py" where
  "candidate_notional cand cfg =
    bindE (maybe_num (dget cand ''quantity'') None) (\<lambda>qty.
    bindE (maybe_num (py_or (py_or (dget cand ''entry'') (dget cand ''entry_price'')) (dget cand ''price'')) None) (\<lambda>price.
    bindE (maybe_num (py_or (dget cand ''notional'') (dget cand ''notional_usdt'')) None) (\<lambda>given.
    let notional = (case (given, qty, price) of (None, Some q, Some p) \<Rightarrow> Some (flt_abs (fmul q p)) | _ \<Rightarrow> given) in
    if notional = None then maybe_num (dget cfg ''default_candidate_notional'') None else Inr notional)))"

definition evaluate_portfolio_risk :: "pydict \<Rightarrow> PortfolioRiskSnapshot \<Rightarrow> pydict \<Rightarrow> PortfolioRiskDecision py" where
  "evaluate_portfolio_risk cand snap cfg =
    bindE (candidate_notional cand cfg) (\<lambda>notional.
    let diagnostic_fail_open = truthy (dget_or cfg ''portfolio_risk_diagnostic_fail_open'' (VBool False));
        reject_unknown = (truthy (dget_or cfg ''reject_unknown_portfolio_risk'' (VBool True)) \<and> \<not> diagnostic_fail_open) in
    if reject_unknown \<and> risk_state_complete snap = VBool False then Inr (risk_fail ''UNKNOWN_PORTFOLIO_RISK'')
    else if reject_unknown \<and> (snap_equity snap = None \<or> open_position_count snap = None \<or>
        total_notional_exposure snap = None \<or> symbol_notional_exposure snap = None) then Inr (risk_fail ''UNKNOWN_PORTFOLIO_RISK'')
    else if \<not> diagnostic_fail_open \<and> not_positive (snap_equity snap) then Inr (risk_fail ''INVALID_EQUITY'')
    else (case notional of None \<Rightarrow> Inr (risk_fail ''INVALID_POSITION_SIZE'')
      | Some n \<Rightarrow> if flt_le n (Fin 0) then Inr (risk_fail ''INVALID_POSITION_SIZE'')
          else bindE (first_reason (risk_checks cand cfg snap n)) (\<lambda>r.
            Inr (case r of None \<Rightarrow> risk_pass n | Some reason \<Rightarrow> risk_fail reason))))"

subsection \<open>Facts about the gate\<close>

definition PORTFOLIO_REJECT_REASONS :: "string list" where
  "PORTFOLIO_REJECT_REASONS =
    [''MAX_OPEN_POSITIONS'', ''MAX_CONCURRENT_POSITIONS'', ''MAX_NOTIONAL_EXPOSURE'',
     ''MAX_SYMBOL_NOTIONAL_EXPOSURE'', ''MAX_DAILY_LOSS'', ''MAX_ROLLING_DRAWDOWN'',
     ''SYMBOL_COOLDOWN_ACTIVE'', ''DAILY_SYMBOL_TRADE_LIMIT'', ''DAILY_GLOBAL_TRADE_LIMIT'',
     ''CORRELATION_OVEREXPOSURE'', ''SAME_SIDE_OVEREXPOSURE'', ''NET_EXPOSURE_TOO_HIGH'',
     ''LOSS_CLUSTER_ACTIVE'', ''UNKNOWN_PORTFOLIO_RISK'', ''INVALID_EQUITY'', ''INVALID_POSITION_SIZE'']"

definition keeps :: "pyval \<Rightarrow> pyval \<Rightarrow> flt \<Rightarrow> bool" where
  \<comment> \<open>the exposure after the candidate is not above its limit\<close>
  "keeps current bound inc =
    (bound = VNone \<or> current = VNone \<or>
     (case (py_float current, py_float bound) of (Inr c, Inr b) \<Rightarrow> \<not> flt_less b (fadd c inc) | _ \<Rightarrow> False))"

definition below_pct :: "flt option \<Rightarrow> pyval \<Rightarrow> bool" where
  \<comment> \<open>the loss has not reached its limit\<close>
  "below_pct current bound = (case current of None \<Rightarrow> True | Some c \<Rightarrow> bound = VNone \<or> py_ge (VFloat c) bound = Inr False)"

definition below_count :: "pyval \<Rightarrow> pyval \<Rightarrow> bool" where
  "below_count current bound =
    (bound = VNone \<or> current = VNone \<or>
     (case (py_int current, py_int bound) of (Inr c, Inr b) \<Rightarrow> c < b | _ \<Rightarrow> False))"

definition keeps_net :: "flt option \<Rightarrow> pyval \<Rightarrow> string \<Rightarrow> flt \<Rightarrow> bool" where
  \<comment> \<open>the net exposure after the candidate, long minus short, is in absolute value not above its limit\<close>
  "keeps_net net bound side n =
    (bound = VNone \<or> (case net of None \<Rightarrow> True | Some x \<Rightarrow>
      (case py_float bound of Inr b \<Rightarrow> \<not> flt_less b (flt_abs (fadd x (if side = ''SHORT'' then fneg n else n))) | _ \<Rightarrow> False)))"

definition cooled_down :: "pyval \<Rightarrow> bool" where
  \<comment> \<open>no cooldown is recorded, or it is a number that is not above zero\<close>
  "cooled_down v = (\<not> truthy v \<or> (case num_value v of None \<Rightarrow> False | Some x \<Rightarrow> \<not> flt_less (Fin 0) x))"

definition fail_open :: "pydict \<Rightarrow> bool" where
  "fail_open cfg = truthy (dget_or cfg ''portfolio_risk_diagnostic_fail_open'' (VBool False))"

definition risk_state_known :: "PortfolioRiskSnapshot \<Rightarrow> bool" where
  "risk_state_known snap \<longleftrightarrow> risk_state_complete snap \<noteq> VBool False \<and> snap_equity snap \<noteq> None \<and> open_position_count snap \<noteq> None
     \<and> total_notional_exposure snap \<noteq> None \<and> symbol_notional_exposure snap \<noteq> None"

lemma first_reason_None: "first_reason cs = Inr None \<longleftrightarrow> (\<forall>c \<in> set cs. c = Inr None)"
  by (induction cs) (auto simp: bindE_Inr_iff split: option.splits)

lemma first_reason_Some:
  "first_reason cs = Inr (Some r) \<Longrightarrow>
    \<exists>before after. cs = before @ Inr (Some r) # after \<and> (\<forall>c \<in> set before. c = Inr None)"
proof (induction cs)
  case (Cons c cs)
  obtain o1 where c: "c = Inr o1" using Cons.prems by (auto simp: bindE_Inr_iff)
  show ?case
  proof (cases o1)
    case None
    then obtain b a where "cs = b @ Inr (Some r) # a" "\<forall>x \<in> set b. x = Inr None" using Cons c by auto
    then have "c # cs = (c # b) @ Inr (Some r) # a" "\<forall>x \<in> set (c # b). x = Inr None" using c None by auto
    then show ?thesis by blast
  next
    case (Some s)
    then have "c # cs = [] @ Inr (Some r) # cs" using Cons.prems c by simp
    then show ?thesis by (metis empty_iff empty_set)
  qed
qed simp

lemma first_reason_mem: "first_reason cs = Inr (Some r) \<Longrightarrow> Inr (Some r) \<in> set cs"
  using first_reason_Some by fastforce

named_theorems gate_none \<open>what a check that does not fail says\<close>

lemma check_limit_None [gate_none]: "check_limit cur bound inc r = Inr None \<longleftrightarrow> keeps cur bound inc"
  by (auto simp: check_limit_def keeps_def bindE_Inr_iff split: sum.splits)

lemma check_pct_None [gate_none]: "check_pct cur bound r = Inr None \<longleftrightarrow> below_pct cur bound"
  by (auto simp: check_pct_def below_pct_def bindE_Inr_iff split: option.splits)

lemma check_count_None [gate_none]: "check_count cur bound r = Inr None \<longleftrightarrow> below_count cur bound"
  by (cases "py_int cur"; cases "py_int bound"; auto simp: check_count_def below_count_def)

lemma check_cooldown_None [gate_none]: "check_cooldown v = Inr None \<longleftrightarrow> cooled_down v"
  by (auto simp: check_cooldown_def cooled_down_def split: option.splits)

lemma check_net_None [gate_none]:
  "check_net cfg side snap n = Inr None \<longleftrightarrow> keeps_net (net_exposure snap) (dget cfg ''max_net_exposure'') side n"
  by (auto simp: check_net_def keeps_net_def Let_def bindE_Inr_iff split: option.splits sum.splits)

lemma evaluate_portfolio_riskE:
  assumes "evaluate_portfolio_risk cand snap cfg = Inr d"
  obtains (unknown) "d = risk_fail ''UNKNOWN_PORTFOLIO_RISK''" | (equity) "d = risk_fail ''INVALID_EQUITY''"
    | (size) "d = risk_fail ''INVALID_POSITION_SIZE''"
    | (check) n r where "first_reason (risk_checks cand cfg snap n) = Inr (Some r)" "d = risk_fail r"
    | (pass) n where "candidate_notional cand cfg = Inr (Some n)" "\<not> flt_le n (Fin 0)"
        "first_reason (risk_checks cand cfg snap n) = Inr None" "d = risk_pass n"
        "fail_open cfg \<or> \<not> not_positive (snap_equity snap)"
        "fail_open cfg \<or> \<not> truthy (dget_or cfg ''reject_unknown_portfolio_risk'' (VBool True)) \<or> risk_state_known snap"
proof -
  obtain m where m: "candidate_notional cand cfg = Inr m"
    using assms unfolding evaluate_portfolio_risk_def bindE_Inr_iff by blast
  define fo where "fo = fail_open cfg"
  define strict where "strict = truthy (dget_or cfg ''reject_unknown_portfolio_risk'' (VBool True))"
  note ev = assms [unfolded evaluate_portfolio_risk_def m bindE_simps Let_def, folded fail_open_def strict_def, folded fo_def]
  show ?thesis
  proof (cases m)
    case None
    then show ?thesis using ev unknown equity size by (simp split: if_splits)
  next
    case (Some n)
    consider "d = risk_fail ''UNKNOWN_PORTFOLIO_RISK''" | "d = risk_fail ''INVALID_EQUITY''" | "d = risk_fail ''INVALID_POSITION_SIZE''"
      | "\<not> flt_le n (Fin 0)" "fo \<or> \<not> not_positive (snap_equity snap)" "fo \<or> \<not> strict \<or> risk_state_known snap"
        "bindE (first_reason (risk_checks cand cfg snap n)) (\<lambda>r. Inr (case r of None \<Rightarrow> risk_pass n | Some reason \<Rightarrow> risk_fail reason)) = Inr d"
      using ev Some by (simp add: risk_state_known_def split: if_splits) blast
    then show ?thesis
    proof cases
      case 4
      then obtain r where r: "first_reason (risk_checks cand cfg snap n) = Inr r"
          "d = (case r of None \<Rightarrow> risk_pass n | Some reason \<Rightarrow> risk_fail reason)" by (auto simp: bindE_Inr_iff)
      show ?thesis
      proof (cases r)
        case None
        then show ?thesis using pass [of n] m Some 4(1-3) r by (simp add: fo_def strict_def)
      next
        case (Some a)
        then show ?thesis using check [of n a] r by simp
      qed
    qed (use unknown equity size in simp_all)
  qed
qed

lemma check_reasons:
  "Inr (Some r) \<in> set (risk_checks cand cfg snap n) \<Longrightarrow> r \<in> set PORTFOLIO_REJECT_REASONS"
proof -
  have l: "check_limit c b i s = Inr (Some t) \<Longrightarrow> t = s" for c b i s t
    by (auto simp: check_limit_def bindE_Inr_iff split: if_splits)
  have p: "check_pct c b s = Inr (Some t) \<Longrightarrow> t = s" for c b s t
    by (auto simp: check_pct_def bindE_Inr_iff split: if_splits option.splits)
  have k: "check_count c b s = Inr (Some t) \<Longrightarrow> t = s" for c b s t
    by (auto simp: check_count_def bindE_Inr_iff split: if_splits)
  have q: "check_cooldown c = Inr (Some t) \<Longrightarrow> t = ''SYMBOL_COOLDOWN_ACTIVE''" for c t
    by (auto simp: check_cooldown_def split: if_splits option.splits)
  have o: "check_net c s p m = Inr (Some t) \<Longrightarrow> t = ''NET_EXPOSURE_TOO_HIGH''" for c s p m t
    by (auto simp: check_net_def Let_def bindE_Inr_iff split: if_splits option.splits)
  assume "Inr (Some r) \<in> set (risk_checks cand cfg snap n)"
  then show ?thesis
    unfolding risk_checks_def exposure_checks_def check_side_def
    by (auto simp: PORTFOLIO_REJECT_REASONS_def dest!: l [OF sym] p [OF sym] k [OF sym] q [OF sym] o [OF sym] split: if_splits)
qed

text \<open>C22: an accepted candidate keeps every limit of the snapshot: with its notional added, the
  total, symbol and correlation-group exposures are not above their limits, with one position
  added neither are the position counts, the daily loss and the drawdown are below theirs, the
  trade counts too, the exposure of its side and the net exposure keep their limits, no cooldown and no
  loss cluster is active; and unless the configuration fails open for diagnosis the equity is
  positive and, where unknown risk is rejected, the state of the portfolio is known.\<close>

theorem accepted_position_keeps_limits:
  assumes "evaluate_portfolio_risk cand snap cfg = Inr d" and "risk_accepted d"
  shows "\<exists>n. max_allowed_size d = Some n \<and> candidate_notional cand cfg = Inr (Some n) \<and> \<not> flt_le n (Fin 0) \<and>
    keeps (int_opt_val (open_position_count snap)) (max_open_positions snap) (Fin 1) \<and>
    keeps (int_opt_val (concurrent_position_count snap)) (max_concurrent_positions snap) (Fin 1) \<and>
    keeps (flt_opt_val (total_notional_exposure snap)) (max_notional_exposure snap) n \<and>
    keeps (flt_opt_val (symbol_notional_exposure snap)) (max_symbol_notional snap) n \<and>
    keeps (flt_opt_val (correlation_group_exposure snap)) (max_correlation_group_exposure snap) n \<and>
    keeps (int_opt_val (correlated_position_count snap)) (max_correlated_positions snap) (Fin 1) \<and>
    below_pct (daily_loss_pct snap) (max_daily_loss_pct snap) \<and>
    below_pct (rolling_drawdown_pct snap) (max_rolling_drawdown_pct snap) \<and>
    below_count (trades_today_symbol snap)
      (trade_limit cfg ''max_daily_symbol_trades'' ''max_symbol_trades_per_day'' ''max_trades_symbol_per_day'') \<and>
    below_count (int_opt_val (trades_today_global snap))
      (trade_limit cfg ''max_daily_global_trades'' ''max_global_trades_per_day'' ''max_trades_global_per_day'') \<and>
    keeps (flt_opt_val (if candidate_side cand = ''SHORT'' then side_exposure_short snap else side_exposure_long snap))
      (dget cfg ''max_same_side_exposure'') n \<and>
    keeps_net (net_exposure snap) (dget cfg ''max_net_exposure'') (candidate_side cand) n \<and>
    cooled_down (symbol_cooldown_remaining_sec snap) \<and>
    (fail_open cfg \<or> (\<exists>e. snap_equity snap = Some e \<and> \<not> flt_le e (Fin 0))) \<and>
    (fail_open cfg \<or> \<not> truthy (dget_or cfg ''reject_unknown_portfolio_risk'' (VBool True)) \<or> risk_state_known snap) \<and>
    \<not> truthy (symbol_loss_cluster_active snap) \<and> loss_cluster_active snap \<noteq> Some True"
  using assms(1)
proof (cases rule: evaluate_portfolio_riskE)
  case (pass n)
  have "\<forall>c \<in> set (risk_checks cand cfg snap n). c = Inr None" using pass(3) by (simp only: first_reason_None)
  then show ?thesis using pass
    by (auto simp: risk_checks_def exposure_checks_def check_side_def risk_pass_def gate_none not_positive_def split: if_splits option.splits)
qed (use assms(2) in \<open>simp_all add: risk_fail_def\<close>)

text \<open>C33: every decision of the gate is well formed: it either accepts with no reason and the full
  size, or rejects with exactly one reason, of the declared vocabulary, and size zero.\<close>

theorem risk_decision_well_formed:
  assumes "evaluate_portfolio_risk cand snap cfg = Inr d"
  shows "(risk_accepted d \<and> risk_reject_reason d = [] \<and> risk_flags d = [] \<and> risk_state d = ''ACCEPTED'' \<and>
      size_multiplier d = Fin 1 \<and> max_allowed_size d \<noteq> None) \<noteq>
    (\<not> risk_accepted d \<and> risk_reject_reason d \<in> set PORTFOLIO_REJECT_REASONS \<and>
      risk_flags d = [risk_reject_reason d] \<and> risk_state d = risk_reject_reason d \<and>
      size_multiplier d = Fin 0 \<and> max_allowed_size d = Some (Fin 0))"
  using assms
proof (cases rule: evaluate_portfolio_riskE)
  case (check n r)
  then show ?thesis using check_reasons [OF first_reason_mem] by (simp add: risk_fail_def)
qed (simp_all add: risk_fail_def risk_pass_def PORTFOLIO_REJECT_REASONS_def)

definition demo_state :: StateInputs where
  "demo_state = \<lparr>st_mode = ''PAPER'', st_symbol = ''ETHUSDT'', st_side = ''LONG'', st_equity = Some (Fin 1000),
     st_available = Some (Fin 1000), st_positions = [(''SOLUSDT'', VDict [(''notional'', VFloat (Fin 64)), (''side'', VStr ''LONG'')])],
     st_config = [(''max_notional_exposure'', VFloat (Fin 256)), (''max_concurrent_positions'', VInt 3)],
     st_now = None, st_cooldown_until = [], st_daily_pnl = Some (Fin 0), st_trades_symbol = Some 1, st_trades_global = Some 1,
     st_losses = Some 0, st_symbol_losses = Some 0, st_peak = None, st_drawdown = None, st_complete = VBool True,
     st_source = VNone, st_missing = [], st_overrides = []\<rparr>"

lemmas gate_eval = candidate_notional_def maybe_num_def in_strs_def py_or_def not_positive_def risk_checks_def exposure_checks_def
  check_limit_def check_pct_def check_count_def check_cooldown_def check_side_def check_net_def trade_limit_def
  int_opt_val_def flt_opt_val_def bool_opt_val_def

lemma demo_snapshot:
  "\<exists>s. snapshot_from_state ''t'' demo_state = Inr s \<and> total_notional_exposure s = Some (Fin 64) \<and>
    (\<exists>d. evaluate_portfolio_risk [(''notional'', VFloat (Fin 64))] s (st_config demo_state) = Inr d \<and> risk_accepted d)"
  by (simp add: snapshot_from_state_def demo_state_def position_values_def no_exposure_def add_position_def
      correlation_sides_def cooldown_remaining_def daily_loss_def no_equity_def loss_active_def evaluate_portfolio_risk_def
      gate_eval risk_pass_def py_ge_def int_to_float_small fl_eval Let_def)

theorem accepted_position_keeps_limits_witness:
  "\<exists>s d. snapshot_from_state ''t'' demo_state = Inr s \<and>
     evaluate_portfolio_risk [(''notional'', VFloat (Fin 64))] s (st_config demo_state) = Inr d \<and>
     keeps (flt_opt_val (total_notional_exposure s)) (max_notional_exposure s) (opt_flt (max_allowed_size d))"
  using demo_snapshot accepted_position_keeps_limits by (metis opt_flt_simps(2))

theorem risk_decision_well_formed_witness:
  "\<exists>s d. snapshot_from_state ''t'' demo_state = Inr s \<and>
     evaluate_portfolio_risk [(''notional'', VFloat (Fin 64))] s (st_config demo_state) = Inr d \<and>
     risk_reject_reason d = [] \<and> max_allowed_size d \<noteq> Some (Fin 0) \<and> size_multiplier d = Fin 1"
proof -
  obtain s d where e: "snapshot_from_state ''t'' demo_state = Inr s"
      "evaluate_portfolio_risk [(''notional'', VFloat (Fin 64))] s (st_config demo_state) = Inr d" "risk_accepted d"
    using demo_snapshot by blast
  have "max_allowed_size d \<noteq> Some (Fin 0)"
    using e(2,3) by (cases rule: evaluate_portfolio_riskE) (auto simp: risk_fail_def risk_pass_def)
  then show ?thesis using risk_decision_well_formed [OF e(2)] e by blast
qed

subsection \<open>Facts about the snapshot\<close>

lemma fadd_ge: "flt_le (Fin 0) x \<Longrightarrow> is_f64 t \<Longrightarrow> t \<noteq> NaN \<Longrightarrow> t \<noteq> NInf \<Longrightarrow> flt_le t (fadd t x)"
proof -
  assume a: "flt_le (Fin 0) x" "is_f64 t" "t \<noteq> NaN" "t \<noteq> NInf"
  show ?thesis
  proof (cases "\<exists>b c. t = Fin b \<and> x = Fin c")
    case True
    then obtain b c where r: "t = Fin b" "x = Fin c" by blast
    then have "flt_le (fl b) (fl (b + c))" using a by (intro fl_mono) simp
    then show ?thesis using a r by (simp add: is_f64_fin)
  next
    case False then show ?thesis using a by (cases t; cases x) auto
  qed
qed

definition part_of :: "flt \<Rightarrow> flt \<Rightarrow> bool" where
  \<comment> \<open>an exposure that is part of another\<close>
  "part_of x t \<longleftrightarrow> flt_le (Fin 0) x \<and> flt_le x t"

definition exposures_ok :: "nat \<Rightarrow> Exposures \<Rightarrow> bool" where
  "exposures_ok n e \<longleftrightarrow> is_f64 (exp_total e) \<and> part_of (exp_sym e) (exp_total e) \<and> part_of (exp_long e) (exp_total e) \<and>
    part_of (exp_short e) (exp_total e) \<and> part_of (exp_group e) (exp_total e) \<and>
    0 \<le> exp_group_count e \<and> exp_group_count e \<le> int n"

lemma part_of_add:
  assumes "part_of x t" "is_f64 t" "flt_le (Fin 0) y"
  shows "part_of (fadd x y) (fadd t y)" "part_of x (fadd t y)"
proof -
  have "t \<noteq> NaN" "t \<noteq> NInf" using assms(1) by (cases x; cases t; simp add: part_of_def)+
  then have "flt_le t (fadd t y)" using fadd_ge assms(2,3) by blast
  then show "part_of x (fadd t y)" using assms(1) flt_le_trans unfolding part_of_def by blast
  show "part_of (fadd x y) (fadd t y)" using assms fadd_mono fadd_nonneg unfolding part_of_def by blast
qed

lemma add_position_ok:
  assumes "exposures_ok n e" "notional \<noteq> NaN"
  shows "exposures_ok (Suc n) (add_position symb cside ov e psym notional pside)"
proof -
  have y: "flt_le (Fin 0) (flt_abs notional)" using assms(2) by (cases notional) auto
  have t: "is_f64 (exp_total e)" using assms(1) by (simp add: exposures_ok_def)
  show ?thesis using assms(1) part_of_add [OF _ t y]
    by (auto simp: exposures_ok_def add_position_def Let_def fadd_f64)
qed

lemma add_positions_ok:
  assumes "add_positions symb cside ov e ps = Inr e'" "exposures_ok n e"
    and "\<And>v pside. v \<in> snd ` set ps \<Longrightarrow> position_values v \<noteq> Inr (Some NaN, pside)"
  shows "exposures_ok (n + length ps) e'"
  using assms
proof (induction ps arbitrary: e n)
  case (Cons p ps)
  obtain psym v where p: "p = (psym, v)" by (cases p)
  obtain m pside where v: "position_values v = Inr (m, pside)" using Cons.prems(1) by (auto simp: p bindE_Inr_iff)
  show ?case
  proof (cases m)
    case None
    then have "exposures_ok (n + length ps) e'" using Cons.IH [of e n] Cons.prems p v by simp
    then show ?thesis by (simp add: exposures_ok_def)
  next
    case (Some x)
    then have x: "x \<noteq> NaN" using Cons.prems(3) [of v pside] p v by auto
    from Cons.IH [OF _ add_position_ok [OF Cons.prems(2) x]] show ?thesis using Cons.prems p v Some by simp
  qed
qed simp

lemma no_exposure_ok: "exposures_ok 0 no_exposure"
  by (simp add: exposures_ok_def no_exposure_def part_of_def is_f64_fin)

text \<open>The exposures of a snapshot are consistent: none is negative, and the exposure of the
  symbol, of each side and of the correlation group is never above the total one, whatever the
  order of the positions and the rounding; a group holds at most as many positions as are open.\<close>

theorem snapshot_exposures_consistent:
  assumes "snapshot_from_state ts i = Inr s"
    and "\<And>v pside. v \<in> snd ` set (st_positions i) \<Longrightarrow> position_values v \<noteq> Inr (Some NaN, pside)"
  shows "\<exists>t y l sh g. total_notional_exposure s = Some t \<and> symbol_notional_exposure s = Some y \<and>
    side_exposure_long s = Some l \<and> side_exposure_short s = Some sh \<and> correlation_group_exposure s = Some g \<and>
    part_of y t \<and> part_of l t \<and> part_of sh t \<and> part_of g t \<and>
    the (correlated_position_count s) \<le> the (open_position_count s)"
proof -
  obtain cside e where e: "add_positions (st_symbol i) cside (st_overrides i) no_exposure (st_positions i) = Inr e"
    and s: "total_notional_exposure s = Some (exp_total e)" "symbol_notional_exposure s = Some (exp_sym e)"
      "side_exposure_long s = Some (exp_long e)" "side_exposure_short s = Some (exp_short e)"
      "correlation_group_exposure s = Some (exp_group e)" "correlated_position_count s = Some (exp_group_count e)"
      "open_position_count s = Some (int (length (st_positions i)))"
    using assms(1) by (auto simp: snapshot_from_state_def Let_def bindE_Inr_iff)
  show ?thesis using add_positions_ok [OF e no_exposure_ok assms(2)] s by (simp add: exposures_ok_def)
qed

theorem snapshot_exposures_consistent_witness:
  "\<exists>s. snapshot_from_state ''t'' demo_state = Inr s \<and>
     part_of (opt_flt (symbol_notional_exposure s)) (opt_flt (total_notional_exposure s))"
proof -
  obtain s where s: "snapshot_from_state ''t'' demo_state = Inr s" using demo_snapshot by blast
  have "position_values v \<noteq> Inr (Some NaN, pside)" if "v \<in> snd ` set (st_positions demo_state)" for v pside
    using that by (simp add: demo_state_def position_values_def maybe_num_def in_strs_def py_or_def)
  from snapshot_exposures_consistent [OF s this] show ?thesis using s by auto
qed

subsection \<open>Where the gate is weaker than it says\<close>

lemma nan_notional_is_accepted:
  \<comment> \<open>no comparison with a NaN holds, so a NaN size passes every exposure limit\<close>
  "\<exists>s d. snapshot_from_state ''t'' demo_state = Inr s \<and> py_float (max_notional_exposure s) = Inr (Fin 256) \<and>
     evaluate_portfolio_risk [(''notional'', VFloat NaN)] s (st_config demo_state) = Inr d \<and>
     risk_accepted d \<and> max_allowed_size d = Some NaN"
  by (simp add: snapshot_from_state_def demo_state_def position_values_def no_exposure_def add_position_def
      correlation_sides_def cooldown_remaining_def daily_loss_def no_equity_def loss_active_def evaluate_portfolio_risk_def
      gate_eval risk_pass_def py_ge_def int_to_float_small fl_eval Let_def)

lemma busd_pair_loses_its_group:
  \<comment> \<open>\<^verbatim>\<open>USD\<close> is tried before \<^verbatim>\<open>BUSD\<close>, so the base of \<^verbatim>\<open>BTCBUSD\<close> is \<^verbatim>\<open>BTCB\<close>\<close>
  "correlation_group_for_symbol ''BTCUSDT'' [] = ''CRYPTO_MAJOR'' \<and>
   correlation_group_for_symbol ''BTCBUSD'' [] = ''UNKNOWN_CONSERVATIVE''"
  by (simp add: correlation_group_for_symbol_def base_asset_def group_of_base_def QUOTE_SUFFIXES_def ends_with_def
      py_upper_id)

end
