(* ===== verification/PyTime.thy ===== *)
theory PyTime
  imports PyVal
begin

section \<open>Instants and their text\<close>

text \<open>
  An instant is a number of microseconds since 1970-01-01 UTC, as \<^verbatim>\<open>datetime\<close> counts
  them. The stores write an instant as ISO text and read it back; that text is an exact
  image of the instant, so a stored instant is the number itself and the text is computed
  where it is shown.
\<close>

definition civil_date :: "int \<Rightarrow> int \<times> int \<times> int" where
  \<comment> \<open>year, month and day of a day since 1970-01-01\<close>
  "civil_date days =
    (let z = days + 719468; era = z div 146097; doe = z mod 146097;
         yoe = (doe - doe div 1460 + doe div 36524 - doe div 146096) div 365;
         doy = doe - (365 * yoe + yoe div 4 - yoe div 100); mp = (5 * doy + 2) div 153;
         d = doy - (153 * mp + 2) div 5 + 1; m = (if mp < 10 then mp + 3 else mp - 9) in
     (yoe + era * 400 + (if m \<le> 2 then 1 else 0), m, d))"

definition two_digits :: "int \<Rightarrow> string" where
  "two_digits n = (if n < 10 then ''0'' else []) @ show_int n"

definition date_text :: "int \<Rightarrow> string" where
  \<comment> \<open>\<^verbatim>\<open>strftime("%Y-%m-%d")\<close>\<close>
  "date_text days = (case civil_date days of (y, m, d) \<Rightarrow> show_int y @ ''-'' @ two_digits m @ ''-'' @ two_digits d)"

fun utc_date :: "flt \<Rightarrow> string py" where
  \<comment> \<open>\<^verbatim>\<open>datetime.fromtimestamp(seconds, tz=utc)\<close> of a positive time, rounded to the microsecond\<close>
  "utc_date (Fin r) =
    (let whole = \<lfloor>r\<rfloor>; micros = (case fmul (Fin (r - of_int whole)) (Fin 1000000) of Fin x \<Rightarrow> rhe x | _ \<Rightarrow> 0);
         seconds = (if 1000000 \<le> micros then whole + 1 else whole) in
     if 2 ^ 63 \<le> seconds then Inl OverflowError
     else if 253402300800 \<le> seconds then Inl (ValueError ''year is out of range'')
     else Inr (date_text (seconds div 86400)))"
| "utc_date NaN = Inl (ValueError ''cannot convert float NaN to integer'')"
| "utc_date _ = Inl OverflowError"

definition seconds_to_micros :: "rat \<Rightarrow> int" where
  \<comment> \<open>\<^verbatim>\<open>timedelta(seconds=x)\<close>: whole seconds exactly, the fraction rounded half to even\<close>
  "seconds_to_micros r =
    \<lfloor>r\<rfloor> * 1000000 + (case fmul (Fin (r - of_int \<lfloor>r\<rfloor>)) (Fin 1000000) of Fin x \<Rightarrow> rhe x | _ \<Rightarrow> 0)"

definition pad_digits :: "nat \<Rightarrow> int \<Rightarrow> string" where
  "pad_digits w n = (let s = show_int n in replicate (w - length s) (CHR ''0'') @ s)"

definition iso_text :: "int \<Rightarrow> string" where
  \<comment> \<open>\<^verbatim>\<open>value.astimezone(utc).isoformat()\<close>: the fraction only when it is not zero\<close>
  "iso_text t =
    (let secs = t div 1000000; us = t mod 1000000; sod = secs mod 86400 in
     date_text (secs div 86400) @ ''T'' @ two_digits (sod div 3600) @ '':'' @ two_digits (sod div 60 mod 60) @ '':''
       @ two_digits (sod mod 60) @ (if us = 0 then [] else ''.'' @ pad_digits 6 us) @ ''+00:00'')"

end
