(* ===== verification/Machines.thy ===== *)
theory Machines
  imports Main
begin

section \<open>Interfaces shared by the stateful components\<close>

text \<open>
  Five small contracts several components state of themselves: an operation set that
  keeps an invariant (\<open>invariant_machine\<close>), one in which a flag is raised by granting
  operations only (\<open>guarded_flag\<close>), one that only ever appends to a log
  (\<open>append_only\<close>), one that moves a measure only upwards (\<open>monotone_machine\<close>), and one
  that claims a key before it acts on it (\<open>once_only\<close>). Each
  gives, once, the statement over whole runs, which the components obtain by
  interpretation on their own steps.
\<close>

locale invariant_machine =
  fixes step :: "'s \<Rightarrow> 'op \<Rightarrow> 's"
    and inv :: "'s \<Rightarrow> bool"
  assumes step_inv: "inv s \<Longrightarrow> inv (step s x)"
begin

lemma run_inv: "inv s \<Longrightarrow> inv (foldl step s xs)"
  by (induction xs arbitrary: s) (simp_all add: step_inv)

end

locale guarded_flag = invariant_machine +
  fixes flag :: "'s \<Rightarrow> bool"
    and grants :: "'s \<Rightarrow> 'op \<Rightarrow> bool"
  assumes raised_by_grant: "inv s \<Longrightarrow> flag (step s x) \<Longrightarrow> \<not> flag s \<Longrightarrow> grants s x"
begin

lemma flag_granted:
  "\<lbrakk>inv s; \<not> flag s; flag (foldl step s xs)\<rbrakk>
    \<Longrightarrow> \<exists>pre x post. xs = pre @ x # post \<and> grants (foldl step s pre) x \<and> flag (foldl step s (pre @ [x])) \<and> \<not> flag (foldl step s pre)"
proof (induction xs rule: rev_induct)
  case (snoc x xs)
  show ?case
  proof (cases "flag (foldl step s xs)")
    case True
    then obtain pre y post where "xs = pre @ y # post" "grants (foldl step s pre) y" "flag (foldl step s (pre @ [y]))"
        "\<not> flag (foldl step s pre)"
      using snoc by blast
    then show ?thesis by (intro exI [of _ pre] exI [of _ y] exI [of _ "post @ [x]"]) simp
  next
    case False
    then have "grants (foldl step s xs) x" using snoc.prems raised_by_grant [OF run_inv] by simp
    then show ?thesis using False snoc.prems by (intro exI [of _ xs] exI [of _ x] exI [of _ "[]"]) simp
  qed
qed simp

end

locale append_only =
  fixes step :: "'s \<Rightarrow> 'op \<Rightarrow> 's"
    and log_of :: "'s \<Rightarrow> 'e list"
  assumes step_log: "\<exists>es. log_of (step s x) = log_of s @ es"
begin

lemma run_log: "\<exists>es. log_of (foldl step s xs) = log_of s @ es"
proof (induction xs arbitrary: s)
  case Nil
  then show ?case by simp
next
  case (Cons x xs)
  obtain es where "log_of (step s x) = log_of s @ es" using step_log by blast
  moreover obtain fs where "log_of (foldl step (step s x) xs) = log_of (step s x) @ fs"
    using Cons by blast
  ultimately show ?case by simp
qed

lemma logged_stays: "e \<in> set (log_of s) \<Longrightarrow> e \<in> set (log_of (foldl step s xs))"
  using run_log [of s xs] by auto

end

locale monotone_machine =
  fixes step :: "'s \<Rightarrow> 'op \<Rightarrow> 's"
    and measure_of :: "'s \<Rightarrow> 'm::order"
  assumes step_mono: "measure_of s \<le> measure_of (step s x)"
begin

lemma run_mono: "measure_of s \<le> measure_of (foldl step s xs)"
  by (induction xs arbitrary: s) (auto intro: order_trans step_mono)

lemma run_prefix_mono: "measure_of (foldl step s xs) \<le> measure_of (foldl step s (xs @ ys))"
  using run_mono [of "foldl step s xs" ys] by simp

end

fun trace :: "('s \<Rightarrow> 'x \<Rightarrow> 's) \<Rightarrow> ('s \<Rightarrow> 'x \<Rightarrow> 'k list) \<Rightarrow> 's \<Rightarrow> 'x list \<Rightarrow> 'k list" where
  \<comment> \<open>what a run does, in order\<close>
  "trace step acts s [] = []"
| "trace step acts s (x # xs) = acts s x @ trace step acts (step s x) xs"

locale once_only =
  fixes step :: "'s \<Rightarrow> 'x \<Rightarrow> 's"
    and acts :: "'s \<Rightarrow> 'x \<Rightarrow> 'k list"
    and claimed :: "'s \<Rightarrow> 'k set"
  assumes acts_distinct: "distinct (acts s x)"
    and acts_fresh: "set (acts s x) \<inter> claimed s = {}"
    and acts_claimed: "claimed s \<union> set (acts s x) \<subseteq> claimed (step s x)"
begin

lemma trace_once: "distinct (trace step acts s xs) \<and> set (trace step acts s xs) \<inter> claimed s = {}"
proof (induction xs arbitrary: s)
  case Nil
  then show ?case by simp
next
  case (Cons x xs)
  have IH: "distinct (trace step acts (step s x) xs)" "set (trace step acts (step s x) xs) \<inter> claimed (step s x) = {}"
    using Cons by blast+
  then show ?case using acts_distinct [of s x] acts_fresh [of s x] acts_claimed [of s x] by auto
qed

end

end
