(* ===== verification/ReleaseGates.thy ===== *)
theory ReleaseGates
  imports PortfolioRisk PyTime Machines
begin

section \<open>Release evidence and the canary gate\<close>

text \<open>
  A release may run as a canary only when four kinds of evidence are on record for it
  (\<^verbatim>\<open>release_gates.py\<close>): an unexpired operator acknowledgement, a measured run of the
  mutation trap with no mutation attempt afterwards, a rollback verification drawn from
  fresh validation evidence (\<^verbatim>\<open>rollback_evidence.py\<close>), and a checked runbook; all for one git
  commit (\<^verbatim>\<open>release_identity.py\<close>). The five tables of a release database are lists of rows,
  oldest first; each operation is one transaction. A JSON column is the value it decodes
  to, \<open>None\<close> standing for text that does not decode; the writers store objects. What a
  reader cannot reach (no table, or a failing query) is the argument \<open>None\<close>, which the code
  treats alike. Instants are microseconds; the git command, the digest of a file, its
  decoding, generated ids and the parser of a stored timestamp are arguments.

  The rows are only ever appended, which is the interpretation \<open>canary_log\<close> of
  \<open>append_only\<close>; what one of them proves holds for good.
\<close>

subsection \<open>Shared pieces of Python\<close>

definition andE :: "bool py \<Rightarrow> bool py \<Rightarrow> bool py" where
  \<comment> \<open>\<^verbatim>\<open>a and b\<close>: the right operand is evaluated only when the left is true\<close>
  "andE a b = bindE a (\<lambda>x. if x then b else Inr False)"

fun allE_of :: "bool py list \<Rightarrow> bool py" where
  "allE_of [] = Inr True"
| "allE_of (a # as) = andE a (allE_of as)"

lemma andE_True [simp]: "andE a b = Inr True \<longleftrightarrow> a = Inr True \<and> b = Inr True"
  by (auto simp: andE_def bindE_Inr_iff)

lemma allE_True: "allE_of as = Inr True \<longleftrightarrow> (\<forall>a \<in> set as. a = Inr True)"
  by (induction as) auto

fun py_list :: "pyval \<Rightarrow> pyval list py" where
  \<comment> \<open>\<^verbatim>\<open>list(v)\<close>\<close>
  "py_list (VList xs) = Inr xs"
| "py_list (VStr s) = Inr (map (\<lambda>c. VStr [c]) s)"
| "py_list (VDict d) = Inr (map (VStr \<circ> fst) d)"
| "py_list _ = Inl TypeError"

definition list_or_empty :: "pyval \<Rightarrow> pyval list py" where
  \<comment> \<open>\<^verbatim>\<open>list(v or [])\<close>\<close>
  "list_or_empty v = py_list (py_or v (VList []))"

definition int_or_zero :: "pyval \<Rightarrow> int py" where
  \<comment> \<open>\<^verbatim>\<open>int(v or 0)\<close>\<close>
  "int_or_zero v = py_int (py_or v (VInt 0))"

definition text_or_empty :: "pyval \<Rightarrow> string" where
  \<comment> \<open>\<^verbatim>\<open>str(v or "")\<close>\<close>
  "text_or_empty v = str_or v []"

definition stripped_or_none :: "pyval \<Rightarrow> string option" where
  \<comment> \<open>\<^verbatim>\<open>str(v or "").strip() or None\<close>\<close>
  "stripped_or_none v = (let s = py_strip (text_or_empty v) in if s = [] then None else Some s)"

definition starts_with :: "string \<Rightarrow> string \<Rightarrow> bool" where
  "starts_with p s \<longleftrightarrow> take (length p) s = p"

definition ends_with :: "string \<Rightarrow> string \<Rightarrow> bool" where
  "ends_with p s \<longleftrightarrow> starts_with (rev p) (rev s)"

definition utc_text :: "int \<Rightarrow> string" where
  \<comment> \<open>\<^verbatim>\<open>value.isoformat().replace("+00:00", "Z")\<close> of an instant in UTC\<close>
  "utc_text t = (let s = iso_text t in take (length s - 6) s @ ''Z'')"

definition same_text :: "string \<Rightarrow> string \<Rightarrow> bool" where
  \<comment> \<open>\<^verbatim>\<open>UPPER(a) = UPPER(b)\<close>\<close>
  "same_text a b \<longleftrightarrow> py_upper a = py_upper b"

subsection \<open>Release identity (\<^verbatim>\<open>release_identity.py\<close>)\<close>

definition is_hex_char :: "char \<Rightarrow> bool" where
  \<comment> \<open>\<^verbatim>\<open>ch in "0123456789abcdef"\<close>\<close>
  "is_hex_char c \<longleftrightarrow> is_digit_char c \<or> (97 \<le> (of_char c :: nat) \<and> (of_char c :: nat) \<le> 102)"

definition valid_git_commit :: "pyval \<Rightarrow> bool" where
  "valid_git_commit v = (case v of VStr s \<Rightarrow>
     length s = 40 \<and> list_all is_hex_char s \<and> s \<noteq> replicate 40 (CHR ''0'') | _ \<Rightarrow> False)"

type_synonym git_runner = "string list \<Rightarrow> string + string"
  \<comment> \<open>the output of a git command, or on the left the class of the exception it raised\<close>

record identity =
  id_status :: string
  id_commit :: "string option"
  id_clean :: bool
  id_reason :: "string option"

definition checkout_identity :: "git_runner \<Rightarrow> identity" where
  \<comment> \<open>the resolved path the result repeats is left out\<close>
  "checkout_identity git =
    (let unavailable = (\<lambda>why. \<lparr>id_status = ''UNAVAILABLE'', id_commit = None, id_clean = False, id_reason = Some why\<rparr>) in
     case git [''rev-parse'', ''HEAD''] of
       Inl cls \<Rightarrow> unavailable (''GIT_IDENTITY_UNAVAILABLE:'' @ cls)
     | Inr head \<Rightarrow>
         (case git [''status'', ''--porcelain=v1''] of
            Inl cls \<Rightarrow> unavailable (''GIT_IDENTITY_UNAVAILABLE:'' @ cls)
          | Inr changes \<Rightarrow>
              let commit = py_strip head; clean = (py_strip changes = []) in
              if commit = [] then unavailable ''GIT_COMMIT_MISSING''
              else \<lparr>id_status = (if clean then ''PASS'' else ''DIRTY''), id_commit = Some commit,
                    id_clean = clean, id_reason = (if clean then None else Some ''WORKTREE_DIRTY'')\<rparr>))"

definition require_campaign_checkout :: "git_runner \<Rightarrow> string \<Rightarrow> identity py" where
  "require_campaign_checkout git campaign_git_commit =
    (let expected = py_strip campaign_git_commit; identity = checkout_identity git;
         commit = (case id_commit identity of None \<Rightarrow> ''None'' | Some c \<Rightarrow> c) in
     if expected = [] \<or> py_upper expected \<in> {''UNKNOWN'', ''UNKNOWN_GIT_COMMIT''}
     then Inl (ValueError ''CAMPAIGN_GIT_COMMIT_MISSING'')
     else if id_status identity = ''UNAVAILABLE''
     then Inl (ValueError (case id_reason identity of None \<Rightarrow> ''None'' | Some r \<Rightarrow> r))
     else if \<not> id_clean identity then Inl (ValueError ''WORKTREE_DIRTY'')
     else if commit \<noteq> expected
     then Inl (ValueError (''CAMPAIGN_CHECKOUT_COMMIT_MISMATCH:'' @ commit @ ''!='' @ expected))
     else Inr identity)"

definition release_evidence_git_commit :: "git_runner \<Rightarrow> string option \<Rightarrow> string option" where
  "release_evidence_git_commit git git_commit =
    (let explicit = (case git_commit of None \<Rightarrow> [] | Some c \<Rightarrow> py_strip c); identity = checkout_identity git in
     if explicit \<noteq> [] then Some explicit
     else if id_status identity \<noteq> ''PASS'' \<or> \<not> id_clean identity then None
     else case id_commit identity of None \<Rightarrow> None
       | Some c \<Rightarrow> if py_strip c = [] then None else Some (py_strip c))"

subsection \<open>Tables\<close>

record ReleaseGateSnapshot =
  s_release :: string
  s_phase :: string
  s_status :: string
  s_generated :: int
  s_canary_ready :: bool
  s_rollback_verified :: bool
  s_runbook_verified :: bool
  s_acknowledged :: bool
  s_mutations :: "int option"
  s_blocking :: "string list"
  s_evidence :: "pydict option"

record ack_row =
  a_id :: string
  a_release :: string
  a_phase :: string
  a_at :: int
  a_until :: int
  a_operator :: string
  a_text :: string
  a_evidence :: "pydict option"

record canary_row =
  c_id :: string
  c_release :: string
  c_phase :: string
  c_type :: string
  c_ts :: int
  c_shadow :: bool
  c_canary :: bool
  c_attempted :: bool
  c_blocked :: bool
  c_evidence :: "pydict option"

record evidence_row =
  e_id :: string
  e_release :: string
  e_phase :: string
  e_ts :: int
  e_status :: string
  e_evidence :: "pydict option"

record gate_tables =
  snapshots :: "ReleaseGateSnapshot list"
  acks :: "ack_row list"
  canaries :: "canary_row list"
  rollbacks :: "evidence_row list"
  runbooks :: "evidence_row list"

definition empty_tables :: gate_tables where
  "empty_tables = \<lparr>snapshots = [], acks = [], canaries = [], rollbacks = [], runbooks = []\<rparr>"

definition ensure_release_gate_schema :: "gate_tables option \<Rightarrow> gate_tables" where
  "ensure_release_gate_schema t = (case t of None \<Rightarrow> empty_tables | Some u \<Rightarrow> u)"

definition last_row :: "('r \<Rightarrow> bool) \<Rightarrow> 'r list \<Rightarrow> 'r option" where
  \<comment> \<open>\<^verbatim>\<open>WHERE ... ORDER BY id DESC LIMIT 1\<close>\<close>
  "last_row P rows = find P (rev rows)"

lemma last_row_Some: "last_row P rows = Some r \<Longrightarrow> r \<in> set rows \<and> P r"
  by (auto simp: last_row_def find_Some_iff) (metis nth_mem length_rev set_rev)

lemma last_row_snoc: "last_row P (rows @ [r]) = (if P r then Some r else last_row P rows)"
  by (simp add: last_row_def)

lemma last_row_Nil [simp]: "last_row P [] = None"
  by (simp add: last_row_def)

lemma last_row_None: "last_row P rows = None \<longleftrightarrow> (\<forall>r \<in> set rows. \<not> P r)"
  by (auto simp: last_row_def find_None_iff)

definition evidence_of :: "pydict option \<Rightarrow> pydict" where
  \<comment> \<open>\<^verbatim>\<open>dict(_json_load(text, {}))\<close>\<close>
  "evidence_of j = (case j of None \<Rightarrow> [] | Some d \<Rightarrow> d)"

subsection \<open>Validation evidence (\<^verbatim>\<open>rollback_evidence.py\<close>)\<close>

record validation_row =
  v_id :: string
  v_recorded :: string
  v_status :: string
  v_source :: string
  v_commit :: "string option"
  v_kill_switch :: bool
  v_no_submit :: bool
  v_fail_closed :: bool
  v_non_mutating :: bool
  v_mutations :: int
  v_reasons :: "pyval option"
  v_payload :: "pyval option"

record validation_table =
  vt_has_commit :: bool
  vt_rows :: "validation_row list"

definition ensure_rollback_evidence_schema :: "validation_table option \<Rightarrow> validation_table" where
  \<comment> \<open>creates the table, or adds the column an older one lacks\<close>
  "ensure_rollback_evidence_schema t =
    (case t of None \<Rightarrow> \<lparr>vt_has_commit = True, vt_rows = []\<rparr> | Some u \<Rightarrow> u\<lparr>vt_has_commit := True\<rparr>)"

definition MAX_EVIDENCE_AGE_SEC :: flt where "MAX_EVIDENCE_AGE_SEC = Fin 900"
definition FUTURE_TOLERANCE_SEC :: flt where "FUTURE_TOLERANCE_SEC = Fin 5"
definition EVIDENCE_SOURCE :: string where "EVIDENCE_SOURCE = ''DETERMINISTIC_VALIDATION''"

definition ALLOWED_PAYLOAD_KEYS :: "string list" where
  "ALLOWED_PAYLOAD_KEYS = [''validation_scope'', ''guard_path'', ''guard_reject_reason'',
     ''unsafe_snapshot_case'', ''finding_counts'', ''recommendation_categories'',
     ''repair_payloads_dry_run'', ''execution_adapter_bound'', ''supported_mutation_interfaces'',
     ''incident_rows_before'', ''incident_rows_after'']"

definition clip_list :: "pyval \<Rightarrow> pyval" where
  \<comment> \<open>\<^verbatim>\<open>[str(v)[:80] for v in values[:20]]\<close>\<close>
  "clip_list v = (case v of VList xs \<Rightarrow> VList (map (\<lambda>x. VStr (take 80 (py_str x))) (take 20 xs)) | _ \<Rightarrow> v)"

definition safe_payload :: "pydict \<Rightarrow> pydict py" where
  "safe_payload source =
    (let safe = map (\<lambda>k. (k, dget source k)) (filter (\<lambda>k. map_of source k \<noteq> None) ALLOWED_PAYLOAD_KEYS) in
     bindE (case dget safe ''finding_counts'' of
              VDict counts \<Rightarrow> bindE (mapE (\<lambda>(k, v). bindE (py_int v) (\<lambda>n. Inr (take 80 k, VInt n))) counts)
                (\<lambda>entries. Inr (dset ''finding_counts'' (VDict (dupdate [] entries)) safe))
            | _ \<Rightarrow> Inr safe)
       (\<lambda>d. Inr (map (\<lambda>(k, v). (k, if k \<in> {''recommendation_categories'', ''supported_mutation_interfaces''}
                                   then clip_list v else v)) d)))"

definition insert_unique :: "('r \<Rightarrow> string) \<Rightarrow> 'r \<Rightarrow> 'r list \<Rightarrow> 'r list py" where
  \<comment> \<open>\<^verbatim>\<open>INSERT\<close> into a table whose text key is UNIQUE\<close>
  "insert_unique key r rows = (if \<exists>x \<in> set rows. key x = key r then Inl IntegrityError else Inr (rows @ [r]))"

lemma insert_unique_Inr: "insert_unique key r rows = Inr out \<longleftrightarrow> (\<forall>x \<in> set rows. key x \<noteq> key r) \<and> out = rows @ [r]"
  by (auto simp: insert_unique_def)

definition validation_row_of :: "git_runner \<Rightarrow> string \<Rightarrow> string \<Rightarrow> pydict \<Rightarrow> validation_row py" where
  \<comment> \<open>the row built from the evidence; \<open>fresh\<close> is the generated id, \<open>now_text\<close> the clock\<close>
  "validation_row_of git fresh now_text evidence =
    (let kill = truthy (dget_or evidence ''kill_switch_block_verified'' (VBool False));
         submit = truthy (dget_or evidence ''no_submit_on_kill_switch_verified'' (VBool False));
         closed = truthy (dget_or evidence ''fail_closed_reconciliation_verified'' (VBool False));
         repair = truthy (dget_or evidence ''repair_actions_non_mutating_verified'' (VBool False)) in
     bindE (int_or_zero (dget_or evidence ''execution_mutation_attempt_count'' (VInt 0))) (\<lambda>n.
     let mutation_count = max 0 n in
     bindE (list_or_empty (dget evidence ''blocking_reasons'')) (\<lambda>rs.
     let given = py_strip (text_or_empty (dget evidence ''git_commit''));
         identity = checkout_identity git;
         commit = (if given \<noteq> [] then given
                   else if id_status identity = ''PASS'' \<and> id_clean identity
                   then py_strip (case id_commit identity of None \<Rightarrow> [] | Some c \<Rightarrow> c) else []);
         reasons = map (\<lambda>r. take 120 (py_str r)) rs
           @ (if commit = [] then [''ROLLBACK_EVIDENCE_GIT_IDENTITY_MISSING''] else []);
         complete = (kill \<and> submit \<and> closed \<and> repair \<and> mutation_count = 0 \<and> commit \<noteq> [] \<and> reasons = []) in
     bindE (safe_payload (case dget evidence ''evidence_payload'' of VDict d \<Rightarrow> d | _ \<Rightarrow> [])) (\<lambda>payload.
     Inr \<lparr>v_id = take 160 (py_str (py_or (dget evidence ''validation_id'') (VStr (''rollback-validation:'' @ fresh)))),
          v_recorded = py_str (py_or (dget evidence ''recorded_at'') (VStr now_text)),
          v_status = (if complete then ''COMPLETE'' else ''INCOMPLETE''), v_source = EVIDENCE_SOURCE,
          v_commit = (if commit = [] then None else Some commit),
          v_kill_switch = kill, v_no_submit = submit, v_fail_closed = closed, v_non_mutating = repair,
          v_mutations = mutation_count, v_reasons = Some (VList (map VStr reasons)),
          v_payload = Some (VDict payload)\<rparr>))))"

definition persist_rollback_validation_evidence ::
  "git_runner \<Rightarrow> string \<Rightarrow> string \<Rightarrow> validation_table option \<Rightarrow> pydict \<Rightarrow> (validation_table \<times> validation_row) py" where
  "persist_rollback_validation_evidence git fresh now_text t evidence =
    bindE (validation_row_of git fresh now_text evidence) (\<lambda>row.
    let u = ensure_rollback_evidence_schema t in
    bindE (insert_unique v_id row (vt_rows u)) (\<lambda>rows. Inr (u\<lparr>vt_rows := rows\<rparr>, row)))"

definition missing_rollback_evidence :: pydict where
  "missing_rollback_evidence =
    [(''rollback_evidence_source'', VStr ''UNVERIFIED''), (''rollback_evidence_persisted'', VBool False),
     (''git_commit'', VNone), (''rollback_evidence_verified'', VBool False),
     (''rollback_evidence_status'', VStr ''INCOMPLETE''), (''kill_switch_block_verified'', VBool False),
     (''no_submit_on_kill_switch_verified'', VBool False), (''fail_closed_reconciliation_verified'', VBool False),
     (''repair_actions_non_mutating_verified'', VBool False), (''execution_mutation_attempt_count'', VNone),
     (''rollback_blocking_reasons'', VList [VStr ''ROLLBACK_EVIDENCE_MISSING''])]"

definition age_seconds :: "int \<Rightarrow> int \<Rightarrow> flt" where
  \<comment> \<open>\<^verbatim>\<open>(now - recorded).total_seconds()\<close>\<close>
  "age_seconds now recorded = fl (of_int (now - recorded) / 1000000)"

definition validation_row_valid :: "validation_row \<Rightarrow> pyval \<Rightarrow> pyval \<Rightarrow> bool" where
  "validation_row_valid row reasons payload \<longleftrightarrow>
     py_upper (v_status row) = ''COMPLETE'' \<and> py_upper (v_source row) = EVIDENCE_SOURCE \<and>
     py_strip (case v_commit row of None \<Rightarrow> [] | Some c \<Rightarrow> c) \<noteq> [] \<and>
     v_kill_switch row \<and> v_no_submit row \<and> v_fail_closed row \<and> v_non_mutating row \<and>
     v_mutations row = 0 \<and> reasons = VList [] \<and> (case payload of VDict _ \<Rightarrow> True | _ \<Rightarrow> False)"

definition measured_rollback_evidence :: "validation_row \<Rightarrow> flt \<Rightarrow> bool \<Rightarrow> pyval \<Rightarrow> pydict" where
  "measured_rollback_evidence row age valid payload =
    [(''validation_id'', VStr (v_id row)), (''recorded_at'', VStr (v_recorded row)),
     (''git_commit'', case v_commit row of None \<Rightarrow> VNone | Some c \<Rightarrow> if c = [] then VNone else VStr c),
     (''rollback_evidence_source'', VStr (if valid then EVIDENCE_SOURCE else ''UNVERIFIED'')),
     (''rollback_evidence_persisted'', VBool True), (''rollback_evidence_verified'', VBool valid),
     (''rollback_evidence_status'', VStr (if valid then ''COMPLETE'' else ''INCOMPLETE'')),
     (''kill_switch_block_verified'', VBool valid), (''no_submit_on_kill_switch_verified'', VBool valid),
     (''fail_closed_reconciliation_verified'', VBool valid), (''repair_actions_non_mutating_verified'', VBool valid),
     (''execution_mutation_attempt_count'', VInt (v_mutations row)),
     (''rollback_evidence_age_sec'', VFloat age), (''evidence_payload'', payload),
     (''rollback_blocking_reasons'', VList (if valid then [] else [VStr ''ROLLBACK_EVIDENCE_INVALID'']))]"

definition latest_persisted_rollback_evidence ::
  "(string \<Rightarrow> int option) \<Rightarrow> flt \<Rightarrow> int \<Rightarrow> bool \<Rightarrow> validation_table option \<Rightarrow> pydict" where
  \<comment> \<open>\<open>parse_ts\<close> is \<^verbatim>\<open>_timestamp\<close>; \<open>query_ok\<close> is false when the database raises\<close>
  "latest_persisted_rollback_evidence parse_ts max_age now query_ok t =
    (let blocked = (\<lambda>extra why. dupdate missing_rollback_evidence
           (extra @ [(''rollback_blocking_reasons'', VList [VStr why])]));
         persisted = (''rollback_evidence_persisted'', VBool True) in
     if \<not> query_ok then blocked [] ''ROLLBACK_EVIDENCE_QUERY_UNAVAILABLE''
     else case t of None \<Rightarrow> missing_rollback_evidence
     | Some u \<Rightarrow>
         if \<not> vt_has_commit u then blocked [persisted] ''ROLLBACK_EVIDENCE_GIT_COMMIT_MISSING''
         else case last_row (\<lambda>_. True) (vt_rows u) of None \<Rightarrow> missing_rollback_evidence
         | Some row \<Rightarrow>
             (case parse_ts (v_recorded row) of
                None \<Rightarrow> blocked [persisted] ''ROLLBACK_EVIDENCE_INVALID_TIMESTAMP''
              | Some recorded \<Rightarrow>
                  let age = age_seconds now recorded;
                      aged = [persisted, (''rollback_evidence_age_sec'', VFloat age)] in
                  if flt_less age (fneg FUTURE_TOLERANCE_SEC) then blocked aged ''ROLLBACK_EVIDENCE_FUTURE_DATED''
                  else if flt_less max_age age then blocked aged ''ROLLBACK_EVIDENCE_STALE''
                  else case (v_reasons row, v_payload row) of
                    (Some reasons, Some payload) \<Rightarrow>
                      measured_rollback_evidence row age (validation_row_valid row reasons payload) payload
                  | _ \<Rightarrow> blocked aged ''ROLLBACK_EVIDENCE_INVALID''))"

subsection \<open>Operator acknowledgements\<close>

definition ACK_RISK_PHRASE :: string where
  "ACK_RISK_PHRASE = ''I acknowledge AlphaForge Phase 6 canary risk and LIVE real orders remain disabled''"

definition MAX_OPERATOR_ACK_TTL_MINUTES :: int where "MAX_OPERATOR_ACK_TTL_MINUTES = 240"

definition required_operator_ack_text :: "string \<Rightarrow> string" where
  "required_operator_ack_text release_id = ACK_RISK_PHRASE @ ''; release_id='' @ release_id"

definition operator_ack_semantics ::
  "string \<Rightarrow> string \<Rightarrow> int option \<Rightarrow> int option \<Rightarrow> int \<Rightarrow> bool \<times> string option" where
  "operator_ack_semantics release_id text_value acknowledged_at valid_until current =
    (if \<not> str_contains ACK_RISK_PHRASE text_value \<or> \<not> str_contains release_id text_value
     then (False, Some ''ACK_TEXT_MISSING_RELEASE_OR_RISK_PHRASE'')
     else case (acknowledged_at, valid_until) of
       (Some acknowledged, Some expires) \<Rightarrow>
         if expires \<le> acknowledged then (False, Some ''ACK_EXPIRY_NOT_AFTER_ACK'')
         else if (MAX_OPERATOR_ACK_TTL_MINUTES * 60 + 1) * 1000000 < expires - acknowledged
         then (False, Some ''ACK_TTL_EXCEEDS_MAX'')
         else if expires \<le> current then (False, Some ''ACK_EXPIRED'')
         else (True, None)
     | _ \<Rightarrow> (False, Some ''ACK_TIMESTAMP_INVALID''))"

definition row_ack_valid :: "string \<Rightarrow> int \<Rightarrow> ack_row \<Rightarrow> bool" where
  "row_ack_valid release_id now r \<longleftrightarrow>
     fst (operator_ack_semantics release_id (a_text r) (Some (a_at r)) (Some (a_until r)) now)"

definition latest_valid_operator_ack :: "gate_tables option \<Rightarrow> string \<Rightarrow> string \<Rightarrow> int \<Rightarrow> ack_row option" where
  \<comment> \<open>only the latest row of the release is looked at\<close>
  "latest_valid_operator_ack t release_id phase now =
    (case t of None \<Rightarrow> None
     | Some u \<Rightarrow> (case last_row (\<lambda>r. a_release r = release_id \<and> same_text (a_phase r) phase) (acks u) of
         None \<Rightarrow> None
       | Some row \<Rightarrow> if row_ack_valid release_id now row then Some row else None))"

definition ack_as_dict :: "ack_row \<Rightarrow> pydict" where
  "ack_as_dict r =
    [(''ack_id'', VStr (a_id r)), (''release_id'', VStr (a_release r)), (''phase'', VStr (a_phase r)),
     (''acknowledged_at'', VStr (utc_text (a_at r))), (''valid_until'', VStr (utc_text (a_until r))),
     (''operator_id'', VStr (a_operator r)), (''acknowledgement_text'', VStr (a_text r)),
     (''evidence'', VDict (evidence_of (a_evidence r)))]"

definition persist_operator_ack ::
  "gate_tables option \<Rightarrow> string \<Rightarrow> string \<Rightarrow> string \<Rightarrow> string \<Rightarrow> int \<Rightarrow> pydict \<Rightarrow> string \<Rightarrow> int
   \<Rightarrow> gate_tables \<times> (ack_row \<times> bool \<times> string option) py" where
  \<comment> \<open>the acknowledgement is stored even when it is not valid; \<open>ack_id\<close> is given or generated\<close>
  "persist_operator_ack t release_id phase text_value operator_id ttl evidence ack_id current =
    (let u = ensure_release_gate_schema t; until = current + ttl * 60000000;
         (valid, blocker) = operator_ack_semantics release_id text_value (Some current) (Some until) current;
         row = \<lparr>a_id = ack_id, a_release = release_id, a_phase = phase, a_at = current, a_until = until,
                a_operator = operator_id, a_text = text_value,
                a_evidence = Some (dupdate evidence
                  [(''validation_status'', VStr (if valid then ''PASS'' else ''FAIL'')),
                   (''blocker_reason'', str_opt_val blocker),
                   (''max_ttl_minutes'', VInt MAX_OPERATOR_ACK_TTL_MINUTES)])\<rparr> in
     if ttl \<le> 0 \<or> MAX_OPERATOR_ACK_TTL_MINUTES < ttl
     then (u, Inl (ValueError ''OPERATOR_ACK_TTL_OUT_OF_RANGE:1..240''))
     else case insert_unique a_id row (acks u) of
         Inl e \<Rightarrow> (u, Inl e)
       | Inr rows \<Rightarrow> (u\<lparr>acks := rows\<rparr>, Inr (row, valid, blocker)))"

subsection \<open>Canary events and the mutation trap\<close>

definition CANARY_VALIDATION_EVENT_TYPE :: string where "CANARY_VALIDATION_EVENT_TYPE = ''CANARY_VALIDATION_PASS''"
definition CANARY_VALIDATION_CONTRACT :: string where "CANARY_VALIDATION_CONTRACT = ''PHASE6_CANARY_MUTATION_TRAP_V1''"
definition CANARY_VALIDATION_SOURCE :: string where "CANARY_VALIDATION_SOURCE = ''DETERMINISTIC_MUTATION_TRAP_VALIDATION''"
definition CANARY_VALIDATION_ACTIONS :: "string list" where
  "CANARY_VALIDATION_ACTIONS = [''submit'', ''place'', ''cancel'', ''modify'', ''create'']"

definition insert_canary :: "gate_tables \<Rightarrow> canary_row \<Rightarrow> gate_tables \<times> canary_row py" where
  "insert_canary u row =
    (case insert_unique c_id row (canaries u) of
       Inl e \<Rightarrow> (u, Inl e) | Inr rows \<Rightarrow> (u\<lparr>canaries := rows\<rparr>, Inr row))"

definition persist_canary_event :: "gate_tables option \<Rightarrow> bool \<Rightarrow> canary_row \<Rightarrow> gate_tables option \<times> canary_row py" where
  \<comment> \<open>\<open>token\<close>: the caller holds \<^verbatim>\<open>_CANARY_VALIDATION_TOKEN\<close>\<close>
  "persist_canary_event t token row =
    (if c_type row = CANARY_VALIDATION_EVENT_TYPE \<and> \<not> token
     then (t, Inl (ValueError ''CANARY_VALIDATION_EVENT_REQUIRES_MEASURED_WRITER''))
     else (case insert_canary (ensure_release_gate_schema t) row of (u, r) \<Rightarrow> (Some u, r)))"

definition mutating_name :: "string \<Rightarrow> bool" where
  "mutating_name name \<longleftrightarrow> list_ex (\<lambda>p. starts_with p (py_lower name)) CANARY_VALIDATION_ACTIONS"

definition trap_row :: "string \<Rightarrow> string \<Rightarrow> string \<Rightarrow> string \<Rightarrow> int \<Rightarrow> canary_row" where
  "trap_row release_id phase name eid ts =
    \<lparr>c_id = eid, c_release = release_id, c_phase = phase, c_type = ''MUTATION_BLOCKED:'' @ name, c_ts = ts,
     c_shadow = True, c_canary = True, c_attempted = True, c_blocked = True,
     c_evidence = Some [(''method'', VStr name)]\<rparr>"

definition trap_call ::
  "gate_tables option \<Rightarrow> string \<Rightarrow> string \<Rightarrow> string \<Rightarrow> string \<Rightarrow> int \<Rightarrow> gate_tables option \<times> unit py" where
  \<comment> \<open>a method of \<^verbatim>\<open>MutationTrapExecutionAdapter\<close> is looked up and called\<close>
  "trap_call t release_id phase name eid ts =
    (if mutating_name name
     then (case persist_canary_event t False (trap_row release_id phase name eid ts) of
             (t1, Inl e) \<Rightarrow> (t1, Inl e)
           | (t1, Inr _) \<Rightarrow> (t1, Inl (RuntimeError ''CANARY_MUTATION_BLOCKED'')))
     else (t, Inl AttributeError))"

definition exc_class :: "exc \<Rightarrow> string" where
  \<comment> \<open>\<^verbatim>\<open>exc.__class__.__name__\<close>\<close>
  "exc_class e = (case e of TypeError \<Rightarrow> ''TypeError'' | ValueError _ \<Rightarrow> ''ValueError''
     | OverflowError \<Rightarrow> ''OverflowError'' | ZeroDivisionError \<Rightarrow> ''ZeroDivisionError''
     | KeyError _ \<Rightarrow> ''KeyError'' | RuntimeError _ \<Rightarrow> ''RuntimeError'' | ControlError _ \<Rightarrow> ''ControlError''
     | IntegrityError \<Rightarrow> ''IntegrityError'' | DatabaseError \<Rightarrow> ''DatabaseError''
     | AttributeError \<Rightarrow> ''AttributeError'' | AssertionError \<Rightarrow> ''AssertionError'')"

definition probe_text :: "unit py \<Rightarrow> string" where
  "probe_text r = (case r of Inl (RuntimeError s) \<Rightarrow> s | Inl e \<Rightarrow> ''UNEXPECTED:'' @ exc_class e | Inr _ \<Rightarrow> ''NOT_BLOCKED'')"

fun probe_actions ::
  "gate_tables option \<Rightarrow> string \<Rightarrow> string \<Rightarrow> int \<Rightarrow> (string \<times> string) list \<Rightarrow> gate_tables option \<times> (string \<times> string) list" where
  \<comment> \<open>call every action in turn (paired with the id of its event) and note what it said\<close>
  "probe_actions t release_id phase ts [] = (t, [])"
| "probe_actions t release_id phase ts ((action, eid) # rest) =
     (case trap_call t release_id phase action eid ts of (t1, r) \<Rightarrow>
      (case probe_actions t1 release_id phase ts rest of (t2, results) \<Rightarrow> (t2, (action, probe_text r) # results)))"

definition attempt_row :: "string \<Rightarrow> string \<Rightarrow> canary_row \<Rightarrow> bool" where
  "attempt_row release_id phase r \<longleftrightarrow> c_release r = release_id \<and> same_text (c_phase r) phase \<and> c_attempted r"

definition canary_mutation_attempt_count :: "gate_tables option \<Rightarrow> string \<Rightarrow> string \<Rightarrow> int option" where
  "canary_mutation_attempt_count t release_id phase =
    (case t of None \<Rightarrow> None | Some u \<Rightarrow> Some (int (length (filter (attempt_row release_id phase) (canaries u)))))"

definition validation_outcome ::
  "string option \<Rightarrow> string \<Rightarrow> string \<Rightarrow> int \<Rightarrow> string list \<Rightarrow> bool \<times> pydict" where
  \<comment> \<open>the probes run against a database of their own; \<open>ids\<close> are the ids generated there\<close>
  "validation_outcome commit validation_release phase ts ids =
    (case probe_actions (Some empty_tables) validation_release phase ts (zip CANARY_VALIDATION_ACTIONS ids) of
       (isolated, results) \<Rightarrow>
         let blocked_actions = map fst (filter (\<lambda>p. snd p = ''CANARY_MUTATION_BLOCKED'') results);
             attempts = canary_mutation_attempt_count isolated validation_release phase;
             blocked = (case isolated of None \<Rightarrow> 0
               | Some u \<Rightarrow> int (length (filter (\<lambda>r. attempt_row validation_release phase r \<and> c_blocked r) (canaries u))));
             passed = (commit \<noteq> None \<and> blocked_actions = CANARY_VALIDATION_ACTIONS \<and>
                       attempts = Some 5 \<and> blocked = 5)
         in (passed,
           [(''source'', VStr CANARY_VALIDATION_SOURCE), (''verification_contract'', VStr CANARY_VALIDATION_CONTRACT),
            (''git_commit'', str_opt_val commit), (''validation_status'', VStr (if passed then ''PASS'' else ''FAIL'')),
            (''required_actions'', VList (map VStr CANARY_VALIDATION_ACTIONS)),
            (''blocked_actions'', VList (map VStr blocked_actions)),
            (''action_results'', VDict (map (\<lambda>(k, s). (k, VStr s)) results)),
            (''isolated_mutation_attempt_count'', case attempts of None \<Rightarrow> VNone | Some n \<Rightarrow> VInt n),
            (''isolated_mutation_blocked_count'', VInt blocked),
            (''campaign_release_db_mutation_attempted'', VBool False)]))"

definition run_canary_mutation_trap_validation ::
  "git_runner \<Rightarrow> string option \<Rightarrow> string \<Rightarrow> string list \<Rightarrow> string \<Rightarrow> int \<Rightarrow> gate_tables option \<Rightarrow> string \<Rightarrow> string
   \<Rightarrow> gate_tables option \<times> (canary_row \<times> bool) py" where
  "run_canary_mutation_trap_validation git git_commit validation_release ids eid ts t release_id phase =
    (case validation_outcome (release_evidence_git_commit git git_commit) validation_release phase ts ids of
       (passed, evidence) \<Rightarrow>
         case persist_canary_event t passed
             \<lparr>c_id = eid, c_release = release_id, c_phase = phase,
              c_type = (if passed then CANARY_VALIDATION_EVENT_TYPE else ''CANARY_VALIDATION_FAIL''), c_ts = ts,
              c_shadow = True, c_canary = True, c_attempted = False, c_blocked = True, c_evidence = Some evidence\<rparr> of
           (t1, Inl e) \<Rightarrow> (t1, Inl e)
         | (t1, Inr row) \<Rightarrow> (t1, Inr (row, passed)))"

subsection \<open>Reading the evidence back\<close>

definition scoped :: "string \<Rightarrow> string \<Rightarrow> string \<Rightarrow> string \<Rightarrow> bool" where
  \<comment> \<open>\<^verbatim>\<open>WHERE release_id = :release_id AND UPPER(phase) = UPPER(:phase)\<close>\<close>
  "scoped release_id phase r p \<longleftrightarrow> r = release_id \<and> same_text p phase"

definition ROLLBACK_VERIFICATION_CONTRACT :: string where "ROLLBACK_VERIFICATION_CONTRACT = ''PHASE6_ROLLBACK_V1''"
definition RUNBOOK_VERIFICATION_CONTRACT :: string where "RUNBOOK_VERIFICATION_CONTRACT = ''PHASE6_RUNBOOK_V1''"

definition RUNBOOK_REQUIRED_MARKERS :: "string list" where
  "RUNBOOK_REQUIRED_MARKERS = [''## Explicit LIVE boundary'', ''## Suspension conditions'',
     ''## Operator workflow'', ''## Phase 9 PAPER Burn-in Operations'', ''recovery-drill'', ''finalize'']"

definition list_is :: "pydict \<Rightarrow> string \<Rightarrow> string list \<Rightarrow> bool py" where
  \<comment> \<open>\<^verbatim>\<open>list(evidence.get(k) or []) == expected\<close>\<close>
  "list_is d k expected = bindE (list_or_empty (dget d k)) (\<lambda>xs. Inr (py_eq_list xs (map VStr expected)))"

definition count_is :: "pydict \<Rightarrow> string \<Rightarrow> int \<Rightarrow> bool py" where
  \<comment> \<open>\<^verbatim>\<open>int(evidence.get(k) or 0) == n\<close>\<close>
  "count_is d k n = bindE (int_or_zero (dget d k)) (\<lambda>m. Inr (m = n))"

definition canary_row_valid :: "canary_row \<Rightarrow> bool py" where
  "canary_row_valid row =
    (let evidence = evidence_of (c_evidence row) in
     allE_of
       [Inr (c_shadow row), Inr (c_canary row), Inr (\<not> c_attempted row), Inr (c_blocked row),
        Inr (text_or_empty (dget evidence ''source'') = CANARY_VALIDATION_SOURCE),
        Inr (text_or_empty (dget evidence ''verification_contract'') = CANARY_VALIDATION_CONTRACT),
        Inr (py_upper (text_or_empty (dget evidence ''validation_status'')) = ''PASS''),
        Inr (py_strip (text_or_empty (dget evidence ''git_commit'')) \<noteq> []),
        list_is evidence ''required_actions'' CANARY_VALIDATION_ACTIONS,
        list_is evidence ''blocked_actions'' CANARY_VALIDATION_ACTIONS,
        count_is evidence ''isolated_mutation_attempt_count'' 5,
        count_is evidence ''isolated_mutation_blocked_count'' 5])"

definition canary_validation_row :: "string \<Rightarrow> string \<Rightarrow> canary_row \<Rightarrow> bool" where
  "canary_validation_row release_id phase r \<longleftrightarrow>
     scoped release_id phase (c_release r) (c_phase r) \<and> c_type r = CANARY_VALIDATION_EVENT_TYPE"

definition latest_verified_canary_validation :: "gate_tables option \<Rightarrow> string \<Rightarrow> string \<Rightarrow> pydict option py" where
  "latest_verified_canary_validation t release_id phase =
    (case t of None \<Rightarrow> Inr None
     | Some u \<Rightarrow> (case last_row (canary_validation_row release_id phase) (canaries u) of
         None \<Rightarrow> Inr None
       | Some row \<Rightarrow> bindE (canary_row_valid row) (\<lambda>valid. Inr (if \<not> valid then None else
           Some (dupdate
             [(''event_id'', VStr (c_id row)), (''event_ts'', VStr (utc_text (c_ts row))),
              (''source'', VStr CANARY_VALIDATION_SOURCE),
              (''verification_contract'', VStr CANARY_VALIDATION_CONTRACT)]
             (evidence_of (c_evidence row)))))))"

definition rollback_verification_evidence_valid :: "string \<Rightarrow> pydict \<Rightarrow> bool py" where
  "rollback_verification_evidence_valid status evidence =
     allE_of
       [Inr (py_upper status = ''PASS''),
        Inr (text_or_empty (dget evidence ''verification_contract'') = ROLLBACK_VERIFICATION_CONTRACT),
        Inr (text_or_empty (dget evidence ''source'') = ''DETERMINISTIC_VALIDATION''),
        Inr (truthy (dget evidence ''validation_id'')),
        Inr (py_strip (text_or_empty (dget evidence ''git_commit'')) \<noteq> []),
        Inr (text_or_empty (dget evidence ''source_git_commit'') = text_or_empty (dget evidence ''git_commit'')),
        Inr (truthy (dget evidence ''kill_switch_block_verified'')),
        Inr (truthy (dget evidence ''no_submit_on_kill_switch_verified'')),
        Inr (truthy (dget evidence ''fail_closed_reconciliation_verified'')),
        Inr (truthy (dget evidence ''repair_actions_non_mutating_verified'')),
        count_is evidence ''execution_mutation_attempt_count'' 0,
        list_is evidence ''blocking_reasons'' []]"

definition runbook_verification_evidence_valid :: "string \<Rightarrow> pydict \<Rightarrow> bool py" where
  "runbook_verification_evidence_valid status evidence =
    (let digest = text_or_empty (dget evidence ''sha256'') in
     allE_of
       [Inr (py_upper status = ''PASS''),
        Inr (text_or_empty (dget evidence ''verification_contract'') = RUNBOOK_VERIFICATION_CONTRACT),
        Inr (py_strip (text_or_empty (dget evidence ''git_commit'')) \<noteq> []),
        Inr (length digest = 64), Inr (list_all is_hex_char (py_lower digest)),
        bindE (int_or_zero (dget evidence ''size_bytes'')) (\<lambda>n. Inr (0 < n)),
        list_is evidence ''required_markers'' RUNBOOK_REQUIRED_MARKERS,
        list_is evidence ''missing_markers'' [],
        Inr (in_strs (dget evidence ''read_error'') [''''])])"

definition latest_verified ::
  "(string \<Rightarrow> pydict \<Rightarrow> bool py) \<Rightarrow> string \<times> string \<Rightarrow> evidence_row list option \<Rightarrow> string \<Rightarrow> string
   \<Rightarrow> (string \<times> pydict option) py" where
  \<comment> \<open>what the two readers below do with their own table, judgement and key names\<close>
  "latest_verified judge names rows release_id phase =
    (case rows of None \<Rightarrow> Inr (''MISSING'', None)
     | Some rs \<Rightarrow> (case last_row (\<lambda>r. scoped release_id phase (e_release r) (e_phase r)) rs of
         None \<Rightarrow> Inr (''MISSING'', None)
       | Some row \<Rightarrow>
           let evidence = evidence_of (e_evidence row) in
           bindE (judge (e_status row) evidence) (\<lambda>valid.
             Inr (if valid then ''PASS'' else ''UNVERIFIED'',
               Some (dupdate [(fst names, VStr (e_id row)), (snd names, VStr (utc_text (e_ts row)))] evidence)))))"

definition latest_verified_rollback :: "gate_tables option \<Rightarrow> string \<Rightarrow> string \<Rightarrow> (string \<times> pydict option) py" where
  "latest_verified_rollback t =
     latest_verified rollback_verification_evidence_valid (''verification_id'', ''verified_at'') (map_option rollbacks t)"

definition latest_verified_runbook :: "gate_tables option \<Rightarrow> string \<Rightarrow> string \<Rightarrow> (string \<times> pydict option) py" where
  "latest_verified_runbook t =
     latest_verified runbook_verification_evidence_valid (''evidence_id'', ''recorded_at'') (map_option runbooks t)"

definition latest_release_snapshot :: "gate_tables option \<Rightarrow> string \<Rightarrow> string \<Rightarrow> ReleaseGateSnapshot option" where
  \<comment> \<open>an empty release id or phase is not part of the condition\<close>
  "latest_release_snapshot t release_id phase =
    (case t of None \<Rightarrow> None
     | Some u \<Rightarrow> last_row (\<lambda>s. (release_id = [] \<or> s_release s = release_id) \<and> (phase = [] \<or> same_text (s_phase s) phase))
         (snapshots u))"

subsection \<open>The snapshot\<close>

definition commit_in :: "pydict option \<Rightarrow> string option" where
  \<comment> \<open>\<^verbatim>\<open>str((evidence or {}).get("git_commit") or "").strip() or None\<close>\<close>
  "commit_in e = (case e of None \<Rightarrow> None | Some d \<Rightarrow> stripped_or_none (dget d ''git_commit''))"

definition release_reasons ::
  "string option list \<Rightarrow> ack_row option \<Rightarrow> int option \<Rightarrow> pydict option \<Rightarrow> string \<Rightarrow> string \<Rightarrow> string list" where
  "release_reasons commits ack mutation_count canary_validation rollback_status runbook_status =
     (if 1 < length (remdups (List.map_filter id commits)) then [''RELEASE_EVIDENCE_COMMIT_MISMATCH''] else [])
   @ (if ack = None then [''OPERATOR_ACK_MISSING_OR_EXPIRED''] else [])
   @ (case mutation_count of None \<Rightarrow> [''CANARY_EVIDENCE_MISSING'']
      | Some n \<Rightarrow> if canary_validation = None then [''CANARY_EVIDENCE_MISSING'']
                   else if 0 < n then [''CANARY_MUTATION_ATTEMPTED''] else [])
   @ (if rollback_status = ''MISSING'' then [''ROLLBACK_EVIDENCE_MISSING'']
      else if rollback_status \<noteq> ''PASS'' then [''ROLLBACK_EVIDENCE_UNVERIFIED''] else [])
   @ (if runbook_status = ''MISSING'' then [''RUNBOOK_EVIDENCE_MISSING'']
      else if runbook_status \<noteq> ''PASS'' then [''RUNBOOK_EVIDENCE_UNVERIFIED''] else [])"

definition release_status :: "string list \<Rightarrow> string" where
  "release_status reasons =
    (if reasons = [] then ''CANARY_READY''
     else if list_ex (\<lambda>r. ends_with ''MISSING'' r \<or> str_contains ''MISSING_OR_EXPIRED'' r) reasons then ''NO_EVIDENCE''
     else ''FAIL'')"

definition dict_val :: "pydict option \<Rightarrow> pyval" where
  "dict_val d = (case d of None \<Rightarrow> VNone | Some e \<Rightarrow> VDict e)"

definition build_release_snapshot ::
  "(string \<Rightarrow> gate_tables option) \<Rightarrow> string \<Rightarrow> string \<Rightarrow> int \<Rightarrow> int \<Rightarrow> ReleaseGateSnapshot py" where
  \<comment> \<open>\<open>view q\<close> is what query \<open>q\<close> can read: the tables, or \<open>None\<close> when it fails\<close>
  "build_release_snapshot view release_id phase now generated =
    (let full_tests = (case latest_release_snapshot (view ''snapshots'') release_id phase of
           None \<Rightarrow> None
         | Some prior \<Rightarrow> (case dget (evidence_of (s_evidence prior)) ''full_tests'' of VDict d \<Rightarrow> Some d | _ \<Rightarrow> None));
         ack = latest_valid_operator_ack (view ''acks'') release_id phase now;
         mutation_count = canary_mutation_attempt_count (view ''attempts'') release_id phase in
     bindE (latest_verified_canary_validation (view ''validations'') release_id phase) (\<lambda>canary_validation.
     bindE (latest_verified_rollback (view ''rollbacks'') release_id phase) (\<lambda>(rollback_status, rollback_evidence).
     bindE (latest_verified_runbook (view ''runbooks'') release_id phase) (\<lambda>(runbook_status, runbook_evidence).
     let commits = [commit_in canary_validation, commit_in rollback_evidence, commit_in runbook_evidence];
         reasons = release_reasons commits ack mutation_count canary_validation rollback_status runbook_status in
     Inr \<lparr>s_release = release_id, s_phase = phase, s_status = release_status reasons, s_generated = generated,
          s_canary_ready = (mutation_count = Some 0 \<and> canary_validation \<noteq> None),
          s_rollback_verified = (rollback_status = ''PASS''), s_runbook_verified = (runbook_status = ''PASS''),
          s_acknowledged = (ack \<noteq> None), s_mutations = mutation_count, s_blocking = reasons,
          s_evidence = Some
            ([(''operator_ack'', dict_val (map_option ack_as_dict ack)),
              (''canary_validation'', dict_val canary_validation),
              (''rollback_status'', VStr rollback_status), (''rollback_evidence'', dict_val rollback_evidence),
              (''runbook_status'', VStr runbook_status), (''runbook_evidence'', dict_val runbook_evidence),
              (''release_evidence_git_commits'',
                VDict (zip [''canary'', ''rollback'', ''runbook''] (map str_opt_val commits)))]
             @ (case full_tests of None \<Rightarrow> [] | Some d \<Rightarrow> [(''full_tests'', VDict d)]))\<rparr>))))"

definition release_gate_passed :: "ReleaseGateSnapshot \<Rightarrow> bool" where
  \<comment> \<open>\<^verbatim>\<open>release_gate_status(...)["passed"]\<close>\<close>
  "release_gate_passed s \<longleftrightarrow> s_status s = ''CANARY_READY''"

subsection \<open>Writing the evidence\<close>

definition persist_release_snapshot :: "gate_tables option \<Rightarrow> ReleaseGateSnapshot \<Rightarrow> gate_tables" where
  "persist_release_snapshot t s =
    (let u = ensure_release_gate_schema t in u\<lparr>snapshots := snapshots u @ [s]\<rparr>)"

definition source_blockers :: "string option \<Rightarrow> pydict \<Rightarrow> pyval list py" where
  "source_blockers commit measured =
    bindE (list_or_empty (dget measured ''rollback_blocking_reasons'')) (\<lambda>given.
      Inr (given @ (if commit \<noteq> None \<and> stripped_or_none (dget measured ''git_commit'') \<noteq> commit
                    then [VStr ''ROLLBACK_SOURCE_COMMIT_MISMATCH''] else [])))"

definition rollback_verified :: "string option \<Rightarrow> pydict \<Rightarrow> pyval list \<Rightarrow> bool py" where
  "rollback_verified commit measured blockers =
     allE_of
       [Inr (commit \<noteq> None), Inr (stripped_or_none (dget measured ''git_commit'') = commit),
        Inr (truthy (dget measured ''rollback_evidence_verified'')),
        Inr (py_upper (text_or_empty (dget measured ''rollback_evidence_status'')) = ''COMPLETE''),
        bindE (int_or_zero (dget measured ''execution_mutation_attempt_count'')) (\<lambda>n. Inr (n = 0)),
        Inr (blockers = [])]"

definition rollback_evidence :: "string option \<Rightarrow> pydict \<Rightarrow> pyval list \<Rightarrow> pydict" where
  "rollback_evidence commit measured blockers =
    (let flag = (\<lambda>k. (k, VBool (truthy (dget measured k)))) in
     [(''verification_contract'', VStr ROLLBACK_VERIFICATION_CONTRACT), (''git_commit'', str_opt_val commit),
      (''source_git_commit'', str_opt_val (stripped_or_none (dget measured ''git_commit''))),
      (''source'', dget measured ''rollback_evidence_source''),
      (''validation_id'', dget measured ''validation_id''), (''recorded_at'', dget measured ''recorded_at''),
      (''age_sec'', dget measured ''rollback_evidence_age_sec''),
      flag ''kill_switch_block_verified'', flag ''no_submit_on_kill_switch_verified'',
      flag ''fail_closed_reconciliation_verified'', flag ''repair_actions_non_mutating_verified'',
      (''execution_mutation_attempt_count'', dget measured ''execution_mutation_attempt_count''),
      (''blocking_reasons'', VList blockers)])"

definition rollback_row_of :: "string option \<Rightarrow> string \<Rightarrow> int \<Rightarrow> pydict \<Rightarrow> string \<Rightarrow> string \<Rightarrow> evidence_row py" where
  "rollback_row_of commit vid ts measured release_id phase =
     bindE (source_blockers commit measured) (\<lambda>blockers.
     bindE (rollback_verified commit measured blockers) (\<lambda>verified.
     Inr \<lparr>e_id = vid, e_release = release_id, e_phase = phase, e_ts = ts,
          e_status = (if verified then ''PASS'' else ''FAIL''),
          e_evidence = Some (rollback_evidence commit measured blockers)\<rparr>))"

definition persist_rollback_verification ::
  "git_runner \<Rightarrow> string option \<Rightarrow> string \<Rightarrow> int \<Rightarrow> pydict \<Rightarrow> gate_tables option \<Rightarrow> string \<Rightarrow> string
   \<Rightarrow> gate_tables option \<times> evidence_row py" where
  \<comment> \<open>\<open>measured\<close> is what \<^verbatim>\<open>latest_persisted_rollback_evidence\<close> returned\<close>
  "persist_rollback_verification git git_commit vid ts measured t release_id phase =
    (case rollback_row_of (release_evidence_git_commit git git_commit) vid ts measured release_id phase of
       Inl e \<Rightarrow> (t, Inl e)
     | Inr row \<Rightarrow>
         let u = ensure_release_gate_schema t in
         (case insert_unique e_id row (rollbacks u) of
            Inl e \<Rightarrow> (Some u, Inl e) | Inr rows \<Rightarrow> (Some (u\<lparr>rollbacks := rows\<rparr>), Inr row)))"

datatype runbook_file =
    Unreadable string
  | Undecodable string string
  | Readable string string
  \<comment> \<open>the class of the error; the error and the raw bytes; the raw bytes and the text\<close>

fun raw_bytes :: "runbook_file \<Rightarrow> string option" where
  "raw_bytes (Unreadable _) = None"
| "raw_bytes (Undecodable _ raw) = Some raw"
| "raw_bytes (Readable raw _) = Some raw"

fun file_content :: "runbook_file \<Rightarrow> string option" where
  "file_content (Readable _ s) = Some s" | "file_content _ = None"

fun file_error :: "runbook_file \<Rightarrow> string option" where
  "file_error (Unreadable c) = Some c" | "file_error (Undecodable c _) = Some c" | "file_error (Readable _ _) = None"

definition missing_markers :: "string option \<Rightarrow> string list" where
  "missing_markers content =
     filter (\<lambda>m. case content of None \<Rightarrow> True | Some s \<Rightarrow> \<not> str_contains m s) RUNBOOK_REQUIRED_MARKERS"

definition runbook_row_of ::
  "(string \<Rightarrow> string) \<Rightarrow> string option \<Rightarrow> string \<Rightarrow> int \<Rightarrow> string \<Rightarrow> runbook_file \<Rightarrow> string \<Rightarrow> string \<Rightarrow> evidence_row" where
  \<comment> \<open>\<open>sha256\<close> is the hex digest of the raw bytes\<close>
  "runbook_row_of sha256 commit eid ts name file release_id phase =
    (let missing = missing_markers (file_content file) in
     \<lparr>e_id = eid, e_release = release_id, e_phase = phase, e_ts = ts,
      e_status = (if raw_bytes file \<noteq> None \<and> file_content file \<noteq> None \<and> missing = [] \<and> commit \<noteq> None
                  then ''PASS'' else ''FAIL''),
      e_evidence = Some
        [(''verification_contract'', VStr RUNBOOK_VERIFICATION_CONTRACT), (''git_commit'', str_opt_val commit),
         (''file_name'', VStr name), (''sha256'', str_opt_val (map_option sha256 (raw_bytes file))),
         (''size_bytes'', case raw_bytes file of None \<Rightarrow> VNone | Some raw \<Rightarrow> VInt (int (length raw))),
         (''required_markers'', VList (map VStr RUNBOOK_REQUIRED_MARKERS)),
         (''missing_markers'', VList (map VStr missing)), (''read_error'', str_opt_val (file_error file))]\<rparr>)"

definition persist_runbook_evidence ::
  "git_runner \<Rightarrow> string option \<Rightarrow> (string \<Rightarrow> string) \<Rightarrow> string \<Rightarrow> int \<Rightarrow> string \<Rightarrow> runbook_file
   \<Rightarrow> gate_tables option \<Rightarrow> string \<Rightarrow> string \<Rightarrow> gate_tables option \<times> evidence_row py" where
  "persist_runbook_evidence git git_commit sha256 eid ts name file t release_id phase =
    (let row = runbook_row_of sha256 (release_evidence_git_commit git git_commit) eid ts name file release_id phase;
         u = ensure_release_gate_schema t in
     case insert_unique e_id row (runbooks u) of
       Inl e \<Rightarrow> (Some u, Inl e) | Inr rows \<Rightarrow> (Some (u\<lparr>runbooks := rows\<rparr>), Inr row))"

subsection \<open>Evidence of a campaign's release\<close>

text \<open>
  \<^verbatim>\<open>release_canary_evidence.py\<close> and \<^verbatim>\<open>release_safety_evidence.py\<close>: the release of a campaign is
  looked up and the checkout must be the campaign's commit before anything is written.
\<close>

definition persist_campaign_canary_evidence ::
  "(string \<Rightarrow> (string \<times> string) option) \<Rightarrow> git_runner \<Rightarrow> string \<Rightarrow> string list \<Rightarrow> string \<Rightarrow> int \<Rightarrow> gate_tables option
   \<Rightarrow> string \<Rightarrow> string \<Rightarrow> gate_tables option \<times> (canary_row \<times> bool) py" where
  \<comment> \<open>\<open>campaigns\<close> maps a campaign to its release and git commit\<close>
  "persist_campaign_canary_evidence campaigns git validation_release ids eid ts t campaign_id phase =
    (case campaigns campaign_id of
       None \<Rightarrow> (t, Inl (ValueError ''CAMPAIGN_NOT_FOUND''))
     | Some (release_id, commit) \<Rightarrow>
         (case require_campaign_checkout git commit of
            Inl e \<Rightarrow> (t, Inl e)
          | Inr _ \<Rightarrow> run_canary_mutation_trap_validation git (Some commit) validation_release ids eid ts t release_id phase))"

definition require_tracked_repository_file :: "git_runner \<Rightarrow> string option \<Rightarrow> string py" where
  \<comment> \<open>the argument is the path relative to the repository root, when the file lies under it\<close>
  "require_tracked_repository_file git relative =
    (case relative of
       None \<Rightarrow> Inl (ValueError ''RELEASE_EVIDENCE_FILE_OUTSIDE_REPOSITORY'')
     | Some path \<Rightarrow>
         (case git [''ls-files'', ''--error-unmatch'', ''--'', path] of
            Inl _ \<Rightarrow> Inl (ValueError ''RELEASE_EVIDENCE_FILE_NOT_TRACKED'')
          | Inr tracked \<Rightarrow> if py_strip tracked = [] then Inl (ValueError ''RELEASE_EVIDENCE_FILE_NOT_TRACKED'')
                           else Inr path))"

definition runbook_refusal :: "exc \<Rightarrow> exc" where
  "runbook_refusal e =
    (if e = ValueError ''RELEASE_EVIDENCE_FILE_OUTSIDE_REPOSITORY'' then ValueError ''RUNBOOK_OUTSIDE_CAMPAIGN_REPOSITORY''
     else if e = ValueError ''RELEASE_EVIDENCE_FILE_NOT_TRACKED'' then ValueError ''RUNBOOK_NOT_TRACKED'' else e)"

record safety_inputs =
  si_relative :: "string option"
  si_name :: string
  si_file :: runbook_file
  si_sha256 :: "string \<Rightarrow> string"
  si_measured :: pydict
  si_rollback_id :: string
  si_runbook_id :: string
  si_ts :: int

definition persist_campaign_release_safety_evidence ::
  "(string \<Rightarrow> (string \<times> string) option) \<Rightarrow> git_runner \<Rightarrow> safety_inputs \<Rightarrow> gate_tables option \<Rightarrow> string \<Rightarrow> string
   \<Rightarrow> gate_tables option \<times> (ReleaseGateSnapshot \<times> bool) py" where
  \<comment> \<open>the snapshot saved, and whether the reported status is PASS\<close>
  "persist_campaign_release_safety_evidence campaigns git i t campaign_id phase =
    (case campaigns campaign_id of
       None \<Rightarrow> (t, Inl (ValueError ''CAMPAIGN_NOT_FOUND''))
     | Some (release_id, commit) \<Rightarrow>
     (case require_campaign_checkout git commit of Inl e \<Rightarrow> (t, Inl e)
     | Inr _ \<Rightarrow>
     (case require_tracked_repository_file git (si_relative i) of Inl e \<Rightarrow> (t, Inl (runbook_refusal e))
     | Inr _ \<Rightarrow>
     (case persist_rollback_verification git (Some commit) (si_rollback_id i) (si_ts i) (si_measured i) t release_id phase of
        (t1, Inl e) \<Rightarrow> (t1, Inl e)
      | (t1, Inr rollback) \<Rightarrow>
     (case persist_runbook_evidence git (Some commit) (si_sha256 i) (si_runbook_id i) (si_ts i) (si_name i) (si_file i) t1 release_id phase of
        (t2, Inl e) \<Rightarrow> (t2, Inl e)
      | (t2, Inr runbook) \<Rightarrow>
     (case build_release_snapshot (\<lambda>_. t2) release_id phase (si_ts i) (si_ts i) of
        Inl e \<Rightarrow> (t2, Inl e)
      | Inr snap \<Rightarrow> (Some (persist_release_snapshot t2 snap),
          Inr (snap, py_upper (e_status rollback) = ''PASS'' \<and> py_upper (e_status runbook) = ''PASS''))))))))"

subsection \<open>What a passed gate shows\<close>

definition dict_ok :: "pydict option \<Rightarrow> bool" where
  \<comment> \<open>a dictionary has each key once\<close>
  "dict_ok j \<longleftrightarrow> distinct (map fst (evidence_of j))"

definition tables_ok :: "gate_tables \<Rightarrow> bool" where
  "tables_ok u \<longleftrightarrow> list_all (dict_ok \<circ> c_evidence) (canaries u) \<and> list_all (dict_ok \<circ> e_evidence) (rollbacks u)
     \<and> list_all (dict_ok \<circ> e_evidence) (runbooks u)"

definition recorded_commit :: "pydict option \<Rightarrow> string option" where
  \<comment> \<open>the commit a row was recorded for\<close>
  "recorded_commit j = stripped_or_none (dget (evidence_of j) ''git_commit'')"

lemma map_of_dupdate: "distinct (map fst e) \<Longrightarrow> map_of (dupdate d e) = map_of d ++ map_of e"
proof (induction e arbitrary: d)
  case Nil
  then show ?case by (simp add: dupdate_def)
next
  case (Cons p e)
  obtain k v where p: "p = (k, v)" by (cases p)
  have k: "map_of e k = None" using Cons.prems p by (simp add: map_of_eq_None_iff)
  have "map_of (dupdate d (p # e)) = map_of (dset k v d) ++ map_of e"
    using Cons p by (simp add: dupdate_def)
  also have "\<dots> = map_of d ++ map_of (p # e)"
    using k by (auto simp: p map_of_dset map_add_def fun_eq_iff split: option.splits)
  finally show ?case .
qed

lemma commit_in_payload:
  "dict_ok j \<Longrightarrow> map_of pre ''git_commit'' = None
   \<Longrightarrow> commit_in (Some (dupdate pre (evidence_of j))) = recorded_commit j"
  by (auto simp: commit_in_def recorded_commit_def dget_def dget_or_def dict_ok_def map_of_dupdate map_add_def
      split: option.splits)

lemma release_reasons_none:
  assumes "release_reasons [x, y, z] ack n v rb run = []"
  shows "ack \<noteq> None" "n \<noteq> None" "v \<noteq> None" "\<And>k. n = Some k \<Longrightarrow> \<not> 0 < k" "rb = ''PASS''" "run = ''PASS''"
    "x \<noteq> None \<Longrightarrow> y \<noteq> None \<Longrightarrow> z \<noteq> None \<Longrightarrow> x = y \<and> y = z"
  using assms by (auto simp: release_reasons_def List.map_filter_simps split: if_splits option.splits)

lemma passed_reasons: "release_status reasons = ''CANARY_READY'' \<longleftrightarrow> reasons = []"
  by (auto simp: release_status_def)

lemma canary_reader_Some:
  assumes "latest_verified_canary_validation (Some u) rel ph = Inr (Some d)"
  obtains row where "row \<in> set (canaries u)" "canary_validation_row rel ph row" "canary_row_valid row = Inr True"
    "d = dupdate [(''event_id'', VStr (c_id row)), (''event_ts'', VStr (utc_text (c_ts row))),
         (''source'', VStr CANARY_VALIDATION_SOURCE), (''verification_contract'', VStr CANARY_VALIDATION_CONTRACT)]
         (evidence_of (c_evidence row))"
  using assms
  by (auto simp: latest_verified_canary_validation_def bindE_Inr_iff dest!: last_row_Some split: option.splits if_splits)

lemma latest_verified_PASS:
  assumes "latest_verified judge names (Some rows) rel ph = Inr (''PASS'', d)"
  obtains row where "row \<in> set rows" "scoped rel ph (e_release row) (e_phase row)"
    "judge (e_status row) (evidence_of (e_evidence row)) = Inr True"
    "d = Some (dupdate [(fst names, VStr (e_id row)), (snd names, VStr (utc_text (e_ts row)))] (evidence_of (e_evidence row)))"
  using assms
  by (auto simp: latest_verified_def bindE_Inr_iff Let_def dest!: last_row_Some split: option.splits if_splits)

lemma ack_reader_Some:
  assumes "latest_valid_operator_ack (Some u) rel ph now = Some r"
  shows "r \<in> set (acks u)" "a_release r = rel" "same_text (a_phase r) ph" "row_ack_valid rel now r"
  using assms by (auto simp: latest_valid_operator_ack_def dest!: last_row_Some split: option.splits if_splits)

lemma row_ack_valid_iff:
  "row_ack_valid rel now r \<longleftrightarrow> str_contains ACK_RISK_PHRASE (a_text r) \<and> str_contains rel (a_text r)
     \<and> a_at r < a_until r \<and> a_until r - a_at r \<le> (240 * 60 + 1) * 1000000 \<and> now < a_until r"
  by (auto simp: row_ack_valid_def operator_ack_semantics_def MAX_OPERATOR_ACK_TTL_MINUTES_def)

lemma snapshot_parts:
  assumes "build_release_snapshot view rel ph now gen = Inr s" "release_gate_passed s"
  obtains v rb run a where
    "latest_verified_canary_validation (view ''validations'') rel ph = Inr (Some v)"
    "latest_verified_rollback (view ''rollbacks'') rel ph = Inr (''PASS'', rb)"
    "latest_verified_runbook (view ''runbooks'') rel ph = Inr (''PASS'', run)"
    "latest_valid_operator_ack (view ''acks'') rel ph now = Some a"
    "canary_mutation_attempt_count (view ''attempts'') rel ph = Some 0"
    "commit_in (Some v) \<noteq> None \<and> commit_in rb \<noteq> None \<and> commit_in run \<noteq> None
       \<longrightarrow> commit_in (Some v) = commit_in rb \<and> commit_in rb = commit_in run"
proof -
  obtain v rbs rb runs run where p:
    "latest_verified_canary_validation (view ''validations'') rel ph = Inr v"
    "latest_verified_rollback (view ''rollbacks'') rel ph = Inr (rbs, rb)"
    "latest_verified_runbook (view ''runbooks'') rel ph = Inr (runs, run)"
    "s_status s = release_status (release_reasons [commit_in v, commit_in rb, commit_in run]
       (latest_valid_operator_ack (view ''acks'') rel ph now)
       (canary_mutation_attempt_count (view ''attempts'') rel ph) v rbs runs)"
    using assms(1) unfolding build_release_snapshot_def Let_def by (fastforce simp: bindE_Inr_iff)
  have none: "release_reasons [commit_in v, commit_in rb, commit_in run]
       (latest_valid_operator_ack (view ''acks'') rel ph now)
       (canary_mutation_attempt_count (view ''attempts'') rel ph) v rbs runs = []"
    using assms(2) p(4) by (simp add: release_gate_passed_def passed_reasons)
  note r = release_reasons_none [OF none]
  obtain n where n: "canary_mutation_attempt_count (view ''attempts'') rel ph = Some n" using r(2) by auto
  have "0 \<le> n" using n by (auto simp: canary_mutation_attempt_count_def split: option.splits)
  then have "n = 0" using r(4) [OF n] by simp
  then show thesis using that p(1-3) n r by fast
qed

lemma valid_rows_have_commit:
  "canary_row_valid row = Inr True \<Longrightarrow> recorded_commit (c_evidence row) \<noteq> None"
  "rollback_verification_evidence_valid st (evidence_of j) = Inr True \<Longrightarrow> recorded_commit j \<noteq> None"
  "runbook_verification_evidence_valid st (evidence_of j) = Inr True \<Longrightarrow> recorded_commit j \<noteq> None"
  by (simp_all add: canary_row_valid_def rollback_verification_evidence_valid_def
      runbook_verification_evidence_valid_def recorded_commit_def stripped_or_none_def Let_def)

definition readable :: "(string \<Rightarrow> bool) \<Rightarrow> gate_tables option \<Rightarrow> string \<Rightarrow> gate_tables option" where
  \<comment> \<open>what a query can read when \<open>up\<close> says which queries succeed\<close>
  "readable up t q = (if up q then t else None)"

lemma readable_Some: "readable up t q = Some u \<longleftrightarrow> up q \<and> t = Some u"
  by (simp add: readable_def)

lemma reader_None [simp]:
  "latest_verified_canary_validation None rel ph = Inr None"
  "latest_verified_rollback None rel ph = Inr (''MISSING'', None)"
  "latest_verified_runbook None rel ph = Inr (''MISSING'', None)"
  "latest_valid_operator_ack None rel ph now = None"
  "canary_mutation_attempt_count None rel ph = None"
  by (simp_all add: latest_verified_canary_validation_def latest_verified_rollback_def latest_verified_runbook_def
      latest_verified_def latest_valid_operator_ack_def canary_mutation_attempt_count_def)

lemma no_attempts: "canary_mutation_attempt_count (Some u) rel ph = Some 0 \<longleftrightarrow> (\<forall>r \<in> set (canaries u). \<not> attempt_row rel ph r)"
  by (simp add: canary_mutation_attempt_count_def filter_empty_conv)

lemma passed_reads:
  assumes "build_release_snapshot (readable up (Some u)) rel ph now gen = Inr s" "release_gate_passed s"
  obtains v rb run a where
    "latest_verified_canary_validation (Some u) rel ph = Inr (Some v)"
    "latest_verified_rollback (Some u) rel ph = Inr (''PASS'', rb)"
    "latest_verified_runbook (Some u) rel ph = Inr (''PASS'', run)"
    "latest_valid_operator_ack (Some u) rel ph now = Some a"
    "\<forall>r \<in> set (canaries u). \<not> attempt_row rel ph r"
    "commit_in (Some v) \<noteq> None \<and> commit_in rb \<noteq> None \<and> commit_in run \<noteq> None
       \<longrightarrow> commit_in (Some v) = commit_in rb \<and> commit_in rb = commit_in run"
proof (rule snapshot_parts [OF assms])
  fix v rb run a
  assume r: "latest_verified_canary_validation (readable up (Some u) ''validations'') rel ph = Inr (Some v)"
    "latest_verified_rollback (readable up (Some u) ''rollbacks'') rel ph = Inr (''PASS'', rb)"
    "latest_verified_runbook (readable up (Some u) ''runbooks'') rel ph = Inr (''PASS'', run)"
    "latest_valid_operator_ack (readable up (Some u) ''acks'') rel ph now = Some a"
    "canary_mutation_attempt_count (readable up (Some u) ''attempts'') rel ph = Some 0"
    and same: "commit_in (Some v) \<noteq> None \<and> commit_in rb \<noteq> None \<and> commit_in run \<noteq> None
       \<longrightarrow> commit_in (Some v) = commit_in rb \<and> commit_in rb = commit_in run"
  have "up q" if "q \<in> {''validations'', ''rollbacks'', ''runbooks'', ''acks'', ''attempts''}" for q
    using that r by (auto simp: readable_def split: if_splits)
  then show thesis using r same by (intro that [of v rb run a]) (simp_all add: readable_def no_attempts [symmetric])
qed

text \<open>C5: a release gate that passes rests on evidence for one git commit: no mutation attempt
  was ever recorded for the release; a measured run of the mutation trap, a rollback
  verification and a runbook are on record and valid, all for that commit; and an operator
  acknowledged the risk and the release in words, for at most four hours and a second, and
  the acknowledgement has not expired. A query that fails never lets the gate pass.
\<close>
theorem passed_gate_is_evidenced:
  assumes "build_release_snapshot (readable up (Some u)) rel ph now gen = Inr s" "release_gate_passed s"
    and "tables_ok u"
  shows "\<exists>commit.
      (\<exists>c \<in> set (canaries u). canary_validation_row rel ph c \<and> canary_row_valid c = Inr True
         \<and> recorded_commit (c_evidence c) = Some commit) \<and>
      (\<exists>b \<in> set (rollbacks u). scoped rel ph (e_release b) (e_phase b) \<and> recorded_commit (e_evidence b) = Some commit
         \<and> rollback_verification_evidence_valid (e_status b) (evidence_of (e_evidence b)) = Inr True) \<and>
      (\<exists>k \<in> set (runbooks u). scoped rel ph (e_release k) (e_phase k) \<and> recorded_commit (e_evidence k) = Some commit
         \<and> runbook_verification_evidence_valid (e_status k) (evidence_of (e_evidence k)) = Inr True) \<and>
      (\<forall>c \<in> set (canaries u). \<not> attempt_row rel ph c) \<and>
      (\<exists>a \<in> set (acks u). a_release a = rel \<and> str_contains ACK_RISK_PHRASE (a_text a) \<and> str_contains rel (a_text a)
         \<and> now < a_until a \<and> a_until a \<le> a_at a + (240 * 60 + 1) * 1000000)"
proof -
  obtain v rb run a where p:
    "latest_verified_canary_validation (Some u) rel ph = Inr (Some v)"
    "latest_verified_rollback (Some u) rel ph = Inr (''PASS'', rb)"
    "latest_verified_runbook (Some u) rel ph = Inr (''PASS'', run)"
    "latest_valid_operator_ack (Some u) rel ph now = Some a"
    "\<forall>r \<in> set (canaries u). \<not> attempt_row rel ph r"
    and same: "commit_in (Some v) \<noteq> None \<and> commit_in rb \<noteq> None \<and> commit_in run \<noteq> None
       \<longrightarrow> commit_in (Some v) = commit_in rb \<and> commit_in rb = commit_in run"
    by (rule passed_reads [OF assms(1,2)])
  obtain c where c: "c \<in> set (canaries u)" "canary_validation_row rel ph c" "canary_row_valid c = Inr True"
    and v: "v = dupdate [(''event_id'', VStr (c_id c)), (''event_ts'', VStr (utc_text (c_ts c))),
         (''source'', VStr CANARY_VALIDATION_SOURCE), (''verification_contract'', VStr CANARY_VALIDATION_CONTRACT)]
         (evidence_of (c_evidence c))"
    by (rule canary_reader_Some [OF p(1)])
  obtain b where b: "b \<in> set (rollbacks u)" "scoped rel ph (e_release b) (e_phase b)"
      "rollback_verification_evidence_valid (e_status b) (evidence_of (e_evidence b)) = Inr True"
    and rb: "rb = Some (dupdate [(''verification_id'', VStr (e_id b)), (''verified_at'', VStr (utc_text (e_ts b)))]
         (evidence_of (e_evidence b)))"
    using latest_verified_PASS [OF p(2) [unfolded latest_verified_rollback_def option.map]] by auto
  obtain k where k: "k \<in> set (runbooks u)" "scoped rel ph (e_release k) (e_phase k)"
      "runbook_verification_evidence_valid (e_status k) (evidence_of (e_evidence k)) = Inr True"
    and run: "run = Some (dupdate [(''evidence_id'', VStr (e_id k)), (''recorded_at'', VStr (utc_text (e_ts k)))]
         (evidence_of (e_evidence k)))"
    using latest_verified_PASS [OF p(3) [unfolded latest_verified_runbook_def option.map]] by auto
  have ok: "dict_ok (c_evidence c)" "dict_ok (e_evidence b)" "dict_ok (e_evidence k)"
    using assms(3) c(1) b(1) k(1) by (auto simp: tables_ok_def list_all_iff)
  have ci: "commit_in (Some v) = recorded_commit (c_evidence c)" "commit_in rb = recorded_commit (e_evidence b)"
      "commit_in run = recorded_commit (e_evidence k)"
    unfolding v rb run by (rule commit_in_payload; simp add: ok)+
  obtain commit where commit: "recorded_commit (c_evidence c) = Some commit"
    using valid_rows_have_commit(1) [OF c(3)] by auto
  have "recorded_commit (e_evidence b) = Some commit" "recorded_commit (e_evidence k) = Some commit"
    using same valid_rows_have_commit(2) [OF b(3)] valid_rows_have_commit(3) [OF k(3)] commit unfolding ci by auto
  then show ?thesis
    using c b k commit p(5) ack_reader_Some [OF p(4)]
    by (intro exI [of _ commit] conjI bexI [of _ c] bexI [of _ b] bexI [of _ k] bexI [of _ a])
       (auto simp: row_ack_valid_iff)
qed

subsection \<open>Runs of operations\<close>

datatype release_op =
    SaveSnapshot ReleaseGateSnapshot
  | Acknowledge string string string string int pydict string int
  | CanaryEvent canary_row
  | TrapCall string string string string int
  | TrapValidation git_runner "string option" string "string list" string int string string
  | RollbackCheck git_runner "string option" string int pydict string string
  | RunbookCheck git_runner "string option" "string \<Rightarrow> string" string int string runbook_file string string

fun release_step :: "gate_tables option \<Rightarrow> release_op \<Rightarrow> gate_tables option" where
  "release_step t (SaveSnapshot s) = Some (persist_release_snapshot t s)"
| "release_step t (Acknowledge rel ph txt operator ttl ev aid now) =
     Some (fst (persist_operator_ack t rel ph txt operator ttl ev aid now))"
| "release_step t (CanaryEvent row) = fst (persist_canary_event t False row)"
| "release_step t (TrapCall rel ph name eid ts) = fst (trap_call t rel ph name eid ts)"
| "release_step t (TrapValidation git commit vrel ids eid ts rel ph) =
     fst (run_canary_mutation_trap_validation git commit vrel ids eid ts t rel ph)"
| "release_step t (RollbackCheck git commit vid ts measured rel ph) =
     fst (persist_rollback_verification git commit vid ts measured t rel ph)"
| "release_step t (RunbookCheck git commit sha eid ts name file rel ph) =
     fst (persist_runbook_evidence git commit sha eid ts name file t rel ph)"

definition canary_events :: "gate_tables option \<Rightarrow> canary_row list" where
  "canary_events t = canaries (ensure_release_gate_schema t)"

lemma ensure_simps [simp]:
  "ensure_release_gate_schema None = empty_tables" "ensure_release_gate_schema (Some u) = u"
  by (simp_all add: ensure_release_gate_schema_def)

lemma canary_events_Some [simp]: "canary_events (Some u) = canaries u"
  by (simp add: canary_events_def)

lemma canary_events_None [simp]: "canary_events None = []"
  by (simp add: canary_events_def empty_tables_def)

lemma persist_canary_event_Inl:
  "persist_canary_event t token row = (t1, Inl e) \<Longrightarrow> canary_events t1 = canary_events t"
  by (auto simp: persist_canary_event_def insert_canary_def canary_events_def split: if_splits sum.splits)

lemma persist_canary_event_Inr:
  "persist_canary_event t token row = (t1, Inr r) \<Longrightarrow> r = row \<and> canary_events t1 = canary_events t @ [row]
     \<and> (c_type row = CANARY_VALIDATION_EVENT_TYPE \<longrightarrow> token)"
  by (auto simp: persist_canary_event_def insert_canary_def canary_events_def insert_unique_Inr split: if_splits sum.splits)

lemma trap_call_events:
  "canary_events (fst (trap_call t rel ph name eid ts)) = canary_events t
   \<or> canary_events (fst (trap_call t rel ph name eid ts)) = canary_events t @ [trap_row rel ph name eid ts]"
  by (cases "persist_canary_event t False (trap_row rel ph name eid ts)")
     (auto simp: trap_call_def dest: persist_canary_event_Inl persist_canary_event_Inr split: sum.splits)

lemma trap_call_blocked:
  assumes "trap_call t rel ph name eid ts = (t1, Inl (RuntimeError ''CANARY_MUTATION_BLOCKED''))"
  shows "trap_row rel ph name eid ts \<in> set (canary_events t1)"
proof -
  obtain t2 r where p: "persist_canary_event t False (trap_row rel ph name eid ts) = (t2, r)" by fastforce
  show ?thesis
  proof (cases r)
    case (Inl e)
    have "e \<noteq> RuntimeError ''CANARY_MUTATION_BLOCKED''"
      using p Inl by (auto simp: persist_canary_event_def insert_canary_def insert_unique_def split: if_splits sum.splits)
    then show ?thesis using assms p Inl by (auto simp: trap_call_def split: if_splits)
  next
    case (Inr row)
    then show ?thesis using assms p persist_canary_event_Inr [of t False _ t2 row] by (auto simp: trap_call_def split: if_splits)
  qed
qed

definition validation_event :: "bool \<times> pydict \<Rightarrow> string \<Rightarrow> string \<Rightarrow> string \<Rightarrow> int \<Rightarrow> canary_row" where
  "validation_event out rel ph eid ts =
    \<lparr>c_id = eid, c_release = rel, c_phase = ph,
     c_type = (if fst out then CANARY_VALIDATION_EVENT_TYPE else ''CANARY_VALIDATION_FAIL''), c_ts = ts,
     c_shadow = True, c_canary = True, c_attempted = False, c_blocked = True, c_evidence = Some (snd out)\<rparr>"

lemma trap_validation_events:
  assumes "run_canary_mutation_trap_validation git commit vrel ids eid ts t rel ph = (t1, r)"
  defines "out \<equiv> validation_outcome (release_evidence_git_commit git commit) vrel ph ts ids"
  shows "canary_events t1 = canary_events t \<or> canary_events t1 = canary_events t @ [validation_event out rel ph eid ts]"
proof -
  obtain passed evidence where o: "out = (passed, evidence)" by (cases out)
  obtain t2 r2 where p: "persist_canary_event t passed (validation_event out rel ph eid ts) = (t2, r2)" by fastforce
  have "t1 = t2"
    using assms(1) p o unfolding run_canary_mutation_trap_validation_def out_def
    by (auto simp: validation_event_def split: sum.splits)
  then show ?thesis
    using p by (cases r2) (auto dest: persist_canary_event_Inl persist_canary_event_Inr)
qed

lemma other_steps_keep_events [simp]:
  "canaries (persist_release_snapshot t s) = canary_events t"
  "canaries (fst (persist_operator_ack t rel ph txt operator ttl ev aid now)) = canary_events t"
  "canary_events (fst (persist_rollback_verification git commit vid ts measured t rel ph)) = canary_events t"
  "canary_events (fst (persist_runbook_evidence git commit sha eid ts name file t rel ph)) = canary_events t"
  by (auto simp: persist_release_snapshot_def persist_operator_ack_def persist_rollback_verification_def
      persist_runbook_evidence_def canary_events_def Let_def split: sum.splits prod.splits)

lemma step_event:
  "canary_events (release_step t x) = canary_events t \<or>
   (\<exists>row. canary_events (release_step t x) = canary_events t @ [row] \<and>
     (c_type row = CANARY_VALIDATION_EVENT_TYPE \<longrightarrow>
        (\<exists>git commit vrel ids rel ph eid ts.
           row = validation_event (validation_outcome (release_evidence_git_commit git commit) vrel ph ts ids) rel ph eid ts
           \<and> fst (validation_outcome (release_evidence_git_commit git commit) vrel ph ts ids))))"
proof (cases x)
  case (CanaryEvent row)
  obtain t1 r where p: "persist_canary_event t False row = (t1, r)" by fastforce
  then show ?thesis using CanaryEvent
    by (cases r) (auto dest: persist_canary_event_Inl persist_canary_event_Inr)
next
  case (TrapCall rel ph name eid ts)
  have "c_type (trap_row rel ph name eid ts) \<noteq> CANARY_VALIDATION_EVENT_TYPE"
    by (simp add: trap_row_def CANARY_VALIDATION_EVENT_TYPE_def)
  then show ?thesis using trap_call_events [of t rel ph name eid ts] TrapCall by auto
next
  case (TrapValidation git commit vrel ids eid ts rel ph)
  define out where "out = validation_outcome (release_evidence_git_commit git commit) vrel ph ts ids"
  have c: "canary_events (release_step t x) = canary_events t
      \<or> canary_events (release_step t x) = canary_events t @ [validation_event out rel ph eid ts]"
    using trap_validation_events [of git commit vrel ids eid ts t rel ph] TrapValidation
    unfolding out_def by (metis prod.collapse release_step.simps(5))
  have "c_type (validation_event out rel ph eid ts) = CANARY_VALIDATION_EVENT_TYPE \<longrightarrow> fst out"
    by (auto simp: validation_event_def CANARY_VALIDATION_EVENT_TYPE_def)
  then show ?thesis using c unfolding out_def by blast
qed simp_all

interpretation canary_log: append_only release_step canary_events
proof unfold_locales
  fix t x
  show "\<exists>es. canary_events (release_step t x) = canary_events t @ es"
    using step_event [of t x] by (elim disjE exE conjE) auto
qed

lemma attempt_blocks_gate:
  assumes "r \<in> set (canary_events t)" "attempt_row rel ph r"
    and "build_release_snapshot (readable up t) rel ph now gen = Inr s"
  shows "\<not> release_gate_passed s"
proof
  assume g: "release_gate_passed s"
  obtain u where u: "t = Some u" using assms(1) by (cases t) auto
  have "\<forall>r \<in> set (canaries u). \<not> attempt_row rel ph r"
    using passed_reads [of up u rel ph now gen s] assms(3) g u by blast
  then show False using assms(1,2) u by auto
qed

text \<open>C6: a mutation caught by the trap disqualifies its release for good. Once the adapter has
  answered a call with \<^verbatim>\<open>CANARY_MUTATION_BLOCKED\<close>, no run of later operations (fresh
  validations, acknowledgements and evidence of any kind included) makes the gate pass.
\<close>
theorem attempted_mutation_disqualifies:
  assumes "trap_call t rel ph name eid ts = (t1, Inl (RuntimeError ''CANARY_MUTATION_BLOCKED''))"
    and "build_release_snapshot (readable up (foldl release_step t1 later)) rel ph now gen = Inr s"
  shows "\<not> release_gate_passed s"
proof -
  have "trap_row rel ph name eid ts \<in> set (canary_events (foldl release_step t1 later))"
    by (rule canary_log.logged_stays [OF trap_call_blocked [OF assms(1)]])
  moreover have "attempt_row rel ph (trap_row rel ph name eid ts)"
    by (simp add: attempt_row_def trap_row_def same_text_def)
  ultimately show ?thesis using assms(2) by (rule attempt_blocks_gate)
qed

subsection \<open>Stored evidence can always be judged\<close>

lemma text_or_empty_simps [simp]:
  "text_or_empty (VStr s) = s" "text_or_empty VNone = []"
  by (simp_all add: text_or_empty_def)

lemma list_or_empty_VList [simp]: "list_or_empty (VList xs) = Inr xs" "list_or_empty VNone = Inr []"
  by (simp_all add: list_or_empty_def py_or_def)

lemma int_or_zero_simps [simp]: "int_or_zero (VInt n) = Inr n" "int_or_zero VNone = Inr 0"
  by (simp_all add: int_or_zero_def py_or_def)

lemma py_eq_list_strs [simp]: "py_eq_list (map VStr xs) (map VStr ys) \<longleftrightarrow> xs = ys"
proof (induction xs arbitrary: ys)
  case Nil
  then show ?case by (cases ys) auto
next
  case (Cons x xs)
  then show ?case by (cases ys) auto
qed

lemma release_commit_stripped: "release_evidence_git_commit git commit = Some c \<Longrightarrow> py_strip c = c \<and> c \<noteq> []"
  by (auto simp: release_evidence_git_commit_def Let_def split: if_splits option.splits)

lemma measured_validation_valid:
  assumes "fst (validation_outcome commit vrel ph ts ids)" "\<And>c. commit = Some c \<Longrightarrow> py_strip c \<noteq> []"
  shows "canary_row_valid (validation_event (validation_outcome commit vrel ph ts ids) rel ph eid ts) = Inr True"
proof -
  obtain isolated results where p: "probe_actions (Some empty_tables) vrel ph ts (zip CANARY_VALIDATION_ACTIONS ids) = (isolated, results)"
    by fastforce
  have s: "py_upper ''PASS'' = ''PASS''" by code_simp
  show ?thesis
    using assms
    unfolding validation_outcome_def canary_row_valid_def allE_True validation_event_def Let_def p prod.case
    by (auto simp: s evidence_of_def list_is_def count_is_def str_opt_val_def split: option.splits)
qed

definition judged :: "(string \<Rightarrow> pydict \<Rightarrow> bool py) \<Rightarrow> evidence_row \<Rightarrow> bool" where
  "judged judge r \<longleftrightarrow> (case judge (e_status r) (evidence_of (e_evidence r)) of Inl _ \<Rightarrow> False | Inr _ \<Rightarrow> True)"

lemma allE_Inl_cases: "(case allE_of as of Inl _ \<Rightarrow> False | Inr _ \<Rightarrow> True) \<longleftrightarrow> (\<exists>b. allE_of as = Inr b)"
  by (cases "allE_of as") auto

lemma allE_total: "(\<And>a. a \<in> set as \<Longrightarrow> \<exists>b. a = Inr b) \<Longrightarrow> \<exists>b. allE_of as = Inr b"
proof (induction as)
  case (Cons a as)
  then obtain b where "a = Inr b" by auto
  moreover obtain c where "allE_of as = Inr c" using Cons by auto
  ultimately have "allE_of (a # as) = Inr (b \<and> c)" by (simp add: andE_def)
  then show ?case by blast
qed (rule exI [of _ True], simp)

lemma allE_append_stop: "allE_of as = Inr False \<Longrightarrow> allE_of (as @ bs) = Inr False"
  by (induction as) (auto simp: andE_def bindE_Inr_iff split: if_splits)

lemma runbook_row_judged: "judged runbook_verification_evidence_valid (runbook_row_of sha commit eid ts name file rel ph)"
  unfolding judged_def runbook_verification_evidence_valid_def runbook_row_of_def Let_def allE_Inl_cases
  by (rule allE_total) (auto simp: evidence_of_def list_is_def split: option.splits)

lemma rollback_row_judged:
  assumes "rollback_row_of commit vid ts measured rel ph = Inr row"
  shows "judged rollback_verification_evidence_valid row"
proof -
  obtain blockers verified where v: "rollback_verified commit measured blockers = Inr verified"
    and row: "row = \<lparr>e_id = vid, e_release = rel, e_phase = ph, e_ts = ts,
          e_status = (if verified then ''PASS'' else ''FAIL''),
          e_evidence = Some (rollback_evidence commit measured blockers)\<rparr>"
    using assms by (auto simp: rollback_row_of_def bindE_Inr_iff)
  have s: "py_upper ''FAIL'' = ''FAIL''" by code_simp
  show ?thesis
  proof (cases verified)
    case False
    then show ?thesis by (simp add: row judged_def rollback_verification_evidence_valid_def andE_def s)
  next
    case True
    then have "int_or_zero (dget measured ''execution_mutation_attempt_count'') = Inr 0" "blockers = []"
      using v by (auto simp: rollback_verified_def bindE_Inr_iff)
    then have "count_is (rollback_evidence commit measured blockers) ''execution_mutation_attempt_count'' 0 = Inr True"
      "list_is (rollback_evidence commit measured blockers) ''blocking_reasons'' [] = Inr True"
      by (simp_all add: count_is_def list_is_def rollback_evidence_def Let_def)
    then show ?thesis
      unfolding judged_def rollback_verification_evidence_valid_def allE_Inl_cases row
      by (intro allE_total) (auto simp: evidence_of_def)
  qed
qed

lemma sub_tables:
  "rollbacks (ensure_release_gate_schema t) = (case t of None \<Rightarrow> [] | Some u \<Rightarrow> rollbacks u)"
  "runbooks (ensure_release_gate_schema t) = (case t of None \<Rightarrow> [] | Some u \<Rightarrow> runbooks u)"
  by (simp_all add: empty_tables_def split: option.split)

definition rollback_rows :: "gate_tables option \<Rightarrow> evidence_row list" where
  "rollback_rows t = rollbacks (ensure_release_gate_schema t)"

definition runbook_rows :: "gate_tables option \<Rightarrow> evidence_row list" where
  "runbook_rows t = runbooks (ensure_release_gate_schema t)"

lemma evidence_rows_of_canary_writers:
  "rollback_rows (fst (persist_canary_event t token row)) = rollback_rows t"
  "runbook_rows (fst (persist_canary_event t token row)) = runbook_rows t"
  by (auto simp: persist_canary_event_def insert_canary_def rollback_rows_def runbook_rows_def split: sum.split)

lemma fst_trap_call:
  "fst (trap_call t rel ph name eid ts) = t
   \<or> fst (trap_call t rel ph name eid ts) = fst (persist_canary_event t False (trap_row rel ph name eid ts))"
  by (auto simp: trap_call_def split: prod.splits sum.splits)

lemma fst_trap_validation:
  "\<exists>token row. fst (run_canary_mutation_trap_validation git commit vrel ids eid ts t rel ph) = fst (persist_canary_event t token row)"
  by (cases "validation_outcome (release_evidence_git_commit git commit) vrel ph ts ids")
     (auto simp: run_canary_mutation_trap_validation_def split: prod.splits sum.splits, (metis fst_conv)+)

lemmas evidence_rows_unfold = rollback_rows_def runbook_rows_def persist_release_snapshot_def persist_operator_ack_def
  persist_runbook_evidence_def persist_rollback_verification_def insert_unique_Inr Let_def

lemma step_evidence_rows:
  "(rollback_rows (release_step t x) = rollback_rows t
     \<or> (\<exists>row. judged rollback_verification_evidence_valid row \<and> rollback_rows (release_step t x) = rollback_rows t @ [row])) \<and>
   (runbook_rows (release_step t x) = runbook_rows t
     \<or> (\<exists>row. judged runbook_verification_evidence_valid row \<and> runbook_rows (release_step t x) = runbook_rows t @ [row]))"
proof (cases x)
  case (TrapCall rel ph name eid ts)
  then show ?thesis
    using fst_trap_call [of t rel ph name eid ts] evidence_rows_of_canary_writers [of t False] by auto
next
  case (TrapValidation git commit vrel ids eid ts rel ph)
  then show ?thesis
    using fst_trap_validation [of git commit vrel ids eid ts t rel ph] evidence_rows_of_canary_writers [of t]
    by auto
next
  case (RollbackCheck git commit vid ts measured rel ph)
  then show ?thesis by (auto simp: evidence_rows_unfold dest: rollback_row_judged split: sum.splits)
next
  case (RunbookCheck git commit sha eid ts name doc rel ph)
  then show ?thesis by (auto simp: evidence_rows_unfold runbook_row_judged split: sum.splits)
next
  case (CanaryEvent row)
  then show ?thesis by (simp add: evidence_rows_of_canary_writers)
qed (auto simp: evidence_rows_unfold split: sum.splits prod.splits)

definition gate_inv :: "gate_tables option \<Rightarrow> bool" where
  \<comment> \<open>a canary validation was measured, and no stored evidence makes its judge raise\<close>
  "gate_inv t \<longleftrightarrow>
     (\<forall>r \<in> set (canary_events t). c_type r = CANARY_VALIDATION_EVENT_TYPE \<longrightarrow> canary_row_valid r = Inr True) \<and>
     (\<forall>r \<in> set (rollback_rows t). judged rollback_verification_evidence_valid r) \<and>
     (\<forall>r \<in> set (runbook_rows t). judged runbook_verification_evidence_valid r)"

lemma gate_inv_step: "gate_inv t \<Longrightarrow> gate_inv (release_step t x)"
proof -
  assume i: "gate_inv t"
  have "\<forall>r \<in> set (canary_events (release_step t x)). c_type r = CANARY_VALIDATION_EVENT_TYPE \<longrightarrow> canary_row_valid r = Inr True"
    using step_event [of t x]
  proof (elim disjE exE conjE)
    fix row
    assume row: "canary_events (release_step t x) = canary_events t @ [row]"
      and m: "c_type row = CANARY_VALIDATION_EVENT_TYPE \<longrightarrow> (\<exists>git commit vrel ids rel ph eid ts.
           row = validation_event (validation_outcome (release_evidence_git_commit git commit) vrel ph ts ids) rel ph eid ts
           \<and> fst (validation_outcome (release_evidence_git_commit git commit) vrel ph ts ids))"
    have "canary_row_valid row = Inr True" if ty: "c_type row = CANARY_VALIDATION_EVENT_TYPE"
    proof -
      obtain git commit vrel ids rel ph eid ts where
        "row = validation_event (validation_outcome (release_evidence_git_commit git commit) vrel ph ts ids) rel ph eid ts"
        "fst (validation_outcome (release_evidence_git_commit git commit) vrel ph ts ids)"
        using m ty by blast
      then show ?thesis by (metis measured_validation_valid release_commit_stripped)
    qed
    then show ?thesis using row i by (auto simp: gate_inv_def)
  qed (use i in \<open>auto simp: gate_inv_def\<close>)
  then show ?thesis using i step_evidence_rows [of t x] by (auto simp: gate_inv_def)
qed

interpretation release_db: invariant_machine release_step gate_inv
  by unfold_locales (rule gate_inv_step)

lemma gate_inv_start: "gate_inv None"
  by (simp add: gate_inv_def rollback_rows_def runbook_rows_def empty_tables_def)

lemma latest_verified_total:
  assumes "\<And>rs r. rows = Some rs \<Longrightarrow> r \<in> set rs \<Longrightarrow> judged judge r"
  shows "\<exists>out. latest_verified judge names rows rel ph = Inr out"
proof (cases rows)
  case (Some rs)
  show ?thesis
  proof (cases "last_row (\<lambda>r. scoped rel ph (e_release r) (e_phase r)) rs")
    case None
    then show ?thesis by (simp add: latest_verified_def Some)
  next
    case (Some r)
    have "judged judge r" using assms [OF \<open>rows = Some rs\<close>] last_row_Some [OF Some] by blast
    then obtain b where "judge (e_status r) (evidence_of (e_evidence r)) = Inr b"
      by (auto simp: judged_def split: sum.splits)
    then show ?thesis by (simp add: latest_verified_def \<open>rows = Some rs\<close> Some)
  qed
qed (simp add: latest_verified_def)

lemma canary_reader_total:
  assumes "gate_inv t" "v = t \<or> v = None"
  shows "\<exists>out. latest_verified_canary_validation v rel ph = Inr out"
proof (cases v)
  case (Some u)
  have "canary_row_valid r = Inr True" if "last_row (canary_validation_row rel ph) (canaries u) = Some r" for r
    using last_row_Some [OF that] assms Some by (auto simp: gate_inv_def canary_validation_row_def)
  then show ?thesis by (auto simp: latest_verified_canary_validation_def Some split: option.split)
qed simp

lemma snapshot_total:
  assumes inv: "gate_inv t"
  shows "\<exists>s. build_release_snapshot (readable up t) rel ph now gen = Inr s"
proof -
  have v: "readable up t q = t \<or> readable up t q = None" for q by (simp add: readable_def)
  obtain c where c: "latest_verified_canary_validation (readable up t ''validations'') rel ph = Inr c"
    using canary_reader_total [OF inv v] by blast
  have "\<exists>out. latest_verified_rollback (readable up t ''rollbacks'') rel ph = Inr out"
    unfolding latest_verified_rollback_def using inv v [of "''rollbacks''"]
    by (intro latest_verified_total) (auto simp: gate_inv_def rollback_rows_def)
  moreover have "\<exists>out. latest_verified_runbook (readable up t ''runbooks'') rel ph = Inr out"
    unfolding latest_verified_runbook_def using inv v [of "''runbooks''"]
    by (intro latest_verified_total) (auto simp: gate_inv_def runbook_rows_def)
  ultimately show ?thesis unfolding build_release_snapshot_def Let_def c by auto
qed

text \<open>C26: asking for the release gate never fails with an exception: after any run of operations
  on a new database, whichever queries fail, the snapshot is built. In particular the
  conversions of stored evidence (\<^verbatim>\<open>int\<close>, \<^verbatim>\<open>list\<close>) cannot raise on what the writers store.
\<close>
theorem release_gate_always_answers:
  "\<exists>s. build_release_snapshot (readable up (foldl release_step None ops)) rel ph now gen = Inr s"
  by (rule snapshot_total [OF release_db.run_inv [OF gate_inv_start]])

subsection \<open>Rollback evidence is fresh\<close>

lemma blocked_not_verified:
  "dget (dupdate missing_rollback_evidence ([] @ [(''rollback_blocking_reasons'', w)])) ''rollback_evidence_verified'' = VBool False"
  "dget (dupdate missing_rollback_evidence ([(''rollback_evidence_persisted'', p)] @ [(''rollback_blocking_reasons'', w)]))
     ''rollback_evidence_verified'' = VBool False"
  "dget (dupdate missing_rollback_evidence ([(''rollback_evidence_persisted'', p), (''rollback_evidence_age_sec'', a)]
     @ [(''rollback_blocking_reasons'', w)])) ''rollback_evidence_verified'' = VBool False"
  "dget missing_rollback_evidence ''rollback_evidence_verified'' = VBool False"
  by (simp_all add: missing_rollback_evidence_def dupdate_def)

lemma verified_validation:
  assumes "truthy (dget (latest_persisted_rollback_evidence parse_ts max_age now ok vt) ''rollback_evidence_verified'')"
  obtains tab v recorded reasons payload where "ok" "vt = Some tab" "last_row (\<lambda>_. True) (vt_rows tab) = Some v"
    "parse_ts (v_recorded v) = Some recorded" "\<not> flt_less (age_seconds now recorded) (fneg FUTURE_TOLERANCE_SEC)"
    "\<not> flt_less max_age (age_seconds now recorded)"
    "validation_row_valid v reasons payload"
    "latest_persisted_rollback_evidence parse_ts max_age now ok vt
       = measured_rollback_evidence v (age_seconds now recorded) True payload"
proof -
  note d = latest_persisted_rollback_evidence_def [unfolded Let_def]
  have m: "dget (measured_rollback_evidence v age valid payload) ''rollback_evidence_verified'' = VBool valid" for v age valid payload
    by (simp add: measured_rollback_evidence_def)
  have ok: "ok" and s: "vt \<noteq> None" using assms unfolding d by (auto simp: blocked_not_verified simp del: append.simps split: if_splits option.splits)
  then obtain tab where tab: "vt = Some tab" by blast
  have l: "vt_has_commit tab" "last_row (\<lambda>_. True) (vt_rows tab) \<noteq> None"
    using assms ok unfolding d tab by (auto simp: blocked_not_verified simp del: append.simps split: if_splits option.splits)
  then obtain v where v: "last_row (\<lambda>_. True) (vt_rows tab) = Some v" by blast
  obtain recorded where r: "parse_ts (v_recorded v) = Some recorded"
    using assms ok l v unfolding d tab by (cases "parse_ts (v_recorded v)") (auto simp: blocked_not_verified simp del: append.simps)
  have age: "\<not> flt_less (age_seconds now recorded) (fneg FUTURE_TOLERANCE_SEC)" "\<not> flt_less max_age (age_seconds now recorded)"
    using assms ok l v r unfolding d tab by (auto simp: blocked_not_verified simp del: append.simps split: if_splits)
  obtain reasons payload where j: "v_reasons v = Some reasons" "v_payload v = Some payload"
    using assms ok l v r age unfolding d tab
    by (cases "v_reasons v"; cases "v_payload v") (auto simp: blocked_not_verified simp del: append.simps)
  have eq: "latest_persisted_rollback_evidence parse_ts max_age now ok vt
     = measured_rollback_evidence v (age_seconds now recorded) (validation_row_valid v reasons payload) payload"
    unfolding d tab using ok l v r age j by simp
  then show thesis using that [OF ok tab v r age, of reasons payload] assms m by simp
qed

text \<open>A rollback verification of a release is recorded as passed only on measured evidence:
  the latest stored validation run proved the kill switch, the missing submit, the fail-closed
  reconciliation and the harmless repairs, counted no mutation, was recorded no longer ago
  than the caller allows, and ran on the very commit the release is verified for.
\<close>
theorem rollback_pass_is_measured:
  assumes "persist_rollback_verification git commit vid ts
      (latest_persisted_rollback_evidence parse_ts max_age now ok vt) t rel ph = (t1, Inr row)"
    and "e_status row = ''PASS''"
  shows "\<exists>tab v recorded. vt = Some tab \<and> last_row (\<lambda>_. True) (vt_rows tab) = Some v \<and>
      parse_ts (v_recorded v) = Some recorded \<and> \<not> flt_less max_age (age_seconds now recorded) \<and>
      v_kill_switch v \<and> v_no_submit v \<and> v_fail_closed v \<and> v_non_mutating v \<and> v_mutations v = 0 \<and>
      release_evidence_git_commit git commit = map_option py_strip (v_commit v) \<and> v_commit v \<noteq> None"
proof -
  define measured where "measured = latest_persisted_rollback_evidence parse_ts max_age now ok vt"
  define evidence_commit where "evidence_commit = release_evidence_git_commit git commit"
  have "rollback_row_of evidence_commit vid ts measured rel ph = Inr row"
    using assms(1) unfolding persist_rollback_verification_def measured_def evidence_commit_def
    by (auto simp: Let_def split: sum.splits)
  then obtain blockers where "rollback_verified evidence_commit measured blockers = Inr True"
    using assms(2) by (auto simp: rollback_row_of_def bindE_Inr_iff split: if_splits)
  then have c: "evidence_commit \<noteq> None" "stripped_or_none (dget measured ''git_commit'') = evidence_commit"
    and t: "truthy (dget measured ''rollback_evidence_verified'')"
    by (auto simp: rollback_verified_def)
  obtain tab v recorded reasons payload where v: "vt = Some tab" "last_row (\<lambda>_. True) (vt_rows tab) = Some v"
    "parse_ts (v_recorded v) = Some recorded" "\<not> flt_less max_age (age_seconds now recorded)"
    "validation_row_valid v reasons payload"
    and eq: "measured = measured_rollback_evidence v (age_seconds now recorded) True payload"
    using verified_validation [OF t [unfolded measured_def]] unfolding measured_def by metis
  have "evidence_commit = map_option py_strip (v_commit v)"
    using c v(5) unfolding eq validation_row_valid_def
    by (cases "v_commit v") (auto simp: measured_rollback_evidence_def stripped_or_none_def Let_def split: if_splits)
  then show ?thesis using v c(1) unfolding evidence_commit_def validation_row_valid_def by auto
qed

subsection \<open>The trap blocks every mutating call\<close>

lemma probe_action_blocked:
  assumes "action \<in> set CANARY_VALIDATION_ACTIONS" "\<forall>r \<in> set (canaries u). c_id r \<noteq> eid"
  shows "trap_call (Some u) rel ph action eid ts
     = (Some (u\<lparr>canaries := canaries u @ [trap_row rel ph action eid ts]\<rparr>), Inl (RuntimeError ''CANARY_MUTATION_BLOCKED''))"
proof -
  have "mutating_name action" using assms(1) unfolding CANARY_VALIDATION_ACTIONS_def
    by simp (elim disjE; hypsubst; code_simp)
  moreover have "c_id (trap_row rel ph action eid ts) = eid"
    "c_type (trap_row rel ph action eid ts) \<noteq> CANARY_VALIDATION_EVENT_TYPE"
    by (simp_all add: trap_row_def CANARY_VALIDATION_EVENT_TYPE_def)
  ultimately show ?thesis
    using assms(2) by (auto simp: trap_call_def persist_canary_event_def insert_canary_def insert_unique_def)
qed

lemma probe_actions_blocked:
  assumes "set (map fst ps) \<subseteq> set CANARY_VALIDATION_ACTIONS" "distinct (map snd ps)"
    "\<forall>r \<in> set (canaries u). c_id r \<notin> snd ` set ps"
  shows "probe_actions (Some u) rel ph ts ps
     = (Some (u\<lparr>canaries := canaries u @ map (\<lambda>(action, eid). trap_row rel ph action eid ts) ps\<rparr>),
        map (\<lambda>p. (fst p, ''CANARY_MUTATION_BLOCKED'')) ps)"
  using assms
proof (induction ps arbitrary: u)
  case Nil
  then show ?case by simp
next
  case (Cons p ps)
  obtain action eid where p: "p = (action, eid)" by (cases p)
  let ?u = "u\<lparr>canaries := canaries u @ [trap_row rel ph action eid ts]\<rparr>"
  have "trap_call (Some u) rel ph action eid ts = (Some ?u, Inl (RuntimeError ''CANARY_MUTATION_BLOCKED''))"
    using Cons.prems p by (intro probe_action_blocked) auto
  moreover have "probe_actions (Some ?u) rel ph ts ps
     = (Some (?u\<lparr>canaries := canaries ?u @ map (\<lambda>(action, eid). trap_row rel ph action eid ts) ps\<rparr>),
        map (\<lambda>p. (fst p, ''CANARY_MUTATION_BLOCKED'')) ps)"
    using Cons.prems p by (intro Cons.IH) (auto simp: trap_row_def)
  ultimately show ?case by (simp add: p probe_text_def)
qed

lemma trap_validation_measures:
  assumes "length ids = 5" "distinct ids"
  shows "fst (validation_outcome commit vrel ph ts ids) \<longleftrightarrow> commit \<noteq> None"
proof -
  let ?ps = "zip CANARY_VALIDATION_ACTIONS ids"
  let ?rows = "map (\<lambda>(action, eid). trap_row vrel ph action eid ts) ?ps"
  have len: "length CANARY_VALIDATION_ACTIONS = length ids" using assms(1) by (simp add: CANARY_VALIDATION_ACTIONS_def)
  have probe: "probe_actions (Some empty_tables) vrel ph ts ?ps
     = (Some (empty_tables\<lparr>canaries := canaries empty_tables @ ?rows\<rparr>), map (\<lambda>p. (fst p, ''CANARY_MUTATION_BLOCKED'')) ?ps)"
    using len assms(2) by (intro probe_actions_blocked) (auto simp: empty_tables_def)
  have all: "filter (attempt_row vrel ph) ?rows = ?rows" "filter (\<lambda>r. attempt_row vrel ph r \<and> c_blocked r) ?rows = ?rows"
    by (auto simp: filter_id_conv attempt_row_def trap_row_def same_text_def)
  have blocked: "map fst (filter (\<lambda>p. snd p = ''CANARY_MUTATION_BLOCKED'')
      (map (\<lambda>p. (fst p, ''CANARY_MUTATION_BLOCKED'')) ?ps)) = CANARY_VALIDATION_ACTIONS"
    using len by (simp add: comp_def filter_map map_fst_zip)
  have rows: "canaries (empty_tables\<lparr>canaries := canaries empty_tables @ ?rows\<rparr>) = ?rows" "length ?rows = 5"
    using len assms(1) by (simp_all add: empty_tables_def)
  show ?thesis
    unfolding validation_outcome_def probe prod.case Let_def fst_conv canary_mutation_attempt_count_def option.case blocked
    using rows all by simp
qed

definition demo_git :: git_runner where
  "demo_git args = (if args = [''rev-parse'', ''HEAD''] then Inr ''c0ffee'' else Inr [])"

definition demo_ops :: "release_op list" where
  \<comment> \<open>validation, rollback, runbook and acknowledgement of release R1, all at the clean commit\<close>
  "demo_ops =
    [TrapValidation demo_git None ''probe'' [''1'', ''2'', ''3'', ''4'', ''5''] ''v1'' 0 ''R1'' ''PHASE6'',
     RollbackCheck demo_git None ''b1'' 0
       [(''git_commit'', VStr ''c0ffee''), (''rollback_evidence_verified'', VBool True),
        (''rollback_evidence_status'', VStr ''COMPLETE''), (''rollback_evidence_source'', VStr EVIDENCE_SOURCE),
        (''validation_id'', VStr ''m1''), (''kill_switch_block_verified'', VBool True),
        (''no_submit_on_kill_switch_verified'', VBool True), (''fail_closed_reconciliation_verified'', VBool True),
        (''repair_actions_non_mutating_verified'', VBool True), (''execution_mutation_attempt_count'', VInt 0)]
       ''R1'' ''PHASE6'',
     RunbookCheck demo_git None (\<lambda>_. replicate 64 (CHR ''a'')) ''k1'' 0 ''RUNBOOK.md''
       (Readable ''raw'' (concat RUNBOOK_REQUIRED_MARKERS)) ''R1'' ''PHASE6'',
     Acknowledge ''R1'' ''PHASE6'' (required_operator_ack_text ''R1'') ''operator'' 60 [] ''a1'' 1000000]"

definition demo_tables :: gate_tables where
  "demo_tables = ensure_release_gate_schema (foldl release_step None demo_ops)"

lemma demo_tables_ok: "tables_ok demo_tables"
  by code_simp

lemma demo_gate_passes:
  "case build_release_snapshot (readable (\<lambda>_. True) (Some demo_tables)) ''R1'' ''PHASE6'' 1000000 0 of
     Inl _ \<Rightarrow> False | Inr s \<Rightarrow> release_gate_passed s"
  by code_simp

theorem passed_gate_is_evidenced_witness:
  "\<exists>s. build_release_snapshot (readable (\<lambda>_. True) (Some demo_tables)) ''R1'' ''PHASE6'' 1000000 0 = Inr s
     \<and> release_gate_passed s \<and> (\<exists>a \<in> set (acks demo_tables). a_release a = ''R1'' \<and> 1000000 < a_until a)"
proof -
  obtain s where s: "build_release_snapshot (readable (\<lambda>_. True) (Some demo_tables)) ''R1'' ''PHASE6'' 1000000 0 = Inr s"
    "release_gate_passed s"
    using demo_gate_passes by (auto split: sum.splits)
  then show ?thesis using passed_gate_is_evidenced [OF s demo_tables_ok] by blast
qed

definition demo_trapped :: "gate_tables option" where
  "demo_trapped = release_step None (TrapCall ''R1'' ''PHASE6'' ''submit_order'' ''x1'' 0)"

lemma demo_trapped_call:
  "trap_call None ''R1'' ''PHASE6'' ''submit_order'' ''x1'' 0 = (demo_trapped, Inl (RuntimeError ''CANARY_MUTATION_BLOCKED''))"
  unfolding demo_trapped_def by code_simp

theorem attempted_mutation_disqualifies_witness:
  "\<exists>s. build_release_snapshot (readable (\<lambda>_. True) (foldl release_step demo_trapped demo_ops)) ''R1'' ''PHASE6'' 1000000 0
       = Inr s \<and> \<not> release_gate_passed s"
proof -
  have "gate_inv (foldl release_step demo_trapped demo_ops)"
    unfolding demo_trapped_def by (intro release_db.run_inv gate_inv_step gate_inv_start)
  then obtain s where
    s: "build_release_snapshot (readable (\<lambda>_. True) (foldl release_step demo_trapped demo_ops)) ''R1'' ''PHASE6'' 1000000 0 = Inr s"
    using snapshot_total by blast
  then show ?thesis using attempted_mutation_disqualifies [OF demo_trapped_call s] by blast
qed

definition demo_validations :: validation_table where
  "demo_validations = \<lparr>vt_has_commit = True, vt_rows =
     [\<lparr>v_id = ''m1'', v_recorded = ''2026-01-01T00:00:00Z'', v_status = ''COMPLETE'', v_source = EVIDENCE_SOURCE,
       v_commit = Some ''c0ffee'', v_kill_switch = True, v_no_submit = True, v_fail_closed = True, v_non_mutating = True,
       v_mutations = 0, v_reasons = Some (VList []), v_payload = Some (VDict [])\<rparr>]\<rparr>"

definition demo_measured :: pydict where
  "demo_measured = measured_rollback_evidence (hd (vt_rows demo_validations)) (Fin 0) True (VDict [])"

lemma demo_measured_eq:
  "latest_persisted_rollback_evidence (\<lambda>_. Some 0) MAX_EVIDENCE_AGE_SEC 0 True (Some demo_validations) = demo_measured"
proof -
  have "validation_row_valid (hd (vt_rows demo_validations)) (VList []) (VDict [])" by code_simp
  then show ?thesis
    by (simp add: latest_persisted_rollback_evidence_def demo_measured_def demo_validations_def last_row_def age_seconds_def
        FUTURE_TOLERANCE_SEC_def MAX_EVIDENCE_AGE_SEC_def)
qed

lemma demo_rollback_passes:
  "case persist_rollback_verification demo_git None ''b1'' 0 demo_measured None ''R1'' ''PHASE6'' of
     (_, Inl _) \<Rightarrow> False | (_, Inr row) \<Rightarrow> e_status row = ''PASS''"
  by code_simp

theorem rollback_pass_is_measured_witness:
  "\<exists>t1 row. persist_rollback_verification demo_git None ''b1'' 0
       (latest_persisted_rollback_evidence (\<lambda>_. Some 0) MAX_EVIDENCE_AGE_SEC 0 True (Some demo_validations))
       None ''R1'' ''PHASE6'' = (t1, Inr row) \<and> e_status row = ''PASS''
     \<and> (\<exists>v. last_row (\<lambda>_. True) (vt_rows demo_validations) = Some v \<and> v_mutations v = 0)"
proof -
  obtain t1 row where r: "persist_rollback_verification demo_git None ''b1'' 0
       (latest_persisted_rollback_evidence (\<lambda>_. Some 0) MAX_EVIDENCE_AGE_SEC 0 True (Some demo_validations))
       None ''R1'' ''PHASE6'' = (t1, Inr row)" "e_status row = ''PASS''"
    using demo_rollback_passes unfolding demo_measured_eq by (auto split: prod.splits sum.splits)
  then show ?thesis using rollback_pass_is_measured [OF r] by blast
qed

end
