(* ===== verification/DecisionInvariant.thy ===== *)
theory DecisionInvariant
  imports ReleaseGates
begin

section \<open>The pre-submit decision invariant (\<^verbatim>\<open>decision_invariant.py\<close>)\<close>

text \<open>
  A decision payload of any surface is projected to the twenty fields that BACKTEST, PAPER and
  LIVE_PRECHECK must agree on; relations inside one payload are checked, and surfaces are
  compared. A violation is its code and a mismatch its field; their detail texts are left out.
  Tolerances are not negative. A dictionary has distinct keys.
\<close>

subsection \<open>Reading values\<close>

definition number_of :: "pyval \<Rightarrow> flt option py" where
  "number_of v = (if in_strs v [[], ''UNKNOWN'', ''UNAVAILABLE''] then Inr None
     else catch_tv (bindE (py_float v) (\<lambda>x. Inr (Some x))) None)"

definition json_char :: "char \<Rightarrow> string" where
  "json_char c =
    (let n = (of_char c :: nat); esc = (\<lambda>d. [char_of (92 :: nat), d]) in
     if n = 34 \<or> n = 92 then esc c
     else if n = 10 then esc (CHR ''n'') else if n = 13 then esc (CHR ''r'') else if n = 9 then esc (CHR ''t'')
     else if n = 12 then esc (CHR ''f'') else if n = 8 then esc (CHR ''b'')
     else if n < 32 \<or> n = 127 then esc (CHR ''u'') @ ''00'' @ [hex_digit (n div 16), hex_digit (n mod 16)]
     else [c])"

definition json_str :: "string \<Rightarrow> string" where
  "json_str s = char_of (34 :: nat) # concat (map json_char s) @ [char_of (34 :: nat)]"

definition json_float :: "flt \<Rightarrow> string" where
  "json_float x = (case x of NaN \<Rightarrow> ''NaN'' | PInf \<Rightarrow> ''Infinity'' | NInf \<Rightarrow> ''-Infinity'' | Fin _ \<Rightarrow> show_float x)"

fun json_dumps :: "pyval \<Rightarrow> string" where
  \<comment> \<open>\<^verbatim>\<open>json.dumps(v, sort_keys=True)\<close>\<close>
  "json_dumps VNone = ''null''"
| "json_dumps (VBool b) = (if b then ''true'' else ''false'')"
| "json_dumps (VInt n) = show_int n"
| "json_dumps (VFloat x) = json_float x"
| "json_dumps (VStr s) = json_str s"
| "json_dumps (VList xs) = ''['' @ join '', '' (map json_dumps xs) @ '']''"
| "json_dumps (VDict d) = ''{'' @ join '', ''
     (map (\<lambda>p. json_str (fst p) @ '': '' @ snd p) (sort_key fst (map (\<lambda>p. (fst p, json_dumps (snd p))) d))) @ ''}''"

definition identity_text :: "pyval \<Rightarrow> string" where
  "identity_text v =
    (if in_strs v [[]] then []
     else case v of VDict d \<Rightarrow> json_dumps (VDict d) | VList xs \<Rightarrow> json_dumps (VList xs) | _ \<Rightarrow> py_strip (py_str v))"

definition clean_upper :: "pyval \<Rightarrow> string" where
  \<comment> \<open>\<^verbatim>\<open>str(v or "").strip().upper()\<close>\<close>
  "clean_upper v = py_upper (py_strip (text_or_empty v))"

definition decision_text :: "pyval \<Rightarrow> string" where
  "decision_text v =
    (let t = clean_upper v in
     if t \<in> {''ACCEPT'', ''ACCEPTED'', ''EXECUTED'', ''ALLOW'', ''ALLOWED''} then ''ACCEPT''
     else if t \<in> {''REJECT'', ''REJECTED'', ''BLOCK'', ''BLOCKED''} then ''REJECT''
     else if t = [] then ''UNKNOWN'' else t)"

definition sub_dict :: "pydict \<Rightarrow> string \<Rightarrow> pydict" where
  \<comment> \<open>\<^verbatim>\<open>x if isinstance(x, Mapping) else {}\<close> for \<^verbatim>\<open>x = d.get(k)\<close>\<close>
  "sub_dict d k = (case dget d k of VDict e \<Rightarrow> e | _ \<Rightarrow> [])"

fun split_on :: "char \<Rightarrow> string \<Rightarrow> string list" where
  "split_on c [] = [[]]"
| "split_on c (x # xs) = (if x = c then [] # split_on c xs
     else case split_on c xs of [] \<Rightarrow> [[x]] | w # ws \<Rightarrow> (x # w) # ws)"

definition gates_in :: "pyval \<Rightarrow> string list" where
  \<comment> \<open>the names one source contributes: a text separated by bars, or a list\<close>
  "gates_in v = (case v of
       VStr s \<Rightarrow> filter (\<lambda>x. x \<noteq> []) (map py_strip (split_on (CHR ''|'') s))
     | VList xs \<Rightarrow> filter (\<lambda>x. x \<noteq> []) (map (py_strip \<circ> py_str) xs)
     | _ \<Rightarrow> [])"

definition failed_gates_of :: "pydict \<Rightarrow> string list" where
  "failed_gates_of payload =
    sorted_set (concat (map gates_in
      [dget payload ''all_failed_gates'', dget payload ''failed_gates'',
       dget (sub_dict payload ''execution_safety'') ''all_failed_gates'', dget payload ''risk_flags'']))"

definition threshold_provenance_of :: "pydict \<Rightarrow> (string \<times> string) list" where
  "threshold_provenance_of payload =
     sort_key fst (map (\<lambda>p. (fst p, py_str (snd p))) (sub_dict payload ''threshold_provenance''))"

subsection \<open>The projection\<close>

record PreSubmitInvariant =
  pi_decision :: string
  pi_primary_reject_reason :: string
  pi_failed_gates :: "string list"
  pi_score :: "flt option"
  pi_candidate_rr :: "flt option"
  pi_executable_raw_rr :: "flt option"
  pi_remaining_execution_penalty :: "flt option"
  pi_effective_rr :: "flt option"
  pi_rr_basis :: string
  pi_execution_cost_semantics :: string
  pi_threshold_provenance :: "(string \<times> string) list"
  pi_execution_evidence_status :: string
  pi_portfolio_decision :: string
  pi_original_notional :: "flt option"
  pi_risk_scale :: "flt option"
  pi_effective_notional :: "flt option"
  pi_stop_distance_basis :: string
  pi_geometry_status :: string
  pi_geometry_source :: string
  pi_lifecycle_terminal_state :: string

definition portfolio_value :: "pydict \<Rightarrow> pyval" where
  "portfolio_value payload =
    (case dget payload ''portfolio_decision'' of
       VDict portfolio \<Rightarrow>
         (if dget portfolio ''decision'' \<noteq> VNone then dget portfolio ''decision''
          else VStr (if dget portfolio ''accepted'' = VBool True then ''ACCEPT''
                     else if dget portfolio ''accepted'' = VBool False then ''REJECT'' else ''UNKNOWN''))
     | v \<Rightarrow> v)"

fun first_truthy :: "pyval list \<Rightarrow> pyval" where
  \<comment> \<open>\<^verbatim>\<open>v1 or v2 or ... or ""\<close>\<close>
  "first_truthy [] = VStr []"
| "first_truthy (v # vs) = (if truthy v then v else first_truthy vs)"

definition project_pre_submit_invariant :: "pydict \<Rightarrow> PreSubmitInvariant py" where
  "project_pre_submit_invariant payload =
    (let num = (\<lambda>k. number_of (dget payload k)); upper = (\<lambda>k. clean_upper (dget payload k));
         evidence = first_truthy [dget payload ''execution_evidence_status'',
           dget (sub_dict payload ''execution_safety'') ''execution_evidence_status'', dget payload ''evidence_status''] in
     bindE (num ''score'') (\<lambda>score.
     bindE (number_of (dget_or payload ''candidate_rr'' (dget payload ''rr''))) (\<lambda>candidate_rr.
     bindE (num ''executable_raw_rr'') (\<lambda>executable.
     bindE (num ''remaining_execution_penalty'') (\<lambda>penalty.
     bindE (num ''effective_rr'') (\<lambda>effective.
     bindE (num ''original_notional'') (\<lambda>original.
     bindE (num ''risk_scale'') (\<lambda>scale.
     bindE (num ''effective_notional'') (\<lambda>notional.
     Inr \<lparr>pi_decision = decision_text (py_or (dget payload ''decision'') (dget payload ''status'')),
          pi_primary_reject_reason = clean_upper (first_truthy [dget payload ''primary_reject_reason'',
            dget payload ''reject_reason'', dget payload ''reason'']),
          pi_failed_gates = failed_gates_of payload,
          pi_score = score, pi_candidate_rr = candidate_rr, pi_executable_raw_rr = executable,
          pi_remaining_execution_penalty = penalty, pi_effective_rr = effective,
          pi_rr_basis = upper ''rr_basis'',
          pi_execution_cost_semantics = identity_text (dget payload ''execution_cost_semantics''),
          pi_threshold_provenance = threshold_provenance_of payload,
          pi_execution_evidence_status = py_upper (py_strip (str_or evidence ''UNKNOWN'')),
          pi_portfolio_decision = decision_text (portfolio_value payload),
          pi_original_notional = original, pi_risk_scale = scale, pi_effective_notional = notional,
          pi_stop_distance_basis = upper ''stop_distance_basis'', pi_geometry_status = upper ''geometry_status'',
          pi_geometry_source = upper ''geometry_source'',
          pi_lifecycle_terminal_state = clean_upper (first_truthy [dget payload ''lifecycle_pre_submit_terminal_state'',
            dget payload ''pre_submit_terminal_state'', dget payload ''lifecycle_state''])\<rparr>)))))))))"

subsection \<open>Relations inside one payload\<close>

definition isclose :: "flt \<Rightarrow> flt \<Rightarrow> flt \<Rightarrow> bool" where
  \<comment> \<open>\<^verbatim>\<open>math.isclose(a, b, rel_tol=0.0, abs_tol=t)\<close>\<close>
  "isclose t a b \<longleftrightarrow> flt_eq a b \<or> (a \<notin> {PInf, NInf} \<and> b \<notin> {PInf, NInf} \<and> flt_le (flt_abs (fsub b a)) t)"

definition both :: "flt option \<Rightarrow> flt option \<Rightarrow> (flt \<Rightarrow> flt \<Rightarrow> bool) \<Rightarrow> bool" where
  \<comment> \<open>neither is None and \<open>P\<close> holds\<close>
  "both x y P = (case (x, y) of (Some a, Some b) \<Rightarrow> P a b | _ \<Rightarrow> False)"

definition code_if :: "bool \<Rightarrow> string \<Rightarrow> string list" where "code_if b c = (if b then [c] else [])"

definition gate_evidence :: "pydict \<Rightarrow> pydict list" where
  "gate_evidence payload =
    (let raw = (case dget payload ''failed_gate_evidence'' of VList xs \<Rightarrow> Some xs
         | _ \<Rightarrow> (case dget (sub_dict payload ''execution_safety'') ''failed_gate_evidence'' of VList xs \<Rightarrow> Some xs | _ \<Rightarrow> None)) in
     case raw of None \<Rightarrow> [] | Some xs \<Rightarrow> List.map_filter (\<lambda>x. case x of VDict d \<Rightarrow> Some d | _ \<Rightarrow> None) xs)"

definition gate_name :: "pydict \<Rightarrow> string" where
  "gate_name item = clean_upper (py_or (dget item ''gate'') (dget item ''name''))"

definition GEOMETRY_FIELDS :: "string list" where
  "GEOMETRY_FIELDS = [''entry'', ''sl'', ''stop'', ''tp'', ''target'', ''candidate_rr'', ''executable_raw_rr'', ''effective_rr'']"

definition geometry_leak :: "pydict \<Rightarrow> bool py" where
  "geometry_leak payload =
    (if clean_upper (dget payload ''geometry_status'') \<in> {''UNAVAILABLE'', ''GUIDED_CANDIDATE_UNAVAILABLE''}
     then bindE (mapE (\<lambda>k. number_of (dget payload k)) GEOMETRY_FIELDS) (\<lambda>vs. Inr (\<exists>v \<in> set vs. v \<noteq> None))
     else Inr False)"

definition gate_value_mismatch :: "flt \<Rightarrow> PreSubmitInvariant \<Rightarrow> pydict \<Rightarrow> bool py" where
  "gate_value_mismatch tol p item =
    (let authority = (\<lambda>x. bindE (number_of (dget item ''observed'')) (\<lambda>seen. Inr (both seen x (\<lambda>a b. \<not> isclose tol a b)))) in
     if gate_name item = ''LOW_EFFECTIVE_RR'' then authority (pi_effective_rr p)
     else if gate_name item = ''RR_TOO_LOW'' then authority (pi_candidate_rr p)
     else if gate_name item = ''LOW_SCORE'' then authority (pi_score p)
     else Inr False)"

definition decision_codes :: "PreSubmitInvariant \<Rightarrow> string list" where
  "decision_codes p =
     code_if (pi_decision p = ''ACCEPT'' \<and> pi_failed_gates p \<noteq> []) ''ACCEPT_WITH_FAILED_GATES''
   @ (if pi_decision p = ''REJECT''
      then code_if (pi_primary_reject_reason p = []) ''REJECT_WITHOUT_PRIMARY_REASON''
         @ (if pi_failed_gates p = [] then [''REJECT_WITHOUT_FAILED_GATE'']
            else code_if (pi_primary_reject_reason p \<noteq> [] \<and> pi_primary_reject_reason p \<notin> set (pi_failed_gates p))
                   ''PRIMARY_REJECT_REASON_NOT_FAILED'')
      else [])"

definition number_codes :: "flt \<Rightarrow> PreSubmitInvariant \<Rightarrow> string list" where
  "number_codes tol p =
    code_if (case pi_effective_rr p of None \<Rightarrow> False | Some eff \<Rightarrow>
        both (pi_executable_raw_rr p) (pi_remaining_execution_penalty p)
          (\<lambda>raw pen. \<not> isclose tol eff (py_max (Fin 0) (fsub raw pen)))) ''EFFECTIVE_RR_ARITHMETIC_MISMATCH''
  @ code_if (case pi_risk_scale p of None \<Rightarrow> False | Some s \<Rightarrow> \<not> (flt_le (Fin 0) s \<and> flt_le s (Fin 1))) ''RISK_SCALE_OUT_OF_RANGE''
  @ code_if (case pi_effective_notional p of None \<Rightarrow> False | Some eff \<Rightarrow>
        both (pi_original_notional p) (pi_risk_scale p) (\<lambda>original s. \<not> isclose tol eff (fmul original s)))
      ''EFFECTIVE_NOTIONAL_SCALING_MISMATCH''"

definition fill_parity_codes :: "flt \<Rightarrow> pydict \<Rightarrow> string list py" where
  "fill_parity_codes tol payload =
    (let prov = (case dget payload ''source_provenance'' of VDict d \<Rightarrow> d | _ \<Rightarrow> payload) in
     if clean_upper (dget prov ''reject_execution_basis'') \<noteq> ''EXPECTED_FILL_RUNTIME_PARITY'' then Inr []
     else
     bindE (number_of (dget prov ''executable_entry'')) (\<lambda>executable.
     bindE (number_of (dget_or prov ''hypothetical_entry'' (dget payload ''hypothetical_entry''))) (\<lambda>hypothetical.
     bindE (number_of (dget (sub_dict payload ''execution_cost_assumptions'') ''entry_slippage_cost'')) (\<lambda>slippage.
     bindE (mapE (\<lambda>k. number_of (dget prov k)) [''executable_raw_rr'', ''remaining_execution_penalty'', ''effective_rr_at_decision''])
       (\<lambda>measured.
     Inr (code_if (both executable hypothetical (\<lambda>a b. \<not> isclose tol a b)) ''EXPECTED_FILL_ENTRY_PARITY_MISMATCH''
        @ code_if (dget prov ''entry_slippage_embedded_in_fill'' = VBool True \<and>
             (case slippage of None \<Rightarrow> False | Some x \<Rightarrow> \<not> flt_eq x (Fin 0))) ''ENTRY_SLIPPAGE_DOUBLE_COUNT''
        @ code_if (dget prov ''reject_quality_attributable'' = VBool True \<and> None \<in> set (executable # measured))
            ''ATTRIBUTABLE_REJECT_PARITY_EVIDENCE_INCOMPLETE''))))))"

definition validate_pre_submit_semantics :: "flt \<Rightarrow> pydict \<Rightarrow> string list py" where
  "validate_pre_submit_semantics tol payload =
    bindE (project_pre_submit_invariant payload) (\<lambda>p.
    bindE (geometry_leak payload) (\<lambda>leaked.
    let evidence = gate_evidence payload; names = filter (\<lambda>n. n \<noteq> []) (map gate_name evidence) in
    bindE (filterE (gate_value_mismatch tol p) evidence) (\<lambda>wrong.
    bindE (fill_parity_codes tol payload) (\<lambda>fill.
    Inr (code_if leaked ''UNAVAILABLE_GEOMETRY_HAS_AUTHORITATIVE_VALUES''
       @ number_codes tol p
       @ code_if (evidence \<noteq> [] \<and> set names \<noteq> set (pi_failed_gates p)) ''FAILED_GATE_SET_MISMATCH''
       @ map (\<lambda>_. ''GATE_OBSERVED_VALUE_MISMATCH'') wrong
       @ decision_codes p @ fill)))))"

definition assert_pre_submit_semantics :: "flt \<Rightarrow> pydict \<Rightarrow> PreSubmitInvariant py" where
  "assert_pre_submit_semantics tol payload =
    bindE (validate_pre_submit_semantics tol payload) (\<lambda>codes.
      if codes \<noteq> [] then Inl (ValueError (''DECISION_SEMANTIC_INVARIANT_VIOLATION: '' @ join ''; '' codes))
      else project_pre_submit_invariant payload)"

subsection \<open>Comparing surfaces\<close>

datatype field_value = Text string | Texts "string list" | Pairs "(string \<times> string) list" | Number "flt option"

definition fields_of :: "PreSubmitInvariant \<Rightarrow> (string \<times> field_value) list" where
  \<comment> \<open>\<^verbatim>\<open>__dataclass_fields__\<close>, in order\<close>
  "fields_of p =
    [(''decision'', Text (pi_decision p)), (''primary_reject_reason'', Text (pi_primary_reject_reason p)),
     (''failed_gates'', Texts (pi_failed_gates p)), (''score'', Number (pi_score p)),
     (''candidate_rr'', Number (pi_candidate_rr p)), (''executable_raw_rr'', Number (pi_executable_raw_rr p)),
     (''remaining_execution_penalty'', Number (pi_remaining_execution_penalty p)),
     (''effective_rr'', Number (pi_effective_rr p)), (''rr_basis'', Text (pi_rr_basis p)),
     (''execution_cost_semantics'', Text (pi_execution_cost_semantics p)),
     (''threshold_provenance'', Pairs (pi_threshold_provenance p)),
     (''execution_evidence_status'', Text (pi_execution_evidence_status p)),
     (''portfolio_decision'', Text (pi_portfolio_decision p)), (''original_notional'', Number (pi_original_notional p)),
     (''risk_scale'', Number (pi_risk_scale p)), (''effective_notional'', Number (pi_effective_notional p)),
     (''stop_distance_basis'', Text (pi_stop_distance_basis p)), (''geometry_status'', Text (pi_geometry_status p)),
     (''geometry_source'', Text (pi_geometry_source p)),
     (''lifecycle_pre_submit_terminal_state'', Text (pi_lifecycle_terminal_state p))]"

fun same_value :: "flt \<Rightarrow> field_value \<Rightarrow> field_value \<Rightarrow> bool" where
  "same_value tol (Number (Some a)) (Number (Some b)) = isclose tol a b"
| "same_value tol v w = (v = w)"

definition compare_pre_submit_invariants :: "flt \<Rightarrow> PreSubmitInvariant \<Rightarrow> PreSubmitInvariant \<Rightarrow> string list" where
  "compare_pre_submit_invariants tol expected seen =
     map (fst \<circ> fst) (filter (\<lambda>(e, s). \<not> same_value tol (snd e) (snd s)) (zip (fields_of expected) (fields_of seen)))"

definition COMPARISON_TOL :: flt where "COMPARISON_TOL = fl (1 / 10 ^ 9)"

definition incomplete_pre_submit_fields :: "PreSubmitInvariant \<Rightarrow> string list" where
  "incomplete_pre_submit_fields p =
    (let value = (\<lambda>k. map_of (fields_of p) k) in
     filter (\<lambda>k. value k = Some (Number None)) [''score'', ''candidate_rr'', ''executable_raw_rr'', ''remaining_execution_penalty'',
        ''effective_rr'', ''original_notional'', ''risk_scale'', ''effective_notional'']
   @ filter (\<lambda>k. value k = Some (Text [])) [''rr_basis'', ''execution_cost_semantics'', ''stop_distance_basis'',
        ''geometry_status'', ''geometry_source'']
   @ code_if (pi_threshold_provenance p = []) ''threshold_provenance''
   @ code_if (pi_execution_evidence_status p \<in> {[], ''UNKNOWN'', ''UNAVAILABLE'', ''INCOMPLETE'', ''UNAVAILABLE_BLOCKING'',
        ''INVALID_FAKE_ZERO''}) ''execution_evidence_status''
   @ code_if (pi_portfolio_decision p = ''UNKNOWN'') ''portfolio_decision''
   @ code_if (pi_lifecycle_terminal_state p = []) ''lifecycle_pre_submit_terminal_state''
   @ code_if (pi_decision p = ''UNKNOWN'') ''decision'')"

definition complete_surface :: "flt \<Rightarrow> pydict \<Rightarrow> PreSubmitInvariant py" where
  \<comment> \<open>the checks a surface passes alone\<close>
  "complete_surface tol payload =
    bindE (assert_pre_submit_semantics tol payload) (\<lambda>_.
    bindE (project_pre_submit_invariant payload) (\<lambda>p.
      if incomplete_pre_submit_fields p \<noteq> []
      then Inl (ValueError (''DECISION_PARITY_EVIDENCE_INCOMPLETE: '' @ join '','' (incomplete_pre_submit_fields p)))
      else Inr p))"

fun check_surfaces :: "flt \<Rightarrow> PreSubmitInvariant \<Rightarrow> pydict list \<Rightarrow> PreSubmitInvariant py" where
  \<comment> \<open>the comparison uses its own default tolerance\<close>
  "check_surfaces tol expected [] = Inr expected"
| "check_surfaces tol expected (payload # rest) =
     bindE (complete_surface tol payload) (\<lambda>seen.
       let mismatches = compare_pre_submit_invariants COMPARISON_TOL expected seen in
       if mismatches \<noteq> [] then Inl (ValueError (''DECISION_PARITY_MISMATCH: '' @ join ''; '' mismatches))
       else check_surfaces tol expected rest)"

definition assert_pre_submit_invariant_parity :: "flt \<Rightarrow> pydict \<Rightarrow> pydict list \<Rightarrow> PreSubmitInvariant py" where
  "assert_pre_submit_invariant_parity tol reference surfaces =
     bindE (complete_surface tol reference) (\<lambda>expected. check_surfaces tol expected surfaces)"

subsection \<open>What a passed assertion means\<close>

lemma code_if_Nil [simp]: "code_if b c = [] \<longleftrightarrow> \<not> b" "[] = code_if b c \<longleftrightarrow> \<not> b"
  by (auto simp: code_if_def)

lemma both_simps [simp]: "both (Some a) (Some b) P = P a b" "both None y P = False" "both x None P = False"
  by (auto simp: both_def split: option.splits)

definition coherent :: "flt \<Rightarrow> PreSubmitInvariant \<Rightarrow> bool" where
  \<comment> \<open>the relations between the fields of one surface\<close>
  "coherent tol p \<longleftrightarrow>
     (pi_decision p = ''ACCEPT'' \<longrightarrow> pi_failed_gates p = []) \<and>
     (pi_decision p = ''REJECT'' \<longrightarrow> pi_primary_reject_reason p \<in> set (pi_failed_gates p) \<and> pi_primary_reject_reason p \<noteq> []) \<and>
     (\<forall>s. pi_risk_scale p = Some s \<longrightarrow> flt_le (Fin 0) s \<and> flt_le s (Fin 1)) \<and>
     (\<forall>eff raw pen. pi_effective_rr p = Some eff \<longrightarrow> pi_executable_raw_rr p = Some raw \<longrightarrow>
        pi_remaining_execution_penalty p = Some pen \<longrightarrow> isclose tol eff (py_max (Fin 0) (fsub raw pen))) \<and>
     (\<forall>eff original s. pi_effective_notional p = Some eff \<longrightarrow> pi_original_notional p = Some original \<longrightarrow>
        pi_risk_scale p = Some s \<longrightarrow> isclose tol eff (fmul original s))"

lemma coherent_codes: "number_codes tol p = [] \<Longrightarrow> decision_codes p = [] \<Longrightarrow> coherent tol p"
  unfolding number_codes_def decision_codes_def coherent_def append_is_Nil_conv code_if_Nil
  by (intro conjI impI allI; auto split: if_splits)

lemma filterE_nothing: "filterE f xs = Inr [] \<Longrightarrow> x \<in> set xs \<Longrightarrow> f x = Inr False"
  by (induction xs) (auto simp: bindE_Inr_iff split: if_splits)

lemma assert_parts:
  assumes "assert_pre_submit_semantics tol payload = Inr p"
  shows "project_pre_submit_invariant payload = Inr p" "number_codes tol p = []" "decision_codes p = []"
    "geometry_leak payload = Inr False"
    "gate_evidence payload \<noteq> [] \<Longrightarrow> set (filter (\<lambda>n. n \<noteq> []) (map gate_name (gate_evidence payload))) = set (pi_failed_gates p)"
    "item \<in> set (gate_evidence payload) \<Longrightarrow> gate_value_mismatch tol p item = Inr False"
    "fill_parity_codes tol payload = Inr []"
  using assms
  by (auto simp: assert_pre_submit_semantics_def validate_pre_submit_semantics_def bindE_Inr_iff Let_def
      dest: filterE_nothing split: if_splits)

lemma no_geometry_leak:
  assumes "geometry_leak payload = Inr False"
    "clean_upper (dget payload ''geometry_status'') \<in> {''UNAVAILABLE'', ''GUIDED_CANDIDATE_UNAVAILABLE''}" "k \<in> set GEOMETRY_FIELDS"
  shows "number_of (dget payload k) = Inr None"
proof -
  obtain vs where vs: "mapE (\<lambda>k. number_of (dget payload k)) GEOMETRY_FIELDS = Inr vs" "\<forall>v \<in> set vs. v = None"
    using assms(1,2) by (auto simp: geometry_leak_def bindE_Inr_iff)
  obtain v where "map_of (zip GEOMETRY_FIELDS vs) k = Some v" "number_of (dget payload k) = Inr v"
    using mapE_lookup [OF vs(1) assms(3)] by blast
  moreover from this have "v \<in> set vs" by (auto dest: map_of_SomeD set_zip_rightD)
  ultimately show ?thesis using vs(2) by simp
qed

text \<open>C13: a payload that passes the semantic assertion tells one story: an accepted decision has no
  failed gate, a rejection names a reason that is among its failed gates, the gate evidence lists
  exactly the failed gates, the effective risk/reward and the effective notional are what their
  parts give, the risk scale lies in the unit interval, and a geometry marked unavailable carries
  no authoritative number.
\<close>
theorem asserted_payload_is_coherent:
  assumes "assert_pre_submit_semantics tol payload = Inr p"
  shows "project_pre_submit_invariant payload = Inr p \<and> coherent tol p
    \<and> (gate_evidence payload \<noteq> [] \<longrightarrow> set (filter (\<lambda>n. n \<noteq> []) (map gate_name (gate_evidence payload))) = set (pi_failed_gates p))
    \<and> (clean_upper (dget payload ''geometry_status'') \<in> {''UNAVAILABLE'', ''GUIDED_CANDIDATE_UNAVAILABLE''} \<longrightarrow>
        (\<forall>k \<in> set GEOMETRY_FIELDS. number_of (dget payload k) = Inr None))
    \<and> (\<forall>item \<in> set (gate_evidence payload). gate_value_mismatch tol p item = Inr False)"
  using assert_parts [OF assms] coherent_codes no_geometry_leak by blast

lemma complete_surface_parts:
  assumes "complete_surface tol payload = Inr p"
  shows "assert_pre_submit_semantics tol payload = Inr p" "incomplete_pre_submit_fields p = []"
  using assms assert_parts(1) [of tol payload]
  by (auto simp: complete_surface_def bindE_Inr_iff Let_def split: if_splits)

lemma check_surfaces_parts:
  assumes "check_surfaces tol expected surfaces = Inr q"
  shows "q = expected" "payload \<in> set surfaces \<Longrightarrow> \<exists>seen. complete_surface tol payload = Inr seen \<and>
     compare_pre_submit_invariants COMPARISON_TOL expected seen = []"
  using assms by (induction surfaces) (auto simp: bindE_Inr_iff Let_def split: if_splits)

definition agree :: "PreSubmitInvariant \<Rightarrow> PreSubmitInvariant \<Rightarrow> bool" where
  \<comment> \<open>equal in every field, numbers up to the comparison tolerance\<close>
  "agree p q \<longleftrightarrow> list_all2 (\<lambda>e s. fst e = fst s \<and> same_value COMPARISON_TOL (snd e) (snd s)) (fields_of p) (fields_of q)"

lemma compare_agree: "compare_pre_submit_invariants COMPARISON_TOL p q = [] \<longleftrightarrow> agree p q"
  unfolding compare_pre_submit_invariants_def agree_def fields_of_def by (auto split: if_splits)

lemma agree_texts:
  "agree p q \<Longrightarrow> pi_decision q = pi_decision p \<and> pi_failed_gates q = pi_failed_gates p
     \<and> pi_primary_reject_reason q = pi_primary_reject_reason p \<and> pi_portfolio_decision q = pi_portfolio_decision p
     \<and> pi_threshold_provenance q = pi_threshold_provenance p"
  by (simp add: agree_def fields_of_def)

lemma surfaces_agree:
  assumes "assert_pre_submit_invariant_parity tol reference surfaces = Inr expected" "payload \<in> set (reference # surfaces)"
  shows "\<exists>seen. project_pre_submit_invariant payload = Inr seen \<and> coherent tol seen \<and> incomplete_pre_submit_fields seen = []
    \<and> (payload \<in> set surfaces \<longrightarrow> agree expected seen) \<and> pi_decision seen = pi_decision expected
    \<and> pi_failed_gates seen = pi_failed_gates expected \<and> pi_threshold_provenance seen = pi_threshold_provenance expected"
proof -
  have r: "complete_surface tol reference = Inr expected" and c: "check_surfaces tol expected surfaces = Inr expected"
    using assms(1) check_surfaces_parts(1) by (auto simp: assert_pre_submit_invariant_parity_def bindE_Inr_iff)
  have sound: "project_pre_submit_invariant x = Inr s \<and> coherent tol s \<and> incomplete_pre_submit_fields s = []"
    if "complete_surface tol x = Inr s" for x s
    using complete_surface_parts [OF that] assert_parts(1,2,3) coherent_codes by blast
  show ?thesis
  proof (cases "payload \<in> set surfaces")
    case True
    then obtain seen where "complete_surface tol payload = Inr seen" "agree expected seen"
      using check_surfaces_parts(2) [OF c] by (auto simp: compare_agree)
    then show ?thesis using sound agree_texts by blast
  next
    case False
    then show ?thesis using sound [OF r] assms(2) by auto
  qed
qed

text \<open>C35: surfaces that pass the parity assertion are complete, coherent and equal: none of the protected
  fields is missing on any of them, they take the same decision with the same failed gates under
  the same thresholds, and every number agrees up to one billionth.
\<close>
theorem asserted_surfaces_agree:
  assumes "assert_pre_submit_invariant_parity tol reference surfaces = Inr expected" "payload \<in> set (reference # surfaces)"
  shows "\<exists>seen. project_pre_submit_invariant payload = Inr seen \<and> coherent tol seen \<and> incomplete_pre_submit_fields seen = []
    \<and> (payload \<in> set surfaces \<longrightarrow> agree expected seen) \<and> pi_decision seen = pi_decision expected
    \<and> pi_failed_gates seen = pi_failed_gates expected \<and> pi_threshold_provenance seen = pi_threshold_provenance expected"
  by (rule surfaces_agree [OF assms])

subsection \<open>A concrete payload\<close>

definition demo_payload :: pydict where
  "demo_payload =
    [(''decision'', VStr ''accepted''), (''score'', VFloat (Fin 1)), (''rr'', VFloat (Fin 2)),
     (''executable_raw_rr'', VFloat (Fin 2)), (''remaining_execution_penalty'', VFloat (Fin 1)),
     (''effective_rr'', VFloat (Fin 1)), (''rr_basis'', VStr ''expected_fill''),
     (''execution_cost_semantics'', VStr ''embedded''), (''threshold_provenance'', VDict [(''MIN_RR'', VStr ''config'')]),
     (''execution_evidence_status'', VStr ''COMPLETE_MEASURED''), (''portfolio_decision'', VDict [(''accepted'', VBool True)]),
     (''original_notional'', VFloat (Fin 1)), (''risk_scale'', VFloat (Fin 1)), (''effective_notional'', VFloat (Fin 1)),
     (''stop_distance_basis'', VStr ''entry''), (''geometry_status'', VStr ''COMPLETE''), (''geometry_source'', VStr ''candles''),
     (''lifecycle_state'', VStr ''WAITING_ENTRY_ZONE''),
     (''execution_safety'', VDict [(''microstructure'', VDict [(''live_equivalent'', VBool True)])])]"

definition demo_invariant :: PreSubmitInvariant where
  "demo_invariant = \<lparr>pi_decision = ''ACCEPT'', pi_primary_reject_reason = [], pi_failed_gates = [], pi_score = Some (Fin 1),
     pi_candidate_rr = Some (Fin 2), pi_executable_raw_rr = Some (Fin 2), pi_remaining_execution_penalty = Some (Fin 1),
     pi_effective_rr = Some (Fin 1), pi_rr_basis = ''EXPECTED_FILL'', pi_execution_cost_semantics = ''embedded'',
     pi_threshold_provenance = [(''MIN_RR'', ''config'')], pi_execution_evidence_status = ''COMPLETE_MEASURED'',
     pi_portfolio_decision = ''ACCEPT'', pi_original_notional = Some (Fin 1), pi_risk_scale = Some (Fin 1),
     pi_effective_notional = Some (Fin 1), pi_stop_distance_basis = ''ENTRY'', pi_geometry_status = ''COMPLETE'',
     pi_geometry_source = ''CANDLES'', pi_lifecycle_terminal_state = ''WAITING_ENTRY_ZONE''\<rparr>"

lemma demo_projects: "project_pre_submit_invariant demo_payload = Inr demo_invariant"
  by code_simp

lemma demo_asserts: "assert_pre_submit_semantics tol demo_payload = Inr demo_invariant"
proof -
  have n: "number_codes tol demo_invariant = []"
    by (simp add: number_codes_def demo_invariant_def isclose_def py_max_def fsub_def)
  have l: "geometry_leak demo_payload = Inr False" "gate_evidence demo_payload = []"
    "fill_parity_codes tol demo_payload = Inr []" "decision_codes demo_invariant = []"
    by code_simp+
  show ?thesis
    by (simp add: assert_pre_submit_semantics_def validate_pre_submit_semantics_def demo_projects n l code_if_def)
qed

theorem asserted_payload_is_coherent_witness:
  "assert_pre_submit_semantics (Fin 0) demo_payload = Inr demo_invariant \<and> coherent (Fin 0) demo_invariant"
  using asserted_payload_is_coherent [OF demo_asserts] demo_asserts by blast

lemma demo_complete: "complete_surface tol demo_payload = Inr demo_invariant"
proof -
  have "incomplete_pre_submit_fields demo_invariant = []" by code_simp
  then show ?thesis by (simp add: complete_surface_def demo_asserts demo_projects)
qed

lemma demo_agrees: "compare_pre_submit_invariants COMPARISON_TOL demo_invariant demo_invariant = []"
  unfolding compare_agree by (simp add: agree_def fields_of_def demo_invariant_def isclose_def)

lemma demo_parity: "assert_pre_submit_invariant_parity tol demo_payload [demo_payload, demo_payload] = Inr demo_invariant"
  by (simp add: assert_pre_submit_invariant_parity_def demo_complete demo_agrees)

theorem asserted_surfaces_agree_witness:
  "assert_pre_submit_invariant_parity (Fin 0) demo_payload [demo_payload, demo_payload] = Inr demo_invariant
   \<and> (\<exists>seen. project_pre_submit_invariant demo_payload = Inr seen \<and> coherent (Fin 0) seen \<and> agree demo_invariant seen)"
  using asserted_surfaces_agree [OF demo_parity, of demo_payload] demo_parity by auto

end
