(* ===== verification/ReadinessEvidence.thy ===== *)
theory ReadinessEvidence
  imports ReleaseGates
begin

section \<open>Heartbeats and alert probes\<close>

text \<open>
  Two stores the readiness evaluation reads. \<^verbatim>\<open>runtime_heartbeat.py\<close>: a runtime appends a
  row under bounded retries of a busy database, and the latest row is judged fresh or not.
  \<^verbatim>\<open>alert_delivery.py\<close>: a diagnostic alert is sent to a webhook, its acknowledgement is
  checked, and the sanitised result is stored and read back. The webhook transport, the URL
  parser and the timestamp parser are arguments; columns that are only stored are left out.
\<close>

subsection \<open>Retrying a busy database\<close>

datatype attempt = Committed | Busy | Failed
  \<comment> \<open>how one transaction ends; \<open>Failed\<close> is any error that is not lock contention\<close>

fun retry_busy :: "bool \<Rightarrow> ('s \<Rightarrow> 's) \<Rightarrow> nat \<Rightarrow> attempt list \<Rightarrow> 's \<Rightarrow> 's \<times> unit py" where
  \<comment> \<open>\<^verbatim>\<open>for attempt in range(n)\<close>; \<open>sqlite\<close> is the dialect test, a rolled back transaction leaves no trace\<close>
  "retry_busy sqlite operation 0 attempts s = (s, Inl AssertionError)"
| "retry_busy sqlite operation (Suc n) attempts s =
     (case attempts of
        [] \<Rightarrow> (operation s, Inr ())
      | Committed # _ \<Rightarrow> (operation s, Inr ())
      | Failed # _ \<Rightarrow> (s, Inl DatabaseError)
      | Busy # later \<Rightarrow> if \<not> sqlite \<or> n = 0 then (s, Inl DatabaseError) else retry_busy sqlite operation n later s)"

definition with_sqlite_busy_retry :: "bool \<Rightarrow> ('s \<Rightarrow> 's) \<Rightarrow> int \<Rightarrow> attempt list \<Rightarrow> 's \<Rightarrow> 's \<times> unit py" where
  "with_sqlite_busy_retry sqlite operation n attempts s = retry_busy sqlite operation (nat (max 1 n)) attempts s"

lemma retry_busy_once:
  "n \<noteq> 0 \<Longrightarrow> retry_busy sqlite operation n attempts s = (operation s, Inr ()) \<or> retry_busy sqlite operation n attempts s = (s, Inl DatabaseError)"
proof (induction n arbitrary: attempts)
  case (Suc n)
  show ?case
  proof (cases "sqlite \<and> n \<noteq> 0 \<and> (\<exists>later. attempts = Busy # later)")
    case True
    then obtain later where later: "attempts = Busy # later" by blast
    have "retry_busy sqlite operation (Suc n) attempts s = retry_busy sqlite operation n later s" using True by (simp add: later)
    then show ?thesis using Suc.IH [of later] True by metis
  qed (auto split: list.split attempt.split)
qed simp

lemma retry_once:
  "with_sqlite_busy_retry sqlite operation n attempts s = (operation s, Inr ())
   \<or> with_sqlite_busy_retry sqlite operation n attempts s = (s, Inl DatabaseError)"
  unfolding with_sqlite_busy_retry_def by (rule retry_busy_once) simp

lemma retry_outlasts_contention:
  "k < n \<Longrightarrow> retry_busy True operation n (replicate k Busy @ Committed # later) s = (operation s, Inr ())"
proof (induction k arbitrary: n)
  case 0
  then show ?case by (cases n) auto
next
  case (Suc k)
  then obtain m where "n = Suc m" "k < m" by (cases n) auto
  then show ?case using Suc.IH [of m] by auto
qed

subsection \<open>Heartbeats (\<^verbatim>\<open>runtime_heartbeat.py\<close>)\<close>

record heartbeat =
  hb_instance :: string
  hb_mode :: string
  hb_ts :: string
  hb_state :: string
  hb_positions :: int
  hb_orders :: int
  hb_status :: string

definition DEFAULT_MAX_AGE_SEC :: flt where "DEFAULT_MAX_AGE_SEC = Fin 120"
definition DEFAULT_FUTURE_TOLERANCE_SEC :: flt where "DEFAULT_FUTURE_TOLERANCE_SEC = Fin 5"
definition SQLITE_BUSY_RETRY_ATTEMPTS :: int where "SQLITE_BUSY_RETRY_ATTEMPTS = 4"

definition heartbeat_row :: "string \<Rightarrow> string \<Rightarrow> string \<Rightarrow> string \<Rightarrow> int \<Rightarrow> int \<Rightarrow> heartbeat option py" where
  \<comment> \<open>\<open>None\<close>: the mode records no heartbeat\<close>
  "heartbeat_row instance_id execution_mode ts runtime_state positions orders =
    (let mode = py_upper (py_strip execution_mode); inst = py_strip instance_id; state = py_upper (py_strip runtime_state) in
     if mode \<notin> {''PAPER'', ''LIVE''} then Inr None
     else if inst = [] then Inl (ValueError ''runtime_instance_id is required'')
     else if state \<notin> {''OPERATING'', ''RECOVERY_REQUIRED'', ''STOPPING''} then Inl (ValueError ''unsupported runtime_state'')
     else Inr (Some \<lparr>hb_instance = inst, hb_mode = mode, hb_ts = ts, hb_state = state,
            hb_positions = max 0 positions, hb_orders = max 0 orders, hb_status = ''MEASURED_RUNTIME_HEARTBEAT''\<rparr>))"

definition save_runtime_heartbeat ::
  "bool \<Rightarrow> int \<Rightarrow> attempt list \<Rightarrow> heartbeat list option \<Rightarrow> heartbeat option py \<Rightarrow> heartbeat list option \<times> unit py" where
  "save_runtime_heartbeat sqlite retry_attempts attempts t row =
    (case row of Inl e \<Rightarrow> (t, Inl e) | Inr None \<Rightarrow> (t, Inr ())
     | Inr (Some r) \<Rightarrow> with_sqlite_busy_retry sqlite (\<lambda>t. Some ((case t of None \<Rightarrow> [] | Some rows \<Rightarrow> rows) @ [r]))
         retry_attempts attempts t)"

definition fetch_latest_runtime_heartbeat :: "bool \<Rightarrow> heartbeat list option \<Rightarrow> string \<Rightarrow> heartbeat option" where
  \<comment> \<open>an empty mode asks for any; a failing query (\<open>ok\<close> false) finds nothing\<close>
  "fetch_latest_runtime_heartbeat ok t execution_mode =
    (if \<not> ok then None else case t of None \<Rightarrow> None
     | Some rows \<Rightarrow> last_row (\<lambda>r. execution_mode = [] \<or> py_upper (hb_mode r) = py_upper (py_strip execution_mode)) rows)"

record HeartbeatFreshness =
  hf_state :: string
  hf_reason :: string
  hf_latest :: "heartbeat option"
  hf_age :: "flt option"
  hf_max :: flt

definition is_fresh :: "HeartbeatFreshness \<Rightarrow> bool" where "is_fresh f \<longleftrightarrow> hf_state f = ''FRESH''"

definition evaluate_runtime_heartbeat_freshness ::
  "(string \<Rightarrow> int option) \<Rightarrow> flt \<Rightarrow> int \<Rightarrow> flt \<Rightarrow> bool \<Rightarrow> heartbeat list option \<Rightarrow> string \<Rightarrow> HeartbeatFreshness" where
  \<comment> \<open>\<open>parse\<close> is \<^verbatim>\<open>_parse_utc_timestamp\<close>\<close>
  "evaluate_runtime_heartbeat_freshness parse max_age_sec now tolerance ok t required_mode =
    (let mode = py_upper (py_strip required_mode); max_age = py_max (Fin 1) max_age_sec;
         verdict = (\<lambda>state why row age. \<lparr>hf_state = state, hf_reason = why, hf_latest = row, hf_age = age, hf_max = max_age\<rparr>) in
     case fetch_latest_runtime_heartbeat ok t mode of
       None \<Rightarrow> verdict ''MISSING'' (if mode = [] then ''NO_PERSISTED_RUNTIME_HEARTBEAT''
                 else ''NO_PERSISTED_'' @ mode @ ''_RUNTIME_HEARTBEAT'') None None
     | Some r \<Rightarrow>
         (case parse (hb_ts r) of
            None \<Rightarrow> verdict ''INVALID'' ''HEARTBEAT_TIMESTAMP_INVALID'' (Some r) None
          | Some ts \<Rightarrow>
              if py_upper (hb_status r) \<noteq> ''MEASURED_RUNTIME_HEARTBEAT''
              then verdict ''INVALID'' ''HEARTBEAT_EVIDENCE_STATUS_INVALID'' (Some r) None
              else if py_upper (hb_state r) \<noteq> ''OPERATING''
              then verdict ''INVALID'' ''RUNTIME_NOT_OPERATING'' (Some r) None
              else
                let delta = age_seconds now ts; age = py_max (Fin 0) delta in
                if flt_less delta (fneg (flt_abs tolerance))
                then verdict ''FUTURE_DATED'' ''HEARTBEAT_TIMESTAMP_IN_FUTURE'' (Some r) (Some delta)
                else if flt_less max_age age then verdict ''STALE'' ''HEARTBEAT_EXCEEDS_MAX_AGE'' (Some r) (Some age)
                else verdict ''FRESH'' ''HEARTBEAT_WITHIN_MAX_AGE'' (Some r) (Some age)))"

lemma fresh_heartbeat:
  assumes "is_fresh (evaluate_runtime_heartbeat_freshness parse max_age now tolerance ok t mode)"
  obtains rows r ts where "ok" "t = Some rows" "r \<in> set rows" "parse (hb_ts r) = Some ts"
    "py_upper (hb_state r) = ''OPERATING''" "\<not> flt_less (py_max (Fin 1) max_age) (py_max (Fin 0) (age_seconds now ts))"
  using assms
  by (auto simp: is_fresh_def evaluate_runtime_heartbeat_freshness_def fetch_latest_runtime_heartbeat_def Let_def
      dest!: last_row_Some split: if_splits option.splits)

subsection \<open>Alert delivery (\<^verbatim>\<open>alert_delivery.py\<close>)\<close>

record url_parts =
  u_scheme :: string
  u_netloc :: string
  u_credentials :: bool
  \<comment> \<open>\<^verbatim>\<open>urlsplit\<close>: the last field says whether a user name or a password is given\<close>

definition probe_origin :: "(string \<Rightarrow> url_parts py) \<Rightarrow> string \<Rightarrow> string option py" where
  "probe_origin urlsplit endpoint_url =
    bindE (urlsplit (py_strip endpoint_url)) (\<lambda>parsed.
      Inr (if py_lower (u_scheme parsed) \<noteq> ''https'' \<or> u_netloc parsed = [] \<or> u_credentials parsed then None
           else Some (''https://'' @ u_netloc parsed)))"

definition incomplete_alert :: "string \<Rightarrow> string \<Rightarrow> string \<Rightarrow> bool \<Rightarrow> pydict" where
  "incomplete_alert why origin probe_id attempted =
    [(''provider_configured'', VBool True), (''evidence_status'', VStr ''INCOMPLETE''),
     (''observability_evidence_source'', VStr ''MEASURED_PROBE''), (''alert_delivery_verified'', VBool False),
     (''delivery_attempted'', VBool attempted), (''delivery_acknowledged'', VBool False),
     (''non_trading_probe_verified'', VBool True), (''endpoint_origin'', VStr origin),
     (''blocking_reasons'', VList [VStr why])]
    @ (if probe_id = [] then [] else [(''probe_id'', VStr probe_id)])"

definition probe_payload :: "string \<Rightarrow> pydict" where
  "probe_payload probe_id =
    [(''event_type'', VStr ''ALPHAFORGE_LIVE_READINESS_ALERT_PROBE''), (''probe_id'', VStr probe_id),
     (''severity'', VStr ''INFO''), (''non_trading_probe'', VBool True), (''requires_acknowledgement'', VBool True)]"

definition acknowledged :: "pydict \<Rightarrow> string \<Rightarrow> bool" where
  "acknowledged response probe_id \<longleftrightarrow>
     truthy (dget_or response ''acknowledged'' (VBool False)) \<and> text_or_empty (dget response ''probe_id'') = probe_id
     \<and> py_upper (text_or_empty (dget response ''status'')) \<in> {''ACKNOWLEDGED'', ''DELIVERED''}"

definition provider_snapshot ::
  "(string \<Rightarrow> url_parts py) \<Rightarrow> (string \<Rightarrow> pydict \<Rightarrow> string + pydict) \<Rightarrow> string \<Rightarrow> string \<Rightarrow> pydict py" where
  \<comment> \<open>\<open>transport\<close> posts the payload to the endpoint; on the left the class of its exception\<close>
  "provider_snapshot urlsplit transport endpoint_url probe =
    bindE (probe_origin urlsplit endpoint_url) (\<lambda>found.
    let probe_id = py_strip probe in
    Inr (if probe_id = [] then incomplete_alert ''EMPTY_PROBE_ID'' ''UNAVAILABLE'' [] False
         else case found of
           None \<Rightarrow> incomplete_alert ''INVALID_OR_INSECURE_ENDPOINT'' ''UNAVAILABLE'' probe_id False
         | Some origin \<Rightarrow>
             (case transport endpoint_url (probe_payload probe_id) of
                Inl cls \<Rightarrow> incomplete_alert (''DELIVERY_EXCEPTION:'' @ cls) origin probe_id True
              | Inr response \<Rightarrow>
                  if \<not> acknowledged response probe_id
                  then incomplete_alert ''ACKNOWLEDGEMENT_NOT_VERIFIED'' origin probe_id True
                  else [(''provider_configured'', VBool True), (''evidence_status'', VStr ''COMPLETE''),
                        (''observability_evidence_source'', VStr ''MEASURED_PROBE''),
                        (''alert_delivery_verified'', VBool True), (''delivery_attempted'', VBool True),
                        (''delivery_acknowledged'', VBool True), (''non_trading_probe_verified'', VBool True),
                        (''probe_id'', VStr probe_id), (''endpoint_origin'', VStr origin),
                        (''blocking_reasons'', VList [])])))"

definition ALERT_FIELDS :: "string list" where
  "ALERT_FIELDS = [''provider_configured'', ''evidence_status'', ''observability_evidence_source'',
     ''alert_delivery_verified'', ''delivery_attempted'', ''delivery_acknowledged'', ''non_trading_probe_verified'',
     ''probe_id'', ''endpoint_origin'', ''blocking_reasons'']"

definition alert_field :: "pydict \<Rightarrow> string \<Rightarrow> pyval" where
  \<comment> \<open>the value \<^verbatim>\<open>_safe_payload\<close> gives a field\<close>
  "alert_field evidence k =
    (let v = dget evidence k in
     if k = ''evidence_status'' then VStr (py_upper (str_or v ''INCOMPLETE''))
     else if k = ''observability_evidence_source'' then VStr (py_upper (str_or v ''UNVERIFIED''))
     else if k = ''endpoint_origin'' then VStr (str_or v ''UNAVAILABLE'')
     else if k = ''blocking_reasons'' then
       VList (map (\<lambda>x. VStr (take 100 (py_str x))) (case py_or v (VList []) of VList xs \<Rightarrow> xs | w \<Rightarrow> [w]))
     else if k = ''probe_id'' then VStr (take 120 (py_str v))
     else VBool (truthy v))"

definition safe_alert_payload :: "pydict \<Rightarrow> pydict" where
  \<comment> \<open>every field is present except a probe id that was not given\<close>
  "safe_alert_payload evidence =
     map (\<lambda>k. (k, alert_field evidence k)) (filter (\<lambda>k. k \<noteq> ''probe_id'' \<or> map_of evidence k \<noteq> None) ALERT_FIELDS)"

record alert_row =
  al_recorded :: string
  al_status :: string
  al_verified :: bool
  al_payload :: "pyval option"

definition captured_alert :: "string \<Rightarrow> pydict \<Rightarrow> alert_row" where
  \<comment> \<open>the row \<^verbatim>\<open>_persist_captured_evidence\<close> inserts\<close>
  "captured_alert now_text evidence =
    (let safe = safe_alert_payload evidence in
     \<lparr>al_recorded = now_text, al_status = py_str (dget safe ''evidence_status''),
      al_verified = truthy (dget safe ''alert_delivery_verified''), al_payload = Some (VDict safe)\<rparr>)"

definition capture_alert_delivery_evidence :: "string \<Rightarrow> alert_row list option \<Rightarrow> pydict py \<Rightarrow> alert_row list option \<times> pydict py" where
  "capture_alert_delivery_evidence now_text t snapshot =
    (case snapshot of Inl e \<Rightarrow> (t, Inl e)
     | Inr evidence \<Rightarrow> (Some ((case t of None \<Rightarrow> [] | Some rows \<Rightarrow> rows) @ [captured_alert now_text evidence]),
                        Inr (safe_alert_payload evidence)))"

definition missing_alert :: pydict where
  "missing_alert =
    [(''observability_evidence_source'', VStr ''UNVERIFIED''), (''observability_evidence_persisted'', VBool False),
     (''alert_delivery_verified'', VBool False), (''alert_delivery_evidence_status'', VStr ''INCOMPLETE''),
     (''alert_delivery_blocking_reasons'', VList [VStr ''ALERT_DELIVERY_EVIDENCE_MISSING''])]"

definition blocked_alert :: "string \<Rightarrow> pydict" where
  "blocked_alert why = dupdate missing_alert
     [(''observability_evidence_persisted'', VBool True), (''alert_delivery_blocking_reasons'', VList [VStr why])]"

definition alert_row_valid :: "alert_row \<Rightarrow> pyval \<Rightarrow> bool" where
  "alert_row_valid row payload \<longleftrightarrow>
    (case payload of VDict d \<Rightarrow>
       py_upper (al_status row) = ''COMPLETE'' \<and> al_verified row \<and>
       py_upper (text_or_empty (dget d ''evidence_status'')) = ''COMPLETE'' \<and>
       py_upper (text_or_empty (dget d ''observability_evidence_source'')) = ''MEASURED_PROBE'' \<and>
       truthy (dget d ''alert_delivery_verified'') \<and> truthy (dget d ''delivery_attempted'') \<and>
       truthy (dget d ''delivery_acknowledged'') \<and> truthy (dget d ''non_trading_probe_verified'')
     | _ \<Rightarrow> False)"

definition latest_persisted_alert_delivery_evidence ::
  "(string \<Rightarrow> int option) \<Rightarrow> flt \<Rightarrow> int \<Rightarrow> alert_row list option \<Rightarrow> pydict" where
  "latest_persisted_alert_delivery_evidence parse_ts max_age now t =
    (case t of None \<Rightarrow> missing_alert
     | Some rows \<Rightarrow> (case last_row (\<lambda>_. True) rows of None \<Rightarrow> missing_alert
     | Some row \<Rightarrow> (case parse_ts (al_recorded row) of None \<Rightarrow> blocked_alert ''ALERT_DELIVERY_EVIDENCE_INVALID_TIMESTAMP''
     | Some recorded \<Rightarrow>
         let age = age_seconds now recorded in
         if flt_less age (Fin (- 5)) then blocked_alert ''ALERT_DELIVERY_EVIDENCE_FUTURE_DATED''
         else if flt_less max_age age then blocked_alert ''ALERT_DELIVERY_EVIDENCE_STALE''
         else case al_payload row of None \<Rightarrow> blocked_alert ''ALERT_DELIVERY_EVIDENCE_INVALID''
         | Some payload \<Rightarrow>
             let valid = alert_row_valid row payload in
             [(''observability_evidence_source'', VStr (if valid then ''MEASURED_PROBE'' else ''UNVERIFIED'')),
              (''observability_evidence_persisted'', VBool True), (''alert_delivery_verified'', VBool valid),
              (''alert_delivery_evidence_status'', VStr (if valid then ''COMPLETE'' else ''INCOMPLETE'')),
              (''alert_delivery_blocking_reasons'', VList (if valid then [] else [VStr ''ALERT_DELIVERY_EVIDENCE_INVALID''])),
              (''alert_delivery_age_sec'', VFloat age)])))"

subsection \<open>What the stores guarantee\<close>

lemma heartbeat_saved_once:
  assumes "save_runtime_heartbeat sqlite n attempts t (Inr (Some r)) = (t1, result)"
  shows "(result = Inr () \<and> t1 = Some ((case t of None \<Rightarrow> [] | Some rows \<Rightarrow> rows) @ [r])) \<or> (result = Inl DatabaseError \<and> t1 = t)"
  using assms retry_once [of sqlite "\<lambda>t. Some ((case t of None \<Rightarrow> [] | Some rows \<Rightarrow> rows) @ [r])" n attempts t]
  by (auto simp: save_runtime_heartbeat_def)

lemma incomplete_not_verified: "alert_field (incomplete_alert why origin probe_id attempted) ''alert_delivery_verified'' = VBool False"
  by (simp add: alert_field_def incomplete_alert_def)

lemma safe_verified: "dget (safe_alert_payload e) ''alert_delivery_verified'' = alert_field e ''alert_delivery_verified''"
  by (simp add: safe_alert_payload_def ALERT_FIELDS_def)

lemma blocked_alert_not_verified:
  "dget (blocked_alert why) ''alert_delivery_verified'' = VBool False" "dget missing_alert ''alert_delivery_verified'' = VBool False"
  by (simp_all add: blocked_alert_def missing_alert_def dupdate_def)

lemma complete_snapshot:
  assumes "provider_snapshot urlsplit transport url probe = Inr evidence"
    "alert_field evidence ''alert_delivery_verified'' \<noteq> VBool False"
  obtains parts response where "urlsplit (py_strip url) = Inr parts" "py_lower (u_scheme parts) = ''https''" "\<not> u_credentials parts"
    "py_strip probe \<noteq> []" "transport url (probe_payload (py_strip probe)) = Inr response" "acknowledged response (py_strip probe)"
proof -
  have "\<exists>parts response. urlsplit (py_strip url) = Inr parts \<and> py_lower (u_scheme parts) = ''https'' \<and> \<not> u_credentials parts
      \<and> py_strip probe \<noteq> [] \<and> transport url (probe_payload (py_strip probe)) = Inr response \<and> acknowledged response (py_strip probe)"
    using assms unfolding provider_snapshot_def probe_origin_def Let_def bindE_Inr_iff
    by (elim exE conjE) (auto simp: incomplete_not_verified split: if_splits option.splits sum.splits)
  then show thesis using that by blast
qed

text \<open>C29: an alert channel counts as verified only when it answered: when the evidence read back
  after a probe says \<^verbatim>\<open>alert_delivery_verified\<close>, the endpoint is https without credentials, the
  transport returned, its answer acknowledged that very probe with an accepted status, and the
  stored result is not older than the caller allows. Whatever the rows before it say.
\<close>
theorem verified_alert_was_acknowledged:
  assumes "provider_snapshot urlsplit transport url probe = Inr evidence"
    and "capture_alert_delivery_evidence now_text t (Inr evidence) = (t1, captured)"
    and "truthy (dget (latest_persisted_alert_delivery_evidence parse_ts max_age now t1) ''alert_delivery_verified'')"
  shows "\<exists>parts response recorded. urlsplit (py_strip url) = Inr parts \<and> py_lower (u_scheme parts) = ''https'' \<and> \<not> u_credentials parts
      \<and> transport url (probe_payload (py_strip probe)) = Inr response \<and> acknowledged response (py_strip probe) \<and> py_strip probe \<noteq> []
      \<and> parse_ts now_text = Some recorded \<and> \<not> flt_less max_age (age_seconds now recorded)"
proof -
  let ?row = "captured_alert now_text evidence"
  have t1: "t1 = Some ((case t of None \<Rightarrow> [] | Some rows \<Rightarrow> rows) @ [?row])"
    using assms(2) by (simp add: capture_alert_delivery_evidence_def)
  have row: "al_recorded ?row = now_text" "al_payload ?row = Some (VDict (safe_alert_payload evidence))"
    by (simp_all add: captured_alert_def Let_def)
  obtain recorded where r: "parse_ts now_text = Some recorded" "\<not> flt_less max_age (age_seconds now recorded)"
    and valid: "alert_row_valid ?row (VDict (safe_alert_payload evidence))"
    using assms(3) unfolding latest_persisted_alert_delivery_evidence_def t1
    by (auto simp: last_row_snoc row blocked_alert_not_verified Let_def split: option.splits if_splits)
  have "alert_field evidence ''alert_delivery_verified'' \<noteq> VBool False"
    using valid by (auto simp: alert_row_valid_def safe_verified)
  then show ?thesis using complete_snapshot [OF assms(1)] r by metis
qed

definition demo_transport :: "string \<Rightarrow> pydict \<Rightarrow> string + pydict" where
  "demo_transport url payload =
     Inr [(''acknowledged'', VBool True), (''probe_id'', dget payload ''probe_id''), (''status'', VStr ''delivered'')]"

definition demo_split :: "string \<Rightarrow> url_parts py" where
  "demo_split url = Inr \<lparr>u_scheme = ''https'', u_netloc = ''alerts'', u_credentials = False\<rparr>"

lemma demo_alert:
  "case provider_snapshot demo_split demo_transport ''https://alerts'' ''p1'' of Inl _ \<Rightarrow> False
   | Inr evidence \<Rightarrow> alert_row_valid (captured_alert ''now'' evidence) (VDict (safe_alert_payload evidence))"
  by code_simp

theorem verified_alert_was_acknowledged_witness:
  "\<exists>evidence t1 captured. provider_snapshot demo_split demo_transport ''https://alerts'' ''p1'' = Inr evidence
     \<and> capture_alert_delivery_evidence ''now'' None (Inr evidence) = (t1, captured)
     \<and> truthy (dget (latest_persisted_alert_delivery_evidence (\<lambda>_. Some 0) (Fin 900) 0 t1) ''alert_delivery_verified'')
     \<and> (\<exists>response. demo_transport ''https://alerts'' (probe_payload (py_strip ''p1'')) = Inr response \<and> acknowledged response (py_strip ''p1''))"
proof -
  obtain evidence where e: "provider_snapshot demo_split demo_transport ''https://alerts'' ''p1'' = Inr evidence"
    and v: "alert_row_valid (captured_alert ''now'' evidence) (VDict (safe_alert_payload evidence))"
    using demo_alert by (auto split: sum.splits)
  obtain t1 captured where c: "capture_alert_delivery_evidence ''now'' None (Inr evidence) = (t1, captured)" by fastforce
  have t1: "t1 = Some [captured_alert ''now'' evidence]" using c by (simp add: capture_alert_delivery_evidence_def)
  have l: "truthy (dget (latest_persisted_alert_delivery_evidence (\<lambda>_. Some 0) (Fin 900) 0 t1) ''alert_delivery_verified'')"
    using v by (simp add: latest_persisted_alert_delivery_evidence_def t1 last_row_def captured_alert_def age_seconds_def Let_def)
  then show ?thesis using e c verified_alert_was_acknowledged [OF e c l] by blast
qed

end
