(* ===== verification/Lifecycle.thy ===== *)
theory Lifecycle
  imports PyVal
begin

section \<open>The lifecycle contract (\<^verbatim>\<open>lifecycle_contract.py\<close>, \<^verbatim>\<open>contracts.py\<close>)\<close>

text \<open>
  The canonical events of a signal's life, the legacy names mapped onto them, the table of
  allowed transitions, and the extended table of execution states behind
  \<^verbatim>\<open>validate_transition\<close>. Events are the strings the code stores; the enumerations are
  datatypes with their string values. The lemmas give the normal form of event names, the
  step relation of the canonical table, and the order in which an accepted history must
  pass its states.
\<close>

subsection \<open>Canonical events\<close>

datatype CanonicalLifecycleEvent =
    SIGNAL_CREATED | SIGNAL_REJECTED | SYMBOL_REJECTED | WAITING_ENTRY_ZONE | ENTRY_TRIGGERED
  | ORDER_PLACED | ORDER_REJECTED | POSITION_OPENED | POSITION_CLOSED | ENTRY_TIMEOUT
  | CANCELLED | ERROR

primrec event_value :: "CanonicalLifecycleEvent \<Rightarrow> string" where
  "event_value SIGNAL_CREATED = ''SIGNAL_CREATED''"
| "event_value SIGNAL_REJECTED = ''SIGNAL_REJECTED''"
| "event_value SYMBOL_REJECTED = ''SYMBOL_REJECTED''"
| "event_value WAITING_ENTRY_ZONE = ''WAITING_ENTRY_ZONE''"
| "event_value ENTRY_TRIGGERED = ''ENTRY_TRIGGERED''"
| "event_value ORDER_PLACED = ''ORDER_PLACED''"
| "event_value ORDER_REJECTED = ''ORDER_REJECTED''"
| "event_value POSITION_OPENED = ''POSITION_OPENED''"
| "event_value POSITION_CLOSED = ''POSITION_CLOSED''"
| "event_value ENTRY_TIMEOUT = ''ENTRY_TIMEOUT''"
| "event_value CANCELLED = ''CANCELLED''"
| "event_value ERROR = ''ERROR''"

definition CANONICAL_LIFECYCLE_EVENTS :: "string list" where
  "CANONICAL_LIFECYCLE_EVENTS = map event_value
    [SIGNAL_CREATED, SIGNAL_REJECTED, SYMBOL_REJECTED, WAITING_ENTRY_ZONE, ENTRY_TRIGGERED,
     ORDER_PLACED, ORDER_REJECTED, POSITION_OPENED, POSITION_CLOSED, ENTRY_TIMEOUT, CANCELLED, ERROR]"

definition LEGACY_LIFECYCLE_EVENT_MAP :: "(string \<times> string) list" where
  "LEGACY_LIFECYCLE_EVENT_MAP =
    [(''CREATED'', event_value SIGNAL_CREATED),
     (''SIGNAL_ACCEPTED'', event_value WAITING_ENTRY_ZONE),
     (''ORDER_CANCELLED'', event_value CANCELLED),
     (''CANCELED'', event_value CANCELLED),
     (''EXPIRED'', event_value ENTRY_TIMEOUT),
     (''OPEN_AT_END'', event_value POSITION_CLOSED),
     (''TP_HIT'', event_value POSITION_CLOSED),
     (''SL_HIT'', event_value POSITION_CLOSED)]"

primrec transitions_of :: "CanonicalLifecycleEvent \<Rightarrow> CanonicalLifecycleEvent list" where
  "transitions_of SIGNAL_CREATED = [SIGNAL_REJECTED, WAITING_ENTRY_ZONE, ORDER_REJECTED, CANCELLED]"
| "transitions_of WAITING_ENTRY_ZONE = [ENTRY_TRIGGERED, ENTRY_TIMEOUT, CANCELLED]"
| "transitions_of ENTRY_TRIGGERED = [ORDER_PLACED, ORDER_REJECTED, CANCELLED]"
| "transitions_of ORDER_PLACED = [POSITION_OPENED, ORDER_REJECTED, ENTRY_TIMEOUT, CANCELLED]"
| "transitions_of POSITION_OPENED = [POSITION_CLOSED, CANCELLED]"
| "transitions_of SIGNAL_REJECTED = [SIGNAL_CREATED]"
| "transitions_of SYMBOL_REJECTED = [SIGNAL_CREATED]"
| "transitions_of ORDER_REJECTED = [SIGNAL_CREATED]"
| "transitions_of POSITION_CLOSED = [SIGNAL_CREATED]"
| "transitions_of ENTRY_TIMEOUT = [SIGNAL_CREATED]"
| "transitions_of CANCELLED = [SIGNAL_CREATED]"
| "transitions_of ERROR = [SIGNAL_CREATED]"

definition CANONICAL_LIFECYCLE_TRANSITIONS :: "(string \<times> string list) list" where
  "CANONICAL_LIFECYCLE_TRANSITIONS = map (\<lambda>e. (event_value e, map event_value (transitions_of e)))
    [SIGNAL_CREATED, WAITING_ENTRY_ZONE, ENTRY_TRIGGERED, ORDER_PLACED, POSITION_OPENED,
     SIGNAL_REJECTED, SYMBOL_REJECTED, ORDER_REJECTED, POSITION_CLOSED, ENTRY_TIMEOUT,
     CANCELLED, ERROR]"

definition normalize_lifecycle_event :: "string option \<Rightarrow> bool \<Rightarrow> string py" where
  "normalize_lifecycle_event raw allow_legacy =
    (let v0 = py_upper (py_strip (case raw of None \<Rightarrow> [] | Some s \<Rightarrow> s));
         v = (if allow_legacy then case map_of LEGACY_LIFECYCLE_EVENT_MAP v0 of Some c \<Rightarrow> c | None \<Rightarrow> v0
              else v0)
     in if v \<in> set CANONICAL_LIFECYCLE_EVENTS then Inr v
        else Inl (ValueError (''unknown lifecycle event: ''
               @ (case raw of None \<Rightarrow> ''None'' | Some s \<Rightarrow> repr_str s))))"

definition is_canonical_lifecycle_event :: "string option \<Rightarrow> bool" where
  "is_canonical_lifecycle_event raw =
    (case normalize_lifecycle_event raw False of Inl _ \<Rightarrow> False | Inr _ \<Rightarrow> True)"

definition is_valid_lifecycle_transition :: "string option \<Rightarrow> string \<Rightarrow> bool py" where
  "is_valid_lifecycle_transition previous_state next_state =
    bindE (normalize_lifecycle_event (Some next_state) True) (\<lambda>next_canonical.
      case previous_state of
        None \<Rightarrow> Inr (next_canonical = event_value SIGNAL_CREATED)
      | Some p \<Rightarrow>
          bindE (normalize_lifecycle_event (Some p) True) (\<lambda>previous_canonical.
            Inr (next_canonical \<in> set (case map_of CANONICAL_LIFECYCLE_TRANSITIONS previous_canonical of
                   None \<Rightarrow> [] | Some ns \<Rightarrow> ns))))"

subsection \<open>The extended table\<close>

definition EXECUTION_STATE_TRANSITIONS :: "(string \<times> string list) list" where
  \<comment> \<open>the entries \<^verbatim>\<open>ALLOWED_LIFECYCLE_TRANSITIONS.update\<close> adds\<close>
  "EXECUTION_STATE_TRANSITIONS =
    [(''ERROR'', [''SIGNAL_CREATED'']),
     (''ENTRY_PENDING'', [''ENTRY_SUBMITTED'', ''CANCEL_REQUESTED'', ''EXECUTION_ERROR'',
        ''RUNTIME_PROTECTIVE_EXIT'', ''ERROR'']),
     (''ENTRY_SUBMITTED'', [''ENTRY_ACKNOWLEDGED'', ''EXCHANGE_REJECT'', ''EXECUTION_ERROR'',
        ''CANCEL_REQUESTED'', ''ERROR'']),
     (''ENTRY_ACKNOWLEDGED'', [''ENTRY_PARTIAL'', ''ENTRY_FILLED'', ''CANCEL_REQUESTED'',
        ''EXECUTION_ERROR'', ''ERROR'']),
     (''ENTRY_PARTIAL'', [''ENTRY_FILLED'', ''CANCEL_REQUESTED'', ''EXECUTION_ERROR'', ''ERROR'']),
     (''ENTRY_FILLED'', [''STOP_SUBMITTED'', ''TAKE_PROFIT_SUBMITTED'', ''CANCEL_REQUESTED'',
        ''RECONCILIATION_REPAIR'', ''ERROR'']),
     (''STOP_SUBMITTED'', [''TAKE_PROFIT_SUBMITTED'', ''CANCEL_REQUESTED'', ''RECONCILIATION_REPAIR'',
        ''ERROR'']),
     (''TAKE_PROFIT_SUBMITTED'', [''CANCEL_REQUESTED'', ''RECONCILIATION_REPAIR'', ''ERROR'']),
     (''CANCEL_REQUESTED'', [''CANCELLED'', ''RECONCILIATION_REPAIR'', ''EXECUTION_ERROR'', ''ERROR'']),
     (''RECONCILIATION_REPAIR'', [''CANCEL_REQUESTED'', ''CANCELLED'', ''ENTRY_ACKNOWLEDGED'',
        ''ENTRY_PARTIAL'', ''ENTRY_FILLED'', ''ERROR'']),
     (''EXECUTION_ERROR'', [''CANCEL_REQUESTED'', ''RECONCILIATION_REPAIR'',
        ''RUNTIME_PROTECTIVE_EXIT'', ''ERROR'']),
     (''EXCHANGE_REJECT'', [''CANCELLED'', ''RECONCILIATION_REPAIR'', ''ERROR'']),
     (''RUNTIME_PROTECTIVE_EXIT'', [''CANCEL_REQUESTED'', ''CANCELLED'', ''ERROR''])]"

definition ALLOWED_LIFECYCLE_TRANSITIONS :: "string \<rightharpoonup> string list" where
  "ALLOWED_LIFECYCLE_TRANSITIONS =
    map_of CANONICAL_LIFECYCLE_TRANSITIONS ++ map_of EXECUTION_STATE_TRANSITIONS"

definition canonical_reject_reason :: "string option \<Rightarrow> string" where
  "canonical_reject_reason raw =
    (let value = py_upper (py_strip (case raw of None \<Rightarrow> [] | Some s \<Rightarrow> s))
     in if value \<noteq> [] then value else ''UNKNOWN'')"

definition validate_transition :: "string option \<Rightarrow> string \<Rightarrow> bool" where
  "validate_transition previous_state next_state =
    (case previous_state of
       None \<Rightarrow> next_state \<in> {''SIGNAL_CREATED'', ''ENTRY_PENDING''}
     | Some p \<Rightarrow>
         (case is_valid_lifecycle_transition (Some p) next_state of
            Inr b \<Rightarrow> b
          | Inl _ \<Rightarrow> next_state \<in> set (case ALLOWED_LIFECYCLE_TRANSITIONS p of None \<Rightarrow> [] | Some ns \<Rightarrow> ns)))"

subsection \<open>Facts about names\<close>

lemma event_value_inj: "event_value a = event_value b \<longleftrightarrow> a = b"
  by (cases a; cases b) simp_all

lemma event_value_canonical [simp]: "event_value e \<in> set CANONICAL_LIFECYCLE_EVENTS"
  by (cases e) (simp_all add: CANONICAL_LIFECYCLE_EVENTS_def)

lemma canonical_eventE:
  assumes "v \<in> set CANONICAL_LIFECYCLE_EVENTS"
  obtains e where "v = event_value e"
  using assms unfolding CANONICAL_LIFECYCLE_EVENTS_def by (auto simp del: event_value.simps)

lemma normalize_Inr_canonical: "normalize_lifecycle_event raw l = Inr v \<Longrightarrow> v \<in> set CANONICAL_LIFECYCLE_EVENTS"
  by (auto simp: normalize_lifecycle_event_def Let_def split: if_splits)

lemma normalize_errors: "normalize_lifecycle_event raw l = Inl e \<Longrightarrow> \<exists>m. e = ValueError m"
  by (auto simp: normalize_lifecycle_event_def Let_def split: if_splits)

lemma upper_strip_event [simp]: "py_upper (py_strip (event_value e)) = event_value e"
  by (cases e) (simp_all add: str_eval)

lemma legacy_event_None [simp]: "map_of LEGACY_LIFECYCLE_EVENT_MAP (event_value e) = None"
  by (cases e) (simp_all add: LEGACY_LIFECYCLE_EVENT_MAP_def)

lemma normalize_event [simp]: "normalize_lifecycle_event (Some (event_value e)) l = Inr (event_value e)"
  by (simp add: normalize_lifecycle_event_def Let_def)

lemma transitions_lookup [simp]:
  "map_of CANONICAL_LIFECYCLE_TRANSITIONS (event_value e) = Some (map event_value (transitions_of e))"
  by (cases e) (simp_all add: CANONICAL_LIFECYCLE_TRANSITIONS_def)

lemma valid_transition_events [simp]:
  "is_valid_lifecycle_transition (Some (event_value a)) (event_value b) = Inr (b \<in> set (transitions_of a))"
  by (auto simp: is_valid_lifecycle_transition_def event_value_inj)

lemma valid_transition_initial [simp]:
  "is_valid_lifecycle_transition None (event_value b) = Inr (b = SIGNAL_CREATED)"
  by (simp add: is_valid_lifecycle_transition_def event_value_inj del: event_value.simps)


lemma execution_states_not_normal:
  "list_all (\<lambda>p. py_upper (py_strip p) = p \<and> map_of LEGACY_LIFECYCLE_EVENT_MAP p = None
     \<and> \<not> List.member CANONICAL_LIFECYCLE_EVENTS p) (map fst (tl EXECUTION_STATE_TRANSITIONS))"
  by (simp add: EXECUTION_STATE_TRANSITIONS_def py_upper_id py_strip_id is_space_def
      LEGACY_LIFECYCLE_EVENT_MAP_def CANONICAL_LIFECYCLE_EVENTS_def)

lemma execution_state_not_normal:
  assumes "p \<in> fst ` set (tl EXECUTION_STATE_TRANSITIONS)"
  shows "\<exists>m. normalize_lifecycle_event (Some p) True = Inl m"
  using assms execution_states_not_normal
  by (auto simp: list_all_iff normalize_lifecycle_event_def)

subsection \<open>Histories\<close>

text \<open>
  A history is the list of events persisted for one signal, each checked against the one
  before it, the first against no state. Its canonical form runs along \<open>lifecycle_step\<close>.
\<close>

fun history_ok :: "string option \<Rightarrow> string list \<Rightarrow> bool" where
  "history_ok prev [] = True"
| "history_ok prev (x # xs) =
     (is_valid_lifecycle_transition prev x = Inr True \<and> history_ok (Some x) xs)"

inductive lifecycle_step :: "CanonicalLifecycleEvent \<Rightarrow> CanonicalLifecycleEvent \<Rightarrow> bool" where
  "b \<in> set (transitions_of a) \<Longrightarrow> lifecycle_step a b"

inductive_simps to_opened: "lifecycle_step a POSITION_OPENED"
inductive_simps to_placed: "lifecycle_step a ORDER_PLACED"
inductive_simps to_triggered: "lifecycle_step a ENTRY_TRIGGERED"
inductive_simps to_waiting: "lifecycle_step a WAITING_ENTRY_ZONE"
inductive_simps to_error: "lifecycle_step a ERROR"

lemma step_preds:
  "lifecycle_step a POSITION_OPENED \<longleftrightarrow> a = ORDER_PLACED"
  "lifecycle_step a ORDER_PLACED \<longleftrightarrow> a = ENTRY_TRIGGERED"
  "lifecycle_step a ENTRY_TRIGGERED \<longleftrightarrow> a = WAITING_ENTRY_ZONE"
  "lifecycle_step a WAITING_ENTRY_ZONE \<longleftrightarrow> a = SIGNAL_CREATED"
  "\<not> lifecycle_step a ERROR"
  unfolding to_opened to_placed to_triggered to_waiting to_error by (cases a; simp)+

fun path :: "CanonicalLifecycleEvent option \<Rightarrow> CanonicalLifecycleEvent list \<Rightarrow> bool" where
  "path prev [] = True"
| "path prev (e # es) =
     ((case prev of None \<Rightarrow> e = SIGNAL_CREATED | Some a \<Rightarrow> lifecycle_step a e) \<and> path (Some e) es)"

lemma path_append: "path prev (xs @ y # ys) \<Longrightarrow>
    path prev xs \<and> (case (if xs = [] then prev else Some (last xs)) of
       None \<Rightarrow> y = SIGNAL_CREATED | Some a \<Rightarrow> lifecycle_step a y)"
  by (induction xs arbitrary: prev) auto

lemma path_pred:
  assumes "path None (xs @ y # ys)" "y \<noteq> SIGNAL_CREATED" "\<And>b. lifecycle_step b y \<Longrightarrow> b = a"
  shows "\<exists>xs'. xs = xs' @ [a] \<and> path None (xs' @ a # [])"
proof (cases xs rule: rev_cases)
  case Nil
  then show ?thesis using path_append [OF assms(1)] assms(2) by simp
next
  case (snoc xs' b)
  have "path None xs" "lifecycle_step b y" using path_append [OF assms(1)] snoc by auto
  with assms(3) snoc show ?thesis by auto
qed

lemma history_path:
  "history_ok (map_option event_value prev) xs \<Longrightarrow>
    \<exists>es. map (\<lambda>x. normalize_lifecycle_event (Some x) True) xs = map (\<lambda>e. Inr (event_value e)) es
      \<and> path prev es"
proof (induction xs arbitrary: prev)
  case Nil
  then show ?case by simp
next
  case (Cons x xs)
  then obtain v where v: "normalize_lifecycle_event (Some x) True = Inr v"
    by (auto simp: is_valid_lifecycle_transition_def bindE_Inr_iff)
  obtain e where e: "v = event_value e" by (rule canonical_eventE [OF normalize_Inr_canonical [OF v]])
  have same: "is_valid_lifecycle_transition p x = is_valid_lifecycle_transition p v" for p
    using v e by (simp add: is_valid_lifecycle_transition_def)
  have norm: "is_valid_lifecycle_transition (Some x) y = is_valid_lifecycle_transition (Some v) y" for y
    using v e by (simp add: is_valid_lifecycle_transition_def)
  have "history_ok (Some v) xs" using Cons.prems norm by (cases xs) auto
  then obtain es where es: "map (\<lambda>x. normalize_lifecycle_event (Some x) True) xs
      = map (\<lambda>e. Inr (event_value e)) es" "path (Some e) es"
    using Cons.IH [of "Some e"] e by auto
  have "is_valid_lifecycle_transition (map_option event_value prev) v = Inr True"
    using Cons.prems same by auto
  then have "path prev (e # es)" using es e by (cases prev) (auto simp: lifecycle_step.simps)
  then show ?case using es v e by (intro exI [of _ "e # es"]) simp
qed

subsection \<open>Properties\<close>

text \<open>Order of an accepted history. Whatever spelling (case, blanks, legacy names) the
  events of an accepted history have, their canonical forms open a position only directly
  after the signal was created, waited for its entry zone, was triggered and had its order
  placed, in that order and with nothing between.\<close>

theorem opened_only_after_full_entry:
  assumes "history_ok None xs"
  shows "\<exists>es. map (\<lambda>x. normalize_lifecycle_event (Some x) True) xs = map (\<lambda>e. Inr (event_value e)) es
    \<and> (\<forall>pre post. es = pre @ POSITION_OPENED # post \<longrightarrow>
         (\<exists>pre'. pre = pre' @ [SIGNAL_CREATED, WAITING_ENTRY_ZONE, ENTRY_TRIGGERED, ORDER_PLACED]))"
proof -
  from history_path [of None xs] assms obtain es where
    es: "map (\<lambda>x. normalize_lifecycle_event (Some x) True) xs = map (\<lambda>e. Inr (event_value e)) es"
    "path None es" by auto
  have "\<exists>pre'. pre = pre' @ [SIGNAL_CREATED, WAITING_ENTRY_ZONE, ENTRY_TRIGGERED, ORDER_PLACED]"
    if pre: "es = pre @ POSITION_OPENED # post" for pre post
  proof -
    obtain p1 where 1: "pre = p1 @ [ORDER_PLACED]" "path None (p1 @ ORDER_PLACED # [])"
      using path_pred [of pre POSITION_OPENED post ORDER_PLACED] es(2) pre step_preds(1) by blast
    obtain p2 where 2: "p1 = p2 @ [ENTRY_TRIGGERED]" "path None (p2 @ ENTRY_TRIGGERED # [])"
      using path_pred [OF 1(2)] step_preds(2) by blast
    obtain p3 where 3: "p2 = p3 @ [WAITING_ENTRY_ZONE]" "path None (p3 @ WAITING_ENTRY_ZONE # [])"
      using path_pred [OF 2(2)] step_preds(3) by blast
    obtain p4 where "p3 = p4 @ [SIGNAL_CREATED]"
      using path_pred [OF 3(2)] step_preds(4) by blast
    with 1 2 3 show ?thesis by simp
  qed
  with es(1) show ?thesis by blast
qed

theorem opened_only_after_full_entry_witness:
  "\<exists>es. map (\<lambda>x. normalize_lifecycle_event (Some x) True)
       [''CREATED'', ''signal_accepted'', ''ENTRY_TRIGGERED'', ''ORDER_PLACED'', '' POSITION_OPENED'', ''TP_HIT'']
     = map (\<lambda>e. Inr (event_value e)) es
    \<and> (\<forall>pre post. es = pre @ POSITION_OPENED # post \<longrightarrow>
         (\<exists>pre'. pre = pre' @ [SIGNAL_CREATED, WAITING_ENTRY_ZONE, ENTRY_TRIGGERED, ORDER_PLACED]))"
  by (rule opened_only_after_full_entry)
    (simp add: is_valid_lifecycle_transition_def normalize_lifecycle_event_def Let_def str_eval
      CANONICAL_LIFECYCLE_EVENTS_def LEGACY_LIFECYCLE_EVENT_MAP_def CANONICAL_LIFECYCLE_TRANSITIONS_def)

text \<open>Name normalisation. A name that normalises gives a canonical event which
  normalises to itself, under either setting; and a text is canonical exactly when its
  upper-cased, stripped form is one of the twelve event names.\<close>

theorem normalize_stable:
  "(\<forall>v. normalize_lifecycle_event raw l = Inr v \<longrightarrow>
      (\<exists>e. v = event_value e) \<and> normalize_lifecycle_event (Some v) l' = Inr v)
   \<and> is_canonical_lifecycle_event (Some s) = (py_upper (py_strip s) \<in> set CANONICAL_LIFECYCLE_EVENTS)"
proof (intro conjI allI impI)
  fix v assume "normalize_lifecycle_event raw l = Inr v"
  then obtain e where "v = event_value e" by (rule canonical_eventE [OF normalize_Inr_canonical])
  then show "\<exists>e. v = event_value e" "normalize_lifecycle_event (Some v) l' = Inr v" by auto
next
  show "is_canonical_lifecycle_event (Some s) = (py_upper (py_strip s) \<in> set CANONICAL_LIFECYCLE_EVENTS)"
    by (simp add: is_canonical_lifecycle_event_def normalize_lifecycle_event_def Let_def)
qed

theorem normalize_stable_witness:
  "normalize_lifecycle_event (Some '' tp_hit '') True = Inr (event_value POSITION_CLOSED)
   \<and> normalize_lifecycle_event (Some (event_value POSITION_CLOSED)) False = Inr (event_value POSITION_CLOSED)"
proof -
  have n: "normalize_lifecycle_event (Some '' tp_hit '') True = Inr (event_value POSITION_CLOSED)"
    by (simp add: normalize_lifecycle_event_def Let_def str_eval CANONICAL_LIFECYCLE_EVENTS_def
        LEGACY_LIFECYCLE_EVENT_MAP_def)
  show ?thesis using n normalize_stable [of "Some '' tp_hit ''" True False] by blast
qed

text \<open>The two transition tables. Between canonical events \<open>validate_transition\<close> is the
  canonical table (the extended one is not consulted), no canonical state can move to
  \<open>ERROR\<close>, and the execution states that can are exactly the twelve keys of the extended
  table.\<close>

theorem validate_transition_tables:
  "validate_transition (Some (event_value a)) (event_value b) = (b \<in> set (transitions_of a))
   \<and> (validate_transition (Some p) ''ERROR'' \<longleftrightarrow> p \<in> fst ` set (tl EXECUTION_STATE_TRANSITIONS))"
proof
  show "validate_transition (Some (event_value a)) (event_value b) = (b \<in> set (transitions_of a))"
    by (simp add: validate_transition_def)
  have err: "event_value ERROR = ''ERROR''" by simp
  show "validate_transition (Some p) ''ERROR'' \<longleftrightarrow> p \<in> fst ` set (tl EXECUTION_STATE_TRANSITIONS)"
  proof (cases "normalize_lifecycle_event (Some p) True")
    case (Inl e)
    then have "p \<notin> set CANONICAL_LIFECYCLE_EVENTS" using normalize_event by (auto elim!: canonical_eventE)
    then show ?thesis using Inl normalize_event [of ERROR True]
      by (auto simp: validate_transition_def is_valid_lifecycle_transition_def err
          ALLOWED_LIFECYCLE_TRANSITIONS_def EXECUTION_STATE_TRANSITIONS_def map_add_def
          CANONICAL_LIFECYCLE_TRANSITIONS_def split: option.splits if_splits)
  next
    case (Inr v)
    then obtain a where a: "v = event_value a" by (rule canonical_eventE [OF normalize_Inr_canonical])
    have "\<not> lifecycle_step a ERROR" by (rule step_preds)
    then have "\<not> validate_transition (Some p) ''ERROR''"
      using Inr a normalize_event [of ERROR True]
      by (simp add: validate_transition_def is_valid_lifecycle_transition_def lifecycle_step.simps
          event_value_inj image_iff del: event_value.simps flip: err)
    moreover have "p \<notin> fst ` set (tl EXECUTION_STATE_TRANSITIONS)"
    proof
      assume "p \<in> fst ` set (tl EXECUTION_STATE_TRANSITIONS)"
      then have "\<exists>m. normalize_lifecycle_event (Some p) True = Inl m"
        by (rule execution_state_not_normal)
      with Inr show False by simp
    qed
    ultimately show ?thesis by simp
  qed
qed

end
