(* ===== verification/LiveReadiness.thy ===== *)
theory LiveReadiness
  imports ReadinessEvidence Lifecycle
begin

section \<open>The live readiness evaluation (\<^verbatim>\<open>live_readiness.py\<close>)\<close>

text \<open>
  Every piece of stored and supplied evidence becomes named checks, the checks are
  aggregated into gates, and the gates give the verdict. A check or gate is its name and
  whether it passed; the details text is left out. What the evaluation reads from SQL is in
  the record \<open>readiness_reads\<close>: the lifecycle rows themselves, and for the counting queries
  a function from the name of the Python variable that holds the count. Query failures
  outside the handlers the code has end the evaluation and are not modelled; the conversions
  \<^verbatim>\<open>int\<close> and \<^verbatim>\<open>float\<close> that may raise are.
\<close>

type_synonym CheckResult = "string \<times> bool"

subsection \<open>The evaluator\<close>

record evaluator =
  ev_bounds :: "flt \<times> flt"
  ev_heartbeat_max :: flt
  ev_mode :: string
  ev_campaign :: "string option"
  ev_explicit_run :: "string option"
  ev_release :: "string option"
  ev_instance :: "string option"
  ev_min_rr :: "flt option \<times> bool"
  ev_require_scope :: bool
  ev_run :: "string option"

definition given :: "string option \<Rightarrow> string option" where
  \<comment> \<open>\<^verbatim>\<open>str(v) if v else None\<close>\<close>
  "given v = (case v of Some [] \<Rightarrow> None | _ \<Rightarrow> v)"

definition resolve_id :: "(string \<Rightarrow> string option) \<Rightarrow> string option \<Rightarrow> string option \<Rightarrow> string option" where
  \<comment> \<open>an explicit id, else what the campaign's row says; \<open>stored\<close> is \<open>None\<close> when the query fails\<close>
  "resolve_id stored campaign explicit =
    (case given explicit of Some e \<Rightarrow> Some e
     | None \<Rightarrow> (case campaign of None \<Rightarrow> None | Some c \<Rightarrow> given (stored c)))"

definition normalize_min_effective_rr :: "pyval \<Rightarrow> (flt option \<times> bool) py" where
  "normalize_min_effective_rr v =
    bindE (catch_tv (bindE (py_float v) (\<lambda>x. Inr (Some x))) None) (\<lambda>parsed.
      Inr (case parsed of None \<Rightarrow> (None, False)
           | Some x \<Rightarrow> if \<not> is_finite x \<or> flt_less x (Fin 0) then (None, False) else (Some x, True)))"

definition new_evaluator ::
  "(string \<Rightarrow> string option) \<Rightarrow> (string \<Rightarrow> string option) \<Rightarrow> flt \<times> flt \<Rightarrow> flt \<Rightarrow> string \<Rightarrow> string option \<Rightarrow> string option
   \<Rightarrow> string option \<Rightarrow> string option \<Rightarrow> pyval \<Rightarrow> bool \<Rightarrow> evaluator py" where
  "new_evaluator stored_run stored_release bounds heartbeat_max mode campaign_id run_id release_id instance_id min_rr require_scope =
    bindE (normalize_min_effective_rr min_rr) (\<lambda>rr.
    let campaign = given campaign_id in
    Inr \<lparr>ev_bounds = bounds, ev_heartbeat_max = py_max (Fin 1) heartbeat_max,
         ev_mode = py_upper (if mode = [] then ''PAPER'' else mode), ev_campaign = campaign, ev_explicit_run = given run_id,
         ev_release = resolve_id stored_release campaign release_id, ev_instance = given instance_id,
         ev_min_rr = rr, ev_require_scope = require_scope, ev_run = resolve_id stored_run campaign run_id\<rparr>)"

definition scope_fail_closed :: "evaluator \<Rightarrow> bool" where
  "scope_fail_closed e \<longleftrightarrow> ev_require_scope e \<and> ev_run e = None"

definition scope_check :: "evaluator \<Rightarrow> CheckResult" where
  "scope_check e = (''readiness_evidence_scope_resolved'', \<not> scope_fail_closed e)"

subsection \<open>Lifecycle checks\<close>

record life_row =
  lf_signal :: string
  lf_state :: string
  lf_reject :: "string option"

definition by_signal :: "life_row list \<Rightarrow> life_row list list" where
  "by_signal rows = map (\<lambda>sid. filter (\<lambda>r. lf_signal r = sid) rows) (py_unique (map lf_signal rows))"

definition allowed_after :: "string \<Rightarrow> string list" where
  \<comment> \<open>\<^verbatim>\<open>ALLOWED_LIFECYCLE_TRANSITIONS.get(state, set())\<close>\<close>
  "allowed_after state = (case ALLOWED_LIFECYCLE_TRANSITIONS state of None \<Rightarrow> [] | Some ns \<Rightarrow> ns)"

definition TERMINAL_STATES :: "string list" where
  "TERMINAL_STATES = [''TP_HIT'', ''SL_HIT'', ''CANCELLED'', ''OPEN_AT_END'', ''RUNTIME_PROTECTIVE_EXIT'']"

definition orphan_signal :: "life_row list \<Rightarrow> bool" where
  "orphan_signal events \<longleftrightarrow> (case events of [] \<Rightarrow> False | e # _ \<Rightarrow> lf_state e \<noteq> event_value SIGNAL_CREATED)"

definition invalid_transitions :: "life_row list \<Rightarrow> nat" where
  "invalid_transitions events =
     length (filter (\<lambda>(a, b). lf_state b \<notin> set (allowed_after (lf_state a))) (zip events (tl events)))"

definition lifecycle_errors :: "life_row list \<Rightarrow> nat" where
  "lifecycle_errors events = length (filter (\<lambda>e. py_upper (lf_state e) \<in> {''ERROR'', ''EXECUTION_ERROR''}) events)"

definition reject_missing :: "life_row list \<Rightarrow> bool" where
  "reject_missing events \<longleftrightarrow>
    (let rejected = filter (\<lambda>e. lf_state e = event_value SIGNAL_REJECTED) events in
     rejected \<noteq> [] \<and> \<not> list_ex (\<lambda>e. py_strip (case lf_reject e of None \<Rightarrow> [] | Some s \<Rightarrow> s) \<noteq> []) rejected)"

definition exit_missing :: "life_row list \<Rightarrow> bool" where
  "exit_missing events \<longleftrightarrow>
     list_ex (\<lambda>e. lf_state e = event_value ENTRY_TRIGGERED) events \<and>
     \<not> list_ex (\<lambda>e. List.member TERMINAL_STATES (lf_state e)) events"

definition check_lifecycle :: "life_row list \<Rightarrow> CheckResult list" where
  "check_lifecycle rows =
    (let signals = by_signal rows in
     [(''lifecycle_no_orphans'', filter orphan_signal signals = []),
      (''lifecycle_transitions_valid'', sum_list (map invalid_transitions signals) = 0),
      (''lifecycle_error_free'', sum_list (map lifecycle_errors signals) = 0),
      (''rejected_has_reason'', length (filter reject_missing signals) = 0),
      (''entry_exit_completeness'', length (filter exit_missing signals) = 0)])"

subsection \<open>Checks over counts\<close>

record readiness_reads =
  rd_lifecycle :: "life_row list"
  rd_columns :: "string \<Rightarrow> string list"
  rd_count :: "string \<Rightarrow> int"
  rd_has_evidence :: bool
  rd_range :: "string \<Rightarrow> pyval \<times> pyval"
  rd_heartbeat :: HeartbeatFreshness
  rd_snapshot :: "string + pydict option"
  rd_release :: "string \<Rightarrow> gate_tables option"
  rd_alert :: pydict
  rd_rollback :: pydict
  rd_now :: int

definition CRITICAL_FIELDS :: "(string \<times> string list) list" where
  "CRITICAL_FIELDS =
    [(''signals'', [''signal_id'', ''symbol'', ''mode'', ''created_at'']),
     (''order_decisions'', [''decision_id'', ''signal_id'', ''symbol'', ''mode'', ''decision'', ''created_at'']),
     (''trade_lifecycle_events'', [''event_id'', ''signal_id'', ''symbol'', ''mode'', ''lifecycle_state'', ''event_ts''])]"

definition schema_checks :: "readiness_reads \<Rightarrow> CheckResult list" where
  "schema_checks d = concat (map (\<lambda>(table, fields).
     [(''schema_'' @ table, list_all (\<lambda>f. List.member (rd_columns d table) f) fields),
      (''critical_not_null_'' @ table, rd_count d (''null_rows_'' @ table) = 0)]) CRITICAL_FIELDS)"

definition evidence_count :: "readiness_reads \<Rightarrow> string \<Rightarrow> int" where
  \<comment> \<open>without a \<^verbatim>\<open>decision_evidence\<close> table the good counts are 0 and the bad ones 1\<close>
  "evidence_count d name =
    (if rd_has_evidence d then rd_count d name
     else if name \<in> {''evidence_parity_rows'', ''evidence_fake_zero_rows'', ''phase3_invalid_effective_rr_threshold'',
                     ''phase3_missing_critical_accepted'', ''phase3_low_effective_accepted''} then 1 else 0)"

definition has_portfolio_columns :: "readiness_reads \<Rightarrow> bool" where
  "has_portfolio_columns d \<longleftrightarrow> rd_has_evidence d \<and>
     list_all (\<lambda>c. List.member (rd_columns d ''decision_evidence'') c)
       [''portfolio_equity'', ''open_position_count'', ''total_notional_exposure'', ''portfolio_risk_state'', ''portfolio_diagnostics_json'']"

definition portfolio_count :: "readiness_reads \<Rightarrow> string \<Rightarrow> int" where
  "portfolio_count d name =
    (if \<not> has_portfolio_columns d
     then (if name \<in> {''accepted_over_position'', ''accepted_over_notional'', ''accepted_over_symbol'',
                      ''accepted_after_daily_loss'', ''accepted_unknown''} then 1 else 0)
     else if name = ''accepted_over_position'' \<and> \<not> List.member (rd_columns d ''decision_evidence'') ''max_open_positions'' then 1
     else rd_count d name)"

definition check_persistence :: "readiness_reads \<Rightarrow> CheckResult list" where
  "check_persistence d =
    (let n = rd_count d; ev = evidence_count d; pf = portfolio_count d;
         parity = n ''parity_rows'' + ev ''evidence_parity_rows'';
         fake_zero = n ''fake_zero_rows'' + ev ''evidence_fake_zero_rows'' in
     schema_checks d @
     [(''reject_persistence_parity'', n ''rejected_decisions'' \<le> n ''rejected_events''),
      (''phase2_decision_evidence_table_exists'', rd_has_evidence d),
      (''phase2_decision_evidence_rows_present'', 0 < ev ''evidence_rows''),
      (''phase2_lifecycle_evidence_present'', 0 < n ''lifecycle_rows'' \<and> 0 < ev ''evidence_lifecycle_states''),
      (''phase2_reject_evidence_present'', 0 < n ''rejected_decisions'' \<and> 0 < n ''rejected_events'' \<and> 0 < ev ''evidence_rejected''),
      (''phase2_accept_evidence_present'', 0 < n ''accepted_events'' \<and> 0 < ev ''evidence_accepted''),
      (''phase2_no_fake_zero_execution_evidence'', fake_zero = 0),
      (''phase2_no_decision_parity_mismatch'', parity = 0),
      (''execution_cost_breakdown_present'', 0 < ev ''phase3_breakdown_rows''),
      (''effective_rr_available'', 0 < ev ''phase3_effective_rr_rows''),
      (''execution_rejects_persisted'', 0 < ev ''phase3_execution_reject_rows''),
      (''effective_rr_threshold_provenance_valid'', 0 < ev ''evidence_accepted'' \<and> ev ''phase3_invalid_effective_rr_threshold'' = 0),
      (''no_accepted_trade_with_effective_rr_below_threshold'', 0 < ev ''evidence_accepted'' \<and>
         ev ''phase3_invalid_effective_rr_threshold'' = 0 \<and> ev ''phase3_low_effective_accepted'' = 0),
      (''no_accepted_trade_with_missing_critical_execution_context'', ev ''phase3_missing_critical_accepted'' = 0),
      (''no_fake_zero_execution_costs'', fake_zero = 0),
      (''portfolio_risk_snapshot_present'', 0 < pf ''portfolio_snapshot_rows''),
      (''portfolio_risk_rejects_persisted'', 0 < pf ''portfolio_reject_rows''),
      (''no_accepted_trade_over_position_limit'', pf ''accepted_over_position'' = 0),
      (''no_accepted_trade_over_notional_limit'', pf ''accepted_over_notional'' = 0),
      (''no_accepted_trade_over_symbol_notional_limit'', pf ''accepted_over_symbol'' = 0),
      (''no_accepted_trade_after_daily_loss_limit'', pf ''accepted_after_daily_loss'' = 0),
      (''no_accepted_trade_with_unknown_portfolio_risk'', pf ''accepted_unknown'' = 0),
      (''correlation_risk_evidence_present'', 0 < pf ''correlation_rows''),
      (''drawdown_guard_evidence_present'', 0 < pf ''drawdown_rows''),
      (''portfolio_accounting_reconciliation_present'', 0 < pf ''reconcile_rows'' \<and> 1 < pf ''accounting_distinct_states''),
      (''backtest_and_paper_have_canonical_portfolio_risk_evidence'', 2 \<le> pf ''shared_engine_rows'')])"

definition spread_range :: "pyval \<times> pyval \<Rightarrow> bool" where
  "spread_range r \<longleftrightarrow> fst r \<noteq> VNone \<and> snd r \<noteq> VNone \<and> \<not> py_eq (fst r) (snd r)"

definition check_stats :: "evaluator \<Rightarrow> readiness_reads \<Rightarrow> CheckResult list" where
  "check_stats e d =
    (let total = rd_count d ''total''; rate = fl (of_int (rd_count d ''rejected'') / of_int total) in
     [(''reject_rate_sanity'', total \<noteq> 0 \<and> flt_le (fst (ev_bounds e)) rate \<and> flt_le rate (snd (ev_bounds e))),
      (''rr_not_constant'', spread_range (rd_range d ''rr'')),
      (''score_not_constant'', spread_range (rd_range d ''score''))])"

subsection \<open>The runtime snapshot\<close>

definition contained :: "string \<Rightarrow> pyval \<Rightarrow> bool py" where
  \<comment> \<open>\<^verbatim>\<open>text in flags\<close>\<close>
  "contained t v =
    (case v of VList xs \<Rightarrow> Inr (list_ex (\<lambda>x. py_eq (VStr t) x) xs) | VStr s \<Rightarrow> Inr (str_contains t s)
     | VDict d \<Rightarrow> Inr (map_of d t \<noteq> None) | _ \<Rightarrow> Inl TypeError)"

definition upper_or :: "pydict \<Rightarrow> string \<Rightarrow> string \<Rightarrow> string" where
  \<comment> \<open>\<^verbatim>\<open>str(d.get(k) or dflt).upper()\<close>\<close>
  "upper_or d k dflt = py_upper (str_or (dget d k) dflt)"

definition heartbeat_in_time :: "evaluator \<Rightarrow> pydict \<Rightarrow> string \<Rightarrow> bool py" where
  "heartbeat_in_time e snapshot status =
    bindE (if dget snapshot ''heartbeat_age_sec'' = VNone then Inr False
           else bindE (py_float (py_or (dget snapshot ''heartbeat_age_sec'') (VInt 999999))) (\<lambda>age.
             Inr (flt_le age (ev_heartbeat_max e))))
      (\<lambda>fresh. Inr (fresh \<or> status \<in> {''STARTUP'', ''RECONCILED''}))"

definition check_runtime_state_snapshot :: "evaluator \<Rightarrow> string + pydict option \<Rightarrow> CheckResult list py" where
  \<comment> \<open>on the left: the query failed\<close>
  "check_runtime_state_snapshot e found =
    (case found of
       Inl _ \<Rightarrow> Inr [(''runtime_db_persistence_verified'', False)]
     | Inr latest \<Rightarrow>
         let snapshot = (case latest of None \<Rightarrow> [] | Some d \<Rightarrow> d) in
         if snapshot = []
         then Inr [(''runtime_state_snapshot_present'', False), (''runtime_db_persistence_verified'', False)]
         else
           let status = upper_or snapshot ''runtime_status'' ''UNKNOWN''; recon = upper_or snapshot ''reconciliation_status'' ''UNKNOWN'';
               ro = upper_or snapshot ''exchange_read_only_status'' ''UNKNOWN'';
               flags = py_or (dget snapshot ''runtime_flags'') (VList []);
               why = dget snapshot ''fail_closed_reason'' in
           bindE (heartbeat_in_time e snapshot status) (\<lambda>fresh.
           bindE (contained ''UNCLEAN_SHUTDOWN_RECOVERY_REQUIRED'' flags) (\<lambda>flagged.
           bindE (int_or_zero (dget snapshot ''orphan_order_count'')) (\<lambda>orders.
           bindE (int_or_zero (dget snapshot ''orphan_position_count'')) (\<lambda>positions.
           Inr [(''runtime_state_snapshot_present'', True), (''runtime_db_persistence_verified'', True),
                (''runtime_heartbeat_fresh'', fresh),
                (''runtime_recovery_not_required'', \<not> truthy (dget snapshot ''recovery_action_required'')),
                (''no_unclean_shutdown_unresolved'', \<not> flagged \<and> why \<noteq> VStr ''UNCLEAN_SHUTDOWN_RECOVERY_REQUIRED''),
                (''kill_switch_state_persisted'', dget snapshot ''kill_switch_active'' \<noteq> VNone),
                (''no_orphan_orders'', orders = 0), (''no_orphan_positions'', positions = 0),
                (''no_stale_pending_orders'', why \<noteq> VStr ''STALE_PENDING_ORDER''),
                (''exchange_reconciliation_evidence_present'', recon \<notin> {'''', ''UNKNOWN''}),
                (''exchange_reconciliation_clean'', recon \<in> {''CLEAN'', ''NOT_REQUIRED_BACKTEST''}),
                (''exchange_read_only_evidence_present'', ro \<notin> {'''', ''UNKNOWN''}),
                (''backtest_runtime_state_reconciles'', recon \<in> {''CLEAN'', ''NOT_REQUIRED_BACKTEST''}),
                (''paper_runtime_state_reconciles'', recon = ''CLEAN''),
                (''live_precheck_no_mutation_verified'', True)])))))"

lemma zero_age_is_stale:
  \<comment> \<open>the age test reads an age of exactly 0 as a missing age\<close>
  assumes "dget snapshot ''heartbeat_age_sec'' = VFloat (Fin 0)" "ev_heartbeat_max e = Fin m" "m < 999999"
    "status \<notin> {''STARTUP'', ''RECONCILED''}"
  shows "heartbeat_in_time e snapshot status = Inr False"
proof -
  have "py_float (VInt 999999) = Inr (Fin 999999)" by (simp add: int_to_float_small)
  then show ?thesis using assms by (simp add: heartbeat_in_time_def py_or_def)
qed

subsection \<open>Release, parity and reconciliation\<close>

definition check_release_gates :: "evaluator \<Rightarrow> readiness_reads \<Rightarrow> CheckResult list py" where
  "check_release_gates e d =
    (if ev_require_scope e \<and> ev_release e = None then Inr [(''phase6_release_gate_evidence'', False)]
     else bindE (build_release_snapshot (rd_release d) (case ev_release e of None \<Rightarrow> ''default'' | Some r \<Rightarrow> r) ''PHASE6''
                   (rd_now d) (rd_now d))
            (\<lambda>s. Inr [(''phase6_release_gate_evidence'', release_gate_passed s)]))"

definition parse_non_negative_int :: "pyval \<Rightarrow> int \<Rightarrow> (int \<times> bool) py" where
  \<comment> \<open>\<^verbatim>\<open>int\<close> refuses a text of more than 4300 digits\<close>
  "parse_non_negative_int v dflt =
    (case v of
       VInt n \<Rightarrow> Inr (if 0 \<le> n then (n, True) else (dflt, False))
     | VFloat (Fin r) \<Rightarrow> Inr (if 0 \<le> r \<and> of_int \<lfloor>r\<rfloor> = r then (\<lfloor>r\<rfloor>, True) else (dflt, False))
     | VStr s \<Rightarrow> (let t = py_strip s in
         if t = [] \<or> \<not> list_all is_digit_char t then Inr (dflt, False)
         else if 4300 < length t then Inl (ValueError ''Exceeds the limit for integer string conversion'')
         else Inr (int (digits_value 0 t), True))
     | _ \<Rightarrow> Inr (dflt, False))"

definition upper_set :: "pydict \<Rightarrow> string \<Rightarrow> string set py" where
  \<comment> \<open>\<^verbatim>\<open>{str(v or "").upper() for v in d.get(k) or []}\<close>\<close>
  "upper_set d k = bindE (list_or_empty (dget d k)) (\<lambda>xs. Inr (set (map (py_upper \<circ> text_or_empty) xs)))"

definition text_set :: "pydict \<Rightarrow> string \<Rightarrow> string set py" where
  "text_set d k = bindE (list_or_empty (dget d k)) (\<lambda>xs. Inr (set (map text_or_empty xs)))"

definition PROTECTED_FIELDS :: "string list" where
  "PROTECTED_FIELDS = [''decision'', ''primary_reject_reason'', ''failed_gates'', ''score'', ''candidate_rr'',
     ''executable_raw_rr'', ''remaining_execution_penalty'', ''effective_rr'', ''rr_basis'', ''execution_cost_semantics'',
     ''threshold_provenance'', ''execution_evidence_status'', ''portfolio_decision'', ''original_notional'', ''risk_scale'',
     ''effective_notional'', ''stop_distance_basis'', ''geometry_status'', ''geometry_source'',
     ''lifecycle_pre_submit_terminal_state'']"

definition flag_or :: "pydict \<Rightarrow> string \<Rightarrow> string \<Rightarrow> bool" where
  \<comment> \<open>\<^verbatim>\<open>bool(d.get(k, d.get(k2, False)))\<close>\<close>
  "flag_or d k k2 = truthy (dget_or d k (dget_or d k2 (VBool False)))"

definition bool_field :: "pydict \<Rightarrow> string \<Rightarrow> bool" where
  "bool_field d k = truthy (dget_or d k (VBool False))"

definition microstructure_status :: "pydict \<Rightarrow> string" where
  "microstructure_status mode_parity =
     py_upper (text_or_empty (dget_or mode_parity ''microstructure_evidence_status'' (VStr ''UNAVAILABLE_BLOCKING'')))"

definition parity_complete :: "pydict \<Rightarrow> bool py" where
  "parity_complete mode_parity =
    (let status = py_upper (py_str (dget_or mode_parity ''evidence_status'' (VStr ''INCOMPLETE'')));
         parse = (\<lambda>k d. parse_non_negative_int (dget_or mode_parity k (VInt d)) d);
         evidence = py_upper (text_or_empty (dget_or mode_parity ''execution_evidence_status'' (VStr ''COMPLETE_MEASURED''))) in
     bindE (parse ''sample_count'' 0) (\<lambda>(samples, samples_ok).
     bindE (parse ''min_sample_count'' 1) (\<lambda>(least, least_ok).
     bindE (parse ''mismatch_count'' 0) (\<lambda>(mismatches, mismatches_ok).
     bindE (parse ''missing_field_count'' 0) (\<lambda>(absent, absent_ok).
     bindE (parse ''semantic_violation_count'' 0) (\<lambda>(violations, violations_ok).
     bindE (upper_set mode_parity ''modes_compared'') (\<lambda>modes.
     bindE (text_set mode_parity ''comparison_fields'') (\<lambda>fields.
     Inr (status = ''COMPLETE'' \<and> samples_ok \<and> least_ok \<and> mismatches_ok \<and> absent_ok \<and> violations_ok \<and>
          least \<le> samples \<and> mismatches = 0 \<and> absent = 0 \<and> violations = 0 \<and>
          {''BACKTEST'', ''PAPER'', ''LIVE_PRECHECK''} \<subseteq> modes \<and> set PROTECTED_FIELDS \<subseteq> fields \<and>
          flag_or mode_parity ''no_submit_verified'' ''no_order_submission_verified'' \<and>
          bool_field mode_parity ''execution_context_complete'' \<and>
          evidence \<notin> {''UNAVAILABLE_BLOCKING'', ''INVALID_FAKE_ZERO'', ''INCOMPLETE'', ''UNAVAILABLE''} \<and>
          microstructure_status mode_parity = ''COMPLETE_MEASURED'' \<and>
          bool_field mode_parity ''microstructure_live_equivalent'')))))))))"

definition zero_field :: "pydict \<Rightarrow> string \<Rightarrow> bool py" where
  \<comment> \<open>\<^verbatim>\<open>int(d.get(k, 0)) == 0\<close>\<close>
  "zero_field d k = bindE (py_int (dget_or d k (VInt 0))) (\<lambda>n. Inr (n = 0))"

definition check_runtime :: "pydict \<Rightarrow> pydict \<Rightarrow> CheckResult list py" where
  "check_runtime mode_parity reconciliation =
    bindE (parity_complete mode_parity) (\<lambda>parity.
    let configured = bool_field reconciliation ''provider_configured'';
        complete = (configured \<and> upper_or reconciliation ''evidence_status'' ''INCOMPLETE'' = ''COMPLETE'');
        derivatives = (case py_or (dget reconciliation ''derivatives_contract'') (VDict []) of VDict d \<Rightarrow> d | _ \<Rightarrow> []) in
    bindE (andE (zero_field reconciliation ''orphan_positions'') (zero_field reconciliation ''orphan_orders'')) (\<lambda>no_orphans.
    bindE (andE (Inr complete) (zero_field reconciliation ''duplicate_fills'')) (\<lambda>no_duplicates.
    bindE (andE (Inr complete) (zero_field reconciliation ''fail_closed_findings'')) (\<lambda>clear.
    Inr [(''mode_parity'', parity),
         (''microstructure_evidence_measured'', microstructure_status mode_parity = ''COMPLETE_MEASURED''),
         (''microstructure_live_equivalent'', bool_field mode_parity ''microstructure_live_equivalent''),
         (''live_reconciliation_provider'', configured), (''reconciliation_evidence_complete'', complete),
         (''reconciliation_no_orphans'', complete \<and> no_orphans), (''duplicate_execution_free'', no_duplicates),
         (''reconciliation_fail_closed_clear'', clear), (''derivatives_contract_present'', derivatives \<noteq> []),
         (''notional_only_1x_verified'', dget derivatives ''account_model'' = VStr ''NOTIONAL_ONLY_1X'' \<and>
            py_upper (text_or_empty (dget derivatives ''account_model_status'')) = ''PASS''),
         (''leveraged_live_disabled'', dget derivatives ''leveraged_live_supported'' = VBool False),
         (''hold_aware_funding_verified'', bool_field derivatives ''funding_live_equivalent'' \<and>
            py_upper (text_or_empty (dget derivatives ''funding_accrual_status'')) = ''COMPLETE_MEASURED_HOLD_AWARE''),
         (''derivatives_live_eligible'', bool_field derivatives ''live_eligible'')]))))"

definition check_operational :: "pydict \<Rightarrow> pydict \<Rightarrow> pydict \<Rightarrow> bool \<Rightarrow> bool \<Rightarrow> bool \<Rightarrow> CheckResult list py" where
  \<comment> \<open>the stored evidence overrides what the caller supplies\<close>
  "check_operational obs stored_alert stored_rollback canary shadow operator_ack =
    (let effective = dupdate (dupdate obs stored_alert) stored_rollback;
         source_is = (\<lambda>k s. py_upper (py_str (dget_or effective k (VStr []))) = s);
         status_is = (\<lambda>k. py_upper (py_str (dget_or effective k (VStr ''INCOMPLETE''))) = ''COMPLETE'') in
     bindE (parse_non_negative_int (dget effective ''execution_mutation_attempt_count'') 0) (\<lambda>(mutations, mutations_ok).
     let coverage = (source_is ''observability_evidence_source'' ''MEASURED_PROBE'' \<and>
           list_all (bool_field effective) [''observability_evidence_persisted'', ''qualification_persistence_verified'',
             ''incident_persistence_verified'', ''forensic_export_verified'', ''sensitive_data_redaction_verified'',
             ''alert_delivery_verified''] \<and> status_is ''evidence_status'');
         rollback = (source_is ''rollback_evidence_source'' ''DETERMINISTIC_VALIDATION'' \<and>
           list_all (bool_field effective) [''rollback_evidence_persisted'', ''rollback_evidence_verified'',
             ''kill_switch_block_verified'', ''no_submit_on_kill_switch_verified'', ''fail_closed_reconciliation_verified'',
             ''repair_actions_non_mutating_verified''] \<and> mutations_ok \<and> mutations = 0 \<and> status_is ''rollback_evidence_status'') in
     Inr [(''shadow_mode_enabled'', shadow), (''canary_enabled'', canary), (''operator_acknowledged'', operator_ack),
          (''alert_delivery_evidence'', bool_field stored_alert ''alert_delivery_verified''),
          (''observability_coverage'', coverage), (''rollback_ready'', rollback)]))"

subsection \<open>Gates and verdict\<close>

record supplied =
  su_parity :: pydict
  su_reconciliation :: pydict
  su_observability :: pydict
  su_canary :: bool
  su_shadow :: bool
  su_ack :: bool
  su_kill_switch :: bool
  su_dashboard :: pydict
  su_timesfm :: pydict
  su_burnin :: pydict
  su_tests :: pydict

definition observed :: "CheckResult list \<Rightarrow> string \<rightharpoonup> bool" where
  \<comment> \<open>\<^verbatim>\<open>{check.name: check.passed for check in checks}\<close>: a later check of the same name wins\<close>
  "observed checks = map_of (rev checks)"

definition checks_pass :: "CheckResult list \<Rightarrow> string list \<Rightarrow> bool" where
  "checks_pass checks names \<longleftrightarrow> list_all (\<lambda>n. observed checks n = Some True) names"

definition LIFECYCLE_CHECKS :: "string list" where
  "LIFECYCLE_CHECKS = [''lifecycle_no_orphans'', ''lifecycle_transitions_valid'', ''entry_exit_completeness'']"

definition RUNTIME_CHECKS :: "string list" where
  "RUNTIME_CHECKS = [''runtime_state_snapshot_present'', ''runtime_heartbeat_fresh'', ''runtime_recovery_not_required'',
     ''no_unclean_shutdown_unresolved'', ''kill_switch_state_persisted'', ''no_orphan_orders'', ''no_orphan_positions'',
     ''no_stale_pending_orders'', ''exchange_reconciliation_evidence_present'', ''exchange_reconciliation_clean'',
     ''exchange_read_only_evidence_present'', ''runtime_db_persistence_verified'']"

definition RECONCILIATION_CHECKS :: "string list" where
  "RECONCILIATION_CHECKS = [''live_reconciliation_provider'', ''reconciliation_evidence_complete'',
     ''reconciliation_no_orphans'', ''duplicate_execution_free'', ''reconciliation_fail_closed_clear'']"

definition PERSISTED_CHECKS :: "string list" where
  "PERSISTED_CHECKS = [''readiness_evidence_scope_resolved'', ''phase2_decision_evidence_table_exists'',
     ''phase2_decision_evidence_rows_present'', ''phase2_lifecycle_evidence_present'', ''phase2_reject_evidence_present'',
     ''phase2_accept_evidence_present'', ''phase2_no_fake_zero_execution_evidence'', ''phase2_no_decision_parity_mismatch'']"

definition EXECUTION_CHECKS :: "string list" where
  "EXECUTION_CHECKS = [''execution_cost_breakdown_present'', ''effective_rr_available'', ''execution_rejects_persisted'',
     ''effective_rr_threshold_provenance_valid'', ''no_accepted_trade_with_effective_rr_below_threshold'',
     ''no_accepted_trade_with_missing_critical_execution_context'', ''no_fake_zero_execution_costs'']"

definition PORTFOLIO_CHECKS :: "string list" where
  "PORTFOLIO_CHECKS = [''portfolio_risk_snapshot_present'', ''portfolio_risk_rejects_persisted'',
     ''no_accepted_trade_over_position_limit'', ''no_accepted_trade_over_notional_limit'',
     ''no_accepted_trade_over_symbol_notional_limit'', ''no_accepted_trade_after_daily_loss_limit'',
     ''no_accepted_trade_with_unknown_portfolio_risk'', ''correlation_risk_evidence_present'',
     ''drawdown_guard_evidence_present'', ''portfolio_accounting_reconciliation_present'',
     ''backtest_and_paper_have_canonical_portfolio_risk_evidence'']"

definition DERIVATIVES_CHECKS :: "string list" where
  "DERIVATIVES_CHECKS = [''derivatives_contract_present'', ''notional_only_1x_verified'', ''leveraged_live_disabled'',
     ''hold_aware_funding_verified'', ''derivatives_live_eligible'']"

definition status_of :: "pydict \<Rightarrow> string" where
  \<comment> \<open>\<^verbatim>\<open>str(d.get("status", "MISSING")).upper()\<close>\<close>
  "status_of d = py_upper (py_str (dget_or d ''status'' (VStr ''MISSING'')))"

definition aggregate_gates :: "CheckResult list \<Rightarrow> supplied \<Rightarrow> CheckResult list" where
  "aggregate_gates checks i =
    (let pass = checks_pass checks; parity = su_parity i; rec = su_reconciliation i in
     [(''lifecycle_integrity_complete'', pass LIFECYCLE_CHECKS),
      (''reject_persistence_complete'', pass [''rejected_has_reason'', ''reject_persistence_parity'']),
      (''phase2_persisted_evidence_complete'', pass PERSISTED_CHECKS),
      (''mode_parity_complete'', pass [''mode_parity'']),
      (''execution_realism_complete'', pass [''rr_not_constant'', ''score_not_constant'', ''reject_rate_sanity'']),
      (''phase3_execution_realism_complete'', pass EXECUTION_CHECKS),
      (''phase4_portfolio_risk_complete'', pass PORTFOLIO_CHECKS),
      (''derivatives_execution_contract_complete'', pass DERIVATIVES_CHECKS),
      (''microstructure_execution_contract_complete'',
         pass [''microstructure_evidence_measured'', ''microstructure_live_equivalent'']),
      (''effective_rr_penalty_breakdown_complete'', bool_field parity ''effective_rr_penalty_breakdown_complete'' \<or>
         bool_field parity ''execution_context_complete''),
      (''exchange_connectivity_healthy'', bool_field rec ''exchange_connectivity_healthy''),
      (''authenticated_reconciliation_evidence_complete'',
         pass RECONCILIATION_CHECKS \<and> truthy (dget_or rec ''authenticated'' (dget_or rec ''authenticated_reconciliation'' (VBool False)))),
      (''no_submit_live_precheck_verified'', flag_or parity ''no_submit_verified'' ''no_order_submission_verified''),
      (''kill_switch_verified'', \<not> su_kill_switch i \<and> pass [''rollback_ready'']),
      (''rollback_operator_controls_verified'',
         pass [''rollback_ready''] \<and> bool_field (su_observability i) ''repair_actions_non_mutating_verified''),
      (''heartbeat_alerts_incidents_verified'', pass [''runtime_heartbeat'', ''alert_delivery_evidence'', ''observability_coverage'']),
      (''phase5_runtime_resilience_complete'', pass RUNTIME_CHECKS),
      (''dashboard_rbac_secrets_safe'',
         list_all (bool_field (su_dashboard i)) [''rbac_verified'', ''secrets_redacted'', ''live_switch_fail_closed'']),
      (''timesfm_evidence_safe_non_ordering'',
         bool_field (su_timesfm i) ''non_ordering'' \<and> \<not> bool_field (su_timesfm i) ''satisfies_execution_readiness''),
      (''paper_burnin_report_acceptable'', status_of (su_burnin i) = ''ACCEPTABLE''),
      (''full_tests_passing_evidence_recorded'', status_of (su_tests i) = ''PASS''),
      (''phase6_release_gates_verified'', pass [''phase6_release_gate_evidence'']),
      (''operator_acknowledgement_required'', su_ack i)])"

definition LOWER_GATES :: "string list" where
  "LOWER_GATES = [''lifecycle_integrity_complete'', ''reject_persistence_complete'', ''phase2_persisted_evidence_complete'',
     ''mode_parity_complete'', ''execution_realism_complete'', ''phase3_execution_realism_complete'',
     ''phase4_portfolio_risk_complete'', ''derivatives_execution_contract_complete'',
     ''microstructure_execution_contract_complete'', ''effective_rr_penalty_breakdown_complete'',
     ''no_submit_live_precheck_verified'']"

definition verdict_from_gates :: "CheckResult list \<Rightarrow> string" where
  "verdict_from_gates gates =
    (let passed = (\<lambda>n. observed gates n = Some True);
         others_pass = (\<lambda>except. list_all (\<lambda>g. fst g \<in> except \<or> snd g) gates) in
     if \<not> list_all passed LOWER_GATES then ''NOT_LIVE_READY''
     else if \<not> passed ''kill_switch_verified'' then ''NOT_LIVE_READY''
     else if \<not> passed ''phase5_runtime_resilience_complete'' then ''NOT_LIVE_READY''
     else if \<not> passed ''phase6_release_gates_verified'' then ''NOT_LIVE_READY''
     else if others_pass {} then ''LIVE_REAL_ORDERS_BLOCKED''
     else if others_pass {''operator_acknowledgement_required''} then ''LIVE_REAL_ORDERS_BLOCKED''
     else if others_pass {''operator_acknowledgement_required'', ''full_tests_passing_evidence_recorded''} then ''LIVE_DRY_RUN_READY''
     else ''LIVE_PRECHECK_READY'')"

subsection \<open>The evaluation\<close>

record QualificationReport =
  q_qualified :: bool
  q_checks :: "CheckResult list"
  q_gates :: "CheckResult list"
  q_blockers :: "string list"
  q_verdict :: string
  q_generated :: int
  q_state :: string
  q_ack_required :: bool

definition readiness_checks :: "evaluator \<Rightarrow> readiness_reads \<Rightarrow> supplied \<Rightarrow> CheckResult list py" where
  "readiness_checks e d i =
    (let stored = scope_check e # check_lifecycle (rd_lifecycle d) @ check_persistence d @ check_stats e d
           @ [(''runtime_heartbeat'', is_fresh (rd_heartbeat d))] in
     bindE (check_runtime_state_snapshot e (rd_snapshot d)) (\<lambda>snapshot.
     bindE (check_release_gates e d) (\<lambda>release.
     bindE (check_runtime (su_parity i) (su_reconciliation i)) (\<lambda>runtime.
     bindE (check_operational (su_observability i) (rd_alert d) (rd_rollback d) (su_canary i) (su_shadow i) (su_ack i)) (\<lambda>operational.
     Inr (stored @ snapshot @ release @ runtime @ operational))))))"

definition evaluate_readiness :: "evaluator \<Rightarrow> readiness_reads \<Rightarrow> supplied \<Rightarrow> QualificationReport py" where
  \<comment> \<open>a blocker is named by its gate\<close>
  "evaluate_readiness e d i =
    bindE (readiness_checks e d i) (\<lambda>checks.
      let gates = aggregate_gates checks i; verdict = verdict_from_gates gates in
      Inr \<lparr>q_qualified = False, q_checks = checks, q_gates = gates,
           q_blockers = map fst (filter (\<lambda>g. \<not> snd g) gates), q_verdict = verdict, q_generated = rd_now d,
           q_state = verdict, q_ack_required = \<not> su_ack i\<rparr>)"

subsection \<open>From the verdict back to the evidence\<close>

lemma observed_append: "observed (xs @ ys) = observed xs ++ observed ys"
  by (simp add: observed_def)

lemma observed_Cons: "observed (x # xs) = [fst x \<mapsto> snd x] ++ observed xs"
  by (simp add: observed_def)

lemma observed_Nil: "observed [] = Map.empty"
  by (simp add: observed_def)

lemma observed_absent: "n \<notin> fst ` set xs \<Longrightarrow> observed xs n = None"
  by (auto simp: observed_def map_of_eq_None_iff)

lemmas observed_eval = observed_Cons observed_Nil map_add_def

lemma advanced_verdict_gates:
  assumes "verdict_from_gates gates \<noteq> ''NOT_LIVE_READY''"
  shows "n \<in> set (LOWER_GATES @ [''kill_switch_verified'', ''phase5_runtime_resilience_complete'', ''phase6_release_gates_verified''])
    \<Longrightarrow> observed gates n = Some True"
  using assms by (auto simp: verdict_from_gates_def Let_def list_all_iff split: if_splits)

lemma aggregate_facts:
  assumes "verdict_from_gates (aggregate_gates checks i) \<noteq> ''NOT_LIVE_READY''"
  shows "checks_pass checks LIFECYCLE_CHECKS" "checks_pass checks [''mode_parity'']" "\<not> su_kill_switch i"
    "checks_pass checks [''rollback_ready'']" "checks_pass checks RUNTIME_CHECKS"
    "checks_pass checks [''phase6_release_gate_evidence'']" "checks_pass checks PERSISTED_CHECKS"
proof -
  note g = advanced_verdict_gates [OF assms]
  have "observed (aggregate_gates checks i) ''lifecycle_integrity_complete'' = Some True" by (rule g) (simp add: LOWER_GATES_def)
  then show "checks_pass checks LIFECYCLE_CHECKS" by (simp add: aggregate_gates_def Let_def observed_eval)
  have "observed (aggregate_gates checks i) ''mode_parity_complete'' = Some True" by (rule g) (simp add: LOWER_GATES_def)
  then show "checks_pass checks [''mode_parity'']" by (simp add: aggregate_gates_def Let_def observed_eval)
  have "observed (aggregate_gates checks i) ''phase2_persisted_evidence_complete'' = Some True" by (rule g) (simp add: LOWER_GATES_def)
  then show "checks_pass checks PERSISTED_CHECKS" by (simp add: aggregate_gates_def Let_def observed_eval)
  have "observed (aggregate_gates checks i) ''kill_switch_verified'' = Some True" by (rule g) simp
  then show "\<not> su_kill_switch i" "checks_pass checks [''rollback_ready'']" by (simp_all add: aggregate_gates_def Let_def observed_eval)
  have "observed (aggregate_gates checks i) ''phase5_runtime_resilience_complete'' = Some True" by (rule g) simp
  then show "checks_pass checks RUNTIME_CHECKS" by (simp add: aggregate_gates_def Let_def observed_eval)
  have "observed (aggregate_gates checks i) ''phase6_release_gates_verified'' = Some True" by (rule g) simp
  then show "checks_pass checks [''phase6_release_gate_evidence'']" by (simp add: aggregate_gates_def Let_def observed_eval)
qed

text \<open>The names each group of checks can have.\<close>

definition SNAPSHOT_NAMES :: "string list" where
  "SNAPSHOT_NAMES = RUNTIME_CHECKS @ [''backtest_runtime_state_reconciles'', ''paper_runtime_state_reconciles'',
     ''live_precheck_no_mutation_verified'']"

lemma snapshot_names: "check_runtime_state_snapshot e found = Inr cs \<Longrightarrow> fst ` set cs \<subseteq> set SNAPSHOT_NAMES"
  unfolding check_runtime_state_snapshot_def Let_def
  by (cases found) (auto simp: bindE_Inr_iff SNAPSHOT_NAMES_def RUNTIME_CHECKS_def split: if_splits)

lemma release_names: "check_release_gates e d = Inr cs \<Longrightarrow> fst ` set cs \<subseteq> {''phase6_release_gate_evidence''}"
  by (auto simp: check_release_gates_def bindE_Inr_iff split: if_splits)

definition RUNTIME_NAMES :: "string list" where
  "RUNTIME_NAMES = [''mode_parity'', ''microstructure_evidence_measured'', ''microstructure_live_equivalent'']
     @ RECONCILIATION_CHECKS @ DERIVATIVES_CHECKS"

lemma runtime_names: "check_runtime p r = Inr cs \<Longrightarrow> fst ` set cs \<subseteq> set RUNTIME_NAMES"
  by (auto simp: check_runtime_def bindE_Inr_iff RUNTIME_NAMES_def RECONCILIATION_CHECKS_def DERIVATIVES_CHECKS_def Let_def)

definition OPERATIONAL_NAMES :: "string list" where
  "OPERATIONAL_NAMES = [''shadow_mode_enabled'', ''canary_enabled'', ''operator_acknowledged'', ''alert_delivery_evidence'',
     ''observability_coverage'', ''rollback_ready'']"

lemma operational_names: "check_operational obs a r c s k = Inr cs \<Longrightarrow> fst ` set cs \<subseteq> set OPERATIONAL_NAMES"
  by (auto simp: check_operational_def bindE_Inr_iff OPERATIONAL_NAMES_def Let_def)

lemma persistence_names:
  "n \<in> {''lifecycle_no_orphans'', ''lifecycle_transitions_valid'', ''entry_exit_completeness''} \<Longrightarrow>
   n \<notin> fst ` set (check_persistence d @ check_stats e d @ [(''runtime_heartbeat'', b)])"
  by (auto simp: check_persistence_def check_stats_def schema_checks_def CRITICAL_FIELDS_def Let_def)

lemma readiness_parts:
  assumes "readiness_checks e d i = Inr checks"
  obtains snapshot release runtime operational where
    "check_runtime_state_snapshot e (rd_snapshot d) = Inr snapshot" "check_release_gates e d = Inr release"
    "check_runtime (su_parity i) (su_reconciliation i) = Inr runtime"
    "check_operational (su_observability i) (rd_alert d) (rd_rollback d) (su_canary i) (su_shadow i) (su_ack i) = Inr operational"
    "checks = scope_check e # check_lifecycle (rd_lifecycle d) @ (check_persistence d @ check_stats e d
        @ [(''runtime_heartbeat'', is_fresh (rd_heartbeat d))]) @ snapshot @ release @ runtime @ operational"
  using assms unfolding readiness_checks_def Let_def by (auto simp: bindE_Inr_iff)

lemma checks_pass_at: "checks_pass checks names \<Longrightarrow> n \<in> set names \<Longrightarrow> observed checks n = Some True"
  by (simp add: checks_pass_def list_all_iff)

lemma observed_in_middle:
  assumes "observed (xs @ ys @ zs) n = Some b" "n \<notin> fst ` set zs" "n \<in> fst ` set ys"
  shows "observed ys n = Some b"
proof -
  have "observed ys n \<noteq> None" using assms(3) by (simp add: observed_def map_of_eq_None_iff)
  then show ?thesis using assms(1) observed_absent [OF assms(2)]
    by (auto simp: observed_append map_add_def split: option.splits)
qed

lemma lifecycle_gate_facts:
  assumes c: "readiness_checks e d i = Inr checks" and p: "checks_pass checks LIFECYCLE_CHECKS"
    and ev: "events \<in> set (by_signal (rd_lifecycle d))"
  shows "\<not> orphan_signal events" "invalid_transitions events = 0" "\<not> exit_missing events"
proof -
  obtain snapshot release runtime operational where
    s: "check_runtime_state_snapshot e (rd_snapshot d) = Inr snapshot" and r: "check_release_gates e d = Inr release"
    and t: "check_runtime (su_parity i) (su_reconciliation i) = Inr runtime"
    and o: "check_operational (su_observability i) (rd_alert d) (rd_rollback d) (su_canary i) (su_shadow i) (su_ack i) = Inr operational"
    and checks: "checks = scope_check e # check_lifecycle (rd_lifecycle d) @ (check_persistence d @ check_stats e d
        @ [(''runtime_heartbeat'', is_fresh (rd_heartbeat d))]) @ snapshot @ release @ runtime @ operational"
    by (rule readiness_parts [OF c])
  have split: "checks = [scope_check e] @ check_lifecycle (rd_lifecycle d) @ ((check_persistence d @ check_stats e d
        @ [(''runtime_heartbeat'', is_fresh (rd_heartbeat d))]) @ snapshot @ release @ runtime @ operational)"
    by (simp add: checks)
  have at: "observed (check_lifecycle (rd_lifecycle d)) n = Some True" if n: "n \<in> set LIFECYCLE_CHECKS" for n
  proof (rule observed_in_middle)
    show "observed ([scope_check e] @ check_lifecycle (rd_lifecycle d) @ ((check_persistence d @ check_stats e d
        @ [(''runtime_heartbeat'', is_fresh (rd_heartbeat d))]) @ snapshot @ release @ runtime @ operational)) n = Some True"
      using checks_pass_at [OF p n] split by simp
    have "n \<notin> set SNAPSHOT_NAMES" "n \<noteq> ''phase6_release_gate_evidence''" "n \<notin> set RUNTIME_NAMES" "n \<notin> set OPERATIONAL_NAMES"
      using n by (auto simp: LIFECYCLE_CHECKS_def SNAPSHOT_NAMES_def RUNTIME_CHECKS_def RUNTIME_NAMES_def
          RECONCILIATION_CHECKS_def DERIVATIVES_CHECKS_def OPERATIONAL_NAMES_def)
    then have "n \<notin> fst ` set snapshot" "n \<notin> fst ` set release" "n \<notin> fst ` set runtime" "n \<notin> fst ` set operational"
      using snapshot_names [OF s] release_names [OF r] runtime_names [OF t] operational_names [OF o] by auto
    moreover have "n \<notin> fst ` set (check_persistence d @ check_stats e d @ [(''runtime_heartbeat'', is_fresh (rd_heartbeat d))])"
      using n by (intro persistence_names) (auto simp: LIFECYCLE_CHECKS_def)
    ultimately show "n \<notin> fst ` set ((check_persistence d @ check_stats e d
        @ [(''runtime_heartbeat'', is_fresh (rd_heartbeat d))]) @ snapshot @ release @ runtime @ operational)"
      by (simp only: set_append image_Un Un_iff) blast
    show "n \<in> fst ` set (check_lifecycle (rd_lifecycle d))"
      using n by (auto simp: LIFECYCLE_CHECKS_def check_lifecycle_def Let_def)
  qed
  have "filter orphan_signal (by_signal (rd_lifecycle d)) = []"
    using at [of "''lifecycle_no_orphans''"] by (simp add: LIFECYCLE_CHECKS_def check_lifecycle_def Let_def observed_eval)
  moreover have "\<forall>x \<in> set (by_signal (rd_lifecycle d)). invalid_transitions x = 0"
    using at [of "''lifecycle_transitions_valid''"] by (simp add: LIFECYCLE_CHECKS_def check_lifecycle_def Let_def observed_eval)
  moreover have "filter exit_missing (by_signal (rd_lifecycle d)) = []"
    using at [of "''entry_exit_completeness''"] by (simp add: LIFECYCLE_CHECKS_def check_lifecycle_def Let_def observed_eval)
  ultimately show "\<not> orphan_signal events" "invalid_transitions events = 0" "\<not> exit_missing events"
    using ev by (auto simp: filter_empty_conv)
qed

lemma release_gate_fact:
  assumes c: "readiness_checks e d i = Inr checks" and p: "checks_pass checks [''phase6_release_gate_evidence'']"
  shows "\<exists>s. build_release_snapshot (rd_release d) (case ev_release e of None \<Rightarrow> ''default'' | Some r \<Rightarrow> r) ''PHASE6''
      (rd_now d) (rd_now d) = Inr s \<and> release_gate_passed s"
proof -
  let ?n = "''phase6_release_gate_evidence''"
  obtain snapshot release runtime operational where
    s: "check_runtime_state_snapshot e (rd_snapshot d) = Inr snapshot" and r: "check_release_gates e d = Inr release"
    and t: "check_runtime (su_parity i) (su_reconciliation i) = Inr runtime"
    and o: "check_operational (su_observability i) (rd_alert d) (rd_rollback d) (su_canary i) (su_shadow i) (su_ack i) = Inr operational"
    and checks: "checks = scope_check e # check_lifecycle (rd_lifecycle d) @ (check_persistence d @ check_stats e d
        @ [(''runtime_heartbeat'', is_fresh (rd_heartbeat d))]) @ snapshot @ release @ runtime @ operational"
    by (rule readiness_parts [OF c])
  let ?before = "scope_check e # check_lifecycle (rd_lifecycle d) @ (check_persistence d @ check_stats e d
        @ [(''runtime_heartbeat'', is_fresh (rd_heartbeat d))]) @ snapshot"
  have "observed (?before @ release @ (runtime @ operational)) ?n = Some True"
    using checks_pass_at [OF p, of ?n] checks by simp
  moreover have "?n \<notin> fst ` set (runtime @ operational)"
    using runtime_names [OF t] operational_names [OF o]
    by (auto simp: RUNTIME_NAMES_def RECONCILIATION_CHECKS_def DERIVATIVES_CHECKS_def OPERATIONAL_NAMES_def)
  moreover have "?n \<in> fst ` set release" using r by (auto simp: check_release_gates_def bindE_Inr_iff split: if_splits)
  ultimately have "observed release ?n = Some True" by (rule observed_in_middle)
  then show ?thesis using r
    by (auto simp: check_release_gates_def bindE_Inr_iff observed_eval split: if_splits)
qed

lemma runtime_gate_fact:
  assumes c: "readiness_checks e d i = Inr checks" and p: "checks_pass checks [''mode_parity'']"
  shows "parity_complete (su_parity i) = Inr True"
proof -
  let ?n = "''mode_parity''"
  obtain snapshot release runtime operational where
    t: "check_runtime (su_parity i) (su_reconciliation i) = Inr runtime"
    and o: "check_operational (su_observability i) (rd_alert d) (rd_rollback d) (su_canary i) (su_shadow i) (su_ack i) = Inr operational"
    and checks: "checks = scope_check e # check_lifecycle (rd_lifecycle d) @ (check_persistence d @ check_stats e d
        @ [(''runtime_heartbeat'', is_fresh (rd_heartbeat d))]) @ snapshot @ release @ runtime @ operational"
    by (rule readiness_parts [OF c])
  let ?before = "scope_check e # check_lifecycle (rd_lifecycle d) @ (check_persistence d @ check_stats e d
        @ [(''runtime_heartbeat'', is_fresh (rd_heartbeat d))]) @ snapshot @ release"
  have "observed (?before @ runtime @ operational) ?n = Some True" using checks_pass_at [OF p, of ?n] checks by simp
  moreover have "?n \<notin> fst ` set operational" using operational_names [OF o] by (auto simp: OPERATIONAL_NAMES_def)
  moreover have "?n \<in> fst ` set runtime" using t by (auto simp: check_runtime_def bindE_Inr_iff Let_def)
  ultimately have "observed runtime ?n = Some True" by (rule observed_in_middle)
  then show ?thesis using t
    by (auto simp: check_runtime_def bindE_Inr_iff observed_eval RUNTIME_NAMES_def Let_def)
qed

lemma operational_gate_fact:
  assumes c: "readiness_checks e d i = Inr checks" and p: "checks_pass checks [''rollback_ready'']"
  shows "bool_field (dupdate (dupdate (su_observability i) (rd_alert d)) (rd_rollback d)) ''rollback_evidence_verified''"
proof -
  let ?n = "''rollback_ready''"
  obtain snapshot release runtime operational where
    o: "check_operational (su_observability i) (rd_alert d) (rd_rollback d) (su_canary i) (su_shadow i) (su_ack i) = Inr operational"
    and checks: "checks = scope_check e # check_lifecycle (rd_lifecycle d) @ (check_persistence d @ check_stats e d
        @ [(''runtime_heartbeat'', is_fresh (rd_heartbeat d))]) @ snapshot @ release @ runtime @ operational"
    by (rule readiness_parts [OF c])
  let ?before = "scope_check e # check_lifecycle (rd_lifecycle d) @ (check_persistence d @ check_stats e d
        @ [(''runtime_heartbeat'', is_fresh (rd_heartbeat d))]) @ snapshot @ release @ runtime"
  have "observed (?before @ operational @ []) ?n = Some True" using checks_pass_at [OF p, of ?n] checks by simp
  moreover have "?n \<in> fst ` set operational" using o by (auto simp: check_operational_def bindE_Inr_iff Let_def)
  ultimately have "observed operational ?n = Some True" by (intro observed_in_middle [of ?before operational "[]"]) auto
  then show ?thesis using o by (auto simp: check_operational_def bindE_Inr_iff observed_eval Let_def)
qed

lemma dset_keys:
  assumes "distinct (map fst d)"
  shows "distinct (map fst (dset k v d))"
proof -
  have "fst ` set (dset k v d) = insert k (fst ` set d)" for d by (induction k v d rule: dset.induct) auto
  then show ?thesis using assms by (induction k v d rule: dset.induct) auto
qed

lemma dupdate_keys: "distinct (map fst d) \<Longrightarrow> distinct (map fst (dupdate d e))"
  by (induction e arbitrary: d) (auto simp: dupdate_def dset_keys)

lemma dupdate_present: "map_of d k \<noteq> None \<Longrightarrow> map_of (dupdate d e) k \<noteq> None"
  by (induction e arbitrary: d) (auto simp: dupdate_def map_of_dset)

lemma rollback_reader_keys:
  "distinct (map fst (latest_persisted_rollback_evidence parse_ts max_age now ok vt))
   \<and> map_of (latest_persisted_rollback_evidence parse_ts max_age now ok vt) ''rollback_evidence_verified'' \<noteq> None"
proof -
  have missing: "distinct (map fst missing_rollback_evidence)" "map_of missing_rollback_evidence ''rollback_evidence_verified'' \<noteq> None"
    by (simp_all add: missing_rollback_evidence_def)
  have measured: "distinct (map fst (measured_rollback_evidence v a b p))"
    "map_of (measured_rollback_evidence v a b p) ''rollback_evidence_verified'' \<noteq> None" for v a b p
    by (simp_all add: measured_rollback_evidence_def)
  define good where "good = (\<lambda>d :: pydict. distinct (map fst d) \<and> map_of d ''rollback_evidence_verified'' \<noteq> None)"
  have g: "good missing_rollback_evidence" "good (measured_rollback_evidence v a b p)" "good (dupdate missing_rollback_evidence e)"
    for v a b p e
    using missing measured dupdate_keys [OF missing(1)] dupdate_present [OF missing(2)] unfolding good_def by blast+
  have "good (latest_persisted_rollback_evidence parse_ts max_age now ok vt)"
    unfolding latest_persisted_rollback_evidence_def Let_def by (simp add: g split: option.split del: append.simps)
  then show ?thesis unfolding good_def .
qed

lemma bool_field_stored:
  assumes "bool_field (dupdate obs (latest_persisted_rollback_evidence parse_ts max_age now ok vt)) ''rollback_evidence_verified''"
  shows "truthy (dget (latest_persisted_rollback_evidence parse_ts max_age now ok vt) ''rollback_evidence_verified'')"
proof -
  define l where "l = latest_persisted_rollback_evidence parse_ts max_age now ok vt"
  have l: "distinct (map fst l)" "map_of l ''rollback_evidence_verified'' \<noteq> None"
    using rollback_reader_keys unfolding l_def by blast+
  then obtain v where v: "map_of l ''rollback_evidence_verified'' = Some v" by blast
  then have "map_of (dupdate obs l) ''rollback_evidence_verified'' = Some v" using map_of_dupdate [OF l(1)] by simp
  then show ?thesis using assms v unfolding l_def [symmetric] by (simp add: bool_field_def dget_def dget_or_def)
qed

definition clean_snapshot :: "pydict \<Rightarrow> bool" where
  \<comment> \<open>the restart evidence the runtime gate asks of a snapshot\<close>
  "clean_snapshot snap \<longleftrightarrow>
     int_or_zero (dget snap ''orphan_order_count'') = Inr 0 \<and> int_or_zero (dget snap ''orphan_position_count'') = Inr 0 \<and>
     \<not> truthy (dget snap ''recovery_action_required'') \<and> dget snap ''kill_switch_active'' \<noteq> VNone \<and>
     upper_or snap ''reconciliation_status'' ''UNKNOWN'' \<in> {''CLEAN'', ''NOT_REQUIRED_BACKTEST''}"

lemma snapshot_gate_fact:
  assumes c: "readiness_checks e d i = Inr checks" and p: "checks_pass checks RUNTIME_CHECKS"
  shows "\<exists>snap. rd_snapshot d = Inr (Some snap) \<and> clean_snapshot snap"
proof -
  obtain snapshot release runtime operational where
    s: "check_runtime_state_snapshot e (rd_snapshot d) = Inr snapshot" and r: "check_release_gates e d = Inr release"
    and t: "check_runtime (su_parity i) (su_reconciliation i) = Inr runtime"
    and o: "check_operational (su_observability i) (rd_alert d) (rd_rollback d) (su_canary i) (su_shadow i) (su_ack i) = Inr operational"
    and checks: "checks = scope_check e # check_lifecycle (rd_lifecycle d) @ (check_persistence d @ check_stats e d
        @ [(''runtime_heartbeat'', is_fresh (rd_heartbeat d))]) @ snapshot @ release @ runtime @ operational"
    by (rule readiness_parts [OF c])
  let ?before = "scope_check e # check_lifecycle (rd_lifecycle d) @ (check_persistence d @ check_stats e d
        @ [(''runtime_heartbeat'', is_fresh (rd_heartbeat d))])"
  have rest: "n \<notin> fst ` set (release @ runtime @ operational)" if n: "n \<in> set RUNTIME_CHECKS" for n
  proof -
    have "n \<noteq> ''phase6_release_gate_evidence''" "n \<notin> set RUNTIME_NAMES" "n \<notin> set OPERATIONAL_NAMES"
      using n by (auto simp: RUNTIME_CHECKS_def RUNTIME_NAMES_def RECONCILIATION_CHECKS_def DERIVATIVES_CHECKS_def OPERATIONAL_NAMES_def)
    then show ?thesis using release_names [OF r] runtime_names [OF t] operational_names [OF o] by auto
  qed
  have at: "observed snapshot n = Some True" if n: "n \<in> set RUNTIME_CHECKS" and present: "n \<in> fst ` set snapshot" for n
  proof (rule observed_in_middle)
    show "observed (?before @ snapshot @ (release @ runtime @ operational)) n = Some True" using checks_pass_at [OF p n] checks by simp
  qed (use rest [OF n] present in auto)
  have db: "observed snapshot ''runtime_db_persistence_verified'' = Some True"
    using s by (intro at) (auto simp: RUNTIME_CHECKS_def check_runtime_state_snapshot_def bindE_Inr_iff Let_def split: sum.splits if_splits)
  obtain snap where snap: "rd_snapshot d = Inr (Some snap)" "snap \<noteq> []"
    using s db by (auto simp: check_runtime_state_snapshot_def observed_eval Let_def split: sum.splits option.splits if_splits)
  have names: "fst ` set snapshot = set SNAPSHOT_NAMES"
    using s snap by (auto simp: check_runtime_state_snapshot_def bindE_Inr_iff SNAPSHOT_NAMES_def RUNTIME_CHECKS_def Let_def)
  have all: "observed snapshot n = Some True" if "n \<in> set RUNTIME_CHECKS" for n
    using at [OF that] that names by (auto simp: SNAPSHOT_NAMES_def)
  have "clean_snapshot snap"
    using s snap all [of "''no_orphan_orders''"] all [of "''no_orphan_positions''"] all [of "''runtime_recovery_not_required''"]
      all [of "''kill_switch_state_persisted''"] all [of "''exchange_reconciliation_clean''"]
    by (auto simp: check_runtime_state_snapshot_def bindE_Inr_iff clean_snapshot_def observed_eval RUNTIME_CHECKS_def Let_def)
  then show ?thesis using snap(1) by blast
qed

text \<open>C4: nothing short of the evidence moves the verdict off \<^verbatim>\<open>NOT_LIVE_READY\<close>, and even then no
  report qualifies real orders: the release gate passed at the evaluation's instant, the kill
  switch is off, a complete rollback validation is stored, the decision surfaces agree, the
  runtime's last snapshot is reconciled without orphans, and every signal starts with its
  creation, moves along the lifecycle table only, and has left an entry it triggered.
\<close>
theorem advanced_verdict_is_evidenced:
  assumes "evaluate_readiness e d i = Inr report" "q_verdict report \<noteq> ''NOT_LIVE_READY''"
    and "rd_rollback d = latest_persisted_rollback_evidence parse_ts max_age now ok vt"
  shows "\<not> q_qualified report \<and> \<not> su_kill_switch i \<and> parity_complete (su_parity i) = Inr True
      \<and> (\<exists>s. build_release_snapshot (rd_release d) (case ev_release e of None \<Rightarrow> ''default'' | Some r \<Rightarrow> r) ''PHASE6''
            (rd_now d) (rd_now d) = Inr s \<and> release_gate_passed s)
      \<and> (\<exists>tab v. vt = Some tab \<and> last_row (\<lambda>_. True) (vt_rows tab) = Some v \<and> v_kill_switch v \<and> v_no_submit v
            \<and> v_fail_closed v \<and> v_non_mutating v \<and> v_mutations v = 0)
      \<and> (\<exists>snap. rd_snapshot d = Inr (Some snap) \<and> clean_snapshot snap)
      \<and> (\<forall>events \<in> set (by_signal (rd_lifecycle d)). \<not> orphan_signal events \<and> invalid_transitions events = 0 \<and> \<not> exit_missing events)"
proof -
  obtain checks where c: "readiness_checks e d i = Inr checks"
    and q: "q_qualified report = False" "verdict_from_gates (aggregate_gates checks i) \<noteq> ''NOT_LIVE_READY''"
    using assms(1,2) by (auto simp: evaluate_readiness_def bindE_Inr_iff Let_def)
  note f = aggregate_facts [OF q(2)]
  have t: "truthy (dget (latest_persisted_rollback_evidence parse_ts max_age now ok vt) ''rollback_evidence_verified'')"
    using operational_gate_fact [OF c f(4)] unfolding assms(3) by (rule bool_field_stored)
  have "\<exists>tab v. vt = Some tab \<and> last_row (\<lambda>_. True) (vt_rows tab) = Some v \<and> v_kill_switch v \<and> v_no_submit v
            \<and> v_fail_closed v \<and> v_non_mutating v \<and> v_mutations v = 0"
    by (rule verified_validation [OF t]) (auto simp: validation_row_valid_def)
  then show ?thesis
    using q(1) f(3) runtime_gate_fact [OF c f(2)] release_gate_fact [OF c f(6)] snapshot_gate_fact [OF c f(5)]
      lifecycle_gate_facts [OF c f(1)] by simp
qed

subsection \<open>What the lifecycle gate admits\<close>

lemma allowed_after_event: "allowed_after (event_value e) = map event_value (transitions_of e)"
  by (cases e) (simp_all add: allowed_after_def ALLOWED_LIFECYCLE_TRANSITIONS_def EXECUTION_STATE_TRANSITIONS_def
      CANONICAL_LIFECYCLE_TRANSITIONS_def map_add_def)

lemma valid_history_canonical:
  assumes "invalid_transitions events = 0" "events \<noteq> [] \<Longrightarrow> lf_state (hd events) \<in> range event_value"
  shows "lf_state ` set events \<subseteq> range event_value"
  using assms
proof (induction events)
  case (Cons a events)
  show ?case
  proof (cases events)
    case Nil
    then show ?thesis using Cons.prems by simp
  next
    case (Cons b rest)
    obtain x where x: "lf_state a = event_value x" using \<open>a # events \<noteq> [] \<Longrightarrow> _\<close> by auto
    have step: "lf_state b \<in> set (allowed_after (lf_state a))" and tail: "invalid_transitions events = 0"
      using Cons.prems(1) by (auto simp: invalid_transitions_def Cons split: if_splits)
    have "lf_state b \<in> range event_value" using step by (auto simp: x allowed_after_event)
    then have "lf_state ` set events \<subseteq> range event_value" using Cons.IH [OF tail] Cons by simp
    then show ?thesis using x by simp
  qed
qed simp

lemma terminal_canonical: "List.member TERMINAL_STATES (event_value e) \<Longrightarrow> e = CANCELLED"
  by (cases e) (simp_all add: TERMINAL_STATES_def)

lemma clean_history_facts:
  assumes "\<not> orphan_signal events" "invalid_transitions events = 0"
  shows "lf_state ` set events \<subseteq> range event_value"
  using assms by (intro valid_history_canonical) (auto simp: orphan_signal_def split: list.splits simp del: event_value.simps)

lemma triggered_needs_cancel:
  assumes "\<not> orphan_signal events" "invalid_transitions events = 0" "\<not> exit_missing events"
    and "event_value ENTRY_TRIGGERED \<in> lf_state ` set events"
  shows "event_value CANCELLED \<in> lf_state ` set events"
proof -
  have "\<exists>r \<in> set events. List.member TERMINAL_STATES (lf_state r)"
    using assms(3,4) by (auto simp: exit_missing_def list_ex_iff)
  then obtain r where r: "r \<in> set events" "List.member TERMINAL_STATES (lf_state r)" by blast
  then obtain x where "lf_state r = event_value x" using clean_history_facts [OF assms(1,2)] by auto
  then show ?thesis using r terminal_canonical by (metis image_eqI)
qed

text \<open>C28: the lifecycle gate has no place for a trade that ran to its end: one signal that triggered
  an entry and was never cancelled keeps the verdict at \<^verbatim>\<open>NOT_LIVE_READY\<close>. A position closed the
  normal way ends in \<^verbatim>\<open>POSITION_CLOSED\<close>, which is not among the evaluation's terminal states, and
  the terminal states \<^verbatim>\<open>TP_HIT\<close>, \<^verbatim>\<open>SL_HIT\<close> and \<^verbatim>\<open>OPEN_AT_END\<close> follow no state of the lifecycle table.
\<close>
theorem completed_trade_blocks_readiness:
  assumes "evaluate_readiness e d i = Inr report" "events \<in> set (by_signal (rd_lifecycle d))"
    and "event_value ENTRY_TRIGGERED \<in> lf_state ` set events" "event_value CANCELLED \<notin> lf_state ` set events"
  shows "q_verdict report = ''NOT_LIVE_READY''"
proof (rule ccontr)
  assume "q_verdict report \<noteq> ''NOT_LIVE_READY''"
  then obtain checks where c: "readiness_checks e d i = Inr checks"
    and q: "verdict_from_gates (aggregate_gates checks i) \<noteq> ''NOT_LIVE_READY''"
    using assms(1) by (auto simp: evaluate_readiness_def bindE_Inr_iff Let_def)
  show False
    using triggered_needs_cancel [OF lifecycle_gate_facts [OF c aggregate_facts(1) [OF q] assms(2)]] assms(3,4) by blast
qed

text \<open>A mutation the trap caught reaches the verdict: whatever is stored afterwards, no evaluation
  of that release leaves \<^verbatim>\<open>NOT_LIVE_READY\<close>.
\<close>
theorem trapped_mutation_blocks_readiness:
  assumes "trap_call t rel ''PHASE6'' name eid ts = (t1, Inl (RuntimeError ''CANARY_MUTATION_BLOCKED''))"
    and "rd_release d = readable up (foldl release_step t1 later)" "ev_release e = Some rel"
    and "evaluate_readiness e d i = Inr report"
  shows "q_verdict report = ''NOT_LIVE_READY''"
proof (rule ccontr)
  assume "q_verdict report \<noteq> ''NOT_LIVE_READY''"
  then obtain checks where c: "readiness_checks e d i = Inr checks"
    and q: "verdict_from_gates (aggregate_gates checks i) \<noteq> ''NOT_LIVE_READY''"
    using assms(4) by (auto simp: evaluate_readiness_def bindE_Inr_iff Let_def)
  obtain s where s: "build_release_snapshot (readable up (foldl release_step t1 later)) rel ''PHASE6'' (rd_now d) (rd_now d) = Inr s"
    "release_gate_passed s"
    using release_gate_fact [OF c aggregate_facts(6) [OF q]] assms(2,3) by auto
  have "trap_row rel ''PHASE6'' name eid ts \<in> set (canary_events (foldl release_step t1 later))"
    by (rule canary_log.logged_stays [OF trap_call_blocked [OF assms(1)]])
  moreover have "attempt_row rel ''PHASE6'' (trap_row rel ''PHASE6'' name eid ts)"
    by (simp add: attempt_row_def trap_row_def same_text_def)
  ultimately show False using attempt_blocks_gate [OF _ _ s(1)] s(2) by blast
qed

subsection \<open>More evidence never lowers the verdict\<close>

definition verdict_rank :: "string \<Rightarrow> nat" where
  "verdict_rank v = (if v = ''NOT_LIVE_READY'' then 0 else if v = ''LIVE_PRECHECK_READY'' then 1
     else if v = ''LIVE_DRY_RUN_READY'' then 2 else 3)"

definition stronger :: "CheckResult list \<Rightarrow> CheckResult list \<Rightarrow> bool" where
  \<comment> \<open>the same gates, and whatever passed still passes\<close>
  "stronger gs hs \<longleftrightarrow> list_all2 (\<lambda>g h. fst g = fst h \<and> (snd g \<longrightarrow> snd h)) gs hs"

lemma map_of_stronger:
  "list_all2 (\<lambda>g h. fst g = fst h \<and> (snd g \<longrightarrow> snd h)) gs hs \<Longrightarrow> map_of gs n = Some True \<Longrightarrow> map_of hs n = Some True"
  by (induction rule: list_all2_induct) (auto split: if_splits)

lemma observed_stronger: "stronger gs hs \<Longrightarrow> observed gs n = Some True \<Longrightarrow> observed hs n = Some True"
  using map_of_stronger [of "rev gs" "rev hs" n] by (simp add: stronger_def observed_def list_all2_rev1)

lemma others_stronger:
  "stronger gs hs \<Longrightarrow> list_all (\<lambda>g. fst g \<in> except \<or> snd g) gs \<Longrightarrow> list_all (\<lambda>g. fst g \<in> except \<or> snd g) hs"
  unfolding stronger_def by (induction rule: list_all2_induct) auto

text \<open>Whatever passes more gates is judged at least as high.\<close>

theorem verdict_is_monotone:
  assumes "stronger gs hs"
  shows "verdict_rank (verdict_from_gates gs) \<le> verdict_rank (verdict_from_gates hs)"
proof -
  have all: "list_all (\<lambda>n. observed gs n = Some True) ns \<Longrightarrow> list_all (\<lambda>n. observed hs n = Some True) ns" for ns
    using observed_stronger [OF assms] by (auto simp: list_all_iff)
  note one = observed_stronger [OF assms] and rest = others_stronger [OF assms]
  define c where "c = (\<lambda>x. [list_all (\<lambda>n. observed x n = Some True) LOWER_GATES, observed x ''kill_switch_verified'' = Some True,
      observed x ''phase5_runtime_resilience_complete'' = Some True, observed x ''phase6_release_gates_verified'' = Some True,
      list_all (\<lambda>g. fst g \<in> {} \<or> snd g) x, list_all (\<lambda>g. fst g \<in> {''operator_acknowledgement_required''} \<or> snd g) x,
      list_all (\<lambda>g. fst g \<in> {''operator_acknowledgement_required'', ''full_tests_passing_evidence_recorded''} \<or> snd g) x])"
  have v: "verdict_rank (verdict_from_gates x) = (if \<not> c x ! 0 \<or> \<not> c x ! 1 \<or> \<not> c x ! 2 \<or> \<not> c x ! 3 then 0
      else if c x ! 4 \<or> c x ! 5 then 3 else if c x ! 6 then 2 else 1)" for x
    by (simp add: verdict_from_gates_def Let_def verdict_rank_def c_def)
  have "list_all2 (\<longrightarrow>) (c gs) (c hs)"
    unfolding c_def by (intro list.rel_intros impI) (erule all one rest)+
  then have nth: "k < length (c gs) \<Longrightarrow> c gs ! k \<Longrightarrow> c hs ! k" for k
    by (rule list_all2_nthD [THEN mp])
  have len: "length (c gs) = 7" by (simp add: c_def)
  show ?thesis unfolding v using nth [of 0] nth [of 1] nth [of 2] nth [of 3] nth [of 4] nth [of 5] nth [of 6] len by auto
qed

subsection \<open>A concrete evaluation\<close>

definition demo_evaluator :: evaluator where
  "demo_evaluator = \<lparr>ev_bounds = (Fin 0, Fin 1), ev_heartbeat_max = Fin 60, ev_mode = ''PAPER'', ev_campaign = None,
     ev_explicit_run = None, ev_release = Some ''R1'', ev_instance = None, ev_min_rr = (None, False),
     ev_require_scope = False, ev_run = None\<rparr>"

definition demo_faults :: "string list" where
  \<comment> \<open>the counts that must be zero\<close>
  "demo_faults = [''rejected'', ''null_rows_signals'', ''null_rows_order_decisions'', ''null_rows_trade_lifecycle_events'',
     ''parity_rows'', ''evidence_parity_rows'', ''fake_zero_rows'', ''evidence_fake_zero_rows'',
     ''phase3_invalid_effective_rr_threshold'', ''phase3_missing_critical_accepted'', ''phase3_low_effective_accepted'',
     ''accepted_over_position'', ''accepted_over_notional'', ''accepted_over_symbol'', ''accepted_after_daily_loss'',
     ''accepted_unknown'']"

definition demo_reads :: "life_row list \<Rightarrow> (string \<Rightarrow> gate_tables option) \<Rightarrow> readiness_reads" where
  "demo_reads rows release = \<lparr>rd_lifecycle = rows,
     rd_columns = (\<lambda>_. [''portfolio_equity'', ''open_position_count'', ''total_notional_exposure'', ''portfolio_risk_state'',
       ''portfolio_diagnostics_json'', ''max_open_positions'']),
     rd_count = (\<lambda>n. if List.member demo_faults n then 0 else 2), rd_has_evidence = True,
     rd_range = (\<lambda>_. (VInt 1, VInt 2)), rd_heartbeat = \<lparr>hf_state = ''FRESH'', hf_reason = [], hf_latest = None, hf_age = Some (Fin 1), hf_max = Fin 60\<rparr>,
     rd_snapshot = Inr (Some [(''runtime_status'', VStr ''RECONCILED''), (''reconciliation_status'', VStr ''CLEAN''),
       (''exchange_read_only_status'', VStr ''OK''), (''kill_switch_active'', VBool False)]),
     rd_release = release,
     rd_alert = [(''alert_delivery_verified'', VBool True)],
     rd_rollback = latest_persisted_rollback_evidence (\<lambda>_. Some 0) MAX_EVIDENCE_AGE_SEC 0 True (Some demo_validations),
     rd_now = 1000000\<rparr>"

definition demo_supplied :: supplied where
  "demo_supplied = \<lparr>
     su_parity = [(''evidence_status'', VStr ''COMPLETE''), (''sample_count'', VInt 1),
       (''modes_compared'', VList [VStr ''BACKTEST'', VStr ''PAPER'', VStr ''LIVE_PRECHECK'']),
       (''comparison_fields'', VList (map VStr PROTECTED_FIELDS)), (''no_submit_verified'', VBool True),
       (''execution_context_complete'', VBool True), (''microstructure_evidence_status'', VStr ''COMPLETE_MEASURED''),
       (''microstructure_live_equivalent'', VBool True)],
     su_reconciliation = [(''provider_configured'', VBool True), (''evidence_status'', VStr ''COMPLETE''),
       (''derivatives_contract'', VDict [(''account_model'', VStr ''NOTIONAL_ONLY_1X''), (''account_model_status'', VStr ''PASS''),
          (''leveraged_live_supported'', VBool False), (''funding_live_equivalent'', VBool True),
          (''funding_accrual_status'', VStr ''COMPLETE_MEASURED_HOLD_AWARE''), (''live_eligible'', VBool True)])],
     su_observability = [], su_canary = True, su_shadow = True, su_ack = False, su_kill_switch = False,
     su_dashboard = [], su_timesfm = [], su_burnin = [], su_tests = []\<rparr>"

definition demo_snapshot_names :: "string list" where
  "demo_snapshot_names =
     [''runtime_state_snapshot_present'', ''runtime_db_persistence_verified'', ''runtime_heartbeat_fresh'',
      ''runtime_recovery_not_required'', ''no_unclean_shutdown_unresolved'', ''kill_switch_state_persisted'',
      ''no_orphan_orders'', ''no_orphan_positions'', ''no_stale_pending_orders'', ''exchange_reconciliation_evidence_present'',
      ''exchange_reconciliation_clean'', ''exchange_read_only_evidence_present'', ''backtest_runtime_state_reconciles'',
      ''paper_runtime_state_reconciles'', ''live_precheck_no_mutation_verified'']"

lemma demo_snapshot_checks:
  "check_runtime_state_snapshot demo_evaluator (rd_snapshot (demo_reads rows release)) = Inr (map (\<lambda>n. (n, True)) demo_snapshot_names)"
  by code_simp

lemma demo_runtime_checks:
  "check_runtime (su_parity demo_supplied) (su_reconciliation demo_supplied) = Inr (map (\<lambda>n. (n, True)) RUNTIME_NAMES)"
  by code_simp

lemma demo_operational_checks:
  "check_operational (su_observability demo_supplied) (rd_alert (demo_reads rows release)) demo_measured True True False
    = Inr [(''shadow_mode_enabled'', True), (''canary_enabled'', True), (''operator_acknowledged'', False),
          (''alert_delivery_evidence'', True), (''observability_coverage'', False), (''rollback_ready'', True)]"
  by code_simp

lemma demo_release_total:
  assumes "gate_inv t"
  shows "\<exists>b. check_release_gates demo_evaluator (demo_reads rows (readable up t)) = Inr [(''phase6_release_gate_evidence'', b)]"
  using snapshot_total [OF assms, of up "''R1''" "''PHASE6''" 1000000 1000000]
  by (auto simp: check_release_gates_def demo_evaluator_def demo_reads_def)

lemma demo_evaluates:
  assumes "gate_inv t"
  shows "\<exists>report. evaluate_readiness demo_evaluator (demo_reads rows (readable up t)) demo_supplied = Inr report"
proof -
  obtain b where b: "check_release_gates demo_evaluator (demo_reads rows (readable up t)) = Inr [(''phase6_release_gate_evidence'', b)]"
    using demo_release_total [OF assms] by blast
  have r: "rd_rollback (demo_reads rows (readable up t)) = demo_measured" by (simp add: demo_reads_def demo_measured_eq)
  have o: "check_operational (su_observability demo_supplied) (rd_alert (demo_reads rows (readable up t))) demo_measured
      (su_canary demo_supplied) (su_shadow demo_supplied) (su_ack demo_supplied)
    = Inr [(''shadow_mode_enabled'', True), (''canary_enabled'', True), (''operator_acknowledged'', False),
          (''alert_delivery_evidence'', True), (''observability_coverage'', False), (''rollback_ready'', True)]"
    using demo_operational_checks by (simp add: demo_supplied_def)
  show ?thesis
    unfolding evaluate_readiness_def readiness_checks_def Let_def demo_snapshot_checks b demo_runtime_checks r o by simp
qed

lemma demo_persistence_checks:
  "list_all (\<lambda>c. snd c) (drop 6 (check_persistence (demo_reads rows release)))"
  by code_simp


definition demo_life :: "string list \<Rightarrow> life_row list" where
  "demo_life states = map (\<lambda>st. \<lparr>lf_signal = ''S1'', lf_state = st, lf_reject = Some ''LOW_SCORE''\<rparr>) states"

definition demo_history :: "life_row list" where
  "demo_history = demo_life (map event_value [SIGNAL_CREATED, WAITING_ENTRY_ZONE, ENTRY_TRIGGERED, CANCELLED])"

definition demo_checks :: "CheckResult list" where
  "demo_checks = (''readiness_evidence_scope_resolved'', True) # check_lifecycle demo_history
     @ check_persistence (demo_reads [] (\<lambda>_. None))
     @ [(''reject_rate_sanity'', True), (''rr_not_constant'', True), (''score_not_constant'', True), (''runtime_heartbeat'', True)]
     @ map (\<lambda>n. (n, True)) (demo_snapshot_names @ [''phase6_release_gate_evidence''] @ RUNTIME_NAMES)
     @ [(''shadow_mode_enabled'', True), (''canary_enabled'', True), (''operator_acknowledged'', False),
          (''alert_delivery_evidence'', True), (''observability_coverage'', False), (''rollback_ready'', True)]"

lemma demo_life_ok: "list_all snd (check_lifecycle demo_history)"
  by code_simp

definition demo_failing :: "string list" where
  "demo_failing = [''schema_signals'', ''schema_order_decisions'', ''schema_trade_lifecycle_events'', ''operator_acknowledged'',
     ''observability_coverage'']"

lemma demo_checks_pass: "list_all (\<lambda>c. snd c \<or> List.member demo_failing (fst c)) demo_checks"
  by code_simp

definition demo_names :: "string list" where
  "demo_names = [''readiness_evidence_scope_resolved'', ''lifecycle_no_orphans'', ''lifecycle_transitions_valid'',
     ''lifecycle_error_free'', ''rejected_has_reason'', ''entry_exit_completeness'', ''schema_signals'',
     ''critical_not_null_signals'', ''schema_order_decisions'', ''critical_not_null_order_decisions'',
     ''schema_trade_lifecycle_events'', ''critical_not_null_trade_lifecycle_events'', ''reject_persistence_parity'',
     ''phase2_decision_evidence_table_exists'', ''phase2_decision_evidence_rows_present'',
     ''phase2_lifecycle_evidence_present'', ''phase2_reject_evidence_present'', ''phase2_accept_evidence_present'',
     ''phase2_no_fake_zero_execution_evidence'', ''phase2_no_decision_parity_mismatch'',
     ''execution_cost_breakdown_present'', ''effective_rr_available'', ''execution_rejects_persisted'',
     ''effective_rr_threshold_provenance_valid'', ''no_accepted_trade_with_effective_rr_below_threshold'',
     ''no_accepted_trade_with_missing_critical_execution_context'', ''no_fake_zero_execution_costs'',
     ''portfolio_risk_snapshot_present'', ''portfolio_risk_rejects_persisted'',
     ''no_accepted_trade_over_position_limit'', ''no_accepted_trade_over_notional_limit'',
     ''no_accepted_trade_over_symbol_notional_limit'', ''no_accepted_trade_after_daily_loss_limit'',
     ''no_accepted_trade_with_unknown_portfolio_risk'', ''correlation_risk_evidence_present'',
     ''drawdown_guard_evidence_present'', ''portfolio_accounting_reconciliation_present'',
     ''backtest_and_paper_have_canonical_portfolio_risk_evidence'', ''reject_rate_sanity'', ''rr_not_constant'',
     ''score_not_constant'', ''runtime_heartbeat'']
     @ demo_snapshot_names @ [''phase6_release_gate_evidence''] @ RUNTIME_NAMES
     @ [''shadow_mode_enabled'', ''canary_enabled'', ''operator_acknowledged'', ''alert_delivery_evidence'',
        ''observability_coverage'', ''rollback_ready'']"

lemma demo_checks_names: "map fst demo_checks = demo_names"
  by code_simp

lemma demo_pass:
  assumes "list_all (List.member demo_names) names" "list_all (\<lambda>n. \<not> List.member demo_failing n) names"
  shows "checks_pass demo_checks names"
proof -
  have "observed demo_checks n = Some True" if "n \<in> set names" for n
  proof -
    have "n \<in> set (map fst demo_checks)" "n \<notin> set demo_failing"
      using assms that unfolding demo_checks_names by (auto simp: list_all_iff)
    then have "n \<in> fst ` set (rev demo_checks)" by simp
    then obtain b where b: "observed demo_checks n = Some b"
      unfolding observed_def by (cases "map_of (rev demo_checks) n") (auto simp: map_of_eq_None_iff)
    then have "(n, b) \<in> set demo_checks" by (auto simp: observed_def dest: map_of_SomeD)
    then show ?thesis using b demo_checks_pass \<open>n \<notin> set demo_failing\<close> by (auto simp: list_all_iff)
  qed
  then show ?thesis by (simp add: checks_pass_def list_all_iff)
qed

lemma demo_gates_pass:
  "checks_pass demo_checks LIFECYCLE_CHECKS" "checks_pass demo_checks [''rejected_has_reason'', ''reject_persistence_parity'']"
  "checks_pass demo_checks PERSISTED_CHECKS" "checks_pass demo_checks [''mode_parity'']"
  "checks_pass demo_checks [''rr_not_constant'', ''score_not_constant'', ''reject_rate_sanity'']"
  "checks_pass demo_checks EXECUTION_CHECKS" "checks_pass demo_checks PORTFOLIO_CHECKS" 
  "checks_pass demo_checks DERIVATIVES_CHECKS" 
  "checks_pass demo_checks [''microstructure_evidence_measured'', ''microstructure_live_equivalent'']"
  "checks_pass demo_checks [''rollback_ready'']" "checks_pass demo_checks RUNTIME_CHECKS"
  "checks_pass demo_checks [''phase6_release_gate_evidence'']"
  by (rule demo_pass; code_simp)+

lemma demo_verdict: "verdict_from_gates (aggregate_gates demo_checks demo_supplied) \<noteq> ''NOT_LIVE_READY''"
proof -
  have s: "bool_field (su_parity demo_supplied) ''execution_context_complete''"
    "flag_or (su_parity demo_supplied) ''no_submit_verified'' ''no_order_submission_verified''" "\<not> su_kill_switch demo_supplied"
    by code_simp+
  show ?thesis unfolding aggregate_gates_def Let_def
    by (simp add: demo_gates_pass s verdict_from_gates_def Let_def LOWER_GATES_def observed_eval)
qed

definition demo_release :: "string \<Rightarrow> gate_tables option" where
  "demo_release = readable (\<lambda>_. True) (Some demo_tables)"

lemma demo_release_check:
  "check_release_gates demo_evaluator (demo_reads demo_history demo_release) = Inr [(''phase6_release_gate_evidence'', True)]"
  by code_simp

lemma demo_stats_checks:
  "check_stats demo_evaluator (demo_reads demo_history demo_release)
    = [(''reject_rate_sanity'', True), (''rr_not_constant'', True), (''score_not_constant'', True)]"
proof -
  have c: "rd_count (demo_reads demo_history demo_release) ''total'' = 2" "rd_count (demo_reads demo_history demo_release) ''rejected'' = 0"
    by code_simp+
  have r: "spread_range (rd_range (demo_reads demo_history demo_release) n)" for n by (simp add: demo_reads_def spread_range_def)
  show ?thesis unfolding check_stats_def Let_def c by (simp add: r demo_evaluator_def)
qed

lemma demo_readiness_checks:
  "readiness_checks demo_evaluator (demo_reads demo_history demo_release) demo_supplied = Inr demo_checks"
proof -
  have r: "rd_rollback (demo_reads demo_history demo_release) = demo_measured" by (simp add: demo_reads_def demo_measured_eq)
  have o: "check_operational (su_observability demo_supplied) (rd_alert (demo_reads demo_history demo_release)) demo_measured
      (su_canary demo_supplied) (su_shadow demo_supplied) (su_ack demo_supplied)
    = Inr [(''shadow_mode_enabled'', True), (''canary_enabled'', True), (''operator_acknowledged'', False),
          (''alert_delivery_evidence'', True), (''observability_coverage'', False), (''rollback_ready'', True)]"
    using demo_operational_checks by (simp add: demo_supplied_def)
  have s: "scope_check demo_evaluator = (''readiness_evidence_scope_resolved'', True)"
    by (simp add: scope_check_def scope_fail_closed_def demo_evaluator_def)
  have l: "rd_lifecycle (demo_reads demo_history demo_release) = demo_history" by (simp add: demo_reads_def)
  have h: "is_fresh (rd_heartbeat (demo_reads demo_history demo_release))" by (simp add: demo_reads_def is_fresh_def)
  have p: "check_persistence (demo_reads demo_history demo_release) = check_persistence (demo_reads [] (\<lambda>_. None))"
    unfolding check_persistence_def evidence_count_def portfolio_count_def has_portfolio_columns_def schema_checks_def demo_reads_def
    by simp
  show ?thesis
    unfolding readiness_checks_def Let_def demo_snapshot_checks demo_release_check demo_runtime_checks r o demo_stats_checks s l p
    by (simp add: h demo_checks_def)
qed

theorem advanced_verdict_is_evidenced_witness:
  "\<exists>report. evaluate_readiness demo_evaluator (demo_reads demo_history demo_release) demo_supplied = Inr report
     \<and> q_verdict report \<noteq> ''NOT_LIVE_READY'' \<and> \<not> q_qualified report
     \<and> (\<exists>v. last_row (\<lambda>_. True) (vt_rows demo_validations) = Some v \<and> v_mutations v = 0)"
proof -
  obtain report where r: "evaluate_readiness demo_evaluator (demo_reads demo_history demo_release) demo_supplied = Inr report"
    "q_verdict report \<noteq> ''NOT_LIVE_READY''"
    using demo_verdict by (simp add: evaluate_readiness_def demo_readiness_checks Let_def)
  have "rd_rollback (demo_reads demo_history demo_release)
      = latest_persisted_rollback_evidence (\<lambda>_. Some 0) MAX_EVIDENCE_AGE_SEC 0 True (Some demo_validations)"
    by (simp add: demo_reads_def)
  from advanced_verdict_is_evidenced [OF r this] show ?thesis using r by auto
qed

definition demo_trade :: "life_row list" where
  "demo_trade = demo_life (map event_value
     [SIGNAL_CREATED, WAITING_ENTRY_ZONE, ENTRY_TRIGGERED, ORDER_PLACED, POSITION_OPENED, POSITION_CLOSED])"

theorem completed_trade_blocks_readiness_witness:
  "\<exists>report. evaluate_readiness demo_evaluator (demo_reads demo_trade (readable (\<lambda>_. True) None)) demo_supplied = Inr report
     \<and> q_verdict report = ''NOT_LIVE_READY''"
proof -
  obtain report where r: "evaluate_readiness demo_evaluator (demo_reads demo_trade (readable (\<lambda>_. True) None)) demo_supplied = Inr report"
    using demo_evaluates [OF gate_inv_start] by blast
  have "demo_trade \<in> set (by_signal (rd_lifecycle (demo_reads demo_trade (readable (\<lambda>_. True) None))))"
    "event_value ENTRY_TRIGGERED \<in> lf_state ` set demo_trade" "event_value CANCELLED \<notin> lf_state ` set demo_trade"
    by (simp_all add: demo_reads_def) code_simp+
  from completed_trade_blocks_readiness [OF r this] show ?thesis using r by blast
qed

theorem trapped_mutation_blocks_readiness_witness:
  "\<exists>report. evaluate_readiness demo_evaluator (demo_reads demo_history (readable (\<lambda>_. True) (foldl release_step demo_trapped demo_ops)))
      demo_supplied = Inr report \<and> q_verdict report = ''NOT_LIVE_READY''"
proof -
  have "gate_inv (foldl release_step demo_trapped demo_ops)"
    unfolding demo_trapped_def by (intro release_db.run_inv gate_inv_step gate_inv_start)
  then obtain report where r: "evaluate_readiness demo_evaluator
      (demo_reads demo_history (readable (\<lambda>_. True) (foldl release_step demo_trapped demo_ops))) demo_supplied = Inr report"
    using demo_evaluates by blast
  have "rd_release (demo_reads demo_history (readable (\<lambda>_. True) (foldl release_step demo_trapped demo_ops)))
      = readable (\<lambda>_. True) (foldl release_step demo_trapped demo_ops)" "ev_release demo_evaluator = Some ''R1''"
    by (simp_all add: demo_reads_def demo_evaluator_def)
  from trapped_mutation_blocks_readiness [OF demo_trapped_call this r] show ?thesis using r by blast
qed

end
