(* ===== verification/LivePrecheck.thy ===== *)
theory LivePrecheck
  imports DecisionInvariant LiveReadiness
begin

section \<open>The live precheck of the runtime\<close>

text \<open>
  Evidence the runtime collects before a start in LIVE_PRECHECK (\<^verbatim>\<open>runtime.py\<close>).
  \<^verbatim>\<open>_build_mode_parity_evidence\<close> evaluates every qualification sample in the three modes, projects
  and compares the answers, and counts what is missing, different or contradictory; the inputs of the
  readiness evaluation follow. What \<^verbatim>\<open>_evaluate_pre_submit\<close> answered for a sample in each mode is an
  argument (it runs the whole decision path of the runtime), and so are the snapshots of the providers
  and the summary of the reconciliation findings. Sample texts, hashes and time stamps are left out.
\<close>

type_synonym evaluations = "pydict \<times> pydict \<times> pydict"
  \<comment> \<open>the answers in BACKTEST, PAPER and LIVE_PRECHECK\<close>

record parity_comparison =
  pc_backtest :: PreSubmitInvariant
  pc_paper :: PreSubmitInvariant
  pc_live :: PreSubmitInvariant
  pc_missing :: nat
  pc_mismatch :: nat
  pc_error :: bool
  pc_live_micro :: pydict

definition microstructure_of :: "pydict \<Rightarrow> pydict py" where
  \<comment> \<open>\<^verbatim>\<open>dict(d.get("execution_safety", {}).get("microstructure", {}))\<close>; a list of pairs, which \<^verbatim>\<open>dict\<close>
    would take, is not modelled\<close>
  "microstructure_of evaluation =
    (case dget_or evaluation ''execution_safety'' (VDict []) of
       VDict safety \<Rightarrow> (case dget_or safety ''microstructure'' (VDict []) of VDict m \<Rightarrow> Inr m | _ \<Rightarrow> Inl TypeError)
     | _ \<Rightarrow> Inl AttributeError)"

definition semantic_error :: "evaluations \<Rightarrow> bool py" where
  "semantic_error x = (case x of (b, p, l) \<Rightarrow>
    (case assert_pre_submit_invariant_parity COMPARISON_TOL b [p, l] of
       Inr _ \<Rightarrow> Inr False | Inl (ValueError _) \<Rightarrow> Inr True | Inl e \<Rightarrow> Inl e))"

definition compare_sample :: "evaluations \<Rightarrow> parity_comparison py" where
  "compare_sample x = (case x of (b, p, l) \<Rightarrow>
    bindE (project_pre_submit_invariant b) (\<lambda>pb.
    bindE (project_pre_submit_invariant p) (\<lambda>pp.
    bindE (project_pre_submit_invariant l) (\<lambda>pl.
    bindE (semantic_error x) (\<lambda>err.
    bindE (mapE microstructure_of [b, p, l]) (\<lambda>micro.
    Inr \<lparr>pc_backtest = pb, pc_paper = pp, pc_live = pl,
         pc_missing = sum_list (map (length \<circ> incomplete_pre_submit_fields) [pb, pp, pl]),
         pc_mismatch = sum_list (map (length \<circ> compare_pre_submit_invariants COMPARISON_TOL pb) [pp, pl]),
         pc_error = err, pc_live_micro = last micro\<rparr>))))))"

definition surfaces_of :: "parity_comparison \<Rightarrow> PreSubmitInvariant list" where
  "surfaces_of c = [pc_backtest c, pc_paper c, pc_live c]"

definition semantic_violation :: "parity_comparison \<Rightarrow> bool" where
  \<comment> \<open>an error counts when nothing else explains it\<close>
  "semantic_violation c \<longleftrightarrow> pc_error c \<and> pc_missing c = 0 \<and> pc_mismatch c = 0"

definition parity_evidence :: "int \<Rightarrow> parity_comparison list \<Rightarrow> pydict" where
  "parity_evidence min_sample_count cs =
    (let mismatches = sum_list (map pc_mismatch cs); absent = sum_list (map pc_missing cs);
         violations = length (filter semantic_violation cs);
         complete = (min_sample_count \<le> int (length cs) \<and> mismatches = 0 \<and> absent = 0 \<and> violations = 0);
         context_complete = list_all (\<lambda>c. list_all (\<lambda>p. pi_execution_evidence_status p \<notin>
             {[], ''UNKNOWN'', ''UNAVAILABLE'', ''UNAVAILABLE_BLOCKING'', ''INVALID_FAKE_ZERO'', ''INCOMPLETE''}) (surfaces_of c)) cs;
         live_equivalent = (cs \<noteq> [] \<and> list_all (\<lambda>c. truthy (dget_or (pc_live_micro c) ''live_equivalent'' (VBool False))) cs);
         rr_complete = list_all (\<lambda>c. list_all (\<lambda>p. pi_executable_raw_rr p \<noteq> None \<and> pi_remaining_execution_penalty p \<noteq> None
             \<and> pi_effective_rr p \<noteq> None) (surfaces_of c)) cs in
     [(''evidence_status'', VStr (if complete then ''COMPLETE'' else ''INCOMPLETE'')),
      (''sample_count'', VInt (int (length cs))), (''min_sample_count'', VInt min_sample_count),
      (''mismatch_count'', VInt (int mismatches)), (''missing_field_count'', VInt (int absent)),
      (''semantic_violation_count'', VInt (int violations)),
      (''no_order_submission_verified'', VBool True), (''no_submit_verified'', VBool True),
      (''execution_context_complete'', VBool context_complete),
      (''execution_evidence_status'', VStr (if context_complete then ''COMPLETE'' else ''INCOMPLETE'')),
      (''microstructure_evidence_status'', VStr (if live_equivalent then ''COMPLETE_MEASURED'' else ''UNAVAILABLE_BLOCKING'')),
      (''microstructure_live_equivalent'', VBool live_equivalent),
      (''effective_rr_penalty_breakdown_complete'', VBool rr_complete),
      (''modes_compared'', VList [VStr ''BACKTEST'', VStr ''PAPER'', VStr ''LIVE_PRECHECK'']),
      (''comparison_fields'', VList (case cs of [] \<Rightarrow> [] | c # _ \<Rightarrow> map (VStr \<circ> fst) (fields_of (pc_paper c))))])"

definition build_mode_parity_evidence :: "int \<Rightarrow> evaluations list \<Rightarrow> pydict py" where
  "build_mode_parity_evidence min_sample_count samples =
    bindE (mapE compare_sample (take (nat (max 0 min_sample_count)) samples)) (\<lambda>cs.
      Inr (parity_evidence min_sample_count cs))"

subsection \<open>Complete evidence means agreement\<close>

lemma sum_list_zero: "sum_list (map f xs) = (0 :: nat) \<longleftrightarrow> (\<forall>x \<in> set xs. f x = 0)"
  by (induction xs) auto

lemma parity_passes:
  assumes "parity_complete (parity_evidence n cs) = Inr True"
  shows "cs \<noteq> []" "n \<le> int (length cs)" "c \<in> set cs \<Longrightarrow> pc_mismatch c = 0 \<and> pc_missing c = 0 \<and> \<not> pc_error c"
    "c \<in> set cs \<Longrightarrow> truthy (dget_or (pc_live_micro c) ''live_equivalent'' (VBool False))"
proof -
  let ?e = "parity_evidence n cs"
  have f: "py_upper (py_str (dget_or ?e ''evidence_status'' (VStr ''INCOMPLETE''))) = ''COMPLETE''"
    "bool_field ?e ''microstructure_live_equivalent''"
    using assms unfolding parity_complete_def Let_def by (auto simp: bindE_Inr_iff)
  have status: "dget_or ?e ''evidence_status'' (VStr ''INCOMPLETE'') = VStr (if n \<le> int (length cs) \<and> sum_list (map pc_mismatch cs) = 0
      \<and> sum_list (map pc_missing cs) = 0 \<and> length (filter semantic_violation cs) = 0 then ''COMPLETE'' else ''INCOMPLETE'')"
    by (simp add: parity_evidence_def Let_def)
  have ok: "n \<le> int (length cs)" "sum_list (map pc_mismatch cs) = 0" "sum_list (map pc_missing cs) = 0"
    "length (filter semantic_violation cs) = 0"
    using f(1) unfolding status by (auto simp: str_eval split: if_splits)
  have live: "cs \<noteq> [] \<and> list_all (\<lambda>c. truthy (dget_or (pc_live_micro c) ''live_equivalent'' (VBool False))) cs"
    using f(2) by (simp add: bool_field_def parity_evidence_def Let_def)
  show "cs \<noteq> []" "n \<le> int (length cs)" using live ok(1) by simp_all
  show "c \<in> set cs \<Longrightarrow> pc_mismatch c = 0 \<and> pc_missing c = 0 \<and> \<not> pc_error c"
    using ok by (auto simp: sum_list_zero filter_empty_conv semantic_violation_def)
  show "c \<in> set cs \<Longrightarrow> truthy (dget_or (pc_live_micro c) ''live_equivalent'' (VBool False))"
    using live by (simp add: list_all_iff)
qed

lemma mapE_found: "mapE f xs = Inr ys \<Longrightarrow> x \<in> set xs \<Longrightarrow> \<exists>y \<in> set ys. f x = Inr y"
  by (induction xs arbitrary: ys) (auto simp: bindE_Inr_iff)

lemma no_semantic_error:
  "semantic_error (b, p, l) = Inr False \<Longrightarrow> \<exists>q. assert_pre_submit_invariant_parity COMPARISON_TOL b [p, l] = Inr q"
  by (auto simp: semantic_error_def split: sum.splits exc.splits)

text \<open>C14: parity evidence the readiness evaluation accepts is real agreement: at least one sample and
  at least the demanded number were compared, and on every one of them the BACKTEST, PAPER and
  LIVE_PRECHECK evaluations are complete and coherent, take the same decision with the same failed
  gates, and rest on measured, live-equivalent microstructure.
\<close>
theorem accepted_parity_is_agreement:
  assumes "build_mode_parity_evidence n samples = Inr parity" "parity_complete parity = Inr True"
  shows "samples \<noteq> [] \<and> 0 < n \<and> nat n \<le> length samples \<and>
    (\<forall>(b, p, l) \<in> set (take (nat n) samples). \<exists>q :: PreSubmitInvariant. \<forall>x \<in> {b, p, l}. \<exists>s. project_pre_submit_invariant x = Inr s \<and>
       coherent COMPARISON_TOL s \<and> incomplete_pre_submit_fields s = [] \<and> pi_decision s = pi_decision q
       \<and> pi_failed_gates s = pi_failed_gates q) \<and>
    (\<forall>(b, p, l) \<in> set (take (nat n) samples). \<exists>m. microstructure_of l = Inr m
       \<and> truthy (dget_or m ''live_equivalent'' (VBool False)))"
proof -
  obtain cs where cs: "mapE compare_sample (take (nat (max 0 n)) samples) = Inr cs" and e: "parity = parity_evidence n cs"
    using assms(1) by (auto simp: build_mode_parity_evidence_def bindE_Inr_iff)
  note pass = parity_passes [OF assms(2) [unfolded e]]
  have all: "list_all2 (\<lambda>x c. compare_sample x = Inr c) (take (nat (max 0 n)) samples) cs" using cs by (simp add: mapE_Inr)
  have len: "length cs = length (take (nat (max 0 n)) samples)" using list_all2_lengthD [OF all] by simp
  have found: "\<exists>c \<in> set cs. compare_sample x = Inr c" if "x \<in> set (take (nat n) samples)" for x
  proof -
    have "nat (max 0 n) = nat n" by arith
    then have "x \<in> set (take (nat (max 0 n)) samples)" using that by simp
    then show ?thesis by (rule mapE_found [OF cs])
  qed
  have agree: "\<exists>q :: PreSubmitInvariant. \<forall>x \<in> {b, p, l}. \<exists>s. project_pre_submit_invariant x = Inr s \<and> coherent COMPARISON_TOL s \<and>
      incomplete_pre_submit_fields s = [] \<and> pi_decision s = pi_decision q \<and> pi_failed_gates s = pi_failed_gates q"
    if m: "(b, p, l) \<in> set (take (nat n) samples)" for b p l
  proof -
    obtain c where c: "c \<in> set cs" "compare_sample (b, p, l) = Inr c" using found [OF m] by blast
    have "semantic_error (b, p, l) = Inr False"
      using c pass(3) [OF c(1)] by (auto simp: compare_sample_def bindE_Inr_iff)
    then obtain q where q: "assert_pre_submit_invariant_parity COMPARISON_TOL b [p, l] = Inr q" using no_semantic_error by blast
    have "\<exists>s. project_pre_submit_invariant x = Inr s \<and> coherent COMPARISON_TOL s \<and> incomplete_pre_submit_fields s = []
        \<and> pi_decision s = pi_decision q \<and> pi_failed_gates s = pi_failed_gates q" if "x \<in> {b, p, l}" for x
      using surfaces_agree [OF q, of x] that by auto
    then show ?thesis by blast
  qed
  have micro: "\<exists>m. microstructure_of l = Inr m \<and> truthy (dget_or m ''live_equivalent'' (VBool False))"
    if m: "(b, p, l) \<in> set (take (nat n) samples)" for b p l
  proof -
    obtain c where c: "c \<in> set cs" "compare_sample (b, p, l) = Inr c" using found [OF m] by blast
    then show ?thesis using pass(4) [OF c(1)] by (auto simp: compare_sample_def bindE_Inr_iff)
  qed
  have "0 < length cs" using pass(1) by simp
  then have "0 < length samples" "0 < n" using len by auto
  moreover from this have "nat n \<le> length samples" using pass(2) len by (auto simp: max_def min_def split: if_splits)
  ultimately show ?thesis using agree micro by auto
qed

lemma demo_compares:
  "compare_sample (demo_payload, demo_payload, demo_payload) = Inr \<lparr>pc_backtest = demo_invariant, pc_paper = demo_invariant,
     pc_live = demo_invariant, pc_missing = 0, pc_mismatch = 0, pc_error = False, pc_live_micro = [(''live_equivalent'', VBool True)]\<rparr>"
proof -
  have m: "microstructure_of demo_payload = Inr [(''live_equivalent'', VBool True)]" by code_simp
  have i: "incomplete_pre_submit_fields demo_invariant = []" by code_simp
  show ?thesis
    by (simp add: compare_sample_def demo_projects semantic_error_def demo_parity m i demo_agrees)
qed

lemma demo_evidence_passes:
  "parity_complete (parity_evidence 1 [\<lparr>pc_backtest = demo_invariant, pc_paper = demo_invariant,
     pc_live = demo_invariant, pc_missing = 0, pc_mismatch = 0, pc_error = False, pc_live_micro = [(''live_equivalent'', VBool True)]\<rparr>]) = Inr True"
  by code_simp

theorem accepted_parity_is_agreement_witness:
  "\<exists>parity. build_mode_parity_evidence 1 [(demo_payload, demo_payload, demo_payload)] = Inr parity \<and> parity_complete parity = Inr True
     \<and> (\<exists>s. project_pre_submit_invariant demo_payload = Inr s \<and> coherent COMPARISON_TOL s)"
proof -
  obtain parity where b: "build_mode_parity_evidence 1 [(demo_payload, demo_payload, demo_payload)] = Inr parity"
    and p: "parity_complete parity = Inr True"
    using demo_evidence_passes by (simp add: build_mode_parity_evidence_def demo_compares)
  show ?thesis using accepted_parity_is_agreement [OF b p] b p by auto
qed

lemma accepted_evaluation_agreed:
  \<comment> \<open>no verdict above \<^verbatim>\<open>NOT_LIVE_READY\<close> on parity evidence whose samples disagree\<close>
  assumes "build_mode_parity_evidence n samples = Inr (su_parity i)" "evaluate_readiness e d i = Inr report"
    and "q_verdict report \<noteq> ''NOT_LIVE_READY''" "(b, p, l) \<in> set (take (nat n) samples)"
  shows "\<exists>q. assert_pre_submit_invariant_parity COMPARISON_TOL b [p, l] = Inr q"
proof -
  obtain checks where c: "readiness_checks e d i = Inr checks"
    and q: "verdict_from_gates (aggregate_gates checks i) \<noteq> ''NOT_LIVE_READY''"
    using assms(2,3) by (auto simp: evaluate_readiness_def bindE_Inr_iff Let_def)
  obtain cs where cs: "mapE compare_sample (take (nat (max 0 n)) samples) = Inr cs" and ev: "su_parity i = parity_evidence n cs"
    using assms(1) by (auto simp: build_mode_parity_evidence_def bindE_Inr_iff)
  note pass = parity_passes [OF runtime_gate_fact [OF c aggregate_facts(2) [OF q], unfolded ev]]
  have "nat (max 0 n) = nat n" by arith
  then have "(b, p, l) \<in> set (take (nat (max 0 n)) samples)" using assms(4) by simp
  then obtain r where r: "r \<in> set cs" "compare_sample (b, p, l) = Inr r" using mapE_found [OF cs] by blast
  have "semantic_error (b, p, l) = Inr False" using r pass(3) [OF r(1)] by (auto simp: compare_sample_def bindE_Inr_iff)
  then show ?thesis by (rule no_semantic_error)
qed

subsection \<open>Inputs of the qualification\<close>

definition reject_synthetic_live_input :: "pydict \<Rightarrow> pydict py" where
  "reject_synthetic_live_input payload =
    (let marks = {''SYNTHETIC'', ''FIXTURE'', ''DETERMINISTIC_FIXTURE''};
         source = py_upper (py_str (first_truthy (map (dget payload) [''input_source'', ''evidence_source'',
           ''observability_evidence_source'', ''rollback_evidence_source''])));
         input_type = py_upper (py_str (first_truthy (map (dget payload) [''input_type'', ''provider_type'']))) in
     if truthy (dget_or payload ''synthetic'' (VBool False)) \<or> source \<in> marks \<or> input_type \<in> marks
     then bindE (list_or_empty (dget payload ''blocking_reasons'')) (\<lambda>reasons.
       Inr (dupdate payload [(''evidence_status'', VStr ''INCOMPLETE''),
              (''blocking_reasons'', VList (reasons @ [VStr ''SYNTHETIC_LIVE_READINESS_INPUT'']))]))
     else Inr payload)"

definition missing_readiness_input :: "string \<Rightarrow> string \<Rightarrow> pydict" where
  "missing_readiness_input name why =
    [(''name'', VStr name), (''provider_configured'', VBool False), (''evidence_status'', VStr ''INCOMPLETE''),
     (''input_source'', VStr ''MISSING''), (''input_type'', VStr ''MISSING''), (''blocking_reasons'', VList [VStr why])]"

definition reconciliation_input :: "pydict option \<Rightarrow> pydict \<Rightarrow> pydict py" where
  \<comment> \<open>\<open>findings\<close> is \<^verbatim>\<open>summarize_findings\<close> of the reconciliation, read only for complete evidence\<close>
  "reconciliation_input provider findings =
    (case provider of None \<Rightarrow> Inr (missing_readiness_input ''exchange_snapshot'' ''EXCHANGE_SNAPSHOT_PROVIDER_MISSING'')
     | Some answer \<Rightarrow> bindE (reject_synthetic_live_input answer) (\<lambda>s.
         let status = py_upper (str_or (dget s ''evidence_status'') ''INCOMPLETE'');
             snapshot = dset ''evidence_status'' (VStr status) (dupdate [(''provider_configured'', VBool True)] s) in
         Inr (if status = ''COMPLETE'' then dupdate snapshot findings else snapshot)))"

definition probe_input :: "string \<Rightarrow> string \<Rightarrow> pydict option \<Rightarrow> pydict py" where
  "probe_input name why probe =
    (case probe of None \<Rightarrow> Inr (missing_readiness_input name why)
     | Some answer \<Rightarrow> bindE (reject_synthetic_live_input answer) (\<lambda>s. Inr (dupdate [(''provider_configured'', VBool True)] s)))"

record precheck =
  pr_samples :: "evaluations list"
  pr_provider :: "pydict option"
  pr_findings :: pydict
  pr_observability :: "pydict option"
  pr_rollback :: "pydict option"
  pr_canary :: bool
  pr_shadow :: bool
  pr_ack :: bool
  pr_kill_switch :: bool

definition precheck_inputs :: "precheck \<Rightarrow> supplied py" where
  "precheck_inputs r =
    bindE (build_mode_parity_evidence 3 (pr_samples r)) (\<lambda>parity.
    bindE (reconciliation_input (pr_provider r) (pr_findings r)) (\<lambda>reconciliation.
    bindE (probe_input ''observability'' ''OBSERVABILITY_PROBE_MISSING'' (pr_observability r)) (\<lambda>observability.
    bindE (probe_input ''rollback'' ''ROLLBACK_READINESS_PROBE_MISSING'' (pr_rollback r)) (\<lambda>rollback.
    Inr \<lparr>su_parity = parity, su_reconciliation = reconciliation, su_observability = dupdate observability rollback,
         su_canary = pr_canary r, su_shadow = pr_shadow r, su_ack = pr_ack r, su_kill_switch = pr_kill_switch r,
         su_dashboard = [], su_timesfm = [], su_burnin = [], su_tests = []\<rparr>))))"

lemma without_burnin_report:
  assumes "su_burnin i = []"
  shows "verdict_from_gates (aggregate_gates checks i) \<in> {''NOT_LIVE_READY'', ''LIVE_PRECHECK_READY''}"
proof -
  have "(''paper_burnin_report_acceptable'', False) \<in> set (aggregate_gates checks i)"
    using assms by (simp add: aggregate_gates_def Let_def status_of_def str_eval)
  then have fails: "\<not> list_all (\<lambda>g. fst g \<in> except \<or> snd g) (aggregate_gates checks i)"
    if "''paper_burnin_report_acceptable'' \<notin> except" for except
    using that by (force simp: list_all_iff)
  show ?thesis
    using fails [of "{}"] fails [of "{''operator_acknowledgement_required''}"]
      fails [of "{''operator_acknowledgement_required'', ''full_tests_passing_evidence_recorded''}"]
    unfolding verdict_from_gates_def Let_def by simp
qed

lemma null_orphan_count_raises:
  \<comment> \<open>an incomplete provider snapshot carries null counts, and \<^verbatim>\<open>int(None)\<close> ends the evaluation\<close>
  assumes "dget_or (su_reconciliation i) ''orphan_positions'' (VInt 0) = VNone"
  shows "evaluate_readiness e d i \<noteq> Inr report"
proof
  assume "evaluate_readiness e d i = Inr report"
  then obtain runtime where "check_runtime (su_parity i) (su_reconciliation i) = Inr runtime"
    by (auto simp: evaluate_readiness_def readiness_checks_def bindE_Inr_iff Let_def)
  then show False using assms by (auto simp: check_runtime_def zero_field_def andE_def bindE_Inr_iff Let_def)
qed

end
