(* ===== verification/Reconciliation.thy ===== *)
theory Reconciliation
  imports ReleaseGates
begin

section \<open>Reconciliation of the runtime with the exchange\<close>

text \<open>
  \<^verbatim>\<open>reconciliation.py\<close>: \<^verbatim>\<open>ReconciliationEngine.reconcile\<close> compares a snapshot of the exchange
  (orders, positions, fills) with the orders the runtime intended and the lifecycle state of each
  symbol, and returns findings, one repair recommendation per finding, and metrics.
  \<^verbatim>\<open>datetime.fromisoformat\<close> (after \<open>Z\<close> is replaced by an offset) is the argument \<open>parse\<close>: no value for
  text it refuses, and \<open>Some None\<close> for a time without an offset, which cannot be subtracted from
  the aware clock. The clock is read once; the texts of findings carry no time.
\<close>

subsection \<open>Findings\<close>

record finding =
  f_type :: string
  f_severity :: string
  f_symbol :: string
  f_ref :: string
  f_evidence :: pydict
  f_remediation :: string
  f_fail_closed :: bool

record repair =
  rp_category :: string
  rp_symbol :: string
  rp_approval :: bool
  rp_payload :: pydict

record recon_snapshot =
  sn_orders :: "pydict list"
  sn_positions :: "pydict list"
  sn_fills :: "pydict list"

record recon_engine =
  re_stale :: int
  re_fail_closed :: bool

type_synonym iso_parser = "string \<Rightarrow> int option option"
  \<comment> \<open>microseconds since the epoch\<close>

definition dict_of :: "pyval \<Rightarrow> pydict py" where
  \<comment> \<open>\<^verbatim>\<open>dict(v)\<close> of a mapping; a sequence of pairs, which \<^verbatim>\<open>dict\<close> would take, is not modelled\<close>
  "dict_of v = (case v of VDict d \<Rightarrow> Inr d | _ \<Rightarrow> Inl TypeError)"

definition rows_of :: "pydict \<Rightarrow> string \<Rightarrow> pydict list py" where
  "rows_of source k = bindE (py_list (dget_or source k (VList []))) (mapE dict_of)"

definition snapshot_from_source :: "pydict \<Rightarrow> recon_snapshot py" where
  "snapshot_from_source source =
    bindE (rows_of source ''orders'') (\<lambda>orders. bindE (rows_of source ''positions'') (\<lambda>positions.
    bindE (rows_of source ''fills'') (\<lambda>fills. Inr \<lparr>sn_orders = orders, sn_positions = positions, sn_fills = fills\<rparr>)))"

definition mk :: "recon_engine \<Rightarrow> string \<Rightarrow> string \<Rightarrow> string \<Rightarrow> string \<Rightarrow> pydict \<Rightarrow> string \<Rightarrow> bool \<Rightarrow> finding" where
  "mk e t sev symbol r evidence remediation fatal =
     \<lparr>f_type = t, f_severity = sev, f_symbol = symbol, f_ref = r, f_evidence = evidence, f_remediation = remediation,
      f_fail_closed = (fatal \<and> re_fail_closed e)\<rparr>"

definition mk_repair :: "string \<Rightarrow> string \<Rightarrow> string \<Rightarrow> pydict \<Rightarrow> repair" where
  "mk_repair category symbol mode payload =
     \<lparr>rp_category = category, rp_symbol = symbol, rp_approval = (py_upper mode = ''LIVE''),
      rp_payload = dupdate [(''dry_run'', VBool True), (''shadow_mode'', VBool True)] payload\<rparr>"

definition is_stale :: "recon_engine \<Rightarrow> iso_parser \<Rightarrow> int \<Rightarrow> pydict \<Rightarrow> bool py" where
  "is_stale e parse now order =
    (let created = text_or_empty (dget order ''created_at'') in
     if created = [] then Inr False
     else case parse created of None \<Rightarrow> Inr False | Some None \<Rightarrow> Inl TypeError
       | Some (Some t) \<Rightarrow> Inr (re_stale e * 1000000 \<le> now - t))"

subsection \<open>The four comparisons\<close>

definition ids_of :: "pydict list \<Rightarrow> string list" where
  "ids_of orders = map (\<lambda>row. py_str (dget row ''order_id'')) (filter (\<lambda>row. truthy (dget row ''order_id'')) orders)"

definition order_id :: "pydict \<Rightarrow> string" where "order_id order = text_or_empty (dget order ''order_id'')"
definition symbol_or :: "pydict \<Rightarrow> string \<Rightarrow> string" where "symbol_or d none = str_or (dget d ''symbol'') none"

definition orphan_order :: "pydict list \<Rightarrow> pydict \<Rightarrow> bool" where
  "orphan_order intended order \<longleftrightarrow> order_id order \<noteq> [] \<and> order_id order \<notin> set (ids_of intended)"

definition check_order :: "recon_engine \<Rightarrow> iso_parser \<Rightarrow> int \<Rightarrow> string \<Rightarrow> pydict list \<Rightarrow> pydict \<Rightarrow> (finding \<times> repair) list py" where
  "check_order e parse now mode intended order =
    (let oid = order_id order; symbol = symbol_or order ''UNKNOWN'';
         status = py_upper (str_or (dget order ''status'') ''UNKNOWN'');
         orphan = (if orphan_order intended order
           then [(mk e ''ORPHAN_ORDER'' ''HIGH'' symbol (''order:'' @ oid) [(''order'', VDict order)] ''cancel stale order'' True,
                  mk_repair ''cancel_stale_order'' symbol mode [(''order_id'', VStr oid)])] else []) in
     bindE (if status = ''OPEN'' then is_stale e parse now order else Inr False) (\<lambda>stale.
     Inr (orphan @ (if stale
       then [(mk e ''STALE_ORDER'' ''MEDIUM'' symbol (''order:'' @ oid) [(''order'', VDict order)] ''refresh exchange snapshot'' False,
              mk_repair ''refresh_exchange_snapshot'' symbol mode [(''order_id'', VStr oid)])] else []))))"

definition open_symbols :: "recon_snapshot \<Rightarrow> string list" where
  "open_symbols s = map (\<lambda>row. symbol_or row [])
     (filter (\<lambda>row. py_upper (text_or_empty (dget row ''status'')) \<in> {''OPEN'', ''PARTIAL_FILL''}) (sn_orders s))"

definition diverges :: "recon_snapshot \<Rightarrow> string \<times> string \<Rightarrow> bool" where
  \<comment> \<open>the lifecycle says filled or acknowledged, the exchange shows neither order nor position\<close>
  "diverges s life \<longleftrightarrow> snd life \<in> {''ENTRY_FILLED'', ''ENTRY_ACKNOWLEDGED''} \<and> fst life \<notin> set (open_symbols s)
     \<and> \<not> list_ex (\<lambda>p. py_str (dget p ''symbol'') = fst life) (sn_positions s)"

definition check_lifecycle_state :: "recon_engine \<Rightarrow> string \<Rightarrow> recon_snapshot \<Rightarrow> string \<times> string \<Rightarrow> (finding \<times> repair) list" where
  "check_lifecycle_state e mode s life =
    (if diverges s life
     then [(mk e ''LIFECYCLE_DIVERGENCE'' ''HIGH'' (fst life) (''symbol:'' @ fst life)
              [(''lifecycle'', VStr (snd life)), (''open_symbols'', VList (map VStr (sorted_set (open_symbols s))))] ''escalate incident'' True,
            mk_repair ''escalate_incident'' (fst life) mode [(''lifecycle_state'', VStr (snd life))])]
     else [])"

definition orphan_position :: "pydict list \<Rightarrow> pydict \<Rightarrow> flt \<Rightarrow> bool" where
  "orphan_position intended pos qty \<longleftrightarrow>
     symbol_or pos [] \<notin> set (map (\<lambda>row. symbol_or row []) intended) \<and> flt_less (Fin 0) (flt_abs qty)"

definition position_qty :: "pydict \<Rightarrow> flt py" where
  "position_qty pos = py_float (py_or (dget_or pos ''qty'' (VFloat (Fin 0))) (VFloat (Fin 0)))"

definition check_position :: "recon_engine \<Rightarrow> string \<Rightarrow> pydict list \<Rightarrow> pydict \<Rightarrow> (finding \<times> repair) list py" where
  "check_position e mode intended pos =
    bindE (position_qty pos) (\<lambda>qty. let symbol = symbol_or pos [] in
    Inr (if orphan_position intended pos qty
      then [(mk e ''ORPHAN_POSITION'' ''HIGH'' symbol (''position:'' @ symbol) [(''position'', VDict pos)] ''close orphan position'' True,
             mk_repair ''close_orphan_position'' symbol mode [(''qty'', VFloat qty)])]
      else []))"

definition fill_key :: "pydict \<Rightarrow> string" where
  "fill_key fill =
    (let trade_id = py_strip (text_or_empty (dget fill ''trade_id'')) in
     if trade_id \<noteq> [] then ''trade_id:'' @ trade_id
     else ''fallback:'' @ join ''|'' (symbol_or fill ''UNKNOWN'' # map (\<lambda>k. text_or_empty (dget fill k)) [''order_id'', ''time'', ''qty'', ''price'', ''side'']))"

fun check_fills :: "recon_engine \<Rightarrow> string \<Rightarrow> string list \<Rightarrow> pydict list \<Rightarrow> (finding \<times> repair) list" where
  "check_fills e mode seen [] = []"
| "check_fills e mode seen (fill # fills) =
    (let k = fill_key fill; symbol = symbol_or fill ''UNKNOWN'' in
     if k \<in> set seen
     then (mk e ''DUPLICATE_FILL'' ''HIGH'' symbol (''fill:'' @ k) [(''fill'', VDict fill), (''dedupe_key'', VStr k)] ''escalate incident'' True,
           mk_repair ''escalate_incident'' symbol mode [(''duplicate_fill_key'', VStr k)]) # check_fills e mode seen fills
     else check_fills e mode (k # seen) fills)"

subsection \<open>Findings, recommendations and metrics\<close>

definition count_type :: "string \<Rightarrow> finding list \<Rightarrow> nat" where
  "count_type t fs = length (filter (\<lambda>f. f_type f = t) fs)"

definition recon_metrics :: "finding list \<Rightarrow> repair list \<Rightarrow> pydict" where
  "recon_metrics fs rs =
    [(''reconciliation_latency_ms'', VInt 0), (''reconciliation_success'', VInt (if list_ex f_fail_closed fs then 0 else 1)),
     (''orphan_incident_rate'', VInt (int (length (filter (\<lambda>f. str_contains ''ORPHAN'' (f_type f)) fs)))),
     (''stale_order_frequency'', VInt (int (count_type ''STALE_ORDER'' fs))),
     (''lifecycle_divergence_frequency'', VInt (int (count_type ''LIFECYCLE_DIVERGENCE'' fs))),
     (''repair_recommendation_counts'', VInt (int (length rs)))]"

definition reconcile :: "recon_engine \<Rightarrow> iso_parser \<Rightarrow> int \<Rightarrow> pydict list \<Rightarrow> (string \<times> string) list \<Rightarrow> recon_snapshot \<Rightarrow> string
    \<Rightarrow> (finding list \<times> repair list \<times> pydict) py" where
  "reconcile e parse now intended lifecycle s mode =
    bindE (mapE (check_order e parse now mode intended) (sn_orders s)) (\<lambda>orders.
    bindE (mapE (check_position e mode intended) (sn_positions s)) (\<lambda>positions.
    let found = concat orders @ concat (map (check_lifecycle_state e mode s) lifecycle) @ concat positions
          @ check_fills e mode [] (sn_fills s);
        fs = map fst found; rs = map snd found in
    Inr (fs, rs, recon_metrics fs rs)))"

definition summarize_findings :: "finding list \<Rightarrow> pydict" where
  "summarize_findings fs =
    [(''orphan_orders'', VInt (int (count_type ''ORPHAN_ORDER'' fs))), (''orphan_positions'', VInt (int (count_type ''ORPHAN_POSITION'' fs))),
     (''duplicate_fills'', VInt (int (count_type ''DUPLICATE_FILL'' fs))), (''lifecycle_divergences'', VInt (int (count_type ''LIFECYCLE_DIVERGENCE'' fs))),
     (''fail_closed_findings'', VInt (int (length (filter f_fail_closed fs)))), (''stale_orders'', VInt (int (count_type ''STALE_ORDER'' fs)))]"

subsection \<open>What a successful reconciliation means\<close>

lemma mapE_concat_mem:
  "mapE f xs = Inr yss \<Longrightarrow> y \<in> set (concat yss) \<longleftrightarrow> (\<exists>x \<in> set xs. \<exists>ys. f x = Inr ys \<and> y \<in> set ys)"
  by (induction xs arbitrary: yss) (auto simp: bindE_Inr_iff)

lemma mk_closed [simp]: "f_fail_closed (mk e t sev symbol r ev rem fatal) = (fatal \<and> re_fail_closed e)"
  by (simp add: mk_def)

lemma check_fills_mem: "(\<exists>q \<in> set (check_fills e mode seen fills). f_fail_closed (fst q)) \<longleftrightarrow>
    re_fail_closed e \<and> \<not> (distinct (map fill_key fills) \<and> set (map fill_key fills) \<inter> set seen = {})"
  by (induction e mode seen fills rule: check_fills.induct) (auto simp: Let_def)

definition accounted_position :: "pydict list \<Rightarrow> pydict \<Rightarrow> bool" where
  "accounted_position intended p \<longleftrightarrow> (case position_qty p of Inl _ \<Rightarrow> True | Inr q \<Rightarrow> \<not> orphan_position intended p q)"

lemma check_order_closed:
  "check_order e parse now mode intended row = Inr ys \<Longrightarrow>
    (\<exists>q \<in> set ys. f_fail_closed (fst q)) \<longleftrightarrow> re_fail_closed e \<and> orphan_order intended row"
  by (auto simp: check_order_def Let_def bindE_Inr_iff)

lemma check_position_closed:
  "check_position e mode intended p = Inr ys \<Longrightarrow>
    (\<exists>q \<in> set ys. f_fail_closed (fst q)) \<longleftrightarrow> re_fail_closed e \<and> \<not> accounted_position intended p"
  by (auto simp: check_position_def accounted_position_def Let_def bindE_Inr_iff)

lemma check_life_closed:
  "(\<exists>q \<in> set (check_lifecycle_state e mode s l). f_fail_closed (fst q)) \<longleftrightarrow> re_fail_closed e \<and> diverges s l"
  by (auto simp: check_lifecycle_state_def)

lemma mapE_all_ok: "mapE f xs = Inr ys \<Longrightarrow> x \<in> set xs \<Longrightarrow> \<exists>y. f x = Inr y"
  by (induction xs arbitrary: ys) (auto simp: bindE_Inr_iff)

lemma closed_iff:
  assumes "mapE (check_order e parse now mode intended) (sn_orders s) = Inr os"
    and "mapE (check_position e mode intended) (sn_positions s) = Inr ps"
  shows "(\<exists>q \<in> set (concat os @ concat (map (check_lifecycle_state e mode s) lifecycle) @ concat ps
      @ check_fills e mode [] (sn_fills s)). f_fail_closed (fst q)) \<longleftrightarrow>
    re_fail_closed e \<and> (list_ex (orphan_order intended) (sn_orders s) \<or> list_ex (diverges s) lifecycle
      \<or> list_ex (\<lambda>p. \<not> accounted_position intended p) (sn_positions s) \<or> \<not> distinct (map fill_key (sn_fills s)))"
proof -
  have a: "(\<exists>q \<in> set (concat os). f_fail_closed (fst q)) \<longleftrightarrow> re_fail_closed e \<and> list_ex (orphan_order intended) (sn_orders s)"
    unfolding Bex_def mapE_concat_mem [OF assms(1)] list_ex_iff
    using check_order_closed mapE_all_ok [OF assms(1)] by (smt (verit, ccfv_threshold))
  have b: "(\<exists>q \<in> set (concat ps). f_fail_closed (fst q)) \<longleftrightarrow>
      re_fail_closed e \<and> list_ex (\<lambda>p. \<not> accounted_position intended p) (sn_positions s)"
    unfolding Bex_def mapE_concat_mem [OF assms(2)] list_ex_iff
    using check_position_closed mapE_all_ok [OF assms(2)] by (smt (verit, ccfv_threshold))
  have c: "(\<exists>q \<in> set (concat (map (check_lifecycle_state e mode s) lifecycle)). f_fail_closed (fst q)) \<longleftrightarrow>
      re_fail_closed e \<and> list_ex (diverges s) lifecycle"
    using check_life_closed by (auto simp: list_ex_iff)
  show ?thesis unfolding set_append bex_Un a b c check_fills_mem by auto
qed

definition safe_repair :: "string \<Rightarrow> repair \<Rightarrow> bool" where
  \<comment> \<open>a recommendation only: never executed, and in LIVE subject to an operator\<close>
  "safe_repair mode r \<longleftrightarrow> dget (rp_payload r) ''dry_run'' = VBool True \<and> dget (rp_payload r) ''shadow_mode'' = VBool True
     \<and> rp_approval r = (py_upper mode = ''LIVE'')"

lemma mk_repair_safe:
  "k \<noteq> ''dry_run'' \<Longrightarrow> k \<noteq> ''shadow_mode'' \<Longrightarrow> safe_repair mode (mk_repair c sy mode [(k, v)])"
  by (auto simp: mk_repair_def safe_repair_def dupdate_def dget_dset)

lemma check_fills_safe: "list_all (safe_repair mode \<circ> snd) (check_fills e mode seen fills)"
  by (induction e mode seen fills rule: check_fills.induct) (auto simp: Let_def mk_repair_safe)

lemma check_order_safe: "check_order e parse now mode intended row = Inr ys \<Longrightarrow> list_all (safe_repair mode \<circ> snd) ys"
  by (auto simp: check_order_def Let_def bindE_Inr_iff mk_repair_safe)

lemma check_position_safe: "check_position e mode intended row = Inr ys \<Longrightarrow> list_all (safe_repair mode \<circ> snd) ys"
  by (auto simp: check_position_def Let_def bindE_Inr_iff mk_repair_safe)

lemma check_life_safe: "list_all (safe_repair mode \<circ> snd) (check_lifecycle_state e mode s l)"
  by (auto simp: check_lifecycle_state_def mk_repair_safe)

lemma mapE_concat_all:
  "mapE f xs = Inr yss \<Longrightarrow> (\<And>x ys. f x = Inr ys \<Longrightarrow> list_all P ys) \<Longrightarrow> list_all P (concat yss)"
  by (induction xs arbitrary: yss) (auto simp: bindE_Inr_iff)

text \<open>C17: reconciliation succeeds exactly when the runtime and the exchange agree: every order of the
  snapshot was intended, every filled or acknowledged lifecycle is backed by an order or a position,
  every position belongs to an intended symbol and no fill is repeated. Every finding has one
  recommendation, which is a dry run in shadow mode and needs an operator exactly in LIVE.
\<close>
theorem reconciliation_succeeds_iff:
  assumes "reconcile e parse now intended lifecycle s mode = Inr (fs, rs, ms)" "re_fail_closed e"
  shows "dget ms ''reconciliation_success'' = VInt (if
      \<not> list_ex (orphan_order intended) (sn_orders s) \<and> \<not> list_ex (diverges s) lifecycle
      \<and> list_all (accounted_position intended) (sn_positions s) \<and> distinct (map fill_key (sn_fills s)) then 1 else 0)
    \<and> length rs = length fs \<and> list_all (safe_repair mode) rs"
proof -
  obtain os ps where m: "mapE (check_order e parse now mode intended) (sn_orders s) = Inr os"
      "mapE (check_position e mode intended) (sn_positions s) = Inr ps"
    and fs: "fs = map fst (concat os @ concat (map (check_lifecycle_state e mode s) lifecycle) @ concat ps @ check_fills e mode [] (sn_fills s))"
    and rs: "rs = map snd (concat os @ concat (map (check_lifecycle_state e mode s) lifecycle) @ concat ps @ check_fills e mode [] (sn_fills s))"
    and ms: "ms = recon_metrics fs rs"
    using assms(1) by (auto simp: reconcile_def bindE_Inr_iff Let_def)
  have c: "list_ex f_fail_closed fs \<longleftrightarrow> list_ex (orphan_order intended) (sn_orders s) \<or> list_ex (diverges s) lifecycle
      \<or> list_ex (\<lambda>p. \<not> accounted_position intended p) (sn_positions s) \<or> \<not> distinct (map fill_key (sn_fills s))"
    using closed_iff [OF m, of lifecycle] assms(2) unfolding fs list_ex_iff by (simp add: bex_Un)
  have life: "list_all (safe_repair mode \<circ> snd) (concat (map (check_lifecycle_state e mode s) lifecycle))"
    using check_life_safe by (induction lifecycle) auto
  have safe: "list_all (safe_repair mode) rs"
    using mapE_concat_all [OF m(1) check_order_safe] mapE_concat_all [OF m(2) check_position_safe] life
      check_fills_safe [of mode e "[]" "sn_fills s"]
    unfolding rs by (simp add: list.pred_map)
  have n: "length rs = length fs" by (simp add: fs rs)
  have "list_all (accounted_position intended) (sn_positions s) \<longleftrightarrow> \<not> list_ex (\<lambda>p. \<not> accounted_position intended p) (sn_positions s)"
    by (simp add: list_all_iff list_ex_iff)
  then show ?thesis using c n safe unfolding ms recon_metrics_def by auto
qed

lemma reconciliation_succeeds_iff_witness:
  "\<exists>fs rs ms. reconcile \<lparr>re_stale = 120, re_fail_closed = True\<rparr> (\<lambda>_. None) 0 [] []
      \<lparr>sn_orders = [[(''order_id'', VStr ''o-1''), (''symbol'', VStr ''BTCUSDT''), (''status'', VStr ''OPEN'')]], sn_positions = [], sn_fills = []\<rparr> ''LIVE''
      = Inr (fs, rs, ms) \<and> dget ms ''reconciliation_success'' = VInt 0 \<and> length rs = length fs \<and> list_all (safe_repair ''LIVE'') rs"
proof -
  let ?e = "\<lparr>re_stale = 120, re_fail_closed = True\<rparr>"
  let ?s = "\<lparr>sn_orders = [[(''order_id'', VStr ''o-1''), (''symbol'', VStr ''BTCUSDT''), (''status'', VStr ''OPEN'')]], sn_positions = [], sn_fills = []\<rparr>"
  have o: "list_ex (orphan_order []) (sn_orders ?s)" by (simp add: orphan_order_def order_id_def text_or_empty_def ids_of_def)
  have u: "py_upper ''OPEN'' = ''OPEN''" by code_simp
  obtain fs rs ms where r: "reconcile ?e (\<lambda>_. None) 0 [] [] ?s ''LIVE'' = Inr (fs, rs, ms)"
    by (simp add: reconcile_def check_order_def Let_def is_stale_def u)
  from reconciliation_succeeds_iff [OF this] o r show ?thesis by auto
qed

subsection \<open>Two boundary cases\<close>

lemma trade_ids_are_compared_across_symbols:
  \<comment> \<open>an exchange numbers the trades of each symbol on its own\<close>
  assumes "re_fail_closed e"
  shows "list_ex (f_fail_closed \<circ> fst) (check_fills e mode []
    [[(''symbol'', VStr ''BTCUSDT''), (''trade_id'', VStr ''7'')], [(''symbol'', VStr ''ETHUSDT''), (''trade_id'', VStr ''7'')]])"
proof -
  have "fill_key [(''symbol'', VStr a), (''trade_id'', VStr ''7'')] = ''trade_id:7''" for a
    by (simp add: fill_key_def Let_def text_or_empty_def py_strip_def is_space_def)
  then show ?thesis using assms by (simp add: Let_def)
qed

lemma naive_creation_time_raises:
  assumes "text_or_empty (dget row ''created_at'') \<noteq> []" "parse (text_or_empty (dget row ''created_at'')) = Some None"
    "py_upper (str_or (dget row ''status'') ''UNKNOWN'') = ''OPEN''"
  shows "check_order e parse now mode intended row = Inl TypeError"
  using assms by (simp add: check_order_def is_stale_def Let_def)

end
