(* ===== verification/ProviderFailures.thy ===== *)
theory ProviderFailures
  imports PyVal
begin

section \<open>Classifying provider failures (\<^verbatim>\<open>provider_failures.py\<close>)\<close>

text \<open>
  A failure of an exchange provider is classified by walking the chain of exceptions behind
  it. Exceptions are objects that refer to each other (cause, context, the reason of a
  URLError), possibly in a circle, so they live in a heap: a list of records, an address
  being an index. The loop keeps the addresses it has seen. Each \<^verbatim>\<open>isinstance\<close> test of the code is
  a field of the record, since a class may inherit from several of the tested ones.
\<close>

datatype url_reason = ReasonException nat | ReasonOther

record PyException =
  px_name :: string
  px_text :: string
  px_http :: "(int \<times> int option) option"
  \<comment> \<open>an HTTPError with its status and the attached Binance code\<close>
  px_ssl :: bool
  px_connection :: bool
  \<comment> \<open>\<^verbatim>\<open>socket.gaierror\<close>, TimeoutError or ConnectionError\<close>
  px_errno :: "int option"
  \<comment> \<open>the errno of an OSError\<close>
  px_url :: "url_reason option"
  px_cause :: "nat option"
  px_context :: "nat option"

type_synonym exc_heap = "PyException list"

definition TRANSIENT_TRANSPORT :: string where "TRANSIENT_TRANSPORT = ''TRANSIENT_TRANSPORT''"
definition PERMANENT_AUTH_OR_PROTOCOL :: string where "PERMANENT_AUTH_OR_PROTOCOL = ''PERMANENT_AUTH_OR_PROTOCOL''"
definition UNKNOWN_FAILURE :: string where "UNKNOWN_FAILURE = ''UNKNOWN''"
definition RETRYABLE_MARKET_DATA :: string where "RETRYABLE_MARKET_DATA = ''RETRYABLE_MARKET_DATA''"

definition NETWORK_ERRNOS :: "int list" where
  \<comment> \<open>the Linux numbers of ECONNABORTED, ECONNREFUSED, ECONNRESET, EHOSTUNREACH, ENETUNREACH, ETIMEDOUT, EPIPE\<close>
  "NETWORK_ERRNOS = [103, 111, 104, 113, 101, 110, 32]"

definition http_verdict :: "int \<Rightarrow> int option \<Rightarrow> string" where
  "http_verdict code binance_code =
    (if code = 429 \<or> code = 418 \<and> binance_code = Some (-1003) then TRANSIENT_TRANSPORT
     else if 500 \<le> code \<and> code < 600 then TRANSIENT_TRANSPORT else PERMANENT_AUTH_OR_PROTOCOL)"

definition cause_or_context :: "PyException \<Rightarrow> nat option" where
  "cause_or_context e = (case px_cause e of Some c \<Rightarrow> Some c | None \<Rightarrow> px_context e)"

definition is_http :: "exc_heap \<Rightarrow> nat option \<Rightarrow> bool" where
  "is_http h a = (case a of None \<Rightarrow> False | Some c \<Rightarrow> px_http (h ! c) \<noteq> None)"

definition classify_step :: "exc_heap \<Rightarrow> PyException \<Rightarrow> string + nat option" where
  \<comment> \<open>one pass of the loop body: a verdict, or the next exception\<close>
  "classify_step h e =
    (case px_http e of
       Some (code, binance_code) \<Rightarrow> Inl (http_verdict code binance_code)
     | None \<Rightarrow>
       if px_ssl e then Inl PERMANENT_AUTH_OR_PROTOCOL
       else if px_name e \<in> {''MarketDataImmature'', ''HistoricalDataImmatureError''} then Inl RETRYABLE_MARKET_DATA
       else if px_name e = ''ReconciliationPayloadError'' \<and> is_http h (px_cause e) then Inr (px_cause e)
       else if px_name e \<in> {''ReconciliationAuthError'', ''ReconciliationPayloadError'', ''ReconciliationScopeError''}
         then Inl PERMANENT_AUTH_OR_PROTOCOL
       else if px_name e = ''HistoricalDataError'' \<and> str_contains ''UNSUPPORTED_TIMEFRAME'' (px_text e)
         then Inl PERMANENT_AUTH_OR_PROTOCOL
       else if px_connection e then Inl TRANSIENT_TRANSPORT
       else if (case px_errno e of None \<Rightarrow> False | Some n \<Rightarrow> n \<in> set NETWORK_ERRNOS) then Inl TRANSIENT_TRANSPORT
       else (case px_url e of
           Some (ReasonException r) \<Rightarrow> Inr (Some r)
         | Some ReasonOther \<Rightarrow> Inl TRANSIENT_TRANSPORT
         | None \<Rightarrow> Inr (cause_or_context e)))"

fun classify_loop :: "nat \<Rightarrow> exc_heap \<Rightarrow> nat list \<Rightarrow> nat option \<Rightarrow> string option" where
  \<comment> \<open>the while loop with fuel; \<open>None\<close> would be a loop that has not ended yet\<close>
  "classify_loop 0 h seen current = None"
| "classify_loop (Suc k) h seen None = Some UNKNOWN_FAILURE"
| "classify_loop (Suc k) h seen (Some a) =
    (if a \<in> set seen then Some UNKNOWN_FAILURE
     else case classify_step h (h ! a) of
         Inl verdict \<Rightarrow> Some verdict
       | Inr next_exc \<Rightarrow> classify_loop k h (a # seen) next_exc)"

definition classify_provider_exception :: "exc_heap \<Rightarrow> nat \<Rightarrow> string option" where
  "classify_provider_exception h a = classify_loop (Suc (length h)) h [] (Some a)"

definition transport_verdict :: "int \<Rightarrow> string" where
  "transport_verdict status =
    (if status = 429 \<or> 500 \<le> status \<and> status < 600 then TRANSIENT_TRANSPORT else PERMANENT_AUTH_OR_PROTOCOL)"

definition classify_attempt :: "pydict \<Rightarrow> string py" where
  \<comment> \<open>asking whether a list or a dict is in a set raises\<close>
  "classify_attempt attempt =
    (case dget attempt ''http_status'' of
       VInt status \<Rightarrow> Inr (transport_verdict status)
     | VBool b \<Rightarrow> Inr (transport_verdict (if b then 1 else 0))
     | _ \<Rightarrow>
       (case dget attempt ''transport_category'' of
          VList _ \<Rightarrow> Inl TypeError
        | VDict _ \<Rightarrow> Inl TypeError
        | VStr category \<Rightarrow> Inr (if category \<in> {''TIMEOUT'', ''TRANSPORT'', ''URL''} then TRANSIENT_TRANSPORT
            else if category \<in> {''TLS'', ''HTTP_PROTOCOL''} then PERMANENT_AUTH_OR_PROTOCOL else UNKNOWN_FAILURE)
        | _ \<Rightarrow> Inr UNKNOWN_FAILURE))"

definition classify_reconciliation_snapshot :: "pydict \<Rightarrow> string py" where
  \<comment> \<open>\<^verbatim>\<open>attempts[-1]\<close> of something that is not a sequence raises\<close>
  "classify_reconciliation_snapshot source =
    (let declared = py_upper (str_or (dget source ''failure_class'') []); attempts = dget source ''request_attempts'' in
     if declared \<in> {TRANSIENT_TRANSPORT, PERMANENT_AUTH_OR_PROTOCOL, UNKNOWN_FAILURE} then Inr declared
     else if \<not> truthy attempts then Inr UNKNOWN_FAILURE
     else case attempts of
         VList xs \<Rightarrow> (case last xs of VDict d \<Rightarrow> classify_attempt d | _ \<Rightarrow> Inr UNKNOWN_FAILURE)
       | VStr _ \<Rightarrow> Inr UNKNOWN_FAILURE
       | VDict _ \<Rightarrow> Inl (KeyError ''-1'')
       | _ \<Rightarrow> Inl TypeError)"

subsection \<open>The loop ends\<close>

definition exc_links :: "PyException \<Rightarrow> nat set" where
  \<comment> \<open>the exceptions an exception refers to\<close>
  "exc_links e = {c. px_cause e = Some c \<or> px_context e = Some c \<or> px_url e = Some (ReasonException c)}"

definition closed_heap :: "exc_heap \<Rightarrow> bool" where
  \<comment> \<open>no dangling references, which the language guarantees\<close>
  "closed_heap h \<longleftrightarrow> (\<forall>e \<in> set h. \<forall>c \<in> exc_links e. c < length h)"

inductive chained :: "exc_heap \<Rightarrow> nat \<Rightarrow> nat \<Rightarrow> bool" for h where
  \<comment> \<open>one exception is behind another\<close>
  chained_refl: "chained h a a"
| chained_step: "chained h a b \<Longrightarrow> c \<in> exc_links (h ! b) \<Longrightarrow> chained h a c"

inductive_cases chainedE: "chained h a c"

definition known_transport_failure :: "PyException \<Rightarrow> bool" where
  "known_transport_failure e \<longleftrightarrow>
    (\<exists>code binance_code. px_http e = Some (code, binance_code) \<and>
      (code = 429 \<or> code = 418 \<and> binance_code = Some (-1003) \<or> 500 \<le> code \<and> code < 600)) \<or>
    px_connection e \<or> (\<exists>n \<in> set NETWORK_ERRNOS. px_errno e = Some n) \<or> px_url e = Some ReasonOther"

lemma verdicts_differ [simp]:
  "PERMANENT_AUTH_OR_PROTOCOL \<noteq> TRANSIENT_TRANSPORT" "RETRYABLE_MARKET_DATA \<noteq> TRANSIENT_TRANSPORT" "UNKNOWN_FAILURE \<noteq> TRANSIENT_TRANSPORT"
  by (simp_all add: PERMANENT_AUTH_OR_PROTOCOL_def TRANSIENT_TRANSPORT_def RETRYABLE_MARKET_DATA_def UNKNOWN_FAILURE_def)

lemma step_next: "classify_step h e = Inr (Some c) \<Longrightarrow> c \<in> exc_links e"
  by (auto simp: classify_step_def exc_links_def cause_or_context_def split: option.splits if_splits url_reason.splits)

lemma step_transient: "classify_step h e = Inl TRANSIENT_TRANSPORT \<Longrightarrow> known_transport_failure e"
  by (auto simp: classify_step_def known_transport_failure_def http_verdict_def split: option.splits if_splits url_reason.splits)

lemma step_verdict:
  "classify_step h e = Inl v \<Longrightarrow> v \<in> {TRANSIENT_TRANSPORT, PERMANENT_AUTH_OR_PROTOCOL, RETRYABLE_MARKET_DATA}"
  by (auto simp: classify_step_def http_verdict_def split: option.splits if_splits url_reason.splits)

lemma loop_ends:
  assumes "closed_heap h" "\<forall>a. current = Some a \<longrightarrow> a < length h" "distinct seen" "set seen \<subseteq> {..<length h}"
    and "length h < k + length seen"
  shows "\<exists>v. classify_loop k h seen current = Some v"
  using assms
proof (induction k h seen current rule: classify_loop.induct)
  case (1 h seen current)
  have "length seen = card (set seen)" using 1 by (simp add: distinct_card)
  also have "\<dots> \<le> card {..<length h}" using 1 by (intro card_mono) auto
  finally show ?case using 1 by simp
next
  case (3 k h seen a)
  show ?case
  proof (cases "a \<in> set seen")
    case False
    note fresh = False
    show ?thesis
    proof (cases "classify_step h (h ! a)")
      case (Inr nxt)
      have "a < length h" using 3(3) by simp
      then have "\<forall>c. nxt = Some c \<longrightarrow> c < length h"
        using step_next [of h "h ! a"] Inr 3(2) unfolding closed_heap_def by (metis nth_mem)
      then have "\<exists>v. classify_loop k h (a # seen) nxt = Some v"
        using 3(1) [OF fresh Inr] 3(2-) fresh \<open>a < length h\<close> by simp
      then show ?thesis using fresh Inr by simp
    qed (use fresh in simp)
  qed simp
qed simp

lemma loop_sound:
  assumes "classify_loop k h seen (Some b) = Some v" "chained h a b"
  shows "(v = TRANSIENT_TRANSPORT \<longrightarrow> (\<exists>c. chained h a c \<and> known_transport_failure (h ! c))) \<and>
    v \<in> {TRANSIENT_TRANSPORT, PERMANENT_AUTH_OR_PROTOCOL, RETRYABLE_MARKET_DATA, UNKNOWN_FAILURE}"
  using assms
proof (induction k arbitrary: seen b)
  case (Suc k)
  show ?case
  proof (cases "b \<in> set seen")
    case False
    show ?thesis
    proof (cases "classify_step h (h ! b)")
      case (Inl w)
      then show ?thesis using Suc.prems False step_transient step_verdict by fastforce
    next
      case (Inr nxt)
      show ?thesis
      proof (cases nxt)
        case None
        then show ?thesis using Suc.prems False Inr by (cases k) auto
      next
        case (Some c)
        have "chained h a c" using Suc.prems(2) step_next Inr Some chained_step by blast
        then show ?thesis using Suc.IH [of "b # seen" c] Suc.prems False Inr Some by simp
      qed
    qed
  qed (use Suc.prems in auto)
qed simp

text \<open>C27: classifying a provider failure always ends, whatever circles the exception chain has, with one
  of the four verdicts, and only a known transport failure in the chain behind the exception
  gets the recovery grace of TRANSIENT_TRANSPORT.\<close>

theorem classify_provider_exception_ends:
  assumes "closed_heap h" "a < length h"
  shows "\<exists>v. classify_provider_exception h a = Some v \<and>
    v \<in> {TRANSIENT_TRANSPORT, PERMANENT_AUTH_OR_PROTOCOL, RETRYABLE_MARKET_DATA, UNKNOWN_FAILURE} \<and>
    (v = TRANSIENT_TRANSPORT \<longrightarrow> (\<exists>c. chained h a c \<and> known_transport_failure (h ! c)))"
proof -
  obtain v where v: "classify_loop (Suc (length h)) h [] (Some a) = Some v"
    using loop_ends [of h "Some a" "[]" "Suc (length h)"] assms by auto
  then show ?thesis using loop_sound [OF v chained_refl] by (simp add: classify_provider_exception_def)
qed

definition plain_exception :: "string \<Rightarrow> nat option \<Rightarrow> PyException" where
  "plain_exception name cause = \<lparr>px_name = name, px_text = [], px_http = None, px_ssl = False, px_connection = False,
     px_errno = None, px_url = None, px_cause = cause, px_context = None\<rparr>"

theorem classify_provider_exception_ends_witness:
  \<comment> \<open>two exceptions that are each other's cause\<close>
  "\<exists>v. classify_provider_exception [plain_exception ''A'' (Some 1), plain_exception ''B'' (Some 0)] 0 = Some v \<and> v = UNKNOWN_FAILURE"
proof -
  have "closed_heap [plain_exception ''A'' (Some 1), plain_exception ''B'' (Some 0)]"
    by (simp add: closed_heap_def exc_links_def plain_exception_def)
  from classify_provider_exception_ends [OF this, of 0]
  obtain v where "classify_provider_exception [plain_exception ''A'' (Some 1), plain_exception ''B'' (Some 0)] 0 = Some v" by auto
  moreover have "length [plain_exception ''A'' (Some 1), plain_exception ''B'' (Some 0)] = 2" by simp
  moreover have "classify_step h (plain_exception ''A'' c) = Inr c" "classify_step h (plain_exception ''B'' c) = Inr c" for h c
    by (simp_all add: classify_step_def plain_exception_def cause_or_context_def split: option.split)
  ultimately show ?thesis by (simp add: classify_provider_exception_def numeral_2_eq_2)
qed

end
