(* ===== verification/RuntimeReconciliation.thy ===== *)
theory RuntimeReconciliation
  imports Reconciliation ProviderFailures Machines
begin

section \<open>The reconciliation state of the runtime\<close>

text \<open>
  The part of \<^verbatim>\<open>runtime.py\<close> that decides whether execution is blocked: \<^verbatim>\<open>_run_reconciliation_once\<close>
  and \<^verbatim>\<open>_reconcile_runtime_state\<close> with the evidence transaction
  (\<^verbatim>\<open>persist_reconciliation_cycle\<close> of \<^verbatim>\<open>runtime_state.py\<close>), the resolver and storage failures, and
  \<^verbatim>\<open>_execution_reconciliation_blocked\<close>. What the provider answers, when a read or an event hangs
  until the time limit, how each attempt at the transaction ends, the clocks and the identifiers
  (hashes and UUIDs) are arguments of a step. Log lines, error texts, counters that nothing reads and
  the other columns of a state snapshot are left out.
\<close>

subsection \<open>State\<close>

record runtime_config =
  rc_mode :: string
  rc_diagnostic :: bool
  rc_grace :: flt
  rc_engine :: bool
  rc_campaign :: bool
  rc_recon :: recon_engine
  rc_iso :: iso_parser

record recon_db =
  db_events :: "(string \<times> string) list"
  db_incidents :: "finding list"
  db_snapshots :: "string list"
  db_recovered :: "string list"

record runtime =
  rt_status :: string
  rt_fail :: "string option"
  rt_recovery :: bool
  rt_unknown :: bool
  rt_read_only :: string
  rt_recon :: string
  rt_unhealthy :: bool
  rt_res_down :: bool
  rt_res_pending :: bool
  rt_class :: "string option"
  rt_failures :: int
  rt_outage :: "flt option"
  rt_pending_failures :: "string list"
  rt_storage :: bool
  rt_reject_degraded :: bool
  rt_orphan_orders :: "pydict list"
  rt_orphan_positions :: "pydict list"
  rt_unreconciled :: "string list"
  rt_signatures :: "string list"
  rt_events :: "(string \<times> string) list"
  rt_stopped :: bool
  rt_paused :: "string list"
  rt_derivatives :: pydict
  rt_derivatives_status :: string
  rt_derivatives_live :: bool
  rt_orders :: "(string \<times> pydict) list"
  rt_positions :: "(string \<times> flt) list"
  rt_lifecycle :: "(string \<times> string) list"
  rt_runs :: nat
  rt_closed :: nat
  rt_db :: recon_db

definition failing :: "runtime \<Rightarrow> bool" where
  \<comment> \<open>truth of \<^verbatim>\<open>_fail_closed_reason\<close>\<close>
  "failing s \<longleftrightarrow> rt_fail s \<noteq> None \<and> rt_fail s \<noteq> Some []"

definition execution_reconciliation_blocked :: "runtime_config \<Rightarrow> runtime \<Rightarrow> bool" where
  "execution_reconciliation_blocked c s \<longleftrightarrow> rc_mode c \<noteq> ''BACKTEST'' \<and>
     (rt_storage s \<or> rt_unhealthy s \<or> failing s \<or> rt_recovery s \<or> rt_unknown s \<or> rt_res_down s \<or> rt_res_pending s
      \<or> rt_read_only s = ''UNAVAILABLE'' \<or> rt_recon s \<in> {''EXCHANGE_STATE_UNKNOWN'', ''DIRTY'', ''PERSISTENCE_FAILED''})"

definition shutdown :: "runtime \<Rightarrow> runtime" where "shutdown s = s\<lparr>rt_stopped := True\<rparr>"

definition or_fail :: "string \<Rightarrow> runtime \<Rightarrow> string option" where
  \<comment> \<open>\<^verbatim>\<open>self._fail_closed_reason or why\<close>\<close>
  "or_fail why s = (if failing s then rt_fail s else Some why)"

definition mark_resolver_provider_failure :: "runtime \<Rightarrow> runtime" where
  "mark_resolver_provider_failure s = s\<lparr>rt_res_down := True, rt_res_pending := False,
     rt_fail := or_fail ''RESOLVER_PROVIDER_UNAVAILABLE'' s, rt_status := ''RECOVERY_REQUIRED''\<rparr>"

definition mark_resolver_provider_recovered :: "runtime \<Rightarrow> runtime" where
  "mark_resolver_provider_recovered s =
    (if rt_res_down s then s\<lparr>rt_res_down := False, rt_res_pending := True, rt_status := ''RECOVERY_REQUIRED''\<rparr> else s)"

definition pause_for_provider_failure :: "runtime_config \<Rightarrow> string \<Rightarrow> runtime \<Rightarrow> runtime" where
  "pause_for_provider_failure c why s =
    shutdown (if rc_engine c \<and> rc_campaign c \<and> rc_mode c = ''PAPER'' then s\<lparr>rt_paused := rt_paused s @ [why]\<rparr> else s)"

subsection \<open>The evidence transaction\<close>

datatype commit_attempt = Commits | Busy bool | Fails exc
  \<comment> \<open>the flag: the time budget is used up\<close>

datatype persisted = Stored bool | Exhausted | Broken exc

definition add_event :: "string \<Rightarrow> string \<Rightarrow> recon_db \<Rightarrow> recon_db" where
  \<comment> \<open>\<^verbatim>\<open>INSERT ... ON CONFLICT(cycle_id) DO NOTHING\<close>\<close>
  "add_event cycle status db =
    (if cycle \<in> set (map fst (db_events db)) then db else db\<lparr>db_events := db_events db @ [(cycle, status)]\<rparr>)"

record cycle_row =
  cy_id :: string
  cy_status :: string
  cy_findings :: "finding list"
  cy_snapshot :: string
  cy_recovered :: bool

definition commit_cycle :: "cycle_row \<Rightarrow> string list \<Rightarrow> recon_db \<Rightarrow> recon_db \<times> bool" where
  "commit_cycle row pending db =
    (let db1 = fold (\<lambda>failed. add_event failed ''PERSISTENCE_FAILED'') pending db in
     if cy_id row \<in> set (map fst (db_events db1)) then (db1, False)
     else ((add_event (cy_id row) (cy_status row) db1)
             \<lparr>db_incidents := db_incidents db1 @ cy_findings row, db_snapshots := db_snapshots db1 @ [cy_snapshot row],
              db_recovered := db_recovered db1 @ (if cy_recovered row then [cy_id row] else [])\<rparr>, True))"

function persist_cycle :: "nat \<Rightarrow> (nat \<Rightarrow> commit_attempt) \<Rightarrow> cycle_row \<Rightarrow> string list \<Rightarrow> recon_db \<Rightarrow> recon_db \<times> persisted" where
  "persist_cycle n tries row pending db =
    (case tries n of
       Commits \<Rightarrow> (case commit_cycle row pending db of (db1, new) \<Rightarrow> (db1, Stored new))
     | Fails x \<Rightarrow> (db, Broken x)
     | Busy late \<Rightarrow> if 3 \<le> n \<or> late then (db, Exhausted) else persist_cycle (Suc n) tries row pending db)"
  by pat_completeness auto
termination by (relation "measure (\<lambda>(n, _). 3 - n)") auto

declare persist_cycle.simps [simp del]

subsection \<open>One observation of the exchange\<close>

datatype read_answer = NoProvider | ReadFailed exc string string | ReadHangs | ReadOk pydict
  \<comment> \<open>a failed read: the exception, the name of its class, its class of failure\<close>

datatype observed_source = Seen pydict | Raises exc | Hangs

definition local_source :: "runtime \<Rightarrow> pydict \<Rightarrow> pydict" where
  "local_source s extra = [(''orders'', VList (map (VDict \<circ> snd) (rt_orders s))),
     (''positions'', VList (map (\<lambda>(sy, q). VDict [(''symbol'', VStr sy), (''qty'', VFloat q)]) (rt_positions s))),
     (''fills'', VList [])] @ extra"

definition empty_source :: "pydict \<Rightarrow> pydict" where
  "empty_source extra = [(''orders'', VList []), (''positions'', VList []), (''fills'', VList [])] @ extra"

definition evidence_complete :: "pydict \<Rightarrow> bool" where
  "evidence_complete source \<longleftrightarrow> py_upper (str_or (dget source ''evidence_status'') ''INCOMPLETE'') = ''COMPLETE''"

definition CLEARED_BY_EVIDENCE :: "string list" where
  "CLEARED_BY_EVIDENCE = [''EXCHANGE_STATE_UNKNOWN'', ''EXCHANGE_RECONCILIATION_UNAVAILABLE'', ''RECONCILIATION_PERSISTENCE_FAILED'', ''RESOLVER_PROVIDER_UNAVAILABLE'']"

definition unsettled :: "runtime \<Rightarrow> bool" where
  "unsettled s \<longleftrightarrow> rt_unknown s \<or> rt_outage s \<noteq> None \<or> rt_res_pending s"

definition receive_evidence :: "bool \<Rightarrow> runtime \<Rightarrow> runtime" where
  "receive_evidence whole s =
    (let cleared = (if whole \<and> rt_fail s \<in> Some ` set CLEARED_BY_EVIDENCE \<and> \<not> rt_res_down s then None else rt_fail s) in
     s\<lparr>rt_unknown := (\<not> whole \<or> unsettled s), rt_read_only := (if whole then ''AVAILABLE'' else ''UNAVAILABLE''),
       rt_fail := (if whole \<and> rt_res_down s then Some ''RESOLVER_PROVIDER_UNAVAILABLE'' else cleared)\<rparr>)"

definition incomplete_evidence :: "flt \<Rightarrow> string \<Rightarrow> runtime \<Rightarrow> runtime" where
  "incomplete_evidence now failure s = s\<lparr>rt_class := Some failure, rt_failures := rt_failures s + 1,
     rt_outage := (if failure = TRANSIENT_TRANSPORT \<and> rt_outage s = None then Some now else rt_outage s),
     rt_fail := Some ''EXCHANGE_STATE_UNKNOWN'', rt_recon := ''EXCHANGE_STATE_UNKNOWN'', rt_status := ''RECOVERY_REQUIRED''\<rparr>"

definition judge_evidence :: "runtime_config \<Rightarrow> flt \<Rightarrow> pydict \<Rightarrow> runtime \<Rightarrow> runtime \<times> observed_source" where
  "judge_evidence c now source s =
    (let whole = evidence_complete source; s1 = receive_evidence whole s in
     if \<not> whole then
       if rc_mode c = ''LIVE'' then (s1, Raises (RuntimeError ''LIVE mode blocked: reconciliation evidence incomplete''))
       else case classify_reconciliation_snapshot source of
           Inl x \<Rightarrow> (s1, Raises x)
         | Inr failure \<Rightarrow> (incomplete_evidence now failure s1, Seen source)
     else (s1, Seen (if unsettled s \<and> \<not> rt_res_down s
             then dset ''recovery_transition'' (VStr ''CLEAN_RECONCILIATION_COMMITTED'') source else source)))"

definition observe :: "runtime_config \<Rightarrow> read_answer \<Rightarrow> flt \<Rightarrow> runtime \<Rightarrow> runtime \<times> observed_source" where
  "observe c answer now s =
    (if rc_mode c = ''BACKTEST''
     then (s\<lparr>rt_unknown := False, rt_read_only := ''NOT_REQUIRED_BACKTEST'', rt_recon := ''NOT_REQUIRED_BACKTEST''\<rparr>, Seen (local_source s []))
     else case answer of
       NoProvider \<Rightarrow>
         if rc_mode c = ''LIVE'' then (s, Raises (RuntimeError ''LIVE mode blocked: reconciliation provider is not configured''))
         else if rc_diagnostic c
         then (s\<lparr>rt_unknown := False, rt_read_only := ''LOCAL_ONLY'', rt_recon := ''LOCAL_ONLY_DIAGNOSTIC''\<rparr>,
               Seen (local_source s [(''evidence_status'', VStr ''LOCAL_ONLY_DIAGNOSTIC''), (''diagnostic_override'', VBool True)]))
         else (s\<lparr>rt_unknown := True, rt_read_only := ''UNAVAILABLE'', rt_recon := ''EXCHANGE_RECONCILIATION_UNAVAILABLE'',
                 rt_fail := Some ''EXCHANGE_RECONCILIATION_UNAVAILABLE''\<rparr>,
               Seen (empty_source [(''evidence_status'', VStr ''INCOMPLETE''), (''blocking_reason'', VStr ''EXCHANGE_RECONCILIATION_UNAVAILABLE'')]))
     | ReadFailed x name failure \<Rightarrow>
         if rc_mode c = ''LIVE'' then (s, Raises x)
         else judge_evidence c now (empty_source [(''evidence_status'', VStr ''INCOMPLETE''), (''errors'', VList [VStr name]),
                (''failure_class'', VStr failure), (''input_source'', VStr ''READ_ONLY_PROVIDER_FAILURE'')]) s
     | ReadHangs \<Rightarrow> (s, Hangs)
     | ReadOk source \<Rightarrow> judge_evidence c now source s)"

subsection \<open>One reconciliation\<close>

record observation =
  ob_read :: read_answer
  ob_event_limit :: "nat option"
  ob_read_at :: flt
  ob_end_at :: flt
  ob_clock :: int
  ob_cycle :: string
  ob_failed_cycle :: string
  ob_tries :: "nat \<Rightarrow> commit_attempt"
  ob_timeout_tries :: "nat \<Rightarrow> commit_attempt"

datatype outcome = Returned | Raised exc | TimedOut

definition record_derivatives :: "pydict \<Rightarrow> runtime \<Rightarrow> runtime" where
  "record_derivatives source s =
    (let contract = (case dget source ''derivatives_contract'' of VDict d \<Rightarrow> d | _ \<Rightarrow> []) in
     s\<lparr>rt_derivatives := contract, rt_derivatives_status := py_upper (str_or (dget contract ''account_model_status'') ''UNAVAILABLE''),
       rt_derivatives_live := truthy (dget_or contract ''live_eligible'' (VBool False))\<rparr>)"

definition closed_evidence :: "string \<Rightarrow> finding list \<Rightarrow> pydict list" where
  \<comment> \<open>the evidence of a finding, or its symbol and type where it has none\<close>
  "closed_evidence part fs =
     map (\<lambda>f. if f_evidence f = [] then [(''symbol'', VStr (f_symbol f)), (''type'', VStr (f_type f))] else f_evidence f)
       (filter (\<lambda>f. str_contains part (py_upper (f_type f)) \<and> f_fail_closed f) fs)"

definition settle :: "runtime_config \<Rightarrow> finding list \<Rightarrow> runtime \<Rightarrow> runtime" where
  "settle c fs s =
    (let orders = closed_evidence ''ORDER'' fs; positions = closed_evidence ''POSITION'' fs;
         s1 = s\<lparr>rt_orphan_orders := orders, rt_orphan_positions := positions,
                rt_unreconciled := remdups (map f_symbol (filter f_fail_closed fs)),
                rt_fail := (if fs \<noteq> [] \<and> rt_fail s = None
                  then Some (if orders \<noteq> [] then ''ORPHAN_ORDER_DETECTED'' else if positions \<noteq> [] then ''ORPHAN_POSITION_DETECTED''
                             else ''UNRECONCILED_POSITION'')
                  else rt_fail s)\<rparr>;
         s2 = (if rt_read_only s1 = ''AVAILABLE'' \<and> failing s1 then s1\<lparr>rt_recon := ''DIRTY''\<rparr> else s1) in
     if failing s2 then s2
     else s2\<lparr>rt_unknown := False, rt_recon := (if rc_mode c \<noteq> ''BACKTEST'' then ''CLEAN'' else rt_recon s2)\<rparr>)"

definition cycle_of :: "observation \<Rightarrow> pydict \<Rightarrow> finding list \<Rightarrow> runtime \<Rightarrow> cycle_row" where
  "cycle_of ob source fs s = \<lparr>cy_id = ob_cycle ob, cy_status = rt_recon s, cy_findings = fs,
     cy_snapshot = (if failing s then ''RECOVERY_REQUIRED'' else ''RECONCILED''),
     cy_recovered = (truthy (dget source ''recovery_transition'') \<and> rt_recon s = ''CLEAN'')\<rparr>"

definition persistence_failed :: "runtime_config \<Rightarrow> observation \<Rightarrow> runtime \<Rightarrow> runtime" where
  "persistence_failed c ob s = s\<lparr>rt_recon := ''PERSISTENCE_FAILED'', rt_fail := Some ''RECONCILIATION_PERSISTENCE_FAILED'',
     rt_unknown := (if rc_mode c \<noteq> ''BACKTEST'' then True else rt_unknown s),
     rt_pending_failures := rt_pending_failures s @ [ob_failed_cycle ob]\<rparr>"

definition conclude :: "runtime_config \<Rightarrow> flt \<Rightarrow> runtime \<Rightarrow> runtime" where
  "conclude c now s =
    (let s1 = s\<lparr>rt_unhealthy := False\<rparr>;
         s2 = (if rt_read_only s1 = ''AVAILABLE'' then s1\<lparr>rt_class := None, rt_failures := 0, rt_outage := None\<rparr> else s1) in
     if rt_recon s2 = ''CLEAN'' \<and> \<not> failing s2 then s2\<lparr>rt_res_pending := False, rt_status := ''OPERATING''\<rparr>
     else if rt_class s2 = Some PERMANENT_AUTH_OR_PROTOCOL then pause_for_provider_failure c ''PROVIDER_PERMANENT_FAILURE'' s2
     else if rt_class s2 = Some UNKNOWN_FAILURE \<and> 3 \<le> rt_failures s2
     then pause_for_provider_failure c ''PROVIDER_UNKNOWN_FAILURE_THRESHOLD'' s2
     else case rt_outage s2 of
         Some start \<Rightarrow> if rt_class s2 = Some TRANSIENT_TRANSPORT \<and> flt_le (rc_grace c) (fsub now start)
           then pause_for_provider_failure c ''PROVIDER_TRANSIENT_OUTAGE_GRACE_EXPIRED'' s2 else s2
       | None \<Rightarrow> s2)"

definition signature_of :: "finding \<Rightarrow> string" where
  "signature_of f = f_type f @ '':'' @ f_symbol f @ '':'' @ f_ref f"

fun repair_events :: "nat option \<Rightarrow> finding list \<Rightarrow> runtime \<Rightarrow> runtime \<times> outcome" where
  \<comment> \<open>the limit: how many events are sent before one hangs\<close>
  "repair_events left [] s = (s, Returned)"
| "repair_events left (f # fs) s =
    (if \<not> f_fail_closed f \<or> signature_of f \<in> set (rt_signatures s) then repair_events left fs s
     else let s1 = s\<lparr>rt_signatures := signature_of f # rt_signatures s\<rparr> in
       if left = Some 0 then (s1, TimedOut)
       else repair_events (map_option (\<lambda>n. n - 1) left) fs
         (shutdown (s1\<lparr>rt_events := rt_events s1 @ [(''RECONCILIATION_REPAIR'', f_symbol f)], rt_closed := rt_closed s1 + 1\<rparr>)))"

definition after_findings :: "runtime_config \<Rightarrow> observation \<Rightarrow> pydict \<Rightarrow> finding list \<Rightarrow> runtime \<Rightarrow> runtime \<times> outcome" where
  "after_findings c ob source fs s =
    (let s1 = settle c fs s in
     if \<not> rc_engine c then repair_events (ob_event_limit ob) fs (conclude c (ob_end_at ob) s1)
     else case persist_cycle 0 (ob_tries ob) (cycle_of ob source fs s1) (rt_pending_failures s1) (rt_db s1) of
         (db, Stored _) \<Rightarrow> repair_events (ob_event_limit ob) fs (conclude c (ob_end_at ob) (s1\<lparr>rt_db := db, rt_pending_failures := []\<rparr>))
       | (db, Exhausted) \<Rightarrow> (persistence_failed c ob (s1\<lparr>rt_db := db\<rparr>), Returned)
       | (db, Broken x) \<Rightarrow> (s1\<lparr>rt_db := db\<rparr>, Raised x))"

definition intended_orders :: "runtime_config \<Rightarrow> runtime \<Rightarrow> pydict list" where
  "intended_orders c s = (if rc_mode c \<in> {''LIVE'', ''LIVE_PRECHECK''} then map snd (rt_orders s) else [])"

definition compare_source :: "runtime_config \<Rightarrow> int \<Rightarrow> pydict \<Rightarrow> runtime \<Rightarrow> finding list py" where
  "compare_source c clock source s =
    bindE (snapshot_from_source source) (\<lambda>snapshot.
    bindE (reconcile (rc_recon c) (rc_iso c) clock (intended_orders c s) (rt_lifecycle s) snapshot (rc_mode c)) (\<lambda>(fs, _, _). Inr fs))"

definition reconcile_runtime_state :: "runtime_config \<Rightarrow> observation \<Rightarrow> runtime \<Rightarrow> runtime \<times> outcome" where
  "reconcile_runtime_state c ob s =
    (case observe c (ob_read ob) (ob_read_at ob) (s\<lparr>rt_unhealthy := True\<rparr>) of
       (s1, Raises x) \<Rightarrow> (s1, Raised x)
     | (s1, Hangs) \<Rightarrow> (s1, TimedOut)
     | (s1, Seen source) \<Rightarrow>
         let s2 = record_derivatives source s1 in
         (case compare_source c (ob_clock ob) source s2 of Inl x \<Rightarrow> (s2, Raised x)
          | Inr fs \<Rightarrow> after_findings c ob source fs s2))"

definition timeout_state :: "flt \<Rightarrow> runtime \<Rightarrow> runtime" where
  "timeout_state now s = s\<lparr>rt_unknown := True, rt_read_only := ''UNAVAILABLE'', rt_recon := ''EXCHANGE_STATE_UNKNOWN'',
     rt_fail := Some ''EXCHANGE_STATE_UNKNOWN'', rt_class := Some TRANSIENT_TRANSPORT, rt_failures := rt_failures s + 1,
     rt_outage := (if rt_outage s = None then Some now else rt_outage s), rt_status := ''RECOVERY_REQUIRED'',
     rt_events := rt_events s @ [(''RECONCILIATION_REPAIR'', ''GLOBAL'')]\<rparr>"

definition grace_check :: "runtime_config \<Rightarrow> flt \<Rightarrow> runtime \<Rightarrow> runtime" where
  "grace_check c now s = (case rt_outage s of
     Some start \<Rightarrow> if flt_le (rc_grace c) (fsub now start) then pause_for_provider_failure c ''PROVIDER_TRANSIENT_OUTAGE_GRACE_EXPIRED'' s else s
   | None \<Rightarrow> s)"

definition handle_timeout :: "runtime_config \<Rightarrow> observation \<Rightarrow> runtime \<Rightarrow> runtime \<times> outcome" where
  "handle_timeout c ob s =
    (let s1 = timeout_state (ob_read_at ob) s in
     if \<not> rc_engine c then (grace_check c (ob_end_at ob) s1, Returned)
     else let s2 = s1\<lparr>rt_unhealthy := True\<rparr>;
              row = \<lparr>cy_id = ob_cycle ob, cy_status = rt_recon s2, cy_findings = [], cy_snapshot = ''RECOVERY_REQUIRED'', cy_recovered = False\<rparr> in
       case persist_cycle 0 (ob_timeout_tries ob) row (rt_pending_failures s2) (rt_db s2) of
         (db, Stored _) \<Rightarrow> (grace_check c (ob_end_at ob) (s2\<lparr>rt_db := db, rt_pending_failures := [], rt_unhealthy := False\<rparr>), Returned)
       | (db, Exhausted) \<Rightarrow> (s2\<lparr>rt_db := db, rt_pending_failures := rt_pending_failures s2 @ [ob_failed_cycle ob]\<rparr>, Returned)
       | (db, Broken x) \<Rightarrow> (s2\<lparr>rt_db := db\<rparr>, Raised x))"

definition run_reconciliation_once :: "runtime_config \<Rightarrow> observation \<Rightarrow> runtime \<Rightarrow> runtime \<times> outcome" where
  "run_reconciliation_once c ob s =
    (case reconcile_runtime_state c ob (s\<lparr>rt_runs := rt_runs s + 1\<rparr>) of
       (s1, TimedOut) \<Rightarrow> handle_timeout c ob s1
     | r \<Rightarrow> r)"

subsection \<open>The other failures that block execution\<close>

datatype snapshot_write = Written | NotWritten | WriteFails exc
  \<comment> \<open>not written: the database is busy or full\<close>

datatype storage_report = NoReport | Fits | Blocks snapshot_write

definition storage_pressure_state :: "runtime \<Rightarrow> runtime" where
  "storage_pressure_state s = s\<lparr>rt_storage := True, rt_recovery := True, rt_status := ''RECOVERY_REQUIRED'',
     rt_fail := Some ''STORAGE_PRESSURE_RECOVERY_REQUIRED''\<rparr>"

definition check_storage_pressure :: "storage_report \<Rightarrow> runtime \<Rightarrow> runtime \<times> outcome" where
  \<comment> \<open>the periodic check; an empty runtime that recorded the transition stops\<close>
  "check_storage_pressure report s =
    (case report of NoReport \<Rightarrow> (s, Returned) | Fits \<Rightarrow> (s, Returned)
     | Blocks write \<Rightarrow>
         let s1 = storage_pressure_state s in
         if rt_storage s then (s1, Returned)
         else case write of
             WriteFails x \<Rightarrow> (s1, Raised x)
           | NotWritten \<Rightarrow> (s1, Returned)
           | Written \<Rightarrow>
               let s2 = s1\<lparr>rt_db := (rt_db s1)\<lparr>db_snapshots := db_snapshots (rt_db s1) @ [''RECOVERY_REQUIRED'']\<rparr>\<rparr> in
               (if rt_positions s2 = [] \<and> rt_orders s2 = [] \<and> \<not> rt_unknown s2 \<and> rt_recon s2 = ''CLEAN'' then shutdown s2 else s2, Returned))"

definition mark_sqlite_persistence_recovery_required :: "string \<Rightarrow> runtime \<Rightarrow> runtime" where
  "mark_sqlite_persistence_recovery_required why s =
     s\<lparr>rt_recovery := True, rt_status := ''RECOVERY_REQUIRED'', rt_fail := or_fail why s\<rparr>"

definition reject_persistence_exhausted :: "runtime \<Rightarrow> runtime" where
  "reject_persistence_exhausted s =
     (mark_sqlite_persistence_recovery_required ''REJECT_PERSISTENCE_FAILED'' s)\<lparr>rt_reject_degraded := True\<rparr>"

definition reject_persisted :: "runtime \<Rightarrow> runtime" where
  \<comment> \<open>after a later reject was stored\<close>
  "reject_persisted s =
    (if \<not> rt_reject_degraded s then s
     else let s1 = s\<lparr>rt_reject_degraded := False\<rparr> in
       if rt_fail s1 = Some ''REJECT_PERSISTENCE_FAILED''
       then s1\<lparr>rt_fail := None, rt_recovery := False, rt_status := ''OPERATING''\<rparr> else s1)"

definition burnin_failed :: "string \<Rightarrow> runtime \<Rightarrow> runtime" where
  \<comment> \<open>burn-in evidence could not be written or evaluated\<close>
  "burnin_failed why s = s\<lparr>rt_fail := Some why\<rparr>"

subsection \<open>Runs\<close>

datatype runtime_op =
    Reconcile observation
  | ResolverFailed
  | ResolverAnswered
  | StorageChecked storage_report
  | SqliteDegraded string
  | RejectLost
  | RejectStored
  | BurninFailed string
  | Traded "(string \<times> pydict) list" "(string \<times> flt) list" "(string \<times> string) list"
  \<comment> \<open>the rest of the runtime moves its orders, positions and lifecycle states to anything\<close>

fun runtime_step :: "runtime_config \<Rightarrow> runtime_op \<Rightarrow> runtime \<Rightarrow> runtime" where
  "runtime_step c (Reconcile ob) s = fst (run_reconciliation_once c ob s)"
| "runtime_step c ResolverFailed s = mark_resolver_provider_failure s"
| "runtime_step c ResolverAnswered s = mark_resolver_provider_recovered s"
| "runtime_step c (StorageChecked r) s = fst (check_storage_pressure r s)"
| "runtime_step c (SqliteDegraded why) s = mark_sqlite_persistence_recovery_required why s"
| "runtime_step c RejectLost s = reject_persistence_exhausted s"
| "runtime_step c RejectStored s = reject_persisted s"
| "runtime_step c (BurninFailed why) s = burnin_failed why s"
| "runtime_step c (Traded orders positions lifecycle) s =
     s\<lparr>rt_orders := orders, rt_positions := positions, rt_lifecycle := lifecycle\<rparr>"

definition runtime_run :: "runtime_config \<Rightarrow> runtime_op list \<Rightarrow> runtime \<Rightarrow> runtime" where
  "runtime_run c ops s = foldl (\<lambda>t a. runtime_step c a t) s ops"

subsection \<open>What an unblocked runtime has seen\<close>

lemma settle_fields [simp]:
  "rt_read_only (settle c fs s) = rt_read_only s" "rt_unhealthy (settle c fs s) = rt_unhealthy s"
  "rt_res_down (settle c fs s) = rt_res_down s" "rt_res_pending (settle c fs s) = rt_res_pending s"
  "rt_storage (settle c fs s) = rt_storage s" "rt_recovery (settle c fs s) = rt_recovery s" "rt_db (settle c fs s) = rt_db s"
  by (simp_all add: settle_def Let_def)

lemma settle_not_failing:
  assumes "\<not> failing (settle c fs s)"
  shows "rt_fail s = None \<longrightarrow> fs = []" "\<not> failing s" "rc_mode c \<noteq> ''BACKTEST'' \<Longrightarrow> rt_recon (settle c fs s) = ''CLEAN''"
  using assms by (auto simp: settle_def Let_def failing_def split: if_splits)

lemma pause_fields [simp]:
  "rt_fail (pause_for_provider_failure c why s) = rt_fail s" "rt_unhealthy (pause_for_provider_failure c why s) = rt_unhealthy s"
  "rt_res_down (pause_for_provider_failure c why s) = rt_res_down s" "rt_res_pending (pause_for_provider_failure c why s) = rt_res_pending s"
  "rt_storage (pause_for_provider_failure c why s) = rt_storage s" "rt_recovery (pause_for_provider_failure c why s) = rt_recovery s"
  "rt_read_only (pause_for_provider_failure c why s) = rt_read_only s" "rt_recon (pause_for_provider_failure c why s) = rt_recon s"
  "rt_unknown (pause_for_provider_failure c why s) = rt_unknown s" "rt_db (pause_for_provider_failure c why s) = rt_db s"
  by (simp_all add: pause_for_provider_failure_def shutdown_def)

lemma conclude_fields [simp]:
  "rt_fail (conclude c now s) = rt_fail s" "rt_unhealthy (conclude c now s) = False"
  "rt_res_down (conclude c now s) = rt_res_down s" "rt_storage (conclude c now s) = rt_storage s"
  "rt_recovery (conclude c now s) = rt_recovery s" "rt_read_only (conclude c now s) = rt_read_only s"
  "rt_recon (conclude c now s) = rt_recon s" "rt_unknown (conclude c now s) = rt_unknown s" "rt_db (conclude c now s) = rt_db s"
  by (simp_all add: conclude_def Let_def split: option.splits)

lemma conclude_pending:
  "rt_res_pending (conclude c now s) = (rt_res_pending s \<and> \<not> (rt_recon s = ''CLEAN'' \<and> \<not> failing s))"
  by (simp add: conclude_def Let_def failing_def split: option.splits)

lemma repair_fields [simp]:
  "rt_fail (fst (repair_events l fs s)) = rt_fail s" "rt_unhealthy (fst (repair_events l fs s)) = rt_unhealthy s"
  "rt_res_down (fst (repair_events l fs s)) = rt_res_down s" "rt_res_pending (fst (repair_events l fs s)) = rt_res_pending s"
  "rt_storage (fst (repair_events l fs s)) = rt_storage s" "rt_recovery (fst (repair_events l fs s)) = rt_recovery s"
  "rt_read_only (fst (repair_events l fs s)) = rt_read_only s" "rt_recon (fst (repair_events l fs s)) = rt_recon s"
  "rt_unknown (fst (repair_events l fs s)) = rt_unknown s" "rt_db (fst (repair_events l fs s)) = rt_db s"
  by (induction l fs s rule: repair_events.induct) (simp_all add: Let_def shutdown_def)

definition comparable :: "runtime_config \<Rightarrow> observation \<Rightarrow> pydict \<Rightarrow> runtime \<Rightarrow> bool" where
  \<comment> \<open>complete evidence without any finding\<close>
  "comparable c ob source s \<longleftrightarrow> evidence_complete source \<and> compare_source c (ob_clock ob) source s = Inr []"

lemma rows_of_dset: "k \<noteq> ''recovery_transition'' \<Longrightarrow> rows_of (dset ''recovery_transition'' v d) k = rows_of d k"
  by (simp add: rows_of_def dget_or_def map_of_dset)

lemma compare_source_cong:
  assumes "rt_orders s = rt_orders t" "rt_lifecycle s = rt_lifecycle t"
  shows "compare_source c clock (dset ''recovery_transition'' v d) s = compare_source c clock d t"
    "compare_source c clock d s = compare_source c clock d t"
  using assms by (simp_all add: compare_source_def snapshot_from_source_def rows_of_dset intended_orders_def)

lemma receive_fields [simp]:
  "rt_orders (receive_evidence w s) = rt_orders s" "rt_lifecycle (receive_evidence w s) = rt_lifecycle s"
  "rt_res_down (receive_evidence w s) = rt_res_down s" "rt_unhealthy (receive_evidence w s) = rt_unhealthy s"
  "rt_storage (receive_evidence w s) = rt_storage s" "rt_recovery (receive_evidence w s) = rt_recovery s"
  "rt_res_pending (receive_evidence w s) = rt_res_pending s"
  by (simp_all add: receive_evidence_def Let_def)

lemma derivatives_fields [simp]:
  "rt_orders (record_derivatives x s) = rt_orders s" "rt_lifecycle (record_derivatives x s) = rt_lifecycle s"
  "rt_res_down (record_derivatives x s) = rt_res_down s" "rt_fail (record_derivatives x s) = rt_fail s"
  "rt_unhealthy (record_derivatives x s) = rt_unhealthy s" "rt_read_only (record_derivatives x s) = rt_read_only s"
  "rt_storage (record_derivatives x s) = rt_storage s" "rt_recovery (record_derivatives x s) = rt_recovery s"
  "rt_res_pending (record_derivatives x s) = rt_res_pending s" "rt_db (record_derivatives x s) = rt_db s"
  by (simp_all add: record_derivatives_def Let_def)

lemma observe_clean:
  \<comment> \<open>without the diagnostic override only complete evidence leaves no reason to block\<close>
  assumes "observe c answer now s = (s1, Seen source)" "\<not> failing s1" "rc_mode c \<noteq> ''BACKTEST''" "\<not> rc_diagnostic c"
  obtains d where "answer = ReadOk d" "evidence_complete d" "s1 = receive_evidence True s" "rt_read_only s1 = ''AVAILABLE''"
    "source = d \<or> source = dset ''recovery_transition'' (VStr ''CLEAN_RECONCILIATION_COMMITTED'') d"
proof -
  have j: "evidence_complete d \<and> s1 = receive_evidence True s
      \<and> (source = d \<or> source = dset ''recovery_transition'' (VStr ''CLEAN_RECONCILIATION_COMMITTED'') d)"
    if "judge_evidence c now d s = (s1, Seen source)" for d
    using that assms(2) by (auto simp: judge_evidence_def Let_def incomplete_evidence_def failing_def split: if_splits sum.splits)
  have n: "\<not> evidence_complete (empty_source ((''evidence_status'', VStr ''INCOMPLETE'') # xs))" for xs
    by (simp add: evidence_complete_def empty_source_def str_eval)
  obtain d where d: "answer = ReadOk d" "judge_evidence c now d s = (s1, Seen source)"
    using assms j n by (cases answer) (auto simp: observe_def failing_def split: if_splits)
  moreover have "rt_read_only s1 = ''AVAILABLE''" using j [OF d(2)] by (simp add: receive_evidence_def Let_def)
  ultimately show thesis using that j by blast
qed

lemma commit_cycle_records: "cy_id row \<in> fst ` set (db_events (fst (commit_cycle row pending db)))"
  by (auto simp: commit_cycle_def Let_def add_event_def)

lemma persist_cycle_stored: "persist_cycle n tries row pending db = (db1, Stored new) \<Longrightarrow> cy_id row \<in> fst ` set (db_events db1)"
proof (induction n tries row pending db rule: persist_cycle.induct)
  case (1 n tries row pending db)
  then show ?case using commit_cycle_records [of row pending db]
    by (subst (asm) (2) persist_cycle.simps) (auto split: commit_attempt.splits prod.splits if_splits)
qed

lemma timeout_blocks: "failing (fst (handle_timeout c ob s))"
  by (auto simp: handle_timeout_def Let_def grace_check_def failing_def pause_for_provider_failure_def shutdown_def
      timeout_state_def split: prod.splits persisted.splits option.splits)

lemma after_findings_clean:
  assumes "after_findings c ob source fs s = (t, Returned)" "\<not> failing t" "rc_mode c \<noteq> ''BACKTEST''" "rt_fail s \<noteq> Some []"
  shows "fs = []" "\<not> failing s" "rt_recon t = ''CLEAN''" "\<not> rt_unhealthy t" "\<not> rt_res_pending t"
    "rc_engine c \<Longrightarrow> ob_cycle ob \<in> fst ` set (db_events (rt_db t))" "rt_read_only t = rt_read_only s"
proof -
  let ?s1 = "settle c fs s"
  obtain db p where p: "persist_cycle 0 (ob_tries ob) (cycle_of ob source fs ?s1) (rt_pending_failures ?s1) (rt_db ?s1) = (db, p)"
    by (metis surj_pair)
  obtain u where u: "t = fst (repair_events (ob_event_limit ob) fs (conclude c (ob_end_at ob) u))"
      "rt_fail u = rt_fail ?s1" "rt_recon u = rt_recon ?s1" "rt_read_only u = rt_read_only s"
      "rc_engine c \<Longrightarrow> ob_cycle ob \<in> fst ` set (db_events (rt_db u))"
  proof (cases "rc_engine c")
    case False
    then show thesis using assms(1) that [of ?s1] by (simp add: after_findings_def Let_def)
  next
    case True
    show thesis
    proof (cases p)
      case (Stored new)
      have "ob_cycle ob \<in> fst ` set (db_events db)"
        using persist_cycle_stored [OF p [unfolded Stored]] by (simp add: cycle_of_def)
      then show thesis using assms(1) True p Stored that [of "?s1\<lparr>rt_db := db, rt_pending_failures := []\<rparr>"]
        by (simp add: after_findings_def Let_def)
    next
      case Exhausted
      then show thesis using assms(1, 2) True p by (auto simp: after_findings_def Let_def persistence_failed_def failing_def)
    next
      case (Broken x)
      then show thesis using assms(1) True p by (simp add: after_findings_def Let_def)
    qed
  qed
  have nf: "\<not> failing (settle c fs s)" using assms(2) u(1, 2) by (simp add: failing_def)
  note f = settle_not_failing [OF nf]
  show "\<not> failing s" by (rule f(2))
  then show "fs = []" using f(1) assms(4) by (simp add: failing_def)
  have "rt_recon u = ''CLEAN''" using u(3) f(3) assms(3) by simp
  moreover have "\<not> failing u" using nf u(2) by (simp add: failing_def)
  ultimately show "rt_recon t = ''CLEAN''" "\<not> rt_unhealthy t" "\<not> rt_res_pending t" using u(1) by (simp_all add: conclude_pending)
  show "rc_engine c \<Longrightarrow> ob_cycle ob \<in> fst ` set (db_events (rt_db t))" using u(1, 5) by simp
  show "rt_read_only t = rt_read_only s" using u(1, 4) by simp
qed

lemma failing_derivatives [simp]: "failing (record_derivatives x s) = failing s"
  by (simp add: failing_def)

text \<open>C3: a CLEAN observation is tradable only once its evidence is committed: if after a reconciliation
  that returned (PAPER or a LIVE mode, no diagnostic override) execution is not blocked, then the
  provider answered with complete evidence, the comparison with the orders, positions and fills of that
  answer found nothing, the status is CLEAN, no resolver outage is open and, where there is a database,
  the cycle is on record there.
\<close>
theorem unblocked_means_reconciled:
  assumes "run_reconciliation_once c ob s = (t, Returned)" "\<not> execution_reconciliation_blocked c t"
    and "rc_mode c \<noteq> ''BACKTEST''" "\<not> rc_diagnostic c" "rt_fail s \<noteq> Some []"
  shows "\<exists>source. ob_read ob = ReadOk source \<and> comparable c ob source s \<and> rt_recon t = ''CLEAN'' \<and> \<not> rt_res_down t
    \<and> \<not> rt_res_pending t \<and> rt_read_only t = ''AVAILABLE'' \<and> (\<not> rc_engine c \<or> ob_cycle ob \<in> fst ` set (db_events (rt_db t)))"
proof -
  define s0 where "s0 = s\<lparr>rt_runs := rt_runs s + 1, rt_unhealthy := True\<rparr>"
  have nf: "\<not> failing t" "\<not> rt_res_down t" "rt_read_only t \<noteq> ''UNAVAILABLE''"
    using assms(2, 3) by (auto simp: execution_reconciliation_blocked_def)
  have r: "reconcile_runtime_state c ob (s\<lparr>rt_runs := rt_runs s + 1\<rparr>) = (t, Returned)"
    using assms(1) nf(1) timeout_blocks unfolding run_reconciliation_once_def
    by (auto split: prod.splits outcome.splits) (metis fst_conv)+
  obtain s1 source where o: "observe c (ob_read ob) (ob_read_at ob) s0 = (s1, Seen source)"
    and r2: "(case compare_source c (ob_clock ob) source (record_derivatives source s1) of Inl x \<Rightarrow> (record_derivatives source s1, Raised x)
          | Inr fs \<Rightarrow> after_findings c ob source fs (record_derivatives source s1)) = (t, Returned)"
    using r unfolding reconcile_runtime_state_def s0_def Let_def by (auto split: prod.splits observed_source.splits)
  obtain fs where fs: "compare_source c (ob_clock ob) source (record_derivatives source s1) = Inr fs"
    "after_findings c ob source fs (record_derivatives source s1) = (t, Returned)"
    using r2 by (auto split: sum.splits)
  have e: "rt_fail s1 \<noteq> Some []"
    using o assms(5) unfolding observe_def s0_def judge_evidence_def receive_evidence_def incomplete_evidence_def Let_def
    by (auto split: if_splits read_answer.splits sum.splits)
  have a: "fs = []" "\<not> failing s1" "rt_recon t = ''CLEAN''" "\<not> rt_res_pending t"
    "rc_engine c \<Longrightarrow> ob_cycle ob \<in> fst ` set (db_events (rt_db t))" "rt_read_only t = rt_read_only s1"
    using after_findings_clean [OF fs(2) nf(1) assms(3)] e by simp_all
  obtain d where d: "ob_read ob = ReadOk d" "evidence_complete d" "s1 = receive_evidence True s0"
    "source = d \<or> source = dset ''recovery_transition'' (VStr ''CLEAN_RECONCILIATION_COMMITTED'') d"
    by (rule observe_clean [OF o a(2) assms(3, 4)])
  have "compare_source c (ob_clock ob) d s = Inr []"
    using fs(1) d(4) a(1) compare_source_cong [of "record_derivatives source s1" s c "ob_clock ob"] d(3)
    by (auto simp: s0_def)
  moreover have "rt_read_only t = ''AVAILABLE''" using a(6) d(3) by (simp add: receive_evidence_def Let_def)
  ultimately show ?thesis using d a nf by (auto simp: comparable_def)
qed

subsection \<open>What no reconciliation changes\<close>

definition frame :: "runtime \<Rightarrow> runtime \<Rightarrow> bool" where
  "frame s t \<longleftrightarrow> rt_res_down t = rt_res_down s \<and> rt_storage t = rt_storage s \<and> rt_recovery t = rt_recovery s
     \<and> (rt_fail s = Some [] \<or> rt_fail t \<noteq> Some [])"

lemma frame_trans [trans]: "frame s t \<Longrightarrow> frame t u \<Longrightarrow> frame s u"
  by (auto simp: frame_def)

lemma observe_frame: "frame s (fst (observe c a now s))" "rt_res_pending (fst (observe c a now s)) = rt_res_pending s"
  by (auto simp: observe_def judge_evidence_def incomplete_evidence_def frame_def receive_evidence_def Let_def
      split: read_answer.splits sum.splits)

lemma settle_frame: "frame s (settle c fs s)"
  by (auto simp: frame_def settle_def Let_def)

lemma derivatives_frame: "frame s (record_derivatives x s)"
  by (simp add: frame_def)

lemma timeout_frame:
  "frame s (fst (handle_timeout c ob s))" "rt_res_pending (fst (handle_timeout c ob s)) = rt_res_pending s"
  by (auto simp: frame_def handle_timeout_def Let_def grace_check_def timeout_state_def
      split: prod.splits persisted.splits option.splits)

lemma repair_returns: "list_all (\<lambda>f. \<not> f_fail_closed f) fs \<Longrightarrow> repair_events l fs s = (s, Returned)"
  by (induction fs) auto

lemma after_findings_frame:
  assumes "after_findings c ob source fs s = (t, out)"
  shows "frame s t" "rt_fail s \<noteq> Some [] \<Longrightarrow> rt_res_pending t = rt_res_pending s \<or>
    rt_recon t = ''CLEAN'' \<and> \<not> failing t \<and> out = Returned"
proof -
  let ?s1 = "settle c fs s"
  obtain db p where p: "persist_cycle 0 (ob_tries ob) (cycle_of ob source fs ?s1) (rt_pending_failures ?s1) (rt_db ?s1) = (db, p)"
    by (metis surj_pair)
  have ok: "frame s t \<and> (rt_fail s \<noteq> Some [] \<longrightarrow> rt_res_pending t = rt_res_pending s \<or>
      rt_recon t = ''CLEAN'' \<and> \<not> failing t \<and> out = Returned)"
    if "repair_events (ob_event_limit ob) fs (conclude c (ob_end_at ob) u) = (t, out)" "rt_fail u = rt_fail ?s1"
      "rt_recon u = rt_recon ?s1" "rt_res_pending u = rt_res_pending s" "rt_res_down u = rt_res_down s"
      "rt_storage u = rt_storage s" "rt_recovery u = rt_recovery s" for u
  proof -
    have t: "t = fst (repair_events (ob_event_limit ob) fs (conclude c (ob_end_at ob) u))" by (simp add: that(1))
    have "frame s t" using settle_frame [of s c fs] that unfolding t frame_def by simp
    moreover have "rt_recon t = ''CLEAN'' \<and> \<not> failing t \<and> out = Returned"
      if "rt_fail s \<noteq> Some []" "rt_res_pending t \<noteq> rt_res_pending s"
    proof -
      have clean: "rt_recon u = ''CLEAN''" "\<not> failing u"
        using that(2) \<open>rt_res_pending u = rt_res_pending s\<close> unfolding t by (auto simp: conclude_pending)
      then have "\<not> failing ?s1" using \<open>rt_fail u = rt_fail ?s1\<close> by (simp add: failing_def)
      then have "fs = []" using settle_not_failing [of c fs s] that(1) by (simp add: failing_def)
      then have "t = conclude c (ob_end_at ob) u" "out = Returned" using \<open>repair_events _ _ _ = (t, out)\<close> by simp_all
      then show ?thesis using clean by (simp add: failing_def)
    qed
    ultimately show ?thesis by blast
  qed
  have all: "frame s t \<and> (rt_fail s \<noteq> Some [] \<longrightarrow> rt_res_pending t = rt_res_pending s \<or>
      rt_recon t = ''CLEAN'' \<and> \<not> failing t \<and> out = Returned)"
  proof (cases "rc_engine c")
    case False
    then show ?thesis using assms ok [of ?s1] by (simp add: after_findings_def Let_def)
  next
    case True
    then show ?thesis using assms p ok [of "?s1\<lparr>rt_db := db, rt_pending_failures := []\<rparr>"] settle_frame [of s c fs]
      by (cases p) (auto simp: after_findings_def Let_def persistence_failed_def frame_def)
  qed
  then show "frame s t" "rt_fail s \<noteq> Some [] \<Longrightarrow> rt_res_pending t = rt_res_pending s \<or>
    rt_recon t = ''CLEAN'' \<and> \<not> failing t \<and> out = Returned" by blast+
qed

lemma reconcile_frame:
  assumes "reconcile_runtime_state c ob s = (t, out)"
  shows "frame s t" "rt_fail s \<noteq> Some [] \<Longrightarrow> rt_res_pending t = rt_res_pending s \<or>
    rt_recon t = ''CLEAN'' \<and> \<not> failing t \<and> out = Returned"
proof -
  let ?s0 = "s\<lparr>rt_unhealthy := True\<rparr>"
  obtain s1 x where o: "observe c (ob_read ob) (ob_read_at ob) ?s0 = (s1, x)" by (metis surj_pair)
  have f1: "frame s s1" "rt_res_pending s1 = rt_res_pending s" "frame s (record_derivatives d s1)" for d
    using observe_frame(1) [of ?s0 c "ob_read ob" "ob_read_at ob"] observe_frame(2) [of c "ob_read ob" "ob_read_at ob" ?s0] by (simp_all add: o frame_def)
  have all: "frame s t \<and> (rt_fail s \<noteq> Some [] \<longrightarrow> rt_res_pending t = rt_res_pending s \<or>
      rt_recon t = ''CLEAN'' \<and> \<not> failing t \<and> out = Returned)"
  proof (cases x)
    case (Seen source)
    let ?s2 = "record_derivatives source s1"
    show ?thesis
    proof (cases "compare_source c (ob_clock ob) source ?s2")
      case (Inl e)
      then show ?thesis using assms f1 by (auto simp: reconcile_runtime_state_def o Seen Let_def)
    next
      case (Inr fs)
      then have "after_findings c ob source fs ?s2 = (t, out)"
        using assms by (simp add: reconcile_runtime_state_def o Seen Let_def)
      from after_findings_frame [OF this] frame_trans [OF f1(3)] show ?thesis
        using f1 by (auto simp: frame_def)
    qed
  qed (use assms f1 in \<open>auto simp: reconcile_runtime_state_def o\<close>)
  then show "frame s t" "rt_fail s \<noteq> Some [] \<Longrightarrow> rt_res_pending t = rt_res_pending s \<or>
    rt_recon t = ''CLEAN'' \<and> \<not> failing t \<and> out = Returned" by blast+
qed

lemma run_once_frame:
  assumes "run_reconciliation_once c ob s = (t, out)"
  shows "frame s t" "rt_fail s \<noteq> Some [] \<Longrightarrow> rt_res_pending t = rt_res_pending s \<or>
    rt_recon t = ''CLEAN'' \<and> \<not> failing t \<and> out = Returned"
proof -
  let ?s0 = "s\<lparr>rt_runs := rt_runs s + 1\<rparr>"
  obtain s1 x where r: "reconcile_runtime_state c ob ?s0 = (s1, x)" by (metis surj_pair)
  have f0: "frame s ?s0" by (simp add: frame_def)
  note f = frame_trans [OF f0 reconcile_frame(1) [OF r]]
  have all: "frame s t \<and> (rt_fail s \<noteq> Some [] \<longrightarrow> rt_res_pending t = rt_res_pending s \<or>
      rt_recon t = ''CLEAN'' \<and> \<not> failing t \<and> out = Returned)"
  proof (cases x)
    case TimedOut
    then have "t = fst (handle_timeout c ob s1)" using assms unfolding run_reconciliation_once_def r by simp
    then show ?thesis using frame_trans [OF f timeout_frame(1)] timeout_frame(2) [of c ob s1] reconcile_frame(2) [OF r] TimedOut
      by auto
  qed (use assms [unfolded run_reconciliation_once_def r] f reconcile_frame(2) [OF r] in auto)
  then show "frame s t" "rt_fail s \<noteq> Some [] \<Longrightarrow> rt_res_pending t = rt_res_pending s \<or>
    rt_recon t = ''CLEAN'' \<and> \<not> failing t \<and> out = Returned" by blast+
qed

subsection \<open>Invariants over runs\<close>

fun reasoned :: "runtime_op \<Rightarrow> bool" where
  \<comment> \<open>the code names a reason wherever it sets one\<close>
  "reasoned (SqliteDegraded why) = (why \<noteq> [])"
| "reasoned (BurninFailed why) = (why \<noteq> [])"
| "reasoned _ = True"

definition clean_cycle :: "runtime_config \<Rightarrow> observation \<Rightarrow> runtime \<Rightarrow> bool" where
  "clean_cycle c ob s \<longleftrightarrow> (case run_reconciliation_once c ob s of
     (t, Returned) \<Rightarrow> rt_recon t = ''CLEAN'' \<and> \<not> failing t | _ \<Rightarrow> False)"

lemma or_fail_ne: "why \<noteq> [] \<Longrightarrow> or_fail why s \<noteq> Some []"
  by (simp add: or_fail_def failing_def)

lemmas local_ops = mark_resolver_provider_failure_def mark_resolver_provider_recovered_def check_storage_pressure_def
  storage_pressure_state_def mark_sqlite_persistence_recovery_required_def reject_persistence_exhausted_def
  reject_persisted_def burnin_failed_def shutdown_def Let_def

lemma step_reason: "rt_fail s \<noteq> Some [] \<Longrightarrow> reasoned a \<Longrightarrow> rt_fail (runtime_step c a s) \<noteq> Some []"
proof (cases a)
  case (Reconcile ob)
  assume "rt_fail s \<noteq> Some []"
  then show ?thesis using run_once_frame(1) [of c ob s "fst (run_reconciliation_once c ob s)" "snd (run_reconciliation_once c ob s)"] Reconcile
    by (simp add: frame_def)
qed (auto simp: local_ops or_fail_ne split: storage_report.splits snapshot_write.splits)

lemma step_storage: "rt_storage s \<Longrightarrow> rt_storage (runtime_step c a s)"
proof (cases a)
  case (Reconcile ob)
  assume "rt_storage s"
  then show ?thesis using run_once_frame(1) [of c ob s "fst (run_reconciliation_once c ob s)" "snd (run_reconciliation_once c ob s)"] Reconcile
    by (simp add: frame_def)
qed (auto simp: local_ops split: storage_report.splits snapshot_write.splits)

interpretation storage: invariant_machine "\<lambda>t a. runtime_step c a t" rt_storage for c
  by unfold_locales (rule step_storage)

lemma step_down:
  assumes "rt_res_down s" "a \<noteq> ResolverAnswered"
  shows "rt_res_down (runtime_step c a s)"
proof (cases a)
  case (Reconcile ob)
  then show ?thesis using assms run_once_frame(1) [of c ob s "fst (run_reconciliation_once c ob s)" "snd (run_reconciliation_once c ob s)"]
    by (simp add: frame_def)
qed (use assms in \<open>auto simp: local_ops split: storage_report.splits snapshot_write.splits\<close>)

lemma step_open:
  assumes "rt_res_down s \<or> rt_res_pending s" "rt_fail s \<noteq> Some []"
  shows "(rt_res_down (runtime_step c a s) \<or> rt_res_pending (runtime_step c a s)) \<or> (\<exists>ob. a = Reconcile ob \<and> clean_cycle c ob s)"
proof (cases a)
  case (Reconcile ob)
  obtain t out where r: "run_reconciliation_once c ob s = (t, out)" by (metis surj_pair)
  from run_once_frame [OF r] assms Reconcile r show ?thesis by (auto simp: frame_def clean_cycle_def)
qed (use assms in \<open>auto simp: local_ops split: storage_report.splits snapshot_write.splits\<close>)

lemma runtime_run_simps [simp]:
  "runtime_run c [] s = s" "runtime_run c (a # ops) s = runtime_run c ops (runtime_step c a s)"
  "runtime_run c (xs @ ys) s = runtime_run c ys (runtime_run c xs s)"
  by (simp_all add: runtime_run_def)

lemma open_until_clean:
  "\<lbrakk>rt_res_down s \<or> rt_res_pending s; rt_fail s \<noteq> Some []; list_all reasoned ops;
    \<not> rt_res_down (runtime_run c ops s); \<not> rt_res_pending (runtime_run c ops s)\<rbrakk>
   \<Longrightarrow> \<exists>mid ob post. ops = mid @ Reconcile ob # post \<and> clean_cycle c ob (runtime_run c mid s)"
proof (induction ops arbitrary: s)
  case (Cons a ops)
  from step_open [OF Cons.prems(1, 2)] show ?case
  proof
    assume "rt_res_down (runtime_step c a s) \<or> rt_res_pending (runtime_step c a s)"
    from Cons.IH [OF this step_reason [OF Cons.prems(2)]] Cons.prems(3-5)
    obtain mid ob post where "ops = mid @ Reconcile ob # post" "clean_cycle c ob (runtime_run c mid (runtime_step c a s))" by auto
    then have "a # ops = (a # mid) @ Reconcile ob # post" "clean_cycle c ob (runtime_run c (a # mid) s)" by simp_all
    then show ?thesis by blast
  next
    assume "\<exists>ob. a = Reconcile ob \<and> clean_cycle c ob s"
    then obtain ob where "a # ops = [] @ Reconcile ob # ops" "clean_cycle c ob (runtime_run c [] s)" by auto
    then show ?thesis by blast
  qed
qed simp

lemma down_until_answered:
  "\<lbrakk>rt_res_down s; \<not> rt_res_down (runtime_run c ops s)\<rbrakk>
   \<Longrightarrow> \<exists>pre rest. ops = pre @ ResolverAnswered # rest \<and> rt_res_down (runtime_run c pre s)"
proof (induction ops arbitrary: s)
  case (Cons a ops)
  show ?case
  proof (cases "a = ResolverAnswered")
    case True
    then have "a # ops = [] @ ResolverAnswered # ops" "rt_res_down (runtime_run c [] s)" using Cons.prems by simp_all
    then show ?thesis by blast
  next
    case False
    from Cons.IH [OF step_down [OF Cons.prems(1) this, of c]] Cons.prems(2)
    obtain pre rest where "ops = pre @ ResolverAnswered # rest" "rt_res_down (runtime_run c pre (runtime_step c a s))" by auto
    then have "a # ops = (a # pre) @ ResolverAnswered # rest" "rt_res_down (runtime_run c (a # pre) s)" by simp_all
    then show ?thesis by blast
  qed
qed simp

lemma run_reason: "rt_fail s \<noteq> Some [] \<Longrightarrow> list_all reasoned ops \<Longrightarrow> rt_fail (runtime_run c ops s) \<noteq> Some []"
  by (induction ops arbitrary: s) (auto simp: step_reason)

text \<open>C10: over every run of the modelled operations, execution reopens after a resolver outage only if
  the resolver answered and, after that, a reconciliation returned with status CLEAN and nothing left
  to block it.
\<close>
theorem resolver_outage_ends_by_reconciliation:
  assumes "rt_res_down s" "rt_fail s \<noteq> Some []" "list_all reasoned ops" "rc_mode c \<noteq> ''BACKTEST''"
    and "\<not> execution_reconciliation_blocked c (runtime_run c ops s)"
  shows "\<exists>pre mid ob post. ops = pre @ ResolverAnswered # mid @ Reconcile ob # post
    \<and> clean_cycle c ob (runtime_run c (pre @ ResolverAnswered # mid) s)"
proof -
  have e: "\<not> rt_res_down (runtime_run c ops s)" "\<not> rt_res_pending (runtime_run c ops s)"
    using assms(4, 5) by (auto simp: execution_reconciliation_blocked_def)
  obtain pre rest where p: "ops = pre @ ResolverAnswered # rest" "rt_res_down (runtime_run c pre s)"
    using down_until_answered [OF assms(1) e(1)] by blast
  let ?u = "runtime_step c ResolverAnswered (runtime_run c pre s)"
  have u: "rt_res_pending ?u" "rt_fail ?u \<noteq> Some []"
    using p(2) run_reason [OF assms(2), of pre c] assms(3) by (auto simp: p(1) mark_resolver_provider_recovered_def)
  obtain mid ob post where "rest = mid @ Reconcile ob # post" "clean_cycle c ob (runtime_run c mid ?u)"
    using open_until_clean [of ?u rest c] u e assms(3) by (auto simp: p(1))
  then have "ops = pre @ ResolverAnswered # mid @ Reconcile ob # post
    \<and> clean_cycle c ob (runtime_run c (pre @ ResolverAnswered # mid) s)" by (simp add: p(1))
  then show ?thesis by blast
qed

text \<open>Storage pressure, once seen, blocks execution for good: whatever operations follow, freed space
  and clean reconciliations included, execution stays blocked until a restart.
\<close>
theorem storage_pressure_blocks_for_good:
  assumes "rt_storage s" "rc_mode c \<noteq> ''BACKTEST''"
  shows "execution_reconciliation_blocked c (runtime_run c ops s)"
proof -
  have "rt_storage (runtime_run c ops s)" unfolding runtime_run_def by (rule storage.run_inv [OF assms(1)])
  then show ?thesis using assms(2) by (simp add: execution_reconciliation_blocked_def)
qed

subsection \<open>A run\<close>

definition demo_config :: runtime_config where
  "demo_config = \<lparr>rc_mode = ''PAPER'', rc_diagnostic = False, rc_grace = Fin 600, rc_engine = True, rc_campaign = False,
     rc_recon = \<lparr>re_stale = 120, re_fail_closed = True\<rparr>, rc_iso = (\<lambda>_. None)\<rparr>"

definition demo_runtime :: runtime where
  "demo_runtime = \<lparr>rt_status = ''OPERATING'', rt_fail = None, rt_recovery = False, rt_unknown = False,
     rt_read_only = ''AVAILABLE'', rt_recon = ''CLEAN'', rt_unhealthy = False, rt_res_down = False, rt_res_pending = False,
     rt_class = None, rt_failures = 0, rt_outage = None, rt_pending_failures = [], rt_storage = False, rt_reject_degraded = False,
     rt_orphan_orders = [], rt_orphan_positions = [], rt_unreconciled = [], rt_signatures = [], rt_events = [],
     rt_stopped = False, rt_paused = [], rt_derivatives = [], rt_derivatives_status = [], rt_derivatives_live = False,
     rt_orders = [], rt_positions = [], rt_lifecycle = [], rt_runs = 0, rt_closed = 0,
     rt_db = \<lparr>db_events = [], db_incidents = [], db_snapshots = [], db_recovered = []\<rparr>\<rparr>"

definition demo_observation :: "read_answer \<Rightarrow> string \<Rightarrow> observation" where
  "demo_observation answer cycle = \<lparr>ob_read = answer, ob_event_limit = None, ob_read_at = Fin 0, ob_end_at = Fin 0, ob_clock = 0,
     ob_cycle = cycle, ob_failed_cycle = ''f'' @ cycle, ob_tries = (\<lambda>_. Commits), ob_timeout_tries = (\<lambda>_. Commits)\<rparr>"

definition clean_answer :: read_answer where
  "clean_answer = ReadOk [(''evidence_status'', VStr ''COMPLETE''), (''orders'', VList []), (''positions'', VList [])]"

lemmas run_eval = run_reconciliation_once_def reconcile_runtime_state_def observe_def judge_evidence_def receive_evidence_def
  record_derivatives_def after_findings_def settle_def conclude_def persist_cycle.simps commit_cycle_def add_event_def cycle_of_def
  closed_evidence_def compare_source_def snapshot_from_source_def rows_of_def reconcile_def intended_orders_def failing_def
  demo_config_def demo_observation_def clean_answer_def unsettled_def CLEARED_BY_EVIDENCE_def incomplete_evidence_def
  execution_reconciliation_blocked_def dget_or_def

lemma complete_text [simp]: "py_upper ''COMPLETE'' = ''COMPLETE''" "py_upper ''INCOMPLETE'' = ''INCOMPLETE''"
  by code_simp+

lemma unblocked_means_reconciled_witness:
  "\<exists>t source. run_reconciliation_once demo_config (demo_observation clean_answer ''c1'') demo_runtime = (t, Returned)
    \<and> \<not> execution_reconciliation_blocked demo_config t
    \<and> ob_read (demo_observation clean_answer ''c1'') = ReadOk source \<and> comparable demo_config (demo_observation clean_answer ''c1'') source demo_runtime"
proof -
  obtain t where t: "run_reconciliation_once demo_config (demo_observation clean_answer ''c1'') demo_runtime = (t, Returned)"
    "\<not> execution_reconciliation_blocked demo_config t"
    by (simp add: run_eval demo_runtime_def evidence_complete_def Let_def)
  have "rc_mode demo_config \<noteq> ''BACKTEST''" "\<not> rc_diagnostic demo_config" "rt_fail demo_runtime \<noteq> Some []"
    by (simp_all add: demo_config_def demo_runtime_def)
  from unblocked_means_reconciled [OF t this] t show ?thesis by blast
qed

lemma resolver_outage_ends_by_reconciliation_witness:
  "\<exists>pre mid ob post. [ResolverAnswered, Reconcile (demo_observation clean_answer ''c1'')] = pre @ ResolverAnswered # mid @ Reconcile ob # post
    \<and> clean_cycle demo_config ob (runtime_run demo_config (pre @ ResolverAnswered # mid) (mark_resolver_provider_failure demo_runtime))"
proof (rule resolver_outage_ends_by_reconciliation)
  show "rt_res_down (mark_resolver_provider_failure demo_runtime)" "rt_fail (mark_resolver_provider_failure demo_runtime) \<noteq> Some []"
    by (simp_all add: mark_resolver_provider_failure_def or_fail_def failing_def demo_runtime_def)
  show "\<not> execution_reconciliation_blocked demo_config (runtime_run demo_config
      [ResolverAnswered, Reconcile (demo_observation clean_answer ''c1'')] (mark_resolver_provider_failure demo_runtime))"
    by (simp add: run_eval demo_runtime_def evidence_complete_def Let_def mark_resolver_provider_failure_def
        mark_resolver_provider_recovered_def or_fail_def)
qed (simp_all add: demo_config_def)

lemma storage_pressure_blocks_for_good_witness:
  "execution_reconciliation_blocked demo_config (runtime_run demo_config
     [StorageChecked Fits, Reconcile (demo_observation clean_answer ''c1'')] (fst (check_storage_pressure (Blocks Written) demo_runtime)))"
proof (rule storage_pressure_blocks_for_good)
  show "rt_storage (fst (check_storage_pressure (Blocks Written) demo_runtime))"
    by (simp add: check_storage_pressure_def storage_pressure_state_def demo_runtime_def Let_def shutdown_def)
qed (simp add: demo_config_def)

subsection \<open>Two ways around a reason to block\<close>

definition local_config :: runtime_config where "local_config = demo_config\<lparr>rc_engine := False\<rparr>"

lemma outage_launders_another_reason:
  \<comment> \<open>incomplete evidence overwrites the reason, complete evidence then clears it\<close>
  "execution_reconciliation_blocked local_config (runtime_run local_config
     [BurninFailed ''PHASE7_BURNIN_PERSISTENCE_FAILURE'', Reconcile (demo_observation clean_answer ''c1'')] demo_runtime)"
  "\<not> execution_reconciliation_blocked local_config (runtime_run local_config
     [BurninFailed ''PHASE7_BURNIN_PERSISTENCE_FAILURE'',
      Reconcile (demo_observation (ReadFailed TypeError ''TimeoutError'' ''TRANSIENT_TRANSPORT'') ''c1''),
      Reconcile (demo_observation clean_answer ''c2'')] demo_runtime)"
proof -
  let ?s1 = "burnin_failed ''PHASE7_BURNIN_PERSISTENCE_FAILURE'' demo_runtime"
  let ?bad = "demo_observation (ReadFailed TypeError ''TimeoutError'' ''TRANSIENT_TRANSPORT'') ''c1''"
  show "execution_reconciliation_blocked local_config (runtime_run local_config
     [BurninFailed ''PHASE7_BURNIN_PERSISTENCE_FAILURE'', Reconcile (demo_observation clean_answer ''c1'')] demo_runtime)"
    by (simp add: run_eval local_config_def demo_runtime_def evidence_complete_def Let_def burnin_failed_def)
  have u: "py_upper ''TRANSIENT_TRANSPORT'' = ''TRANSIENT_TRANSPORT''" by code_simp
  have g: "\<not> flt_le (Fin 600) (fsub (Fin 0) (Fin 0))" by (simp add: fsub_def)
  obtain s2 where s2: "fst (run_reconciliation_once local_config ?bad ?s1) = s2"
    "rt_fail s2 = Some ''EXCHANGE_STATE_UNKNOWN''" "\<not> rt_res_down s2" "\<not> rt_storage s2" "\<not> rt_recovery s2" "rt_orders s2 = []" "rt_lifecycle s2 = []"
    by (simp add: run_eval local_config_def demo_runtime_def evidence_complete_def Let_def burnin_failed_def empty_source_def
        classify_reconciliation_snapshot_def TRANSIENT_TRANSPORT_def PERMANENT_AUTH_OR_PROTOCOL_def UNKNOWN_FAILURE_def u g)
  have "\<not> execution_reconciliation_blocked local_config (fst (run_reconciliation_once local_config (demo_observation clean_answer ''c2'') s2))"
    using s2(2-) by (simp add: run_eval local_config_def evidence_complete_def Let_def)
  then show "\<not> execution_reconciliation_blocked local_config (runtime_run local_config
     [BurninFailed ''PHASE7_BURNIN_PERSISTENCE_FAILURE'', Reconcile ?bad, Reconcile (demo_observation clean_answer ''c2'')] demo_runtime)"
    by (simp add: s2(1))
qed

lemma stored_reject_clears_another_failure:
  \<comment> \<open>the second failure keeps the first one's reason, so the first one's recovery clears both\<close>
  assumes "\<not> failing s"
  shows "rt_recovery (runtime_run c [RejectLost, SqliteDegraded why] s)"
    "\<not> rt_recovery (runtime_run c [RejectLost, SqliteDegraded why, RejectStored] s)"
    "rt_fail (runtime_run c [RejectLost, SqliteDegraded why, RejectStored] s) = None"
  using assms by (auto simp: local_ops or_fail_def failing_def)

end
