(* ===== verification/RuntimeRecovery.thy ===== *)
theory RuntimeRecovery
  imports RuntimeReconciliation
begin

section \<open>Recovery after a restart\<close>

text \<open>
  \<^verbatim>\<open>evaluate_runtime_recovery\<close> and \<^verbatim>\<open>build_readonly_reconciliation_probe\<close> of \<^verbatim>\<open>runtime_state.py\<close>,
  and \<^verbatim>\<open>_load_recovery_state\<close> of \<^verbatim>\<open>runtime.py\<close>. The answers of the queries (or the exception a query
  ends with), of the process table and of the probe (or the text of the exception it ends with) are
  arguments; a count of rows is a \<open>nat\<close>. An error is recorded by the name of what failed, without the
  text of the exception.
\<close>

record recovery_reads =
  rr_latest :: "pydict option py"
  rr_positions :: "nat py"
  rr_paper_open :: "nat option py"
  rr_orders :: "nat py"
  rr_event :: "pydict option py"
  rr_kill :: "pyval py"
  rr_campaign :: "pydict option py"
  rr_alive :: bool
  rr_probe :: "(string + pydict) option"

record recovery_request =
  rq_mode :: string
  rq_campaign :: pyval
  rq_instance :: string
  rq_startup :: string
  rq_force :: bool

record recovery_decision =
  rd_blocked :: bool
  rd_reason :: "string option"
  rd_scope :: string
  rd_latest :: "pydict option"
  rd_positions :: nat
  rd_orders :: nat
  rd_orphan_orders :: int
  rd_orphan_positions :: int
  rd_kill :: bool
  rd_status :: string
  rd_alive :: bool
  rd_terminal :: bool
  rd_unclean :: bool
  rd_errors :: "string list"
  rd_provider_errors :: "string list"
  rd_probe_clean :: bool

definition CLEAN_STATUSES :: "string list" where
  "CLEAN_STATUSES = [''STOPPED'', ''CLEAN_SHUTDOWN'', ''STOPPING'', ''RECONCILED'', ''LOCAL_DIAGNOSTIC_RECOVERY'']"

definition counted :: "string \<Rightarrow> nat py \<Rightarrow> nat \<times> string list" where
  \<comment> \<open>a failing count is zero and an error\<close>
  "counted name n = (case n of Inr k \<Rightarrow> (k, []) | Inl _ \<Rightarrow> (0, [name]))"

definition paper_positions :: "string \<Rightarrow> nat option py \<Rightarrow> nat \<times> string list" where
  "paper_positions mode n =
    (if py_upper mode \<noteq> ''PAPER'' then (0, [])
     else case n of Inr None \<Rightarrow> (0, []) | Inr (Some k) \<Rightarrow> (k, []) | Inl _ \<Rightarrow> (0, [''burnin_pending_position_outcomes'']))"

definition event_reads :: "pydict option py \<Rightarrow> string \<times> int \<times> int \<times> string list" where
  \<comment> \<open>status, orphan orders, orphan positions; what was read before an error stays\<close>
  "event_reads row =
    (case row of Inl _ \<Rightarrow> (''UNKNOWN'', 0, 0, [''reconciliation'']) | Inr None \<Rightarrow> (''UNKNOWN'', 0, 0, [])
     | Inr (Some d) \<Rightarrow>
         let status = py_upper (str_or (dget d ''status'') ''UNKNOWN'') in
         if d = [] then (''UNKNOWN'', 0, 0, [])
         else case int_or_zero (dget d ''orphan_order_count'') of Inl _ \<Rightarrow> (status, 0, 0, [''reconciliation''])
         | Inr orders \<Rightarrow>
             (case int_or_zero (dget d ''orphan_position_count'') of Inl _ \<Rightarrow> (status, orders, 0, [''reconciliation''])
              | Inr positions \<Rightarrow> (status, orders, positions, [])))"

definition kill_reads :: "pyval py \<Rightarrow> bool \<times> string list" where
  "kill_reads v = (case v of Inr x \<Rightarrow> (truthy x, []) | Inl _ \<Rightarrow> (False, [''kill_switch'']))"

definition campaign_reads :: "pydict \<Rightarrow> pydict option py \<Rightarrow> bool \<times> string list" where
  "campaign_reads latest row =
    (if latest = [] \<or> \<not> truthy (dget latest ''campaign_id'') then (False, [])
     else case row of Inl _ \<Rightarrow> (False, [''campaign''])
       | Inr (Some d) \<Rightarrow> (d \<noteq> [] \<and> py_upper (text_or_empty (dget d ''campaign_status'')) \<in> {''FAILED'', ''COMPLETED'', ''QUALIFIED'', ''SUSPENDED''}, [])
       | Inr None \<Rightarrow> (False, []))"

definition upper_of :: "pydict \<Rightarrow> string \<Rightarrow> string" where "upper_of d k = py_upper (text_or_empty (dget d k))"

definition probe_is_clean :: "pydict \<Rightarrow> bool" where
  "probe_is_clean p \<longleftrightarrow> upper_of p ''evidence_status'' = ''COMPLETE'' \<and> \<not> truthy (dget p ''errors'')
     \<and> \<not> truthy (dget p ''orders'') \<and> \<not> truthy (dget p ''positions'')"

definition probe_is_authoritative :: "pydict \<Rightarrow> bool" where
  "probe_is_authoritative p \<longleftrightarrow> probe_is_clean p \<and> dget p ''authenticated'' = VBool True
     \<and> upper_of p ''input_source'' = ''AUTHENTICATED_EXCHANGE_SNAPSHOT''"

definition PROVIDER_UNAVAILABLE :: string where "PROVIDER_UNAVAILABLE = ''read_only_reconciliation_provider_unavailable''"

datatype probed = NotProbed | ProbeRead pydict | ProviderMissing | ProbeFailed

definition probe_reads :: "bool \<Rightarrow> (string + pydict) option \<Rightarrow> probed" where
  "probe_reads wanted probe =
    (if \<not> wanted then NotProbed
     else case probe of None \<Rightarrow> NotProbed | Some (Inr d) \<Rightarrow> ProbeRead d
       | Some (Inl why) \<Rightarrow> if str_contains PROVIDER_UNAVAILABLE why then ProviderMissing else ProbeFailed)"

fun probe_errors :: "probed \<Rightarrow> string list" where
  \<comment> \<open>an incomplete probe is an error of the evaluation, exposure in a complete one is not\<close>
  "probe_errors NotProbed = []"
| "probe_errors (ProbeRead d) = (if \<not> probe_is_clean d \<and> (upper_of d ''evidence_status'' \<noteq> ''COMPLETE'' \<or> truthy (dget d ''errors''))
     then [''reconciliation_probe:incomplete_or_error''] else [])"
| "probe_errors ProviderMissing = [''reconciliation_probe'']"
| "probe_errors ProbeFailed = [''reconciliation_probe'']"

definition unreadable_recovery :: recovery_decision where
  "unreadable_recovery = \<lparr>rd_blocked = True, rd_reason = Some ''RECOVERY_EVIDENCE_UNAVAILABLE'', rd_scope = ''GLOBAL_EXECUTION_RISK'',
     rd_latest = None, rd_positions = 0, rd_orders = 0, rd_orphan_orders = 0, rd_orphan_positions = 0, rd_kill = False,
     rd_status = ''UNKNOWN'', rd_alive = False, rd_terminal = False, rd_unclean = False, rd_errors = [''runtime_state''],
     rd_provider_errors = [], rd_probe_clean = False\<rparr>"

definition evaluate_runtime_recovery :: "recovery_request \<Rightarrow> recovery_reads \<Rightarrow> recovery_decision" where
  "evaluate_runtime_recovery q r =
    (case rr_latest r of Inl _ \<Rightarrow> unreadable_recovery
     | Inr latest_row \<Rightarrow>
       let latest = (case latest_row of None \<Rightarrow> [] | Some d \<Rightarrow> d);
           (positions, e1) = counted ''positions'' (rr_positions r);
           (paper, e2) = paper_positions (rq_mode q) (rr_paper_open r);
           (orders, e3) = counted ''orders'' (rr_orders r);
           (event_status, orphan_orders, orphan_positions, e4) = event_reads (rr_event r);
           (kill, e5) = kill_reads (rr_kill r);
           (terminal, e6) = campaign_reads latest (rr_campaign r);
           alive = (latest \<noteq> [] \<and> truthy (dget latest ''process_id'') \<and> rr_alive r);
           unclean = (latest \<noteq> [] \<and> upper_of latest ''runtime_status'' \<notin> set CLEAN_STATUSES);
           same_campaign = (truthy (rq_campaign q) \<and> truthy (dget latest ''campaign_id'') \<and> py_eq (rq_campaign q) (dget latest ''campaign_id''));
           same_lineage = (latest \<noteq> [] \<and> rq_instance q \<noteq> [] \<and> rq_startup q \<noteq> [] \<and> dget latest ''instance_id'' = VStr (rq_instance q)
             \<and> dget latest ''startup_id'' = VStr (rq_startup q));
           probe = probe_reads (unclean \<or> rq_force q) (rr_probe r);
           probe_clean = (case probe of ProbeRead d \<Rightarrow> probe_is_clean d | _ \<Rightarrow> False);
           status = (case probe of ProbeRead d \<Rightarrow> if probe_is_authoritative d then ''CLEAN'' else event_status | _ \<Rightarrow> event_status);
           provider = (if probe = ProviderMissing then [''reconciliation_probe''] else []);
           storage = e4 @ (if probe = ProbeFailed then [''reconciliation_probe''] else []);
           errors = e1 @ e2 @ e3 @ e4 @ e5 @ e6 @ probe_errors probe;
           unresolved = (unclean \<and> status \<notin> {''CLEAN'', ''NOT_REQUIRED_BACKTEST'', ''LOCAL_ONLY_DIAGNOSTIC''} \<and> \<not> probe_clean);
           local_error = (e1 @ e2 @ e3 @ storage @ e5 \<noteq> []);
           provider_only = (provider \<noteq> [] \<and> sort provider = sort errors);
           risk = (positions + paper \<noteq> 0 \<or> (unclean \<and> orders \<noteq> 0) \<or> orphan_orders \<noteq> 0 \<or> orphan_positions \<noteq> 0 \<or> kill
             \<or> local_error \<or> (unresolved \<and> \<not> provider_only));
           strict = py_upper (rq_mode q) \<in> {''LIVE'', ''LIVE_PRECHECK''};
           blocked = (errors \<noteq> [] \<or> risk \<or> (strict \<and> unclean) \<or> (same_campaign \<and> unclean) \<or> alive) in
       \<lparr>rd_blocked = blocked,
        rd_reason = (if errors \<noteq> [] then Some ''RECOVERY_EVIDENCE_UNAVAILABLE'' else if blocked \<and> unclean then Some ''UNCLEAN_SHUTDOWN_RECOVERY_REQUIRED''
          else if blocked then Some ''RUNTIME_RECOVERY_REQUIRED'' else None),
        rd_scope = (if same_lineage then ''SAME_RUNTIME_LINEAGE'' else if same_campaign then ''SAME_CAMPAIGN''
          else if risk then ''GLOBAL_EXECUTION_RISK'' else ''UNRELATED_HISTORICAL_RUNTIME''),
        rd_latest = latest_row, rd_positions = positions + paper, rd_orders = orders, rd_orphan_orders = orphan_orders,
        rd_orphan_positions = orphan_positions, rd_kill = kill, rd_status = status, rd_alive = alive, rd_terminal = terminal,
        rd_unclean = unclean, rd_errors = errors, rd_provider_errors = provider, rd_probe_clean = probe_clean\<rparr>)"

definition PROBE_FIELDS :: "string list" where "PROBE_FIELDS = [''evidence_status'', ''orders'', ''positions'']"

fun is_list :: "pyval \<Rightarrow> bool" where "is_list (VList _) = True" | "is_list _ = False"

definition readonly_probe :: "pyval py option \<Rightarrow> pydict py" where
  \<comment> \<open>one call of the probe built for a provider; the names of the provider and of the retrieval time are left out\<close>
  "readonly_probe provider =
    (case provider of None \<Rightarrow> Inl (RuntimeError PROVIDER_UNAVAILABLE)
     | Some answer \<Rightarrow> bindE answer (\<lambda>v. case v of
         VDict raw \<Rightarrow>
           let absent = sort (filter (\<lambda>k. map_of raw k = None) PROBE_FIELDS) in
           if absent \<noteq> [] then Inl (RuntimeError (''read_only_reconciliation_missing_fields:'' @ join '','' absent))
           else if \<not> is_list (dget raw ''orders'') \<or> \<not> is_list (dget raw ''positions'')
           then Inl (RuntimeError ''read_only_reconciliation_malformed_collections'')
           else bindE (list_or_empty (dget raw ''orders'')) (\<lambda>orders. bindE (list_or_empty (dget raw ''positions'')) (\<lambda>positions.
             bindE (list_or_empty (dget raw ''errors'')) (\<lambda>errors. Inr
               [(''evidence_status'', VStr (py_upper (str_or (dget raw ''evidence_status'') ''INCOMPLETE''))),
                (''authenticated'', VBool (dget raw ''authenticated'' = VBool True)),
                (''input_source'', VStr (py_upper (str_or (dget raw ''input_source'') ''UNKNOWN''))),
                (''orders'', VList orders), (''positions'', VList positions), (''errors'', VList errors)])))
       | _ \<Rightarrow> Inl (RuntimeError ''read_only_reconciliation_malformed_response'')))"

subsection \<open>What the reads must say\<close>

text \<open>These are conditions on the answers alone; none of them mentions the evaluation.\<close>

definition predecessor :: "recovery_reads \<Rightarrow> pydict" where
  \<comment> \<open>the last snapshot; empty when there is none\<close>
  "predecessor r = (case rr_latest r of Inr (Some d) \<Rightarrow> d | _ \<Rightarrow> [])"

definition stopped_uncleanly :: "recovery_reads \<Rightarrow> bool" where
  "stopped_uncleanly r \<longleftrightarrow> predecessor r \<noteq> [] \<and> upper_of (predecessor r) ''runtime_status'' \<notin>
     {''STOPPED'', ''CLEAN_SHUTDOWN'', ''STOPPING'', ''RECONCILED'', ''LOCAL_DIAGNOSTIC_RECOVERY''}"

definition exchange_empty :: "pydict \<Rightarrow> bool" where
  \<comment> \<open>a complete answer of the probe that shows no order and no position\<close>
  "exchange_empty p \<longleftrightarrow> upper_of p ''evidence_status'' = ''COMPLETE'' \<and> \<not> truthy (dget p ''errors'')
     \<and> \<not> truthy (dget p ''orders'') \<and> \<not> truthy (dget p ''positions'')"

definition no_orphans :: "pydict option \<Rightarrow> bool" where
  "no_orphans event \<longleftrightarrow> (case event of None \<Rightarrow> True | Some d \<Rightarrow>
     d = [] \<or> int_or_zero (dget d ''orphan_order_count'') = Inr 0 \<and> int_or_zero (dget d ''orphan_position_count'') = Inr 0)"

definition event_settled :: "pydict option \<Rightarrow> bool" where
  "event_settled event \<longleftrightarrow> (case event of None \<Rightarrow> False | Some d \<Rightarrow>
     d \<noteq> [] \<and> py_upper (str_or (dget d ''status'') ''UNKNOWN'') \<in> {''CLEAN'', ''NOT_REQUIRED_BACKTEST'', ''LOCAL_ONLY_DIAGNOSTIC''})"

definition same_campaign_as :: "recovery_request \<Rightarrow> pydict \<Rightarrow> bool" where
  "same_campaign_as q d \<longleftrightarrow> truthy (rq_campaign q) \<and> truthy (dget d ''campaign_id'') \<and> py_eq (rq_campaign q) (dget d ''campaign_id'')"

lemma counted_answered: "counted name n = (k, []) \<Longrightarrow> n = Inr k"
  by (auto simp: counted_def split: sum.splits)

lemma paper_answered: "paper_positions mode n = (0, []) \<Longrightarrow> py_upper mode = ''PAPER'' \<Longrightarrow> n = Inr None \<or> n = Inr (Some 0)"
  by (auto simp: paper_positions_def split: sum.splits option.splits)

lemma event_answered:
  assumes "event_reads row = (st, 0, 0, [])"
  obtains event where "row = Inr event" "no_orphans event"
    "st \<in> {''CLEAN'', ''NOT_REQUIRED_BACKTEST'', ''LOCAL_ONLY_DIAGNOSTIC''} \<Longrightarrow> event_settled event"
proof -
  obtain event where e: "row = Inr event" using assms by (cases row) (simp_all add: event_reads_def)
  show thesis
    by (rule that [OF e]) (use assms e in \<open>auto simp: event_reads_def no_orphans_def event_settled_def Let_def
      split: option.splits sum.splits if_splits\<close>)
qed

lemma kill_answered: "kill_reads v = (False, []) \<Longrightarrow> \<exists>k. v = Inr k \<and> \<not> truthy k"
  by (auto simp: kill_reads_def split: sum.splits)

lemma campaign_answered:
  "campaign_reads d row = (t, []) \<Longrightarrow> truthy (dget d ''campaign_id'') \<Longrightarrow> \<exists>answer. row = Inr answer"
  by (cases row) (auto simp: campaign_reads_def split: if_splits)

lemma probe_answered:
  assumes "probe_errors (probe_reads True probe) = []" "probe = Some answer"
  shows "\<exists>p. answer = Inr p \<and> upper_of p ''evidence_status'' = ''COMPLETE'' \<and> \<not> truthy (dget p ''errors'')"
  using assms by (cases answer) (auto simp: probe_reads_def probe_is_clean_def split: if_splits)

lemma probe_read: "probe_reads b probe = ProbeRead p \<Longrightarrow> probe = Some (Inr p)"
  by (auto simp: probe_reads_def split: if_splits option.splits sum.splits)

lemma probe_clean_empty: "probe_is_clean p \<Longrightarrow> exchange_empty p"
  by (simp add: probe_is_clean_def exchange_empty_def)

text \<open>C11: recovery that is not blocked rests on what was read: every query answered; no open position in
  the positions table nor, in PAPER, in the campaign ledger; no orphan in the last reconciliation event;
  the kill switch off; the predecessor process gone; a probe that was asked answered completely. After
  an unclean stop no order is pending, the mode is not a LIVE one, the campaign is another one, and the
  last event is settled or the probe showed an empty exchange. The decision reports the same.
\<close>
theorem unblocked_recovery_is_safe:
  assumes "\<not> rd_blocked (evaluate_runtime_recovery q r)"
  shows "(\<exists>latest event k n. rr_latest r = Inr latest \<and> rr_positions r = Inr 0 \<and> rr_orders r = Inr n
        \<and> rr_event r = Inr event \<and> no_orphans event \<and> rr_kill r = Inr k \<and> \<not> truthy k
        \<and> (py_upper (rq_mode q) = ''PAPER'' \<longrightarrow> rr_paper_open r = Inr None \<or> rr_paper_open r = Inr (Some 0))
        \<and> (stopped_uncleanly r \<longrightarrow> n = 0 \<and> py_upper (rq_mode q) \<notin> {''LIVE'', ''LIVE_PRECHECK''} \<and> \<not> same_campaign_as q (predecessor r)
             \<and> (event_settled event \<or> (\<exists>p. rr_probe r = Some (Inr p) \<and> exchange_empty p))))
    \<and> (truthy (dget (predecessor r) ''campaign_id'') \<longrightarrow> (\<exists>row. rr_campaign r = Inr row))
    \<and> (truthy (dget (predecessor r) ''process_id'') \<longrightarrow> \<not> rr_alive r)
    \<and> (stopped_uncleanly r \<or> rq_force q \<longrightarrow> rr_probe r = None
        \<or> (\<exists>p. rr_probe r = Some (Inr p) \<and> upper_of p ''evidence_status'' = ''COMPLETE'' \<and> \<not> truthy (dget p ''errors'')))
    \<and> (let d = evaluate_runtime_recovery q r in rd_reason d = None \<and> rd_errors d = [] \<and> rd_positions d = 0
        \<and> rd_orphan_orders d = 0 \<and> rd_orphan_positions d = 0 \<and> \<not> rd_kill d \<and> \<not> rd_alive d
        \<and> rd_unclean d = stopped_uncleanly r
        \<and> (\<not> rd_unclean d \<or> rd_orders d = 0
            \<and> (rd_probe_clean d \<or> rd_status d \<in> {''CLEAN'', ''NOT_REQUIRED_BACKTEST'', ''LOCAL_ONLY_DIAGNOSTIC''})))"
proof -
  obtain latest where l: "rr_latest r = Inr latest"
    using assms by (cases "rr_latest r") (simp_all add: evaluate_runtime_recovery_def unreadable_recovery_def)
  obtain p e1 where p: "counted ''positions'' (rr_positions r) = (p, e1)" by (metis surj_pair)
  obtain pp e2 where pp: "paper_positions (rq_mode q) (rr_paper_open r) = (pp, e2)" by (metis surj_pair)
  obtain n e3 where n: "counted ''orders'' (rr_orders r) = (n, e3)" by (metis surj_pair)
  obtain st oo op e4 where ev: "event_reads (rr_event r) = (st, oo, op, e4)" by (metis surj_pair)
  obtain k e5 where k: "kill_reads (rr_kill r) = (k, e5)" by (metis surj_pair)
  have lat: "(case latest of None \<Rightarrow> [] | Some d \<Rightarrow> d) = predecessor r" by (simp add: predecessor_def l split: option.split)
  obtain t e6 where t: "campaign_reads (predecessor r) (rr_campaign r) = (t, e6)" by (metis surj_pair)
  have un: "(predecessor r \<noteq> [] \<and> upper_of (predecessor r) ''runtime_status'' \<notin> set CLEAN_STATUSES) = stopped_uncleanly r"
    by (simp add: stopped_uncleanly_def CLEAN_STATUSES_def)
  obtain pr where pr: "probe_reads (stopped_uncleanly r \<or> rq_force q) (rr_probe r) = pr" by simp
  note u = evaluate_runtime_recovery_def l sum.case Let_def p pp n ev k prod.case lat t un pr
  have b: "e1 = []" "e2 = []" "e3 = []" "e4 = []" "e5 = []" "e6 = []" "probe_errors pr = []" "\<not> k" "p = 0" "pp = 0" "oo = 0" "op = 0"
    using assms unfolding u by simp_all
  obtain event where event: "rr_event r = Inr event" "no_orphans event"
    "st \<in> {''CLEAN'', ''NOT_REQUIRED_BACKTEST'', ''LOCAL_ONLY_DIAGNOSTIC''} \<Longrightarrow> event_settled event"
    by (rule event_answered [OF ev [unfolded b]]) blast
  obtain kv where kv: "rr_kill r = Inr kv" "\<not> truthy kv" using kill_answered k b(5, 8) by auto
  have reads: "rr_positions r = Inr 0" "rr_orders r = Inr n" using counted_answered p n unfolding b by blast+
  have paper: "py_upper (rq_mode q) = ''PAPER'' \<Longrightarrow> rr_paper_open r = Inr None \<or> rr_paper_open r = Inr (Some 0)"
    using paper_answered pp unfolding b by blast
  have campaign: "truthy (dget (predecessor r) ''campaign_id'') \<Longrightarrow> \<exists>row. rr_campaign r = Inr row"
    using campaign_answered t unfolding b by blast
  have alive: "truthy (dget (predecessor r) ''process_id'') \<Longrightarrow> \<not> rr_alive r"
    using assms unfolding u by (auto simp: dget_def dget_or_def)
  have asked: "rr_probe r = None \<or> (\<exists>p. rr_probe r = Some (Inr p) \<and> upper_of p ''evidence_status'' = ''COMPLETE'' \<and> \<not> truthy (dget p ''errors''))"
    if "stopped_uncleanly r \<or> rq_force q"
    using probe_answered [of "rr_probe r"] b(7) pr that by (cases "rr_probe r") auto
  have clean: "pr \<noteq> ProviderMissing" using b(7) by auto
  have unclean: "n = 0 \<and> py_upper (rq_mode q) \<notin> {''LIVE'', ''LIVE_PRECHECK''} \<and> \<not> same_campaign_as q (predecessor r)"
    if "stopped_uncleanly r" using assms that unfolding u same_campaign_as_def by simp
  have settled: "st \<in> {''CLEAN'', ''NOT_REQUIRED_BACKTEST'', ''LOCAL_ONLY_DIAGNOSTIC''} \<or> (\<exists>p. pr = ProbeRead p \<and> probe_is_clean p)"
    if "stopped_uncleanly r" using assms that clean unfolding u probe_is_authoritative_def by (cases pr) (auto split: if_splits)
  then have settled: "event_settled event \<or> (\<exists>p. rr_probe r = Some (Inr p) \<and> exchange_empty p)" if "stopped_uncleanly r"
    using event(3) that probe_read pr probe_clean_empty by blast
  have decision: "let d = evaluate_runtime_recovery q r in rd_reason d = None \<and> rd_errors d = [] \<and> rd_positions d = 0
        \<and> rd_orphan_orders d = 0 \<and> rd_orphan_positions d = 0 \<and> \<not> rd_kill d \<and> \<not> rd_alive d \<and> rd_unclean d = stopped_uncleanly r
        \<and> (\<not> rd_unclean d \<or> rd_orders d = 0
            \<and> (rd_probe_clean d \<or> rd_status d \<in> {''CLEAN'', ''NOT_REQUIRED_BACKTEST'', ''LOCAL_ONLY_DIAGNOSTIC''}))"
    using assms clean unfolding u by (cases pr) auto
  show ?thesis
    using l reads event(1, 2) kv paper unclean settled campaign alive asked decision by blast
qed

lemma unblocked_recovery_is_safe_witness:
  "\<exists>q r. \<not> rd_blocked (evaluate_runtime_recovery q r) \<and> rd_unclean (evaluate_runtime_recovery q r)
    \<and> rd_errors (evaluate_runtime_recovery q r) = [] \<and> rd_orders (evaluate_runtime_recovery q r) = 0"
proof -
  let ?q = "\<lparr>rq_mode = ''PAPER'', rq_campaign = VNone, rq_instance = ''i2'', rq_startup = ''s2'', rq_force = False\<rparr>"
  let ?r = "\<lparr>rr_latest = Inr (Some [(''runtime_status'', VStr ''FAILED'')]), rr_positions = Inr 0, rr_paper_open = Inr None, rr_orders = Inr 0,
     rr_event = Inr (Some [(''status'', VStr ''CLEAN'')]), rr_kill = Inr (VInt 0), rr_campaign = Inr None, rr_alive = False, rr_probe = None\<rparr>"
  have u: "py_upper ''PAPER'' = ''PAPER''" "py_upper ''FAILED'' = ''FAILED''" "py_upper ''CLEAN'' = ''CLEAN''" by code_simp+
  have b: "\<not> rd_blocked (evaluate_runtime_recovery ?q ?r)" "rd_unclean (evaluate_runtime_recovery ?q ?r)"
    by (simp_all add: evaluate_runtime_recovery_def counted_def paper_positions_def event_reads_def int_or_zero_def py_or_def
        kill_reads_def campaign_reads_def upper_of_def text_or_empty_def CLEAN_STATUSES_def probe_reads_def Let_def u)
  from unblocked_recovery_is_safe [OF b(1)] b show ?thesis by (auto simp: Let_def)
qed

subsection \<open>What a restart loads\<close>

record recovery_inputs =
  ri_decision :: recovery_decision
  ri_positions :: "(string \<times> flt) list"
  ri_orders :: "(string \<times> pydict) list"
  ri_parse :: "pyval \<Rightarrow> flt option"
  ri_now :: flt
  ri_timeout :: flt
  ri_kill :: bool

fun upsert :: "string \<Rightarrow> 'a \<Rightarrow> (string \<times> 'a) list \<Rightarrow> (string \<times> 'a) list" where
  "upsert k v [] = [(k, v)]"
| "upsert k v ((k', w) # d) = (if k' = k then (k, v) # d else (k', w) # upsert k v d)"

definition stale_pending_order :: "recovery_inputs \<Rightarrow> pydict \<Rightarrow> bool" where
  \<comment> \<open>a creation time that is missing or cannot be read is stale\<close>
  "stale_pending_order i order =
    (case ri_parse i (dget order ''created_at'') of None \<Rightarrow> True
     | Some ts \<Rightarrow> flt_less (ri_timeout i) (py_max (Fin 0) (fsub (ri_now i) ts)))"

definition require_recovery :: "string option \<Rightarrow> runtime \<Rightarrow> runtime" where
  "require_recovery why s = s\<lparr>rt_recovery := True, rt_fail := why\<rparr>"

definition recovery_reason :: "recovery_decision \<Rightarrow> string" where
  "recovery_reason d = (case rd_reason d of Some (c # cs) \<Rightarrow> c # cs
     | _ \<Rightarrow> if rd_unclean d then ''UNCLEAN_SHUTDOWN_RECOVERY_REQUIRED'' else ''RUNTIME_RECOVERY_REQUIRED'')"

definition load_recovery_state :: "runtime_config \<Rightarrow> recovery_inputs \<Rightarrow> runtime \<Rightarrow> runtime" where
  \<comment> \<open>the audit rows of the recovery and the cooldowns are left out\<close>
  "load_recovery_state c i s =
    (if \<not> rc_engine c then require_recovery (Some ''RUNTIME_DB_UNAVAILABLE'') s
     else
       let s1 = (if rd_blocked (ri_decision i) then require_recovery (Some (recovery_reason (ri_decision i))) s else s);
           s2 = s1\<lparr>rt_positions := fold (\<lambda>(sy, x). upsert sy x) (ri_positions i) (rt_positions s1),
                   rt_orders := fold (\<lambda>(sy, d). upsert sy d) (ri_orders i) (rt_orders s1)\<rparr>;
           s3 = (if list_ex (stale_pending_order i \<circ> snd) (rt_orders s2) then require_recovery (or_fail ''STALE_PENDING_ORDER'' s2) s2 else s2) in
       if ri_kill i then require_recovery (or_fail ''KILL_SWITCH_ACTIVE'' s3) s3 else s3)"

lemma load_recovery_clear:
  assumes "\<not> rt_recovery (load_recovery_state c i s)"
  shows "rc_engine c" "\<not> rd_blocked (ri_decision i)" "\<not> ri_kill i"
    "list_all (\<lambda>q. \<not> stale_pending_order i (snd q)) (rt_orders (load_recovery_state c i s))"
    "\<not> rt_recovery s" "rt_fail (load_recovery_state c i s) = rt_fail s"
  using assms by (auto simp: load_recovery_state_def require_recovery_def Let_def list_all_iff list_ex_iff split: if_splits)

end
