(* ===== verification/SafetyContracts.thy ===== *)
theory SafetyContracts
  imports DecisionInvariant
begin

section \<open>Safety contracts around the decision\<close>

text \<open>
  Four small modules of pure checks. \<^verbatim>\<open>derivatives_contract.py\<close>: the account may trade 1x
  notional only, and every required symbol must have measured evidence of it.
  \<^verbatim>\<open>exchange_safety_gates.py\<close>: health of the exchanges and of the market data.
  \<^verbatim>\<open>execution_context_contract.py\<close>: which fields of an execution context are missing.
  \<^verbatim>\<open>parity_guard.py\<close>: comparison of PAPER and LIVE_PRECHECK results field by field. Echoed
  inputs in the diagnostics are left out.
\<close>

subsection \<open>Derivatives contract\<close>

definition finite_number :: "pyval \<Rightarrow> flt option py" where
  "finite_number v =
    (if is_bool v \<or> in_strs v [[], ''UNKNOWN'', ''UNAVAILABLE''] then Inr None
     else bindE (catch_tv (bindE (py_float v) (\<lambda>x. Inr (Some x))) None) (\<lambda>parsed.
       Inr (case parsed of None \<Rightarrow> None | Some x \<Rightarrow> if is_finite x then Some x else None)))"

definition margin_of :: "string \<Rightarrow> string option" where
  "margin_of raw = (if raw \<in> {''CROSS'', ''ISOLATED''} then Some raw else None)"

definition measured_status :: "'a option \<Rightarrow> pyval" where
  "measured_status x = VStr (if x = None then ''UNAVAILABLE'' else ''MEASURED'')"

definition normalize_derivatives_position_fields :: "pydict \<Rightarrow> pydict py" where
  "normalize_derivatives_position_fields row =
    bindE (finite_number (dget row ''leverage'')) (\<lambda>raw_leverage.
    bindE (finite_number (dget_or row ''liquidationPrice'' (dget row ''liquidation_price''))) (\<lambda>raw_liquidation.
    let leverage = (case raw_leverage of Some x \<Rightarrow> if flt_le x (Fin 0) then None else Some x | None \<Rightarrow> None);
        margin = margin_of (clean_upper (py_or (dget row ''marginType'') (dget row ''margin_type'')));
        liquidation = (case raw_liquidation of Some x \<Rightarrow> if flt_less x (Fin 0) then None else Some x | None \<Rightarrow> None) in
    Inr [(''leverage'', flt_opt_val leverage), (''leverage_status'', measured_status leverage),
         (''margin_type'', str_opt_val margin), (''margin_type_status'', measured_status margin),
         (''liquidation_price'', flt_opt_val liquidation), (''liquidation_price_status'', measured_status liquidation)]))"

definition boundary_result :: "string \<Rightarrow> bool \<Rightarrow> string \<Rightarrow> pydict" where
  "boundary_result status safe why = [(''status'', VStr status), (''safe'', VBool safe), (''reason'', VStr why)]"

definition evaluate_reported_liquidation_boundary :: "string \<Rightarrow> pyval \<Rightarrow> pyval \<Rightarrow> pydict py" where
  "evaluate_reported_liquidation_boundary side stop_price liquidation_price =
    bindE (finite_number stop_price) (\<lambda>stop. bindE (finite_number liquidation_price) (\<lambda>liquidation.
    let s = py_upper (py_strip side); usable = (\<lambda>x. case x of None \<Rightarrow> False | Some y \<Rightarrow> \<not> flt_le y (Fin 0)) in
    Inr (if s \<notin> {''LONG'', ''SHORT''} then boundary_result ''INCOMPLETE'' False ''SIDE_UNAVAILABLE''
         else if \<not> usable stop then boundary_result ''INCOMPLETE'' False ''STOP_UNAVAILABLE''
         else if \<not> usable liquidation then boundary_result ''INCOMPLETE'' False ''LIQUIDATION_PRICE_UNAVAILABLE''
         else let x = the stop; l = the liquidation; safe = (if s = ''LONG'' then flt_less l x else flt_less x l) in
           boundary_result (if safe then ''PASS'' else ''BLOCKED'') safe
             (if safe then ''STOP_PRECEDES_LIQUIDATION'' else ''LIQUIDATION_BOUNDARY_PRECEDES_OR_EQUALS_STOP'')
           @ [(''side'', VStr s), (''stop_price'', VFloat x), (''liquidation_price'', VFloat l)])))"

definition LEVERAGE_TOL :: flt where "LEVERAGE_TOL = fl (1 / 10 ^ 12)"

definition row_symbol :: "pydict \<Rightarrow> string" where
  "row_symbol row = clean_upper (dget row ''symbol'')"

definition row_blockers :: "string \<Rightarrow> pydict \<Rightarrow> string list py" where
  "row_blockers symbol row =
    bindE (finite_number (dget row ''leverage'')) (\<lambda>leverage.
      Inr ((case leverage of None \<Rightarrow> [''LEVERAGE_UNAVAILABLE:'' @ symbol]
            | Some x \<Rightarrow> code_if (\<not> isclose LEVERAGE_TOL x (Fin 1)) (''LEVERAGE_NOT_1X:'' @ symbol))
         @ code_if (margin_of (py_upper (text_or_empty (dget row ''margin_type''))) = None) (''MARGIN_MODE_UNAVAILABLE:'' @ symbol)))"

definition symbol_blockers :: "pydict list \<Rightarrow> string \<Rightarrow> string list py" where
  "symbol_blockers positions symbol =
    (let rows = filter (\<lambda>r. row_symbol r = symbol) positions in
     if rows = [] then Inr [''POSITION_RISK_ROW_MISSING:'' @ symbol]
     else bindE (mapE (row_blockers symbol) rows) (\<lambda>bs. Inr (concat bs)))"

definition measured_rows :: "string \<Rightarrow> pydict list \<Rightarrow> string list \<Rightarrow> nat" where
  \<comment> \<open>rows of required symbols that drew no blocker of the given kind\<close>
  "measured_rows kind rows blockers = length rows - length (filter (starts_with kind) blockers)"

definition ACCOUNT_BLOCKERS :: "string list" where
  "ACCOUNT_BLOCKERS = [''DERIVATIVES_PROVIDER_EVIDENCE_INCOMPLETE'', ''DERIVATIVES_SYMBOL_SCOPE_EMPTY'',
     ''POSITION_RISK_ROW_MISSING:'', ''LEVERAGE_UNAVAILABLE:'', ''LEVERAGE_NOT_1X:'', ''MARGIN_MODE_UNAVAILABLE:'']"

definition required_scope :: "string list \<Rightarrow> string list" where
  "required_scope symbols = sorted_set (map (py_upper \<circ> py_strip) (filter (\<lambda>s. py_strip s \<noteq> []) symbols))"

definition evaluate_notional_only_derivatives_contract :: "pydict list \<Rightarrow> string list \<Rightarrow> string \<Rightarrow> string \<Rightarrow> pydict py" where
  "evaluate_notional_only_derivatives_contract positions required_symbols provider_status funding_accrual_status =
    (let required = required_scope required_symbols;
         provider = py_upper (if provider_status = [] then ''INCOMPLETE'' else provider_status);
         funding = py_upper (if funding_accrual_status = [] then ''UNAVAILABLE_BLOCKING_ENTRY_RATE_ONLY'' else funding_accrual_status) in
     bindE (mapE (symbol_blockers positions) required) (\<lambda>per_symbol.
     let blockers = code_if (provider \<noteq> ''COMPLETE'') ''DERIVATIVES_PROVIDER_EVIDENCE_INCOMPLETE''
           @ code_if (required = []) ''DERIVATIVES_SYMBOL_SCOPE_EMPTY'' @ concat per_symbol;
         rows = filter (\<lambda>r. row_symbol r \<in> set required) positions;
         account_passed = (required \<noteq> [] \<and> \<not> list_ex (\<lambda>b. list_ex (\<lambda>p. starts_with p b) ACCOUNT_BLOCKERS) blockers);
         hold_aware = (funding = ''COMPLETE_MEASURED_HOLD_AWARE'');
         eligible = (account_passed \<and> hold_aware) in
     Inr [(''schema_version'', VStr ''derivatives_contract_v1''), (''account_model'', VStr ''NOTIONAL_ONLY_1X''),
          (''provider_evidence_status'', VStr provider), (''required_symbols'', VList (map VStr required)),
          (''account_model_status'', VStr (if account_passed then ''PASS'' else ''BLOCKED'')),
          (''measured_1x_rows'', VInt (int (measured_rows ''LEVERAGE_'' rows blockers))),
          (''measured_margin_rows'', VInt (int (measured_rows ''MARGIN_MODE_UNAVAILABLE:'' rows blockers))),
          (''leveraged_live_supported'', VBool False), (''liquidation_model_status'', VStr ''UNSUPPORTED_LEVERAGED_LIVE''),
          (''funding_accrual_status'', VStr funding), (''funding_live_equivalent'', VBool hold_aware),
          (''notional_only_live_eligible'', VBool eligible), (''live_eligible'', VBool eligible),
          (''paper_live_equivalent'', VBool False),
          (''blocking_reasons'', VList (map VStr (sorted_set (blockers @ code_if (\<not> hold_aware) ''HOLD_AWARE_FUNDING_UNAVAILABLE''))))]))"

lemma starts_with_append [simp]: "starts_with p (p @ s)"
  by (simp add: starts_with_def)

definition account_blocker :: "string \<Rightarrow> bool" where
  "account_blocker b \<longleftrightarrow> list_ex (\<lambda>p. starts_with p b) ACCOUNT_BLOCKERS"

lemma account_blocker_prefix: "p \<in> set ACCOUNT_BLOCKERS \<Longrightarrow> account_blocker (p @ s)"
  unfolding account_blocker_def list_ex_iff by (intro bexI [of _ p] starts_with_append)

lemma code_if_simps [simp]: "code_if True c = [c]" "code_if False c = []"
  by (simp_all add: code_if_def)

lemma code_if_cases: "b \<in> set (code_if c s) \<Longrightarrow> c \<and> b = s"
  by (auto simp: code_if_def split: if_splits)

lemma mapE_concatD:
  "mapE f xs = Inr bss \<Longrightarrow> b \<in> set (concat bss) \<Longrightarrow> \<exists>x \<in> set xs. \<exists>bs. f x = Inr bs \<and> b \<in> set bs"
  by (induction xs arbitrary: bss) (fastforce simp: bindE_Inr_iff)+

lemma row_blockers_kind: "row_blockers symbol row = Inr bs \<Longrightarrow> b \<in> set bs \<Longrightarrow> account_blocker b"
  using account_blocker_prefix [of "''LEVERAGE_UNAVAILABLE:''" symbol] account_blocker_prefix [of "''LEVERAGE_NOT_1X:''" symbol]
    account_blocker_prefix [of "''MARGIN_MODE_UNAVAILABLE:''" symbol]
  by (auto simp: row_blockers_def bindE_Inr_iff ACCOUNT_BLOCKERS_def dest!: code_if_cases split: option.splits)

definition measured_1x :: "pydict \<Rightarrow> bool" where
  \<comment> \<open>a row with leverage 1 and a margin mode, both measured\<close>
  "measured_1x row \<longleftrightarrow> (\<exists>x. finite_number (dget row ''leverage'') = Inr (Some x) \<and> isclose LEVERAGE_TOL x (Fin 1))
     \<and> py_upper (text_or_empty (dget row ''margin_type'')) \<in> {''CROSS'', ''ISOLATED''}"

lemma row_blockers_none: "row_blockers symbol row = Inr bs \<Longrightarrow> bs = [] \<longleftrightarrow> measured_1x row"
  by (auto simp: row_blockers_def bindE_Inr_iff measured_1x_def margin_of_def split: option.splits if_splits)

lemma symbol_blockers_kind:
  assumes "symbol_blockers positions symbol = Inr bs" "b \<in> set bs"
  shows "account_blocker b"
proof (cases "filter (\<lambda>r. row_symbol r = symbol) positions = []")
  case True
  then show ?thesis
    using assms account_blocker_prefix [of "''POSITION_RISK_ROW_MISSING:''" symbol] by (auto simp: symbol_blockers_def ACCOUNT_BLOCKERS_def)
next
  case False
  then obtain bss where bss: "mapE (row_blockers symbol) (filter (\<lambda>r. row_symbol r = symbol) positions) = Inr bss" "b \<in> set (concat bss)"
    using assms by (auto simp: symbol_blockers_def bindE_Inr_iff Let_def)
  then obtain row bs' where "row_blockers symbol row = Inr bs'" "b \<in> set bs'"
    using mapE_concatD by meson
  then show ?thesis by (rule row_blockers_kind)
qed

lemma mapE_concat_Nil:
  "mapE f xs = Inr bss \<Longrightarrow> (\<forall>x \<in> set xs. \<forall>bs. f x = Inr bs \<longrightarrow> (bs = [] \<longleftrightarrow> P x)) \<Longrightarrow> concat bss = [] \<longleftrightarrow> (\<forall>x \<in> set xs. P x)"
  by (induction xs arbitrary: bss) (auto simp: bindE_Inr_iff)

definition symbol_measured :: "pydict list \<Rightarrow> string \<Rightarrow> bool" where
  "symbol_measured positions symbol \<longleftrightarrow>
     (\<exists>row \<in> set positions. row_symbol row = symbol) \<and> (\<forall>row \<in> set positions. row_symbol row = symbol \<longrightarrow> measured_1x row)"

lemma symbol_blockers_none:
  assumes "symbol_blockers positions symbol = Inr bs"
  shows "bs = [] \<longleftrightarrow> symbol_measured positions symbol"
proof (cases "filter (\<lambda>r. row_symbol r = symbol) positions = []")
  case True
  then show ?thesis using assms by (auto simp: symbol_blockers_def symbol_measured_def filter_empty_conv)
next
  case False
  then obtain bss where bss: "mapE (row_blockers symbol) (filter (\<lambda>r. row_symbol r = symbol) positions) = Inr bss" "bs = concat bss"
    using assms by (auto simp: symbol_blockers_def bindE_Inr_iff Let_def)
  have "concat bss = [] \<longleftrightarrow> (\<forall>row \<in> set (filter (\<lambda>r. row_symbol r = symbol) positions). measured_1x row)"
    using row_blockers_none by (intro mapE_concat_Nil [OF bss(1)]) blast
  then show ?thesis using False bss(2) by (auto simp: symbol_measured_def filter_empty_conv)
qed

lemma no_account_blockers:
  "(\<forall>b \<in> set bs. account_blocker b) \<Longrightarrow> (\<not> list_ex (\<lambda>b. list_ex (\<lambda>p. starts_with p b) ACCOUNT_BLOCKERS) bs) \<longleftrightarrow> bs = []"
  by (cases bs) (auto simp: list_ex_iff account_blocker_def)

text \<open>C36: the derivatives contract lets LIVE trade exactly when everything is measured: the provider's
  evidence is complete, the symbol scope is not empty, every required symbol has a position row
  and every row of it shows leverage 1 and a margin mode, and the funding is hold aware. Leverage
  above 1 is never supported.
\<close>
theorem derivatives_eligible_iff_measured:
  assumes "evaluate_notional_only_derivatives_contract positions symbols provider funding = Inr contract"
  shows "dget contract ''leveraged_live_supported'' = VBool False \<and>
    (dget contract ''live_eligible'' = VBool True \<longleftrightarrow>
       py_upper provider = ''COMPLETE'' \<and> required_scope symbols \<noteq> [] \<and>
       (\<forall>symbol \<in> set (required_scope symbols). symbol_measured positions symbol) \<and>
       py_upper funding = ''COMPLETE_MEASURED_HOLD_AWARE'')"
proof -
  let ?req = "required_scope symbols"
  define p where "p = py_upper (if provider = [] then ''INCOMPLETE'' else provider)"
  define f where "f = py_upper (if funding = [] then ''UNAVAILABLE_BLOCKING_ENTRY_RATE_ONLY'' else funding)"
  obtain per where per: "mapE (symbol_blockers positions) ?req = Inr per"
    using assms by (auto simp: evaluate_notional_only_derivatives_contract_def bindE_Inr_iff Let_def)
  define blockers where "blockers = code_if (p \<noteq> ''COMPLETE'') ''DERIVATIVES_PROVIDER_EVIDENCE_INCOMPLETE''
      @ code_if (?req = []) ''DERIVATIVES_SYMBOL_SCOPE_EMPTY'' @ concat per"
  define passed where "passed = (?req \<noteq> [] \<and> \<not> list_ex (\<lambda>b. list_ex (\<lambda>p. starts_with p b) ACCOUNT_BLOCKERS) blockers)"
  have c: "dget contract ''leveraged_live_supported'' = VBool False"
    "dget contract ''live_eligible'' = VBool (passed \<and> f = ''COMPLETE_MEASURED_HOLD_AWARE'')"
    using assms [symmetric] per
    by (simp_all add: evaluate_notional_only_derivatives_contract_def Let_def p_def f_def blockers_def passed_def)
  have kinds: "\<forall>b \<in> set blockers. account_blocker b"
  proof
    fix b assume "b \<in> set blockers"
    then consider "b = ''DERIVATIVES_PROVIDER_EVIDENCE_INCOMPLETE'' @ []" | "b = ''DERIVATIVES_SYMBOL_SCOPE_EMPTY'' @ []" | "b \<in> set (concat per)"
      by (auto simp: blockers_def dest!: code_if_cases)
    then show "account_blocker b"
    proof cases
      case 3
      then obtain symbol bs where "symbol_blockers positions symbol = Inr bs" "b \<in> set bs"
        using mapE_concatD [OF per] by blast
      then show ?thesis by (rule symbol_blockers_kind)
    qed (metis account_blocker_prefix ACCOUNT_BLOCKERS_def list.set_intros)+
  qed
  have "concat per = [] \<longleftrightarrow> (\<forall>symbol \<in> set ?req. symbol_measured positions symbol)"
    using symbol_blockers_none by (intro mapE_concat_Nil [OF per]) blast
  moreover have "passed \<longleftrightarrow> ?req \<noteq> [] \<and> blockers = []"
    using no_account_blockers [OF kinds] unfolding passed_def by blast
  ultimately have "passed \<longleftrightarrow> p = ''COMPLETE'' \<and> ?req \<noteq> [] \<and> (\<forall>symbol \<in> set ?req. symbol_measured positions symbol)"
    unfolding blockers_def append_is_Nil_conv code_if_Nil by blast
  moreover have "p = ''COMPLETE'' \<longleftrightarrow> py_upper provider = ''COMPLETE''" by (auto simp: p_def str_eval)
  moreover have "f = ''COMPLETE_MEASURED_HOLD_AWARE'' \<longleftrightarrow> py_upper funding = ''COMPLETE_MEASURED_HOLD_AWARE''"
    by (auto simp: f_def str_eval)
  ultimately show ?thesis using c by auto
qed

definition demo_positions :: "pydict list" where
  "demo_positions = [[(''symbol'', VStr ''BTCUSDT''), (''leverage'', VFloat (Fin 1)), (''margin_type'', VStr ''ISOLATED'')]]"

lemma demo_symbol: "symbol_blockers demo_positions ''BTCUSDT'' = Inr []"
proof -
  have "row_symbol [(''symbol'', VStr ''BTCUSDT''), (''leverage'', VFloat (Fin 1)), (''margin_type'', VStr ''ISOLATED'')] = ''BTCUSDT''"
    "margin_of (py_upper (text_or_empty (VStr ''ISOLATED''))) = Some ''ISOLATED''"
    by code_simp+
  then show ?thesis
    by (simp add: symbol_blockers_def demo_positions_def row_blockers_def finite_number_def in_strs_def isclose_def)
qed

lemma demo_scope: "required_scope [''btcusdt''] = [''BTCUSDT'']"
  by code_simp

theorem derivatives_eligible_iff_measured_witness:
  "\<exists>contract. evaluate_notional_only_derivatives_contract demo_positions [''btcusdt''] ''complete'' ''complete_measured_hold_aware'' = Inr contract
     \<and> dget contract ''live_eligible'' = VBool True"
proof -
  obtain contract where c: "evaluate_notional_only_derivatives_contract demo_positions [''btcusdt''] ''complete'' ''complete_measured_hold_aware''
      = Inr contract"
    by (simp add: evaluate_notional_only_derivatives_contract_def demo_scope demo_symbol Let_def)
  have "symbol_measured demo_positions ''BTCUSDT''" using symbol_blockers_none [OF demo_symbol] by simp
  moreover have "py_upper ''complete'' = ''COMPLETE''" "py_upper ''complete_measured_hold_aware'' = ''COMPLETE_MEASURED_HOLD_AWARE''"
    by code_simp+
  ultimately show ?thesis using derivatives_eligible_iff_measured [OF c] c by (simp add: demo_scope)
qed

lemma reported_boundary_safe:
  assumes "evaluate_reported_liquidation_boundary side stop liquidation = Inr out" "dget out ''safe'' = VBool True"
  shows "\<exists>x l. finite_number stop = Inr (Some x) \<and> finite_number liquidation = Inr (Some l) \<and>
    (if py_upper (py_strip side) = ''LONG'' then flt_less l x else py_upper (py_strip side) = ''SHORT'' \<and> flt_less x l)"
  using assms by (auto simp: evaluate_reported_liquidation_boundary_def bindE_Inr_iff boundary_result_def Let_def split: if_splits option.splits)

subsection \<open>Exchange safety\<close>

record ExchangeHealth =
  eh_exchange :: string
  eh_connected :: bool
  eh_public_market_data_ok :: bool
  eh_orderbook_ok :: bool
  eh_funding_ok :: "bool option"
  eh_latency_ms :: "flt option"
  eh_error :: "string option"

record safety_bounds =
  sb_max_latency_ms :: flt
  sb_max_spread_pct :: flt
  sb_max_abs_funding_rate_pct :: flt
  sb_require_orderbook :: bool
  sb_require_public_market_data :: bool

record ExchangeSafetyDecision =
  ed_allowed :: bool
  ed_reject_reasons :: "string list"
  ed_warnings :: "string list"

definition safe_float :: "pyval \<Rightarrow> flt option py" where
  "safe_float v = (if in_strs v [[], ''UNKNOWN'', ''UNAVAILABLE'', ''UNAVAILABLE_BACKTEST''] then Inr None
     else catch_tv (bindE (py_float v) (\<lambda>x. Inr (Some x))) None)"

definition health_reasons :: "safety_bounds \<Rightarrow> ExchangeHealth \<Rightarrow> string list" where
  "health_reasons b h =
     code_if (\<not> eh_connected h) (''EXCHANGE_UNAVAILABLE:'' @ eh_exchange h)
   @ code_if (sb_require_public_market_data b \<and> \<not> eh_public_market_data_ok h) (''PUBLIC_MARKET_DATA_UNAVAILABLE:'' @ eh_exchange h)
   @ code_if (sb_require_orderbook b \<and> \<not> eh_orderbook_ok h) (''ORDERBOOK_UNAVAILABLE:'' @ eh_exchange h)
   @ code_if (eh_funding_ok h = Some False) (''FUNDING_UNAVAILABLE:'' @ eh_exchange h)
   @ code_if (case eh_latency_ms h of None \<Rightarrow> False | Some x \<Rightarrow> flt_less (sb_max_latency_ms b) x) (''LATENCY_SPIKE:'' @ eh_exchange h)"

definition health_warnings :: "ExchangeHealth \<Rightarrow> string list" where
  "health_warnings h = code_if (eh_latency_ms h = None) (''LATENCY_UNKNOWN:'' @ eh_exchange h)"

definition market_reasons :: "safety_bounds \<Rightarrow> flt option \<Rightarrow> flt option \<Rightarrow> pydict \<Rightarrow> string list" where
  "market_reasons b spread funding ctx =
    (let flag = (\<lambda>k. truthy (dget_or ctx k (VBool False))) in
     (case spread of None \<Rightarrow> [''SPREAD_UNKNOWN''] | Some x \<Rightarrow> code_if (flt_less (sb_max_spread_pct b) x) ''SPREAD_EXPANSION'')
   @ (case funding of None \<Rightarrow> [] | Some x \<Rightarrow> code_if (flt_less (sb_max_abs_funding_rate_pct b) (flt_abs x)) ''FUNDING_ANOMALY'')
   @ code_if (flag ''orderbook_stale'') ''ORDERBOOK_STALE'' @ code_if (flag ''websocket_stale'') ''WEBSOCKET_STALE''
   @ code_if (flag ''api_error_cluster'') ''API_ERROR_CLUSTER'')"

definition evaluate_exchange_safety :: "safety_bounds \<Rightarrow> ExchangeHealth list \<Rightarrow> pydict \<Rightarrow> ExchangeSafetyDecision py" where
  "evaluate_exchange_safety b health ctx =
    bindE (safe_float (dget ctx ''spread_pct'')) (\<lambda>spread. bindE (safe_float (dget ctx ''funding_rate_pct'')) (\<lambda>funding.
    let reasons = sorted_set (code_if (health = []) ''EXCHANGE_HEALTH_MISSING'' @ concat (map (health_reasons b) health)
          @ market_reasons b spread funding ctx) in
    Inr \<lparr>ed_allowed = (reasons = []), ed_reject_reasons = reasons,
         ed_warnings = sorted_set (concat (map health_warnings health) @ code_if (funding = None) ''FUNDING_UNKNOWN'')\<rparr>))"

lemma exchange_allowed_iff:
  assumes "evaluate_exchange_safety b health ctx = Inr out"
  shows "ed_allowed out \<longleftrightarrow> health \<noteq> [] \<and> (\<forall>h \<in> set health. health_reasons b h = []) \<and>
    (\<exists>s f. safe_float (dget ctx ''spread_pct'') = Inr s \<and> safe_float (dget ctx ''funding_rate_pct'') = Inr f \<and> market_reasons b s f ctx = [])"
  using assms by (auto simp: evaluate_exchange_safety_def bindE_Inr_iff Let_def)

lemma nan_spread_is_allowed:
  \<comment> \<open>\<^verbatim>\<open>spread_pct > max_spread_pct\<close> is false for NaN, so an unmeasurable spread does not reject\<close>
  "market_reasons b (Some NaN) None [] = []"
  by (simp add: market_reasons_def flt_less_nan)

subsection \<open>Execution context contract\<close>

definition REQUIRED_EXECUTION_CONTEXT_FIELDS :: "string list" where
  "REQUIRED_EXECUTION_CONTEXT_FIELDS = [''volume_24h_usdt'', ''spread_pct'', ''expected_slippage_pct'', ''latency_ms'',
     ''liquidity_score'', ''funding_rate_pct'', ''orderbook_imbalance'', ''volatility_regime'']"

definition is_unavailable :: "pyval \<Rightarrow> bool py" where
  \<comment> \<open>\<^verbatim>\<open>v in UNAVAILABLE_MARKERS\<close> hashes the value, which a list or a dict has not\<close>
  "is_unavailable v =
    (case v of VNone \<Rightarrow> Inr True | VStr s \<Rightarrow> Inr (py_upper (py_strip s) \<in> {[], ''UNKNOWN'', ''UNAVAILABLE'', ''UNAVAILABLE_BACKTEST''})
     | VList _ \<Rightarrow> Inl TypeError | VDict _ \<Rightarrow> Inl TypeError | _ \<Rightarrow> Inr False)"

record ExecutionContextAudit =
  ea_execution_ctx :: pydict
  ea_missing_fields :: "string list"
  ea_execution_ctx_missing :: bool
  ea_completeness :: string

definition audit_execution_context :: "pydict \<Rightarrow> ExecutionContextAudit py" where
  "audit_execution_context ctx =
    bindE (filterE (\<lambda>k. is_unavailable (dget ctx k)) REQUIRED_EXECUTION_CONTEXT_FIELDS) (\<lambda>missing.
      Inr \<lparr>ea_execution_ctx = ctx, ea_missing_fields = missing, ea_execution_ctx_missing = (missing \<noteq> []),
           ea_completeness = (if missing = [] then ''complete''
             else if length missing < length REQUIRED_EXECUTION_CONTEXT_FIELDS then ''partial'' else ''unavailable'')\<rparr>)"

definition with_execution_context_audit :: "pydict \<Rightarrow> pydict py" where
  "with_execution_context_audit ctx =
    bindE (audit_execution_context ctx) (\<lambda>a.
      Inr (dupdate (ea_execution_ctx a) [(''execution_ctx_missing'', VBool (ea_execution_ctx_missing a)),
        (''execution_ctx_missing_fields'', VList (map VStr (ea_missing_fields a))),
        (''execution_ctx_completeness'', VStr (ea_completeness a))]))"

lemma audit_of_enriched:
  \<comment> \<open>an enriched context is audited as the context it came from\<close>
  assumes "with_execution_context_audit ctx = Inr rich" "audit_execution_context ctx = Inr a"
  shows "audit_execution_context rich = Inr (a\<lparr>ea_execution_ctx := rich\<rparr>)"
proof -
  have rich: "rich = dupdate ctx [(''execution_ctx_missing'', VBool (ea_execution_ctx_missing a)),
        (''execution_ctx_missing_fields'', VList (map VStr (ea_missing_fields a))),
        (''execution_ctx_completeness'', VStr (ea_completeness a))]"
    using assms by (auto simp: with_execution_context_audit_def audit_execution_context_def bindE_Inr_iff)
  have "dget rich k = dget ctx k" if "k \<in> set REQUIRED_EXECUTION_CONTEXT_FIELDS" for k
    using that by (auto simp: rich dupdate_def dget_dset REQUIRED_EXECUTION_CONTEXT_FIELDS_def)
  then have "filterE (\<lambda>k. is_unavailable (dget rich k)) ks = filterE (\<lambda>k. is_unavailable (dget ctx k)) ks"
    if "set ks \<subseteq> set REQUIRED_EXECUTION_CONTEXT_FIELDS" for ks
    using that by (induction ks) auto
  then show ?thesis using assms(2) by (auto simp: audit_execution_context_def bindE_Inr_iff)
qed

subsection \<open>Parity guard\<close>

definition PARITY_FIELDS :: "string list" where
  "PARITY_FIELDS = [''decision'', ''reason'', ''order_type'', ''confidence'', ''score'', ''effective_rr'']"

record ParityComparison =
  pg_missing_fields :: "string list"
  pg_mismatch_fields :: "string list"

definition compare_paper_live_precheck :: "pydict \<Rightarrow> pydict \<Rightarrow> string list \<Rightarrow> ParityComparison" where
  "compare_paper_live_precheck paper live names =
    (let given = (\<lambda>k. map_of paper k \<noteq> None \<and> map_of live k \<noteq> None) in
     \<lparr>pg_missing_fields = filter (\<lambda>k. \<not> given k) names,
      pg_mismatch_fields = filter (\<lambda>k. given k \<and> \<not> py_eq (dget paper k) (dget live k)) names\<rparr>)"

definition parity_passed :: "ParityComparison \<Rightarrow> bool" where
  "parity_passed c \<longleftrightarrow> pg_missing_fields c = [] \<and> pg_mismatch_fields c = []"

definition summarize_parity :: "ParityComparison list \<Rightarrow> int \<Rightarrow> pydict" where
  "summarize_parity rows min_sample_count =
    (let mismatches = sum_list (map (length \<circ> pg_mismatch_fields) rows); absent = sum_list (map (length \<circ> pg_missing_fields) rows);
         complete = (min_sample_count \<le> int (length rows) \<and> mismatches = 0 \<and> absent = 0) in
     [(''evidence_status'', VStr (if complete then ''COMPLETE'' else ''INCOMPLETE'')), (''sample_count'', VInt (int (length rows))),
      (''min_sample_count'', VInt min_sample_count), (''mismatch_count'', VInt (int mismatches)),
      (''missing_field_count'', VInt (int absent)), (''no_order_submission_verified'', VBool True),
      (''comparison_fields'', VList (map VStr PARITY_FIELDS))])"

lemma complete_summary_passed:
  "dget (summarize_parity rows n) ''evidence_status'' = VStr ''COMPLETE'' \<longleftrightarrow> n \<le> int (length rows) \<and> (\<forall>c \<in> set rows. parity_passed c)"
  by (auto simp: summarize_parity_def parity_passed_def Let_def)

end
