(* ===== verification/RuntimeStartup.thy ===== *)
theory RuntimeStartup
  imports LivePrecheck RuntimeRecovery SafetyContracts
begin

section \<open>Starting the runtime\<close>

text \<open>
  \<^verbatim>\<open>_start_runtime\<close> of \<^verbatim>\<open>runtime.py\<close> up to the point where the tasks run: the storage reserve, the
  provenance of the scanner, the refusal of LIVE, recovery, the kill switch, exchange connectivity, the
  readiness qualification of LIVE_PRECHECK, the attachment of a campaign and the first reconciliation.
  A stage returns the state and the exception that ended it, if any. The answers of services (disk
  budget, kill switch, connectivity, what the campaign functions raise or record) are arguments.
  The time stamp, the metadata of the inputs kept with a report and log lines are left out.
  No heartbeat row is modelled: \<^verbatim>\<open>_persist_runtime_heartbeat\<close> writes one in PAPER and LIVE only,
  and of these stages only the refusal of LIVE calls it there.
\<close>

record booting =
  bt_runtime :: runtime
  bt_submission :: bool
  bt_trap :: bool
  bt_reports :: "QualificationReport list"
  bt_health :: "ExchangeHealth list"
  bt_tasks :: bool

record startup_inputs =
  si_budget_ok :: bool
  si_scanner :: "string option"
  si_persistence :: bool
  si_recovery :: recovery_inputs
  si_kill :: bool
  si_require_connectivity :: bool
  si_health :: "ExchangeHealth list"
  si_require_qualification :: bool
  si_evaluator :: evaluator
  si_reads :: readiness_reads
  si_precheck :: precheck
  si_attach :: "string option \<times> exc option"
  si_observation :: observation
  si_campaign_run :: bool
  si_mark :: "exc option"

type_synonym stage = "booting \<Rightarrow> booting \<times> exc option"

definition andthen :: "stage \<Rightarrow> stage \<Rightarrow> stage" where
  "andthen f g b = (case f b of (b1, None) \<Rightarrow> g b1 | r \<Rightarrow> r)"

fun stages :: "stage list \<Rightarrow> stage" where
  "stages [] b = (b, None)"
| "stages (f # fs) b = andthen f (stages fs) b"

definition on_runtime :: "(runtime \<Rightarrow> runtime) \<Rightarrow> booting \<Rightarrow> booting" where
  "on_runtime f b = b\<lparr>bt_runtime := f (bt_runtime b)\<rparr>"

definition save_snapshot :: "runtime_config \<Rightarrow> startup_inputs \<Rightarrow> string \<Rightarrow> runtime \<Rightarrow> runtime" where
  \<comment> \<open>a blocked runtime is never recorded as operating\<close>
  "save_snapshot c i status s =
    (if \<not> rc_engine c \<or> \<not> si_persistence i then s
     else s\<lparr>rt_db := (rt_db s)\<lparr>db_snapshots := db_snapshots (rt_db s)
       @ [if status = ''OPERATING'' \<and> execution_reconciliation_blocked c s then ''RECOVERY_REQUIRED'' else status]\<rparr>\<rparr>)"

definition stop_start :: "string \<Rightarrow> string \<Rightarrow> runtime \<Rightarrow> runtime" where
  "stop_start status why s = s\<lparr>rt_status := status, rt_fail := Some why\<rparr>"

definition storage_stage :: "runtime_config \<Rightarrow> startup_inputs \<Rightarrow> stage" where
  "storage_stage c i b =
    (if si_persistence i \<and> rc_engine c \<and> \<not> si_budget_ok i
     then (on_runtime (stop_start ''STARTUP_BLOCKED'' ''STORAGE_DISK_RESERVE_INSUFFICIENT'') b,
           Some (RuntimeError ''STORAGE_DISK_RESERVE_INSUFFICIENT''))
     else (on_runtime (\<lambda>s. s\<lparr>rt_status := ''STARTING''\<rparr>) b, None))"

definition reject_real_live_in_phase6 :: "runtime_config \<Rightarrow> startup_inputs \<Rightarrow> stage" where
  "reject_real_live_in_phase6 c i b =
    ((on_runtime (save_snapshot c i ''STOPPING'' \<circ> stop_start ''STOPPING'' ''LIVE_REAL_ORDERS_DISABLED_IN_PHASE6'') b)\<lparr>bt_submission := False\<rparr>,
     Some (RuntimeError ''LIVE_REAL_ORDERS_DISABLED_IN_PHASE6''))"

definition live_modes :: "string list" where "live_modes = [''LIVE'', ''LIVE_PRECHECK'']"

definition scanner_text :: "startup_inputs \<Rightarrow> string" where
  "scanner_text i = py_upper (py_strip (case si_scanner i of Some (x # xs) \<Rightarrow> x # xs | _ \<Rightarrow> ''UNKNOWN''))"

definition scanner_stage :: "runtime_config \<Rightarrow> startup_inputs \<Rightarrow> stage" where
  "scanner_stage c i b =
    (if rc_mode c \<notin> set live_modes then (b, None)
     else if scanner_text i = [] \<or> scanner_text i = ''UNKNOWN''
     then (b, Some (RuntimeError ''LIVE mode blocked: market scanner provenance is not verified''))
     else if scanner_text i \<noteq> ''EXCHANGE_PUBLIC_MARKET_DATA''
     then (b, Some (RuntimeError ''LIVE mode blocked: exchange-backed market scanner is required''))
     else if rc_mode c = ''LIVE'' then reject_real_live_in_phase6 c i b
     else (b, None))"

definition recovery_stage :: "runtime_config \<Rightarrow> startup_inputs \<Rightarrow> stage" where
  "recovery_stage c i b =
    (let b1 = (if si_persistence i then on_runtime (save_snapshot c i ''STARTUP'' \<circ> load_recovery_state c (si_recovery i)) b else b);
         s1 = bt_runtime b1 in
     if si_kill i
     then (on_runtime (save_snapshot c i ''RECOVERY_REQUIRED'' \<circ> stop_start ''RECOVERY_REQUIRED'' ''KILL_SWITCH_ACTIVE'') b1,
           Some (RuntimeError ''KILL_SWITCH_ACTIVE''))
     else if rt_recovery s1
     then (on_runtime (save_snapshot c i ''RECOVERY_REQUIRED'' \<circ> (\<lambda>s. s\<lparr>rt_status := ''RECOVERY_REQUIRED''\<rparr>)) b1,
           Some (RuntimeError (the (or_fail ''RUNTIME_RECOVERY_REQUIRED'' s1))))
     else (b1, None))"

definition health_text :: "ExchangeHealth \<Rightarrow> string" where
  "health_text h = eh_exchange h @ '':'' @ (case eh_error h of Some (x # xs) \<Rightarrow> x # xs | _ \<Rightarrow> ''UNAVAILABLE'')"

definition connectivity_stage :: "runtime_config \<Rightarrow> startup_inputs \<Rightarrow> stage" where
  "connectivity_stage c i b =
    (if rc_mode c \<notin> set live_modes \<or> \<not> si_require_connectivity i then (b, None)
     else let b1 = b\<lparr>bt_health := si_health i\<rparr>; down = filter (\<lambda>h. \<not> eh_connected h) (si_health i) in
       if down = [] then (b1, None)
       else (b1, Some (RuntimeError (''LIVE mode blocked: exchange connectivity unavailable ('' @ join '','' (map health_text down) @ '')''))))"

definition run_live_precheck_qualification_gate :: "runtime_config \<Rightarrow> startup_inputs \<Rightarrow> stage" where
  \<comment> \<open>order submission is switched off and the mutation trap armed before the inputs are collected\<close>
  "run_live_precheck_qualification_gate c i b =
    (if rc_mode c = ''LIVE'' then reject_real_live_in_phase6 c i b
     else let b1 = b\<lparr>bt_submission := False, bt_trap := True\<rparr> in
       if \<not> rc_engine c then (b1, Some (RuntimeError ''LIVE qualification requires runtime persistence engine''))
       else case bindE (precheck_inputs (si_precheck i)) (evaluate_readiness (si_evaluator i) (si_reads i)) of
           Inl x \<Rightarrow> (b1, Some x)
         | Inr report \<Rightarrow>
             let b2 = b1\<lparr>bt_reports := bt_reports b1 @ [report]\<rparr> in
             if bt_submission b2 then (b2, Some (RuntimeError ''LIVE_PRECHECK blocked: live_order_submission_enabled must remain false''))
             else if \<not> bt_trap b2 then (b2, Some (RuntimeError ''LIVE_PRECHECK blocked: mutation trap is not active''))
             else if q_verdict report \<notin> {''LIVE_REAL_ORDERS_BLOCKED'', ''CANARY_READY''}
             then (b2, Some (RuntimeError (''LIVE_PRECHECK blocked: readiness qualification failed; verdict '' @ q_verdict report
                    @ '' is not a non-mutating Phase 6 verdict'')))
             else (b2, None))"

definition qualification_stage :: "runtime_config \<Rightarrow> startup_inputs \<Rightarrow> stage" where
  "qualification_stage c i b =
    (if rc_mode c = ''LIVE_PRECHECK'' \<and> si_require_qualification i then run_live_precheck_qualification_gate c i b else (b, None))"

fun outcome_exc :: "outcome \<Rightarrow> exc option" where
  "outcome_exc (Raised x) = Some x" | "outcome_exc _ = None"

definition attach_stage :: "runtime_config \<Rightarrow> startup_inputs \<Rightarrow> stage" where
  \<comment> \<open>what \<^verbatim>\<open>_attach_phase8_campaign\<close> and \<^verbatim>\<open>_start_or_resume_burnin_run\<close> leave as reason, and raise\<close>
  "attach_stage c i b =
    (if rc_mode c \<notin> {''PAPER'', ''LIVE_PRECHECK''} then (b, None)
     else (on_runtime (\<lambda>s. case fst (si_attach i) of None \<Rightarrow> s | Some why \<Rightarrow> s\<lparr>rt_fail := Some why\<rparr>) b, snd (si_attach i)))"

definition first_reconciliation :: "runtime_config \<Rightarrow> startup_inputs \<Rightarrow> stage" where
  "first_reconciliation c i b =
    (if rc_mode c \<in> {''PAPER'', ''LIVE_PRECHECK''} then
       case run_reconciliation_once c (si_observation i) (bt_runtime b) of
         (s1, Raised x) \<Rightarrow> (b\<lparr>bt_runtime := s1\<rparr>, Some x)
       | (s1, _) \<Rightarrow>
           if failing s1 \<and> \<not> rc_diagnostic c
           then (b\<lparr>bt_runtime := save_snapshot c i ''RECOVERY_REQUIRED'' s1\<rparr>, Some (RuntimeError (the (rt_fail s1))))
           else (b\<lparr>bt_runtime := s1\<rparr>, None)
     else if rc_mode c = ''BACKTEST''
     then (on_runtime (\<lambda>s. s\<lparr>rt_unknown := False, rt_read_only := ''NOT_REQUIRED_BACKTEST'', rt_recon := ''NOT_REQUIRED_BACKTEST''\<rparr>) b, None)
     else (b, None))"

definition campaign_stage :: "runtime_config \<Rightarrow> startup_inputs \<Rightarrow> stage" where
  "campaign_stage c i b =
    (if \<not> si_campaign_run i \<or> rc_mode c \<noteq> ''PAPER'' then (b, None)
     else if \<not> rc_engine c then (b, Some (RuntimeError ''PHASE8_CAMPAIGN_PERSISTENCE_UNAVAILABLE''))
     else (b, si_mark i))"

definition operating_stage :: "runtime_config \<Rightarrow> startup_inputs \<Rightarrow> stage" where
  "operating_stage c i b =
    ((on_runtime (save_snapshot c i ''OPERATING'' \<circ> (\<lambda>s. s\<lparr>rt_status := ''OPERATING''\<rparr>)) b)\<lparr>bt_tasks := True\<rparr>, None)"

definition start_runtime :: "runtime_config \<Rightarrow> startup_inputs \<Rightarrow> stage" where
  \<comment> \<open>the scanner is checked again after recovery\<close>
  "start_runtime c i = stages [storage_stage c i, scanner_stage c i, recovery_stage c i, scanner_stage c i, connectivity_stage c i,
     qualification_stage c i, attach_stage c i, first_reconciliation c i, campaign_stage c i, operating_stage c i]"

subsection \<open>What a start proves\<close>

lemma save_snapshot_fields [simp]:
  "rt_fail (save_snapshot c i st s) = rt_fail s" "rt_recovery (save_snapshot c i st s) = rt_recovery s"
  by (simp_all add: save_snapshot_def)

lemma andthen_None: "andthen f g b = (t, None) \<longleftrightarrow> (\<exists>b1. f b = (b1, None) \<and> g b1 = (t, None))"
  by (auto simp: andthen_def split: prod.splits option.splits)

lemma precheck_verdict:
  assumes "bindE (precheck_inputs (si_precheck i)) (evaluate_readiness (si_evaluator i) (si_reads i)) = Inr report"
  shows "q_verdict report \<notin> {''LIVE_REAL_ORDERS_BLOCKED'', ''CANARY_READY''}"
proof -
  obtain given where g: "precheck_inputs (si_precheck i) = Inr given" "evaluate_readiness (si_evaluator i) (si_reads i) given = Inr report"
    using assms by (auto simp: bindE_Inr_iff)
  have "su_burnin given = []" using g(1) by (auto simp: precheck_inputs_def bindE_Inr_iff)
  moreover obtain checks where "q_verdict report = verdict_from_gates (aggregate_gates checks given)"
    using g(2) by (auto simp: evaluate_readiness_def bindE_Inr_iff Let_def)
  ultimately show ?thesis using without_burnin_report [of given checks] by auto
qed

lemma precheck_gate_raises: "snd (run_live_precheck_qualification_gate c i b) \<noteq> None"
  using precheck_verdict by (auto simp: run_live_precheck_qualification_gate_def reject_real_live_in_phase6_def Let_def split: sum.splits)

text \<open>C12: the qualification gate of the runtime refuses every start: whatever the evidence in the database
  and the providers say it raises, order submission is off afterwards, and outside LIVE the mutation
  trap is armed. The evaluation is never given a burn-in report, so its verdict is at best
  \<^verbatim>\<open>LIVE_PRECHECK_READY\<close>, which is not among the two verdicts the gate accepts.
\<close>
theorem qualification_gate_refuses_every_start:
  "(\<exists>x. snd (run_live_precheck_qualification_gate c i b) = Some x)
    \<and> \<not> bt_submission (fst (run_live_precheck_qualification_gate c i b))
    \<and> (rc_mode c = ''LIVE'' \<or> bt_trap (fst (run_live_precheck_qualification_gate c i b)))"
  using precheck_gate_raises [of c i b]
  by (auto simp: run_live_precheck_qualification_gate_def reject_real_live_in_phase6_def Let_def split: sum.splits)

lemma scanner_passes: "scanner_stage c i b = (b1, None) \<Longrightarrow>
    b1 = b \<and> (rc_mode c \<in> set live_modes \<longrightarrow> scanner_text i = ''EXCHANGE_PUBLIC_MARKET_DATA'' \<and> rc_mode c \<noteq> ''LIVE'')"
  by (auto simp: scanner_stage_def reject_real_live_in_phase6_def split: if_splits)

lemma recovery_passes:
  assumes "recovery_stage c i b = (b1, None)"
  shows "\<not> si_kill i" "\<not> rt_recovery (bt_runtime b1)" "si_persistence i \<Longrightarrow> rc_engine c \<and> \<not> rd_blocked (ri_decision (si_recovery i))"
proof -
  show "\<not> si_kill i" "\<not> rt_recovery (bt_runtime b1)"
    using assms by (auto simp: recovery_stage_def Let_def split: if_splits)
  assume p: "si_persistence i"
  then have "\<not> rt_recovery (load_recovery_state c (si_recovery i) (bt_runtime b))"
    using assms by (auto simp: recovery_stage_def on_runtime_def Let_def split: if_splits)
  then show "rc_engine c \<and> \<not> rd_blocked (ri_decision (si_recovery i))" using load_recovery_clear by blast
qed

lemma qualification_passes:
  "qualification_stage c i b = (b1, None) \<Longrightarrow> b1 = b \<and> \<not> (rc_mode c = ''LIVE_PRECHECK'' \<and> si_require_qualification i)"
  using precheck_gate_raises [of c i b] by (auto simp: qualification_stage_def split: if_splits)

lemma reconciliation_passes:
  "\<lbrakk>first_reconciliation c i b = (b1, None); rc_mode c \<in> {''PAPER'', ''LIVE_PRECHECK''}; \<not> rc_diagnostic c\<rbrakk>
    \<Longrightarrow> \<not> failing (bt_runtime b1)"
  by (auto simp: first_reconciliation_def split: prod.splits outcome.splits if_splits)

lemma connectivity_passes:
  "connectivity_stage c i b = (b1, None) \<Longrightarrow> bt_runtime b1 = bt_runtime b \<and>
    (rc_mode c \<in> set live_modes \<and> si_require_connectivity i \<longrightarrow> list_all eh_connected (si_health i))"
  by (auto simp: connectivity_stage_def Let_def list_all_iff filter_empty_conv split: if_splits)

lemma campaign_passes: "campaign_stage c i b = (b1, None) \<Longrightarrow> b1 = b"
  by (auto simp: campaign_stage_def split: if_splits)

text \<open>C2: the runtime reaches its tasks only through every gate: never in LIVE, in LIVE_PRECHECK only when
  the readiness qualification is not required and the scanner is the exchange's public market data with
  every required exchange connected, in every mode only with the kill switch off and, where state is
  persisted, with a database and an evaluation of the recovery that does not block; and after the first
  reconciliation no reason to block is left, unless a diagnostic override is on.
\<close>
theorem started_through_every_gate:
  assumes "start_runtime c i b = (t, None)"
  shows "bt_tasks t \<and> rc_mode c \<noteq> ''LIVE'' \<and> \<not> si_kill i
    \<and> (rc_mode c \<noteq> ''LIVE_PRECHECK'' \<or> \<not> si_require_qualification i \<and> scanner_text i = ''EXCHANGE_PUBLIC_MARKET_DATA''
        \<and> (\<not> si_require_connectivity i \<or> list_all eh_connected (si_health i)))
    \<and> (\<not> si_persistence i \<or> rc_engine c \<and> \<not> rd_blocked (ri_decision (si_recovery i)))
    \<and> (rc_mode c \<notin> {''PAPER'', ''LIVE_PRECHECK''} \<or> rc_diagnostic c \<or> \<not> failing (bt_runtime t))"
proof -
  obtain b1 b2 b3 b4 b5 b6 b7 b8 b9 where s: "scanner_stage c i b1 = (b2, None)" "recovery_stage c i b2 = (b3, None)"
    "scanner_stage c i b3 = (b4, None)" "connectivity_stage c i b4 = (b5, None)" "qualification_stage c i b5 = (b6, None)"
    "attach_stage c i b6 = (b7, None)" "first_reconciliation c i b7 = (b8, None)" "campaign_stage c i b8 = (b9, None)"
    "operating_stage c i b9 = (t, None)"
    using assms unfolding start_runtime_def stages.simps andthen_None by blast
  have t: "bt_tasks t" "failing (bt_runtime t) = failing (bt_runtime b9)"
    using s(9) by (auto simp: operating_stage_def on_runtime_def failing_def)
  have r: "rc_mode c \<notin> {''PAPER'', ''LIVE_PRECHECK''} \<or> rc_diagnostic c \<or> \<not> failing (bt_runtime b9)"
    using reconciliation_passes [OF s(7)] campaign_passes [OF s(8)] by blast
  show ?thesis
    using t r scanner_passes [OF s(1)] recovery_passes [OF s(2)] connectivity_passes [OF s(4)] qualification_passes [OF s(5)]
    by (auto simp: live_modes_def)
qed

definition demo_startup :: startup_inputs where
  "demo_startup = \<lparr>si_budget_ok = True, si_scanner = None, si_persistence = False,
     si_recovery = \<lparr>ri_decision = unreadable_recovery, ri_positions = [], ri_orders = [], ri_parse = (\<lambda>_. None), ri_now = Fin 0,
       ri_timeout = Fin 60, ri_kill = False\<rparr>,
     si_kill = False, si_require_connectivity = True, si_health = [], si_require_qualification = True,
     si_evaluator = \<lparr>ev_bounds = (Fin 0, Fin 1), ev_heartbeat_max = Fin 60, ev_mode = ''PAPER'', ev_campaign = None, ev_explicit_run = None,
       ev_release = None, ev_instance = None, ev_min_rr = (None, False), ev_require_scope = True, ev_run = None\<rparr>,
     si_reads = \<lparr>rd_lifecycle = [], rd_columns = (\<lambda>_. []), rd_count = (\<lambda>_. 0), rd_has_evidence = False, rd_range = (\<lambda>_. (VNone, VNone)),
       rd_heartbeat = \<lparr>hf_state = ''MISSING'', hf_reason = [], hf_latest = None, hf_age = None, hf_max = Fin 60\<rparr>,
       rd_snapshot = Inr None, rd_release = (\<lambda>_. None), rd_alert = [], rd_rollback = [], rd_now = 0\<rparr>,
     si_precheck = \<lparr>pr_samples = [], pr_provider = None, pr_findings = [], pr_observability = None, pr_rollback = None, pr_canary = False,
       pr_shadow = False, pr_ack = False, pr_kill_switch = False\<rparr>,
     si_attach = (None, None), si_observation = demo_observation clean_answer ''c1'', si_campaign_run = False, si_mark = None\<rparr>"

definition demo_boot :: booting where
  "demo_boot = \<lparr>bt_runtime = demo_runtime, bt_submission = False, bt_trap = False, bt_reports = [], bt_health = [], bt_tasks = False\<rparr>"

lemma started_through_every_gate_witness:
  "\<exists>t. start_runtime demo_config demo_startup demo_boot = (t, None) \<and> bt_tasks t \<and> \<not> si_kill demo_startup
    \<and> rc_mode demo_config \<noteq> ''LIVE'' \<and> \<not> failing (bt_runtime t)"
proof -
  have "rc_mode demo_config = ''PAPER''" "\<not> rc_diagnostic demo_config" by (simp_all add: demo_config_def)
  moreover obtain s1 where "run_reconciliation_once demo_config (demo_observation clean_answer ''c1'') (demo_runtime\<lparr>rt_status := ''STARTING''\<rparr>)
      = (s1, Returned)" "\<not> failing s1"
    by (simp add: run_eval demo_runtime_def evidence_complete_def Let_def)
  ultimately obtain t where t: "start_runtime demo_config demo_startup demo_boot = (t, None)"
    by (simp add: start_runtime_def andthen_def storage_stage_def scanner_stage_def live_modes_def recovery_stage_def on_runtime_def
        connectivity_stage_def qualification_stage_def attach_stage_def first_reconciliation_def campaign_stage_def operating_stage_def
        demo_startup_def demo_boot_def demo_runtime_def Let_def)
  from started_through_every_gate [OF t] t show ?thesis by (auto simp: demo_config_def)
qed

end
