(* ===== verification/SignalGeometry.thy ===== *)
theory SignalGeometry
  imports DecisionInvariant ExecutionCost
begin

section \<open>Signal geometry and regime authority\<close>

text \<open>
  \<^verbatim>\<open>signal_geometry.py\<close> turns candles into entry, stop, target and risk/reward, or into a
  reason why there is none; \<^verbatim>\<open>regime_authority.py\<close> is the table that says which market regimes
  may qualify or trade. A result is the pair the code returns: the dictionary and the reason.
\<close>

subsection \<open>Reading candles\<close>

fun lookup_error :: "exc \<Rightarrow> bool" where
  \<comment> \<open>what \<^verbatim>\<open>except (KeyError, TypeError, ValueError)\<close> catches\<close>
  "lookup_error (KeyError _) = True" | "lookup_error TypeError = True" | "lookup_error (ValueError _) = True"
| "lookup_error _ = False"

definition read_price :: "pydict \<times> string \<Rightarrow> flt py" where
  \<comment> \<open>\<^verbatim>\<open>float(d[k])\<close>\<close>
  "read_price q = (case map_of (fst q) (snd q) of None \<Rightarrow> Inl (KeyError (snd q)) | Some v \<Rightarrow> py_float v)"

definition try_prices :: "(pydict \<times> string) list \<Rightarrow> flt list option py" where
  \<comment> \<open>\<open>None\<close>: an exception of the kinds the code catches\<close>
  "try_prices qs = (case mapE read_price qs of Inr xs \<Rightarrow> Inr (Some xs) | Inl e \<Rightarrow> if lookup_error e then Inr None else Inl e)"

definition positive_price :: "flt \<Rightarrow> bool" where
  "positive_price x \<longleftrightarrow> is_finite x \<and> flt_less (Fin 0) x"

definition OHLC :: "string list" where "OHLC = [''open'', ''high'', ''low'', ''close'']"

type_synonym geometry = "pydict \<times> string option"

definition no_geometry :: "string \<Rightarrow> geometry" where "no_geometry why = ([], Some why)"

subsection \<open>Geometry of two candles\<close>

record levels =
  lv_entry :: flt
  lv_stop :: flt
  lv_target :: flt
  lv_rr :: flt
  lv_strength :: flt

definition candle_rr :: "flt \<Rightarrow> flt \<Rightarrow> flt \<Rightarrow> flt" where
  \<comment> \<open>\<^verbatim>\<open>max(1.1, min(3.5, 1.2 + strength * 25.0 + body / open * 8.0))\<close>\<close>
  "candle_rr strength body opened =
     py_max (fl (11 / 10)) (py_min (Fin (7 / 2))
       (fadd (fadd (fl (12 / 10)) (fmul strength (Fin 25))) (fmul (fdiv body opened) (Fin 8))))"

definition breakout_levels :: "flt list \<Rightarrow> flt list \<Rightarrow> string + (string \<times> levels)" where
  \<comment> \<open>the body of the breakout builder: it takes the side from the two closes; prices in the order of \<open>OHLC\<close>\<close>
  "breakout_levels now prev =
    (if \<not> list_all positive_price (now @ prev) then Inl ''OHLC_INVALID''
     else if flt_less (now ! 1) (now ! 2) \<or> flt_less (prev ! 1) (prev ! 2) then Inl ''OHLC_INVALID''
     else
       let side = (if flt_le (prev ! 3) (now ! 3) then ''LONG'' else ''SHORT'');
           entry = now ! 3;
           stop = (if side = ''LONG'' then py_min (now ! 2) (prev ! 2) else py_max (now ! 1) (prev ! 1));
           risk = (if side = ''LONG'' then fsub entry stop else fsub stop entry) in
       if flt_le risk (Fin 0) then Inl ''ZERO_RISK_GEOMETRY''
       else
         let body = flt_abs (fsub (now ! 3) (now ! 0));
             strength = (if side = ''LONG'' then py_max (Fin 0) (fdiv (fsub (now ! 3) (prev ! 1)) (prev ! 1))
                         else py_max (Fin 0) (fdiv (fsub (prev ! 2) (now ! 3)) (prev ! 2)));
             rr = candle_rr strength body (now ! 0);
             target = (if side = ''LONG'' then fadd entry (fmul rr risk) else fsub entry (fmul rr risk)) in
         if flt_le target (Fin 0) then Inl ''INVALID_TARGET''
         else Inr (side, \<lparr>lv_entry = entry, lv_stop = stop, lv_target = target, lv_rr = rr, lv_strength = strength\<rparr>))"

definition guided_levels :: "string \<Rightarrow> flt list \<Rightarrow> flt list \<Rightarrow> string + levels" where
  \<comment> \<open>the body of the guided builder, for a side of LONG or SHORT\<close>
  "guided_levels side now prev =
    (if \<not> list_all positive_price (now @ prev) then Inl ''OHLC_INVALID''
     else if flt_less (now ! 1) (now ! 2) \<or> flt_less (prev ! 1) (prev ! 2) then Inl ''OHLC_INVALID''
     else
       let long = (side = ''LONG''); entry = now ! 3;
           stop = (if long then py_min (now ! 2) (prev ! 2) else py_max (now ! 1) (prev ! 1));
           risk = (if long then fsub entry stop else fsub stop entry) in
       if flt_le risk (Fin 0) then Inl ''ZERO_RISK_GEOMETRY''
       else
         let body = flt_abs (fsub (now ! 3) (now ! 0));
             strength = (if long then py_max (Fin 0) (fdiv (fsub (now ! 3) (prev ! 1)) (prev ! 1))
                         else py_max (Fin 0) (fdiv (fsub (prev ! 2) (now ! 3)) (prev ! 2)));
             rr = candle_rr strength body (now ! 0);
             target = (if long then fadd entry (fmul rr risk) else fsub entry (fmul rr risk)) in
         if flt_le target (Fin 0) then Inl ''INVALID_TARGET''
         else Inr \<lparr>lv_entry = entry, lv_stop = stop, lv_target = target, lv_rr = rr, lv_strength = strength\<rparr>)"

definition level_fields :: "string \<Rightarrow> levels \<Rightarrow> pydict" where
  "level_fields side v = [(''entry'', VFloat (lv_entry v)), (''side'', VStr side), (''sl'', VFloat (lv_stop v)),
     (''tp'', VFloat (lv_target v)), (''rr'', VFloat (lv_rr v))]"

definition build_breakout_geometry_with_diagnostics :: "pydict \<Rightarrow> pydict \<Rightarrow> geometry py" where
  "build_breakout_geometry_with_diagnostics current previous =
    bindE (try_prices (map (Pair current) OHLC @ map (Pair previous) OHLC)) (\<lambda>found.
    Inr (case found of None \<Rightarrow> no_geometry ''KLINE_MALFORMED_PAYLOAD''
     | Some prices \<Rightarrow>
         (case breakout_levels (take 4 prices) (drop 4 prices) of Inl why \<Rightarrow> no_geometry why
          | Inr (side, v) \<Rightarrow> (level_fields side v
              @ [(''setup_type'', VStr (if side = ''LONG'' then ''BREAKOUT_UP'' else ''BREAKDOWN_DOWN'')),
                 (''setup_reason'', VStr (if side = ''LONG'' then ''CLOSE_ABOVE_PREV_HIGH'' else ''CLOSE_BELOW_PREV_LOW'')),
                 (''breakout_strength'', VFloat (lv_strength v))], None))))"

definition build_breakout_geometry :: "pydict \<Rightarrow> pydict \<Rightarrow> pydict py" where
  "build_breakout_geometry current previous =
     bindE (build_breakout_geometry_with_diagnostics current previous) (\<lambda>g. Inr (fst g))"

definition build_regime_guided_geometry_with_diagnostics :: "pydict \<Rightarrow> pydict \<Rightarrow> string \<Rightarrow> string \<Rightarrow> string \<Rightarrow> geometry py" where
  "build_regime_guided_geometry_with_diagnostics current previous side setup_type setup_phase =
    (let s = py_upper side in
     if s \<notin> {''LONG'', ''SHORT''} then Inr (no_geometry ''REGIME_SIDE_INVALID'')
     else bindE (try_prices (map (Pair current) OHLC @ map (Pair previous) OHLC)) (\<lambda>found.
     Inr (case found of None \<Rightarrow> no_geometry ''KLINE_MALFORMED_PAYLOAD''
      | Some prices \<Rightarrow>
          (case guided_levels s (take 4 prices) (drop 4 prices) of Inl why \<Rightarrow> no_geometry why
           | Inr v \<Rightarrow> (level_fields s v
               @ [(''setup_type'', VStr setup_type), (''setup_phase'', VStr setup_phase),
                  (''setup_reason'', VStr (''REGIME_GUIDED_'' @ setup_phase)), (''breakout_strength'', VFloat (lv_strength v)),
                  (''geometry_status'', VStr ''COMPLETE''), (''geometry_reason'', VNone),
                  (''geometry_source'', VStr ''MTF_REGIME_GUIDED_CLOSED_KLINES'')], None)))))"

subsection \<open>Structure of the setup window\<close>

definition py_min_list :: "flt list \<Rightarrow> flt" where
  \<comment> \<open>\<^verbatim>\<open>min\<close> over a nonempty sequence: the first smallest\<close>
  "py_min_list xs = foldl py_min (hd xs) (tl xs)"

definition py_max_list :: "flt list \<Rightarrow> flt" where
  "py_max_list xs = foldl py_max (hd xs) (tl xs)"

definition last_n :: "int \<Rightarrow> 'a list \<Rightarrow> 'a list" where
  \<comment> \<open>\<^verbatim>\<open>xs[-n:]\<close>\<close>
  "last_n n xs = (if 0 < n then drop (length xs - nat n) xs else drop (nat (- n)) xs)"

definition bad_candle :: "flt list \<Rightarrow> bool" where
  \<comment> \<open>high, low, close\<close>
  "bad_candle c \<longleftrightarrow> \<not> list_all positive_price c \<or> flt_less (c ! 0) (c ! 1)"

definition read_window :: "pydict list \<Rightarrow> flt list list option py" where
  "read_window candles =
    (case mapE (\<lambda>d. mapE read_price (map (Pair d) [''high'', ''low'', ''close''])) candles of
       Inr w \<Rightarrow> Inr (Some w) | Inl e \<Rightarrow> if lookup_error e then Inr None else Inl e)"

definition derive_setup_structure_with_diagnostics :: "pydict list \<Rightarrow> string \<Rightarrow> int \<Rightarrow> geometry py" where
  \<comment> \<open>\<^verbatim>\<open>min\<close> of an empty window raises\<close>
  "derive_setup_structure_with_diagnostics candles side lookback =
    (let s = py_upper (py_strip side) in
     if s \<notin> {''LONG'', ''SHORT''} then Inr (no_geometry ''REGIME_SIDE_INVALID'')
     else if int (length candles) < lookback then Inr (no_geometry ''KLINE_INSUFFICIENT_ROWS'')
     else bindE (read_window (last_n lookback candles)) (\<lambda>found.
       case found of None \<Rightarrow> Inr (no_geometry ''KLINE_MALFORMED_PAYLOAD'')
       | Some window \<Rightarrow>
           if list_ex bad_candle window then Inr (no_geometry ''OHLC_INVALID'')
           else if window = [] then Inl (ValueError ''min() arg is an empty sequence'')
           else
             let low = VFloat (py_min_list (map (\<lambda>c. c ! 1) window)); high = VFloat (py_max_list (map (\<lambda>c. c ! 0) window)) in
             Inr (if s = ''LONG''
                  then [(''structural_stop'', low), (''structural_target'', high),
                        (''stop_source'', VStr ''setup_window_support''), (''target_source'', VStr ''setup_window_resistance'')]
                  else [(''structural_stop'', high), (''structural_target'', low),
                        (''stop_source'', VStr ''setup_window_resistance''), (''target_source'', VStr ''setup_window_support'')], None)))"

record setup_info =
  st_type :: string
  st_phase :: string
  st_setup_timeframe :: string
  st_execution_timeframe :: string
  st_entry_source :: string

definition build_structural_geometry_with_diagnostics :: "pyval \<Rightarrow> string \<Rightarrow> setup_info \<Rightarrow> pydict \<Rightarrow> geometry py" where
  "build_structural_geometry_with_diagnostics entry side st structure =
    (let s = py_upper (py_strip side) in
     if s \<notin> {''LONG'', ''SHORT''} then Inr (no_geometry ''REGIME_SIDE_INVALID'')
     else bindE (try_prices [([(''entry'', entry)], ''entry''), (structure, ''structural_stop''), (structure, ''structural_target'')]) (\<lambda>found.
     Inr (case found of None \<Rightarrow> no_geometry ''NO_STRUCTURAL_GEOMETRY''
      | Some ps \<Rightarrow>
          if \<not> list_all positive_price ps then no_geometry ''NO_STRUCTURAL_GEOMETRY''
          else
            let e = ps ! 0; stop = ps ! 1; target = ps ! 2;
                risk = (if s = ''LONG'' then fsub e stop else fsub stop e);
                reward = (if s = ''LONG'' then fsub target e else fsub e target); rr = fdiv reward risk in
            if flt_le risk (Fin 0) then no_geometry ''NO_STRUCTURAL_GEOMETRY''
            else if flt_le reward (Fin 0) then no_geometry ''INSUFFICIENT_STRUCTURAL_REWARD''
            else ([(''entry'', VFloat e), (''side'', VStr s), (''sl'', VFloat stop), (''tp'', VFloat target), (''rr'', VFloat rr),
                   (''setup_type'', VStr (st_type st)), (''setup_phase'', VStr (st_phase st)),
                   (''setup_reason'', VStr (''REGIME_GUIDED_'' @ st_phase st)), (''geometry_status'', VStr ''COMPLETE''),
                   (''geometry_reason'', VNone), (''geometry_source'', VStr ''MTF_SETUP_STRUCTURE''),
                   (''entry_source'', VStr (st_entry_source st)), (''stop_source'', dget structure ''stop_source''),
                   (''target_source'', dget structure ''target_source''), (''setup_timeframe'', VStr (st_setup_timeframe st)),
                   (''execution_timeframe'', VStr (st_execution_timeframe st)), (''structural_stop'', VFloat stop),
                   (''structural_target'', VFloat target), (''candidate_rr'', VFloat rr)], None))))"


subsection \<open>Where the levels lie\<close>

definition ordered_levels :: "string \<Rightarrow> flt \<Rightarrow> flt \<Rightarrow> flt \<Rightarrow> bool" where
  \<comment> \<open>stop strictly on the losing side of the entry, target not on it\<close>
  "ordered_levels side entry stop target \<longleftrightarrow>
     (side = ''LONG'' \<longrightarrow> flt_less stop entry \<and> flt_le entry target) \<and>
     (side = ''SHORT'' \<longrightarrow> flt_less entry stop \<and> flt_le target entry)"

lemma positive_price_fin: "positive_price x \<Longrightarrow> \<exists>r. x = Fin r \<and> 0 < r"
  by (cases x) (auto simp: positive_price_def)

lemma fsub_pos: "\<not> flt_le (fsub (Fin a) (Fin b)) (Fin 0) \<Longrightarrow> b < a"
  using fl_mono [of "a - b" 0] by (fastforce simp: fsub_def not_le)

lemma clamp_range:
  "m \<le> k \<Longrightarrow> \<exists>r. py_max (Fin m) (py_min (Fin k) x) = Fin r \<and> m \<le> r \<and> r \<le> k"
  by (cases x) (auto simp: py_min_def py_max_def not_less split: if_splits)

lemma candle_rr_range: "\<exists>r. candle_rr s b d = Fin r \<and> 11 / 10 \<le> r \<and> r \<le> 7 / 2"
proof -
  have low: "fl (11 / 10) = Fin (2476979795053773 / 2251799813685248)" by (simp add: fl_eval)
  obtain r where "candle_rr s b d = Fin r" "2476979795053773 / 2251799813685248 \<le> r" "r \<le> 7 / 2"
    using clamp_range [of "2476979795053773 / 2251799813685248" "7 / 2"] unfolding candle_rr_def low by fastforce
  moreover from this have "11 / 10 \<le> r" by simp
  ultimately show ?thesis by blast
qed

lemma fmul_pos_not_neg: "\<not> flt_le x (Fin 0) \<Longrightarrow> x \<noteq> NaN \<Longrightarrow> 1 \<le> r \<Longrightarrow> flt_le (Fin 0) (fmul (Fin r) x)"
  by (cases x) (auto simp: flt_inf_def intro!: fl_nonneg)

lemma fadd_above: "flt_le (Fin 0) p \<Longrightarrow> is_f64 (Fin x) \<Longrightarrow> flt_le (Fin x) (fadd (Fin x) p)"
  using fl_mono [of x "x + y" for y] by (cases p) (auto simp: is_f64_def)

lemma fsub_not_nan: "fsub (Fin a) (Fin b) \<noteq> NaN"
  by (simp add: fsub_def)

lemma py_min_mem: "py_min a b \<in> {a, b}" by (simp add: py_min_def)

lemma py_max_mem: "py_max a b \<in> {a, b}" by (simp add: py_max_def)

lemma guided_levels_facts:
  assumes "guided_levels side now prev = Inr v" "length now = 4" "length prev = 4" "is_f64 (lv_entry v)" "side \<in> {''LONG'', ''SHORT''}"
  shows "ordered_levels side (lv_entry v) (lv_stop v) (lv_target v)" "\<exists>r. lv_rr v = Fin r \<and> 11 / 10 \<le> r \<and> r \<le> 7 / 2"
    "\<not> flt_le (lv_target v) (Fin 0)" "lv_entry v = now ! 3"
proof -
  let ?long = "side = ''LONG''"
  define stop where "stop = (if ?long then py_min (now ! 2) (prev ! 2) else py_max (now ! 1) (prev ! 1))"
  define risk where "risk = (if ?long then fsub (now ! 3) stop else fsub stop (now ! 3))"
  have pos: "list_all positive_price (now @ prev)" and r: "\<not> flt_le risk (Fin 0)"
    using assms(1) unfolding guided_levels_def Let_def stop_def risk_def by (auto split: if_splits)
  have in_now: "\<exists>a. now ! i = Fin a" if "i < 4" for i
    using pos that assms(2) positive_price_fin [of "now ! i"] by (auto simp: list_all_iff)
  have in_prev: "\<exists>a. prev ! i = Fin a" if "i < 4" for i
    using pos that assms(3) positive_price_fin [of "prev ! i"] by (auto simp: list_all_iff)
  obtain c where c: "now ! 3 = Fin c" using in_now [of 3] by auto
  obtain l l' h h' where lh: "now ! 2 = Fin l" "prev ! 2 = Fin l'" "now ! 1 = Fin h" "prev ! 1 = Fin h'"
    using in_now [of 1] in_now [of 2] in_prev [of 1] in_prev [of 2] by auto
  obtain b where b: "stop = Fin b"
    using py_min_mem [of "Fin l" "Fin l'"] py_max_mem [of "Fin h" "Fin h'"] unfolding stop_def lh by (cases ?long) auto
  have v: "lv_entry v = Fin c" "lv_stop v = stop" "\<not> flt_le (lv_target v) (Fin 0)"
    "lv_target v = (if ?long then fadd (Fin c) (fmul (lv_rr v) risk) else fsub (Fin c) (fmul (lv_rr v) risk))"
    using assms(1) c unfolding guided_levels_def Let_def stop_def risk_def by (auto split: if_splits)
  have "lv_rr v \<in> {r. \<exists>s b d. r = candle_rr s b d}"
    using assms(1) unfolding guided_levels_def Let_def by (auto split: if_splits) metis+
  then obtain q where q: "lv_rr v = Fin q" "11 / 10 \<le> q" "q \<le> 7 / 2" using candle_rr_range by fastforce
  have "risk \<noteq> NaN" by (simp add: risk_def b c fsub_not_nan)
  then have m: "flt_le (Fin 0) (fmul (Fin q) risk)" using r q by (intro fmul_pos_not_neg) simp_all
  have f: "is_f64 (Fin c)" using assms(4) v(1) by simp
  show "ordered_levels side (lv_entry v) (lv_stop v) (lv_target v)"
    using fadd_above [OF m f] fsub_le [OF m f] r v q fsub_pos unfolding ordered_levels_def risk_def b c by auto
  show "\<exists>r. lv_rr v = Fin r \<and> 11 / 10 \<le> r \<and> r \<le> 7 / 2" using q by simp
  show "\<not> flt_le (lv_target v) (Fin 0)" "lv_entry v = now ! 3" using v c by simp_all
qed


lemma try_prices_length: "try_prices qs = Inr (Some ps) \<Longrightarrow> length ps = length qs"
  by (auto simp: try_prices_def mapE_Inr dest: list_all2_lengthD split: sum.splits if_splits)

lemma level_fields_get:
  "dget (level_fields side v @ rest) ''entry'' = VFloat (lv_entry v)" "dget (level_fields side v @ rest) ''side'' = VStr side"
  "dget (level_fields side v @ rest) ''sl'' = VFloat (lv_stop v)" "dget (level_fields side v @ rest) ''tp'' = VFloat (lv_target v)"
  "dget (level_fields side v @ rest) ''rr'' = VFloat (lv_rr v)"
  by (simp_all add: level_fields_def)

lemma guided_geometryE:
  assumes "build_regime_guided_geometry_with_diagnostics current previous side setup_type phase = Inr (g, None)"
  obtains ps v rest where "try_prices (map (Pair current) OHLC @ map (Pair previous) OHLC) = Inr (Some ps)" "length ps = 8"
    "py_upper side \<in> {''LONG'', ''SHORT''}" "guided_levels (py_upper side) (take 4 ps) (drop 4 ps) = Inr v"
    "g = level_fields (py_upper side) v @ rest"
proof -
  let ?qs = "map (Pair current) OHLC @ map (Pair previous) OHLC"
  have side: "py_upper side \<in> {''LONG'', ''SHORT''}"
    using assms unfolding build_regime_guided_geometry_with_diagnostics_def Let_def no_geometry_def by (rule contrapos_pp) simp
  then have "\<not> py_upper side \<notin> {''LONG'', ''SHORT''}" by blast
  note built = assms [unfolded build_regime_guided_geometry_with_diagnostics_def Let_def no_geometry_def if_not_P [OF this]]
  obtain found where found: "try_prices ?qs = Inr found" using built by (cases "try_prices ?qs") simp_all
  obtain ps where ps: "found = Some ps" using built by (cases found) (simp_all add: found)
  obtain v where v: "guided_levels (py_upper side) (take 4 ps) (drop 4 ps) = Inr v"
    using built by (cases "guided_levels (py_upper side) (take 4 ps) (drop 4 ps)") (simp_all add: found ps)
  have p: "try_prices ?qs = Inr (Some ps)" "py_upper side \<in> {''LONG'', ''SHORT''}"
    "guided_levels (py_upper side) (take 4 ps) (drop 4 ps) = Inr v" using side by (simp_all add: found ps v)
  have "\<exists>rest. g = level_fields (py_upper side) v @ rest" using built by (auto simp: found ps v)
  then obtain rest where "g = level_fields (py_upper side) v @ rest" ..
  moreover have "length ps = 8" using try_prices_length [OF p(1)] by (simp add: OHLC_def)
  ultimately show thesis using that p by metis
qed

text \<open>C37: geometry built for a side the regime chose is executable on that side: the stop lies strictly
  on the losing side of the entry and the target never does, the entry is the close of the current
  candle, the target is positive, and the risk/reward lies between 1.1 and 3.5.
\<close>
theorem guided_geometry_is_executable:
  assumes "build_regime_guided_geometry_with_diagnostics current previous side setup_type phase = Inr (g, None)"
    and "dget g ''entry'' = VFloat e" "is_f64 e"
  shows "\<exists>sl tp rr. dget g ''sl'' = VFloat sl \<and> dget g ''tp'' = VFloat tp \<and> dget g ''rr'' = VFloat (Fin rr) \<and>
    dget g ''side'' = VStr (py_upper side) \<and> py_upper side \<in> {''LONG'', ''SHORT''} \<and> ordered_levels (py_upper side) e sl tp \<and>
    \<not> flt_le tp (Fin 0) \<and> 11 / 10 \<le> rr \<and> rr \<le> 7 / 2 \<and> read_price (current, ''close'') = Inr e"
proof -
  obtain ps v rest where p: "try_prices (map (Pair current) OHLC @ map (Pair previous) OHLC) = Inr (Some ps)" "length ps = 8"
    "py_upper side \<in> {''LONG'', ''SHORT''}" "guided_levels (py_upper side) (take 4 ps) (drop 4 ps) = Inr v"
    "g = level_fields (py_upper side) v @ rest"
    by (rule guided_geometryE [OF assms(1)])
  have e: "lv_entry v = e" using assms(2) by (simp add: p(5) level_fields_get)
  have l: "length (take 4 ps) = 4" "length (drop 4 ps) = 4" using p(2) by simp_all
  note f = guided_levels_facts [OF p(4) l _ p(3), unfolded e, OF assms(3)]
  have "mapE read_price (map (Pair current) OHLC @ map (Pair previous) OHLC) = Inr ps"
    using p(1) by (auto simp: try_prices_def split: sum.splits if_splits)
  then have "read_price (current, ''close'') = Inr (ps ! 3)" by (auto simp: OHLC_def bindE_Inr_iff)
  then show ?thesis using f p(3) by (auto simp: p(5) level_fields_get)
qed

definition last_move :: "pydict \<Rightarrow> pydict \<Rightarrow> string" where
  \<comment> \<open>the side of the move from the previous close to the current one\<close>
  "last_move current previous =
    (case (read_price (current, ''close''), read_price (previous, ''close'')) of
       (Inr n, Inr p) \<Rightarrow> if flt_le p n then ''LONG'' else ''SHORT''
     | _ \<Rightarrow> ''LONG'')"

lemma last_move_closes:
  assumes "try_prices (map (Pair current) OHLC @ map (Pair previous) OHLC) = Inr (Some ps)"
  shows "last_move current previous = (if flt_le (drop 4 ps ! 3) (take 4 ps ! 3) then ''LONG'' else ''SHORT'')"
proof -
  have "mapE read_price (map (Pair current) OHLC @ map (Pair previous) OHLC) = Inr ps"
    using assms by (auto simp: try_prices_def split: sum.splits if_splits)
  then have "read_price (current, ''close'') = Inr (ps ! 3)" "read_price (previous, ''close'') = Inr (ps ! 7)" "length ps = 8"
    by (auto simp: OHLC_def bindE_Inr_iff)
  then show ?thesis by (simp add: last_move_def)
qed

lemma breakout_levels_guided:
  \<comment> \<open>the two bodies, computed side by side\<close>
  assumes "side = (if flt_le (prev ! 3) (now ! 3) then ''LONG'' else ''SHORT'')"
  shows "breakout_levels now prev =
    (case guided_levels side now prev of Inl why \<Rightarrow> Inl why | Inr v \<Rightarrow> Inr (side, v))"
  unfolding breakout_levels_def guided_levels_def Let_def assms by simp

text \<open>C38: the two builders agree: the breakout geometry is the guided geometry for the side of the last
  move, with the same entry, stop, target and risk/reward, and it fails exactly when that one fails,
  with the same reason.
\<close>
theorem breakout_is_guided_by_the_last_move:
  assumes "try_prices (map (Pair current) OHLC @ map (Pair previous) OHLC) = Inr found"
  shows "\<exists>g h. build_breakout_geometry_with_diagnostics current previous = Inr g
    \<and> build_regime_guided_geometry_with_diagnostics current previous (last_move current previous) setup_type phase = Inr h
    \<and> snd g = snd h \<and> list_all (\<lambda>k. dget (fst g) k = dget (fst h) k) [''entry'', ''side'', ''sl'', ''tp'', ''rr'', ''breakout_strength'']"
proof -
  have u: "py_upper (last_move current previous) = last_move current previous"
    "last_move current previous \<in> {''LONG'', ''SHORT''}"
    by (auto simp: last_move_def str_eval split: sum.splits)
  note defs = build_breakout_geometry_with_diagnostics_def build_regime_guided_geometry_with_diagnostics_def
  show ?thesis
  proof (cases found)
    case None
    then show ?thesis using assms u by (simp add: defs no_geometry_def Let_def)
  next
    case (Some ps)
    have side: "last_move current previous = (if flt_le (drop 4 ps ! 3) (ps ! 3) then ''LONG'' else ''SHORT'')"
      using last_move_closes assms Some by simp
    have levels: "breakout_levels (take 4 ps) (drop 4 ps) =
      (case guided_levels (last_move current previous) (take 4 ps) (drop 4 ps) of Inl why \<Rightarrow> Inl why | Inr v \<Rightarrow> Inr (last_move current previous, v))"
      by (rule breakout_levels_guided) (simp add: side)
    show ?thesis using assms u Some
      by (cases "guided_levels (last_move current previous) (take 4 ps) (drop 4 ps)")
        (auto simp: defs no_geometry_def Let_def level_fields_def levels)
  qed
qed


definition demo_candle :: pydict where
  "demo_candle = [(''open'', VInt 2), (''high'', VInt 4), (''low'', VInt 1), (''close'', VInt 3)]"

lemma demo_prices:
  "try_prices (map (Pair demo_candle) OHLC @ map (Pair demo_candle) OHLC) = Inr (Some [Fin 2, Fin 4, Fin 1, Fin 3, Fin 2, Fin 4, Fin 1, Fin 3])"
  by (simp add: try_prices_def OHLC_def demo_candle_def read_price_def int_to_float_small)

lemma guided_geometry_is_executable_witness:
  "\<exists>g sl tp rr. build_regime_guided_geometry_with_diagnostics demo_candle demo_candle ''long'' ''PULLBACK'' ''REENTRY_READY'' = Inr (g, None) \<and>
     dget g ''entry'' = VFloat (Fin 3) \<and> dget g ''sl'' = VFloat sl \<and> dget g ''tp'' = VFloat tp \<and> dget g ''rr'' = VFloat (Fin rr) \<and>
     ordered_levels ''LONG'' (Fin 3) sl tp \<and> rr \<le> 7 / 2 \<and> read_price (demo_candle, ''close'') = Inr (Fin 3)"
proof -
  have u: "py_upper ''long'' = ''LONG''" by code_simp
  have "guided_levels ''LONG'' [Fin 2, Fin 4, Fin 1, Fin 3] [Fin 2, Fin 4, Fin 1, Fin 3] =
      Inr \<lparr>lv_entry = Fin 3, lv_stop = Fin 1, lv_target = Fin 10, lv_rr = Fin (7 / 2), lv_strength = Fin 0\<rparr>"
    by (simp add: guided_levels_def Let_def positive_price_def candle_rr_def fl_eval py_min_def py_max_def fsub_def)
  then obtain g where g: "build_regime_guided_geometry_with_diagnostics demo_candle demo_candle ''long'' ''PULLBACK'' ''REENTRY_READY'' = Inr (g, None)"
    "dget g ''entry'' = VFloat (Fin 3)"
    using demo_prices u by (simp add: build_regime_guided_geometry_with_diagnostics_def level_fields_def)
  have "is_f64 (Fin 3)" using fl_numeral [of "num.Bit1 num.One"] by (simp add: is_f64_def)
  from guided_geometry_is_executable [OF g this, unfolded u] g show ?thesis by blast
qed

lemma breakout_is_guided_by_the_last_move_witness:
  "last_move demo_candle demo_candle = ''LONG'' \<and> (\<exists>g h. build_breakout_geometry_with_diagnostics demo_candle demo_candle = Inr g
    \<and> build_regime_guided_geometry_with_diagnostics demo_candle demo_candle (last_move demo_candle demo_candle) ''T'' ''P'' = Inr h
    \<and> snd g = snd h \<and> list_all (\<lambda>k. dget (fst g) k = dget (fst h) k) [''entry'', ''side'', ''sl'', ''tp'', ''rr'', ''breakout_strength''])"
proof -
  have "last_move demo_candle demo_candle = ''LONG''" by (simp add: last_move_closes [OF demo_prices])
  then show ?thesis using breakout_is_guided_by_the_last_move [OF demo_prices] by blast
qed

subsection \<open>Levels of a setup window\<close>

lemma foldl_py_min:
  "\<lbrakk>is_finite a; \<forall>x \<in> set xs. is_finite x\<rbrakk>
    \<Longrightarrow> is_finite (foldl py_min a xs) \<and> flt_le (foldl py_min a xs) a \<and> (\<forall>x \<in> set xs. flt_le (foldl py_min a xs) x)"
proof (induction xs arbitrary: a)
  case Nil then show ?case by auto
next
  case (Cons x xs)
  obtain p q where pq: "a = Fin p" "x = Fin q" using Cons.prems by (auto elim!: is_finiteE)
  have m: "is_finite (py_min a x)" "flt_le (py_min a x) a" "flt_le (py_min a x) x" by (auto simp: pq py_min_def)
  then show ?case using Cons.IH [of "py_min a x"] Cons.prems by (auto simp: pq elim!: is_finiteE)
qed

lemma foldl_py_max:
  "\<lbrakk>is_finite a; \<forall>x \<in> set xs. is_finite x\<rbrakk>
    \<Longrightarrow> is_finite (foldl py_max a xs) \<and> flt_le a (foldl py_max a xs) \<and> (\<forall>x \<in> set xs. flt_le x (foldl py_max a xs))"
proof (induction xs arbitrary: a)
  case Nil then show ?case by auto
next
  case (Cons x xs)
  obtain p q where pq: "a = Fin p" "x = Fin q" using Cons.prems by (auto elim!: is_finiteE)
  have m: "is_finite (py_max a x)" "flt_le a (py_max a x)" "flt_le x (py_max a x)" by (auto simp: pq py_max_def)
  then show ?case using Cons.IH [of "py_max a x"] Cons.prems by (auto simp: pq elim!: is_finiteE)
qed

lemma py_min_list_le: "\<lbrakk>x \<in> set xs; list_all is_finite xs\<rbrakk> \<Longrightarrow> flt_le (py_min_list xs) x"
  using foldl_py_min [of "hd xs" "tl xs"] by (cases xs) (auto simp: py_min_list_def list_all_iff)

lemma py_max_list_ge: "\<lbrakk>x \<in> set xs; list_all is_finite xs\<rbrakk> \<Longrightarrow> flt_le x (py_max_list xs)"
  using foldl_py_max [of "hd xs" "tl xs"] by (cases xs) (auto simp: py_max_list_def list_all_iff)

definition window_low :: "flt list list \<Rightarrow> flt" where "window_low w = py_min_list (map (\<lambda>c. c ! 1) w)"
definition window_high :: "flt list list \<Rightarrow> flt" where "window_high w = py_max_list (map (\<lambda>c. c ! 0) w)"

lemma read_window_rows:
  assumes "read_window candles = Inr (Some w)"
  shows "\<forall>c \<in> set w. length c = 3"
proof -
  have "mapE (\<lambda>d. mapE read_price (map (Pair d) [''high'', ''low'', ''close''])) candles = Inr w"
    using assms by (auto simp: read_window_def split: sum.splits if_splits)
  then show ?thesis
    by (induction candles arbitrary: w) (auto simp: bindE_Inr_iff)
qed

lemma window_bounds:
  assumes "\<not> list_ex bad_candle w" "\<forall>c \<in> set w. length c = 3" "c \<in> set w"
  shows "flt_le (window_low w) (c ! 1)" "flt_le (c ! 0) (window_high w)"
proof -
  have fin: "is_finite (d ! i)" if "d \<in> set w" "i < 3" for d i
  proof -
    have "list_all positive_price d" "length d = 3" using assms(1, 2) that by (auto simp: list_ex_iff bad_candle_def)
    then show ?thesis using that by (auto simp: list_all_length positive_price_def)
  qed
  show "flt_le (window_low w) (c ! 1)" unfolding window_low_def
    by (rule py_min_list_le) (use assms(3) fin in \<open>auto simp: list_all_iff\<close>)
  show "flt_le (c ! 0) (window_high w)" unfolding window_high_def
    by (rule py_max_list_ge) (use assms(3) fin in \<open>auto simp: list_all_iff\<close>)
qed

lemma derived_structure:
  assumes "derive_setup_structure_with_diagnostics candles side lookback = Inr (st, None)"
  obtains w where "read_window (last_n lookback candles) = Inr (Some w)" "\<not> list_ex bad_candle w" "w \<noteq> []"
    "py_upper (py_strip side) \<in> {''LONG'', ''SHORT''}"
    "dget st ''structural_stop'' = VFloat (if py_upper (py_strip side) = ''LONG'' then window_low w else window_high w)"
    "dget st ''structural_target'' = VFloat (if py_upper (py_strip side) = ''LONG'' then window_high w else window_low w)"
proof -
  let ?s = "py_upper (py_strip side)"
  have side: "?s \<in> {''LONG'', ''SHORT''}"
    using assms unfolding derive_setup_structure_with_diagnostics_def Let_def no_geometry_def by (rule contrapos_pp) simp
  then have ok: "\<not> ?s \<notin> {''LONG'', ''SHORT''}" by blast
  have "\<not> int (length candles) < lookback"
    using assms unfolding derive_setup_structure_with_diagnostics_def Let_def no_geometry_def if_not_P [OF ok] by (rule contrapos_pn) simp
  note built = assms [unfolded derive_setup_structure_with_diagnostics_def Let_def no_geometry_def if_not_P [OF ok] if_not_P [OF this]]
  obtain found where f: "read_window (last_n lookback candles) = Inr found"
    using built by (cases "read_window (last_n lookback candles)") simp_all
  obtain w where w: "found = Some w" using built by (cases found) (simp_all add: f)
  have good: "\<not> list_ex bad_candle w" using built by (rule contrapos_pn) (simp add: f w)
  have some: "w \<noteq> []" using built by (rule contrapos_pn) (simp add: f w)
  have "st = (if ?s = ''LONG''
      then [(''structural_stop'', VFloat (window_low w)), (''structural_target'', VFloat (window_high w)),
            (''stop_source'', VStr ''setup_window_support''), (''target_source'', VStr ''setup_window_resistance'')]
      else [(''structural_stop'', VFloat (window_high w)), (''structural_target'', VFloat (window_low w)),
            (''stop_source'', VStr ''setup_window_resistance''), (''target_source'', VStr ''setup_window_support'')])"
    using built good some unfolding f w window_low_def window_high_def by simp
  then show thesis by (intro that [of w]) (use f w good some side in simp_all)
qed

lemma fsub_pos_less: "\<not> flt_le (fsub a b) (Fin 0) \<Longrightarrow> is_finite a \<Longrightarrow> is_finite b \<Longrightarrow> flt_less b a"
  by (auto elim!: is_finiteE dest: fsub_pos)

lemma built_structure:
  assumes "build_structural_geometry_with_diagnostics entry side info st = Inr (g, None)"
    and "dget st ''structural_stop'' = VFloat stop" "dget st ''structural_target'' = VFloat target"
  obtains e where "py_float entry = Inr e" "dget g ''entry'' = VFloat e" "dget g ''sl'' = VFloat stop" "dget g ''tp'' = VFloat target"
    "dget g ''side'' = VStr (py_upper (py_strip side))"
    "py_upper (py_strip side) = ''LONG'' \<Longrightarrow> flt_less stop e \<and> flt_less e target"
    "py_upper (py_strip side) = ''SHORT'' \<Longrightarrow> flt_less e stop \<and> flt_less target e"
proof -
  let ?s = "py_upper (py_strip side)"
  let ?qs = "[([(''entry'', entry)], ''entry''), (st, ''structural_stop''), (st, ''structural_target'')]"
  have side: "?s \<in> {''LONG'', ''SHORT''}"
    using assms(1) unfolding build_structural_geometry_with_diagnostics_def Let_def no_geometry_def by (rule contrapos_pp) simp
  then have ok: "\<not> ?s \<notin> {''LONG'', ''SHORT''}" by blast
  note built = assms(1) [unfolded build_structural_geometry_with_diagnostics_def Let_def no_geometry_def if_not_P [OF ok]]
  obtain found where f: "try_prices ?qs = Inr found" using built by (cases "try_prices ?qs") simp_all
  obtain ps where p: "found = Some ps" using built by (cases found) (simp_all add: f)
  have st: "map_of st ''structural_stop'' = Some (VFloat stop)" "map_of st ''structural_target'' = Some (VFloat target)"
    using assms(2, 3) by (auto simp: dget_def dget_or_def split: option.splits)
  have "mapE read_price ?qs = Inr ps" using f p by (auto simp: try_prices_def split: sum.splits if_splits)
  then obtain e where e: "py_float entry = Inr e" "ps = [e, stop, target]" by (auto simp: read_price_def st bindE_Inr_iff)
  let ?risk = "if ?s = ''LONG'' then fsub e stop else fsub stop e"
  let ?reward = "if ?s = ''LONG'' then fsub target e else fsub e target"
  have pos: "list_all positive_price [e, stop, target]" using built by (rule contrapos_pp) (simp add: f p e)
  have risk: "\<not> flt_le ?risk (Fin 0)" using built pos by (auto simp: f p e split: if_splits)
  have reward: "\<not> flt_le ?reward (Fin 0)" using built pos by (auto simp: f p e split: if_splits)
  have g: "dget g ''entry'' = VFloat e" "dget g ''sl'' = VFloat stop" "dget g ''tp'' = VFloat target" "dget g ''side'' = VStr ?s"
    using built pos risk reward by (auto simp: f p e split: if_splits)
  have fin: "is_finite e" "is_finite stop" "is_finite target" using pos by (simp_all add: positive_price_def)
  show thesis
    by (rule that [OF e(1) g]) (use risk reward fsub_pos_less fin in simp_all)
qed

text \<open>C39: geometry built on a derived setup structure spans its window: the stop lies beyond every
  candle of the window on the losing side, the target beyond every candle on the winning side, and the
  entry strictly between them.
\<close>
theorem structural_geometry_spans_window:
  assumes "derive_setup_structure_with_diagnostics candles side lookback = Inr (st, None)"
    and "build_structural_geometry_with_diagnostics entry side info st = Inr (g, None)"
  shows "\<exists>w e sl tp. read_window (last_n lookback candles) = Inr (Some w) \<and> py_float entry = Inr e \<and>
    dget g ''entry'' = VFloat e \<and> dget g ''sl'' = VFloat sl \<and> dget g ''tp'' = VFloat tp \<and>
    (if dget g ''side'' = VStr ''LONG''
     then flt_less sl e \<and> flt_less e tp \<and> list_all (\<lambda>c. flt_le sl (c ! 1) \<and> flt_le (c ! 0) tp) w
     else dget g ''side'' = VStr ''SHORT'' \<and> flt_less tp e \<and> flt_less e sl \<and> list_all (\<lambda>c. flt_le tp (c ! 1) \<and> flt_le (c ! 0) sl) w)"
proof -
  obtain w where w: "read_window (last_n lookback candles) = Inr (Some w)" "\<not> list_ex bad_candle w" "w \<noteq> []"
    "py_upper (py_strip side) \<in> {''LONG'', ''SHORT''}"
    "dget st ''structural_stop'' = VFloat (if py_upper (py_strip side) = ''LONG'' then window_low w else window_high w)"
    "dget st ''structural_target'' = VFloat (if py_upper (py_strip side) = ''LONG'' then window_high w else window_low w)"
    by (rule derived_structure [OF assms(1)])
  note bounds = window_bounds [OF w(2) read_window_rows [OF w(1)]]
  then have all: "list_all (\<lambda>c. flt_le (window_low w) (c ! 1) \<and> flt_le (c ! 0) (window_high w)) w" by (simp add: list_all_iff)
  show ?thesis
    by (rule built_structure [OF assms(2) w(5, 6)]) (use w(1, 4) all in auto)
qed

lemma structural_geometry_spans_window_witness:
  "\<exists>g w e sl tp. read_window (last_n 1 [demo_candle]) = Inr (Some w) \<and> py_float (VInt 3) = Inr e \<and>
    dget g ''entry'' = VFloat e \<and> dget g ''sl'' = VFloat sl \<and> dget g ''tp'' = VFloat tp \<and>
    (if dget g ''side'' = VStr ''LONG''
     then flt_less sl e \<and> flt_less e tp \<and> list_all (\<lambda>c. flt_le sl (c ! 1) \<and> flt_le (c ! 0) tp) w
     else dget g ''side'' = VStr ''SHORT'' \<and> flt_less tp e \<and> flt_less e sl \<and> list_all (\<lambda>c. flt_le tp (c ! 1) \<and> flt_le (c ! 0) sl) w)"
proof -
  let ?info = "\<lparr>st_type = ''T'', st_phase = ''P'', st_setup_timeframe = ''1h'', st_execution_timeframe = ''5m'', st_entry_source = ''close''\<rparr>"
  have u: "py_upper (py_strip '' long'') = ''LONG''" by code_simp
  have "read_window (last_n 1 [demo_candle]) = Inr (Some [[Fin 4, Fin 1, Fin 3]])"
    by (simp add: read_window_def last_n_def demo_candle_def read_price_def int_to_float_small)
  then obtain st where st: "derive_setup_structure_with_diagnostics [demo_candle] '' long'' 1 = Inr (st, None)"
    "map_of st ''structural_stop'' = Some (VFloat (Fin 1))" "map_of st ''structural_target'' = Some (VFloat (Fin 4))"
    using u by (simp add: derive_setup_structure_with_diagnostics_def bad_candle_def positive_price_def py_min_list_def py_max_list_def)
  moreover obtain g where "build_structural_geometry_with_diagnostics (VInt 3) '' long'' ?info st = Inr (g, None)"
    using u st(2, 3) by (simp add: build_structural_geometry_with_diagnostics_def try_prices_def read_price_def int_to_float_small
      positive_price_def fsub_def Let_def fl_numeral fl_1)
  ultimately show ?thesis using structural_geometry_spans_window by blast
qed

section \<open>Regime authority\<close>

record regime_entry =
  rg_activation :: string
  rg_evidence :: "string list"
  rg_policy :: string
  rg_phases :: "string list"

definition unvalidated :: "string list \<Rightarrow> regime_entry" where
  "unvalidated evidence = \<lparr>rg_activation = ''UNVALIDATED'', rg_evidence = evidence,
     rg_policy = ''NO_TRADE_UNTIL_VALIDATED'', rg_phases = []\<rparr>"

definition REGIME_DEFINITIONS :: "(string \<times> regime_entry) list" where
  "REGIME_DEFINITIONS =
    [(''TRENDING'', \<lparr>rg_activation = ''ACTIVE'', rg_evidence = [''20_closed_ohlc'', ''8_20_ma_direction''],
        rg_policy = ''REGIME_GUIDED_LEGACY'', rg_phases = [''CONTINUATION'', ''PULLBACK'', ''REENTRY_READY'']\<rparr>),
     (''CHOPPY'', \<lparr>rg_activation = ''ACTIVE'', rg_evidence = [''20_closed_ohlc'', ''8_20_ma_neutral''],
        rg_policy = ''NO_TRADE'', rg_phases = []\<rparr>),
     (''MEAN_REVERTING'', unvalidated [''validated_mean_reversion_classifier'']),
     (''PANIC'', unvalidated [''validated_panic_classifier'']),
     (''LOW_LIQUIDITY'', unvalidated [''measured_liquidity_authority'', ''validated_low_liquidity_classifier'']),
     (''BREAKOUT'', unvalidated [''validated_breakout_classifier'']),
     (''SHORT_SQUEEZE'', unvalidated [''validated_derivatives_squeeze_classifier'']),
     (''RANGE_COMPRESSION'', unvalidated [''validated_range_compression_classifier'']),
     (''NEWS_DRIVEN'', \<lparr>rg_activation = ''UNAVAILABLE_NO_AUTHORITATIVE_EVENT_SOURCE'',
        rg_evidence = [''authoritative_event_source'', ''event_publication_time_lte_decision_time''],
        rg_policy = ''NO_TRADE_UNTIL_VALIDATED'', rg_phases = []\<rparr>),
     (''UNKNOWN'', \<lparr>rg_activation = ''UNAVAILABLE'', rg_evidence = [], rg_policy = ''NO_TRADE_FAIL_CLOSED'', rg_phases = []\<rparr>)]"

definition QUALIFIABLE_REGIME_STATES :: "string list" where
  "QUALIFIABLE_REGIME_STATES = [''TRENDING'', ''CHOPPY'']"

definition normalize_regime_name :: "pyval \<Rightarrow> string" where
  "normalize_regime_name v = (let s = py_upper (py_str (if truthy v then v else VStr ''UNKNOWN'')) in
     if s \<in> set (map fst REGIME_DEFINITIONS) then s else ''UNKNOWN'')"

definition regime_definition :: "pyval \<Rightarrow> regime_entry" where
  "regime_definition v = the (map_of REGIME_DEFINITIONS (normalize_regime_name v))"

definition is_qualifiable_regime :: "pyval \<Rightarrow> bool" where
  "is_qualifiable_regime v \<longleftrightarrow> normalize_regime_name v \<in> set QUALIFIABLE_REGIME_STATES"

definition regime_authority_metadata :: "pyval \<Rightarrow> bool \<Rightarrow> pydict" where
  "regime_authority_metadata v classification_complete =
    (let state = normalize_regime_name v; d = regime_definition (VStr state); active = rg_activation d in
     [(''regime_authority_version'', VStr ''canonical-regime-v1''),
      (''classification_status'', VStr (if \<not> classification_complete then ''INCOMPLETE''
         else if active = ''ACTIVE'' then ''COMPLETE'' else active)),
      (''qualification_eligible'', VBool (classification_complete \<and> is_qualifiable_regime (VStr state))),
      (''activation_status'', VStr active), (''trade_policy'', VStr (rg_policy d)),
      (''allowed_strategy_phases'', VList (map VStr (rg_phases d))),
      (''required_regime_evidence'', VList (map VStr (rg_evidence d))),
      (''transition_policy'', VStr ''CLOSED_CANDLE_ONLY''), (''future_evidence_policy'', VStr ''REJECT''),
      (''hysteresis_policy'', VStr ''LEGACY_SINGLE_DIRECTION_THRESHOLD_NO_SECONDARY_BAND''),
      (''unvalidated_transition_policy'', VStr ''BLOCK'')])"

lemma normalize_regime_known: "normalize_regime_name v \<in> set (map fst REGIME_DEFINITIONS)"
proof -
  have "''UNKNOWN'' \<in> set (map fst REGIME_DEFINITIONS)" by code_simp
  then show ?thesis by (simp add: normalize_regime_name_def Let_def)
qed

lemma regime_names_fixed:
  "list_all (\<lambda>s. normalize_regime_name (VStr s) = s) (map fst REGIME_DEFINITIONS)"
  by code_simp

lemma normalize_regime_idem: "normalize_regime_name (VStr (normalize_regime_name v)) = normalize_regime_name v"
  using regime_names_fixed normalize_regime_known by (simp only: list_all_iff)

lemma regime_table:
  "list_all (\<lambda>(s, d). (rg_activation d = ''ACTIVE'' \<longleftrightarrow> s \<in> set QUALIFIABLE_REGIME_STATES)
     \<and> rg_activation d \<noteq> ''COMPLETE'' \<and> (rg_phases d \<noteq> [] \<longleftrightarrow> s = ''TRENDING'')
     \<and> (s = ''TRENDING'' \<longleftrightarrow> take 8 (rg_policy d) \<noteq> ''NO_TRADE''))
   REGIME_DEFINITIONS"
  by code_simp

lemma known_regimes: "map fst REGIME_DEFINITIONS = [''TRENDING'', ''CHOPPY'', ''MEAN_REVERTING'', ''PANIC'', ''LOW_LIQUIDITY'',
    ''BREAKOUT'', ''SHORT_SQUEEZE'', ''RANGE_COMPRESSION'', ''NEWS_DRIVEN'', ''UNKNOWN'']"
  by (simp add: REGIME_DEFINITIONS_def)

definition written_label :: "pyval \<Rightarrow> string" where
  \<comment> \<open>the label a producer wrote, whatever its case; a value that is not truthy counts as none\<close>
  "written_label v = (if truthy v then py_upper (py_str v) else [])"

lemma normalize_regime_label: "normalize_regime_name v =
    (if written_label v \<in> set (map fst REGIME_DEFINITIONS) then written_label v else ''UNKNOWN'')"
proof -
  have "py_upper ''UNKNOWN'' = ''UNKNOWN''" by code_simp
  then show ?thesis by (simp add: normalize_regime_name_def written_label_def Let_def known_regimes)
qed

text \<open>C40: no label becomes authority by being written, in whatever case: a regime qualifies, and its
  classification is COMPLETE, exactly when the classification is complete and the label written is
  TRENDING or CHOPPY; only TRENDING has strategy phases and a policy other than NO_TRADE; and two
  values whose labels are outside the vocabulary, or missing, are told the same as UNKNOWN.
\<close>
theorem regime_authority_is_validated:
  "let label = written_label v; md = regime_authority_metadata v classified in
     dget md ''qualification_eligible'' = VBool (classified \<and> (label = ''TRENDING'' \<or> label = ''CHOPPY''))
   \<and> (dget md ''classification_status'' = VStr ''COMPLETE'') = (classified \<and> (label = ''TRENDING'' \<or> label = ''CHOPPY''))
   \<and> (dget md ''allowed_strategy_phases'' = VList []) = (label \<noteq> ''TRENDING'')
   \<and> (\<exists>policy. dget md ''trade_policy'' = VStr policy \<and> (take 8 policy = ''NO_TRADE'') = (label \<noteq> ''TRENDING''))
   \<and> (label \<in> {''TRENDING'', ''CHOPPY'', ''MEAN_REVERTING'', ''PANIC'', ''LOW_LIQUIDITY'', ''BREAKOUT'', ''SHORT_SQUEEZE'',
        ''RANGE_COMPRESSION'', ''NEWS_DRIVEN''} \<or> md = regime_authority_metadata (VStr ''UNKNOWN'') classified)"
proof -
  let ?s = "normalize_regime_name v"
  define d where "d = regime_definition (VStr ?s)"
  have "(?s, d) \<in> set REGIME_DEFINITIONS"
    using normalize_regime_known [of v] unfolding d_def regime_definition_def normalize_regime_idem
    by (cases "map_of REGIME_DEFINITIONS ?s") (auto simp: map_of_eq_None_iff dest: map_of_SomeD)
  then have t: "(rg_activation d = ''ACTIVE'') = (?s \<in> set QUALIFIABLE_REGIME_STATES)" "rg_activation d \<noteq> ''COMPLETE''"
    "(rg_phases d \<noteq> []) = (?s = ''TRENDING'')" "(?s = ''TRENDING'') = (take 8 (rg_policy d) \<noteq> ''NO_TRADE'')"
    using regime_table by (auto simp only: list_all_iff case_prod_conv)
  have s: "(?s = ''TRENDING'') = (written_label v = ''TRENDING'')" "(?s = ''CHOPPY'') = (written_label v = ''CHOPPY'')"
    unfolding normalize_regime_label known_regimes by auto
  have unknown: "written_label v \<in> {''TRENDING'', ''CHOPPY'', ''MEAN_REVERTING'', ''PANIC'', ''LOW_LIQUIDITY'', ''BREAKOUT'',
      ''SHORT_SQUEEZE'', ''RANGE_COMPRESSION'', ''NEWS_DRIVEN''} \<or> normalize_regime_name (VStr ''UNKNOWN'') = ?s"
    using normalize_regime_idem unfolding normalize_regime_label known_regimes by (auto simp: written_label_def str_eval)
  have q: "is_qualifiable_regime (VStr ?s) = (written_label v = ''TRENDING'' \<or> written_label v = ''CHOPPY'')"
    "(rg_activation d = ''ACTIVE'') = (written_label v = ''TRENDING'' \<or> written_label v = ''CHOPPY'')"
    unfolding t(1) is_qualifiable_regime_def normalize_regime_idem s [symmetric] by (simp_all add: QUALIFIABLE_REGIME_STATES_def)
  let ?md = "regime_authority_metadata v classified"
  have same: "?md = regime_authority_metadata (VStr ''UNKNOWN'') classified" if "normalize_regime_name (VStr ''UNKNOWN'') = ?s"
    using that by (simp only: regime_authority_metadata_def)
  have outside: "written_label v \<in> {''TRENDING'', ''CHOPPY'', ''MEAN_REVERTING'', ''PANIC'', ''LOW_LIQUIDITY'', ''BREAKOUT'',
      ''SHORT_SQUEEZE'', ''RANGE_COMPRESSION'', ''NEWS_DRIVEN''} \<or> ?md = regime_authority_metadata (VStr ''UNKNOWN'') classified"
    by (rule disj_forward [OF unknown]) (assumption, rule same)
  have md: "dget ?md ''qualification_eligible'' = VBool (classified \<and> is_qualifiable_regime (VStr ?s))"
    "dget ?md ''classification_status'' = VStr (if \<not> classified then ''INCOMPLETE'' else if rg_activation d = ''ACTIVE'' then ''COMPLETE'' else rg_activation d)"
    "dget ?md ''allowed_strategy_phases'' = VList (map VStr (rg_phases d))" "dget ?md ''trade_policy'' = VStr (rg_policy d)"
    by (simp_all add: regime_authority_metadata_def Let_def d_def)
  have "(take 8 (rg_policy d) = ''NO_TRADE'') = (written_label v \<noteq> ''TRENDING'')" "(rg_phases d = []) = (written_label v \<noteq> ''TRENDING'')"
    using t(3, 4) s(1) by blast+
  moreover have "(dget ?md ''classification_status'' = VStr ''COMPLETE'') = (classified \<and> rg_activation d = ''ACTIVE'')"
    using t(2) unfolding md by simp
  ultimately show ?thesis
    using outside unfolding Let_def md(1, 3, 4) q by simp
qed

end
