(* ===== verification/ExecutionSafety.thy ===== *)
theory ExecutionSafety
  imports ExecutionCost
begin

section \<open>Execution safety gates (\<^verbatim>\<open>execution.py\<close>)\<close>

text \<open>
  The two contracts an order passes before it is submitted: the authority over the
  microstructure evidence (depth, imbalance, spoofing, absorption) and the execution-safety
  evaluation, which decides from the evidence and the protected limits. A result dictionary
  is a record here. What can raise (reading a number, reading a limit) is evaluated first,
  in the order of the code; the verdicts are functions of the values read.
\<close>

subsection \<open>The microstructure authority\<close>

definition LEGACY_EXTREME_ORDERBOOK_IMBALANCE :: flt where
  "LEGACY_EXTREME_ORDERBOOK_IMBALANCE = fl (90 / 100)"
definition LEGACY_EXTREME_SPOOF_RISK :: flt where
  "LEGACY_EXTREME_SPOOF_RISK = fl (80 / 100)"
definition MICROSTRUCTURE_COMPLETE_MEASURED :: string where
  "MICROSTRUCTURE_COMPLETE_MEASURED = ''COMPLETE_MEASURED''"
definition MICROSTRUCTURE_PARTIAL_ESTIMATED :: string where
  "MICROSTRUCTURE_PARTIAL_ESTIMATED = ''PARTIAL_ESTIMATED''"
definition MICROSTRUCTURE_UNAVAILABLE_BLOCKING :: string where
  "MICROSTRUCTURE_UNAVAILABLE_BLOCKING = ''UNAVAILABLE_BLOCKING''"

lemmas microstructure_names = MICROSTRUCTURE_COMPLETE_MEASURED_def MICROSTRUCTURE_PARTIAL_ESTIMATED_def
  MICROSTRUCTURE_UNAVAILABLE_BLOCKING_def

definition finite_or_none :: "flt \<Rightarrow> flt option" where
  "finite_or_none x = (if is_finite x then Some x else None)"

definition finite_field :: "pydict \<Rightarrow> string \<Rightarrow> flt option py" where
  "finite_field ctx name =
    (let value = dget ctx name in
     if is_bool value \<or> in_strs value [[], ''UNKNOWN'', ''UNAVAILABLE''] then Inr None
     else catch_tv (bindE (py_float value) (\<lambda>parsed. Inr (finite_or_none parsed))) None)"

definition float_unless_bool :: "pyval \<Rightarrow> flt option py" where
  \<comment> \<open>\<^verbatim>\<open>try: float(v) if not isinstance(v, bool) else None except (TypeError, ValueError): None\<close>\<close>
  "float_unless_bool v =
    (if is_bool v then Inr None else catch_tv (bindE (py_float v) (\<lambda>x. Inr (Some x))) None)"

record MicroInputs =
  orderbook_imbalance :: "flt option"
  spoof_risk :: "flt option"
  absorption_score :: "flt option"
  liquidity_depth_usdt :: "flt option"
  observed_at :: "flt option"
  reference :: "flt option"
  max_age :: "flt option"

definition microstructure_inputs :: "pydict \<Rightarrow> pyval \<Rightarrow> pyval \<Rightarrow> MicroInputs py" where
  "microstructure_inputs ctx now_ts max_age_sec =
    bindE (finite_field ctx ''orderbook_imbalance'') (\<lambda>im.
    bindE (finite_field ctx ''spoof_risk'') (\<lambda>sp.
    bindE (finite_field ctx ''absorption_score'') (\<lambda>ab.
    bindE (finite_field ctx ''liquidity_depth_usdt'') (\<lambda>de.
    bindE (finite_field ctx ''microstructure_observed_at'') (\<lambda>ob.
    bindE (float_unless_bool (if now_ts \<noteq> VNone then now_ts else dget ctx ''microstructure_reference_ts'')) (\<lambda>ref.
    bindE (float_unless_bool max_age_sec) (\<lambda>age.
      Inr \<lparr>orderbook_imbalance = im, spoof_risk = sp, absorption_score = ab, liquidity_depth_usdt = de,
           observed_at = ob, reference = Option.bind ref finite_or_none,
           max_age = Option.bind age (\<lambda>a. if is_finite a \<and> flt_less (Fin 0) a then Some a else None)\<rparr>)))))))"

definition micro_fields :: "MicroInputs \<Rightarrow> (string \<times> flt option \<times> string \<times> string) list" where
  \<comment> \<open>field, value, status key, source key\<close>
  "micro_fields inp =
    [(''orderbook_imbalance'', orderbook_imbalance inp, ''orderbook_status'', ''orderbook_source''),
     (''spoof_risk'', spoof_risk inp, ''spoof_status'', ''spoof_source''),
     (''absorption_score'', absorption_score inp, ''absorption_status'', ''absorption_source''),
     (''liquidity_depth_usdt'', liquidity_depth_usdt inp, ''liquidity_depth_status'', ''liquidity_depth_source'')]"

definition outside :: "flt option \<Rightarrow> flt \<Rightarrow> flt \<Rightarrow> bool" where
  \<comment> \<open>\<^verbatim>\<open>x is not None and not lo <= x <= hi\<close>\<close>
  "outside x lo hi = (case x of None \<Rightarrow> False | Some y \<Rightarrow> \<not> (flt_le lo y \<and> flt_le y hi))"

definition micro_invalid_fields :: "pydict \<Rightarrow> MicroInputs \<Rightarrow> string list" where
  "micro_invalid_fields ctx inp =
     map fst (filter (\<lambda>(f, v, _). \<not> unavailable_value (dget ctx f) \<and> v = None) (micro_fields inp))
   @ flag_if (outside (orderbook_imbalance inp) (Fin (- 1)) (Fin 1)) ''orderbook_imbalance''
   @ flag_if (outside (spoof_risk inp) (Fin 0) (Fin 1)) ''spoof_risk''
   @ flag_if (outside (absorption_score inp) (Fin 0) (Fin 1)) ''absorption_score''
   @ flag_if (case liquidity_depth_usdt inp of None \<Rightarrow> False | Some d \<Rightarrow> flt_le d (Fin 0)) ''liquidity_depth_usdt''"

definition micro_side :: "pydict \<Rightarrow> pyval \<Rightarrow> string" where
  "micro_side ctx side = py_upper (py_str (py_or side (py_or (dget ctx ''trade_side'') (VStr []))))"

definition micro_missing_fields :: "pydict \<Rightarrow> pyval \<Rightarrow> bool \<Rightarrow> MicroInputs \<Rightarrow> string list" where
  "micro_missing_fields ctx side require_measured inp =
    (if \<not> require_measured then [] else
       concat (map (\<lambda>(f, v, status_key, source_key).
           let source = py_upper (py_strip (str_or (dget_or ctx source_key (VStr [])) [])) in
           flag_if (v = None \<or> upper_or_blank ctx status_key \<notin> set MEASURED_STATUSES) f
           @ flag_if (source = [] \<or> source \<in> set UNAVAILABLE_STATUSES \<or> source = ''UNKNOWN'') (f @ ''_source''))
         (micro_fields inp))
     @ flag_if (micro_side ctx side \<notin> {''LONG'', ''SHORT''}) ''trade_side''
     @ flag_if (\<not> is_bool (dget ctx ''spoof_confirmed'')) ''spoof_confirmed''
     @ flag_if (\<not> is_bool (dget ctx ''absorption_execution_ok'')) ''absorption_execution_ok''
     @ flag_if (case observed_at inp of None \<Rightarrow> True | Some t \<Rightarrow> flt_le t (Fin 0)) ''microstructure_observed_at''
     @ flag_if (reference inp = None \<or> max_age inp = None) ''microstructure_freshness_policy'')"

definition micro_age :: "bool \<Rightarrow> MicroInputs \<Rightarrow> flt option" where
  "micro_age require_measured inp =
    (case (observed_at inp, reference inp, max_age inp) of
       (Some ob, Some ref, Some age) \<Rightarrow> if require_measured then Some (fsub ref ob) else None
     | _ \<Rightarrow> None)"

definition micro_blockers :: "pydict \<Rightarrow> pyval \<Rightarrow> bool \<Rightarrow> MicroInputs \<Rightarrow> string list" where
  "micro_blockers ctx side require_measured inp =
    (let s = micro_side ctx side in py_unique (
       flag_if (micro_invalid_fields ctx inp \<noteq> []) ''MICROSTRUCTURE_EVIDENCE_INVALID''
     @ flag_if (require_measured \<and> micro_missing_fields ctx side require_measured inp \<noteq> [])
         ''MICROSTRUCTURE_CONTEXT_UNAVAILABLE''
     @ (case (micro_age require_measured inp, max_age inp) of
          (Some age, Some limit) \<Rightarrow>
            if flt_less age (Fin 0) then [''MICROSTRUCTURE_TIMESTAMP_INVALID'']
            else flag_if (flt_less limit age) ''STALE_MICROSTRUCTURE''
        | _ \<Rightarrow> [])
     @ (case orderbook_imbalance inp of None \<Rightarrow> []
        | Some im \<Rightarrow> flag_if
            ((s = ''LONG'' \<and> flt_le im (fneg LEGACY_EXTREME_ORDERBOOK_IMBALANCE)) \<or>
             (s = ''SHORT'' \<and> flt_le LEGACY_EXTREME_ORDERBOOK_IMBALANCE im)) ''ADVERSE_ORDERBOOK_IMBALANCE'')
     @ (case spoof_risk inp of None \<Rightarrow> []
        | Some sp \<Rightarrow> flag_if (flt_le LEGACY_EXTREME_SPOOF_RISK sp \<and> dget ctx ''spoof_confirmed'' = VBool True)
            ''SPOOF_RISK'')
     @ flag_if (dget ctx ''absorption_execution_ok'' = VBool False) ''ADVERSE_ABSORPTION''))"

definition micro_evidence_status :: "pydict \<Rightarrow> pyval \<Rightarrow> bool \<Rightarrow> MicroInputs \<Rightarrow> string" where
  "micro_evidence_status ctx side require_measured inp =
    (if micro_invalid_fields ctx inp \<noteq> [] \<or>
        (require_measured \<and> micro_missing_fields ctx side require_measured inp \<noteq> [])
       then MICROSTRUCTURE_UNAVAILABLE_BLOCKING
     else if require_measured then MICROSTRUCTURE_COMPLETE_MEASURED
     else if \<exists>(_, _, k, _) \<in> set (micro_fields inp). upper_or_blank ctx k \<in> set ESTIMATED_STATUSES
       then MICROSTRUCTURE_PARTIAL_ESTIMATED
     else if \<forall>(_, v, k, _) \<in> set (micro_fields inp). v \<noteq> None \<and> upper_or_blank ctx k \<in> set MEASURED_STATUSES
       then MICROSTRUCTURE_COMPLETE_MEASURED
     else MICROSTRUCTURE_UNAVAILABLE_BLOCKING)"

record MicrostructureAuthority =
  ms_accepted :: bool
  live_equivalent :: bool
  ms_evidence_status :: string
  blocking_reasons :: "string list"
  ms_missing_fields :: "string list"
  ms_invalid_fields :: "string list"
  ms_observed_at :: "flt option"
  age_sec :: "flt option"
  ms_max_age_sec :: "flt option"
  ms_side :: "string option"

definition evaluate_microstructure_authority ::
  "pydict \<Rightarrow> pyval \<Rightarrow> bool \<Rightarrow> pyval \<Rightarrow> pyval \<Rightarrow> MicrostructureAuthority py" where
  "evaluate_microstructure_authority ctx side require_measured now_ts max_age_sec =
    bindE (microstructure_inputs ctx now_ts max_age_sec) (\<lambda>inp.
      let invalid = micro_invalid_fields ctx inp;
          missing = micro_missing_fields ctx side require_measured inp;
          blockers = micro_blockers ctx side require_measured inp;
          status = micro_evidence_status ctx side require_measured inp;
          s = micro_side ctx side
      in Inr \<lparr>ms_accepted = (if require_measured then blockers = [] else True),
              live_equivalent = (status = MICROSTRUCTURE_COMPLETE_MEASURED \<and> invalid = [] \<and> missing = [] \<and>
                ''STALE_MICROSTRUCTURE'' \<notin> set blockers \<and> ''MICROSTRUCTURE_TIMESTAMP_INVALID'' \<notin> set blockers),
              ms_evidence_status = status, blocking_reasons = blockers,
              ms_missing_fields = sorted_set missing, ms_invalid_fields = sorted_set invalid,
              ms_observed_at = observed_at inp, age_sec = micro_age require_measured inp,
              ms_max_age_sec = max_age inp, ms_side = (if s = [] then None else Some s)\<rparr>)"

text \<open>The four constant entries of the result dictionary (the documented semantics) are left out.\<close>

subsection \<open>The execution-safety evaluation\<close>

definition number :: "pydict \<Rightarrow> string \<Rightarrow> flt option py" where
  "number ctx field =
    (let value = dget ctx field in
     if is_bool value \<or> unavailable_value value then Inr None
     else catch_tv (bindE (py_float value) (\<lambda>parsed. Inr (finite_or_none parsed))) None)"

fun threshold :: "pydict \<Rightarrow> string list \<Rightarrow> flt \<Rightarrow> flt py" where
  "threshold t [] d = Inr d"
| "threshold t (k # ks) d = (if in_strs (dget t k) [[]] then threshold t ks d else py_float (dget t k))"

record SafetyLimits =
  max_spread :: flt
  max_slippage :: flt
  max_total_cost :: flt
  min_liquidity :: flt
  max_latency :: flt
  max_volatility_penalty :: flt
  max_funding :: flt

definition safety_limits :: "pydict \<Rightarrow> SafetyLimits py" where
  "safety_limits t =
    bindE (threshold t [''MAX_SPREAD_PCT'', ''max_spread_pct''] (fl (25 / 10000))) (\<lambda>sp.
    bindE (threshold t [''MAX_EXPECTED_SLIPPAGE_PCT'', ''MAX_SLIPPAGE_PCT'', ''max_expected_slippage_pct''] (fl (2 / 1000))) (\<lambda>sl.
    bindE (threshold t [''MAX_TOTAL_COST_PCT'', ''max_total_cost_pct''] (fl (20 / 100))) (\<lambda>tc.
    bindE (threshold t [''MIN_LIQUIDITY_SCORE'', ''min_liquidity_score''] (fl (30 / 100))) (\<lambda>li.
    bindE (threshold t [''MAX_LATENCY_MS'', ''max_latency_ms''] (Fin 2500)) (\<lambda>la.
    bindE (threshold t [''MAX_VOLATILITY_PENALTY_PCT'', ''max_volatility_penalty_pct''] (fl (20 / 100))) (\<lambda>vo.
    bindE (threshold t [''MAX_ABS_FUNDING_RATE_PCT'', ''max_abs_funding_rate_pct''] (fl (1 / 1000))) (\<lambda>fu.
      Inr \<lparr>max_spread = sp, max_slippage = sl, max_total_cost = tc, min_liquidity = li, max_latency = la,
           max_volatility_penalty = vo, max_funding = fu\<rparr>)))))))"

record SafetyPolicy =
  reject_unknown :: bool
  orderbook_required :: bool
  microstructure_required :: bool

definition safety_policy :: "pydict \<Rightarrow> SafetyPolicy" where
  "safety_policy t =
    \<lparr>reject_unknown = truthy (dget_first t [''REJECT_UNKNOWN_EXECUTION_CONTEXT'', ''reject_unknown_execution_context''] (VBool True)),
     orderbook_required = truthy (dget_first t [''ENABLE_ORDERBOOK_FILTER'', ''enable_orderbook_filter''] (VBool False)),
     microstructure_required = truthy (dget_or t ''REQUIRE_LIVE_MICROSTRUCTURE'' (VBool False))\<rparr>"

definition status_key :: "string \<Rightarrow> string" where
  "status_key field = (case map_of
    [(''spread_pct'', ''spread_status''), (''expected_slippage_pct'', ''slippage_status''),
     (''latency_ms'', ''latency_status''), (''liquidity_score'', ''liquidity_status''),
     (''funding_rate_pct'', ''funding_status''), (''fee_pct'', ''fee_status''),
     (''volatility_regime'', ''volatility_status''), (''orderbook_imbalance'', ''orderbook_status'')] field of
     None \<Rightarrow> [] | Some k \<Rightarrow> k)"

definition field_status :: "pydict \<Rightarrow> string \<Rightarrow> string" where
  "field_status ctx field = upper_or_blank ctx (status_key field)"

definition critical_fields :: "bool \<Rightarrow> bool \<Rightarrow> string list" where
  "critical_fields require_measured orderbook_req =
    [''spread_pct'', ''expected_slippage_pct'', ''latency_ms'', ''liquidity_score'', ''funding_rate_pct'', ''fee_pct'']
    @ flag_if require_measured ''volatility_regime'' @ flag_if orderbook_req ''orderbook_imbalance''"

definition numeric_fields :: "string list" where
  "numeric_fields = [''spread_pct'', ''expected_slippage_pct'', ''latency_ms'', ''liquidity_score'',
     ''funding_rate_pct'', ''fee_pct'', ''orderbook_imbalance'']"

definition numbers :: "flt option list \<Rightarrow> string \<Rightarrow> flt option" where
  "numbers vals f = (case map_of (zip numeric_fields vals) f of None \<Rightarrow> None | Some x \<Rightarrow> x)"

definition field_missing :: "pydict \<Rightarrow> bool \<Rightarrow> string \<Rightarrow> bool" where
  "field_missing ctx require_measured field \<longleftrightarrow>
     unavailable_value (dget ctx field) \<or> field_status ctx field \<in> set UNAVAILABLE_STATUSES \<or>
     (require_measured \<and> field \<noteq> ''fee_pct'' \<and> field_status ctx field \<notin> set MEASURED_STATUSES)"

definition invalid_numeric_fields :: "pydict \<Rightarrow> (string \<Rightarrow> flt option) \<Rightarrow> string list" where
  "invalid_numeric_fields ctx num = filter (\<lambda>f. \<not> unavailable_value (dget ctx f) \<and> num f = None) numeric_fields"

definition safety_missing_fields ::
  "pydict \<Rightarrow> (string \<Rightarrow> flt option) \<Rightarrow> bool \<Rightarrow> SafetyPolicy \<Rightarrow> MicrostructureAuthority \<Rightarrow> string list" where
  "safety_missing_fields ctx num require_measured pol ms =
     filter (field_missing ctx require_measured) (critical_fields require_measured (orderbook_required pol))
   @ invalid_numeric_fields ctx num
   @ (if microstructure_required pol
      then map ((@) ''microstructure.'') (ms_missing_fields ms) @ map ((@) ''microstructure.'') (ms_invalid_fields ms)
      else [])"

definition safety_fake_zero_fields :: "pydict \<Rightarrow> (string \<Rightarrow> flt option) \<Rightarrow> bool \<Rightarrow> SafetyPolicy \<Rightarrow> string list" where
  "safety_fake_zero_fields ctx num require_measured pol =
     filter (\<lambda>f. require_measured \<and> num f = Some (Fin 0) \<and> field_status ctx f \<in> set MEASURED_STATUSES \<and>
                 \<not> zero_verified ctx f)
       ([''spread_pct'', ''expected_slippage_pct'', ''latency_ms''] @ flag_if require_measured ''funding_rate_pct''
        @ flag_if (orderbook_required pol) ''orderbook_imbalance'')"

definition safety_evidence_status ::
  "pydict \<Rightarrow> bool \<Rightarrow> SafetyPolicy \<Rightarrow> MicrostructureAuthority \<Rightarrow> string list \<Rightarrow> string list \<Rightarrow> string \<Rightarrow> string" where
  "safety_evidence_status ctx require_measured pol ms missing fake_zero raw_status =
    (let active = map (field_status ctx) (critical_fields require_measured (orderbook_required pol)) in
     if fake_zero \<noteq> [] then EXECUTION_EVIDENCE_INVALID_FAKE_ZERO
     else if missing \<noteq> [] \<or> (microstructure_required pol \<and>
         py_upper (ms_evidence_status ms) \<noteq> MICROSTRUCTURE_COMPLETE_MEASURED) then EXECUTION_EVIDENCE_UNAVAILABLE_BLOCKING
     else if require_measured then EXECUTION_EVIDENCE_COMPLETE_MEASURED
     else if \<exists>s \<in> set active. s \<in> set ESTIMATED_STATUSES then EXECUTION_EVIDENCE_PARTIAL_ESTIMATED
     else if active \<noteq> [] \<and> (\<forall>s \<in> set active. s \<in> set MEASURED_STATUSES) then EXECUTION_EVIDENCE_COMPLETE_MEASURED
     else raw_status)"

record GateEvidence =
  gate :: string
  observed :: pyval
  gate_threshold :: pyval
  comparison :: string

definition gate_if :: "bool \<Rightarrow> string \<Rightarrow> pyval \<Rightarrow> pyval \<Rightarrow> string \<Rightarrow> GateEvidence list" where
  \<comment> \<open>\<^verbatim>\<open>if c: fail(gate, observed, limit, comparison)\<close>\<close>
  "gate_if c g obs limit cmp = (if c then [\<lparr>gate = g, observed = obs, gate_threshold = limit, comparison = cmp\<rparr>] else [])"

definition strs_val :: "string list \<Rightarrow> pyval" where
  "strs_val xs = VList (map VStr xs)"

definition microstructure_gates :: "SafetyPolicy \<Rightarrow> MicrostructureAuthority \<Rightarrow> GateEvidence list" where
  "microstructure_gates pol ms =
    (if microstructure_required pol then map (\<lambda>g.
        \<lparr>gate = g,
         observed = VDict [(''missing_fields'', strs_val (ms_missing_fields ms)),
            (''invalid_fields'', strs_val (ms_invalid_fields ms)), (''age_sec'', flt_opt_val (age_sec ms))],
         gate_threshold = VStr ''AUTHORITATIVE_FRESH_MEASURED_MICROSTRUCTURE'', comparison = ''required''\<rparr>)
       (blocking_reasons ms)
     else [])"

definition limit_gates ::
  "(string \<Rightarrow> flt option) \<Rightarrow> SafetyLimits \<Rightarrow> flt \<Rightarrow> flt \<Rightarrow> GateEvidence list" where
  "limit_gates num lims vol total_explicit_cost =
     gate_if (above (num ''spread_pct'') (max_spread lims)) ''SPREAD_TOO_HIGH''
       (flt_opt_val (num ''spread_pct'')) (VFloat (max_spread lims)) ''>''
   @ gate_if (above (num ''expected_slippage_pct'') (max_slippage lims)) ''SLIPPAGE_TOO_HIGH''
       (flt_opt_val (num ''expected_slippage_pct'')) (VFloat (max_slippage lims)) ''>''
   @ gate_if (flt_less (max_total_cost lims) total_explicit_cost) ''HIGH_TOTAL_COST''
       (VFloat total_explicit_cost) (VFloat (max_total_cost lims)) ''>''
   @ gate_if (below (num ''liquidity_score'') (min_liquidity lims)) ''THIN_LIQUIDITY''
       (flt_opt_val (num ''liquidity_score'')) (VFloat (min_liquidity lims)) ''<''
   @ gate_if (above (num ''latency_ms'') (max_latency lims)) ''HIGH_LATENCY''
       (flt_opt_val (num ''latency_ms'')) (VFloat (max_latency lims)) ''>''
   @ gate_if (flt_less (max_volatility_penalty lims) vol) ''EXCESSIVE_VOLATILITY''
       (VFloat vol) (VFloat (max_volatility_penalty lims)) ''>''
   @ gate_if (above (map_option flt_abs (num ''funding_rate_pct'')) (max_funding lims)) ''FUNDING_TOO_HIGH''
       (flt_opt_val (map_option flt_abs (num ''funding_rate_pct''))) (VFloat (max_funding lims)) ''>''"

definition safety_gates ::
  "SafetyPolicy \<Rightarrow> MicrostructureAuthority \<Rightarrow> SafetyLimits \<Rightarrow> (string \<Rightarrow> flt option) \<Rightarrow> string list \<Rightarrow>
   string list \<Rightarrow> string list \<Rightarrow> flt \<Rightarrow> flt \<Rightarrow> flt option \<Rightarrow> flt \<Rightarrow> GateEvidence list" where
  "safety_gates pol ms lims num missing invalid fake_zero vol total_explicit_cost effective min_rr =
     microstructure_gates pol ms
   @ gate_if ((reject_unknown pol \<and> missing \<noteq> []) \<or> invalid \<noteq> []) ''EXECUTION_CONTEXT_UNAVAILABLE''
       (strs_val (sorted_set missing)) (VStr ''AVAILABLE'') ''required''
   @ gate_if (fake_zero \<noteq> []) ''INVALID_FAKE_ZERO''
       (strs_val (sorted_set fake_zero)) (VStr ''VERIFIED_ZERO_OR_NONZERO'') ''required''
   @ limit_gates num lims vol total_explicit_cost
   @ gate_if (effective = None \<or> below effective min_rr) ''LOW_EFFECTIVE_RR''
       (flt_opt_val effective) (VFloat min_rr) (if effective = None then ''FINITE_RR_REQUIRED'' else ''<'')"

definition gate_priority :: "string list" where
  "gate_priority = [''MICROSTRUCTURE_EVIDENCE_INVALID'', ''MICROSTRUCTURE_CONTEXT_UNAVAILABLE'',
    ''MICROSTRUCTURE_TIMESTAMP_INVALID'', ''STALE_MICROSTRUCTURE'', ''SPOOF_RISK'', ''ADVERSE_ORDERBOOK_IMBALANCE'',
    ''ADVERSE_ABSORPTION'', ''EXECUTION_CONTEXT_UNAVAILABLE'', ''INVALID_FAKE_ZERO'', ''SPREAD_TOO_HIGH'',
    ''SLIPPAGE_TOO_HIGH'', ''HIGH_TOTAL_COST'', ''THIN_LIQUIDITY'', ''HIGH_LATENCY'', ''EXCESSIVE_VOLATILITY'',
    ''FUNDING_TOO_HIGH'', ''LOW_EFFECTIVE_RR'']"

record SafetyResult =
  accepted :: bool
  primary_reject_reason :: "string option"
  all_failed_gates :: "string list"
  failed_gate_evidence :: "GateEvidence list"
  execution_evidence_status :: string
  raw_execution_evidence_status :: string
  sr_missing_fields :: "string list"
  sr_fake_zero_fields :: "string list"
  sr_total_explicit_cost_pct :: flt
  sr_volatility_penalty :: flt
  sr_effective_rr :: "flt option"
  sr_min_effective_rr :: flt
  sr_require_measured :: bool
  sr_microstructure_required :: bool
  sr_microstructure :: MicrostructureAuthority

definition effective_or_none :: "pyval \<Rightarrow> flt option py" where
  "effective_or_none v =
    bindE (catch_tv (bindE (py_float v) (\<lambda>x. Inr (Some x))) None) (\<lambda>e.
      Inr (if is_bool v then None else Option.bind e finite_or_none))"

definition side_or_none :: "pydict \<Rightarrow> pyval" where
  \<comment> \<open>\<^verbatim>\<open>str(execution_ctx.get("trade_side") or "") or None\<close>\<close>
  "side_or_none ctx = (let s = str_or (dget ctx ''trade_side'') [] in if s = [] then VNone else VStr s)"

definition evaluate_execution_safety :: "pydict \<Rightarrow> pyval \<Rightarrow> pyval \<Rightarrow> pydict \<Rightarrow> bool \<Rightarrow> SafetyResult py" where
  "evaluate_execution_safety ctx eff_rr min_effective_rr t require_measured =
    bindE (build_execution_cost_model ctx False) (\<lambda>model.
    bindE (classify_execution_evidence ctx require_measured) (\<lambda>raw_status.
    bindE (safety_limits t) (\<lambda>lim.
    let pol = safety_policy t in
    bindE (evaluate_microstructure_authority ctx (side_or_none ctx) (microstructure_required pol)
       (dget ctx ''microstructure_reference_ts'')
       (dget_first t [''MICROSTRUCTURE_MAX_AGE_SEC'', ''STALE_MARKET_DATA_SEC''] VNone)) (\<lambda>ms.
    bindE (mapE (number ctx) numeric_fields) (\<lambda>vals.
    bindE (effective_or_none eff_rr) (\<lambda>effective.
    bindE (py_float min_effective_rr) (\<lambda>min_rr.
    let num = numbers vals;
        missing = safety_missing_fields ctx num require_measured pol ms;
        invalid = invalid_numeric_fields ctx num;
        fake_zero = safety_fake_zero_fields ctx num require_measured pol;
        total = explicit_cost [num ''spread_pct'', num ''expected_slippage_pct'', num ''fee_pct'', num ''funding_rate_pct''];
        evidence = safety_gates pol ms lim num missing invalid fake_zero (volatility_penalty model) total effective min_rr;
        failed = py_unique (map gate evidence)
    in Inr \<lparr>accepted = (failed = []),
            primary_reject_reason = find (\<lambda>g. g \<in> set failed) gate_priority,
            all_failed_gates = failed, failed_gate_evidence = evidence,
            execution_evidence_status = safety_evidence_status ctx require_measured pol ms missing fake_zero raw_status,
            raw_execution_evidence_status = raw_status,
            sr_missing_fields = sorted_set missing, sr_fake_zero_fields = sorted_set fake_zero,
            sr_total_explicit_cost_pct = total, sr_volatility_penalty = volatility_penalty model,
            sr_effective_rr = map_option (\<lambda>e. py_round e 6) effective, sr_min_effective_rr = min_rr,
            sr_require_measured = require_measured,
            sr_microstructure_required = microstructure_required pol, sr_microstructure = ms\<rparr>)))))))"

subsection \<open>Facts about the gates\<close>

lemma flag_if_Nil [simp]: "flag_if c f = [] \<longleftrightarrow> \<not> c" "x \<in> set (flag_if c f) \<longleftrightarrow> c \<and> x = f"
  by (auto simp: flag_if_def)

lemma gate_if_Nil [simp]: "gate_if c g x y z = [] \<longleftrightarrow> \<not> c"
  "map gate (gate_if c g x y z) = flag_if c g" "set (map gate (gate_if c g x y z)) = (if c then {g} else {})"
  by (simp_all add: gate_if_def flag_if_def)

lemma numbers_number:
  "mapE (number ctx) numeric_fields = Inr vals \<Longrightarrow> f \<in> set numeric_fields \<Longrightarrow> number ctx f = Inr (numbers vals f)"
  using mapE_lookup [of "number ctx" numeric_fields vals f] by (auto simp: numbers_def)

lemma evaluate_safetyE:
  assumes "evaluate_execution_safety ctx eff_rr min_rr0 t rm = Inr r"
  obtains model raw_status lims ms vals effective min_rr where
    "build_execution_cost_model ctx False = Inr model" "classify_execution_evidence ctx rm = Inr raw_status"
    "safety_limits t = Inr lims"
    "evaluate_microstructure_authority ctx (side_or_none ctx) (microstructure_required (safety_policy t))
       (dget ctx ''microstructure_reference_ts'')
       (dget_first t [''MICROSTRUCTURE_MAX_AGE_SEC'', ''STALE_MARKET_DATA_SEC''] VNone) = Inr ms"
    "mapE (number ctx) numeric_fields = Inr vals" "effective_or_none eff_rr = Inr effective"
    "py_float min_rr0 = Inr min_rr"
    "failed_gate_evidence r = safety_gates (safety_policy t) ms lims (numbers vals)
       (safety_missing_fields ctx (numbers vals) rm (safety_policy t) ms) (invalid_numeric_fields ctx (numbers vals))
       (safety_fake_zero_fields ctx (numbers vals) rm (safety_policy t)) (volatility_penalty model)
       (sr_total_explicit_cost_pct r) effective min_rr"
    "sr_total_explicit_cost_pct r = explicit_cost [numbers vals ''spread_pct'',
       numbers vals ''expected_slippage_pct'', numbers vals ''fee_pct'', numbers vals ''funding_rate_pct'']"
    "all_failed_gates r = py_unique (map gate (failed_gate_evidence r))"
    "accepted r \<longleftrightarrow> all_failed_gates r = []"
    "primary_reject_reason r = find (\<lambda>g. g \<in> set (all_failed_gates r)) gate_priority"
    "execution_evidence_status r = safety_evidence_status ctx rm (safety_policy t) ms
       (safety_missing_fields ctx (numbers vals) rm (safety_policy t) ms)
       (safety_fake_zero_fields ctx (numbers vals) rm (safety_policy t)) raw_status"
    "sr_volatility_penalty r = volatility_penalty model" "sr_microstructure r = ms"
    "sr_missing_fields r = sorted_set (safety_missing_fields ctx (numbers vals) rm (safety_policy t) ms)"
  using assms unfolding evaluate_execution_safety_def bindE_Inr_iff Let_def
  by (elim exE conjE) (simp only: sum.inject, hypsubst, fastforce)

lemma accepted_no_gates:
  assumes "accepted r" "accepted r \<longleftrightarrow> all_failed_gates r = []"
    "all_failed_gates r = py_unique (map gate (failed_gate_evidence r))"
  shows "failed_gate_evidence r = []"
  using assms by simp


lemma no_safety_gates:
  assumes "safety_gates pol ms lims num missing invalid fake_zero vol tot effective min_rr = []"
  shows "microstructure_gates pol ms = []" "reject_unknown pol \<Longrightarrow> missing = []" "invalid = []" "fake_zero = []"
    "limit_gates num lims vol tot = []" "effective \<noteq> None" "\<not> below effective min_rr"
  using assms by (auto simp: safety_gates_def)

lemma no_limit_gates:
  assumes "limit_gates num lims vol tot = []"
  shows "\<not> above (num ''spread_pct'') (max_spread lims)" "\<not> above (num ''expected_slippage_pct'') (max_slippage lims)"
    "\<not> flt_less (max_total_cost lims) tot" "\<not> below (num ''liquidity_score'') (min_liquidity lims)"
    "\<not> above (num ''latency_ms'') (max_latency lims)" "\<not> flt_less (max_volatility_penalty lims) vol"
    "\<not> above (map_option flt_abs (num ''funding_rate_pct'')) (max_funding lims)"
  using assms by (auto simp: limit_gates_def)

lemma effective_or_none_Some:
  "effective_or_none v = Inr (Some e) \<Longrightarrow> py_float v = Inr e \<and> is_finite e \<and> \<not> is_bool v"
  by (auto simp: effective_or_none_def bindE_Inr_iff catch_tv_def finite_or_none_def bind_eq_Some_conv
      split: sum.splits if_splits)

lemma set_numeric: "f \<in> set numeric_fields \<longleftrightarrow> f = ''spread_pct'' \<or> f = ''expected_slippage_pct'' \<or> f = ''latency_ms'' \<or>
    f = ''liquidity_score'' \<or> f = ''funding_rate_pct'' \<or> f = ''fee_pct'' \<or> f = ''orderbook_imbalance''"
  by (simp add: numeric_fields_def)

subsection \<open>Properties\<close>

text \<open>C7: an accepted order is inside every protected limit. Whatever the evidence policy,
  acceptance means that no supplied number is corrupt, that each number that was read keeps
  its limit, that the volatility penalty and the total explicit cost keep theirs, and that
  the effective risk/reward is a finite number not below its minimum.\<close>

theorem accepted_within_limits:
  assumes "evaluate_execution_safety ctx eff_rr min_rr0 t rm = Inr r" and "accepted r"
  shows "\<exists>lims e min_rr. safety_limits t = Inr lims \<and> py_float min_rr0 = Inr min_rr \<and>
    (\<forall>x. number ctx ''spread_pct'' = Inr (Some x) \<longrightarrow> \<not> flt_less (max_spread lims) x) \<and>
    (\<forall>x. number ctx ''expected_slippage_pct'' = Inr (Some x) \<longrightarrow> \<not> flt_less (max_slippage lims) x) \<and>
    (\<forall>x. number ctx ''liquidity_score'' = Inr (Some x) \<longrightarrow> \<not> flt_less x (min_liquidity lims)) \<and>
    (\<forall>x. number ctx ''latency_ms'' = Inr (Some x) \<longrightarrow> \<not> flt_less (max_latency lims) x) \<and>
    (\<forall>x. number ctx ''funding_rate_pct'' = Inr (Some x) \<longrightarrow> \<not> flt_less (max_funding lims) (flt_abs x)) \<and>
    \<not> flt_less (max_total_cost lims) (sr_total_explicit_cost_pct r) \<and>
    \<not> flt_less (max_volatility_penalty lims) (sr_volatility_penalty r) \<and>
    (\<forall>f \<in> set numeric_fields. \<not> unavailable_value (dget ctx f) \<longrightarrow> (\<exists>x. number ctx f = Inr (Some x))) \<and>
    py_float eff_rr = Inr e \<and> is_finite e \<and> \<not> flt_less e min_rr"
  using assms(1)
proof (rule evaluate_safetyE)
  fix model raw_status lims ms vals effective min_rr
  assume lims: "safety_limits t = Inr lims" and vals: "mapE (number ctx) numeric_fields = Inr vals"
    and eff: "effective_or_none eff_rr = Inr effective" and mr: "py_float min_rr0 = Inr min_rr"
    and ev: "failed_gate_evidence r = safety_gates (safety_policy t) ms lims (numbers vals)
       (safety_missing_fields ctx (numbers vals) rm (safety_policy t) ms) (invalid_numeric_fields ctx (numbers vals))
       (safety_fake_zero_fields ctx (numbers vals) rm (safety_policy t)) (volatility_penalty model)
       (sr_total_explicit_cost_pct r) effective min_rr"
    and fl: "all_failed_gates r = py_unique (map gate (failed_gate_evidence r))"
    and ac: "accepted r \<longleftrightarrow> all_failed_gates r = []" and vol: "sr_volatility_penalty r = volatility_penalty model"
  note none = no_safety_gates [OF accepted_no_gates [OF assms(2) ac fl, unfolded ev]]
  note l = no_limit_gates [OF none(5)]
  have num: "f \<in> set numeric_fields \<Longrightarrow> number ctx f = Inr (numbers vals f)" for f
    by (rule numbers_number [OF vals])
  obtain e where e: "effective = Some e" using none(6) by blast
  have inv: "\<exists>x. number ctx f = Inr (Some x)" if "f \<in> set numeric_fields" "\<not> unavailable_value (dget ctx f)" for f
    using none(3) that num [OF that(1)] by (auto simp: invalid_numeric_fields_def filter_empty_conv)
  have n: "number ctx ''spread_pct'' = Inr (numbers vals ''spread_pct'')"
    "number ctx ''expected_slippage_pct'' = Inr (numbers vals ''expected_slippage_pct'')"
    "number ctx ''liquidity_score'' = Inr (numbers vals ''liquidity_score'')"
    "number ctx ''latency_ms'' = Inr (numbers vals ''latency_ms'')"
    "number ctx ''funding_rate_pct'' = Inr (numbers vals ''funding_rate_pct'')"
    by (simp_all add: num set_numeric)
  have ef: "py_float eff_rr = Inr e" "is_finite e" using effective_or_none_Some [of eff_rr e] eff e by auto
  show ?thesis
    by (rule exI [of _ lims], rule exI [of _ e], rule exI [of _ min_rr], intro conjI lims mr ef ballI impI allI inv)
      (use l none(7) in \<open>auto simp: n e above_def below_def vol\<close>)
qed

text \<open>C30: a supplied number that is not a finite number is never waved through. A numeric
  field that is present but does not read as a finite number (text, a bool, a NaN, an
  infinity) rejects the order with EXECUTION_CONTEXT_UNAVAILABLE, also when the policy lets
  missing context pass.\<close>

theorem corrupt_number_rejects:
  assumes "evaluate_execution_safety ctx eff_rr min_rr0 t rm = Inr r"
    and "f \<in> set numeric_fields" and "\<not> unavailable_value (dget ctx f)" and "number ctx f = Inr None"
  shows "\<not> accepted r \<and> ''EXECUTION_CONTEXT_UNAVAILABLE'' \<in> set (all_failed_gates r) \<and> f \<in> set (sr_missing_fields r)"
proof -
  have inv: "f \<in> set (invalid_numeric_fields ctx (numbers vals))"
    if "mapE (number ctx) numeric_fields = Inr vals" for vals
    using assms(2-4) numbers_number [OF that assms(2)] by (simp add: invalid_numeric_fields_def)
  show ?thesis using assms(1)
  proof (rule evaluate_safetyE)
    fix model raw_status lims ms vals effective min_rr
    assume vals: "mapE (number ctx) numeric_fields = Inr vals"
      and ev: "failed_gate_evidence r = safety_gates (safety_policy t) ms lims (numbers vals)
         (safety_missing_fields ctx (numbers vals) rm (safety_policy t) ms) (invalid_numeric_fields ctx (numbers vals))
         (safety_fake_zero_fields ctx (numbers vals) rm (safety_policy t)) (volatility_penalty model)
         (sr_total_explicit_cost_pct r) effective min_rr"
      and fl: "all_failed_gates r = py_unique (map gate (failed_gate_evidence r))"
      and ac: "accepted r \<longleftrightarrow> all_failed_gates r = []"
      and mi: "sr_missing_fields r = sorted_set (safety_missing_fields ctx (numbers vals) rm (safety_policy t) ms)"
    have "f \<in> set (sr_missing_fields r)" using inv [OF vals] by (simp add: mi safety_missing_fields_def)
    moreover have "invalid_numeric_fields ctx (numbers vals) \<noteq> []" using inv [OF vals] by auto
    then have "''EXECUTION_CONTEXT_UNAVAILABLE'' \<in> set (map gate (failed_gate_evidence r))"
      unfolding ev by (simp add: safety_gates_def flip: set_map)
    ultimately show ?thesis using fl ac by auto
  qed
qed

text \<open>A measured context evaluates to acceptance: the inputs of the witnesses.\<close>

lemma measured_req [simp]:
  "mapE (req_float measured_ctx) cost_fields = Inr [Some (Fin (1 / 4096)), Some (Fin (1 / 4096)), Some (Fin (1 / 4096)),
     Some (Fin (1 / 4096)), Some (Fin (1 / 4096)), Some (Fin 1)]"
  by (simp add: cost_fields_def measured_ctx_def req_float_def unavailable_value_def in_strs_def int_to_float_small)

lemma measured_model: "\<exists>m. build_execution_cost_model measured_ctx False = Inr m \<and> volatility_penalty m = Fin 0"
proof -
  have "\<exists>c. classify_execution_evidence measured_ctx False = Inr c"
    by (rule classify_total) (simp add: measured_ctx_def int_to_float_small split: option.split)
  moreover have "volatility_cost (volatility_regime_of measured_ctx) = Fin 0"
    by (simp add: volatility_cost_def volatility_regime_of_def measured_ctx_def str_eval)
  ultimately show ?thesis by (auto simp: build_execution_cost_model_def Let_def)
qed

lemma default_limits: "safety_limits [] = Inr \<lparr>max_spread = fl (25 / 10000), max_slippage = fl (2 / 1000),
   max_total_cost = fl (20 / 100), min_liquidity = fl (30 / 100), max_latency = Fin 2500,
   max_volatility_penalty = fl (20 / 100), max_funding = fl (1 / 1000)\<rparr>"
  by (simp add: safety_limits_def in_strs_def)

lemma default_policy: "safety_policy [] = \<lparr>reject_unknown = True, orderbook_required = False, microstructure_required = False\<rparr>"
  by (simp add: safety_policy_def)

lemma measured_numbers:
  "mapE (number measured_ctx) numeric_fields = Inr [Some (Fin (1 / 4096)), Some (Fin (1 / 4096)), Some (Fin (1 / 4096)),
     Some (Fin 1), Some (Fin (1 / 4096)), Some (Fin (1 / 4096)), Some (Fin (1 / 4096))]"
  by (simp add: numeric_fields_def measured_ctx_def number_def unavailable_value_def in_strs_def int_to_float_small
      finite_or_none_def)

lemma measured_micro: "\<exists>ms. evaluate_microstructure_authority measured_ctx s False VNone VNone = Inr ms"
  by (simp add: evaluate_microstructure_authority_def microstructure_inputs_def measured_ctx_def finite_field_def
      in_strs_def float_unless_bool_def Let_def)

lemma measured_limit_gates:
  "limit_gates (numbers [Some (Fin (1 / 4096)), Some (Fin (1 / 4096)), Some (Fin (1 / 4096)),
     Some (Fin 1), Some (Fin (1 / 4096)), Some (Fin (1 / 4096)), Some (Fin (1 / 4096))])
    \<lparr>max_spread = fl (25 / 10000), max_slippage = fl (2 / 1000),
     max_total_cost = fl (20 / 100), min_liquidity = fl (30 / 100), max_latency = Fin 2500,
     max_volatility_penalty = fl (20 / 100), max_funding = fl (1 / 1000)\<rparr> (Fin 0) (Fin (1 / 1024)) = []"
  by (simp add: limit_gates_def numbers_def numeric_fields_def above_def below_def fl_eval)


lemma measured_accepted:
  "\<exists>r. evaluate_execution_safety measured_ctx (VInt 2) (VInt 1) [] True = Inr r \<and> accepted r"
proof -
  define num where "num = numbers [Some (Fin (1 / 4096)), Some (Fin (1 / 4096)), Some (Fin (1 / 4096)),
     Some (Fin 1), Some (Fin (1 / 4096)), Some (Fin (1 / 4096)), Some (Fin (1 / 4096))]"
  obtain m where m: "build_execution_cost_model measured_ctx False = Inr m" "volatility_penalty m = Fin 0"
    using measured_model by blast
  have side: "side_or_none measured_ctx = VNone" "dget measured_ctx ''microstructure_reference_ts'' = VNone"
    by (simp_all add: side_or_none_def measured_ctx_def)
  obtain ms where ms: "evaluate_microstructure_authority measured_ctx VNone False VNone VNone = Inr ms"
    using measured_micro by blast
  have eff: "effective_or_none (VInt 2) = Inr (Some (Fin 2))" "py_float (VInt 1) = Inr (Fin 1)"
    by (simp_all add: effective_or_none_def int_to_float_small finite_or_none_def)
  have n: "num ''spread_pct'' = Some (Fin (1 / 4096))" "num ''expected_slippage_pct'' = Some (Fin (1 / 4096))"
    "num ''fee_pct'' = Some (Fin (1 / 4096))" "num ''funding_rate_pct'' = Some (Fin (1 / 4096))"
    "num ''latency_ms'' = Some (Fin (1 / 4096))" "num ''orderbook_imbalance'' = Some (Fin (1 / 4096))"
    "num ''liquidity_score'' = Some (Fin 1)"
    by (simp_all add: num_def numbers_def numeric_fields_def)
  have tot: "explicit_cost [num ''spread_pct'', num ''expected_slippage_pct'', num ''fee_pct'', num ''funding_rate_pct''] = Fin (1 / 1024)"
    by (simp add: n explicit_cost_def flt_sum_def map_filter_simps fl_eval)
  have miss: "safety_missing_fields measured_ctx num True (safety_policy []) ms = []"
    "invalid_numeric_fields measured_ctx num = []" "safety_fake_zero_fields measured_ctx num True (safety_policy []) = []"
    by (simp_all add: safety_missing_fields_def invalid_numeric_fields_def numeric_fields_def n default_policy
        critical_fields_def field_missing_def field_status_def status_key_def upper_or_blank_def measured_ctx_def
        py_upper_id unavailable_value_def in_strs_def MEASURED_STATUSES_def UNAVAILABLE_STATUSES_def flag_if_def
        safety_fake_zero_fields_def)
  obtain lims where l: "safety_limits [] = Inr lims" "limit_gates num lims (Fin 0) (Fin (1 / 1024)) = []"
    using default_limits measured_limit_gates [folded num_def] by blast
  show ?thesis
    using m ms side l
    by (simp add: evaluate_execution_safety_def Let_def measured_ctx_class default_policy measured_numbers
        eff num_def [symmetric] tot miss [unfolded default_policy] int_to_float_small
        safety_gates_def microstructure_gates_def gate_if_def below_def)
qed


theorem accepted_within_limits_witness:
  "\<exists>r lims. evaluate_execution_safety measured_ctx (VInt 2) (VInt 1) [] True = Inr r \<and> accepted r \<and>
     safety_limits [] = Inr lims \<and> \<not> flt_less (max_total_cost lims) (sr_total_explicit_cost_pct r)"
proof -
  obtain r where r: "evaluate_execution_safety measured_ctx (VInt 2) (VInt 1) [] True = Inr r" "accepted r"
    using measured_accepted by blast
  from accepted_within_limits [OF r] show ?thesis using r by blast
qed

definition corrupt_ctx :: pydict where
  "corrupt_ctx = (''latency_ms'', VFloat NaN) # measured_ctx"

lemma corrupt_evaluates: "\<exists>r. evaluate_execution_safety corrupt_ctx (VInt 2) (VInt 1) [] False = Inr r"
proof -
  have c: "\<exists>c. classify_execution_evidence corrupt_ctx False = Inr c"
    by (rule classify_total) (simp add: corrupt_ctx_def measured_ctx_def int_to_float_small split: option.split)
  have "\<exists>m. build_execution_cost_model corrupt_ctx False = Inr m"
  proof -
    have "mapE (req_float corrupt_ctx) cost_fields = Inr [Some (Fin (1 / 4096)), Some (Fin (1 / 4096)), Some NaN,
       Some (Fin (1 / 4096)), Some (Fin (1 / 4096)), Some (Fin 1)]"
      by (simp add: cost_fields_def corrupt_ctx_def measured_ctx_def req_float_def unavailable_value_def in_strs_def
          int_to_float_small)
    then show ?thesis using c by (auto simp: build_execution_cost_model_def Let_def)
  qed
  moreover have "\<exists>ms. evaluate_microstructure_authority corrupt_ctx s False VNone VNone = Inr ms" for s
    by (simp add: evaluate_microstructure_authority_def microstructure_inputs_def measured_ctx_def finite_field_def
      in_strs_def float_unless_bool_def Let_def corrupt_ctx_def)
  moreover have "\<exists>vals. mapE (number corrupt_ctx) numeric_fields = Inr vals"
    by (simp add: numeric_fields_def measured_ctx_def number_def unavailable_value_def in_strs_def int_to_float_small
      finite_or_none_def corrupt_ctx_def)
  moreover have "dget corrupt_ctx ''microstructure_reference_ts'' = VNone"
    by (simp add: corrupt_ctx_def measured_ctx_def)
  ultimately show ?thesis using c default_limits
    by (auto simp: evaluate_execution_safety_def Let_def default_policy effective_or_none_def int_to_float_small bindE_Inr_iff)
qed

theorem corrupt_number_rejects_witness:
  "\<exists>r. evaluate_execution_safety corrupt_ctx (VInt 2) (VInt 1) [] False = Inr r \<and> \<not> accepted r"
proof -
  obtain r where r: "evaluate_execution_safety corrupt_ctx (VInt 2) (VInt 1) [] False = Inr r" using corrupt_evaluates by blast
  have "''latency_ms'' \<in> set numeric_fields" by (simp add: numeric_fields_def)
  moreover have "\<not> unavailable_value (dget corrupt_ctx ''latency_ms'')" "number corrupt_ctx ''latency_ms'' = Inr None"
    by (simp_all add: corrupt_ctx_def unavailable_value_def in_strs_def number_def finite_or_none_def)
  ultimately show ?thesis using corrupt_number_rejects [OF r] r by blast
qed

lemma micro_blockers_priority: "set (micro_blockers ctx s rm inp) \<subseteq> set gate_priority"
  by (auto simp: micro_blockers_def Let_def gate_priority_def split: option.splits if_splits)

lemma micro_resultE:
  assumes "evaluate_microstructure_authority ctx s rm now age = Inr ms"
  obtains inp where "microstructure_inputs ctx now age = Inr inp"
    "blocking_reasons ms = micro_blockers ctx s rm inp" "ms_evidence_status ms = micro_evidence_status ctx s rm inp"
    "ms_missing_fields ms = sorted_set (micro_missing_fields ctx s rm inp)"
    "ms_invalid_fields ms = sorted_set (micro_invalid_fields ctx inp)"
    "age_sec ms = micro_age rm inp" "ms_max_age_sec ms = max_age inp" "ms_observed_at ms = observed_at inp"
    "ms_accepted ms \<longleftrightarrow> (rm \<longrightarrow> blocking_reasons ms = [])"
    "live_equivalent ms \<longleftrightarrow> ms_evidence_status ms = MICROSTRUCTURE_COMPLETE_MEASURED \<and>
       micro_invalid_fields ctx inp = [] \<and> micro_missing_fields ctx s rm inp = [] \<and>
       ''STALE_MICROSTRUCTURE'' \<notin> set (blocking_reasons ms) \<and> ''MICROSTRUCTURE_TIMESTAMP_INVALID'' \<notin> set (blocking_reasons ms)"
    "ms_side ms = (if micro_side ctx s = [] then None else Some (micro_side ctx s))"
  using assms by (auto simp: evaluate_microstructure_authority_def bindE_Inr_iff Let_def)

lemma gates_in_priority:
  assumes "evaluate_microstructure_authority ctx s rm now age = Inr ms"
  shows "set (map gate (safety_gates pol ms lims num missing invalid fake_zero vol tot effective min_rr)) \<subseteq> set gate_priority"
proof -
  have "set (map gate (microstructure_gates pol ms)) \<subseteq> set gate_priority"
    using assms micro_blockers_priority by (elim micro_resultE) (force simp: microstructure_gates_def)
  moreover have "set (map gate (limit_gates num lims vol tot)) \<subseteq> set gate_priority"
    by (auto simp: limit_gates_def gate_if_def gate_priority_def split: if_splits)
  ultimately show ?thesis
    by (auto simp: safety_gates_def gate_if_def gate_priority_def split: if_splits)
qed

text \<open>A rejection always has a primary reason, and it is the most urgent one. An order is
  accepted exactly when no primary reason is reported; a reported reason is a failed gate, and
  every gate that precedes it in the priority list passed.\<close>

theorem primary_reason:
  assumes "evaluate_execution_safety ctx eff_rr min_rr0 t rm = Inr r"
  shows "(accepted r \<longleftrightarrow> primary_reject_reason r = None) \<and>
    (\<forall>g. primary_reject_reason r = Some g \<longrightarrow> g \<in> set (all_failed_gates r) \<and>
       (\<exists>before after. gate_priority = before @ g # after \<and> (\<forall>h \<in> set before. h \<notin> set (all_failed_gates r))))"
  using assms
proof (rule evaluate_safetyE)
  fix lims ms vals and effective :: "flt option" and min_rr model
  assume ms: "evaluate_microstructure_authority ctx (side_or_none ctx) (microstructure_required (safety_policy t))
       (dget ctx ''microstructure_reference_ts'')
       (dget_first t [''MICROSTRUCTURE_MAX_AGE_SEC'', ''STALE_MARKET_DATA_SEC''] VNone) = Inr ms"
    and ev: "failed_gate_evidence r = safety_gates (safety_policy t) ms lims (numbers vals)
       (safety_missing_fields ctx (numbers vals) rm (safety_policy t) ms) (invalid_numeric_fields ctx (numbers vals))
       (safety_fake_zero_fields ctx (numbers vals) rm (safety_policy t)) (volatility_penalty model)
       (sr_total_explicit_cost_pct r) effective min_rr"
    and fl: "all_failed_gates r = py_unique (map gate (failed_gate_evidence r))"
    and ac: "accepted r \<longleftrightarrow> all_failed_gates r = []"
    and pr: "primary_reject_reason r = find (\<lambda>g. g \<in> set (all_failed_gates r)) gate_priority"
  have sub: "set (all_failed_gates r) \<subseteq> set gate_priority"
    unfolding fl ev set_py_unique by (rule gates_in_priority [OF ms])
  have "primary_reject_reason r = None \<longleftrightarrow> (\<forall>g. g \<notin> set (all_failed_gates r))"
    unfolding pr find_None_iff using sub by blast
  moreover have "g \<in> set (all_failed_gates r) \<and>
      (\<exists>before after. gate_priority = before @ g # after \<and> (\<forall>h \<in> set before. h \<notin> set (all_failed_gates r)))"
    if found: "primary_reject_reason r = Some g" for g
    using found find_first unfolding pr by fast
  ultimately show ?thesis using ac by (metis equals0I set_empty list.set(1) empty_iff)
qed

theorem primary_reason_witness:
  "\<exists>r. evaluate_execution_safety corrupt_ctx (VInt 2) (VInt 1) [] False = Inr r \<and>
     (accepted r \<longleftrightarrow> primary_reject_reason r = None)"
proof -
  obtain r where "evaluate_execution_safety corrupt_ctx (VInt 2) (VInt 1) [] False = Inr r" using corrupt_evaluates by blast
  then show ?thesis using primary_reason by blast
qed

lemma micro_clear:
  assumes "evaluate_microstructure_authority ctx s True now age = Inr ms" and "blocking_reasons ms = []"
  shows "ms_evidence_status ms = MICROSTRUCTURE_COMPLETE_MEASURED" "live_equivalent ms"
    "ms_missing_fields ms = []" "ms_invalid_fields ms = []"
proof -
  obtain inp where i: "blocking_reasons ms = micro_blockers ctx s True inp"
      "ms_evidence_status ms = micro_evidence_status ctx s True inp"
      "ms_missing_fields ms = sorted_set (micro_missing_fields ctx s True inp)"
      "ms_invalid_fields ms = sorted_set (micro_invalid_fields ctx inp)"
      "live_equivalent ms \<longleftrightarrow> ms_evidence_status ms = MICROSTRUCTURE_COMPLETE_MEASURED \<and>
         micro_invalid_fields ctx inp = [] \<and> micro_missing_fields ctx s True inp = [] \<and>
         ''STALE_MICROSTRUCTURE'' \<notin> set (blocking_reasons ms) \<and> ''MICROSTRUCTURE_TIMESTAMP_INVALID'' \<notin> set (blocking_reasons ms)"
    using assms(1) by (rule micro_resultE)
  have "micro_invalid_fields ctx inp = []" "micro_missing_fields ctx s True inp = []"
    using assms(2) i(1) by (auto simp: micro_blockers_def Let_def)
  then show "ms_evidence_status ms = MICROSTRUCTURE_COMPLETE_MEASURED" "live_equivalent ms"
    "ms_missing_fields ms = []" "ms_invalid_fields ms = []"
    using i assms(2) by (simp_all add: micro_evidence_status_def)
qed

text \<open>Accepting under the live policy means complete measured evidence. With measured
  evidence required and unknown context rejected, an accepted order has the status
  COMPLETE_MEASURED, every critical field has a value under a measured status (the fee, a
  configured schedule, under any available status), and no verified-zero rule is broken.\<close>

theorem measured_acceptance:
  assumes "evaluate_execution_safety ctx eff_rr min_rr0 t True = Inr r" and "accepted r"
    and "reject_unknown (safety_policy t)"
  shows "execution_evidence_status r = EXECUTION_EVIDENCE_COMPLETE_MEASURED \<and>
    (\<forall>f \<in> set (critical_fields True (orderbook_required (safety_policy t))).
       \<not> unavailable_value (dget ctx f) \<and> field_status ctx f \<notin> set UNAVAILABLE_STATUSES \<and>
       (f \<noteq> ''fee_pct'' \<longrightarrow> field_status ctx f \<in> set MEASURED_STATUSES))"
  using assms(1)
proof (rule evaluate_safetyE)
  fix lims ms vals and effective :: "flt option" and min_rr model raw_status
  assume ms: "evaluate_microstructure_authority ctx (side_or_none ctx) (microstructure_required (safety_policy t))
       (dget ctx ''microstructure_reference_ts'')
       (dget_first t [''MICROSTRUCTURE_MAX_AGE_SEC'', ''STALE_MARKET_DATA_SEC''] VNone) = Inr ms"
    and ev: "failed_gate_evidence r = safety_gates (safety_policy t) ms lims (numbers vals)
       (safety_missing_fields ctx (numbers vals) True (safety_policy t) ms) (invalid_numeric_fields ctx (numbers vals))
       (safety_fake_zero_fields ctx (numbers vals) True (safety_policy t)) (volatility_penalty model)
       (sr_total_explicit_cost_pct r) effective min_rr"
    and fl: "all_failed_gates r = py_unique (map gate (failed_gate_evidence r))"
    and ac: "accepted r \<longleftrightarrow> all_failed_gates r = []"
    and st: "execution_evidence_status r = safety_evidence_status ctx True (safety_policy t) ms
       (safety_missing_fields ctx (numbers vals) True (safety_policy t) ms)
       (safety_fake_zero_fields ctx (numbers vals) True (safety_policy t)) raw_status"
  note none = no_safety_gates [OF accepted_no_gates [OF assms(2) ac fl, unfolded ev]]
  have miss: "safety_missing_fields ctx (numbers vals) True (safety_policy t) ms = []" by (rule none(2) [OF assms(3)])
  have micro: "ms_evidence_status ms = MICROSTRUCTURE_COMPLETE_MEASURED" if "microstructure_required (safety_policy t)"
    using micro_clear(1) [of ctx _ _ _ ms] ms none(1) that by (auto simp: microstructure_gates_def)
  have up: "py_upper MICROSTRUCTURE_COMPLETE_MEASURED = MICROSTRUCTURE_COMPLETE_MEASURED"
    by (simp add: microstructure_names py_upper_id)
  have "execution_evidence_status r = EXECUTION_EVIDENCE_COMPLETE_MEASURED"
    unfolding st safety_evidence_status_def miss none(4) using micro up by (auto simp: Let_def)
  moreover have "\<not> field_missing ctx True f" if "f \<in> set (critical_fields True (orderbook_required (safety_policy t)))" for f
    using miss that by (auto simp: safety_missing_fields_def filter_empty_conv)
  ultimately show ?thesis by (auto simp: field_missing_def)
qed

theorem measured_acceptance_witness:
  "\<exists>r. evaluate_execution_safety measured_ctx (VInt 2) (VInt 1) [] True = Inr r \<and>
     execution_evidence_status r = EXECUTION_EVIDENCE_COMPLETE_MEASURED"
proof -
  obtain r where r: "evaluate_execution_safety measured_ctx (VInt 2) (VInt 1) [] True = Inr r" "accepted r"
    using measured_accepted by blast
  have "reject_unknown (safety_policy [])" by (simp add: default_policy)
  then show ?thesis using measured_acceptance [OF r] r by blast
qed

lemma age_fresh:
  assumes "micro_age True inp = Some age" "max_age inp = Some cap" "is_finite cap"
    "\<And>x. observed_at inp = Some x \<Longrightarrow> is_finite x" "\<And>x. reference inp = Some x \<Longrightarrow> is_finite x"
    "\<not> flt_less age (Fin 0)" "\<not> flt_less cap age"
  shows "flt_le (Fin 0) age \<and> flt_le age cap"
proof -
  obtain a b where ab: "age = fsub (Fin a) (Fin b)"
    using assms(1,2,4,5) by (auto simp: micro_age_def split: option.splits elim!: is_finiteE)
  then have "age \<noteq> NaN" by (simp add: fsub_def)
  moreover have "cap \<noteq> NaN" using assms(3) by auto
  ultimately show ?thesis using assms(6,7) flt_not_less by (metis flt.distinct(5))
qed

lemma finite_field_Some: "finite_field ctx k = Inr (Some x) \<Longrightarrow> is_finite x"
  by (auto simp: finite_field_def Let_def catch_tv_def bindE_Inr_iff finite_or_none_def split: sum.splits if_splits)

lemma microstructure_inputs_finite:
  assumes "microstructure_inputs ctx now age = Inr inp"
  shows "observed_at inp = Some x \<Longrightarrow> is_finite x" "reference inp = Some y \<Longrightarrow> is_finite y"
    "max_age inp = Some z \<Longrightarrow> is_finite z"
  using assms
  by (auto simp: microstructure_inputs_def bindE_Inr_iff bind_eq_Some_conv finite_or_none_def
      dest!: finite_field_Some split: if_splits)

text \<open>A live order passes the microstructure authority only on fresh, complete and
  favourable evidence. Under the measured policy, acceptance means complete measured
  evidence that counts as live-equivalent, a side LONG or SHORT, an age between zero and
  the maximum, an imbalance that is not an adverse extreme for that side, and an explicit
  permission from the absorption provider.\<close>

theorem live_microstructure_accepts:
  assumes "evaluate_microstructure_authority ctx s True now age = Inr ms" and "ms_accepted ms"
  shows "ms_evidence_status ms = MICROSTRUCTURE_COMPLETE_MEASURED \<and> live_equivalent ms \<and>
    (\<exists>old cap. age_sec ms = Some old \<and> ms_max_age_sec ms = Some cap \<and> flt_le (Fin 0) old \<and> flt_le old cap) \<and>
    (\<exists>im. finite_field ctx ''orderbook_imbalance'' = Inr (Some im) \<and>
       (ms_side ms = Some ''LONG'' \<and> \<not> flt_le im (fneg LEGACY_EXTREME_ORDERBOOK_IMBALANCE) \<or>
        ms_side ms = Some ''SHORT'' \<and> \<not> flt_le LEGACY_EXTREME_ORDERBOOK_IMBALANCE im)) \<and>
    dget ctx ''absorption_execution_ok'' = VBool True"
proof -
  obtain inp where i: "microstructure_inputs ctx now age = Inr inp" "blocking_reasons ms = micro_blockers ctx s True inp"
      "age_sec ms = micro_age True inp" "ms_max_age_sec ms = max_age inp"
      "ms_accepted ms \<longleftrightarrow> (True \<longrightarrow> blocking_reasons ms = [])"
      "ms_side ms = (if micro_side ctx s = [] then None else Some (micro_side ctx s))"
    using assms(1) by (rule micro_resultE)
  have no: "micro_blockers ctx s True inp = []" using i assms(2) by simp
  then have c: "blocking_reasons ms = []" using i(2) by simp
  have m: "micro_missing_fields ctx s True inp = []" using no by (auto simp: micro_blockers_def Let_def)
  obtain im where im: "orderbook_imbalance inp = Some im" using m by (auto simp: micro_missing_fields_def micro_fields_def Let_def)
  have side: "micro_side ctx s = ''LONG'' \<or> micro_side ctx s = ''SHORT''" using m by (auto simp: micro_missing_fields_def)
  obtain ob ref cap where t: "observed_at inp = Some ob" "reference inp = Some ref" "max_age inp = Some cap"
    using m by (auto simp: micro_missing_fields_def split: option.splits)
  have age: "micro_age True inp = Some (fsub ref ob)" by (simp add: micro_age_def t)
  have fresh: "\<not> flt_less (fsub ref ob) (Fin 0)" "\<not> flt_less cap (fsub ref ob)"
    using no by (auto simp: micro_blockers_def Let_def age t split: if_splits)
  have ff: "finite_field ctx ''orderbook_imbalance'' = Inr (Some im)"
    using i(1) im by (auto simp: microstructure_inputs_def bindE_Inr_iff)
  have adv: "micro_side ctx s = ''LONG'' \<Longrightarrow> \<not> flt_le im (fneg LEGACY_EXTREME_ORDERBOOK_IMBALANCE)"
    "micro_side ctx s = ''SHORT'' \<Longrightarrow> \<not> flt_le LEGACY_EXTREME_ORDERBOOK_IMBALANCE im"
    using no im by (auto simp: micro_blockers_def Let_def)
  have "is_bool (dget ctx ''absorption_execution_ok'')" "dget ctx ''absorption_execution_ok'' \<noteq> VBool False"
    using m no by (auto simp: micro_missing_fields_def micro_blockers_def Let_def)
  then have perm: "dget ctx ''absorption_execution_ok'' = VBool True"
    by (cases "dget ctx ''absorption_execution_ok''") auto
  have fr: "flt_le (Fin 0) (fsub ref ob) \<and> flt_le (fsub ref ob) cap"
    by (rule age_fresh [OF age t(3) microstructure_inputs_finite(3) [OF i(1) t(3)]
          microstructure_inputs_finite(1) [OF i(1)] microstructure_inputs_finite(2) [OF i(1)] fresh])
  show ?thesis
    using micro_clear(1,2) [OF assms(1) c] fr ff adv side perm i(3,4,6) age t(3) by auto
qed

definition live_ctx :: pydict where
  "live_ctx = [(''orderbook_imbalance'', VFloat (Fin (1 / 4))), (''spoof_risk'', VFloat (Fin 0)),
     (''absorption_score'', VFloat (Fin (1 / 2))), (''liquidity_depth_usdt'', VInt 100000),
     (''microstructure_observed_at'', VInt 1000), (''spoof_confirmed'', VBool False), (''absorption_execution_ok'', VBool True)]
    @ map (\<lambda>k. (k, VStr ''MEASURED'')) [''orderbook_status'', ''spoof_status'', ''absorption_status'', ''liquidity_depth_status'']
    @ map (\<lambda>k. (k, VStr ''DEPTH'')) [''orderbook_source'', ''spoof_source'', ''absorption_source'', ''liquidity_depth_source'']"

lemma live_ctx_accepts:
  "\<exists>ms. evaluate_microstructure_authority live_ctx (VStr ''LONG'') True (VInt 1003) (VInt 5) = Inr ms \<and> ms_accepted ms"
proof -
  define inp where "inp = \<lparr>orderbook_imbalance = Some (Fin (1 / 4)), spoof_risk = Some (Fin 0),
     absorption_score = Some (Fin (1 / 2)), liquidity_depth_usdt = Some (Fin 100000), observed_at = Some (Fin 1000),
     reference = Some (Fin 1003), max_age = Some (Fin 5)\<rparr>"
  have i: "microstructure_inputs live_ctx (VInt 1003) (VInt 5) = Inr inp"
    by (simp add: microstructure_inputs_def live_ctx_def finite_field_def in_strs_def float_unless_bool_def
        int_to_float_small finite_or_none_def inp_def)
  have side: "micro_side live_ctx (VStr ''LONG'') = ''LONG''" by (simp add: micro_side_def py_or_def py_upper_id)
  have strip: "py_strip ''DEPTH'' = ''DEPTH''" by (rule py_strip_id) (simp_all add: is_space_def)
  have st: "upper_or_blank live_ctx ''orderbook_status'' = ''MEASURED''" "upper_or_blank live_ctx ''spoof_status'' = ''MEASURED''"
    "upper_or_blank live_ctx ''absorption_status'' = ''MEASURED''" "upper_or_blank live_ctx ''liquidity_depth_status'' = ''MEASURED''"
    by (simp_all add: upper_or_blank_def live_ctx_def py_upper_id)
  have so: "dget_or live_ctx ''orderbook_source'' v = VStr ''DEPTH''" "dget_or live_ctx ''spoof_source'' v = VStr ''DEPTH''"
    "dget_or live_ctx ''absorption_source'' v = VStr ''DEPTH''" "dget_or live_ctx ''liquidity_depth_source'' v = VStr ''DEPTH''" for v
    by (simp_all add: live_ctx_def)
  have b: "is_bool (dget live_ctx ''spoof_confirmed'')" "is_bool (dget live_ctx ''absorption_execution_ok'')"
    by (simp_all add: live_ctx_def)
  have up: "py_upper ''DEPTH'' = ''DEPTH''" by (simp add: py_upper_id)
  have m: "micro_invalid_fields live_ctx inp = []"
    by (simp add: micro_invalid_fields_def micro_fields_def inp_def outside_def flag_if_def)
  have m2: "micro_missing_fields live_ctx (VStr ''LONG'') True inp = []"
    by (simp add: micro_missing_fields_def micro_fields_def inp_def side st so b strip up MEASURED_STATUSES_def
        UNAVAILABLE_STATUSES_def flag_if_def)
  have "micro_blockers live_ctx (VStr ''LONG'') True inp = []"
    unfolding micro_blockers_def m m2 side Let_def
    by (simp add: micro_age_def inp_def LEGACY_EXTREME_ORDERBOOK_IMBALANCE_def LEGACY_EXTREME_SPOOF_RISK_def live_ctx_def fl_eval)
  then show ?thesis using i by (simp add: evaluate_microstructure_authority_def Let_def)
qed

theorem live_microstructure_accepts_witness:
  "\<exists>ms. evaluate_microstructure_authority live_ctx (VStr ''LONG'') True (VInt 1003) (VInt 5) = Inr ms \<and> live_equivalent ms"
proof -
  obtain ms where ms: "evaluate_microstructure_authority live_ctx (VStr ''LONG'') True (VInt 1003) (VInt 5) = Inr ms" "ms_accepted ms"
    using live_ctx_accepts by blast
  show ?thesis using live_microstructure_accepts [OF ms] ms by blast
qed

end
