(* ===== verification/ExecutionContext.thy ===== *)
theory ExecutionContext
  imports ExecutionSafety
begin

section \<open>Building the execution context (\<^verbatim>\<open>execution.py\<close>)\<close>

text \<open>
  The execution context is the dictionary the cost model and the safety gates read. It is
  built from the market context: explicit values with their labels, quotes, klines and
  latencies. Labels an explicit value carries are taken over; a value without evidence is
  labelled UNAVAILABLE.
\<close>

definition py_list :: "pyval \<Rightarrow> pyval list py" where
  \<comment> \<open>\<^verbatim>\<open>list(v)\<close>\<close>
  "py_list v = (case v of VList xs \<Rightarrow> Inr xs | VStr s \<Rightarrow> Inr (map (\<lambda>c. VStr [c]) s)
     | VDict d \<Rightarrow> Inr (map (\<lambda>p. VStr (fst p)) d) | _ \<Rightarrow> Inl TypeError)"

definition float_or :: "pydict \<Rightarrow> string \<Rightarrow> rat \<Rightarrow> flt py" where
  \<comment> \<open>\<^verbatim>\<open>float(d.get(k, x) or x)\<close>\<close>
  "float_or d k x = py_float (py_or (dget_or d k (VFloat (fl x))) (VFloat (fl x)))"

definition last20 :: "'a list \<Rightarrow> 'a list" where
  \<comment> \<open>\<^verbatim>\<open>xs[-20:]\<close>\<close>
  "last20 xs = drop (length xs - 20) xs"

definition kline_dicts :: "pyval list \<Rightarrow> pydict list" where
  "kline_dicts klines = List.map_filter (\<lambda>k. case k of VDict d \<Rightarrow> Some d | _ \<Rightarrow> None) (last20 klines)"

definition mean :: "flt list \<Rightarrow> flt" where
  "mean xs = fdiv (flt_sum xs) (Fin (of_nat (length xs)))"

definition spread_pct_from_prices :: "pydict \<Rightarrow> flt py" where
  "spread_pct_from_prices market_ctx =
    bindE (float_or market_ctx ''best_bid'' 0) (\<lambda>bid.
    bindE (float_or market_ctx ''best_ask'' 0) (\<lambda>ask.
      let mid = (if flt_less (Fin 0) bid \<and> flt_less (Fin 0) ask then fdiv (fadd bid ask) (Fin 2) else Fin 0)
      in Inr (if flt_le mid (Fin 0) then Fin 0 else fdiv (fsub ask bid) mid)))"

definition expected_slippage_pct :: "pyval list \<Rightarrow> pydict \<Rightarrow> flt py" where
  "expected_slippage_pct klines market_ctx =
    (if klines = [] then float_or market_ctx ''expected_slippage_pct'' (1 / 1000)
     else bindE (mapE (\<lambda>d. bindE (float_or d ''high'' 0) (\<lambda>h. bindE (float_or d ''low'' 0) (\<lambda>l. Inr (h, l))))
            (kline_dicts klines)) (\<lambda>hl.
       if hl = [] then float_or market_ctx ''expected_slippage_pct'' (1 / 1000)
       else let avg_high = mean (map fst hl); avg_low = mean (map snd hl) in
         Inr (if flt_le avg_high (Fin 0) then fl (1 / 1000)
              else py_max (fmul (fdiv (fsub avg_high avg_low) avg_high) (fl (5 / 100))) (fl (1 / 10000)))))"

definition volatility_regime :: "pyval list \<Rightarrow> string py" where
  "volatility_regime klines =
    bindE (mapE (\<lambda>d. bindE (float_or d ''high'' 0) (\<lambda>h. bindE (float_or d ''low'' 0) (\<lambda>l. Inr (h, l))))
        (kline_dicts klines)) (\<lambda>hl.
      let ranges = map (\<lambda>(h, l). fdiv (fsub h l) h) (filter (\<lambda>(h, l). flt_less (Fin 0) h) hl); r = mean ranges in
      Inr (if klines = [] \<or> ranges = [] then ''normal''
           else if flt_less (fl (2 / 100)) r then ''high''
           else if flt_less r (fl (5 / 1000)) then ''low'' else ''normal''))"

definition to_float :: "pyval \<Rightarrow> flt option py" where
  "to_float v = (if v = VNone \<or> is_bool v then Inr None
     else catch_tv (bindE (py_float v) (\<lambda>x. Inr (Some x))) None)"

definition label :: "pydict \<Rightarrow> string \<Rightarrow> string \<Rightarrow> string" where
  \<comment> \<open>\<^verbatim>\<open>str(market_ctx.get(k, d))\<close>\<close>
  "label market_ctx k d = py_str (dget_or market_ctx k (VStr d))"

definition either :: "'a option \<Rightarrow> string \<Rightarrow> string \<Rightarrow> string" where
  \<comment> \<open>\<^verbatim>\<open>a if x is not None else b\<close>\<close>
  "either x a b = (if x \<noteq> None then a else b)"

definition clamp0 :: "flt option \<Rightarrow> flt option" where
  \<comment> \<open>\<^verbatim>\<open>max(x, 0.0) if x is not None else None\<close>\<close>
  "clamp0 x = map_option (\<lambda>y. py_max y (Fin 0)) x"

definition bool_or_none :: "pyval \<Rightarrow> pyval" where
  "bool_or_none v = (if is_bool v then v else VNone)"

definition flag_val :: "pydict \<Rightarrow> string \<Rightarrow> pyval" where
  "flag_val market_ctx k = VBool (truthy (dget_or market_ctx k (VBool False)))"

subsection \<open>The evidence of each quantity\<close>

record Evidence =
  ev_value :: "flt option"
  ev_status :: string
  ev_source :: string

definition plain_evidence :: "pydict \<Rightarrow> string \<Rightarrow> string \<Rightarrow> string \<Rightarrow> Evidence py" where
  \<comment> \<open>a value with MEASURED and UNKNOWN as its default labels\<close>
  "plain_evidence market_ctx value_key k_status k_source =
    bindE (to_float (dget market_ctx value_key)) (\<lambda>x. Inr
      \<lparr>ev_value = x, ev_status = label market_ctx k_status (either x ''MEASURED'' ''UNAVAILABLE''),
       ev_source = label market_ctx k_source (either x ''UNKNOWN'' ''UNAVAILABLE'')\<rparr>)"

definition spread_evidence :: "pydict \<Rightarrow> (Evidence \<times> string) py" where
  \<comment> \<open>with the unit that was assumed\<close>
  "spread_evidence market_ctx =
    bindE (spread_pct_from_prices market_ctx) (\<lambda>from_prices.
    let raw_spread = dget_or market_ctx ''spread_pct'' (VFloat from_prices) in
    bindE (normalize_pct_input raw_spread) (\<lambda>(spread_pct, unit_assumed).
    bindE (to_float (dget market_ctx ''spread_pct'')) (\<lambda>explicit.
    bindE (to_float (dget market_ctx ''best_bid'')) (\<lambda>best_bid.
    bindE (to_float (dget market_ctx ''best_ask'')) (\<lambda>best_ask.
    bindE (to_float raw_spread) (\<lambda>raw.
    let quoted = (\<lambda>x. case x of None \<Rightarrow> False | Some y \<Rightarrow> flt_less (Fin 0) y);
        measured = ((explicit \<noteq> None \<or> (quoted best_bid \<and> quoted best_ask)) \<and> raw \<noteq> None);
        status = (if measured then label market_ctx ''spread_status'' ''MEASURED'' else ''UNAVAILABLE'')
    in Inr (\<lparr>ev_value = (if status \<noteq> ''UNAVAILABLE'' then Some (py_max spread_pct (Fin 0)) else None),
             ev_status = status,
             ev_source = (if measured then label market_ctx ''spread_source'' ''BOOK_TICKER'' else ''UNAVAILABLE'')\<rparr>,
            unit_assumed)))))))"

definition slippage_evidence :: "pydict \<Rightarrow> pyval list \<Rightarrow> (flt \<times> string \<times> string \<times> string) py" where
  \<comment> \<open>the clamped estimate, its status and source, and the unit that was assumed\<close>
  "slippage_evidence market_ctx klines =
    bindE (expected_slippage_pct klines market_ctx) (\<lambda>estimate.
    bindE (normalize_pct_input (dget_or market_ctx ''expected_slippage_pct'' (VFloat estimate))) (\<lambda>(x, unit_assumed).
    let has_evidence = (\<not> in_strs (dget market_ctx ''expected_slippage_pct'') [[]] \<or> klines \<noteq> []) in
    Inr (py_max x (Fin 0),
         (if has_evidence then label market_ctx ''slippage_status'' ''MODEL_ESTIMATE'' else ''UNAVAILABLE''),
         (if has_evidence then label market_ctx ''slippage_source''
            (if klines \<noteq> [] then ''KLINE_RANGE_MODEL'' else ''EXPLICIT_EXECUTION_SLIPPAGE'') else ''UNAVAILABLE''),
         unit_assumed)))"

definition latency_evidence :: "pydict \<Rightarrow> (Evidence \<times> Evidence) py" where
  \<comment> \<open>the submit/ack latency, and the execution latency: the submit/ack one where there is one\<close>
  "latency_evidence market_ctx =
    bindE (to_float (dget market_ctx ''latency_ms'')) (\<lambda>explicit.
    bindE (to_float (dget market_ctx ''submit_ack_latency_ms'')) (\<lambda>ack.
    let e = \<lparr>ev_value = explicit,
          ev_status = label market_ctx ''latency_status'' (either explicit ''MODEL_ESTIMATE'' ''UNAVAILABLE''),
          ev_source = label market_ctx ''latency_source'' (either explicit ''EXPLICIT_EXECUTION_LATENCY'' ''UNAVAILABLE'')\<rparr>;
        a = \<lparr>ev_value = ack,
          ev_status = label market_ctx ''submit_ack_latency_status'' (either ack ''MEASURED'' ''UNAVAILABLE''),
          ev_source = label market_ctx ''submit_ack_latency_source'' (either ack ''RUNTIME_ACK'' ''UNAVAILABLE'')\<rparr>
    in Inr (a, if ack \<noteq> None then a else e)))"

definition fee_evidence :: "pydict \<Rightarrow> Evidence py" where
  "fee_evidence market_ctx =
    bindE (to_float (dget market_ctx ''fee_pct'')) (\<lambda>fee0.
    let status = label market_ctx ''fee_status'' (either fee0 ''CONFIGURED'' ''UNAVAILABLE'');
        source = label market_ctx ''fee_source'' (either fee0 ''CONFIGURED_PAPER_ASSUMPTION'' ''UNAVAILABLE'');
        fee = (case fee0 of None \<Rightarrow> None
               | Some f \<Rightarrow> if flt_less f (Fin 0) \<or> py_upper status = ''UNAVAILABLE'' then None else Some f)
    in Inr \<lparr>ev_value = fee, ev_status = either fee status ''UNAVAILABLE'', ev_source = either fee source ''UNAVAILABLE''\<rparr>)"

definition liquidity_evidence :: "pydict \<Rightarrow> Evidence py" where
  \<comment> \<open>an unreadable score is not caught\<close>
  "liquidity_evidence market_ctx =
    (let raw = dget market_ctx ''liquidity_score'' in
     bindE (if unavailable_value raw then Inr None else bindE (py_float raw) (\<lambda>x. Inr (Some x))) (\<lambda>score.
     let status = label market_ctx ''liquidity_status'' (if raw \<noteq> VNone then ''MEASURED'' else ''UNAVAILABLE'') in
     Inr \<lparr>ev_value = (if status \<noteq> ''UNAVAILABLE'' then map_option (\<lambda>s. py_max (py_min s (Fin 1)) (Fin 0)) score else None),
          ev_status = status,
          ev_source = label market_ctx ''liquidity_source'' (if raw \<noteq> VNone then ''UNKNOWN'' else ''UNAVAILABLE'')\<rparr>))"

definition volatility_evidence :: "pydict \<Rightarrow> pyval list \<Rightarrow> (string option \<times> string \<times> string) py" where
  "volatility_evidence market_ctx klines =
    (let raw = dget market_ctx ''volatility_regime'' in
     bindE (if unavailable_value raw
            then (if klines \<noteq> [] then bindE (volatility_regime klines) (\<lambda>r. Inr (Some r)) else Inr None)
            else Inr (Some (py_str raw))) (\<lambda>regime.
     let status = label market_ctx ''volatility_status'' (if klines \<noteq> [] then ''MEASURED'' else ''UNAVAILABLE'');
         source = py_str (dget_or market_ctx ''volatility_source''
           (if klines \<noteq> [] then dget_or market_ctx ''recent_klines_source'' (VStr ''KLINE_RANGE'') else VStr ''UNAVAILABLE''))
     in Inr (if py_upper status \<noteq> ''UNAVAILABLE'' then regime else None, status, source)))"

subsection \<open>The context\<close>

record ContextParts =
  p_slippage :: "flt \<times> string \<times> string \<times> string"
  p_spread :: "Evidence \<times> string"
  p_market_latency :: Evidence
  p_latency :: "Evidence \<times> Evidence"
  p_funding :: Evidence
  p_fee :: Evidence
  p_orderbook :: Evidence
  p_spoof :: Evidence
  p_absorption :: Evidence
  p_depth :: Evidence
  p_observed_at :: "flt option"
  p_reference_ts :: "flt option"
  p_liquidity :: Evidence
  p_volatility :: "string option \<times> string \<times> string"

definition funding_evidence :: "pydict \<Rightarrow> pyval \<Rightarrow> Evidence py" where
  "funding_evidence market_ctx funding_rate_pct =
    bindE (to_float (if funding_rate_pct \<noteq> VNone then funding_rate_pct else dget market_ctx ''funding_rate_pct'')) (\<lambda>x. Inr
      \<lparr>ev_value = x, ev_status = label market_ctx ''funding_status'' (either x ''MEASURED'' ''UNAVAILABLE''),
       ev_source = label market_ctx ''funding_source'' (either x ''UNKNOWN'' ''UNAVAILABLE'')\<rparr>)"

definition context_parts :: "pydict \<Rightarrow> pyval \<Rightarrow> ContextParts py" where
  "context_parts market_ctx funding_rate_pct =
    bindE (py_list (py_or (dget_or market_ctx ''recent_klines'' (VList [])) (VList []))) (\<lambda>klines.
    bindE (slippage_evidence market_ctx klines) (\<lambda>slippage.
    bindE (spread_evidence market_ctx) (\<lambda>spread.
    bindE (plain_evidence market_ctx ''market_data_latency_ms'' ''market_data_latency_status'' ''market_data_latency_source'') (\<lambda>md.
    bindE (latency_evidence market_ctx) (\<lambda>latency.
    bindE (funding_evidence market_ctx funding_rate_pct) (\<lambda>funding.
    bindE (fee_evidence market_ctx) (\<lambda>fee.
    bindE (plain_evidence market_ctx ''orderbook_imbalance'' ''orderbook_status'' ''orderbook_source'') (\<lambda>orderbook.
    bindE (plain_evidence market_ctx ''spoof_risk'' ''spoof_status'' ''spoof_source'') (\<lambda>spoof.
    bindE (plain_evidence market_ctx ''absorption_score'' ''absorption_status'' ''absorption_source'') (\<lambda>absorption.
    bindE (plain_evidence market_ctx ''liquidity_depth_usdt'' ''liquidity_depth_status'' ''liquidity_depth_source'') (\<lambda>depth.
    bindE (to_float (dget market_ctx ''microstructure_observed_at'')) (\<lambda>observed_at.
    bindE (to_float (dget_first market_ctx [''microstructure_reference_ts'', ''market_ts''] VNone)) (\<lambda>reference_ts.
    bindE (liquidity_evidence market_ctx) (\<lambda>liquidity.
    bindE (volatility_evidence market_ctx klines) (\<lambda>volatility.
      Inr \<lparr>p_slippage = slippage, p_spread = spread, p_market_latency = md, p_latency = latency, p_funding = funding,
           p_fee = fee, p_orderbook = orderbook, p_spoof = spoof, p_absorption = absorption, p_depth = depth,
           p_observed_at = observed_at, p_reference_ts = reference_ts, p_liquidity = liquidity,
           p_volatility = volatility\<rparr>)))))))))))))))"

definition orderbook_clamped :: "ContextParts \<Rightarrow> pyval" where
  "orderbook_clamped p = flt_opt_val (map_option (\<lambda>x. py_max (py_min x (Fin 1)) (Fin (- 1))) (ev_value (p_orderbook p)))"

definition classified_fields :: "ContextParts \<Rightarrow> pydict" where
  \<comment> \<open>the dictionary handed to the classifier; there an unavailable slippage is None\<close>
  "classified_fields p =
    (case p_slippage p of (slip, slip_status, _, _) \<Rightarrow> case p_volatility p of (regime, vol_status, _) \<Rightarrow>
     [(''spread_pct'', flt_opt_val (ev_value (fst (p_spread p)))), (''spread_status'', VStr (ev_status (fst (p_spread p)))),
      (''expected_slippage_pct'', if slip_status \<noteq> ''UNAVAILABLE'' then VFloat slip else VNone),
      (''slippage_status'', VStr slip_status),
      (''latency_ms'', flt_opt_val (clamp0 (ev_value (snd (p_latency p))))), (''latency_status'', VStr (ev_status (snd (p_latency p)))),
      (''market_data_latency_status'', VStr (ev_status (p_market_latency p))),
      (''liquidity_score'', flt_opt_val (ev_value (p_liquidity p))), (''liquidity_status'', VStr (ev_status (p_liquidity p))),
      (''funding_rate_pct'', flt_opt_val (ev_value (p_funding p))), (''funding_status'', VStr (ev_status (p_funding p))),
      (''orderbook_imbalance'', orderbook_clamped p), (''orderbook_status'', VStr (ev_status (p_orderbook p))),
      (''volatility_regime'', str_opt_val regime), (''volatility_status'', VStr vol_status)])"

definition context_cost_fields :: "pydict \<Rightarrow> ContextParts \<Rightarrow> pydict" where
  "context_cost_fields market_ctx p =
    (case p_slippage p of (slip, slip_status, slip_source, slip_unit) \<Rightarrow> case p_spread p of (spread, spread_unit) \<Rightarrow>
     case p_latency p of (ack, latency) \<Rightarrow>
     [(''expected_slippage_pct'', VFloat slip), (''expected_slippage_legacy_pct'', VFloat slip),
      (''slippage_status'', VStr slip_status), (''slippage_source'', VStr slip_source),
      (''expected_slippage_pct_zero_verified'', flag_val market_ctx ''expected_slippage_pct_zero_verified''),
      (''market_data_latency_ms'', flt_opt_val (clamp0 (ev_value (p_market_latency p)))),
      (''market_data_latency_status'', VStr (ev_status (p_market_latency p))),
      (''market_data_latency_source'', VStr (ev_source (p_market_latency p))),
      (''submit_ack_latency_ms'', flt_opt_val (clamp0 (ev_value ack))),
      (''submit_ack_latency_status'', VStr (ev_status ack)), (''submit_ack_latency_source'', VStr (ev_source ack)),
      (''latency_ms'', flt_opt_val (clamp0 (ev_value latency))), (''latency_status'', VStr (ev_status latency)),
      (''latency_source'', VStr (ev_source latency)), (''latency_ms_zero_verified'', flag_val market_ctx ''latency_ms_zero_verified''),
      (''spread_pct'', flt_opt_val (ev_value spread)), (''spread_status'', VStr (ev_status spread)),
      (''spread_source'', VStr (ev_source spread)), (''spread_pct_zero_verified'', flag_val market_ctx ''spread_pct_zero_verified''),
      (''spread_unit_assumed'', VStr spread_unit), (''slippage_unit_assumed'', VStr slip_unit)])"

definition build_execution_context :: "pydict \<Rightarrow> pyval \<Rightarrow> pydict py" where
  "build_execution_context market_ctx funding_rate_pct =
    bindE (context_parts market_ctx funding_rate_pct) (\<lambda>p.
    bindE (classify_execution_evidence (classified_fields p) False) (\<lambda>evidence_status.
      case p_volatility p of (regime, vol_status, vol_source) \<Rightarrow>
      Inr (context_cost_fields market_ctx p @
       [(''orderbook_imbalance'', orderbook_clamped p), (''orderbook_status'', VStr (ev_status (p_orderbook p))),
        (''orderbook_source'', VStr (ev_source (p_orderbook p))),
        (''orderbook_imbalance_zero_verified'', flag_val market_ctx ''orderbook_imbalance_zero_verified''),
        (''liquidity_score'', flt_opt_val (ev_value (p_liquidity p))), (''liquidity_status'', VStr (ev_status (p_liquidity p))),
        (''liquidity_source'', VStr (ev_source (p_liquidity p))),
        (''funding_rate_pct'', flt_opt_val (ev_value (p_funding p))), (''funding_status'', VStr (ev_status (p_funding p))),
        (''funding_source'', VStr (ev_source (p_funding p))),
        (''funding_rate_pct_zero_verified'', flag_val market_ctx ''funding_rate_pct_zero_verified''),
        (''fee_pct'', flt_opt_val (ev_value (p_fee p))), (''fee_status'', VStr (ev_status (p_fee p))),
        (''fee_source'', VStr (ev_source (p_fee p))),
        (''volatility_regime'', str_opt_val regime), (''volatility_status'', VStr vol_status),
        (''volatility_source'', VStr vol_source), (''evidence_status'', VStr evidence_status),
        (''spoof_risk'', flt_opt_val (ev_value (p_spoof p))), (''spoof_status'', VStr (ev_status (p_spoof p))),
        (''spoof_source'', VStr (ev_source (p_spoof p))),
        (''spoof_confirmed'', bool_or_none (dget market_ctx ''spoof_confirmed'')),
        (''absorption_score'', flt_opt_val (ev_value (p_absorption p))), (''absorption_status'', VStr (ev_status (p_absorption p))),
        (''absorption_source'', VStr (ev_source (p_absorption p))),
        (''absorption_execution_ok'', bool_or_none (dget market_ctx ''absorption_execution_ok'')),
        (''liquidity_depth_usdt'', flt_opt_val (ev_value (p_depth p))), (''liquidity_depth_status'', VStr (ev_status (p_depth p))),
        (''liquidity_depth_source'', VStr (ev_source (p_depth p))),
        (''microstructure_observed_at'', flt_opt_val (p_observed_at p)),
        (''microstructure_reference_ts'', flt_opt_val (p_reference_ts p)),
        (''trade_side'', let s = py_upper (str_or (dget market_ctx ''side'') []) in if s = [] then VNone else VStr s)])))"

definition neutral_execution_context :: pydict where
  "neutral_execution_context =
    [(''expected_slippage_pct'', VFloat (Fin 0)), (''latency_ms'', VFloat (Fin 50)), (''spread_pct'', VFloat (Fin 0)),
     (''spread_source'', VStr ''UNKNOWN''), (''orderbook_imbalance'', VFloat (Fin 0)), (''liquidity_score'', VFloat (Fin 1)),
     (''funding_rate_pct'', VNone), (''funding_status'', VStr ''UNAVAILABLE''), (''volatility_regime'', VNone),
     (''volatility_status'', VStr ''UNAVAILABLE''), (''spoof_risk'', VNone), (''spoof_status'', VStr ''UNAVAILABLE''),
     (''spoof_source'', VStr ''UNAVAILABLE''), (''spoof_confirmed'', VNone), (''absorption_score'', VNone),
     (''absorption_status'', VStr ''UNAVAILABLE''), (''absorption_source'', VStr ''UNAVAILABLE''),
     (''absorption_execution_ok'', VNone), (''liquidity_depth_usdt'', VNone),
     (''liquidity_depth_status'', VStr ''UNAVAILABLE''), (''liquidity_depth_source'', VStr ''UNAVAILABLE''),
     (''microstructure_observed_at'', VNone), (''microstructure_reference_ts'', VNone), (''trade_side'', VNone)]"

subsection \<open>Properties\<close>

lemma context_shape:
  assumes "build_execution_context market_ctx funding = Inr ctx"
  obtains p where "context_parts market_ctx funding = Inr p"
    "dget ctx ''spread_pct'' = flt_opt_val (ev_value (fst (p_spread p)))"
    "dget ctx ''spread_status'' = VStr (ev_status (fst (p_spread p)))"
    "dget ctx ''latency_ms'' = flt_opt_val (clamp0 (ev_value (snd (p_latency p))))"
    "dget ctx ''latency_status'' = VStr (ev_status (snd (p_latency p)))"
    "dget ctx ''slippage_status'' = VStr (fst (snd (p_slippage p)))"
proof -
  obtain p where p: "context_parts market_ctx funding = Inr p"
    and c: "\<exists>rest. ctx = context_cost_fields market_ctx p @ rest"
    using assms by (auto simp: build_execution_context_def bindE_Inr_iff case_prod_unfold)
  show ?thesis
    using c by (intro that [OF p]) (auto simp: context_cost_fields_def case_prod_unfold)
qed

lemma context_parts_Inr:
  assumes "context_parts market_ctx funding = Inr p"
  shows "\<exists>klines. py_list (py_or (dget_or market_ctx ''recent_klines'' (VList [])) (VList [])) = Inr klines \<and>
      slippage_evidence market_ctx klines = Inr (p_slippage p)"
    "spread_evidence market_ctx = Inr (p_spread p)" "latency_evidence market_ctx = Inr (p_latency p)"
  using assms unfolding context_parts_def bindE_Inr_iff by auto

lemma missing_critical_rejects:
  assumes "evaluate_execution_safety ctx eff_rr min_rr0 t rm = Inr r" and "reject_unknown (safety_policy t)"
    and "f \<in> set (critical_fields rm (orderbook_required (safety_policy t)))" and "field_missing ctx rm f"
  shows "\<not> accepted r \<and> f \<in> set (sr_missing_fields r)"
  using assms(1)
proof (rule evaluate_safetyE)
  fix lims ms vals and effective :: "flt option" and min_rr model
  assume ev: "failed_gate_evidence r = safety_gates (safety_policy t) ms lims (numbers vals)
       (safety_missing_fields ctx (numbers vals) rm (safety_policy t) ms) (invalid_numeric_fields ctx (numbers vals))
       (safety_fake_zero_fields ctx (numbers vals) rm (safety_policy t)) (volatility_penalty model)
       (sr_total_explicit_cost_pct r) effective min_rr"
    and fl: "all_failed_gates r = py_unique (map gate (failed_gate_evidence r))"
    and ac: "accepted r \<longleftrightarrow> all_failed_gates r = []"
    and mi: "sr_missing_fields r = sorted_set (safety_missing_fields ctx (numbers vals) rm (safety_policy t) ms)"
  have f: "f \<in> set (safety_missing_fields ctx (numbers vals) rm (safety_policy t) ms)"
    using assms(3,4) by (simp add: safety_missing_fields_def)
  then have "\<not> accepted r"
    using no_safety_gates(2) [OF accepted_no_gates [OF _ ac fl, unfolded ev]] assms(2) by auto
  then show ?thesis using f mi by simp
qed

lemma measured_or_none:
  assumes "spread_evidence market_ctx = Inr (e, u)" and "to_float (dget market_ctx ''spread_pct'') = Inr None"
    and "\<forall>b a. to_float (dget market_ctx ''best_bid'') = Inr (Some b) \<and> to_float (dget market_ctx ''best_ask'') = Inr (Some a) \<longrightarrow>
      \<not> (flt_less (Fin 0) b \<and> flt_less (Fin 0) a)"
  shows "ev_value e = None \<and> ev_status e = ''UNAVAILABLE''"
  using assms unfolding spread_evidence_def bindE_Inr_iff Let_def case_prod_unfold
  by (auto split: option.splits)

text \<open>A spread nobody measured stops the order. When the market context has no readable
  spread and lacks a positive bid or a positive ask, the context built from it carries no
  spread value and the status UNAVAILABLE, and the safety evaluation of that context, under a
  policy that rejects unknown context, rejects and names the spread.\<close>

theorem unmeasured_spread_rejects:
  assumes "build_execution_context market_ctx funding = Inr ctx"
    and "to_float (dget market_ctx ''spread_pct'') = Inr None"
    and "\<forall>b a. to_float (dget market_ctx ''best_bid'') = Inr (Some b) \<and> to_float (dget market_ctx ''best_ask'') = Inr (Some a) \<longrightarrow>
      \<not> (flt_less (Fin 0) b \<and> flt_less (Fin 0) a)"
    and "evaluate_execution_safety ctx eff_rr min_rr0 t rm = Inr r" and "reject_unknown (safety_policy t)"
  shows "dget ctx ''spread_pct'' = VNone \<and> dget ctx ''spread_status'' = VStr ''UNAVAILABLE'' \<and>
    \<not> accepted r \<and> ''spread_pct'' \<in> set (sr_missing_fields r)"
proof -
  obtain p where p: "context_parts market_ctx funding = Inr p"
      "dget ctx ''spread_pct'' = flt_opt_val (ev_value (fst (p_spread p)))"
      "dget ctx ''spread_status'' = VStr (ev_status (fst (p_spread p)))"
    using assms(1) by (rule context_shape)
  have "ev_value (fst (p_spread p)) = None \<and> ev_status (fst (p_spread p)) = ''UNAVAILABLE''"
    using context_parts_Inr(2) [OF p(1)] measured_or_none [OF _ assms(2,3)] by (metis prod.collapse)
  then have v: "dget ctx ''spread_pct'' = VNone" "dget ctx ''spread_status'' = VStr ''UNAVAILABLE''"
    using p by (simp_all add: flt_opt_val_def)
  have "field_missing ctx rm ''spread_pct''" by (simp add: field_missing_def v unavailable_value_def in_strs_def)
  then show ?thesis
    using v missing_critical_rejects [OF assms(4,5), of "''spread_pct''"] by (simp add: critical_fields_def)
qed

text \<open>A network round trip is not an order latency. The latency the gates read is the
  submit/ack latency where there is one and the explicit execution latency otherwise, each
  not below zero; without either it is absent, whatever the market-data latency says.\<close>

theorem market_latency_not_promoted:
  assumes "build_execution_context market_ctx funding = Inr ctx"
    and "to_float (dget market_ctx ''submit_ack_latency_ms'') = Inr ack"
    and "to_float (dget market_ctx ''latency_ms'') = Inr explicit"
  shows "dget ctx ''latency_ms'' = flt_opt_val (clamp0 (if ack \<noteq> None then ack else explicit)) \<and>
    (ack = None \<and> explicit = None \<longrightarrow> dget ctx ''latency_ms'' = VNone)"
proof -
  obtain p where p: "context_parts market_ctx funding = Inr p"
      "dget ctx ''latency_ms'' = flt_opt_val (clamp0 (ev_value (snd (p_latency p))))"
    using assms(1) by (rule context_shape)
  have "ev_value (snd (p_latency p)) = (if ack \<noteq> None then ack else explicit)"
    using context_parts_Inr(3) [OF p(1)] assms(2,3)
    by (auto simp: latency_evidence_def Let_def dest!: sym [of _ "p_latency p"])
  then show ?thesis using p by (auto simp: clamp0_def flt_opt_val_def)
qed

definition quiet_market :: pydict where
  "quiet_market = [(''market_data_latency_ms'', VInt 20), (''best_bid'', VInt 100)]"

fun is_int :: "pyval \<Rightarrow> bool" where
  "is_int (VInt _) = True" | "is_int _ = False"

lemma catch_float_total: "is_int v = False \<Longrightarrow> \<exists>x. catch_tv (py_float v) d = Inr x"
  by (cases v) (auto split: option.splits)

lemma dget_no_int: "list_all (\<lambda>p. \<not> is_int (snd p)) d \<Longrightarrow> is_int (dget d k) = False"
  by (induction d) (auto split: if_splits)

lemma classified_no_int: "is_int (dget (classified_fields p) k) = False"
proof (rule dget_no_int)
  have o: "\<not> is_int (flt_opt_val x)" "\<not> is_int (str_opt_val y)" for x y
    by (simp_all add: flt_opt_val_def str_opt_val_def split: option.split)
  show "list_all (\<lambda>p. \<not> is_int (snd p)) (classified_fields p)"
    by (simp add: classified_fields_def case_prod_unfold o orderbook_clamped_def)
qed

lemma quiet_builds: "\<exists>ctx. build_execution_context quiet_market VNone = Inr ctx"
proof -
  have pl: "\<exists>e. plain_evidence m k u v = Inr e" if "\<exists>x. to_float (dget m k) = Inr x" for m k u v
    using that by (auto simp: plain_evidence_def)
  have q: "dget quiet_market k = (if k = ''market_data_latency_ms'' then VInt 20 else if k = ''best_bid'' then VInt 100 else VNone)"
    "dget_or quiet_market k d = (if k = ''market_data_latency_ms'' then VInt 20 else if k = ''best_bid'' then VInt 100 else d)" for k d
    by (simp_all add: quiet_market_def)
  have f: "\<exists>x. to_float (dget quiet_market k) = Inr x" for k
    by (simp add: q to_float_def int_to_float_small)
  have "py_list (py_or (dget_or quiet_market ''recent_klines'' (VList [])) (VList [])) = Inr []"
    by (simp add: q py_or_def py_list_def)
  moreover have "\<exists>e. slippage_evidence quiet_market [] = Inr e"
    by (simp add: slippage_evidence_def expected_slippage_pct_def float_or_def q py_or_def normalize_pct_input_def
        Let_def case_prod_unfold)
  moreover have "\<exists>e. spread_evidence quiet_market = Inr e"
    by (simp add: spread_evidence_def spread_pct_from_prices_def float_or_def q py_or_def normalize_pct_input_def
        to_float_def int_to_float_small Let_def case_prod_unfold)
  moreover have "\<exists>e. latency_evidence quiet_market = Inr e"
    by (simp add: latency_evidence_def q to_float_def Let_def)
  moreover have "\<exists>e. funding_evidence quiet_market VNone = Inr e"
    by (simp add: funding_evidence_def q to_float_def)
  moreover have "\<exists>e. fee_evidence quiet_market = Inr e"
    by (simp add: fee_evidence_def q to_float_def Let_def)
  moreover have "\<exists>e. liquidity_evidence quiet_market = Inr e"
    by (simp add: liquidity_evidence_def q unavailable_value_def in_strs_def Let_def)
  moreover have "\<exists>e. volatility_evidence quiet_market [] = Inr e"
    by (simp add: volatility_evidence_def q unavailable_value_def in_strs_def Let_def)
  moreover have "\<exists>x. to_float (dget_first quiet_market [''microstructure_reference_ts'', ''market_ts''] VNone) = Inr x"
    by (simp add: q to_float_def)
  ultimately have "\<exists>p. context_parts quiet_market VNone = Inr p"
  proof (elim exE)
    obtain pe fx where "\<And>k u v. plain_evidence quiet_market k u v = Inr (pe k u v)"
      "\<And>k. to_float (dget quiet_market k) = Inr (fx k)"
      using pl [OF f] f by metis
    moreover fix e1 e2 e3 e4 e5 e6 e7 e8
    assume "py_list (py_or (dget_or quiet_market ''recent_klines'' (VList [])) (VList [])) = Inr []"
      "slippage_evidence quiet_market [] = Inr e1" "spread_evidence quiet_market = Inr e2"
      "latency_evidence quiet_market = Inr e3" "funding_evidence quiet_market VNone = Inr e4"
      "fee_evidence quiet_market = Inr e5" "liquidity_evidence quiet_market = Inr e6"
      "volatility_evidence quiet_market [] = Inr e7"
      "to_float (dget_first quiet_market [''microstructure_reference_ts'', ''market_ts''] VNone) = Inr e8"
    ultimately show ?thesis by (simp only: context_parts_def bindE_simps) blast
  qed
  then obtain p where p: "context_parts quiet_market VNone = Inr p" by blast
  have "\<exists>x. catch_tv (py_float (dget (classified_fields p) k)) NaN = Inr x" for k
    using classified_no_int [of p k] by (rule catch_float_total)
  then obtain c where "classify_execution_evidence (classified_fields p) False = Inr c"
    using classify_total by blast
  then show ?thesis using p by (simp add: build_execution_context_def case_prod_unfold)
qed

theorem market_latency_not_promoted_witness:
  "\<exists>ctx. build_execution_context quiet_market VNone = Inr ctx \<and> dget ctx ''latency_ms'' = VNone"
proof -
  obtain ctx where c: "build_execution_context quiet_market VNone = Inr ctx" using quiet_builds by blast
  have "to_float (dget quiet_market ''submit_ack_latency_ms'') = Inr None" "to_float (dget quiet_market ''latency_ms'') = Inr None"
    by (simp_all add: quiet_market_def to_float_def)
  from market_latency_not_promoted [OF c this] c show ?thesis by blast
qed

lemma quiet_evaluates:
  assumes "build_execution_context quiet_market VNone = Inr ctx"
  shows "\<exists>r. evaluate_execution_safety ctx (VInt 2) (VInt 1) [] False = Inr r"
proof -
  have c: "is_int (dget ctx k) = False" for k
  proof (rule dget_no_int)
    have o: "\<not> is_int (flt_opt_val x)" "\<not> is_int (str_opt_val y)" "\<not> is_int (flag_val quiet_market j)"
      "\<not> is_int (bool_or_none v)" for x y j v
      by (simp_all add: flt_opt_val_def str_opt_val_def flag_val_def bool_or_none_def split: option.split) (cases v; simp)
    show "list_all (\<lambda>p. \<not> is_int (snd p)) ctx"
      using assms by (auto simp: build_execution_context_def bindE_Inr_iff case_prod_unfold context_cost_fields_def o
          orderbook_clamped_def Let_def)
  qed
  have fl: "\<exists>x. catch_tv (py_float (dget ctx k)) d = Inr x" for k d
    by (rule catch_float_total [OF c])
  have cls: "\<exists>cl. classify_execution_evidence ctx b = Inr cl" for b by (rule classify_total [OF fl])
  have read: "\<exists>x. catch_tv (bindE (py_float (dget ctx k)) (\<lambda>y. Inr (f y))) (g::'b) = Inr x" for k f g
    using fl [of k NaN] by (cases "py_float (dget ctx k)") (auto simp: catch_tv_def split: if_splits)
  have req: "\<exists>x. req_float ctx k = Inr x" "\<exists>x. number ctx k = Inr x" "\<exists>x. finite_field ctx k = Inr x"
    "\<exists>x. float_unless_bool (dget ctx k) = Inr x" for k
    using read by (auto simp: req_float_def number_def finite_field_def float_unless_bool_def Let_def)
  have mp: "(\<And>k. \<exists>x. h k = Inr x) \<Longrightarrow> \<exists>xs. mapE h ks = Inr xs" for h :: "string \<Rightarrow> flt option py" and ks
    by (induction ks) (auto simp: bindE_Inr_iff)
  have model: "\<exists>m. build_execution_cost_model ctx False = Inr m"
    using mp [of "req_float ctx" cost_fields, OF req(1)] cls by (auto simp: build_execution_cost_model_def bindE_Inr_iff Let_def)
  have micro: "\<exists>ms. evaluate_microstructure_authority ctx s False (dget ctx ''microstructure_reference_ts'') VNone = Inr ms" for s
  proof -
    obtain ff fu where f: "\<And>k. finite_field ctx k = Inr (ff k)" "\<And>k. float_unless_bool (dget ctx k) = Inr (fu k)"
      using req(3,4) by metis
    have "float_unless_bool VNone = Inr None" by (simp add: float_unless_bool_def)
    then show ?thesis
      using f(2) [of "''microstructure_reference_ts''"]
      by (simp add: evaluate_microstructure_authority_def microstructure_inputs_def f Let_def split: if_split)
  qed
  obtain m c ms xs where "build_execution_cost_model ctx False = Inr m" "classify_execution_evidence ctx False = Inr c"
    "evaluate_microstructure_authority ctx (side_or_none ctx) False (dget ctx ''microstructure_reference_ts'') VNone = Inr ms"
    "mapE (number ctx) numeric_fields = Inr xs"
    using model cls micro mp [of "number ctx" numeric_fields, OF req(2)] by metis
  then show ?thesis
    by (simp add: evaluate_execution_safety_def Let_def default_policy default_limits effective_or_none_def int_to_float_small)
qed

theorem unmeasured_spread_rejects_witness:
  "\<exists>ctx r. build_execution_context quiet_market VNone = Inr ctx \<and>
     evaluate_execution_safety ctx (VInt 2) (VInt 1) [] False = Inr r \<and> \<not> accepted r"
proof -
  obtain ctx where c: "build_execution_context quiet_market VNone = Inr ctx" using quiet_builds by blast
  obtain r where r: "evaluate_execution_safety ctx (VInt 2) (VInt 1) [] False = Inr r" using quiet_evaluates [OF c] by blast
  have q: "to_float (dget quiet_market ''spread_pct'') = Inr None" "to_float (dget quiet_market ''best_ask'') = Inr None"
    by (simp_all add: quiet_market_def to_float_def)
  have p: "reject_unknown (safety_policy [])" by (simp add: default_policy)
  show ?thesis using unmeasured_spread_rejects [OF c q(1) _ r p] q(2) c r by auto
qed

end
