(* ===== verification/OrderQuality.thy ===== *)
theory OrderQuality
  imports PortfolioRisk ExecutionContext
begin

section \<open>Candidates and trade quality (\<^verbatim>\<open>order.py\<close>, \<^verbatim>\<open>config_registry.py\<close>)\<close>

text \<open>
  The quality gate every signal passes in BACKTEST, PAPER and LIVE: a candidate is built
  from the market context, thresholds adapt to streaks of losses and wins, and a chain of
  conditions decides. The chain is a list of clauses, each a condition that may raise, in
  the order of the code, and the first one that holds gives the reason; in BACKTEST a clause
  may have a switch that skips it and records the skip. The values of the configuration
  registry (environment, overrides file) are the argument \<open>val\<close>.
\<close>

subsection \<open>Helpers\<close>

definition nullable_float :: "pyval \<Rightarrow> flt option py" where
  "nullable_float v =
    (if unavailable_value v then Inr None else catch_tv (bindE (py_float v) (\<lambda>x. Inr (Some x))) None)"

definition float_or0 :: "pyval \<Rightarrow> flt py" where
  \<comment> \<open>\<^verbatim>\<open>float(v or 0.0)\<close>\<close>
  "float_or0 v = py_float (py_or v (VFloat (Fin 0)))"

definition int_or0 :: "pyval \<Rightarrow> int py" where
  \<comment> \<open>\<^verbatim>\<open>int(v or 0)\<close>\<close>
  "int_or0 v = py_int (py_or v (VInt 0))"

definition config_int :: "pydict \<Rightarrow> string \<Rightarrow> int py" where
  "config_int cfg k = bindE (dindex cfg k) py_int"

fun py_iter :: "pyval \<Rightarrow> pyval list py" where
  \<comment> \<open>what a for loop over the value sees\<close>
  "py_iter (VList xs) = Inr xs"
| "py_iter (VStr s) = Inr (map (\<lambda>c. VStr [c]) s)"
| "py_iter (VDict d) = Inr (map (\<lambda>p. VStr (fst p)) d)"
| "py_iter _ = Inl TypeError"

definition upper_items :: "pyval \<Rightarrow> string list py" where
  \<comment> \<open>\<^verbatim>\<open>[str(x).upper() for x in v]\<close>\<close>
  "upper_items v = bindE (py_iter v) (\<lambda>xs. Inr (map (\<lambda>x. py_upper (py_str x)) xs))"

definition stat_of :: "pydict \<Rightarrow> string \<Rightarrow> string \<Rightarrow> int py" where
  \<comment> \<open>\<^verbatim>\<open>int((stats.get(k, {}) or {}).get(symbol, 0) or 0)\<close>\<close>
  "stat_of stats k symbol =
    (case py_or (dget stats k) (VDict []) of VDict d \<Rightarrow> int_or0 (dget_or d symbol (VInt 0)) | _ \<Rightarrow> Inl AttributeError)"

definition andE :: "bool \<Rightarrow> bool py \<Rightarrow> bool py" where
  \<comment> \<open>\<^verbatim>\<open>b and m\<close>: the second operand only when the first holds\<close>
  "andE b m = (if b then m else Inr False)"

definition orE :: "bool \<Rightarrow> bool py \<Rightarrow> bool py" where
  "orE b m = (if b then Inr True else m)"

fun first_float :: "pyval list \<Rightarrow> flt option py" where
  \<comment> \<open>the first value \<^verbatim>\<open>float\<close> accepts\<close>
  "first_float [] = Inr None"
| "first_float (v # vs) =
    (case py_float v of Inr x \<Rightarrow> Inr (Some x) | Inl e \<Rightarrow> if type_or_value e then first_float vs else Inl e)"

subsection \<open>Thresholds\<close>

definition over_60 :: "pyval \<Rightarrow> pyval py" where
  \<comment> \<open>\<^verbatim>\<open>v / 60.0\<close>\<close>
  "over_60 v = (case v of VStr _ \<Rightarrow> Inl TypeError | _ \<Rightarrow> bindE (py_float v) (\<lambda>x. Inr (VFloat (fdiv x (Fin 60)))))"

definition decision_filter_config :: "(string \<Rightarrow> pyval) \<Rightarrow> string \<Rightarrow> pydict py" where
  "decision_filter_config val mode =
    (let mode_u = py_upper (py_str (py_or (VStr mode) (val ''ALPHAFORGE_EXECUTION_MODE''))) in
     bindE (over_60 (val ''ALPHAFORGE_SYMBOL_COOLDOWN_SEC'')) (\<lambda>cooldown. Inr
      [(''MODE'', VStr mode_u),
       (''MIN_TRADE_SCORE'', val ''ALPHAFORGE_MIN_SIGNAL_SCORE''),
       (''MIN_RR'', val ''ALPHAFORGE_MIN_RR''),
       (''MIN_EFFECTIVE_RR'', val ''MIN_EFFECTIVE_RR''),
       (''MIN_EXPECTANCY'', VFloat (Fin 0)),
       (''MIN_SL_PCT'', val ''ALPHAFORGE_MIN_SL_PCT''),
       (''MAX_SL_PCT'', val ''ALPHAFORGE_MAX_SL_PCT''),
       (''MAX_SPREAD_PCT'', val ''ALPHAFORGE_MAX_SPREAD_PCT''),
       (''MAX_EXPECTED_SLIPPAGE_PCT'', val ''ALPHAFORGE_MAX_EXPECTED_SLIPPAGE_PCT''),
       (''MAX_SLIPPAGE_PCT'', val ''ALPHAFORGE_MAX_EXPECTED_SLIPPAGE_PCT''),
       (''MAX_TOTAL_COST_PCT'', val ''ALPHAFORGE_MAX_TOTAL_COST_PCT''),
       (''MIN_LIQUIDITY_SCORE'', val ''ALPHAFORGE_MIN_LIQUIDITY_SCORE''),
       (''MAX_VOLATILITY_PENALTY_PCT'', val ''ALPHAFORGE_MAX_VOLATILITY_PENALTY_PCT''),
       (''MAX_LATENCY_MS'', val ''ALPHAFORGE_MAX_LATENCY_MS''),
       (''MAX_ABS_FUNDING_RATE_PCT'', val ''ALPHAFORGE_MAX_ABS_FUNDING_RATE_PCT''),
       (''REJECT_UNKNOWN_EXECUTION_CONTEXT'', val ''ALPHAFORGE_REJECT_UNKNOWN_EXECUTION_CONTEXT''),
       (''MIN_ATR_PCT'', val ''ALPHAFORGE_MIN_ATR_PCT''),
       (''MAX_ATR_PCT'', val ''ALPHAFORGE_MAX_ATR_PCT''),
       (''BLOCK_UNKNOWN_EXPECTANCY'', val ''ALPHAFORGE_BLOCK_UNKNOWN_EXPECTANCY''),
       (''BLOCK_CHOP_MARKET'', val ''ALPHAFORGE_BLOCK_CHOP_MARKET''),
       (''REQUIRE_REGIME_ALIGNMENT'', val ''ALPHAFORGE_REQUIRE_REGIME_ALIGNMENT''),
       (''ENABLE_ORDERBOOK_FILTER'', val ''ALPHAFORGE_ENABLE_ORDERBOOK_FILTER''),
       (''STOP_TOO_WIDE_HARD_REJECT'', val ''ALPHAFORGE_STOP_TOO_WIDE_HARD_REJECT''),
       (''STOP_TOO_WIDE_SOFTEN_FOR_HIGH_SCORE'', VBool True),
       (''STOP_TOO_WIDE_SOFT_SCORE_MIN'', val ''ALPHAFORGE_STOP_TOO_WIDE_SOFT_SCORE_MIN''),
       (''STOP_TOO_WIDE_SOFT_EFFECTIVE_RR_MIN'', val ''ALPHAFORGE_STOP_TOO_WIDE_SOFT_EFFECTIVE_RR_MIN''),
       (''STOP_TOO_WIDE_MAX_RISK_SCALE'', val ''ALPHAFORGE_STOP_TOO_WIDE_MAX_RISK_SCALE''),
       (''STOP_TOO_WIDE_EXTREME_MULT'', val ''ALPHAFORGE_STOP_TOO_WIDE_EXTREME_MULT''),
       (''RUNTIME_LIMITS_ACTIVE'', VBool (mode_u = ''PAPER'' \<or> mode_u = ''LIVE'')),
       (''SYMBOL_COOLDOWN_MINUTES'', cooldown),
       (''MAX_TRADES_PER_SYMBOL_PER_DAY'', val ''ALPHAFORGE_MAX_TRADES_SYMBOL_PER_DAY''),
       (''MAX_TRADES_GLOBAL_PER_DAY'', val ''ALPHAFORGE_MAX_TRADES_GLOBAL_PER_DAY''),
       (''SYMBOL_LOSS_STREAK_LIMIT'', val ''ALPHAFORGE_SYMBOL_LOSS_STREAK_LIMIT''),
       (''GLOBAL_LOSS_STREAK_LIMIT'', val ''ALPHAFORGE_GLOBAL_LOSS_STREAK_LIMIT'')]))"

definition supplied_mode :: "pydict \<Rightarrow> string" where
  \<comment> \<open>\<^verbatim>\<open>str(d.get("MODE", d.get("mode", "PAPER"))).upper()\<close>\<close>
  "supplied_mode d = py_upper (py_str (dget_or d ''MODE'' (dget_or d ''mode'' (VStr ''PAPER''))))"

definition clamp_score :: "flt \<Rightarrow> flt" where
  "clamp_score s =
    (if flt_le s (Fin 1) then py_max (Fin 0) (py_min (Fin 1) s) else py_max (Fin 6) (py_min (Fin (19 / 2)) s))"

definition compute_adaptive_thresholds :: "(string \<Rightarrow> pyval) \<Rightarrow> pydict \<Rightarrow> pydict \<Rightarrow> (flt \<times> flt) py" where
  \<comment> \<open>the minimum score and the minimum risk/reward\<close>
  "compute_adaptive_thresholds val stats provided =
    bindE (decision_filter_config val (supplied_mode provided)) (\<lambda>_.
    bindE (py_float (dget_or provided ''MIN_TRADE_SCORE'' (VFloat (Fin (15 / 2))))) (\<lambda>score0.
    bindE (py_float (dget_or provided ''MIN_RR'' (VFloat (fl (13 / 10))))) (\<lambda>rr0.
    bindE (int_or0 (dget_or stats ''consecutive_sl_count'' (VInt 0))) (\<lambda>sl.
    bindE (int_or0 (dget_or stats ''consecutive_tp_count'' (VInt 0))) (\<lambda>tp.
    let score1 = (if 5 \<le> sl then fadd score0 (Fin (3 / 2)) else if 3 \<le> sl then fadd score0 (Fin 1) else score0);
        rr1 = (if 5 \<le> sl then fadd rr0 (Fin (1 / 2)) else if 3 \<le> sl then fadd rr0 (fl (3 / 10)) else rr0);
        score2 = (if 5 \<le> tp then fsub score1 (Fin 1) else if 3 \<le> tp then fsub score1 (Fin (1 / 2)) else score1);
        rr2 = (if 5 \<le> tp then fsub rr1 (fl (3 / 10)) else if 3 \<le> tp then fsub rr1 (fl (2 / 10)) else rr1)
    in Inr (clamp_score score2, py_max (fl (12 / 10)) (py_min (Fin 3) rr2)))))))"

subsection \<open>Candidates\<close>

record OrderCandidate =
  oc_symbol :: string
  oc_side :: string
  oc_setup_type :: string
  oc_setup_reason :: string
  oc_regime :: string
  oc_score :: flt
  oc_rr :: flt
  oc_expectancy :: "flt option"
  oc_entry :: flt
  oc_sl :: flt
  oc_tp :: flt
  oc_order_type :: string

definition build_order_candidate :: "string \<Rightarrow> pydict \<Rightarrow> (string + OrderCandidate) py" where
  \<comment> \<open>on the left the reason of an \<^verbatim>\<open>OrderRejection\<close>\<close>
  "build_order_candidate symbol ctx =
    bindE (float_or0 (dget_or ctx ''entry'' (VFloat (Fin 0)))) (\<lambda>entry.
    bindE (float_or0 (dget_or ctx ''sl'' (VFloat (Fin 0)))) (\<lambda>sl.
    bindE (float_or0 (dget_or ctx ''tp'' (VFloat (Fin 0)))) (\<lambda>tp.
    if flt_le entry (Fin 0) \<or> flt_le sl (Fin 0) \<or> flt_le tp (Fin 0) then Inr (Inl ''INVALID_LEVELS'')
    else
    bindE (float_or0 (dget_or ctx ''score'' (VFloat (Fin 0)))) (\<lambda>score.
    bindE (float_or0 (dget_or ctx ''rr'' (VFloat (Fin 0)))) (\<lambda>rr.
    bindE (if dget ctx ''expectancy'' = VNone then Inr None
           else bindE (py_float (dget ctx ''expectancy'')) (\<lambda>x. Inr (Some x))) (\<lambda>expectancy.
    Inr (Inr \<lparr>oc_symbol = symbol, oc_side = py_str (dget_or ctx ''side'' (VStr ''LONG'')),
      oc_setup_type = py_str (dget_or ctx ''setup_type'' (VStr ''GENERIC'')),
      oc_setup_reason = py_str (dget_or ctx ''setup_reason'' (VStr ''NONE'')),
      oc_regime = py_str (dget_or ctx ''regime'' (VStr ''UNKNOWN'')), oc_score = score, oc_rr = rr,
      oc_expectancy = expectancy, oc_entry = entry, oc_sl = sl, oc_tp = tp,
      oc_order_type = py_str (dget_or ctx ''order_type'' (VStr ''MARKET''))\<rparr>)))))))"

subsection \<open>The inputs of the gate\<close>

record TradeInputs =
  ti_cfg :: pydict
  ti_mode :: string
  ti_symbol :: string
  ti_side :: string
  ti_setup_type :: string
  ti_setup_reason :: string
  ti_regime :: string
  ti_volatility :: string
  ti_spread :: flt
  ti_slippage :: flt
  ti_atr :: "flt option"
  ti_stop :: pydict
  ti_expectancy :: "flt option"
  ti_score :: flt
  ti_rr :: flt
  ti_effective_rr :: flt
  ti_min_score :: flt
  ti_score_gate :: bool
  ti_expectancy_gate :: bool
  ti_flags :: "string list"
  ti_orderbook_filter :: bool
  ti_orderbook_missing :: bool
  ti_orderbook_risky :: bool

definition quality_config :: "(string \<Rightarrow> pyval) \<Rightarrow> pydict \<Rightarrow> flt \<times> flt \<Rightarrow> pydict py" where
  \<comment> \<open>the registry's values, then the adaptive thresholds, then what the caller supplied\<close>
  "quality_config val supplied adaptive =
    bindE (decision_filter_config val (supplied_mode supplied)) (\<lambda>cfg0.
    let cfg1 = dset ''MIN_RR'' (VFloat (snd adaptive)) (dset ''MIN_TRADE_SCORE'' (VFloat (fst adaptive)) cfg0);
        cfg2 = dupdate cfg1 supplied
    in Inr (if supplied_mode supplied = ''BACKTEST'' \<and> map_of supplied ''RUNTIME_LIMITS_ACTIVE'' = None
            then dset ''RUNTIME_LIMITS_ACTIVE'' (VBool False) cfg2 else cfg2))"

definition stop_fill :: "OrderCandidate \<Rightarrow> pydict \<Rightarrow> flt option py" where
  \<comment> \<open>the expected fill the stop distance is measured from\<close>
  "stop_fill c ctx =
    bindE (nullable_float (dget ctx ''expected_fill'')) (\<lambda>fill.
    case fill of Some f \<Rightarrow> Inr (Some f)
    | None \<Rightarrow> bindE (nullable_float (dget ctx ''expected_slippage_pct'')) (\<lambda>slip.
        case slip of None \<Rightarrow> Inr None
        | Some x \<Rightarrow> catch_value (bindE (adverse_expected_fill_price (VFloat (oc_entry c)) (VStr (oc_side c)) (VFloat x))
            (\<lambda>p. Inr (Some p))) None))"

definition expectancy_value :: "OrderCandidate \<Rightarrow> pydict \<Rightarrow> pydict \<Rightarrow> flt option py" where
  "expectancy_value c ctx stats =
    (case oc_expectancy c of Some x \<Rightarrow> Inr (Some x)
     | None \<Rightarrow> first_float [dget ctx ''expectancy_bucket'', dget ctx ''expectancy'', dget stats ''expectancy''])"

definition scaled_score :: "flt \<Rightarrow> flt \<Rightarrow> flt" where
  "scaled_score score min_score =
    (if flt_le min_score (Fin 1) then score
     else if flt_le (Fin 0) score \<and> flt_less score (Fin 1) then fmul score (Fin 10) else score)"

definition orderbook_state :: "pydict \<Rightarrow> (bool \<times> bool) py" where
  \<comment> \<open>missing, risky\<close>
  "orderbook_state ctx =
    bindE (nullable_float (dget ctx ''orderbook_imbalance'')) (\<lambda>imb.
    bindE (nullable_float (dget ctx ''spoof_risk'')) (\<lambda>spoof.
    let status = py_upper (py_str (py_or (dget ctx ''orderbook_status'')
          (VStr (if imb \<noteq> None then ''MEASURED'' else ''UNAVAILABLE''))))
    in Inr (imb = None \<or> status \<in> {[], ''UNKNOWN'', ''UNAVAILABLE'', ''UNAVAILABLE_BACKTEST''},
      (case imb of None \<Rightarrow> False | Some x \<Rightarrow> flt_le (fl (90 / 100)) (flt_abs x)) \<or>
      (case spoof of None \<Rightarrow> False | Some x \<Rightarrow> flt_le (fl (80 / 100)) x))))"

definition atr_value :: "pydict \<Rightarrow> pydict \<Rightarrow> flt option py" where
  "atr_value ctx stats =
    (let v = dget_or ctx ''atr_pct'' (dget stats ''atr_pct'') in
     if in_strs v [[]] then Inr None else bindE (py_float v) (\<lambda>x. Inr (Some x)))"

definition trade_inputs :: "(string \<Rightarrow> pyval) \<Rightarrow> OrderCandidate \<Rightarrow> pydict \<Rightarrow> pydict \<Rightarrow> pydict \<Rightarrow> ((flt \<times> flt) \<times> TradeInputs) py" where
  "trade_inputs val c ctx stats supplied =
    bindE (compute_adaptive_thresholds val stats supplied) (\<lambda>adaptive.
    bindE (quality_config val supplied adaptive) (\<lambda>cfg.
    bindE (float_or0 (dget_or ctx ''spread_pct'' (VFloat (Fin 0)))) (\<lambda>spread.
    bindE (float_or0 (dget_or ctx ''expected_slippage_pct'' (VFloat (Fin 0)))) (\<lambda>slippage.
    bindE (atr_value ctx stats) (\<lambda>atr.
    bindE (stop_fill c ctx) (\<lambda>fill.
    bindE (build_stop_risk_metrics (VFloat (oc_entry c)) (flt_opt_val fill) (VFloat (oc_sl c)) (supplied_mode supplied = ''BACKTEST'')) (\<lambda>stop.
    bindE (expectancy_value c ctx stats) (\<lambda>expectancy.
    bindE (nullable_float (dget ctx ''effective_rr'')) (\<lambda>eff.
    bindE (config_float cfg ''MIN_TRADE_SCORE'') (\<lambda>min_score.
    bindE (upper_items (py_or (dget ctx ''pattern_flags'') (VList []))) (\<lambda>flags.
    bindE (orderbook_state ctx) (\<lambda>(ob_missing, ob_risky).
    Inr (adaptive,
      \<lparr>ti_cfg = cfg, ti_mode = supplied_mode supplied, ti_symbol = oc_symbol c, ti_side = oc_side c,
       ti_setup_type = py_upper (oc_setup_type c), ti_setup_reason = oc_setup_reason c,
       ti_regime = py_upper (py_str (py_or (VStr (oc_regime c)) (dget_or ctx ''regime'' (VStr ''UNKNOWN'')))),
       ti_volatility = py_lower (str_or (dget_or ctx ''volatility_regime'' (VStr ''unknown'')) ''unknown''),
       ti_spread = spread, ti_slippage = slippage, ti_atr = atr, ti_stop = stop, ti_expectancy = expectancy,
       ti_score = scaled_score (oc_score c) min_score, ti_rr = oc_rr c,
       ti_effective_rr = (case eff of None \<Rightarrow> oc_rr c | Some x \<Rightarrow> x), ti_min_score = min_score,
       ti_score_gate = truthy (dget_or cfg ''SCORE_GATE_ACTIVE'' (VBool True)),
       ti_expectancy_gate = truthy (dget_or cfg ''EXPECTANCY_GATE_ACTIVE'' (VBool True)),
       ti_flags = flags,
       ti_orderbook_filter = truthy (dget_or cfg ''ENABLE_ORDERBOOK_FILTER'' (VBool False)),
       ti_orderbook_missing = ob_missing, ti_orderbook_risky = ob_risky\<rparr>)))))))))))))"

definition stop_distance :: "pydict \<Rightarrow> flt option" where
  "stop_distance stop = (case dget stop ''stop_distance_pct'' of VFloat x \<Rightarrow> Some x | _ \<Rightarrow> None)"

definition ti_sl :: "TradeInputs \<Rightarrow> flt option" where "ti_sl i = stop_distance (ti_stop i)"

definition regime_ok :: "TradeInputs \<Rightarrow> bool" where
  "regime_ok i =
    (let s = ti_setup_type i in
     if str_contains ''TREND_CONTINUATION'' s \<or> str_contains ''PULLBACK_'' s then ti_regime i \<in> {''TREND'', ''TRENDING''}
     else if str_contains ''BREAKOUT_UP'' s \<or> str_contains ''BREAKOUT_DOWN'' s then
       ti_regime i \<in> {''TREND'', ''TRENDING'', ''BREAKOUT''} \<and> ti_volatility i \<in> {''normal'', ''high'', ''breakout''}
     else if str_contains ''RANGE_MEAN_REVERSION'' s then ti_regime i \<in> {''RANGE'', ''MEAN_REVERTING''}
     else True)"

definition chop_market :: "TradeInputs \<Rightarrow> bool" where
  "chop_market i = list_ex (str_contains ''CHOP'') (ti_flags i)"

definition cfg_on :: "TradeInputs \<Rightarrow> string \<Rightarrow> bool py" where
  \<comment> \<open>the truth value of \<^verbatim>\<open>cfg[k]\<close>\<close>
  "cfg_on i k = bindE (dindex (ti_cfg i) k) (\<lambda>v. Inr (truthy v))"

definition at_least :: "TradeInputs \<Rightarrow> flt \<Rightarrow> string \<Rightarrow> bool py" where
  \<comment> \<open>\<^verbatim>\<open>x >= float(cfg[k])\<close>\<close>
  "at_least i x k = bindE (config_float (ti_cfg i) k) (\<lambda>m. Inr (flt_le m x))"

definition at_most :: "TradeInputs \<Rightarrow> flt \<Rightarrow> string \<Rightarrow> bool py" where
  "at_most i x k = bindE (config_float (ti_cfg i) k) (\<lambda>m. Inr (flt_le x m))"

definition below :: "TradeInputs \<Rightarrow> flt \<Rightarrow> string \<Rightarrow> bool py" where
  "below i x k = bindE (config_float (ti_cfg i) k) (\<lambda>m. Inr (flt_less x m))"

definition exceeds :: "TradeInputs \<Rightarrow> flt \<Rightarrow> string \<Rightarrow> bool py" where
  "exceeds i x k = bindE (config_float (ti_cfg i) k) (\<lambda>m. Inr (flt_less m x))"

definition notE :: "bool py \<Rightarrow> bool py" where "notE m = bindE m (\<lambda>b. Inr (\<not> b))"

definition quality_checks :: "TradeInputs \<Rightarrow> (string \<times> bool py) list" where
  \<comment> \<open>the diagnostic list of gates with what each requires\<close>
  "quality_checks i =
   [(''score'', Inr (\<not> ti_score_gate i \<or> flt_le (ti_min_score i) (ti_score i))),
    (''rr'', at_least i (ti_rr i) ''MIN_RR''),
    (''effective_rr'', at_least i (ti_effective_rr i) ''MIN_EFFECTIVE_RR''),
    (''expectancy_present'', orE (\<not> ti_expectancy_gate i) (bindE (cfg_on i ''BLOCK_UNKNOWN_EXPECTANCY'') (\<lambda>b. Inr (\<not> b \<or> ti_expectancy i \<noteq> None)))),
    (''expectancy_non_negative'', orE (\<not> ti_expectancy_gate i)
       (case ti_expectancy i of None \<Rightarrow> Inr True | Some x \<Rightarrow> at_least i x ''MIN_EXPECTANCY'')),
    (''pattern_flags'', bindE (cfg_on i ''BLOCK_CHOP_MARKET'') (\<lambda>b. Inr (\<not> b \<or> \<not> chop_market i))),
    (''regime'', bindE (cfg_on i ''REQUIRE_REGIME_ALIGNMENT'') (\<lambda>b. Inr (\<not> b \<or> regime_ok i))),
    (''orderbook_present'', Inr (\<not> ti_orderbook_filter i \<or> \<not> ti_orderbook_missing i)),
    (''orderbook_quality'', Inr (\<not> ti_orderbook_filter i \<or> \<not> ti_orderbook_risky i)),
    (''min_sl'', case ti_sl i of None \<Rightarrow> Inr False | Some x \<Rightarrow> at_least i x ''MIN_SL_PCT''),
    (''max_sl'', case ti_sl i of None \<Rightarrow> Inr False | Some x \<Rightarrow> at_most i x ''MAX_SL_PCT''),
    (''spread'', at_most i (ti_spread i) ''MAX_SPREAD_PCT''),
    (''slippage'', at_most i (ti_slippage i) ''MAX_EXPECTED_SLIPPAGE_PCT''),
    (''min_atr'', case ti_atr i of None \<Rightarrow> Inr True | Some x \<Rightarrow> at_least i x ''MIN_ATR_PCT''),
    (''max_atr'', case ti_atr i of None \<Rightarrow> Inr True | Some x \<Rightarrow> at_most i x ''MAX_ATR_PCT'')]"

definition failed_checks :: "TradeInputs \<Rightarrow> string list py" where
  "failed_checks i = bindE (mapE (\<lambda>(g, m). bindE m (\<lambda>b. Inr (g, b))) (quality_checks i))
     (\<lambda>rs. Inr (map fst (filter (\<lambda>(g, b). \<not> b) rs)))"

definition fdivE :: "flt \<Rightarrow> flt \<Rightarrow> flt py" where
  "fdivE x y = (if y = Fin 0 then Inl ZeroDivisionError else Inr (fdiv x y))"

definition share :: "flt \<Rightarrow> flt" where
  \<comment> \<open>\<^verbatim>\<open>max(0.0, min(1.0, x))\<close>\<close>
  "share x = py_max (Fin 0) (py_min (Fin 1) x)"

definition quality_score :: "TradeInputs \<Rightarrow> flt py" where
  "quality_score i =
    bindE (fdivE (ti_score i) (ti_min_score i)) (\<lambda>s.
    bindE (case ti_expectancy i of None \<Rightarrow> Inr (Fin 0)
           | Some x \<Rightarrow> bindE (config_float (ti_cfg i) ''MIN_EXPECTANCY'') (\<lambda>m.
               Inr (fmul (share (fdiv (fsub x m) (Fin (1 / 2)))) (Fin 25)))) (\<lambda>exp_comp.
    bindE (bindE (config_float (ti_cfg i) ''MIN_RR'') (fdivE (ti_rr i))) (\<lambda>r.
    bindE (at_most i (ti_spread i) ''MAX_SPREAD_PCT'') (\<lambda>spread_ok.
    bindE (if spread_ok then at_most i (ti_slippage i) ''MAX_EXPECTED_SLIPPAGE_PCT'' else Inr False) (\<lambda>micro_ok.
    bindE (case ti_atr i of None \<Rightarrow> Inr True
           | Some x \<Rightarrow> bindE (at_least i x ''MIN_ATR_PCT'') (\<lambda>b. andE b (at_most i x ''MAX_ATR_PCT''))) (\<lambda>vol_ok.
    Inr (py_round
      (fadd (fadd (fadd (fadd (fadd (fmul (share s) (Fin 25)) exp_comp) (fmul (share r) (Fin 10)))
        (if regime_ok i then Fin 20 else Fin 0)) (if micro_ok \<and> vol_ok then Fin 10 else Fin 0)) (Fin 10)) 2)))))))"

subsection \<open>The chain of rejections\<close>

record clause =
  cl_cond :: "bool py"
  cl_bypass :: "string option"
  cl_reason :: string
  cl_filter :: string

definition rule_on :: "bool py \<Rightarrow> string \<Rightarrow> string \<Rightarrow> clause" where
  "rule_on c reason flt_name = \<lparr>cl_cond = c, cl_bypass = None, cl_reason = reason, cl_filter = flt_name\<rparr>"

definition switched :: "bool py \<Rightarrow> string \<Rightarrow> string \<Rightarrow> string \<Rightarrow> clause" where
  "switched c switch reason flt_name = \<lparr>cl_cond = c, cl_bypass = Some switch, cl_reason = reason, cl_filter = flt_name\<rparr>"

fun run_clauses :: "string list \<Rightarrow> clause list \<Rightarrow> string list \<Rightarrow> (string list \<times> (string \<times> string) option) py" where
  \<comment> \<open>the if/elif chain: the switches used so far and the first clause that applies\<close>
  "run_clauses disabled [] used = Inr (used, None)"
| "run_clauses disabled (c # cs) used =
    bindE (cl_cond c) (\<lambda>holds.
      if \<not> holds then run_clauses disabled cs used
      else (case cl_bypass c of
          Some s \<Rightarrow> if s \<in> set disabled then run_clauses disabled cs (used @ [s])
                    else Inr (used, Some (cl_reason c, cl_filter c))
        | None \<Rightarrow> Inr (used, Some (cl_reason c, cl_filter c))))"

definition disabled_filters :: "TradeInputs \<Rightarrow> string list py" where
  "disabled_filters i =
    (if py_upper (py_str (dget_or (ti_cfg i) ''MODE'' (dget_or (ti_cfg i) ''mode'' (VStr [])))) = ''BACKTEST''
     then upper_items (dget_or (ti_cfg i) ''DISABLED_BACKTEST_FILTERS'' (VList [])) else Inr [])"

definition structural_clauses :: "TradeInputs \<Rightarrow> clause list" where
  "structural_clauses i =
   [rule_on (Inr (ti_symbol i = [])) ''INVALID_CANDIDATE'' ''candidate'',
    switched (Inr (ti_score_gate i \<and> flt_less (ti_score i) (ti_min_score i))) ''LOW_SCORE'' ''LOW_SCORE'' ''score'',
    switched (below i (ti_rr i) ''MIN_RR'') ''RR_TOO_LOW'' ''RR_TOO_LOW'' ''rr'',
    switched (below i (ti_effective_rr i) ''MIN_EFFECTIVE_RR'') ''RR_TOO_LOW'' ''LOW_EFFECTIVE_RR'' ''effective_rr'',
    rule_on (andE (ti_expectancy_gate i) (bindE (cfg_on i ''BLOCK_UNKNOWN_EXPECTANCY'') (\<lambda>b. Inr (b \<and> ti_expectancy i = None))))
      ''EXPECTANCY_MISSING'' ''expectancy'',
    rule_on (andE (ti_expectancy_gate i) (case ti_expectancy i of None \<Rightarrow> Inr False | Some x \<Rightarrow> below i x ''MIN_EXPECTANCY''))
      ''NEGATIVE_EXPECTANCY'' ''expectancy'',
    rule_on (bindE (cfg_on i ''BLOCK_CHOP_MARKET'') (\<lambda>b. Inr (b \<and> chop_market i))) ''CHOP_MARKET_BLOCK'' ''pattern_flags'',
    switched (bindE (cfg_on i ''REQUIRE_REGIME_ALIGNMENT'') (\<lambda>b. Inr (b \<and> \<not> regime_ok i))) ''REGIME_MISMATCH'' ''REGIME_MISMATCH'' ''regime'',
    rule_on (Inr (ti_orderbook_filter i \<and> ti_orderbook_missing i \<and>
        truthy (dget_or (ti_cfg i) ''REJECT_UNKNOWN_EXECUTION_CONTEXT'' (VBool True)))) ''ORDERBOOK_CONTEXT_MISSING'' ''orderbook_present'',
    rule_on (Inr (ti_orderbook_filter i \<and> ti_orderbook_risky i)) ''ORDERBOOK_RISK'' ''orderbook_quality'',
    rule_on (exceeds i (ti_slippage i) ''MAX_EXPECTED_SLIPPAGE_PCT'') ''SLIPPAGE_TOO_HIGH'' ''expected_slippage_pct'',
    rule_on (Inr (ti_sl i = None)) ''UNKNOWN_EXECUTION_CONTEXT'' ''stop_execution_basis'',
    rule_on (case ti_sl i of None \<Rightarrow> Inr False | Some x \<Rightarrow> below i x ''MIN_SL_PCT'') ''STOP_TOO_TIGHT'' ''sl_pct'']"

definition spread_clause :: "TradeInputs \<Rightarrow> clause" where
  "spread_clause i = rule_on (exceeds i (ti_spread i) ''MAX_SPREAD_PCT'') ''SPREAD_TOO_HIGH'' ''spread_pct''"

definition slippage_clause :: "TradeInputs \<Rightarrow> clause" where
  "slippage_clause i = rule_on (exceeds i (ti_slippage i) ''MAX_EXPECTED_SLIPPAGE_PCT'') ''SLIPPAGE_TOO_HIGH'' ''expected_slippage_pct''"

definition atr_clauses :: "TradeInputs \<Rightarrow> clause list" where
  "atr_clauses i =
   [rule_on (case ti_atr i of None \<Rightarrow> Inr False | Some x \<Rightarrow> below i x ''MIN_ATR_PCT'') ''VOLATILITY_TOO_LOW'' ''atr_pct'',
    rule_on (case ti_atr i of None \<Rightarrow> Inr False | Some x \<Rightarrow> exceeds i x ''MAX_ATR_PCT'') ''VOLATILITY_TOO_HIGH'' ''atr_pct'']"

definition limits_active :: "TradeInputs \<Rightarrow> bool" where
  "limits_active i = truthy (dget_or (ti_cfg i) ''RUNTIME_LIMITS_ACTIVE'' (VBool True))"

definition limit_clauses :: "TradeInputs \<Rightarrow> pydict \<Rightarrow> int \<Rightarrow> int \<Rightarrow> clause list" where
  \<comment> \<open>cooldown, trade counts and loss streaks; the numbers are the current and the last trade's time\<close>
  "limit_clauses i stats now_ts last_ts =
   [rule_on (andE (limits_active i \<and> last_ts \<noteq> 0 \<and> now_ts \<noteq> 0)
        (bindE (config_int (ti_cfg i) ''SYMBOL_COOLDOWN_MINUTES'') (\<lambda>m. Inr (now_ts - last_ts < m * 60000))))
      ''SYMBOL_COOLDOWN_ACTIVE'' ''cooldown'',
    switched (andE (limits_active i \<or> ti_mode i = ''BACKTEST'')
        (bindE (stat_of stats ''trades_today_by_symbol'' (ti_symbol i)) (\<lambda>n.
         bindE (config_int (ti_cfg i) ''MAX_TRADES_PER_SYMBOL_PER_DAY'') (\<lambda>m. Inr (m \<le> n)))))
      ''DAILY_SYMBOL_TRADE_LIMIT'' ''DAILY_SYMBOL_TRADE_LIMIT'' ''daily_symbol'',
    rule_on (andE (limits_active i)
        (bindE (int_or0 (dget_or stats ''global_trades_today'' (VInt 0))) (\<lambda>n.
         bindE (config_int (ti_cfg i) ''MAX_TRADES_GLOBAL_PER_DAY'') (\<lambda>m. Inr (m \<le> n)))))
      ''DAILY_GLOBAL_TRADE_LIMIT'' ''daily_global'',
    rule_on (andE (limits_active i) (bindE (stat_of stats ''symbol_loss_block_until'' (ti_symbol i)) (\<lambda>u. Inr (now_ts < u))))
      ''SYMBOL_LOSS_STREAK_BLOCK'' ''symbol_block'',
    rule_on (andE (limits_active i) (bindE (int_or0 (dget_or stats ''global_loss_block_until'' (VInt 0))) (\<lambda>u. Inr (now_ts < u))))
      ''GLOBAL_LOSS_STREAK_BLOCK'' ''global_block'']"

definition run_limits :: "TradeInputs \<Rightarrow> pydict \<Rightarrow> pydict \<Rightarrow> string list \<Rightarrow> clause list \<Rightarrow> string list \<Rightarrow>
    (string list \<times> (string \<times> string) option) py" where
  \<comment> \<open>the given cost clauses, and when none applies the limits\<close>
  "run_limits i ctx stats disabled costs used =
    bindE (run_clauses disabled costs used) (\<lambda>(used1, r).
    case r of Some x \<Rightarrow> Inr (used1, Some x)
    | None \<Rightarrow>
      bindE (int_or0 (dget_or ctx ''timestamp'' (VInt 0))) (\<lambda>now_ts.
      bindE (stat_of stats ''last_trade_ts_by_symbol'' (ti_symbol i)) (\<lambda>last_ts.
      run_clauses disabled (limit_clauses i stats now_ts last_ts) used1)))"

definition wide_outcome :: "TradeInputs \<Rightarrow> string list \<Rightarrow> string list \<Rightarrow> (string list \<times> (string \<times> string) option \<times> pydict) py" where
  \<comment> \<open>a stop wider than the maximum: the stop policy decides\<close>
  "wide_outcome i disabled used =
    (let bypass = ''STOP_TOO_WIDE'' \<in> set disabled; used1 = (if bypass then used @ [''STOP_TOO_WIDE''] else used) in
     bindE (evaluate_stop_risk_policy (ti_stop i) (VFloat (ti_score i)) (VFloat (ti_effective_rr i)) (ti_cfg i) bypass) (\<lambda>stop.
     Inr (used1, if truthy (dget stop ''accepted'') then None
       else Some (str_or (dget stop ''reject_reason'') ''STOP_TOO_WIDE'', ''sl_pct''), stop)))"

definition first_pass :: "TradeInputs \<Rightarrow> pydict \<Rightarrow> pydict \<Rightarrow> string list \<Rightarrow> (string list \<times> (string \<times> string) option \<times> pydict) py" where
  "first_pass i ctx stats disabled =
    bindE (run_clauses disabled (structural_clauses i) []) (\<lambda>(used, r).
    case r of Some x \<Rightarrow> Inr (used, Some x, ti_stop i)
    | None \<Rightarrow>
      bindE (case ti_sl i of None \<Rightarrow> Inr False | Some x \<Rightarrow> exceeds i x ''MAX_SL_PCT'') (\<lambda>wide.
      if wide then wide_outcome i disabled used
      else bindE (run_limits i ctx stats disabled (spread_clause i # atr_clauses i) used) (\<lambda>(used1, r1).
        Inr (used1, r1, ti_stop i))))"

definition second_pass :: "TradeInputs \<Rightarrow> pydict \<Rightarrow> pydict \<Rightarrow> string list \<Rightarrow> string list \<Rightarrow> (string list \<times> (string \<times> string) option) py" where
  \<comment> \<open>run when the first pass found no reason, so that a softened stop meets the costs and limits too\<close>
  "second_pass i ctx stats disabled used =
    run_limits i ctx stats disabled (spread_clause i # slippage_clause i # atr_clauses i) used"

subsection \<open>The decision\<close>

record TradeQualityDecision =
  tq_accepted :: bool
  tq_reject_reason :: string
  tq_quality_score :: flt
  tq_diagnostics :: pydict

definition quality_diagnostics ::
  "TradeInputs \<Rightarrow> flt \<times> flt \<Rightarrow> pydict \<Rightarrow> string \<times> string \<Rightarrow> flt \<Rightarrow> string list \<Rightarrow> string list \<Rightarrow> string list \<Rightarrow> pydict py" where
  "quality_diagnostics i adaptive stop reason quality failed used disabled =
    bindE (config_float (ti_cfg i) ''MIN_EFFECTIVE_RR'') (\<lambda>min_eff.
    bindE (config_float (ti_cfg i) ''MIN_RR'') (\<lambda>min_rr.
    bindE (cfg_on i ''BLOCK_UNKNOWN_EXPECTANCY'') (\<lambda>block_unknown. Inr
     [(''symbol'', VStr (ti_symbol i)), (''side'', VStr (ti_side i)), (''setup_type'', VStr (ti_setup_type i)),
      (''setup_reason'', VStr (ti_setup_reason i)), (''score'', VFloat (ti_score i)), (''rr'', VFloat (ti_rr i)),
      (''effective_rr'', VFloat (ti_effective_rr i)), (''min_effective_rr'', VFloat min_eff), (''min_raw_rr'', VFloat min_rr),
      (''min_score'', VFloat (ti_min_score i)), (''reject_unknown_expectancy'', VBool block_unknown),
      (''require_execution_context'', VBool False), (''expectancy'', flt_opt_val (ti_expectancy i)),
      (''regime'', VStr (ti_regime i)), (''volatility_regime'', VStr (ti_volatility i)), (''sl_pct'', flt_opt_val (ti_sl i)),
      (''planned_stop_distance_pct'', dget stop ''planned_stop_distance_pct''),
      (''executable_stop_distance_pct'', dget stop ''executable_stop_distance_pct''),
      (''stop_distance_basis'', dget stop ''stop_distance_basis''),
      (''stop_risk_evidence_status'', dget stop ''stop_risk_evidence_status''),
      (''spread_pct'', VFloat (ti_spread i)), (''expected_slippage_pct'', VFloat (ti_slippage i)),
      (''atr_pct'', flt_opt_val (ti_atr i)), (''reject_reason'', VStr (fst reason)), (''failed_filter'', VStr (snd reason)),
      (''quality_score'', VFloat quality),
      (''adaptive_thresholds'', VDict [(''min_score'', VFloat (fst adaptive)), (''min_rr'', VFloat (snd adaptive))]),
      (''min_required_score'', VFloat (ti_min_score i)), (''all_failed_gates'', strs_val failed),
      (''bypassed_reject_reasons'', strs_val used), (''disabled_filters'', strs_val (sorted_set disabled)),
      (''disabled_filter_bypass_count'', VInt (int (length used))),
      (''filter_switch_experiment_active'', VBool (disabled \<noteq> []))])))"

definition softened_diagnostics :: "TradeInputs \<Rightarrow> pydict \<Rightarrow> pydict py" where
  "softened_diagnostics i stop =
    bindE (py_float (dget_or stop ''risk_scale'' (VFloat (Fin 1)))) (\<lambda>scale.
    bindE (cfg_on i ''STOP_TOO_WIDE_HARD_REJECT'') (\<lambda>hard. Inr
     [(''stop_too_wide_softened'', VBool True), (''original_reject_reason'', VStr ''STOP_TOO_WIDE''),
      (''reject_reason_softened'', VStr ''STOP_TOO_WIDE''), (''risk_scale'', VFloat scale),
      (''stop_too_wide_hard_reject_enabled'', VBool hard)]))"

definition decide_quality :: "TradeInputs \<Rightarrow> pydict \<Rightarrow> pydict \<Rightarrow> string list \<Rightarrow> (string list \<times> string \<times> string \<times> pydict) py" where
  \<comment> \<open>the switches used, the reason (empty when none), the filter, the stop metrics\<close>
  "decide_quality i ctx stats disabled =
    bindE (first_pass i ctx stats disabled) (\<lambda>(used, r, stop).
    case r of Some (reason, flt_name) \<Rightarrow> Inr (used, reason, flt_name, stop)
    | None \<Rightarrow> bindE (second_pass i ctx stats disabled used) (\<lambda>(used2, r2).
        case r2 of Some (reason, flt_name) \<Rightarrow> Inr (used2, reason, flt_name, stop)
        | None \<Rightarrow> Inr (used2, [], [], stop)))"

definition evaluate_trade_quality :: "(string \<Rightarrow> pyval) \<Rightarrow> OrderCandidate \<Rightarrow> pydict \<Rightarrow> pydict \<Rightarrow> pydict \<Rightarrow> TradeQualityDecision py" where
  "evaluate_trade_quality val c ctx stats supplied =
    bindE (trade_inputs val c ctx stats supplied) (\<lambda>(adaptive, i).
    bindE (failed_checks i) (\<lambda>failed.
    bindE (quality_score i) (\<lambda>quality.
    bindE (disabled_filters i) (\<lambda>disabled.
    bindE (decide_quality i ctx stats disabled) (\<lambda>(used, reason, flt_name, stop).
    bindE (quality_diagnostics i adaptive stop (reason, flt_name) quality failed used disabled) (\<lambda>diag.
    bindE (if truthy (dget stop ''stop_too_wide_softened'') \<and> reason = [] then softened_diagnostics i stop else Inr []) (\<lambda>extra.
    Inr \<lparr>tq_accepted = (reason = []), tq_reject_reason = reason, tq_quality_score = quality,
      tq_diagnostics = dupdate diag extra\<rparr>)))))))"

subsection \<open>What acceptance means\<close>

lemma run_clauses_none:
  assumes "run_clauses d cs used = Inr (used', None)" "c \<in> set cs"
  shows "cl_cond c = Inr False \<or> (\<exists>s \<in> set d. cl_bypass c = Some s)"
  using assms
proof (induction cs arbitrary: used)
  case (Cons a cs)
  obtain b where b: "cl_cond a = Inr b" using Cons.prems(1) by (auto simp: bindE_Inr_iff)
  show ?case
  proof (cases "c = a")
    case True
    then show ?thesis using Cons.prems(1) b by (cases b) (auto split: option.splits if_splits)
  next
    case False
    have "\<exists>used1. run_clauses d cs used1 = Inr (used', None)"
      using Cons.prems(1) b by (cases b) (auto split: option.splits if_splits)
    then show ?thesis using Cons.IH Cons.prems(2) False by auto
  qed
qed simp

lemma run_clauses_reason:
  "run_clauses d cs used = Inr (used', Some r) \<Longrightarrow> \<exists>c \<in> set cs. r = (cl_reason c, cl_filter c)"
  by (induction cs arbitrary: used) (auto simp: bindE_Inr_iff split: option.splits if_splits)

lemma run_limits_none:
  assumes "run_limits i ctx stats d costs used = Inr (used', None)"
  shows "\<forall>c \<in> set costs. cl_cond c = Inr False \<or> (\<exists>s \<in> set d. cl_bypass c = Some s)"
    "\<exists>now_ts last_ts. int_or0 (dget_or ctx ''timestamp'' (VInt 0)) = Inr now_ts \<and>
       stat_of stats ''last_trade_ts_by_symbol'' (ti_symbol i) = Inr last_ts \<and>
       (\<forall>c \<in> set (limit_clauses i stats now_ts last_ts). cl_cond c = Inr False \<or> (\<exists>s \<in> set d. cl_bypass c = Some s))"
proof -
  obtain used1 r where u0: "run_clauses d costs used = Inr (used1, r)"
    using assms by (auto simp: run_limits_def bindE_Inr_iff)
  then have "r = None" using assms by (cases r) (auto simp: run_limits_def)
  then have u: "run_clauses d costs used = Inr (used1, None)" using u0 by simp
  then show "\<forall>c \<in> set costs. cl_cond c = Inr False \<or> (\<exists>s \<in> set d. cl_bypass c = Some s)" using run_clauses_none by blast
  obtain now_ts last_ts where n: "int_or0 (dget_or ctx ''timestamp'' (VInt 0)) = Inr now_ts"
      "stat_of stats ''last_trade_ts_by_symbol'' (ti_symbol i) = Inr last_ts"
      "run_clauses d (limit_clauses i stats now_ts last_ts) used1 = Inr (used', None)"
    using assms u by (auto simp: run_limits_def bindE_Inr_iff)
  then show "\<exists>now_ts last_ts. int_or0 (dget_or ctx ''timestamp'' (VInt 0)) = Inr now_ts \<and>
       stat_of stats ''last_trade_ts_by_symbol'' (ti_symbol i) = Inr last_ts \<and>
       (\<forall>c \<in> set (limit_clauses i stats now_ts last_ts). cl_cond c = Inr False \<or> (\<exists>s \<in> set d. cl_bypass c = Some s))"
    using run_clauses_none by blast
qed

lemma wide_stop_text:
  assumes "wide_stop result stop mx score eff config bypass = Inr res"
  shows "(\<exists>t. dget res ''reject_reason'' = VStr t) \<and> (\<exists>b. dget res ''accepted'' = VBool b)"
proof -
  obtain ext elig hard where
    r: "(if truthy hard \<and> (ext \<or> \<not> elig) \<and> \<not> bypass then
      Inr (dupdate result [(''accepted'', VBool False), (''reject_reason'', VStr ''STOP_TOO_WIDE''),
        (''stop_too_wide_softened'', VBool False), (''stop_too_wide_extreme'', VBool ext),
        (''stop_too_wide_soft_eligible'', VBool elig)])
    else bindE (config_float config ''STOP_TOO_WIDE_MAX_RISK_SCALE'') (\<lambda>scale.
      Inr (dupdate result [(''accepted'', VBool True), (''reject_reason'', VStr []),
        (''stop_too_wide_softened'', VBool True), (''stop_too_wide_extreme'', VBool ext),
        (''stop_too_wide_soft_eligible'', VBool elig), (''stop_too_wide_bypassed'', VBool bypass),
        (''risk_scale'', VFloat (py_min (py_max scale (Fin 0)) (Fin 1)))]))) = Inr res"
    using assms unfolding wide_stop_def Let_def bindE_Inr_iff by (elim exE conjE)
  show ?thesis
  proof (cases "truthy hard \<and> (ext \<or> \<not> elig) \<and> \<not> bypass")
    case True
    then show ?thesis using r by (auto simp: dget_dupdate)
  next
    case False
    show ?thesis using r unfolding if_not_P [OF False] bindE_Inr_iff by (auto simp: dget_dupdate)
  qed
qed

lemma policy_reason_text:
  assumes "evaluate_stop_risk_policy m s e cfg b = Inr res"
  shows "\<exists>t. dget res ''reject_reason'' = VStr t"
proof -
  have u: "\<exists>t. dget (unknown_stop m) ''reject_reason'' = VStr t" using unknown_stop_rejects by simp
  show ?thesis
  proof (cases "dget m ''stop_risk_evidence_status'' = VStr EXECUTION_EVIDENCE_UNAVAILABLE_BLOCKING")
    case True
    then show ?thesis using assms u by (simp add: evaluate_stop_risk_policy_def)
  next
    case False
    then obtain stop where s: "(case Option.bind stop (\<lambda>x. if is_finite x then Some x else None) of
         None \<Rightarrow> Inr (unknown_stop m)
       | Some stop_value \<Rightarrow>
          bindE (config_float cfg ''MIN_SL_PCT'') (\<lambda>min_stop.
          bindE (config_float cfg ''MAX_SL_PCT'') (\<lambda>max_stop.
          let result = dupdate m [(''min_stop_pct'', VFloat min_stop), (''max_stop_pct'', VFloat max_stop),
                (''accepted'', VBool True), (''reject_reason'', VStr []), (''stop_too_wide_softened'', VBool False),
                (''risk_scale'', VFloat (Fin 1))]
          in if flt_less stop_value min_stop then
               Inr (dupdate result [(''accepted'', VBool False), (''reject_reason'', VStr ''STOP_TOO_TIGHT'')])
             else if flt_le stop_value max_stop then Inr result
             else wide_stop result stop_value max_stop s e cfg b))) = Inr res"
      using assms unfolding evaluate_stop_risk_policy_def if_not_P [OF False] bindE_Inr_iff by blast
    show ?thesis
    proof (cases "Option.bind stop (\<lambda>x. if is_finite x then Some x else None)")
      case None
      then show ?thesis using s u by simp
    next
      case (Some x)
      then show ?thesis using s
        by (auto simp: bindE_Inr_iff Let_def split: if_splits dest!: wide_stop_text) (auto simp: dget_dupdate)
    qed
  qed
qed

lemma clause_reasons:
  "c \<in> set (structural_clauses i) \<Longrightarrow> cl_reason c \<noteq> []" "c \<in> set (limit_clauses i stats n l) \<Longrightarrow> cl_reason c \<noteq> []"
  "c \<in> set (spread_clause i # atr_clauses i) \<Longrightarrow> cl_reason c \<noteq> []"
  "c \<in> set (spread_clause i # slippage_clause i # atr_clauses i) \<Longrightarrow> cl_reason c \<noteq> []"
  by (auto simp: structural_clauses_def limit_clauses_def spread_clause_def slippage_clause_def atr_clauses_def rule_on_def switched_def)

lemma run_limits_reason:
  assumes "run_limits i ctx stats d costs used = Inr (used', Some (reason, f))" "\<forall>c \<in> set costs. cl_reason c \<noteq> []"
  shows "reason \<noteq> []"
proof -
  obtain used1 r where u: "run_clauses d costs used = Inr (used1, r)"
    using assms(1) by (auto simp: run_limits_def bindE_Inr_iff)
  show ?thesis
  proof (cases r)
    case None
    then obtain n l where "run_clauses d (limit_clauses i stats n l) used1 = Inr (used', Some (reason, f))"
      using assms(1) u by (auto simp: run_limits_def bindE_Inr_iff)
    then show ?thesis using run_clauses_reason clause_reasons(2) by fastforce
  next
    case (Some x)
    then have "x = (reason, f)" using assms(1) u by (simp add: run_limits_def)
    then show ?thesis using run_clauses_reason u Some assms(2) by fastforce
  qed
qed

lemma first_pass_reason: "first_pass i ctx stats d = Inr (used, Some (reason, f), stop) \<Longrightarrow> reason \<noteq> []"
proof -
  assume a: "first_pass i ctx stats d = Inr (used, Some (reason, f), stop)"
  obtain used0 r where u: "run_clauses d (structural_clauses i) [] = Inr (used0, r)"
    using a by (auto simp: first_pass_def bindE_Inr_iff)
  show ?thesis
  proof (cases r)
    case (Some x)
    then have "x = (reason, f)" using a u by (simp add: first_pass_def)
    then show ?thesis using run_clauses_reason u Some clause_reasons(1) by fastforce
  next
    case None
    then obtain w where w: "(if w then wide_outcome i d used0 else bindE (run_limits i ctx stats d (spread_clause i # atr_clauses i) used0)
        (\<lambda>(used1, r1). Inr (used1, r1, ti_stop i))) = Inr (used, Some (reason, f), stop)"
      using a u by (auto simp: first_pass_def bindE_Inr_iff)
    show ?thesis
    proof (cases w)
      case True
      then obtain t where "reason = str_or (VStr t) ''STOP_TOO_WIDE''"
        using w by (auto simp: wide_outcome_def Let_def bindE_Inr_iff split: if_splits dest!: policy_reason_text)
      then show ?thesis by (simp split: if_splits)
    next
      case False
      then have "run_limits i ctx stats d (spread_clause i # atr_clauses i) used0 = Inr (used, Some (reason, f))"
        using w by (auto simp: bindE_Inr_iff)
      then show ?thesis using run_limits_reason clause_reasons(3) by blast
    qed
  qed
qed

lemma decide_quality_accepts:
  assumes "decide_quality i ctx stats d = Inr (used, [], f, stop)"
  shows "\<exists>used0. first_pass i ctx stats d = Inr (used0, None, stop) \<and> second_pass i ctx stats d used0 = Inr (used, None)"
proof -
  obtain used0 r stop0 where p: "first_pass i ctx stats d = Inr (used0, r, stop0)"
    using assms by (auto simp: decide_quality_def bindE_Inr_iff)
  have n: "r = None"
  proof (cases r)
    case (Some x)
    then have "\<exists>g. x = ([], g)" using assms p by (cases x) (auto simp: decide_quality_def)
    then show ?thesis using p Some first_pass_reason by blast
  qed simp
  then obtain used2 r2 where s: "second_pass i ctx stats d used0 = Inr (used2, r2)"
    using assms p by (auto simp: decide_quality_def bindE_Inr_iff)
  have "r2 = None"
  proof (cases r2)
    case (Some x)
    then have "\<exists>g. x = ([], g)" using assms p n s by (cases x) (auto simp: decide_quality_def)
    then show ?thesis using s Some run_limits_reason clause_reasons(4) unfolding second_pass_def by blast
  qed simp
  then show ?thesis using assms p n s by (auto simp: decide_quality_def)
qed

definition within_limits :: "TradeInputs \<Rightarrow> pydict \<Rightarrow> int \<Rightarrow> int \<Rightarrow> string list \<Rightarrow> bool" where
  \<comment> \<open>outside the cooldown, below both daily counts, and no loss streak blocks\<close>
  "within_limits i stats now_ts last_ts disabled \<longleftrightarrow>
     (last_ts = 0 \<or> now_ts = 0 \<or> (\<exists>m. config_int (ti_cfg i) ''SYMBOL_COOLDOWN_MINUTES'' = Inr m \<and> m * 60000 \<le> now_ts - last_ts)) \<and>
     (''DAILY_SYMBOL_TRADE_LIMIT'' \<in> set disabled \<or>
      (\<exists>n m. stat_of stats ''trades_today_by_symbol'' (ti_symbol i) = Inr n \<and>
        config_int (ti_cfg i) ''MAX_TRADES_PER_SYMBOL_PER_DAY'' = Inr m \<and> n < m)) \<and>
     (\<exists>n m. int_or0 (dget_or stats ''global_trades_today'' (VInt 0)) = Inr n \<and>
        config_int (ti_cfg i) ''MAX_TRADES_GLOBAL_PER_DAY'' = Inr m \<and> n < m) \<and>
     (\<exists>u. stat_of stats ''symbol_loss_block_until'' (ti_symbol i) = Inr u \<and> u \<le> now_ts) \<and>
     (\<exists>u. int_or0 (dget_or stats ''global_loss_block_until'' (VInt 0)) = Inr u \<and> u \<le> now_ts)"

lemma limit_clauses_pass:
  assumes "\<forall>c \<in> set (limit_clauses i stats now_ts last_ts). cl_cond c = Inr False \<or> (\<exists>s \<in> set d. cl_bypass c = Some s)" "limits_active i"
  shows "within_limits i stats now_ts last_ts d"
  using assms by (auto simp: within_limits_def limit_clauses_def rule_on_def switched_def andE_def bindE_Inr_iff not_le not_less split: if_splits)

lemma trade_inputs_symbol: "trade_inputs val c ctx stats supplied = Inr (adaptive, i) \<Longrightarrow> ti_symbol i = oc_symbol c"
  by (auto simp: trade_inputs_def bindE_Inr_iff)

lemma first_pass_accepts:
  assumes "first_pass i ctx stats d = Inr (used, None, stop)"
  shows "\<forall>c \<in> set (structural_clauses i). cl_cond c = Inr False \<or> (\<exists>s \<in> set d. cl_bypass c = Some s)"
    "\<exists>sl. ti_sl i = Some sl \<and> (exceeds i sl ''MAX_SL_PCT'' = Inr False \<and> stop = ti_stop i \<or>
       exceeds i sl ''MAX_SL_PCT'' = Inr True \<and> truthy (dget stop ''accepted'') \<and>
       evaluate_stop_risk_policy (ti_stop i) (VFloat (ti_score i)) (VFloat (ti_effective_rr i)) (ti_cfg i) (''STOP_TOO_WIDE'' \<in> set d) = Inr stop)"
proof -
  obtain used0 r where u: "run_clauses d (structural_clauses i) [] = Inr (used0, r)"
    using assms by (auto simp: first_pass_def bindE_Inr_iff)
  have r: "r = None" using assms u by (cases r) (auto simp: first_pass_def)
  show s: "\<forall>c \<in> set (structural_clauses i). cl_cond c = Inr False \<or> (\<exists>s \<in> set d. cl_bypass c = Some s)"
    using run_clauses_none u r by blast
  have "rule_on (Inr (ti_sl i = None)) ''UNKNOWN_EXECUTION_CONTEXT'' ''stop_execution_basis'' \<in> set (structural_clauses i)"
    by (simp add: structural_clauses_def)
  then have "ti_sl i \<noteq> None" using s by (fastforce simp: rule_on_def)
  then obtain sl where sl: "ti_sl i = Some sl" by blast
  obtain w where w: "exceeds i sl ''MAX_SL_PCT'' = Inr w"
      "(if w then wide_outcome i d used0 else bindE (run_limits i ctx stats d (spread_clause i # atr_clauses i) used0)
        (\<lambda>(used1, r1). Inr (used1, r1, ti_stop i))) = Inr (used, None, stop)"
    using assms u r sl by (auto simp: first_pass_def bindE_Inr_iff)
  show "\<exists>sl. ti_sl i = Some sl \<and> (exceeds i sl ''MAX_SL_PCT'' = Inr False \<and> stop = ti_stop i \<or>
       exceeds i sl ''MAX_SL_PCT'' = Inr True \<and> truthy (dget stop ''accepted'') \<and>
       evaluate_stop_risk_policy (ti_stop i) (VFloat (ti_score i)) (VFloat (ti_effective_rr i)) (ti_cfg i) (''STOP_TOO_WIDE'' \<in> set d) = Inr stop)"
  proof (cases w)
    case True
    then show ?thesis using w sl by (auto simp: wide_outcome_def Let_def bindE_Inr_iff split: if_splits)
  next
    case False
    then show ?thesis using w sl by (auto simp: bindE_Inr_iff)
  qed
qed

definition reaches :: "TradeInputs \<Rightarrow> flt \<Rightarrow> string \<Rightarrow> bool" where
  \<comment> \<open>the configured minimum can be read and the value is not below it\<close>
  "reaches i x k \<longleftrightarrow> (\<exists>m. config_float (ti_cfg i) k = Inr m \<and> \<not> flt_less x m)"

definition stays_within :: "TradeInputs \<Rightarrow> flt \<Rightarrow> string \<Rightarrow> bool" where
  "stays_within i x k \<longleftrightarrow> (\<exists>m. config_float (ti_cfg i) k = Inr m \<and> \<not> flt_less m x)"

definition setting_off :: "TradeInputs \<Rightarrow> string \<Rightarrow> bool" where
  "setting_off i k \<longleftrightarrow> (\<exists>v. dindex (ti_cfg i) k = Inr v \<and> \<not> truthy v)"

definition inputs_of_signal :: "TradeInputs \<Rightarrow> OrderCandidate \<Rightarrow> pydict \<Rightarrow> pydict \<Rightarrow> bool" where
  \<comment> \<open>what is compared with the limits is what the candidate, its context and the statistics say\<close>
  "inputs_of_signal i c ctx stats \<longleftrightarrow> ti_symbol i = oc_symbol c \<and> ti_rr i = oc_rr c \<and> ti_setup_type i = py_upper (oc_setup_type c) \<and>
     config_float (ti_cfg i) ''MIN_TRADE_SCORE'' = Inr (ti_min_score i) \<and> ti_score i = scaled_score (oc_score c) (ti_min_score i) \<and>
     nullable_float (dget ctx ''effective_rr'') \<in> {Inr None, Inr (Some (ti_effective_rr i))} \<and>
     (nullable_float (dget ctx ''effective_rr'') = Inr None \<longrightarrow> ti_effective_rr i = oc_rr c) \<and>
     float_or0 (dget_or ctx ''spread_pct'' (VFloat (Fin 0))) = Inr (ti_spread i) \<and>
     float_or0 (dget_or ctx ''expected_slippage_pct'' (VFloat (Fin 0))) = Inr (ti_slippage i) \<and>
     atr_value ctx stats = Inr (ti_atr i) \<and> expectancy_value c ctx stats = Inr (ti_expectancy i) \<and>
     upper_items (py_or (dget ctx ''pattern_flags'') (VList [])) = Inr (ti_flags i) \<and>
     orderbook_state ctx = Inr (ti_orderbook_missing i, ti_orderbook_risky i) \<and>
     ti_score_gate i = truthy (dget_or (ti_cfg i) ''SCORE_GATE_ACTIVE'' (VBool True)) \<and>
     ti_expectancy_gate i = truthy (dget_or (ti_cfg i) ''EXPECTANCY_GATE_ACTIVE'' (VBool True)) \<and>
     ti_orderbook_filter i = truthy (dget_or (ti_cfg i) ''ENABLE_ORDERBOOK_FILTER'' (VBool False))"

lemma trade_inputs_of_signal: "trade_inputs val c ctx stats supplied = Inr (adaptive, i) \<Longrightarrow> inputs_of_signal i c ctx stats"
  by (clarsimp simp: trade_inputs_def bindE_Inr_iff) (simp add: inputs_of_signal_def split: option.split)

lemma below_reaches: "below i x k = Inr False \<Longrightarrow> reaches i x k"
  by (auto simp: below_def reaches_def bindE_Inr_iff)

lemma exceeds_within: "exceeds i x k = Inr False \<Longrightarrow> stays_within i x k"
  by (auto simp: exceeds_def stays_within_def bindE_Inr_iff)

lemma switch_cond: "bindE (cfg_on i k) (\<lambda>b. Inr (b \<and> P)) = Inr False \<Longrightarrow> setting_off i k \<or> \<not> P"
  by (auto simp: cfg_on_def setting_off_def bindE_Inr_iff)

definition context_gates :: "TradeInputs \<Rightarrow> string list \<Rightarrow> bool" where
  \<comment> \<open>expectancy, chop, regime and order book\<close>
  "context_gates i disabled \<longleftrightarrow>
     (ti_expectancy_gate i \<longrightarrow> (case ti_expectancy i of None \<Rightarrow> setting_off i ''BLOCK_UNKNOWN_EXPECTANCY'' | Some x \<Rightarrow> reaches i x ''MIN_EXPECTANCY'')) \<and>
     (setting_off i ''BLOCK_CHOP_MARKET'' \<or> \<not> list_ex (str_contains ''CHOP'') (ti_flags i)) \<and>
     (setting_off i ''REQUIRE_REGIME_ALIGNMENT'' \<or> regime_ok i \<or> ''REGIME_MISMATCH'' \<in> set disabled) \<and>
     (ti_orderbook_filter i \<longrightarrow> \<not> ti_orderbook_risky i \<and>
        (ti_orderbook_missing i \<longrightarrow> \<not> truthy (dget_or (ti_cfg i) ''REJECT_UNKNOWN_EXECUTION_CONTEXT'' (VBool True))))"

lemma structural_context:
  assumes "\<forall>c \<in> set (structural_clauses i). cl_cond c = Inr False \<or> (\<exists>s \<in> set d. cl_bypass c = Some s)"
  shows "context_gates i d"
proof -
  have e: "andE (ti_expectancy_gate i) (bindE (cfg_on i ''BLOCK_UNKNOWN_EXPECTANCY'') (\<lambda>b. Inr (b \<and> ti_expectancy i = None))) = Inr False"
    "andE (ti_expectancy_gate i) (case ti_expectancy i of None \<Rightarrow> Inr False | Some x \<Rightarrow> below i x ''MIN_EXPECTANCY'') = Inr False"
    and chop: "bindE (cfg_on i ''BLOCK_CHOP_MARKET'') (\<lambda>b. Inr (b \<and> chop_market i)) = Inr False"
    and regime: "bindE (cfg_on i ''REQUIRE_REGIME_ALIGNMENT'') (\<lambda>b. Inr (b \<and> \<not> regime_ok i)) = Inr False \<or> ''REGIME_MISMATCH'' \<in> set d"
    and book: "\<not> (ti_orderbook_filter i \<and> ti_orderbook_missing i \<and> truthy (dget_or (ti_cfg i) ''REJECT_UNKNOWN_EXECUTION_CONTEXT'' (VBool True)))"
      "\<not> (ti_orderbook_filter i \<and> ti_orderbook_risky i)"
    using assms by (simp_all add: structural_clauses_def rule_on_def switched_def)
  have "case ti_expectancy i of None \<Rightarrow> setting_off i ''BLOCK_UNKNOWN_EXPECTANCY'' | Some x \<Rightarrow> reaches i x ''MIN_EXPECTANCY''"
    if "ti_expectancy_gate i"
    using e that switch_cond [of i _ True] below_reaches by (cases "ti_expectancy i") (auto simp: andE_def)
  then show ?thesis
    using switch_cond [OF chop] regime switch_cond [of i "''REQUIRE_REGIME_ALIGNMENT''" "\<not> regime_ok i"] book
    unfolding context_gates_def chop_market_def by blast
qed

lemma atr_limits:
  assumes "\<forall>c \<in> set (atr_clauses i). cl_cond c = Inr False \<or> (\<exists>s \<in> set d. cl_bypass c = Some s)" "ti_atr i = Some x"
  shows "reaches i x ''MIN_ATR_PCT'' \<and> stays_within i x ''MAX_ATR_PCT''"
  using assms by (simp add: atr_clauses_def rule_on_def below_reaches exceeds_within)

text \<open>C21: a signal passes the quality gate only inside every limit of the configuration, each read there: the
  score, raw and effective risk/reward reach their minimum (or their BACKTEST switch is off), spread
  and slippage are within their maximum, a known volatility (ATR) lies between its bounds, the
  expectancy reaches its minimum or may be unknown, the market is not chopping, the regime fits the
  setup, the order book is present and not risky where it is required, the stop is measured, not too
  tight, and not too wide unless the stop policy accepts it, and with runtime limits active the symbol
  is outside its cooldown, below both daily trade counts and under no loss-streak block. The values
  compared are those of the candidate, its context and the statistics.\<close>

theorem accepted_quality_keeps_limits:
  assumes "evaluate_trade_quality val c ctx stats supplied = Inr q" "tq_accepted q"
  shows "\<exists>adaptive i disabled sl now_ts last_ts. trade_inputs val c ctx stats supplied = Inr (adaptive, i) \<and>
    inputs_of_signal i c ctx stats \<and> disabled_filters i = Inr disabled \<and> oc_symbol c \<noteq> [] \<and>
    (ti_score_gate i \<longrightarrow> \<not> flt_less (ti_score i) (ti_min_score i) \<or> ''LOW_SCORE'' \<in> set disabled) \<and>
    (reaches i (ti_rr i) ''MIN_RR'' \<or> ''RR_TOO_LOW'' \<in> set disabled) \<and>
    (reaches i (ti_effective_rr i) ''MIN_EFFECTIVE_RR'' \<or> ''RR_TOO_LOW'' \<in> set disabled) \<and>
    stays_within i (ti_spread i) ''MAX_SPREAD_PCT'' \<and> stays_within i (ti_slippage i) ''MAX_EXPECTED_SLIPPAGE_PCT'' \<and>
    (\<forall>x. ti_atr i = Some x \<longrightarrow> reaches i x ''MIN_ATR_PCT'' \<and> stays_within i x ''MAX_ATR_PCT'') \<and>
    context_gates i disabled \<and>
    ti_sl i = Some sl \<and> reaches i sl ''MIN_SL_PCT'' \<and>
    (stays_within i sl ''MAX_SL_PCT'' \<or>
     (\<exists>stop. evaluate_stop_risk_policy (ti_stop i) (VFloat (ti_score i)) (VFloat (ti_effective_rr i)) (ti_cfg i)
        (''STOP_TOO_WIDE'' \<in> set disabled) = Inr stop \<and> truthy (dget stop ''accepted''))) \<and>
    int_or0 (dget_or ctx ''timestamp'' (VInt 0)) = Inr now_ts \<and>
    stat_of stats ''last_trade_ts_by_symbol'' (oc_symbol c) = Inr last_ts \<and>
    (limits_active i \<longrightarrow> within_limits i stats now_ts last_ts disabled)"
proof -
  obtain adaptive i disabled used f stop where i: "trade_inputs val c ctx stats supplied = Inr (adaptive, i)"
      "disabled_filters i = Inr disabled" "decide_quality i ctx stats disabled = Inr (used, [], f, stop)"
    using assms by (auto simp: evaluate_trade_quality_def bindE_Inr_iff)
  note sym = trade_inputs_symbol [OF i(1)]
  obtain used0 where p: "first_pass i ctx stats disabled = Inr (used0, None, stop)" "second_pass i ctx stats disabled used0 = Inr (used, None)"
    using decide_quality_accepts [OF i(3)] by blast
  note S = first_pass_accepts(1) [OF p(1)]
  obtain sl where sl: "ti_sl i = Some sl" "exceeds i sl ''MAX_SL_PCT'' = Inr False \<and> stop = ti_stop i \<or>
       exceeds i sl ''MAX_SL_PCT'' = Inr True \<and> truthy (dget stop ''accepted'') \<and>
       evaluate_stop_risk_policy (ti_stop i) (VFloat (ti_score i)) (VFloat (ti_effective_rr i)) (ti_cfg i) (''STOP_TOO_WIDE'' \<in> set disabled) = Inr stop"
    using first_pass_accepts(2) [OF p(1)] by blast
  have L: "\<forall>c \<in> set (spread_clause i # slippage_clause i # atr_clauses i). cl_cond c = Inr False \<or> (\<exists>s \<in> set disabled. cl_bypass c = Some s)"
    using run_limits_none(1) p(2) unfolding second_pass_def by blast
  obtain now_ts last_ts where n: "int_or0 (dget_or ctx ''timestamp'' (VInt 0)) = Inr now_ts"
      "stat_of stats ''last_trade_ts_by_symbol'' (oc_symbol c) = Inr last_ts"
      "\<forall>c \<in> set (limit_clauses i stats now_ts last_ts). cl_cond c = Inr False \<or> (\<exists>s \<in> set disabled. cl_bypass c = Some s)"
    using run_limits_none(2) p(2) sym unfolding second_pass_def by metis
  have a: "oc_symbol c \<noteq> []" "ti_score_gate i \<longrightarrow> \<not> flt_less (ti_score i) (ti_min_score i) \<or> ''LOW_SCORE'' \<in> set disabled"
    "below i (ti_rr i) ''MIN_RR'' = Inr False \<or> ''RR_TOO_LOW'' \<in> set disabled"
    "below i (ti_effective_rr i) ''MIN_EFFECTIVE_RR'' = Inr False \<or> ''RR_TOO_LOW'' \<in> set disabled"
    "below i sl ''MIN_SL_PCT'' = Inr False"
    using S sl(1) sym by (simp_all add: structural_clauses_def rule_on_def switched_def)
  have b: "stays_within i (ti_spread i) ''MAX_SPREAD_PCT''" "stays_within i (ti_slippage i) ''MAX_EXPECTED_SLIPPAGE_PCT''"
    using L exceeds_within by (simp_all add: spread_clause_def slippage_clause_def rule_on_def)
  have at: "\<forall>x. ti_atr i = Some x \<longrightarrow> reaches i x ''MIN_ATR_PCT'' \<and> stays_within i x ''MAX_ATR_PCT''"
    using L atr_limits [of i disabled] by simp
  note signal = trade_inputs_of_signal [OF i(1)] structural_context [OF S]
  have below: "reaches i (ti_rr i) ''MIN_RR'' \<or> ''RR_TOO_LOW'' \<in> set disabled"
    "reaches i (ti_effective_rr i) ''MIN_EFFECTIVE_RR'' \<or> ''RR_TOO_LOW'' \<in> set disabled" "reaches i sl ''MIN_SL_PCT''"
    using a(3-5) below_reaches by blast+
  have wide: "stays_within i sl ''MAX_SL_PCT'' \<or>
     (\<exists>stop. evaluate_stop_risk_policy (ti_stop i) (VFloat (ti_score i)) (VFloat (ti_effective_rr i)) (ti_cfg i)
        (''STOP_TOO_WIDE'' \<in> set disabled) = Inr stop \<and> truthy (dget stop ''accepted''))"
    using sl(2) exceeds_within by blast
  have "limits_active i \<longrightarrow> within_limits i stats now_ts last_ts disabled" using limit_clauses_pass n(3) by blast
  then show ?thesis using i(1,2) a(1,2) b at signal below wide sl(1) n(1,2) by blast
qed

lemma nan_score_passes:
  \<comment> \<open>the gate list names the failed score, the chain that decides does not reject it\<close>
  assumes "oc_score c = NaN" "trade_inputs val c ctx stats supplied = Inr (adaptive, i)" "ti_score_gate i"
  shows "ti_score i = NaN" "quality_checks i ! 0 = (''score'', Inr False)" "cl_cond (structural_clauses i ! 1) = Inr False"
proof -
  show t: "ti_score i = NaN"
    using assms by (auto simp: trade_inputs_def bindE_Inr_iff scaled_score_def flt_le_def split: if_splits)
  show "quality_checks i ! 0 = (''score'', Inr False)" "cl_cond (structural_clauses i ! 1) = Inr False"
    using assms(3) t by (simp_all add: quality_checks_def structural_clauses_def switched_def)
qed

subsection \<open>A signal that passes\<close>

definition demo_supplied :: pydict where
  "demo_supplied = [(''MODE'', VStr ''PAPER''), (''MIN_TRADE_SCORE'', VInt 1), (''MIN_RR'', VInt 2), (''MAX_SL_PCT'', VInt 200),
     (''MAX_TRADES_PER_SYMBOL_PER_DAY'', VInt 3), (''MAX_TRADES_GLOBAL_PER_DAY'', VInt 3)]"
definition demo_market :: pydict where
  "demo_market = [(''entry'', VFloat (Fin 2)), (''sl'', VFloat (Fin 1)), (''tp'', VFloat (Fin 4)), (''score'', VFloat (Fin 1)),
     (''rr'', VFloat (Fin 2)), (''expected_slippage_pct'', VFloat (Fin 0)), (''execution_ctx'', VDict measured_ctx), (''notional'', VFloat (Fin 64))]"
definition demo_candidate :: OrderCandidate where
  "demo_candidate = \<lparr>oc_symbol = ''BTCUSDT'', oc_side = ''LONG'', oc_setup_type = ''GENERIC'', oc_setup_reason = ''NONE'',
    oc_regime = ''UNKNOWN'', oc_score = Fin 1, oc_rr = Fin 2, oc_expectancy = None, oc_entry = Fin 2, oc_sl = Fin 1,
    oc_tp = Fin 4, oc_order_type = ''MARKET''\<rparr>"

lemma demo_mode: "supplied_mode demo_supplied = ''PAPER''" by code_simp

lemma demo_adaptive: "compute_adaptive_thresholds (\<lambda>_. VInt 0) [] demo_supplied = Inr (Fin 1, Fin 2)"
  by (simp add: compute_adaptive_thresholds_def decision_filter_config_def over_60_def demo_mode demo_supplied_def int_to_float_small
      dget_or_def int_or0_def py_or_def clamp_score_def py_max_def py_min_def fl_eval)

definition demo_cfg :: pydict where
  "demo_cfg = [(''MODE'', VStr ''PAPER''), (''MIN_TRADE_SCORE'', VInt 1), (''MIN_RR'', VInt 2), (''MIN_EFFECTIVE_RR'', VInt 0),
     (''MIN_EXPECTANCY'', VFloat (Fin 0)), (''MIN_SL_PCT'', VInt 0), (''MAX_SL_PCT'', VInt 200), (''MAX_SPREAD_PCT'', VInt 0),
     (''MAX_EXPECTED_SLIPPAGE_PCT'', VInt 0), (''MAX_SLIPPAGE_PCT'', VInt 0), (''MAX_TOTAL_COST_PCT'', VInt 0),
     (''MIN_LIQUIDITY_SCORE'', VInt 0), (''MAX_VOLATILITY_PENALTY_PCT'', VInt 0), (''MAX_LATENCY_MS'', VInt 0),
     (''MAX_ABS_FUNDING_RATE_PCT'', VInt 0), (''REJECT_UNKNOWN_EXECUTION_CONTEXT'', VInt 0), (''MIN_ATR_PCT'', VInt 0),
     (''MAX_ATR_PCT'', VInt 0), (''BLOCK_UNKNOWN_EXPECTANCY'', VInt 0), (''BLOCK_CHOP_MARKET'', VInt 0),
     (''REQUIRE_REGIME_ALIGNMENT'', VInt 0), (''ENABLE_ORDERBOOK_FILTER'', VInt 0), (''STOP_TOO_WIDE_HARD_REJECT'', VInt 0),
     (''STOP_TOO_WIDE_SOFTEN_FOR_HIGH_SCORE'', VBool True), (''STOP_TOO_WIDE_SOFT_SCORE_MIN'', VInt 0),
     (''STOP_TOO_WIDE_SOFT_EFFECTIVE_RR_MIN'', VInt 0), (''STOP_TOO_WIDE_MAX_RISK_SCALE'', VInt 0),
     (''STOP_TOO_WIDE_EXTREME_MULT'', VInt 0), (''RUNTIME_LIMITS_ACTIVE'', VBool True), (''SYMBOL_COOLDOWN_MINUTES'', VFloat (Fin 0)),
     (''MAX_TRADES_PER_SYMBOL_PER_DAY'', VInt 3), (''MAX_TRADES_GLOBAL_PER_DAY'', VInt 3), (''SYMBOL_LOSS_STREAK_LIMIT'', VInt 0),
     (''GLOBAL_LOSS_STREAK_LIMIT'', VInt 0)]"

lemma upper_paper: "py_upper ''PAPER'' = ''PAPER''" by code_simp

lemma demo_config: "quality_config (\<lambda>_. VInt 0) demo_supplied (Fin 1, Fin 2) = Inr demo_cfg"
  by (simp add: demo_cfg_def quality_config_def decision_filter_config_def over_60_def demo_mode int_to_float_small py_or_def
      dupdate_def upper_paper fl_eval) (simp add: demo_supplied_def)

lemma demo_lookup:
  "dindex demo_cfg ''MIN_RR'' = Inr (VInt 2)" "dindex demo_cfg ''MIN_TRADE_SCORE'' = Inr (VInt 1)"
  "dindex demo_cfg ''MIN_EFFECTIVE_RR'' = Inr (VInt 0)" "dindex demo_cfg ''MIN_SL_PCT'' = Inr (VInt 0)"
  "dindex demo_cfg ''MAX_SPREAD_PCT'' = Inr (VInt 0)" "dindex demo_cfg ''MAX_EXPECTED_SLIPPAGE_PCT'' = Inr (VInt 0)"
  "dindex demo_cfg ''BLOCK_UNKNOWN_EXPECTANCY'' = Inr (VInt 0)" "dindex demo_cfg ''BLOCK_CHOP_MARKET'' = Inr (VInt 0)"
  "dindex demo_cfg ''REQUIRE_REGIME_ALIGNMENT'' = Inr (VInt 0)"
  "dindex demo_cfg ''MAX_SL_PCT'' = Inr (VInt 200)" "dindex demo_cfg ''MAX_TRADES_PER_SYMBOL_PER_DAY'' = Inr (VInt 3)"
  "dindex demo_cfg ''MAX_TRADES_GLOBAL_PER_DAY'' = Inr (VInt 3)" "dget_or demo_cfg ''MODE'' v = VStr ''PAPER''"
  "dget_or demo_cfg ''ENABLE_ORDERBOOK_FILTER'' v = VInt 0" "dget_or demo_cfg ''SCORE_GATE_ACTIVE'' v = v"
  "dget_or demo_cfg ''EXPECTANCY_GATE_ACTIVE'' v = v"
  by (simp_all add: demo_cfg_def dindex_def dget_or_def)

lemma side_long: "normalized_side (VStr ''LONG'') = ''LONG''" by code_simp

lemma demo_fill: "stop_fill demo_candidate demo_market = Inr (Some (Fin 2))"
  by (simp add: stop_fill_def demo_candidate_def demo_market_def nullable_float_def unavailable_value_def adverse_expected_fill_price_def
     finite_positive_price_def require_side_def side_long in_strs_def fl_eval py_or_def)

definition demo_stop :: pydict where
  "demo_stop = [(''planned_entry'', VFloat (Fin 2)), (''executable_entry'', VFloat (Fin 2)), (''stop'', VFloat (Fin 1)),
     (''planned_stop_distance_pct'', VFloat (Fin 50)), (''executable_stop_distance_pct'', VFloat (Fin 50)),
     (''stop_distance_pct'', VFloat (Fin 50)), (''stop_distance_basis'', VStr ''EXPECTED_FILL''),
     (''stop_risk_evidence_status'', VStr ''COMPLETE''), (''stop_risk_missing_fields'', VList [])]"

lemma demo_stop: "build_stop_risk_metrics (VFloat (Fin 2)) (flt_opt_val (Some (Fin 2))) (VFloat (Fin 1)) False = Inr demo_stop"
  by (simp add: demo_stop_def build_stop_risk_metrics_def price_or_none_def finite_positive_price_def distance_pct_def
      flt_opt_val_def flag_if_def fl_eval sorted_set_def)

definition demo_inputs :: TradeInputs where
  "demo_inputs = \<lparr>ti_cfg = demo_cfg, ti_mode = ''PAPER'', ti_symbol = ''BTCUSDT'', ti_side = ''LONG'', ti_setup_type = ''GENERIC'',
     ti_setup_reason = ''NONE'', ti_regime = ''UNKNOWN'', ti_volatility = ''unknown'', ti_spread = Fin 0, ti_slippage = Fin 0,
     ti_atr = None, ti_stop = demo_stop, ti_expectancy = None, ti_score = Fin 1, ti_rr = Fin 2, ti_effective_rr = Fin 2,
     ti_min_score = Fin 1, ti_score_gate = True, ti_expectancy_gate = True, ti_flags = [], ti_orderbook_filter = False,
     ti_orderbook_missing = True, ti_orderbook_risky = False\<rparr>"

lemma demo_upper: "py_upper ''GENERIC'' = ''GENERIC''" "py_upper ''UNKNOWN'' = ''UNKNOWN''" "py_lower ''unknown'' = ''unknown''"
  by code_simp+

lemma demo_trade: "trade_inputs (\<lambda>_. VInt 0) demo_candidate demo_market [] demo_supplied = Inr ((Fin 1, Fin 2), demo_inputs)"
  by (simp add: trade_inputs_def demo_adaptive demo_config demo_lookup demo_fill demo_mode config_float_def int_to_float_small)
    (simp add: demo_candidate_def demo_market_def float_or0_def py_or_def atr_value_def in_strs_def expectancy_value_def nullable_float_def
     unavailable_value_def orderbook_state_def upper_items_def scaled_score_def dget_or_def demo_stop demo_upper demo_inputs_def)

lemma demo_select:
  "ti_cfg demo_inputs = demo_cfg" "ti_mode demo_inputs = ''PAPER''" "ti_symbol demo_inputs = ''BTCUSDT''"
  "ti_setup_type demo_inputs = ''GENERIC''" "ti_spread demo_inputs = Fin 0" "ti_slippage demo_inputs = Fin 0"
  "ti_atr demo_inputs = None" "ti_stop demo_inputs = demo_stop" "ti_expectancy demo_inputs = None" "ti_score demo_inputs = Fin 1"
  "ti_rr demo_inputs = Fin 2" "ti_effective_rr demo_inputs = Fin 2" "ti_min_score demo_inputs = Fin 1"
  "ti_score_gate demo_inputs" "ti_flags demo_inputs = []" "\<not> ti_orderbook_filter demo_inputs"
  "ti_sl demo_inputs = Some (Fin 50)"
  by (simp_all add: demo_inputs_def ti_sl_def stop_distance_def demo_stop_def)

lemma demo_conditions: "disabled_filters demo_inputs = Inr []" "regime_ok demo_inputs" "\<not> chop_market demo_inputs"
  by (simp_all add: disabled_filters_def demo_select demo_lookup upper_paper regime_ok_def chop_market_def)

lemmas demo_eval = demo_select demo_lookup demo_conditions config_float_def config_int_def int_to_float_small
  below_def exceeds_def at_most_def at_least_def cfg_on_def rule_on_def switched_def andE_def orE_def

lemma demo_chain: "first_pass demo_inputs demo_market [] [] = Inr ([], None, demo_stop)"
  "second_pass demo_inputs demo_market [] [] [] = Inr ([], None)"
  by (simp_all add: first_pass_def second_pass_def run_limits_def structural_clauses_def limit_clauses_def spread_clause_def slippage_clause_def
    atr_clauses_def demo_eval demo_market_def int_or0_def stat_of_def py_or_def)

lemma demo_score: "\<exists>x. failed_checks demo_inputs = Inr x" "\<exists>x. quality_score demo_inputs = Inr x"
  "\<exists>x. quality_diagnostics demo_inputs (Fin 1, Fin 2) demo_stop ([], []) q f [] [] = Inr x"
  by (simp_all add: failed_checks_def quality_checks_def quality_score_def demo_eval fdivE_def quality_diagnostics_def)

lemma demo_quality:
  "\<exists>q. evaluate_trade_quality (\<lambda>_. VInt 0) demo_candidate demo_market [] demo_supplied = Inr q \<and> tq_accepted q"
proof -
  have d: "decide_quality demo_inputs demo_market [] [] = Inr ([], [], [], demo_stop)"
    by (simp add: decide_quality_def demo_chain)
  have s: "dget demo_stop ''stop_too_wide_softened'' = VNone" by (simp add: demo_stop_def)
  obtain f x where f: "failed_checks demo_inputs = Inr f" "quality_score demo_inputs = Inr x" using demo_score by blast
  obtain z where "quality_diagnostics demo_inputs (Fin 1, Fin 2) demo_stop ([], []) x f [] [] = Inr z" using demo_score by blast
  then show ?thesis using f by (simp add: evaluate_trade_quality_def demo_trade demo_conditions d s)
qed

theorem accepted_quality_keeps_limits_witness:
  "\<exists>q adaptive i. evaluate_trade_quality (\<lambda>_. VInt 0) demo_candidate demo_market [] demo_supplied = Inr q \<and> tq_accepted q \<and>
     trade_inputs (\<lambda>_. VInt 0) demo_candidate demo_market [] demo_supplied = Inr (adaptive, i) \<and> ti_sl i \<noteq> None"
proof -
  obtain q where q: "evaluate_trade_quality (\<lambda>_. VInt 0) demo_candidate demo_market [] demo_supplied = Inr q" "tq_accepted q"
    using demo_quality by blast
  from accepted_quality_keeps_limits [OF this] show ?thesis using q by blast
qed

end
