(* ===== verification/OrderCycle.thy ===== *)
theory OrderCycle
  imports OrderQuality PortfolioSizing
begin

section \<open>The order cycle (\<^verbatim>\<open>order.py\<close>)\<close>

text \<open>
  From a market context to an order: a precomputed portfolio allocation is projected onto
  the context, a candidate is built, the quality gate decides, and an accepted candidate is
  executed - a virtual order in BACKTEST, a paper order in PAPER, and in LIVE an exchange
  order behind an authorization that is read again at that moment. Everything the code keeps
  in \<^verbatim>\<open>ctx.storage\<close> as a callable (the exchange, the balance, the authorization provider,
  Telegram, the database session) is a parameter, a record of functions; the provider and the
  environment may answer differently each time, so they are functions of the calls made so
  far. A step returns a value or an exception together with the context reached, because an
  exception leaves the calls already made behind.
\<close>

subsection \<open>Modes, states, services, context\<close>

datatype TradingMode = BACKTEST | PAPER | LIVE

fun mode_value :: "TradingMode \<Rightarrow> string" where
  "mode_value BACKTEST = ''BACKTEST''"
| "mode_value PAPER = ''PAPER''"
| "mode_value LIVE = ''LIVE''"

datatype LifecycleState = SIGNAL_CREATED | SIGNAL_REJECTED | WAITING_ENTRY_ZONE | ENTRY_TRIGGERED | ORDER_PLACED
  | POSITION_OPENED | POSITION_CLOSED | ENTRY_TIMEOUT | ORDER_CANCELLED | EXPIRED | CANCELLED | ERROR

fun state_value :: "LifecycleState \<Rightarrow> string" where
  "state_value SIGNAL_CREATED = ''SIGNAL_CREATED''"
| "state_value SIGNAL_REJECTED = ''SIGNAL_REJECTED''"
| "state_value WAITING_ENTRY_ZONE = ''WAITING_ENTRY_ZONE''"
| "state_value ENTRY_TRIGGERED = ''ENTRY_TRIGGERED''"
| "state_value ORDER_PLACED = ''ORDER_PLACED''"
| "state_value POSITION_OPENED = ''POSITION_OPENED''"
| "state_value POSITION_CLOSED = ''POSITION_CLOSED''"
| "state_value ENTRY_TIMEOUT = ''ENTRY_TIMEOUT''"
| "state_value ORDER_CANCELLED = ''ORDER_CANCELLED''"
| "state_value EXPIRED = ''EXPIRED''"
| "state_value CANCELLED = ''CANCELLED''"
| "state_value ERROR = ''ERROR''"

datatype service_call =
    CallExpectancy string string
  | CallAuthorization
  | CallConfig
  | CallBalance
  | CallPlaceOrder OrderCandidate
  | CallTelegram string

record OrderServices =
  \<comment> \<open>the callables of \<^verbatim>\<open>ctx.storage\<close>, None where absent; the first two and the configuration see the calls so far\<close>
  sv_authorization :: "(service_call list \<Rightarrow> pyval py) option"
  sv_configured :: "service_call list \<Rightarrow> bool py"
  sv_balance :: "(service_call list \<Rightarrow> pyval py) option"
  sv_place_order :: "(OrderCandidate \<Rightarrow> pydict py) option"
  sv_telegram :: "(string \<Rightarrow> pyval py) option"
  sv_expectancy :: "(string \<Rightarrow> string \<Rightarrow> flt option py) option"

record PortfolioStorage =
  \<comment> \<open>the plain values of \<^verbatim>\<open>ctx.storage\<close>\<close>
  ps_open_positions :: "(string \<times> pyval) list"
  ps_cooldown_until :: "(string \<times> flt) list"
  ps_daily_realized_pnl :: "flt option"
  ps_trades_today_symbol :: "int option"
  ps_trades_today_global :: "int option"
  ps_consecutive_loss_count :: "int option"
  ps_rolling_drawdown_pct :: "flt option"

record OrderExecutionContext =
  ox_mode :: TradingMode
  ox_timestamp :: int
  ox_symbol :: string
  ox_balance :: flt
  ox_risk_pct :: flt
  ox_allow_telegram :: bool
  ox_allow_live_orders :: bool
  ox_market_ctx :: pydict
  ox_diagnostics :: pydict
  ox_portfolio :: PortfolioStorage
  ox_audit :: "pydict list"
  ox_live_authorization :: "pydict option"
  ox_calls :: "service_call list" \<comment> \<open>the calls made so far, oldest first\<close>

subsection \<open>Steps\<close>

type_synonym 'a act = "OrderExecutionContext \<Rightarrow> 'a py \<times> OrderExecutionContext"

definition bindA :: "'a act \<Rightarrow> ('a \<Rightarrow> 'b act) \<Rightarrow> 'b act" where
  "bindA m f = (\<lambda>s. case m s of (Inl e, s') \<Rightarrow> (Inl e, s') | (Inr x, s') \<Rightarrow> f x s')"

definition liftA :: "'a py \<Rightarrow> 'a act" where "liftA r = (\<lambda>s. (r, s))"

definition modifyA :: "(OrderExecutionContext \<Rightarrow> OrderExecutionContext) \<Rightarrow> unit act" where
  "modifyA f = (\<lambda>s. (Inr (), f s))"

definition callA :: "service_call \<Rightarrow> (service_call list \<Rightarrow> 'a py) \<Rightarrow> 'a act" where
  \<comment> \<open>a call of a service: recorded whether or not it raises\<close>
  "callA c f = (\<lambda>s. (f (ox_calls s), s\<lparr>ox_calls := ox_calls s @ [c]\<rparr>))"

definition whenA :: "bool \<Rightarrow> unit act \<Rightarrow> unit act" where
  "whenA b m = (if b then m else liftA (Inr ()))"

subsection \<open>The audit trail\<close>

definition of_candidate :: "OrderCandidate option \<Rightarrow> (OrderCandidate \<Rightarrow> pyval) \<Rightarrow> pyval \<Rightarrow> pyval" where
  \<comment> \<open>\<^verbatim>\<open>getattr(candidate, field, default)\<close>\<close>
  "of_candidate c f d = (case c of None \<Rightarrow> d | Some x \<Rightarrow> f x)"

definition audit_event ::
  "OrderExecutionContext \<Rightarrow> OrderCandidate option \<Rightarrow> LifecycleState \<Rightarrow> LifecycleState \<Rightarrow> string \<Rightarrow> pydict" where
  "audit_event s c before after reason =
    [(''timestamp'', VInt (ox_timestamp s)), (''mode'', VStr (mode_value (ox_mode s))), (''symbol'', VStr (ox_symbol s)),
     (''side'', of_candidate c (VStr \<circ> oc_side) (VStr [])), (''setup_type'', of_candidate c (VStr \<circ> oc_setup_type) (VStr [])),
     (''setup_reason'', of_candidate c (VStr \<circ> oc_setup_reason) (VStr [])), (''regime'', of_candidate c (VStr \<circ> oc_regime) (VStr [])),
     (''score'', of_candidate c (VFloat \<circ> oc_score) (VFloat (Fin 0))), (''rr'', of_candidate c (VFloat \<circ> oc_rr) (VFloat (Fin 0))),
     (''expectancy'', of_candidate c (flt_opt_val \<circ> oc_expectancy) VNone),
     (''entry'', of_candidate c (VFloat \<circ> oc_entry) (VFloat (Fin 0))), (''sl'', of_candidate c (VFloat \<circ> oc_sl) (VFloat (Fin 0))),
     (''tp'', of_candidate c (VFloat \<circ> oc_tp) (VFloat (Fin 0))),
     (''status_before'', VStr (state_value before)), (''status_after'', VStr (state_value after)),
     (''reject_reason'', VStr reason), (''quality_score'', of_candidate c (VFloat \<circ> oc_score) (VFloat (Fin 0))),
     (''order_type'', of_candidate c (VStr \<circ> oc_order_type) (VStr [])), (''diagnostics'', VDict (ox_diagnostics s))]"

definition audit :: "OrderCandidate option \<Rightarrow> LifecycleState \<Rightarrow> LifecycleState \<Rightarrow> string \<Rightarrow> unit act" where
  "audit c before after reason = modifyA (\<lambda>s. s\<lparr>ox_audit := ox_audit s @ [audit_event s c before after reason]\<rparr>)"

subsection \<open>Authorization of a LIVE order\<close>

definition as_dict_or_empty :: "pyval \<Rightarrow> pydict py" where
  \<comment> \<open>\<^verbatim>\<open>dict(v or {})\<close>\<close>
  "as_dict_or_empty v = (if \<not> truthy v then Inr [] else case v of VDict d \<Rightarrow> Inr d | _ \<Rightarrow> Inl TypeError)"

definition flag_on :: "pydict \<Rightarrow> string \<Rightarrow> bool" where
  "flag_on d k = truthy (dget_or d k (VBool False))"

definition live_gates :: "pydict \<Rightarrow> bool \<Rightarrow> bool \<Rightarrow> (string \<times> bool) list" where
  "live_gates a configured ctx_allows =
    [(''live_trading_enabled'', flag_on a ''live_trading_enabled''),
     (''allow_live_orders'', configured \<and> ctx_allows),
     (''operator_acknowledged'', flag_on a ''operator_acknowledged''),
     (''qualification_passed'', flag_on a ''qualification_passed''),
     (''reconciliation_passed'', flag_on a ''reconciliation_passed''),
     (''derivatives_contract_passed'', flag_on a ''derivatives_contract_passed''),
     (''execution_owner_valid'', flag_on a ''execution_owner_valid''),
     (''kill_switch_inactive'', \<not> truthy (dget_or a ''kill_switch_active'' (VBool True)))]"

definition LIVE_BLOCKED :: string where "LIVE_BLOCKED = ''LIVE_ORDER_AUTHORIZATION_BLOCKED:''"

definition validate_live_order_authorization :: "OrderServices \<Rightarrow> (string \<times> bool) list act" where
  "validate_live_order_authorization sv = (\<lambda>s.
    if ox_mode s \<noteq> LIVE then (Inr [], s)
    else case sv_authorization sv of
      None \<Rightarrow> (Inl (RuntimeError (LIVE_BLOCKED @ ''authoritative_state_missing'')), s)
    | Some provider \<Rightarrow>
        bindA (callA CallAuthorization provider) (\<lambda>v.
        bindA (liftA (as_dict_or_empty v)) (\<lambda>a.
        bindA (modifyA (\<lambda>s. s\<lparr>ox_live_authorization := Some a\<rparr>)) (\<lambda>_.
        bindA (callA CallConfig (sv_configured sv)) (\<lambda>configured s.
          let gates = live_gates a configured (ox_allow_live_orders s);
              failed = map fst (filter (\<lambda>g. \<not> snd g) gates)
          in (if failed \<noteq> [] then Inl (RuntimeError (LIVE_BLOCKED @ join '','' failed)) else Inr gates, s))))) s)"

subsection \<open>Execution\<close>

datatype ExecutionResult =
    VirtualExecution OrderCandidate
  | PaperExecution OrderCandidate flt
  | LiveExecution pydict

definition place_live_order :: "OrderServices \<Rightarrow> OrderCandidate \<Rightarrow> ExecutionResult act" where
  \<comment> \<open>a missing order function is a KeyError before the balance is read\<close>
  "place_live_order sv c =
    (case sv_place_order sv of
       None \<Rightarrow> liftA (Inl (KeyError ''binance_place_order''))
     | Some place \<Rightarrow>
        bindA (case sv_balance sv of None \<Rightarrow> liftA (Inr VNone) | Some f \<Rightarrow> callA CallBalance f) (\<lambda>_.
        bindA (callA (CallPlaceOrder c) (\<lambda>_. place c)) (\<lambda>r.
        liftA (Inr (LiveExecution (dset ''type'' (VStr ''live'') r))))))"

definition telegram_text :: "OrderExecutionContext \<Rightarrow> OrderCandidate \<Rightarrow> string" where
  "telegram_text s c = mode_value (ox_mode s) @ '':'' @ oc_symbol c @ '':'' @ oc_side c"

definition notify_order :: "OrderServices \<Rightarrow> OrderCandidate \<Rightarrow> unit act" where
  "notify_order sv c = (\<lambda>s.
    case sv_telegram sv of
      Some send \<Rightarrow> if ox_allow_telegram s
        then bindA (callA (CallTelegram (telegram_text s c)) (\<lambda>_. send (telegram_text s c))) (\<lambda>_. liftA (Inr ())) s
        else (Inr (), s)
    | None \<Rightarrow> (Inr (), s))"

definition prepare_execution :: "OrderServices \<Rightarrow> unit act" where
  \<comment> \<open>outside LIVE the assertion and the Telegram switch, in LIVE the authorization\<close>
  "prepare_execution sv = (\<lambda>s.
    if ox_mode s \<noteq> LIVE then
      if ox_allow_live_orders s then (Inl AssertionError, s)
      else (Inr (), if map_of (ox_diagnostics s) ''allow_telegram'' = None then s\<lparr>ox_allow_telegram := False\<rparr> else s)
    else bindA (validate_live_order_authorization sv) (\<lambda>_. liftA (Inr ())) s)"

definition order_of_mode :: "OrderServices \<Rightarrow> OrderCandidate \<Rightarrow> ExecutionResult act" where
  "order_of_mode sv c = (\<lambda>s.
    case ox_mode s of
      BACKTEST \<Rightarrow> (Inr (VirtualExecution c), s)
    | PAPER \<Rightarrow> (Inr (PaperExecution c (ox_balance s)), s)
    | LIVE \<Rightarrow> place_live_order sv c s)"

definition execute_order_candidate :: "OrderServices \<Rightarrow> OrderCandidate \<Rightarrow> ExecutionResult act" where
  "execute_order_candidate sv c =
    bindA (prepare_execution sv) (\<lambda>_.
    bindA (order_of_mode sv c) (\<lambda>r.
    bindA (notify_order sv c) (\<lambda>_.
    bindA (audit (Some c) ENTRY_TRIGGERED ORDER_PLACED []) (\<lambda>_. liftA (Inr r)))))"

subsection \<open>Projecting a portfolio allocation\<close>

fun first_given :: "pydict \<Rightarrow> string list \<Rightarrow> pyval" where
  \<comment> \<open>the first of the keys whose value is not None\<close>
  "first_given d [] = VNone"
| "first_given d (k # ks) = (if dget d k \<noteq> VNone then dget d k else first_given d ks)"

definition quantity_of :: "pydict \<Rightarrow> pyval" where
  \<comment> \<open>\<^verbatim>\<open>d.get("quantity", d.get("qty"))\<close>\<close>
  "quantity_of d = dget_or d ''quantity'' (dget d ''qty'')"

definition positive_or_none :: "flt \<Rightarrow> flt option" where
  "positive_or_none x = (if flt_le x (Fin 0) then None else Some x)"

definition allocated_amount :: "pydict \<Rightarrow> flt option py" where
  "allocated_amount alloc = catch_tv (bindE (py_float (dget alloc ''allocated_notional'')) (\<lambda>x. Inr (positive_or_none x))) None"

definition original_amount :: "pydict \<Rightarrow> flt option py" where
  \<comment> \<open>the notional asked for, from the context or from entry times quantity\<close>
  "original_amount d =
    (let given = first_given d [''notional'', ''notional_usdt'', ''order_notional'', ''effective_notional''] in
     catch_tv (bindE
       (if given \<noteq> VNone then py_float given
        else bindE (py_float (dget d ''entry'')) (\<lambda>e. bindE (py_float (quantity_of d)) (\<lambda>q. Inr (flt_abs (fmul e q)))))
       (\<lambda>x. Inr (positive_or_none x))) None)"

definition scaled_risk :: "pydict \<Rightarrow> flt \<Rightarrow> flt option option py" where
  \<comment> \<open>None where the allocated risk is no number\<close>
  "scaled_risk alloc part =
    (if dget alloc ''allocated_risk'' = VNone then Inr (Some None)
     else catch_tv (bindE (py_float (dget alloc ''allocated_risk'')) (\<lambda>x. Inr (Some (Some (fmul x part))))) None)"

definition replace_present :: "string list \<Rightarrow> pyval \<Rightarrow> pydict \<Rightarrow> pydict" where
  "replace_present ks v d = foldl (\<lambda>d k. if map_of d k \<noteq> None then dset k v d else d) d ks"

definition scale_quantity :: "pydict \<Rightarrow> flt \<Rightarrow> (pydict \<times> string) py" where
  "scale_quantity d scale =
    (if quantity_of d = VNone then Inr (d, [])
     else catch_tv (bindE (py_float (quantity_of d)) (\<lambda>q.
       let v = VFloat (fmul q scale) in
       Inr (replace_present [''effective_quantity''] v (dset ''qty'' v (dset ''quantity'' v d)), [])))
       (d, ''PORTFOLIO_ALLOCATION_SIZE_UNAVAILABLE''))"

definition project_allocation :: "pydict \<Rightarrow> (pydict \<times> string) py" where
  \<comment> \<open>the context to go on with and the reason to reject, empty when there is none\<close>
  "project_allocation projected =
    (case dget projected ''portfolio_allocation'' of
      VDict alloc \<Rightarrow>
        let action = py_upper (str_or (dget alloc ''action'') ''REJECT'') in
        bindE (py_iter (py_or (dget alloc ''reason_codes'') (VList []))) (\<lambda>reasons.
        if action \<notin> {''APPROVE'', ''REDUCE_SIZE''} then
          Inr (projected, (case reasons of [] \<Rightarrow> ''NO_PORTFOLIO_CAPACITY'' | r # _ \<Rightarrow> py_str r))
        else bindE (allocated_amount alloc) (\<lambda>a.
        case a of None \<Rightarrow> Inr (projected, ''PORTFOLIO_ALLOCATION_INVALID'')
        | Some allocated \<Rightarrow> bindE (original_amount projected) (\<lambda>oa.
        case oa of None \<Rightarrow> Inr (projected, ''PORTFOLIO_ALLOCATION_SIZE_UNAVAILABLE'')
        | Some original \<Rightarrow>
          let downstream = py_min original allocated; scale = fdiv downstream original in
          bindE (scaled_risk alloc (fdiv downstream allocated)) (\<lambda>r.
          case r of None \<Rightarrow> Inr (projected, ''PORTFOLIO_ALLOCATION_INVALID'')
          | Some risk \<Rightarrow>
            scale_quantity (replace_present [''notional_usdt'', ''order_notional''] (VFloat downstream)
              (dupdate projected
                [(''allocation_action'', VStr action), (''allocation_scale'', VFloat scale),
                 (''allocation_requested_notional'', dget alloc ''requested_notional''),
                 (''allocated_notional'', VFloat downstream), (''allocated_risk'', flt_opt_val risk),
                 (''notional'', VFloat downstream), (''effective_notional'', VFloat downstream)])) scale))))
    | _ \<Rightarrow> Inr (projected, []))"

subsection \<open>The cycle\<close>

record CycleResult =
  cr_status :: string
  cr_accepted :: bool
  cr_candidate :: "OrderCandidate option"
  cr_reason :: string
  cr_execution :: "ExecutionResult option"
  cr_diagnostics :: "pydict option"

definition rejected_cycle_result :: "string \<Rightarrow> OrderCandidate option \<Rightarrow> pydict option \<Rightarrow> CycleResult" where
  "rejected_cycle_result reason c diag =
    \<lparr>cr_status = ''rejected'', cr_accepted = False, cr_candidate = c, cr_reason = reason, cr_execution = None,
     cr_diagnostics = diag\<rparr>"

definition reject_cycle :: "OrderCandidate option \<Rightarrow> string \<Rightarrow> pydict option \<Rightarrow> CycleResult act" where
  \<comment> \<open>the audit record and the result of a rejection; its diagnostics join those of the context first\<close>
  "reject_cycle c reason diag =
    bindA (modifyA (\<lambda>s. case diag of None \<Rightarrow> s | Some d \<Rightarrow> s\<lparr>ox_diagnostics := dupdate (ox_diagnostics s) d\<rparr>)) (\<lambda>_.
    bindA (audit c SIGNAL_CREATED SIGNAL_REJECTED reason) (\<lambda>_. liftA (Inr (rejected_cycle_result reason c diag))))"

definition mean_known :: "flt option \<Rightarrow> flt option \<Rightarrow> flt option" where
  \<comment> \<open>\<^verbatim>\<open>sum(values) / len(values)\<close> over the values that are not None\<close>
  "mean_known setup_exp regime_exp =
    (let values = List.map_filter (\<lambda>v. v) [setup_exp, regime_exp] in
     if values = [] then None else Some (fdiv (flt_sum values) (Fin (of_nat (length values)))))"

definition infer_expectancy :: "OrderServices \<Rightarrow> OrderCandidate \<Rightarrow> OrderCandidate act" where
  \<comment> \<open>a candidate without expectancy takes the stored mean of its setup and its regime\<close>
  "infer_expectancy sv c =
    (case (oc_expectancy c, sv_expectancy sv) of
      (None, Some fetch) \<Rightarrow>
        bindA (callA (CallExpectancy ''setup_expectancy_stats'' (oc_setup_type c)) (\<lambda>_. fetch ''setup_expectancy_stats'' (oc_setup_type c))) (\<lambda>a.
        bindA (callA (CallExpectancy ''regime_expectancy_stats'' (oc_regime c)) (\<lambda>_. fetch ''regime_expectancy_stats'' (oc_regime c))) (\<lambda>b.
        case mean_known a b of
          None \<Rightarrow> liftA (Inr c)
        | Some x \<Rightarrow>
            bindA (modifyA (\<lambda>s. s\<lparr>ox_market_ctx := dset ''expectancy'' (VFloat x) (ox_market_ctx s)\<rparr>)) (\<lambda>_.
            liftA (Inr (c\<lparr>oc_expectancy := Some x\<rparr>)))))
    | _ \<Rightarrow> liftA (Inr c))"

definition reason_or_unknown :: "string \<Rightarrow> string" where
  "reason_or_unknown r = (if r = [] then ''UNKNOWN'' else r)"

definition executed_result :: "OrderCandidate \<Rightarrow> ExecutionResult \<Rightarrow> pydict \<Rightarrow> CycleResult" where
  "executed_result c e diag =
    \<lparr>cr_status = ''executed'', cr_accepted = True, cr_candidate = Some c, cr_reason = [], cr_execution = Some e,
     cr_diagnostics = Some diag\<rparr>"

definition execute_accepted :: "OrderServices \<Rightarrow> OrderCandidate \<Rightarrow> pydict \<Rightarrow> CycleResult act" where
  "execute_accepted sv c diag =
    bindA (modifyA (\<lambda>s. s\<lparr>ox_diagnostics := dupdate (ox_diagnostics s) diag\<rparr>)) (\<lambda>_.
    bindA (execute_order_candidate sv c) (\<lambda>e. liftA (Inr (executed_result c e diag))))"

definition cycle_candidate ::
  "(string \<Rightarrow> pyval) \<Rightarrow> OrderServices \<Rightarrow> pydict \<Rightarrow> pydict \<Rightarrow> (OrderCandidate \<Rightarrow> TradeQualityDecision \<Rightarrow> CycleResult act) \<Rightarrow> CycleResult act" where
  \<comment> \<open>the opening both cycles share: projection, candidate, expectancy, quality gate; the argument goes on from there\<close>
  "cycle_candidate val sv config stats go_on = (\<lambda>s.
    bindA (liftA (project_allocation (ox_market_ctx s))) (\<lambda>(m, allocation_reject).
    bindA (modifyA (\<lambda>s. s\<lparr>ox_market_ctx := m\<rparr>)) (\<lambda>_.
    if allocation_reject \<noteq> [] then reject_cycle None allocation_reject None
    else
      bindA (liftA (build_order_candidate (ox_symbol s) m)) (\<lambda>d.
      case d of
        Inl reason \<Rightarrow> reject_cycle None reason None
      | Inr c0 \<Rightarrow>
          bindA (infer_expectancy sv c0) (\<lambda>c.
          bindA (\<lambda>s. (evaluate_trade_quality val c (ox_market_ctx s) stats config, s)) (\<lambda>q.
          if \<not> tq_accepted q then reject_cycle (Some c) (reason_or_unknown (tq_reject_reason q)) (Some (tq_diagnostics q))
          else go_on c q))))) s)"

definition run_order_cycle :: "(string \<Rightarrow> pyval) \<Rightarrow> OrderServices \<Rightarrow> pydict \<Rightarrow> pydict \<Rightarrow> CycleResult act" where
  "run_order_cycle val sv config stats =
    cycle_candidate val sv config stats (\<lambda>c q. execute_accepted sv c (tq_diagnostics q))"

subsection \<open>The PAPER pre-submit cycle\<close>

definition MIN_RR_THRESHOLD :: "(string \<Rightarrow> pyval) \<Rightarrow> flt py" where
  "MIN_RR_THRESHOLD val = bindE (decision_filter_config val ''PAPER'') (\<lambda>c. config_float c ''MIN_EFFECTIVE_RR'')"

definition min_effective_rr_of :: "(string \<Rightarrow> pyval) \<Rightarrow> pydict \<Rightarrow> flt py" where
  "min_effective_rr_of val config =
    bindE (MIN_RR_THRESHOLD val) (\<lambda>d. py_float (dget_or config ''MIN_EFFECTIVE_RR'' (VFloat d)))"

definition pair_high :: "ExecutionCostModel \<Rightarrow> bool" where
  "pair_high m = flt_le (Fin (1 / 4)) (fadd (spread_penalty m) (slippage_penalty m))"

definition effective_rr_flags :: "pydict \<Rightarrow> ExecutionCostModel \<Rightarrow> string \<Rightarrow> flt \<Rightarrow> flt \<Rightarrow> string list" where
  "effective_rr_flags ctx m status effective bound =
     flag_if (missing_fields m \<noteq> [] \<or> status = EXECUTION_EVIDENCE_UNAVAILABLE_BLOCKING) ''UNKNOWN_EXECUTION_CONTEXT''
     @ flag_if (status = EXECUTION_EVIDENCE_INVALID_FAKE_ZERO) ''INVALID_FAKE_ZERO''
     @ flag_if (flt_le (fl (20 / 100)) (spread_penalty m)) ''HIGH_SPREAD''
     @ flag_if (flt_le (fl (20 / 100)) (slippage_penalty m)) ''HIGH_SLIPPAGE''
     @ flag_if (flt_le (fl (35 / 100)) (liquidity_penalty m)) ''THIN_LIQUIDITY''
     @ flag_if (flt_le (fl (8 / 100)) (funding_penalty m)) ''FUNDING_RISK''
     @ flag_if (flt_le (fl (5 / 100)) (latency_penalty m)) ''BAD_EXECUTION''
     @ flag_if (py_lower (py_str (dget_or ctx ''volatility_regime'' (VStr []))) = ''high'' \<and> pair_high m) ''EXCESSIVE_VOLATILITY''
     @ flag_if (flt_less effective bound) ''LOW_EFFECTIVE_RR''"

definition effective_rr_check :: "flt \<Rightarrow> pydict \<Rightarrow> string \<Rightarrow> flt \<Rightarrow> (flt \<times> string list \<times> pydict) py" where
  \<comment> \<open>the first argument is the order's \<^verbatim>\<open>risk_reward\<close>; zero counts as absent and becomes one\<close>
  "effective_rr_check risk_reward ctx mode bound =
    (let rr = (if risk_reward = Fin 0 then Fin 1 else risk_reward);
         measured = (py_upper mode \<in> {''LIVE'', ''LIVE_PRECHECK''}) in
     bindE (classify_execution_evidence ctx measured) (\<lambda>status.
     bindE (calculate_effective_rr (VFloat rr) ctx False) (\<lambda>result.
     bindE (build_execution_cost_model ctx False) (\<lambda>model.
     Inr (effective_rr result,
       sorted_set (effective_rr_flags ctx model status (effective_rr result) bound),
       effective_rr_as_dict result @ [(''execution_evidence_status'', VStr status), (''min_effective_rr'', VFloat bound)])))))"

definition execution_context_of :: "pydict \<Rightarrow> pydict py" where
  \<comment> \<open>the supplied execution context, or one built from the market context\<close>
  "execution_context_of m = (case dget m ''execution_ctx'' of VDict d \<Rightarrow> Inr d | _ \<Rightarrow> build_execution_context m VNone)"

definition flags_reason :: "string list \<Rightarrow> string" where
  \<comment> \<open>the reason a non-empty list of flags gives\<close>
  "flags_reason flags = (if ''LOW_EFFECTIVE_RR'' \<in> set flags then ''LOW_EFFECTIVE_RR'' else hd flags)"

definition money_or :: "pydict \<Rightarrow> string \<Rightarrow> flt \<Rightarrow> flt option py" where
  \<comment> \<open>\<^verbatim>\<open>float(m.get(k, d) or d) if m.get(k, d) is not None else None\<close>\<close>
  "money_or m k d =
    (let v = dget_or m k (VFloat d) in
     if v = VNone then Inr None else bindE (py_float (py_or v (VFloat d))) (\<lambda>x. Inr (Some x)))"

definition risk_config :: "pydict \<Rightarrow> pydict" where
  "risk_config config =
    dupdate config
      [(''reject_unknown_portfolio_risk'', dget_or config ''REJECT_UNKNOWN_PORTFOLIO_RISK''
          (VBool (\<not> truthy (dget_or config ''PORTFOLIO_RISK_DIAGNOSTIC_FAIL_OPEN'' (VBool False))))),
       (''portfolio_risk_diagnostic_fail_open'', dget_or config ''PORTFOLIO_RISK_DIAGNOSTIC_FAIL_OPEN'' (VBool False))]"

definition default_notional :: "OrderExecutionContext \<Rightarrow> pyval" where
  "default_notional s = py_or (dget (ox_market_ctx s) ''notional'') (VFloat (py_max (fmul (ox_balance s) (ox_risk_pct s)) (Fin 1)))"

definition sized_notional :: "OrderExecutionContext \<Rightarrow> OrderCandidate \<Rightarrow> pyval py" where
  \<comment> \<open>entry times quantity, or the given notional where that is zero\<close>
  "sized_notional s c =
    bindE (float_or0 (dget_or (ox_market_ctx s) ''quantity'' (dget_or (ox_market_ctx s) ''qty'' (VFloat (Fin 0))))) (\<lambda>q.
      Inr (py_or (VFloat (flt_abs (fmul (oc_entry c) q))) (dget (ox_market_ctx s) ''notional'')))"

definition portfolio_inputs :: "OrderExecutionContext \<Rightarrow> pydict \<Rightarrow> OrderCandidate \<Rightarrow> StateInputs py" where
  "portfolio_inputs s config c =
    bindE (sized_notional s c) (\<lambda>sized.
    bindE (money_or (ox_market_ctx s) ''equity'' (ox_balance s)) (\<lambda>equity.
    bindE (money_or (ox_market_ctx s) ''available_balance'' (ox_balance s)) (\<lambda>available.
    bindE (int_to_float (ox_timestamp s)) (\<lambda>now. Inr
      \<lparr>st_mode = mode_value (ox_mode s), st_symbol = oc_symbol c, st_side = oc_side c, st_equity = equity, st_available = available,
       st_positions = ps_open_positions (ox_portfolio s),
       st_config = dset ''default_candidate_notional'' (py_or sized (default_notional s)) (risk_config config), st_now = Some now, st_cooldown_until = ps_cooldown_until (ox_portfolio s),
       st_daily_pnl = ps_daily_realized_pnl (ox_portfolio s), st_trades_symbol = ps_trades_today_symbol (ox_portfolio s),
       st_trades_global = ps_trades_today_global (ox_portfolio s), st_losses = ps_consecutive_loss_count (ox_portfolio s),
       st_symbol_losses = None, st_peak = None, st_drawdown = ps_rolling_drawdown_pct (ox_portfolio s),
       st_complete = VNone, st_source = VNone, st_missing = [], st_overrides = []\<rparr>))))"

definition risk_candidate :: "OrderExecutionContext \<Rightarrow> OrderCandidate \<Rightarrow> pydict" where
  "risk_candidate s c =
    [(''symbol'', VStr (oc_symbol c)), (''side'', VStr (oc_side c)), (''entry'', VFloat (oc_entry c)),
     (''notional'', default_notional s), (''quantity'', quantity_of (ox_market_ctx s))]"

definition paper_risk :: "string \<Rightarrow> pydict \<Rightarrow> OrderCandidate \<Rightarrow> OrderExecutionContext \<Rightarrow> PortfolioRiskDecision py" where
  "paper_risk ts config c s =
    bindE (portfolio_inputs s config c) (\<lambda>i.
    bindE (snapshot_from_state ts i) (\<lambda>snap.
    evaluate_portfolio_risk (risk_candidate s c) snap (risk_config config)))"

definition paper_costs :: "(string \<Rightarrow> pyval) \<Rightarrow> pydict \<Rightarrow> OrderCandidate \<Rightarrow> OrderExecutionContext \<Rightarrow> (flt \<times> string list \<times> pydict) py" where
  "paper_costs val config c s =
    bindE (execution_context_of (ox_market_ctx s)) (\<lambda>ec.
    bindE (min_effective_rr_of val config) (\<lambda>bound. effective_rr_check (oc_rr c) ec ''paper'' bound))"

definition pre_submit_tail ::
  "(string \<Rightarrow> pyval) \<Rightarrow> string \<Rightarrow> OrderServices \<Rightarrow> pydict \<Rightarrow> OrderCandidate \<Rightarrow> TradeQualityDecision \<Rightarrow> CycleResult act" where
  \<comment> \<open>what PAPER adds to the cycle: the cost flags, then the portfolio gate; the diagnostics entry
      \<^verbatim>\<open>portfolio_risk\<close>, a copy of the snapshot, is left out\<close>
  "pre_submit_tail val ts sv config c q =
    bindA (\<lambda>s. (paper_costs val config c s, s)) (\<lambda>(eff, flags, breakdown).
    let diag = dupdate (tq_diagnostics q)
          [(''effective_rr'', VFloat eff), (''execution_flags'', strs_val flags), (''effective_rr_breakdown'', VDict breakdown)] in
    if flags \<noteq> [] then reject_cycle (Some c) (flags_reason flags) (Some diag)
    else
      bindA (\<lambda>s. (paper_risk ts config c s, s)) (\<lambda>risk.
      let diag2 = dupdate diag [(''portfolio_risk_state'', VStr (risk_state risk)), (''portfolio_risk_flags'', strs_val (risk_flags risk))] in
      if \<not> risk_accepted risk
      then reject_cycle (Some c) (if risk_reject_reason risk = [] then ''UNKNOWN_PORTFOLIO_RISK'' else risk_reject_reason risk) (Some diag2)
      else execute_accepted sv c diag2))"

definition evaluate_paper_style_pre_submit ::
  "(string \<Rightarrow> pyval) \<Rightarrow> string \<Rightarrow> OrderServices \<Rightarrow> pydict \<Rightarrow> pydict \<Rightarrow> CycleResult act" where
  "evaluate_paper_style_pre_submit val ts sv config stats = cycle_candidate val sv config stats (pre_submit_tail val ts sv config)"

subsection \<open>The shared signal decision\<close>

record DecisionResult =
  dr_symbol :: string
  dr_side :: string
  dr_decision :: string
  dr_score :: flt
  dr_raw_rr :: flt
  dr_effective_rr :: flt
  dr_reject_reason :: string
  dr_expectancy_bucket :: string
  dr_regime :: string
  dr_spread_pct :: "flt option"
  dr_funding_rate_pct :: "flt option"
  dr_volume_24h_usdt :: "flt option"
  dr_slippage_estimate_pct :: "flt option"
  dr_liquidity_status :: string
  dr_lifecycle_events :: "string list"
  dr_diagnostics :: pydict
  dr_safety :: "SafetyResult option" \<comment> \<open>\<^verbatim>\<open>diagnostics["execution_safety"]\<close>\<close>
  dr_candidate :: "OrderCandidate option"

record SignalRequest =
  \<comment> \<open>the arguments; of the risk context what the code reads: symbol, recent stats and the stored expectancies\<close>
  sg_snapshot :: pydict
  sg_strategy :: pydict
  sg_risk_symbol :: pyval
  sg_recent_stats :: pydict
  sg_expectancy :: "(string \<Rightarrow> string \<Rightarrow> flt option py) option"
  sg_execution :: "pydict option"
  sg_mode :: TradingMode

definition with_execution :: "pydict \<Rightarrow> pydict option \<Rightarrow> pydict" where
  \<comment> \<open>the execution context as a field, and its values where the market context has none\<close>
  "with_execution m e =
    (case e of None \<Rightarrow> m
     | Some ec \<Rightarrow> (let m1 = dset ''execution_ctx'' (VDict ec) m in
         dupdate m1 (filter (\<lambda>p. in_strs (dget m1 (fst p)) [[], ''UNAVAILABLE'', ''UNAVAILABLE_BACKTEST'']) ec)))"

definition stored_expectancy :: "(string \<Rightarrow> string \<Rightarrow> flt option py) option \<Rightarrow> OrderCandidate \<Rightarrow> pydict \<Rightarrow> (OrderCandidate \<times> pydict) py" where
  "stored_expectancy fetch c m =
    (case (oc_expectancy c, fetch) of
      (None, Some f) \<Rightarrow>
        bindE (f ''setup_expectancy_stats'' (oc_setup_type c)) (\<lambda>a.
        bindE (f ''regime_expectancy_stats'' (oc_regime c)) (\<lambda>b.
        Inr (case mean_known a b of None \<Rightarrow> (c, m)
          | Some x \<Rightarrow> (c\<lparr>oc_expectancy := Some x\<rparr>, dset ''expectancy'' (VFloat x) m))))
    | _ \<Rightarrow> Inr (c, m))"

definition either_field :: "pydict \<Rightarrow> pydict \<Rightarrow> string \<Rightarrow> flt option py" where
  \<comment> \<open>\<^verbatim>\<open>_nullable_float(execution_ctx.get(k, market_ctx.get(k)))\<close>\<close>
  "either_field ec m k = nullable_float (dget_or ec k (dget m k))"

definition decision_result ::
  "string \<Rightarrow> string \<Rightarrow> string \<Rightarrow> flt \<times> flt \<times> flt \<Rightarrow> string \<Rightarrow> string \<Rightarrow> pydict \<Rightarrow> pydict \<Rightarrow> pydict \<Rightarrow> SafetyResult option \<Rightarrow>
   OrderCandidate option \<Rightarrow> DecisionResult py" where
  \<comment> \<open>the fields both outcomes fill the same way\<close>
  "decision_result symb side decision figures reason regime ec m diag safety c =
    bindE (either_field ec m ''spread_pct'') (\<lambda>spread.
    bindE (either_field ec m ''funding_rate_pct'') (\<lambda>funding.
    bindE (nullable_float (dget m ''volume_24h_usdt'')) (\<lambda>volume.
    bindE (either_field ec m ''expected_slippage_pct'') (\<lambda>slippage. Inr
      \<lparr>dr_symbol = symb, dr_side = side, dr_decision = decision, dr_score = fst figures, dr_raw_rr = fst (snd figures),
       dr_effective_rr = snd (snd figures), dr_reject_reason = reason,
       dr_expectancy_bucket = str_or (dget_or m ''expectancy_bucket'' (VStr ''UNKNOWN'')) ''UNKNOWN'', dr_regime = regime,
       dr_spread_pct = spread, dr_funding_rate_pct = funding, dr_volume_24h_usdt = volume,
       dr_slippage_estimate_pct = slippage,
       dr_liquidity_status = str_or (dget_or ec ''liquidity_status'' (dget_or m ''liquidity_status'' (VStr ''UNAVAILABLE''))) ''UNAVAILABLE'',
       dr_lifecycle_events = (if decision = ''ACCEPT'' then [''SIGNAL_CREATED'', ''WAITING_ENTRY_ZONE'', ''ENTRY_TRIGGERED'', ''ORDER_PLACED'']
         else [''SIGNAL_CREATED'', ''SIGNAL_REJECTED'']),
       dr_diagnostics = diag, dr_safety = safety, dr_candidate = c\<rparr>))))"

definition unbuilt_decision :: "string \<Rightarrow> pydict \<Rightarrow> string \<Rightarrow> DecisionResult py" where
  "unbuilt_decision symb m reason =
    bindE (execution_context_of m) (\<lambda>ec.
    bindE (float_or0 (dget_or m ''score'' (VFloat (Fin 0)))) (\<lambda>score.
    bindE (float_or0 (dget_or m ''rr'' (VFloat (Fin 0)))) (\<lambda>rr.
    decision_result symb (py_str (dget_or m ''side'' (VStr ''N/A''))) ''REJECT'' (score, rr, Fin 0) reason
      (str_or (dget_or m ''regime'' (VStr ''UNKNOWN'')) ''UNKNOWN'') ec m
      [(''reject_reason'', VStr reason), (''shared_decision_boundary'', VStr ''evaluate_signal_decision'')] None None)))"

definition canonical_rr_stage :: "OrderCandidate \<Rightarrow> pydict \<Rightarrow> pydict \<Rightarrow> TradingMode \<Rightarrow> pydict py" where
  "canonical_rr_stage c m ec mode =
    bindE (build_decision_rr_metrics (VFloat (oc_rr c))
      (dupdate m [(''entry'', VFloat (oc_entry c)), (''sl'', VFloat (oc_sl c)), (''tp'', VFloat (oc_tp c)), (''side'', VStr (oc_side c))])
      ec (mode_value mode) VNone) (\<lambda>d.
    let st = decision_rr_as_dict d in
    Inr (st @ [(''rr_basis'', VStr (if dget st ''expected_fill'' \<noteq> VNone \<and> dget st ''execution_cost_semantics'' \<noteq> VNone
      then ''EXPECTED_FILL_RUNTIME_PARITY'' else ''UNAVAILABLE''))]))"

definition rr_breakdown :: "OrderCandidate \<Rightarrow> pydict \<Rightarrow> pydict \<Rightarrow> SafetyResult \<Rightarrow> pydict py" where
  "rr_breakdown c ec st safety =
    bindE (build_execution_cost_breakdown (VFloat (oc_rr c)) ec (VFloat (fl (16 / 10))) [] False) (\<lambda>b.
    let penalty = dget st ''remaining_execution_penalty'' in
    Inr (dupdate (dupdate (breakdown_as_dict b) st)
      [(''raw_rr'', dget st ''executable_raw_rr''), (''cost_penalty'', penalty), (''cost_penalty_rr'', penalty),
       (''cost_penalty_total'', penalty), (''reject_flags'', strs_val (all_failed_gates safety)),
       (''diagnostics_json'', VStr ''{\"authority\": \"build_decision_rr_metrics\", \"formula\": \"effective_rr = max(executable_raw_rr - remaining_execution_penalty, 0)\"}''),
       (''execution_evidence_status'', VStr (execution_evidence_status safety))]))"

definition signal_reason :: "TradeQualityDecision \<Rightarrow> SafetyResult \<Rightarrow> string" where
  "signal_reason q safety =
    (if \<not> tq_accepted q then reason_or_unknown (tq_reject_reason q)
     else if all_failed_gates safety \<noteq> [] then flags_reason (all_failed_gates safety) else [])"

definition built_decision :: "(string \<Rightarrow> pyval) \<Rightarrow> SignalRequest \<Rightarrow> string \<Rightarrow> pydict \<Rightarrow> OrderCandidate \<Rightarrow> DecisionResult py" where
  "built_decision val g symb m0 c0 =
    (let config = dset ''MODE'' (VStr (mode_value (sg_mode g))) (sg_strategy g) in
     bindE (stored_expectancy (sg_expectancy g) c0 m0) (\<lambda>(c, m).
     bindE (execution_context_of m) (\<lambda>ec.
     bindE (canonical_rr_stage c m ec (sg_mode g)) (\<lambda>st.
     bindE (evaluate_trade_quality val c (dupdate m st) (sg_recent_stats g) config) (\<lambda>q.
     bindE (config_float st ''effective_rr'') (\<lambda>eff.
     bindE (min_effective_rr_of val config) (\<lambda>bound.
     bindE (evaluate_execution_safety ec (VFloat eff) (VFloat bound) config (sg_mode g = LIVE)) (\<lambda>safety.
     bindE (rr_breakdown c ec st safety) (\<lambda>breakdown.
     let diag = dupdate (tq_diagnostics q)
           [(''effective_rr'', VFloat eff), (''execution_flags'', strs_val (all_failed_gates safety)),
            (''effective_rr_breakdown'', VDict breakdown), (''canonical_rr_stage'', VDict st),
            (''shared_decision_boundary'', VStr ''evaluate_signal_decision'')];
         reason = signal_reason q safety
     in bindE (float_or0 (dget_or diag ''score'' (VFloat (oc_score c)))) (\<lambda>score.
        decision_result symb (oc_side c) (if reason = [] then ''ACCEPT'' else ''REJECT'') (score, oc_rr c, eff) reason
          (str_or (dget_or diag ''regime'' (VStr (oc_regime c))) ''UNKNOWN'') ec m diag (Some safety) (Some c)))))))))))"

definition signal_symbol :: "SignalRequest \<Rightarrow> pydict \<Rightarrow> string" where
  "signal_symbol g m = py_str (py_or (py_or (py_or (dget m ''symbol'') (dget (sg_strategy g) ''symbol'')) (sg_risk_symbol g)) (VStr ''UNKNOWN''))"

definition evaluate_signal_decision :: "(string \<Rightarrow> pyval) \<Rightarrow> SignalRequest \<Rightarrow> DecisionResult py" where
  "evaluate_signal_decision val g =
    bindE (project_allocation (sg_snapshot g)) (\<lambda>(m0, allocation_reject).
    let m = with_execution m0 (sg_execution g);
        symb = signal_symbol g m in
    if allocation_reject \<noteq> [] then unbuilt_decision symb m allocation_reject
    else bindE (build_order_candidate symb m) (\<lambda>d.
      case d of Inl reason \<Rightarrow> unbuilt_decision symb m reason
      | Inr c \<Rightarrow> built_decision val g symb m c))"

subsection \<open>Facts about steps\<close>

lemma bindA_eq:
  "bindA m f s = (r, s') \<longleftrightarrow>
     (\<exists>e. m s = (Inl e, s') \<and> r = Inl e) \<or> (\<exists>x s1. m s = (Inr x, s1) \<and> f x s1 = (r, s'))"
  by (auto simp: bindA_def split: prod.splits sum.splits)

lemma liftA_eq [simp]: "liftA x s = (r, s') \<longleftrightarrow> r = x \<and> s' = s"
  by (auto simp: liftA_def)

lemma modifyA_eq [simp]: "modifyA f s = (r, s') \<longleftrightarrow> r = Inr () \<and> s' = f s"
  by (auto simp: modifyA_def)

lemma callA_eq [simp]: "callA c f s = (r, s') \<longleftrightarrow> r = f (ox_calls s) \<and> s' = s\<lparr>ox_calls := ox_calls s @ [c]\<rparr>"
  by (auto simp: callA_def)

lemma audit_eq [simp]:
  "audit c b a reason s = (r, s') \<longleftrightarrow> r = Inr () \<and> s' = s\<lparr>ox_audit := ox_audit s @ [audit_event s c b a reason]\<rparr>"
  by (auto simp: audit_def)

lemmas act_eqs = bindA_eq

subsection \<open>Authorized orders and audited results\<close>

definition live_order_authorized :: "OrderServices \<Rightarrow> OrderExecutionContext \<Rightarrow> OrderCandidate \<Rightarrow> service_call list \<Rightarrow> bool" where
  \<comment> \<open>among the new calls there is one order; the authorization and the configuration were read right
      before it, apart from the balance, and every gate of that reading held\<close>
  "live_order_authorized sv s c new \<longleftrightarrow> ox_mode s = LIVE \<and> ox_allow_live_orders s \<and>
     (\<exists>pre bal tail provider v a.
        new = pre @ [CallAuthorization, CallConfig] @ bal @ CallPlaceOrder c # tail \<and>
        set bal \<subseteq> {CallBalance} \<and> (\<forall>d. CallPlaceOrder d \<notin> set (pre @ bal @ tail)) \<and>
        sv_authorization sv = Some provider \<and> provider (ox_calls s @ pre) = Inr v \<and> as_dict_or_empty v = Inr a \<and>
        sv_configured sv (ox_calls s @ pre @ [CallAuthorization]) = Inr True \<and>
        flag_on a ''live_trading_enabled'' \<and> flag_on a ''operator_acknowledged'' \<and> flag_on a ''qualification_passed'' \<and>
        flag_on a ''reconciliation_passed'' \<and> flag_on a ''derivatives_contract_passed'' \<and>
        flag_on a ''execution_owner_valid'' \<and> \<not> truthy (dget_or a ''kill_switch_active'' (VBool True)))"

definition orders_authorized :: "OrderServices \<Rightarrow> OrderExecutionContext \<Rightarrow> OrderExecutionContext \<Rightarrow> bool" where
  "orders_authorized sv s s' \<longleftrightarrow>
     (\<exists>new. ox_calls s' = ox_calls s @ new \<and> (\<forall>c. CallPlaceOrder c \<in> set new \<longrightarrow> live_order_authorized sv s c new))"

definition audited :: "OrderExecutionContext \<Rightarrow> CycleResult py \<Rightarrow> OrderExecutionContext \<Rightarrow> bool" where
  \<comment> \<open>a result leaves one record that agrees with it, an exception none\<close>
  "audited s r s' \<longleftrightarrow>
     (case r of Inl _ \<Rightarrow> ox_audit s' = ox_audit s
      | Inr res \<Rightarrow> \<exists>e. ox_audit s' = ox_audit s @ [e] \<and>
          dget e ''status_after'' = VStr (if cr_accepted res then ''ORDER_PLACED'' else ''SIGNAL_REJECTED'') \<and>
          dget e ''reject_reason'' = VStr (cr_reason res) \<and> (cr_accepted res \<longleftrightarrow> cr_execution res \<noteq> None))"

lemma orders_none: "ox_calls s' = ox_calls s @ new \<Longrightarrow> \<forall>c. CallPlaceOrder c \<notin> set new \<Longrightarrow> orders_authorized sv s s'"
  by (auto simp: orders_authorized_def)

lemma orders_same: "ox_calls s' = ox_calls s \<Longrightarrow> orders_authorized sv s s'"
  using orders_none [of s' s "[]"] by simp

lemma gates_pass:
  "filter (\<lambda>g. \<not> snd g) (live_gates a configured allows) = [] \<longleftrightarrow> configured \<and> allows \<and>
     flag_on a ''live_trading_enabled'' \<and> flag_on a ''operator_acknowledged'' \<and> flag_on a ''qualification_passed'' \<and>
     flag_on a ''reconciliation_passed'' \<and> flag_on a ''derivatives_contract_passed'' \<and>
     flag_on a ''execution_owner_valid'' \<and> \<not> truthy (dget_or a ''kill_switch_active'' (VBool True))"
  by (auto simp: live_gates_def)

lemma validate_trace:
  assumes "validate_live_order_authorization sv s = (r, s')" "ox_mode s = LIVE"
  shows "ox_mode s' = LIVE \<and> ox_allow_live_orders s' = ox_allow_live_orders s \<and> ox_audit s' = ox_audit s \<and>
    (case r of Inl _ \<Rightarrow> \<exists>new. ox_calls s' = ox_calls s @ new \<and> (\<forall>c. CallPlaceOrder c \<notin> set new)
     | Inr gates \<Rightarrow> ox_calls s' = ox_calls s @ [CallAuthorization, CallConfig] \<and> ox_allow_live_orders s \<and>
       (\<exists>provider v a. sv_authorization sv = Some provider \<and> provider (ox_calls s) = Inr v \<and> as_dict_or_empty v = Inr a \<and>
         sv_configured sv (ox_calls s @ [CallAuthorization]) = Inr True \<and>
         flag_on a ''live_trading_enabled'' \<and> flag_on a ''operator_acknowledged'' \<and> flag_on a ''qualification_passed'' \<and>
         flag_on a ''reconciliation_passed'' \<and> flag_on a ''derivatives_contract_passed'' \<and>
         flag_on a ''execution_owner_valid'' \<and> \<not> truthy (dget_or a ''kill_switch_active'' (VBool True))))"
proof (cases "sv_authorization sv")
  case None
  then show ?thesis using assms by (auto simp: validate_live_order_authorization_def)
next
  case (Some provider)
  show ?thesis using assms Some
    by (auto simp: validate_live_order_authorization_def bindA_eq Let_def gates_pass dest!: sym [of "Inr _"] split: if_splits)
qed

lemma place_trace:
  assumes "place_live_order sv c s = (r, s')"
  shows "ox_audit s' = ox_audit s"
    "\<exists>new \<in> {[], [CallBalance], [CallPlaceOrder c], [CallBalance, CallPlaceOrder c]}. ox_calls s' = ox_calls s @ new"
  using assms by (auto simp: place_live_order_def bindA_eq split: option.splits)

lemma notify_trace:
  assumes "notify_order sv c s = (r, s')"
  shows "ox_audit s' = ox_audit s \<and> (\<exists>tail. ox_calls s' = ox_calls s @ tail \<and> (\<forall>d. CallPlaceOrder d \<notin> set tail))"
  using assms by (auto simp: notify_order_def bindA_eq split: option.splits if_splits)


definition gates_open :: "OrderServices \<Rightarrow> OrderExecutionContext \<Rightarrow> bool" where
  \<comment> \<open>what the authorization and the configuration, read now, must say\<close>
  "gates_open sv s \<longleftrightarrow> ox_allow_live_orders s \<and>
     (\<exists>provider v a. sv_authorization sv = Some provider \<and> provider (ox_calls s) = Inr v \<and> as_dict_or_empty v = Inr a \<and>
        sv_configured sv (ox_calls s @ [CallAuthorization]) = Inr True \<and>
        flag_on a ''live_trading_enabled'' \<and> flag_on a ''operator_acknowledged'' \<and> flag_on a ''qualification_passed'' \<and>
        flag_on a ''reconciliation_passed'' \<and> flag_on a ''derivatives_contract_passed'' \<and>
        flag_on a ''execution_owner_valid'' \<and> \<not> truthy (dget_or a ''kill_switch_active'' (VBool True)))"

lemma prepare_trace:
  assumes "prepare_execution sv s = (r, s1)"
  shows "ox_audit s1 = ox_audit s" "ox_mode s1 = ox_mode s"
    "ox_mode s \<noteq> LIVE \<Longrightarrow> ox_calls s1 = ox_calls s"
    "ox_mode s = LIVE \<Longrightarrow> (case r of Inl _ \<Rightarrow> \<exists>new. ox_calls s1 = ox_calls s @ new \<and> (\<forall>d. CallPlaceOrder d \<notin> set new)
       | Inr _ \<Rightarrow> ox_calls s1 = ox_calls s @ [CallAuthorization, CallConfig] \<and> gates_open sv s)"
proof -
  show "ox_audit s1 = ox_audit s" "ox_mode s1 = ox_mode s"
    using assms by (auto simp: prepare_execution_def bindA_eq split: if_splits dest!: validate_trace)
  show "ox_mode s \<noteq> LIVE \<Longrightarrow> ox_calls s1 = ox_calls s"
    using assms by (auto simp: prepare_execution_def split: if_splits)
  assume l: "ox_mode s = LIVE"
  then consider (raised) e where "validate_live_order_authorization sv s = (Inl e, s1)" "r = Inl e"
    | (passed) g where "validate_live_order_authorization sv s = (Inr g, s1)" "r = Inr ()"
    using assms by (auto simp: prepare_execution_def bindA_eq)
  then show "case r of Inl _ \<Rightarrow> \<exists>new. ox_calls s1 = ox_calls s @ new \<and> (\<forall>d. CallPlaceOrder d \<notin> set new)
       | Inr _ \<Rightarrow> ox_calls s1 = ox_calls s @ [CallAuthorization, CallConfig] \<and> gates_open sv s"
  proof cases
    case raised
    then show ?thesis using validate_trace [OF raised(1) l] by simp
  next
    case passed
    then show ?thesis using validate_trace [OF passed(1) l] by (simp add: gates_open_def)
  qed
qed

lemma order_trace:
  assumes "order_of_mode sv c s = (r, s')"
  shows "ox_audit s' = ox_audit s" "ox_mode s \<noteq> LIVE \<Longrightarrow> ox_calls s' = ox_calls s"
    "\<exists>new \<in> {[], [CallBalance], [CallPlaceOrder c], [CallBalance, CallPlaceOrder c]}. ox_calls s' = ox_calls s @ new"
  using assms by (auto simp: order_of_mode_def split: TradingMode.splits dest: place_trace)

lemma authorized_sequence:
  assumes "ox_mode s = LIVE" "gates_open sv s" "\<forall>d. CallPlaceOrder d \<notin> set tail"
    "new \<in> {[], [CallBalance], [CallPlaceOrder c], [CallBalance, CallPlaceOrder c]}"
    "CallPlaceOrder d \<in> set ([CallAuthorization, CallConfig] @ new @ tail)"
  shows "live_order_authorized sv s d ([CallAuthorization, CallConfig] @ new @ tail)"
proof -
  have d: "d = c" "new = [CallPlaceOrder c] \<or> new = [CallBalance, CallPlaceOrder c]" using assms(3-5) by auto
  then obtain bal where b: "new = bal @ [CallPlaceOrder c]" "set bal \<subseteq> {CallBalance}" by fastforce
  obtain provider v a where g: "sv_authorization sv = Some provider" "provider (ox_calls s) = Inr v" "as_dict_or_empty v = Inr a"
      "sv_configured sv (ox_calls s @ [CallAuthorization]) = Inr True"
      "flag_on a ''live_trading_enabled''" "flag_on a ''operator_acknowledged''" "flag_on a ''qualification_passed''"
      "flag_on a ''reconciliation_passed''" "flag_on a ''derivatives_contract_passed''"
      "flag_on a ''execution_owner_valid''" "\<not> truthy (dget_or a ''kill_switch_active'' (VBool True))"
    and l: "ox_allow_live_orders s"
    using assms(2) unfolding gates_open_def by blast
  have n: "\<forall>e. CallPlaceOrder e \<notin> set ([] @ bal @ tail)" using b(2) assms(3) by auto
  have "[CallAuthorization, CallConfig] @ new @ tail = [] @ [CallAuthorization, CallConfig] @ bal @ CallPlaceOrder d # tail"
    using b(1) d(1) by simp
  then show ?thesis using assms(1) l b(2) n g unfolding live_order_authorized_def
    by (metis (no_types, lifting) append_Nil append_Nil2)
qed

lemma execute_trace:
  assumes "execute_order_candidate sv c s = (r, s')"
  shows "orders_authorized sv s s'"
    "case r of Inl _ \<Rightarrow> ox_audit s' = ox_audit s
     | Inr _ \<Rightarrow> \<exists>s0. ox_audit s' = ox_audit s @ [audit_event s0 (Some c) ENTRY_TRIGGERED ORDER_PLACED []]"
proof -
  obtain r1 s1 where p: "prepare_execution sv s = (r1, s1)" by fastforce
  note P = prepare_trace [OF p]
  obtain r2 s2 where o: "order_of_mode sv c s1 = (r2, s2)" by fastforce
  note O = order_trace [OF o]
  obtain r3 s3 where n: "notify_order sv c s2 = (r3, s3)" by fastforce
  note N = notify_trace [OF n]
  consider (refused) e where "r1 = Inl e" "r = Inl e" "s' = s1"
    | (unplaced) e where "r1 = Inr ()" "r2 = Inl e" "r = Inl e" "s' = s2"
    | (unsent) x e where "r1 = Inr ()" "r2 = Inr x" "r3 = Inl e" "r = Inl e" "s' = s3"
    | (finished) x where "r1 = Inr ()" "r2 = Inr x" "r3 = Inr ()" "r = Inr x"
        "s' = s3\<lparr>ox_audit := ox_audit s3 @ [audit_event s3 (Some c) ENTRY_TRIGGERED ORDER_PLACED []]\<rparr>"
    using assms p o n by (auto simp: execute_order_candidate_def bindA_eq)
  note cs = this
  have a: "ox_audit s1 = ox_audit s" "ox_audit s2 = ox_audit s" "ox_audit s3 = ox_audit s" using P O N by simp_all
  show "case r of Inl _ \<Rightarrow> ox_audit s' = ox_audit s
     | Inr _ \<Rightarrow> \<exists>s0. ox_audit s' = ox_audit s @ [audit_event s0 (Some c) ENTRY_TRIGGERED ORDER_PLACED []]"
    using cs a by cases auto
  obtain tail where t: "ox_calls s3 = ox_calls s2 @ tail" "\<forall>d. CallPlaceOrder d \<notin> set tail" using N by blast
  obtain new where w: "ox_calls s2 = ox_calls s1 @ new"
      "new \<in> {[], [CallBalance], [CallPlaceOrder c], [CallBalance, CallPlaceOrder c]}" using O(3) by blast
  show "orders_authorized sv s s'"
  proof (cases "ox_mode s = LIVE")
    case False
    then have q: "ox_calls s1 = ox_calls s" "ox_calls s2 = ox_calls s" using P O by auto
    show ?thesis using cs t q by cases (auto intro: orders_same orders_none)
  next
    case True
    show ?thesis
    proof (cases r1)
      case (Inl e)
      then have "s' = s1" using cs by cases auto
      then show ?thesis using P(4) [OF True] Inl by (auto intro: orders_none)
    next
      case (Inr u)
      then have g: "ox_calls s1 = ox_calls s @ [CallAuthorization, CallConfig]" "gates_open sv s" using P(4) [OF True] by auto
      have "\<exists>rest. ox_calls s' = ox_calls s @ [CallAuthorization, CallConfig] @ new @ rest \<and> (\<forall>d. CallPlaceOrder d \<notin> set rest)"
        using cs g(1) w(1) t Inr by cases auto
      then show ?thesis
        using authorized_sequence [OF True g(2) _ w(2)] unfolding orders_authorized_def by blast
    qed
  qed
qed

subsection \<open>What a cycle does to calls and audit\<close>

definition only_lookups :: "OrderExecutionContext \<Rightarrow> OrderExecutionContext \<Rightarrow> bool" where
  \<comment> \<open>nothing but reads of the stored expectancies happened\<close>
  "only_lookups s s' \<longleftrightarrow> ox_mode s' = ox_mode s \<and> ox_allow_live_orders s' = ox_allow_live_orders s \<and> ox_audit s' = ox_audit s \<and>
     (\<exists>pre. ox_calls s' = ox_calls s @ pre \<and> (\<forall>c. CallPlaceOrder c \<notin> set pre))"

lemma only_lookups_refl: "only_lookups s s" by (simp add: only_lookups_def)

lemma only_lookups_ctx [simp]: "only_lookups (s\<lparr>ox_market_ctx := m\<rparr>) s' \<longleftrightarrow> only_lookups s s'"
  by (simp add: only_lookups_def)

lemma authorized_after_lookups:
  assumes "live_order_authorized sv s1 c new" "ox_calls s1 = ox_calls s @ pre" "\<forall>d. CallPlaceOrder d \<notin> set pre"
    "ox_mode s1 = ox_mode s" "ox_allow_live_orders s1 = ox_allow_live_orders s"
  shows "live_order_authorized sv s c (pre @ new)"
proof -
  obtain pre1 bal tail provider v a where h:
      "new = pre1 @ [CallAuthorization, CallConfig] @ bal @ CallPlaceOrder c # tail" "set bal \<subseteq> {CallBalance}"
      "\<forall>d. CallPlaceOrder d \<notin> set (pre1 @ bal @ tail)"
      "sv_authorization sv = Some provider" "provider (ox_calls s1 @ pre1) = Inr v" "as_dict_or_empty v = Inr a"
      "sv_configured sv (ox_calls s1 @ pre1 @ [CallAuthorization]) = Inr True"
      "flag_on a ''live_trading_enabled''" "flag_on a ''operator_acknowledged''" "flag_on a ''qualification_passed''"
      "flag_on a ''reconciliation_passed''" "flag_on a ''derivatives_contract_passed''"
      "flag_on a ''execution_owner_valid''" "\<not> truthy (dget_or a ''kill_switch_active'' (VBool True))"
    and l: "ox_mode s1 = LIVE" "ox_allow_live_orders s1"
    using assms(1) unfolding live_order_authorized_def by blast
  have "pre @ new = (pre @ pre1) @ [CallAuthorization, CallConfig] @ bal @ CallPlaceOrder c # tail"
    "\<forall>d. CallPlaceOrder d \<notin> set ((pre @ pre1) @ bal @ tail)"
    "provider (ox_calls s @ pre @ pre1) = Inr v" "sv_configured sv (ox_calls s @ (pre @ pre1) @ [CallAuthorization]) = Inr True"
    using h assms by simp_all
  then show ?thesis using h(2,4,6,8-) l assms(4,5) unfolding live_order_authorized_def by (metis append.assoc)
qed

lemma orders_after_lookups:
  assumes "only_lookups s s1" "orders_authorized sv s1 s'"
  shows "orders_authorized sv s s'"
proof -
  obtain pre where p: "ox_calls s1 = ox_calls s @ pre" "\<forall>c. CallPlaceOrder c \<notin> set pre" "ox_mode s1 = ox_mode s"
      "ox_allow_live_orders s1 = ox_allow_live_orders s"
    using assms(1) unfolding only_lookups_def by blast
  obtain new where n: "ox_calls s' = ox_calls s1 @ new" "\<forall>c. CallPlaceOrder c \<in> set new \<longrightarrow> live_order_authorized sv s1 c new"
    using assms(2) unfolding orders_authorized_def by blast
  have "\<forall>c. CallPlaceOrder c \<in> set (pre @ new) \<longrightarrow> live_order_authorized sv s c (pre @ new)"
    using n(2) p authorized_after_lookups [OF _ p(1,2,3,4)] by auto
  then show ?thesis using p(1) n(1) unfolding orders_authorized_def by auto
qed

lemma reject_cycle_eq:
  assumes "reject_cycle c reason diag s = (r, s')"
  shows "ox_calls s' = ox_calls s" "audited s r s'" "\<exists>res. r = Inr res \<and> \<not> cr_accepted res"
  using assms
  by (auto simp: reject_cycle_def bindA_eq rejected_cycle_result_def audited_def audit_event_def split: option.splits)

lemma infer_expectancy_lookups:
  assumes "infer_expectancy sv c s = (r, s')"
  shows "only_lookups s s'"
  using assms by (auto simp: infer_expectancy_def bindA_eq only_lookups_def split: option.splits)

lemma cycle_candidate_cases:
  assumes "cycle_candidate val sv config stats go s = (r, s')"
  obtains (raised) e where "r = Inl e" "only_lookups s s'"
    | (rejected) s1 c reason diag where "only_lookups s s1" "reject_cycle c reason diag s1 = (r, s')"
    | (accepted) s1 m c0 c q where "only_lookups s s1" "project_allocation (ox_market_ctx s) = Inr (m, [])"
        "build_order_candidate (ox_symbol s) m = Inr (Inr c0)" "infer_expectancy sv c0 (s\<lparr>ox_market_ctx := m\<rparr>) = (Inr c, s1)"
        "evaluate_trade_quality val c (ox_market_ctx s1) stats config = Inr q" "tq_accepted q" "go c q s1 = (r, s')"
proof (cases "project_allocation (ox_market_ctx s)")
  case (Inl e)
  then show ?thesis using assms raised only_lookups_refl by (auto simp: cycle_candidate_def bindA_eq)
next
  case (Inr p)
  obtain m reject where p: "p = (m, reject)" by fastforce
  let ?s = "s\<lparr>ox_market_ctx := m\<rparr>"
  have l: "only_lookups s ?s" by (simp add: only_lookups_def)
  show ?thesis
  proof (cases "reject = []")
    case False
    then have "reject_cycle None reject None ?s = (r, s')" using assms Inr p by (auto simp: cycle_candidate_def bindA_eq)
    then show ?thesis using rejected l by blast
  next
    case True
    show ?thesis
    proof (cases "build_order_candidate (ox_symbol s) m")
      case (Inl e)
      then show ?thesis using assms Inr p True raised l by (auto simp: cycle_candidate_def bindA_eq)
    next
      case b: (Inr d)
      show ?thesis
      proof (cases d)
        case (Inl reason)
        then have "reject_cycle None reason None ?s = (r, s')" using assms Inr p True b by (auto simp: cycle_candidate_def bindA_eq)
        then show ?thesis using rejected l by blast
      next
        case d: (Inr c0)
        obtain ri s1 where i: "infer_expectancy sv c0 ?s = (ri, s1)" by fastforce
        then have l1: "only_lookups s s1" using infer_expectancy_lookups [OF i] by (simp add: only_lookups_def)
        show ?thesis
        proof (cases ri)
          case (Inl e)
          then show ?thesis using assms Inr p True b d i raised l1 by (auto simp: cycle_candidate_def bindA_eq)
        next
          case c: (Inr c)
          show ?thesis
          proof (cases "evaluate_trade_quality val c (ox_market_ctx s1) stats config")
            case (Inl e)
            then show ?thesis using assms Inr p True b d i c raised l1 by (auto simp: cycle_candidate_def bindA_eq)
          next
            case q: (Inr q)
            show ?thesis
            proof (cases "tq_accepted q")
              case True
              then have "go c q s1 = (r, s')"
                using assms Inr p \<open>reject = []\<close> b d i c q by (auto simp: cycle_candidate_def bindA_eq)
              then show ?thesis using accepted Inr p \<open>reject = []\<close> b d i c q True l1 by blast
            next
              case False
              then have "reject_cycle (Some c) (reason_or_unknown (tq_reject_reason q)) (Some (tq_diagnostics q)) s1 = (r, s')"
                using assms Inr p \<open>reject = []\<close> b d i c q by (auto simp: cycle_candidate_def bindA_eq)
              then show ?thesis using rejected l1 by blast
            qed
          qed
        qed
      qed
    qed
  qed
qed

lemma audited_same: "ox_audit s1 = ox_audit s \<Longrightarrow> audited s1 r s' = audited s r s'"
  by (simp only: audited_def)

lemma audited_after_lookups: "only_lookups s s1 \<Longrightarrow> audited s1 r s' \<Longrightarrow> audited s r s'"
  using audited_same unfolding only_lookups_def by blast

subsection \<open>What a continuation of the cycle owes\<close>

locale order_tail =
  fixes go :: "OrderCandidate \<Rightarrow> TradeQualityDecision \<Rightarrow> CycleResult act" and sv :: OrderServices
  assumes tail_orders: "go c q s = (r, s') \<Longrightarrow> orders_authorized sv s s'"
    and tail_audited: "go c q s = (r, s') \<Longrightarrow> audited s r s'"
begin

lemma cycle_orders:
  assumes "cycle_candidate val sv config stats go s = (r, s')"
  shows "orders_authorized sv s s'"
  using assms
proof (cases rule: cycle_candidate_cases)
  case raised
  then show ?thesis by (auto simp: only_lookups_def orders_authorized_def)
next
  case rejected
  then show ?thesis using orders_after_lookups orders_same reject_cycle_eq(1) by blast
next
  case accepted
  then show ?thesis using orders_after_lookups tail_orders by blast
qed

lemma cycle_audited:
  assumes "cycle_candidate val sv config stats go s = (r, s')"
  shows "audited s r s'"
  using assms
proof (cases rule: cycle_candidate_cases)
  case raised
  then show ?thesis by (simp add: audited_def only_lookups_def)
next
  case rejected
  then show ?thesis using audited_after_lookups reject_cycle_eq(2) by blast
next
  case accepted
  then show ?thesis using audited_after_lookups tail_audited by blast
qed

end

lemma execute_accepted_eq:
  assumes "execute_accepted sv c diag s = (r, s')"
  shows "orders_authorized sv s s'" "audited s r s'" "r = Inr res \<Longrightarrow> cr_candidate res = Some c"
proof -
  define s1 where "s1 = s\<lparr>ox_diagnostics := dupdate (ox_diagnostics s) diag\<rparr>"
  have l: "only_lookups s s1" by (simp add: s1_def only_lookups_def)
  consider (raised) e where "execute_order_candidate sv c s1 = (Inl e, s')" "r = Inl e"
    | (placed) x where "execute_order_candidate sv c s1 = (Inr x, s')" "r = Inr (executed_result c x diag)"
    using assms by (auto simp: execute_accepted_def bindA_eq s1_def)
  note cs = this
  then show "orders_authorized sv s s'" by cases (use execute_trace(1) orders_after_lookups [OF l] in blast)+
  have "audited s1 r s'"
    using cs
  proof cases
    case raised
    then show ?thesis using execute_trace(2) [OF raised(1)] by (simp add: audited_def)
  next
    case placed
    then show ?thesis using execute_trace(2) [OF placed(1)] by (auto simp: audited_def executed_result_def audit_event_def)
  qed
  then show "audited s r s'" using audited_after_lookups [OF l] by blast
  show "r = Inr res \<Longrightarrow> cr_candidate res = Some c" using cs by cases (auto simp: executed_result_def)
qed

lemma pre_submit_cases:
  assumes "pre_submit_tail val ts sv config c q s = (r, s')"
  obtains (raised) e where "r = Inl e" "s' = s"
    | (rejected) reason diag where "reject_cycle (Some c) reason (Some diag) s = (r, s')"
    | (accepted) eff breakdown risk diag where "paper_costs val config c s = Inr (eff, [], breakdown)"
        "paper_risk ts config c s = Inr risk" "risk_accepted risk" "execute_accepted sv c diag s = (r, s')"
proof (cases "paper_costs val config c s")
  case (Inl e)
  then show ?thesis using assms raised by (auto simp: pre_submit_tail_def bindA_eq)
next
  case (Inr p)
  obtain eff flags breakdown where p: "p = (eff, flags, breakdown)" by (cases p) auto
  show ?thesis
  proof (cases "flags = []")
    case False
    then show ?thesis using assms Inr p rejected by (auto simp: pre_submit_tail_def bindA_eq Let_def)
  next
    case f: True
    show ?thesis
    proof (cases "paper_risk ts config c s")
      case (Inl e)
      then show ?thesis using assms Inr p f raised by (auto simp: pre_submit_tail_def bindA_eq Let_def)
    next
      case risk: (Inr risk)
      show ?thesis
      proof (cases "risk_accepted risk")
        case False
        then have "\<exists>reason diag. reject_cycle (Some c) reason (Some diag) s = (r, s')"
          using assms Inr p f risk by (auto simp: pre_submit_tail_def bindA_eq Let_def)
        then show ?thesis using rejected by blast
      next
        case True
        then have "\<exists>diag. execute_accepted sv c diag s = (r, s')"
          using assms Inr p f risk by (auto simp: pre_submit_tail_def bindA_eq Let_def)
        then show ?thesis using accepted Inr p f risk True by blast
      qed
    qed
  qed
qed

interpretation live_cycle: order_tail "\<lambda>c q. execute_accepted sv c (tq_diagnostics q)" sv for sv
  by unfold_locales (use execute_accepted_eq in blast)+

interpretation paper_cycle: order_tail "pre_submit_tail val ts sv config" sv for val ts sv config
proof
  show "orders_authorized sv s s'" if "pre_submit_tail val ts sv config c q s = (r, s')" for c q s r s'
    using that by (cases rule: pre_submit_cases)
      (auto intro: orders_same reject_cycle_eq(1) execute_accepted_eq(1))
  show "audited s r s'" if "pre_submit_tail val ts sv config c q s = (r, s')" for c q s r s'
    using that
  proof (cases rule: pre_submit_cases)
    case raised
    then show ?thesis by (simp add: audited_def)
  qed (auto intro: reject_cycle_eq(2) execute_accepted_eq(2))
qed

text \<open>C1: in every run of either order cycle, whatever the services answer and also when it raises, an
  exchange order is sent only in LIVE with live orders allowed, at most one, and right after
  the authorization was read again - nothing but the balance is read in between - with every
  one of its flags set, the kill switch off, and the environment's configuration allowing
  live orders at that moment.\<close>

theorem exchange_orders_are_authorized:
  assumes "run_order_cycle val sv config stats s = (r, s') \<or> evaluate_paper_style_pre_submit val ts sv config stats s = (r, s')"
  shows "\<exists>new. ox_calls s' = ox_calls s @ new \<and> (\<forall>c. CallPlaceOrder c \<in> set new \<longrightarrow>
    ox_mode s = LIVE \<and> ox_allow_live_orders s \<and>
    (\<exists>pre bal tail provider v a.
        new = pre @ [CallAuthorization, CallConfig] @ bal @ CallPlaceOrder c # tail \<and>
        set bal \<subseteq> {CallBalance} \<and> (\<forall>d. CallPlaceOrder d \<notin> set (pre @ bal @ tail)) \<and>
        sv_authorization sv = Some provider \<and> provider (ox_calls s @ pre) = Inr v \<and> as_dict_or_empty v = Inr a \<and>
        sv_configured sv (ox_calls s @ pre @ [CallAuthorization]) = Inr True \<and>
        flag_on a ''live_trading_enabled'' \<and> flag_on a ''operator_acknowledged'' \<and> flag_on a ''qualification_passed'' \<and>
        flag_on a ''reconciliation_passed'' \<and> flag_on a ''derivatives_contract_passed'' \<and>
        flag_on a ''execution_owner_valid'' \<and> \<not> truthy (dget_or a ''kill_switch_active'' (VBool True))))"
proof -
  have "orders_authorized sv s s'"
    using assms live_cycle.cycle_orders paper_cycle.cycle_orders
    unfolding run_order_cycle_def evaluate_paper_style_pre_submit_def by blast
  then show ?thesis unfolding orders_authorized_def live_order_authorized_def .
qed

text \<open>C23: both order cycles write exactly one audit record per result, ORDER_PLACED where the result is
  accepted and SIGNAL_REJECTED with the same reason where it is not, and a result is accepted
  exactly when it carries an execution; a cycle that raises writes none.\<close>

theorem cycle_audits_its_result:
  assumes "run_order_cycle val sv config stats s = (r, s') \<or> evaluate_paper_style_pre_submit val ts sv config stats s = (r, s')"
  shows "case r of Inl _ \<Rightarrow> ox_audit s' = ox_audit s
      | Inr res \<Rightarrow> \<exists>e. ox_audit s' = ox_audit s @ [e] \<and>
          dget e ''status_after'' = VStr (if cr_accepted res then ''ORDER_PLACED'' else ''SIGNAL_REJECTED'') \<and>
          dget e ''reject_reason'' = VStr (cr_reason res) \<and> (cr_accepted res \<longleftrightarrow> cr_execution res \<noteq> None)"
proof -
  have "audited s r s'"
    using assms live_cycle.cycle_audited paper_cycle.cycle_audited
    unfolding run_order_cycle_def evaluate_paper_style_pre_submit_def by blast
  then show ?thesis unfolding audited_def .
qed




subsection \<open>Allocation bounds\<close>

lemma positive_or_none_Some: "positive_or_none x = Some y \<longleftrightarrow> y = x \<and> \<not> flt_le x (Fin 0)"
  by (auto simp: positive_or_none_def)

lemma original_positive: "original_amount d = Inr (Some x) \<Longrightarrow> \<not> flt_le x (Fin 0)"
  by (auto simp: original_amount_def Let_def bindE_Inr_iff positive_or_none_Some catch_tv_def split: sum.splits if_splits)

lemma allocated_positive: "allocated_amount d = Inr (Some x) \<Longrightarrow> \<not> flt_le x (Fin 0)"
  by (auto simp: allocated_amount_def bindE_Inr_iff positive_or_none_Some catch_tv_def split: sum.splits if_splits)

definition projected_fields :: "pydict \<Rightarrow> flt \<Rightarrow> flt \<Rightarrow> flt option \<Rightarrow> pydict" where
  \<comment> \<open>what an accepted allocation writes before the quantity\<close>
  "projected_fields alloc original allocated risk =
    (let down = py_min original allocated in
     [(''allocation_action'', VStr (py_upper (str_or (dget alloc ''action'') ''REJECT''))),
      (''allocation_scale'', VFloat (fdiv down original)), (''allocation_requested_notional'', dget alloc ''requested_notional''),
      (''allocated_notional'', VFloat down), (''allocated_risk'', flt_opt_val risk), (''notional'', VFloat down),
      (''effective_notional'', VFloat down)])"

lemma project_allocationE:
  assumes "project_allocation d = Inr (d', [])" "dget d ''portfolio_allocation'' = VDict alloc"
    "py_upper (str_or (dget alloc ''action'') ''REJECT'') \<in> {''APPROVE'', ''REDUCE_SIZE''}"
  obtains allocated original risk where "allocated_amount alloc = Inr (Some allocated)" "original_amount d = Inr (Some original)"
    "scale_quantity (replace_present [''notional_usdt'', ''order_notional''] (VFloat (py_min original allocated))
       (dupdate d (projected_fields alloc original allocated risk))) (fdiv (py_min original allocated) original) = Inr (d', [])"
proof -
  note u = assms(1) [unfolded project_allocation_def assms(2) pyval.case Let_def bindE_Inr_iff]
  obtain a where a: "allocated_amount alloc = Inr a" using u assms(3) by (auto simp: bindE_Inr_iff)
  obtain allocated where al: "a = Some allocated" using u a assms(3) by (cases a) auto
  obtain oa where oa: "original_amount d = Inr oa" using u a al assms(3) by (auto simp: bindE_Inr_iff)
  obtain original where o: "oa = Some original" using u a al oa assms(3) by (cases oa) auto
  obtain ro where r: "scaled_risk alloc (fdiv (py_min original allocated) allocated) = Inr ro"
    using u a al oa o assms(3) by (auto simp: bindE_Inr_iff)
  obtain risk where ri: "ro = Some risk" using u a al oa o r assms(3) by (cases ro) auto
  have "scale_quantity (replace_present [''notional_usdt'', ''order_notional''] (VFloat (py_min original allocated))
       (dupdate d (projected_fields alloc original allocated risk))) (fdiv (py_min original allocated) original) = Inr (d', [])"
    using u a al oa o r ri assms(3) by (auto simp: projected_fields_def Let_def)
  then show ?thesis using that a al oa o by blast
qed

lemma scale_quantity_frame:
  assumes "scale_quantity d scale = Inr (d', [])"
  shows "k \<notin> {''quantity'', ''qty'', ''effective_quantity''} \<Longrightarrow> dget d' k = dget d k"
    "quantity_of d = VNone \<or> (\<exists>q. py_float (quantity_of d) = Inr q \<and> dget d' ''quantity'' = VFloat (fmul q scale) \<and>
       dget d' ''qty'' = VFloat (fmul q scale))"
  using assms
  by (auto simp: scale_quantity_def catch_tv_def bindE_def Let_def replace_present_def dget_dset split: if_splits sum.splits)

lemma replace_present_map: "k \<notin> set ks \<Longrightarrow> map_of (replace_present ks v d) k = map_of d k"
  by (induction ks arbitrary: d) (auto simp: replace_present_def map_of_dset)

lemma dupdate_frame: "k \<notin> fst ` set e \<Longrightarrow> map_of (dupdate d e) k = map_of d k"
  by (induction e arbitrary: d) (auto simp: dupdate_def map_of_dset)

lemma replace_present_frame: "k \<notin> set ks \<Longrightarrow> dget (replace_present ks v d) k = dget d k"
  by (induction ks arbitrary: d) (auto simp: replace_present_def dget_dset)

lemma scale_le_1:
  assumes "is_finite a" "\<not> flt_le a (Fin 0)" "\<not> flt_le b (Fin 0)"
  shows "flt_less (Fin 0) (py_min a b) \<and> flt_le (py_min a b) a \<and> (b = NaN \<or> flt_le (py_min a b) b) \<and>
    flt_le (Fin 0) (fdiv (py_min a b) a) \<and> flt_le (fdiv (py_min a b) a) (Fin 1)"
proof -
  obtain x where x: "a = Fin x" "0 < x" using assms(1,2) by (auto elim!: is_finiteE)
  show ?thesis
  proof (cases "\<exists>y. b = Fin y \<and> y < x")
    case True
    then obtain y where y: "b = Fin y" "y < x" "0 < y" using assms(3) by auto
    have "fl 1 = Fin 1" by (simp add: fl_eval)
    then have "flt_le (fl (y / x)) (Fin 1)" "flt_le (Fin 0) (fl (y / x))" using x y fl_mono [of "y / x" 1] by (auto intro: fl_nonneg)
    then show ?thesis using x y by (simp add: py_min_def)
  next
    case False
    then have "py_min a b = a" using x assms(3) by (cases b) (auto simp: py_min_def)
    moreover have "fdiv a a = Fin 1" using x by simp
    ultimately show ?thesis using x False assms(3) by (cases b) auto
  qed
qed

text \<open>Applying a portfolio allocation never enlarges an order: an approved or reduced allocation
  leaves as notional, effective notional and allocated notional one value, positive, at most
  what was asked for and at most what was allocated, and a non-negative quantity is not
  enlarged either.\<close>

theorem allocation_never_enlarges:
  assumes "project_allocation d = Inr (d', [])" "dget d ''portfolio_allocation'' = VDict alloc"
    "py_upper (str_or (dget alloc ''action'') ''REJECT'') \<in> {''APPROVE'', ''REDUCE_SIZE''}"
    "original_amount d = Inr (Some original)" "is_finite original"
  shows "\<exists>allocated down. allocated_amount alloc = Inr (Some allocated) \<and>
    dget d' ''notional'' = VFloat down \<and> dget d' ''effective_notional'' = VFloat down \<and> dget d' ''allocated_notional'' = VFloat down \<and>
    flt_less (Fin 0) down \<and> flt_le down original \<and> (allocated = NaN \<or> flt_le down allocated) \<and>
    (quantity_of d = VNone \<or> (\<exists>q q'. py_float (quantity_of d) = Inr q \<and> dget d' ''quantity'' = VFloat q' \<and> dget d' ''qty'' = VFloat q' \<and>
       (flt_le (Fin 0) q \<and> is_finite q \<and> is_f64 q \<longrightarrow> flt_le (Fin 0) q' \<and> flt_le q' q)))"
proof -
  obtain allocated original' risk where p: "allocated_amount alloc = Inr (Some allocated)" "original_amount d = Inr (Some original')"
    "scale_quantity (replace_present [''notional_usdt'', ''order_notional''] (VFloat (py_min original' allocated))
       (dupdate d (projected_fields alloc original' allocated risk))) (fdiv (py_min original' allocated) original') = Inr (d', [])"
    by (rule project_allocationE [OF assms(1-3)])
  have same: "original' = original" using p(2) assms(4) by simp
  let ?down = "py_min original allocated" and ?scale = "fdiv (py_min original allocated) original"
  let ?d = "replace_present [''notional_usdt'', ''order_notional''] (VFloat ?down) (dupdate d (projected_fields alloc original allocated risk))"
  note b = scale_le_1 [OF assms(5) original_positive [OF assms(4)] allocated_positive [OF p(1)]]
  note f = scale_quantity_frame [OF p(3) [unfolded same]]
  have m: "dget (dupdate d (projected_fields alloc original allocated risk)) k = VFloat ?down"
    if "k \<in> {''notional'', ''effective_notional'', ''allocated_notional''}" for k
    using that by (auto simp: projected_fields_def Let_def dget_dupdate)
  have n: "dget d' k = VFloat ?down" if "k \<in> {''notional'', ''effective_notional'', ''allocated_notional''}" for k
    using that f(1) [of k] replace_present_frame [of k] m [OF that] by auto
  have q: "quantity_of ?d = quantity_of d"
  proof -
    have "map_of ?d k = map_of d k" if "k \<in> {''quantity'', ''qty''}" for k
    proof (rule trans [OF replace_present_map])
      show "k \<notin> set [''notional_usdt'', ''order_notional'']" using that by auto
      show "map_of (dupdate d (projected_fields alloc original allocated risk)) k = map_of d k"
        by (rule dupdate_frame) (use that in \<open>auto simp: projected_fields_def Let_def\<close>)
    qed
    then show ?thesis by (simp add: quantity_of_def dget_def dget_or_def)
  qed
  have "quantity_of d = VNone \<or> (\<exists>x y. py_float (quantity_of d) = Inr x \<and> dget d' ''quantity'' = VFloat y \<and> dget d' ''qty'' = VFloat y \<and>
       (flt_le (Fin 0) x \<and> is_finite x \<and> is_f64 x \<longrightarrow> flt_le (Fin 0) y \<and> flt_le y x))"
    using f(2) b fmul_shrinks unfolding q by blast
  then show ?thesis using p(1) n b by blast
qed

lemma blank_reason_passes:
  \<comment> \<open>a rejected allocation whose first reason code is blank does not reject: the empty reason reads as no reason\<close>
  assumes "dget d ''portfolio_allocation'' = VDict [(''action'', VStr ''REJECT''), (''reason_codes'', VList [VStr []])]"
  shows "project_allocation d = Inr (d, [])"
  using assms by (simp add: project_allocation_def py_or_def py_upper_id)

lemma nan_allocation_keeps_size:
  \<comment> \<open>an allocation of NaN passes the check \<open>allocated <= 0\<close> and leaves the full size\<close>
  assumes "dget alloc ''allocated_notional'' = VFloat NaN"
  shows "allocated_amount alloc = Inr (Some NaN)" "py_min original NaN = original"
  using assms by (auto simp: allocated_amount_def positive_or_none_def catch_tv_def py_min_def)

subsection \<open>Acceptance of a signal\<close>

lemma failed_gates_named:
  assumes "evaluate_execution_safety ec eff bound t rm = Inr r"
  shows "[] \<notin> set (all_failed_gates r)" "accepted r \<longleftrightarrow> all_failed_gates r = []"
proof -
  have "set (all_failed_gates r) \<subseteq> set gate_priority"
    using assms
  proof (rule evaluate_safetyE)
    fix lims ms vals and effective :: "flt option" and min_rr model
    assume ms: "evaluate_microstructure_authority ec (side_or_none ec) (microstructure_required (safety_policy t))
         (dget ec ''microstructure_reference_ts'')
         (dget_first t [''MICROSTRUCTURE_MAX_AGE_SEC'', ''STALE_MARKET_DATA_SEC''] VNone) = Inr ms"
      and ev: "failed_gate_evidence r = safety_gates (safety_policy t) ms lims (numbers vals)
         (safety_missing_fields ec (numbers vals) rm (safety_policy t) ms) (invalid_numeric_fields ec (numbers vals))
         (safety_fake_zero_fields ec (numbers vals) rm (safety_policy t)) (volatility_penalty model)
         (sr_total_explicit_cost_pct r) effective min_rr"
      and fl: "all_failed_gates r = py_unique (map gate (failed_gate_evidence r))"
    show ?thesis unfolding fl ev set_py_unique by (rule gates_in_priority [OF ms])
  qed
  then show "[] \<notin> set (all_failed_gates r)" by (auto simp: gate_priority_def)
  show "accepted r \<longleftrightarrow> all_failed_gates r = []" by (rule evaluate_safetyE [OF assms])
qed

lemma accepted_effective:
  assumes "evaluate_execution_safety ec (VFloat eff) (VFloat bound) t rm = Inr r" "accepted r"
  shows "is_finite eff \<and> \<not> flt_less eff bound"
  using assms(1)
proof (rule evaluate_safetyE)
  fix model lims ms vals effective min_rr
  assume h: "effective_or_none (VFloat eff) = Inr effective" "py_float (VFloat bound) = Inr min_rr"
    "all_failed_gates r = py_unique (map gate (failed_gate_evidence r))" "accepted r \<longleftrightarrow> all_failed_gates r = []"
    "failed_gate_evidence r = safety_gates (safety_policy t) ms lims (numbers vals)
       (safety_missing_fields ec (numbers vals) rm (safety_policy t) ms) (invalid_numeric_fields ec (numbers vals))
       (safety_fake_zero_fields ec (numbers vals) rm (safety_policy t)) (volatility_penalty model)
       (sr_total_explicit_cost_pct r) effective min_rr"
  note n = no_safety_gates(6,7) [OF accepted_no_gates [OF assms(2) h(4,3), unfolded h(5)]]
  then obtain e where "effective = Some e" by blast
  then show ?thesis using n h(1,2) effective_or_none_Some [of "VFloat eff" e] by (auto simp: ExecutionCost.below_def)
qed

lemma signal_reason_Nil:
  assumes "evaluate_execution_safety ec eff bound t rm = Inr safety"
  shows "signal_reason q safety = [] \<longleftrightarrow> tq_accepted q \<and> accepted safety"
  using failed_gates_named [OF assms]
  by (cases "all_failed_gates safety") (auto simp: signal_reason_def reason_or_unknown_def flags_reason_def)

lemma decision_result_fields:
  assumes "decision_result symb side decision figures reason regime ec m diag safety c = Inr d"
  shows "dr_decision d = decision" "dr_reject_reason d = reason" "dr_effective_rr d = snd (snd figures)" "dr_candidate d = c"
    "dr_lifecycle_events d = (if decision = ''ACCEPT'' then [''SIGNAL_CREATED'', ''WAITING_ENTRY_ZONE'', ''ENTRY_TRIGGERED'', ''ORDER_PLACED'']
         else [''SIGNAL_CREATED'', ''SIGNAL_REJECTED''])"
  using assms by (auto simp: decision_result_def bindE_Inr_iff)

lemma unbuilt_decision_rejects: "unbuilt_decision symb m reason = Inr d \<Longrightarrow> dr_decision d = ''REJECT'' \<and> dr_reject_reason d = reason"
  by (auto simp: unbuilt_decision_def bindE_Inr_iff dest: decision_result_fields)

definition signal_gates :: "(string \<Rightarrow> pyval) \<Rightarrow> SignalRequest \<Rightarrow> pydict \<Rightarrow> OrderCandidate \<Rightarrow>
    OrderCandidate \<Rightarrow> TradeQualityDecision \<Rightarrow> SafetyResult \<Rightarrow> flt \<Rightarrow> flt \<Rightarrow> bool" where
  \<comment> \<open>the evaluation of a built candidate: expectancy, execution context, risk/reward, the two gates\<close>
  "signal_gates val g m0 c0 c q safety eff bound \<longleftrightarrow>
     (let config = dset ''MODE'' (VStr (mode_value (sg_mode g))) (sg_strategy g) in
      \<exists>m ec st. stored_expectancy (sg_expectancy g) c0 m0 = Inr (c, m) \<and> execution_context_of m = Inr ec \<and>
        canonical_rr_stage c m ec (sg_mode g) = Inr st \<and>
        evaluate_trade_quality val c (dupdate m st) (sg_recent_stats g) config = Inr q \<and>
        config_float st ''effective_rr'' = Inr eff \<and> min_effective_rr_of val config = Inr bound \<and>
        evaluate_execution_safety ec (VFloat eff) (VFloat bound) config (sg_mode g = LIVE) = Inr safety)"

lemma built_decision_fields:
  assumes "built_decision val g symb m0 c0 = Inr d"
  obtains c q safety eff bound where "signal_gates val g m0 c0 c q safety eff bound"
    "dr_decision d = (if tq_accepted q \<and> accepted safety then ''ACCEPT'' else ''REJECT'')"
    "dr_reject_reason d = signal_reason q safety" "dr_effective_rr d = eff" "dr_candidate d = Some c"
proof -
  let ?config = "dset ''MODE'' (VStr (mode_value (sg_mode g))) (sg_strategy g)"
  obtain c m ec st q eff bound safety figures diag regime where h:
      "stored_expectancy (sg_expectancy g) c0 m0 = Inr (c, m)" "execution_context_of m = Inr ec"
      "canonical_rr_stage c m ec (sg_mode g) = Inr st"
      "evaluate_trade_quality val c (dupdate m st) (sg_recent_stats g) ?config = Inr q"
      "config_float st ''effective_rr'' = Inr eff" "min_effective_rr_of val ?config = Inr bound"
      "evaluate_execution_safety ec (VFloat eff) (VFloat bound) ?config (sg_mode g = LIVE) = Inr safety"
      "decision_result symb (oc_side c) (if signal_reason q safety = [] then ''ACCEPT'' else ''REJECT'') figures (signal_reason q safety)
         regime ec m diag (Some safety) (Some c) = Inr d" "snd (snd figures) = eff"
    using assms unfolding built_decision_def Let_def bindE_Inr_iff by (fastforce simp: bindE_Inr_iff)
  note f = decision_result_fields [OF h(8)]
  show ?thesis
  proof (rule that)
    show "signal_gates val g m0 c0 c q safety eff bound" unfolding signal_gates_def Let_def using h by blast
    show "dr_decision d = (if tq_accepted q \<and> accepted safety then ''ACCEPT'' else ''REJECT'')"
      using f(1) signal_reason_Nil [OF h(7)] by simp
  qed (use f h(9) in simp_all)
qed

lemma signal_gates_unique:
  assumes "signal_gates val g m0 c0 c q safety eff bound" "signal_gates val g m0 c0 c' q' safety' eff' bound'"
  shows "c' = c \<and> q' = q \<and> safety' = safety \<and> eff' = eff \<and> bound' = bound"
  using assms by (auto simp: signal_gates_def Let_def)

text \<open>C25: a signal is accepted exactly when nothing stands against it: the portfolio allocation does not
  reject it, its levels make a candidate, the quality gate accepts the candidate and no gate of
  the execution-safety check fails (measured evidence required in LIVE only); its reason is
  then empty, otherwise not, and its effective risk/reward is then a finite number not below
  the minimum.\<close>

theorem signal_acceptance:
  assumes "evaluate_signal_decision val g = Inr d"
  shows "(dr_decision d = ''ACCEPT'' \<longleftrightarrow>
      (\<exists>m c0 c q safety eff bound. project_allocation (sg_snapshot g) = Inr (m, []) \<and>
        build_order_candidate (signal_symbol g (with_execution m (sg_execution g))) (with_execution m (sg_execution g)) = Inr (Inr c0) \<and>
        signal_gates val g (with_execution m (sg_execution g)) c0 c q safety eff bound \<and>
        tq_accepted q \<and> accepted safety \<and> dr_candidate d = Some c \<and> dr_effective_rr d = eff \<and> is_finite eff \<and> \<not> flt_less eff bound)) \<and>
    (dr_decision d = ''ACCEPT'' \<longleftrightarrow> dr_reject_reason d = [])"
proof -
  obtain m reject where p: "project_allocation (sg_snapshot g) = Inr (m, reject)"
    using assms by (auto simp: evaluate_signal_decision_def bindE_Inr_iff)
  let ?m = "with_execution m (sg_execution g)"
  let ?symb = "signal_symbol g ?m"
  have e: "(if reject \<noteq> [] then unbuilt_decision ?symb ?m reject
     else bindE (build_order_candidate ?symb ?m) (\<lambda>d. case d of Inl reason \<Rightarrow> unbuilt_decision ?symb ?m reason
       | Inr c \<Rightarrow> built_decision val g ?symb ?m c)) = Inr d"
    using assms p by (simp add: evaluate_signal_decision_def Let_def)
  show ?thesis
  proof (cases "reject = []")
    case False
    then have "dr_decision d = ''REJECT''" "dr_reject_reason d = reject" using e unbuilt_decision_rejects by auto
    then show ?thesis using p False by auto
  next
    case True
    then obtain b where b: "build_order_candidate ?symb ?m = Inr b" using e by (auto simp: bindE_Inr_iff)
    show ?thesis
    proof (cases b)
      case (Inl reason)
      then have "dr_decision d = ''REJECT''" "dr_reject_reason d = reason" "reason \<noteq> []"
        using e True b unbuilt_decision_rejects by (auto simp: build_order_candidate_def bindE_Inr_iff split: if_splits)
      then show ?thesis using p b Inl True by auto
    next
      case (Inr c0)
      then have "built_decision val g ?symb ?m c0 = Inr d" using e True b by simp
      then obtain c q safety eff bound where f: "signal_gates val g ?m c0 c q safety eff bound"
          "dr_decision d = (if tq_accepted q \<and> accepted safety then ''ACCEPT'' else ''REJECT'')"
          "dr_reject_reason d = signal_reason q safety" "dr_effective_rr d = eff" "dr_candidate d = Some c"
        by (rule built_decision_fields)
      obtain ec config rm where s: "evaluate_execution_safety ec (VFloat eff) (VFloat bound) config rm = Inr safety"
        using f(1) by (auto simp: signal_gates_def Let_def)
      have r: "dr_decision d = ''ACCEPT'' \<longleftrightarrow> tq_accepted q \<and> accepted safety" using f(2) by simp
      have "dr_reject_reason d = [] \<longleftrightarrow> tq_accepted q \<and> accepted safety" using f(3) signal_reason_Nil [OF s] by simp
      moreover have "tq_accepted q \<and> accepted safety \<longleftrightarrow>
          (\<exists>m' c0' c' q' safety' eff' bound'. project_allocation (sg_snapshot g) = Inr (m', []) \<and>
            build_order_candidate (signal_symbol g (with_execution m' (sg_execution g))) (with_execution m' (sg_execution g)) = Inr (Inr c0') \<and>
            signal_gates val g (with_execution m' (sg_execution g)) c0' c' q' safety' eff' bound' \<and>
            tq_accepted q' \<and> accepted safety' \<and> dr_candidate d = Some c' \<and> dr_effective_rr d = eff' \<and> is_finite eff' \<and>
            \<not> flt_less eff' bound')" (is "_ \<longleftrightarrow> ?all")
      proof
        assume a: "tq_accepted q \<and> accepted safety"
        then show ?all using p True b Inr f accepted_effective [OF s] by blast
      next
        assume ?all
        then show "tq_accepted q \<and> accepted safety" using p b Inr f(1) signal_gates_unique by fastforce
      qed
      ultimately show ?thesis using r by blast
    qed
  qed
qed

text \<open>The record of a LIVE order depends on Telegram: when the exchange has taken the order and the
  message then fails, the cycle ends with the exception and the audit trail has no record of it.\<close>

lemma telegram_failure_leaves_order_unaudited:
  assumes "ox_mode s = LIVE" "gates_open sv s" "sv_place_order sv = Some place" "place c = Inr r" "sv_balance sv = None"
    "sv_telegram sv = Some send" "\<And>t. send t = Inl e" "ox_allow_telegram s"
  shows "\<exists>s'. execute_order_candidate sv c s = (Inl e, s') \<and> CallPlaceOrder c \<in> set (ox_calls s') \<and> ox_audit s' = ox_audit s"
proof -
  obtain provider v a where g: "sv_authorization sv = Some provider" "provider (ox_calls s) = Inr v" "as_dict_or_empty v = Inr a"
      "sv_configured sv (ox_calls s @ [CallAuthorization]) = Inr True" "filter (\<lambda>g. \<not> snd g) (live_gates a True True) = []"
      "ox_allow_live_orders s"
    using assms(2) unfolding gates_open_def gates_pass by blast
  define s1 where "s1 = s\<lparr>ox_live_authorization := Some a, ox_calls := ox_calls s @ [CallAuthorization, CallConfig]\<rparr>"
  have v: "prepare_execution sv s = (Inr (), s1)"
    using g assms(1) by (simp add: prepare_execution_def validate_live_order_authorization_def bindA_def callA_def liftA_def modifyA_def s1_def)
  define s2 where "s2 = s1\<lparr>ox_calls := ox_calls s1 @ [CallPlaceOrder c]\<rparr>"
  have o: "order_of_mode sv c s1 = (Inr (LiveExecution (dset ''type'' (VStr ''live'') r)), s2)"
    using assms by (simp add: order_of_mode_def place_live_order_def bindA_def callA_def liftA_def s1_def s2_def)
  have n: "notify_order sv c s2 = (Inl e, s2\<lparr>ox_calls := ox_calls s2 @ [CallTelegram (telegram_text s2 c)]\<rparr>)"
    using assms by (simp add: notify_order_def bindA_def callA_def s1_def s2_def)
  show ?thesis
    by (rule exI [of _ "s2\<lparr>ox_calls := ox_calls s2 @ [CallTelegram (telegram_text s2 c)]\<rparr>"])
      (simp add: execute_order_candidate_def bindA_def v o n, simp add: s2_def s1_def)
qed

subsection \<open>Runs that execute\<close>

definition demo_services :: OrderServices where
  "demo_services = \<lparr>sv_authorization = Some (\<lambda>_. Inr (VDict (map (\<lambda>k. (k, VBool True))
       [''live_trading_enabled'', ''operator_acknowledged'', ''qualification_passed'', ''reconciliation_passed'',
        ''derivatives_contract_passed'', ''execution_owner_valid''] @ [(''kill_switch_active'', VBool False)]))),
     sv_configured = (\<lambda>_. Inr True), sv_balance = None, sv_place_order = Some (\<lambda>_. Inr []), sv_telegram = None, sv_expectancy = None\<rparr>"

definition demo_cycle :: "TradingMode \<Rightarrow> bool \<Rightarrow> OrderExecutionContext" where
  "demo_cycle mode allow = \<lparr>ox_mode = mode, ox_timestamp = 0, ox_symbol = ''BTCUSDT'', ox_balance = Fin 1024, ox_risk_pct = Fin (1 / 64),
     ox_allow_telegram = False, ox_allow_live_orders = allow, ox_market_ctx = demo_market, ox_diagnostics = [],
     ox_portfolio = \<lparr>ps_open_positions = [], ps_cooldown_until = [], ps_daily_realized_pnl = None, ps_trades_today_symbol = None,
       ps_trades_today_global = None, ps_consecutive_loss_count = None, ps_rolling_drawdown_pct = None\<rparr>,
     ox_audit = [], ox_live_authorization = None, ox_calls = []\<rparr>"

lemma demo_opening:
  "project_allocation demo_market = Inr (demo_market, [])" "build_order_candidate ''BTCUSDT'' demo_market = Inr (Inr demo_candidate)"
  by (simp_all add: project_allocation_def demo_market_def build_order_candidate_def demo_candidate_def float_or0_def py_or_def)

lemma demo_live:
  "\<exists>res s'. run_order_cycle (\<lambda>_. VInt 0) demo_services demo_supplied [] (demo_cycle LIVE True) = (Inr res, s') \<and>
     ox_calls s' = [CallAuthorization, CallConfig, CallPlaceOrder demo_candidate]"
proof -
  obtain q where q: "evaluate_trade_quality (\<lambda>_. VInt 0) demo_candidate demo_market [] demo_supplied = Inr q" "tq_accepted q"
    using demo_quality by blast
  have e: "oc_expectancy demo_candidate = None" by (simp add: demo_candidate_def)
  show ?thesis
    by (simp add: run_order_cycle_def cycle_candidate_def bindA_def liftA_def modifyA_def callA_def demo_cycle_def demo_opening
      infer_expectancy_def e q demo_services_def execute_accepted_def execute_order_candidate_def prepare_execution_def
      validate_live_order_authorization_def as_dict_or_empty_def live_gates_def flag_on_def order_of_mode_def place_live_order_def
      notify_order_def audit_def)
qed

theorem exchange_orders_are_authorized_witness:
  "\<exists>r s'. run_order_cycle (\<lambda>_. VInt 0) demo_services demo_supplied [] (demo_cycle LIVE True) = (r, s') \<and>
     CallPlaceOrder demo_candidate \<in> set (ox_calls s') \<and>
     (\<exists>pre bal tail. ox_calls s' = pre @ [CallAuthorization, CallConfig] @ bal @ CallPlaceOrder demo_candidate # tail)"
proof -
  obtain res s' where r: "run_order_cycle (\<lambda>_. VInt 0) demo_services demo_supplied [] (demo_cycle LIVE True) = (Inr res, s')"
      "ox_calls s' = [CallAuthorization, CallConfig, CallPlaceOrder demo_candidate]" using demo_live by blast
  from exchange_orders_are_authorized [OF disjI1 [OF r(1)]]
  show ?thesis using r by (auto simp: demo_cycle_def)
qed

theorem cycle_audits_its_result_witness:
  "\<exists>res s'. run_order_cycle (\<lambda>_. VInt 0) demo_services demo_supplied [] (demo_cycle LIVE True) = (Inr res, s') \<and> length (ox_audit s') = 1"
proof -
  obtain res s' where r: "run_order_cycle (\<lambda>_. VInt 0) demo_services demo_supplied [] (demo_cycle LIVE True) = (Inr res, s')"
    using demo_live by blast
  from cycle_audits_its_result [OF disjI1 [OF this]] show ?thesis using r by (auto simp: demo_cycle_def)
qed













theorem allocation_never_enlarges_witness:
  "\<exists>d'. project_allocation [(''notional'', VInt 100), (''qty'', VInt 4),
       (''portfolio_allocation'', VDict [(''action'', VStr ''REDUCE_SIZE''), (''allocated_notional'', VInt 25)])] = Inr (d', []) \<and>
     dget d' ''notional'' = VFloat (Fin 25)"
proof -
  let ?d = "[(''notional'', VInt 100), (''qty'', VInt 4),
       (''portfolio_allocation'', VDict [(''action'', VStr ''REDUCE_SIZE''), (''allocated_notional'', VInt 25)])]"
  have u: "py_upper ''REDUCE_SIZE'' = ''REDUCE_SIZE''" by code_simp
  have a: "original_amount ?d = Inr (Some (Fin 100))"
    by (simp add: original_amount_def int_to_float_small positive_or_none_def)
  have "\<exists>d'. project_allocation ?d = Inr (d', []) \<and> dget d' ''notional'' = VFloat (Fin 25)"
    by (simp add: project_allocation_def u py_or_def allocated_amount_def int_to_float_small a positive_or_none_def py_min_def
      scaled_risk_def scale_quantity_def quantity_of_def replace_present_def dupdate_def Let_def)
  then obtain d' where d: "project_allocation ?d = Inr (d', [])" "dget d' ''notional'' = VFloat (Fin 25)" by blast
  from allocation_never_enlarges [OF d(1) _ _ a] show ?thesis using d by (simp add: u)
qed

definition demo_signal :: SignalRequest where
  "demo_signal = \<lparr>sg_snapshot = [(''entry'', VInt 0)], sg_strategy = demo_supplied, sg_risk_symbol = VStr ''BTCUSDT'', sg_recent_stats = [],
     sg_expectancy = None, sg_execution = Some [], sg_mode = PAPER\<rparr>"

theorem signal_acceptance_witness:
  "\<exists>d. evaluate_signal_decision (\<lambda>_. VInt 0) demo_signal = Inr d \<and> dr_decision d \<noteq> ''ACCEPT'' \<and> dr_reject_reason d = ''INVALID_LEVELS''"
proof -
  have "\<exists>d. evaluate_signal_decision (\<lambda>_. VInt 0) demo_signal = Inr d \<and> dr_reject_reason d = ''INVALID_LEVELS''"
    by (simp add: evaluate_signal_decision_def demo_signal_def project_allocation_def with_execution_def dupdate_def signal_symbol_def
      demo_supplied_def py_or_def build_order_candidate_def float_or0_def unbuilt_decision_def execution_context_of_def decision_result_def
      either_field_def nullable_float_def unavailable_value_def in_strs_def)
  then obtain d where d: "evaluate_signal_decision (\<lambda>_. VInt 0) demo_signal = Inr d" "dr_reject_reason d = ''INVALID_LEVELS''" by blast
  from signal_acceptance [OF d(1)] show ?thesis using d by auto
qed
end
