(* ===== verification/ExecutionOwnership.thy ===== *)
theory ExecutionOwnership
  imports PyVal
begin

section \<open>Execution-account leases (\<^verbatim>\<open>execution_ownership.py\<close>)\<close>

text \<open>
  One row per execution account says which runtime (instance and startup id) may submit
  orders, until when, and under which fencing token. The table
  \<^verbatim>\<open>execution_account_leases\<close> is a map from the account scope to its row, each SQL
  statement an operation on the map; the body of a write runs in one serialised SQLite
  transaction (\<^verbatim>\<open>sqlite_safety.py\<close>), so an operation is one atomic step. Times are floats;
  a NaN is bound as SQL NULL, which the NOT NULL columns refuse. The token is a Python int.

  The interface the submit path relies on, a holder that can only be replaced under a
  larger token, is the locale \<open>fenced_resource\<close>; it is interpreted on the lease table.
\<close>

subsection \<open>Rows and results\<close>

record lease =
  l_mode :: string
  l_instance :: string
  l_startup :: string
  l_token :: int
  l_expires :: flt
  l_updated :: flt

type_synonym leases = "string \<rightharpoonup> lease"

record ExecutionOwnership =
  account_scope :: string
  eo_mode :: string
  owner_instance_id :: string
  owner_startup_id :: string
  fencing_token :: "int option"
  lease_expires_at :: "flt option"
  acquired :: bool
  reason :: string

definition validate_inputs :: "string \<Rightarrow> string \<Rightarrow> string \<Rightarrow> flt \<Rightarrow> (string \<times> flt) py" where
  "validate_inputs scope0 inst startup ttl =
    (let scope = py_strip scope0 in
     if scope = [] then Inl (ValueError ''execution account scope is required'')
     else if py_strip inst = [] then Inl (ValueError ''owner_instance_id is required'')
     else if py_strip startup = [] then Inl (ValueError ''owner_startup_id is required'')
     else if \<not> is_finite ttl \<or> flt_le ttl (Fin 0)
       then Inl (ValueError ''lease_ttl_sec must be finite and > 0'')
     else Inr (scope, ttl))"

subsection \<open>The SQL statements\<close>

definition sql_insert_lease :: "leases \<Rightarrow> string \<Rightarrow> lease \<Rightarrow> leases \<times> int" where
  \<comment> \<open>\<^verbatim>\<open>INSERT ... ON CONFLICT(account_scope) DO NOTHING\<close>, with the row count\<close>
  "sql_insert_lease t scope r =
    (case t scope of None \<Rightarrow> (t(scope \<mapsto> r), 1) | Some _ \<Rightarrow> (t, 0))"

definition same_owner :: "lease \<Rightarrow> string \<Rightarrow> string \<Rightarrow> bool" where
  "same_owner r inst startup \<longleftrightarrow> l_instance r = inst \<and> l_startup r = startup"

definition sql_renew_lease :: "leases \<Rightarrow> string \<Rightarrow> string \<Rightarrow> string \<Rightarrow> string \<Rightarrow> flt \<Rightarrow> flt \<Rightarrow> leases" where
  \<comment> \<open>the \<^verbatim>\<open>UPDATE\<close>: renewal by the owner, or takeover of an expired row\<close>
  "sql_renew_lease t scope mode inst startup expires now =
    (case t scope of
       None \<Rightarrow> t
     | Some r \<Rightarrow>
         if same_owner r inst startup \<or> flt_le (l_expires r) now
         then t(scope \<mapsto> r\<lparr>l_mode := mode, l_instance := inst, l_startup := startup,
                l_token := (if same_owner r inst startup then l_token r else l_token r + 1),
                l_expires := expires, l_updated := now\<rparr>)
         else t)"

subsection \<open>Operations\<close>

definition acquire_execution_ownership ::
  "leases \<Rightarrow> string \<Rightarrow> string \<Rightarrow> string \<Rightarrow> string \<Rightarrow> flt \<Rightarrow> flt \<Rightarrow> (leases \<times> ExecutionOwnership) py" where
  "acquire_execution_ownership t account mode inst startup lease_ttl_sec ts =
    bindE (validate_inputs account inst startup lease_ttl_sec) (\<lambda>(scope, ttl).
      let expires = fadd ts ttl in
      if ts = NaN \<or> expires = NaN then Inl IntegrityError
      else
        let (t1, rowcount) = sql_insert_lease t scope
              \<lparr>l_mode = py_upper mode, l_instance = inst, l_startup = startup, l_token = 1,
               l_expires = expires, l_updated = ts\<rparr>;
            t2 = (if rowcount \<noteq> 1 then sql_renew_lease t1 scope (py_upper mode) inst startup expires ts
                  else t1)
        in case t2 scope of
             None \<Rightarrow> Inl (RuntimeError ''NoResultFound'')
           | Some row \<Rightarrow>
               let acq = (l_instance row = inst \<and> l_startup row = startup \<and> flt_less ts (l_expires row))
               in Inr (t2, \<lparr>account_scope = scope, eo_mode = l_mode row,
                     owner_instance_id = l_instance row, owner_startup_id = l_startup row,
                     fencing_token = Some (l_token row), lease_expires_at = Some (l_expires row),
                     acquired = acq,
                     reason = (if acq then [] else ''EXECUTION_ACCOUNT_OWNED_BY_ANOTHER_RUNTIME'')\<rparr>))"

definition validate_execution_ownership ::
  "leases \<Rightarrow> string \<Rightarrow> string \<Rightarrow> string \<Rightarrow> int option \<Rightarrow> flt \<Rightarrow> flt \<Rightarrow> ExecutionOwnership py" where
  "validate_execution_ownership t account inst startup token min_validity ts =
    (let scope = py_strip account in
     if \<not> is_finite min_validity \<or> flt_less min_validity (Fin 0)
     then Inl (ValueError ''min_validity_sec must be finite and >= 0'')
     else case t scope of
       None \<Rightarrow> Inr \<lparr>account_scope = scope, eo_mode = [], owner_instance_id = [], owner_startup_id = [],
                fencing_token = None, lease_expires_at = None, acquired = False,
                reason = ''EXECUTION_OWNERSHIP_MISSING''\<rparr>
     | Some row \<Rightarrow>
         let why = (if l_instance row \<noteq> inst then ''EXECUTION_OWNER_INSTANCE_MISMATCH''
                    else if l_startup row \<noteq> startup then ''EXECUTION_OWNER_STARTUP_MISMATCH''
                    else if token = None \<or> token \<noteq> Some (l_token row) then ''EXECUTION_FENCING_TOKEN_MISMATCH''
                    else if flt_le (l_expires row) (fadd ts min_validity)
                      then ''EXECUTION_OWNERSHIP_LEASE_TOO_CLOSE_TO_EXPIRY''
                    else [])
         in Inr \<lparr>account_scope = scope, eo_mode = l_mode row,
              owner_instance_id = l_instance row, owner_startup_id = l_startup row,
              fencing_token = Some (l_token row), lease_expires_at = Some (l_expires row),
              acquired = (why = []), reason = why\<rparr>)"

definition release_execution_ownership ::
  "leases \<Rightarrow> string \<Rightarrow> string \<Rightarrow> string \<Rightarrow> int option \<Rightarrow> flt \<Rightarrow> (leases \<times> bool) py" where
  "release_execution_ownership t account inst startup token ts =
    (case token of
       None \<Rightarrow> Inr (t, False)
     | Some k \<Rightarrow>
         let scope = py_strip account in
         (case t scope of
            None \<Rightarrow> Inr (t, False)
          | Some r \<Rightarrow>
              if l_instance r = inst \<and> l_startup r = startup \<and> l_token r = k
              then if ts = NaN then Inl IntegrityError
                   else Inr (t(scope \<mapsto> r\<lparr>l_expires := ts, l_updated := ts\<rparr>), True)
              else Inr (t, False)))"

subsection \<open>Runs of operations\<close>

datatype lease_op =
    Acquire string string string string flt flt
  | Release string string string "int option" flt

fun lease_step :: "leases \<Rightarrow> lease_op \<Rightarrow> leases" where
  \<comment> \<open>an exception leaves the table as it was: the transaction rolls back\<close>
  "lease_step t (Acquire a m i s ttl now) =
     (case acquire_execution_ownership t a m i s ttl now of Inl _ \<Rightarrow> t | Inr (t', _) \<Rightarrow> t')"
| "lease_step t (Release a i s k now) =
     (case release_execution_ownership t a i s k now of Inl _ \<Rightarrow> t | Inr (t', _) \<Rightarrow> t')"

definition holder_of :: "string \<Rightarrow> leases \<Rightarrow> ((string \<times> string) \<times> int) option" where
  "holder_of scope t = map_option (\<lambda>r. ((l_instance r, l_startup r), l_token r)) (t scope)"

subsection \<open>The interface: a resource held under a fencing token\<close>

locale fenced_resource =
  fixes step :: "'s \<Rightarrow> 'op \<Rightarrow> 's"
    and holder :: "'s \<Rightarrow> ('owner \<times> int) option"
  assumes step_holder: "holder s = Some (h, k) \<Longrightarrow>
    \<exists>h' k'. holder (step s x) = Some (h', k') \<and> k \<le> k' \<and> (k' = k \<longrightarrow> h' = h)"
begin

lemma run_holder: "holder s = Some (h, k) \<Longrightarrow>
    \<exists>h' k'. holder (foldl step s xs) = Some (h', k') \<and> k \<le> k' \<and> (k' = k \<longrightarrow> h' = h)"
proof (induction xs arbitrary: s h k)
  case Nil
  then show ?case by simp
next
  case (Cons x xs)
  from step_holder [OF Cons.prems] obtain h1 k1 where
    1: "holder (step s x) = Some (h1, k1)" "k \<le> k1" "k1 = k \<longrightarrow> h1 = h" by blast
  from Cons.IH [OF 1(1)] obtain h2 k2 where
    2: "holder (foldl step (step s x) xs) = Some (h2, k2)" "k1 \<le> k2" "k2 = k1 \<longrightarrow> h2 = h1" by blast
  have "k2 = k \<longrightarrow> h2 = h" using 1 2 by auto
  with 1 2 show ?case by auto
qed

lemma run_same_token: "holder s = Some (h, k) \<Longrightarrow> holder (foldl step s xs) = Some (h', k) \<Longrightarrow> h' = h"
  using run_holder [of s h k xs] by auto

lemma lost_for_ever:
  assumes "holder s = Some (h, k)" "holder (foldl step s xs) = Some (h', k')" "h' \<noteq> h"
  shows "k < k'" "holder (foldl step s (xs @ ys)) \<noteq> Some (g, k)"
proof -
  show lt: "k < k'" using run_holder [OF assms(1), of xs] assms(2,3) by fastforce
  from run_holder [OF assms(2), of ys] lt show "holder (foldl step s (xs @ ys)) \<noteq> Some (g, k)" by auto
qed

end

subsection \<open>The lease table is a fenced resource\<close>

lemma validate_inputs_Inr:
  "validate_inputs a i s ttl = Inr p \<longleftrightarrow>
    p = (py_strip a, ttl) \<and> py_strip a \<noteq> [] \<and> py_strip i \<noteq> [] \<and> py_strip s \<noteq> [] \<and>
    (\<exists>r. ttl = Fin r \<and> 0 < r)"
  by (cases ttl) (auto simp: validate_inputs_def Let_def)

lemma acquire_Inr:
  assumes "acquire_execution_ownership t a m i s ttl now = Inr (t', res)"
  shows "\<exists>row. t' (py_strip a) = Some row \<and>
     (\<forall>sc. sc \<noteq> py_strip a \<longrightarrow> t' sc = t sc) \<and>
     fencing_token res = Some (l_token row) \<and> lease_expires_at res = Some (l_expires row) \<and>
     account_scope res = py_strip a \<and>
     acquired res = (same_owner row i s \<and> flt_less now (l_expires row)) \<and>
     (case t (py_strip a) of
        None \<Rightarrow> same_owner row i s \<and> l_token row = 1 \<and> l_expires row = fadd now ttl
      | Some r0 \<Rightarrow>
          if same_owner r0 i s then same_owner row i s \<and> l_token row = l_token r0 \<and> l_expires row = fadd now ttl
          else if flt_le (l_expires r0) now
            then same_owner row i s \<and> l_token row = l_token r0 + 1 \<and> l_expires row = fadd now ttl
          else row = r0)"
proof -
  from assms obtain q where q: "validate_inputs a i s ttl = Inr q"
    by (auto simp: acquire_execution_ownership_def bindE_Inr_iff)
  then have "q = (py_strip a, ttl)" by (simp add: validate_inputs_Inr)
  with q assms show ?thesis
    by (cases "t (py_strip a)")
      (auto simp: acquire_execution_ownership_def sql_insert_lease_def sql_renew_lease_def same_owner_def Let_def
        split: if_splits option.splits prod.splits)
qed

lemma release_Inr:
  assumes "release_execution_ownership t a i s token now = Inr (t', b)"
  shows "(b \<longrightarrow> (\<exists>r. t (py_strip a) = Some r \<and> same_owner r i s \<and> token = Some (l_token r) \<and>
            t' = t(py_strip a \<mapsto> r\<lparr>l_expires := now, l_updated := now\<rparr>) \<and> now \<noteq> NaN)) \<and>
         (\<not> b \<longrightarrow> t' = t)"
  using assms by (auto simp: release_execution_ownership_def same_owner_def Let_def split: option.splits if_splits)

lemma lease_step_holder:
  assumes "holder_of scope t = Some (h, k)"
  shows "\<exists>h' k'. holder_of scope (lease_step t x) = Some (h', k') \<and> k \<le> k' \<and> (k' = k \<longrightarrow> h' = h)"
proof (cases x)
  case (Acquire a m i s ttl now)
  show ?thesis
  proof (cases "acquire_execution_ownership t a m i s ttl now")
    case (Inr p)
    obtain t' res where p: "p = (t', res)" by (cases p)
    have "holder_of scope t' = holder_of scope t" if "scope \<noteq> py_strip a"
      using acquire_Inr [OF Inr [unfolded p]] that by (auto simp: holder_of_def)
    then show ?thesis using acquire_Inr [OF Inr [unfolded p]] assms Acquire Inr p
      by (cases "scope = py_strip a")
        (auto simp: holder_of_def same_owner_def split: option.splits if_splits)
  qed (use assms Acquire in auto)
next
  case (Release a i s token now)
  show ?thesis
  proof (cases "release_execution_ownership t a i s token now")
    case (Inr p)
    obtain t' b where p: "p = (t', b)" by (cases p)
    show ?thesis using release_Inr [OF Inr [unfolded p]] assms Release Inr p
      by (cases b; cases "scope = py_strip a") (auto simp: holder_of_def)
  qed (use assms Release in auto)
qed

interpretation lease: fenced_resource lease_step "holder_of scope" for scope
  by unfold_locales (rule lease_step_holder)


subsection \<open>What validation says about the row\<close>

lemma validate_acquired:
  assumes "validate_execution_ownership t a i s token mv now = Inr r" "acquired r"
  shows "\<exists>row k. t (py_strip a) = Some row \<and> same_owner row i s \<and> token = Some k \<and> k = l_token row
    \<and> holder_of (py_strip a) t = Some ((i, s), k) \<and> \<not> flt_le (l_expires row) (fadd now mv)"
  using assms
  by (auto simp: validate_execution_ownership_def same_owner_def holder_of_def Let_def
      split: if_splits option.splits)

lemma validate_of_row:
  assumes "t (py_strip a) = Some row" "same_owner row i s" "is_finite mv" "flt_le (Fin 0) mv"
  shows "\<exists>r. validate_execution_ownership t a i s (Some (l_token row)) mv now = Inr r \<and>
    acquired r = (\<not> flt_le (l_expires row) (fadd now mv))"
  using assms
  by (cases mv) (auto simp: validate_execution_ownership_def same_owner_def Let_def)

subsection \<open>Properties\<close>

text \<open>C19: fencing. Once the lease of an account has passed to another owner, whatever
  acquisitions and releases follow, the old owner's instance, startup id and token are
  never validated again, at any time and with any required validity.\<close>

theorem stale_owner_is_fenced:
  assumes "holder_of (py_strip a) t = Some ((i, s), k)"
    and "holder_of (py_strip a) (foldl lease_step t xs) = Some (h, k')" and "h \<noteq> (i, s)"
    and "validate_execution_ownership (foldl lease_step t (xs @ ys)) a i s (Some k) mv now = Inr r"
  shows "\<not> acquired r"
proof
  assume "acquired r"
  then have "holder_of (py_strip a) (foldl lease_step t (xs @ ys)) = Some ((i, s), k)"
    using validate_acquired [OF assms(4)] by auto
  then show False using lease.lost_for_ever(2) [OF assms(1-3)] by blast
qed

definition demo_row :: "string \<Rightarrow> string \<Rightarrow> int \<Rightarrow> rat \<Rightarrow> rat \<Rightarrow> lease" where
  "demo_row i s k e u = \<lparr>l_mode = ''PAPER'', l_instance = i, l_startup = s, l_token = k,
     l_expires = Fin e, l_updated = Fin u\<rparr>"

lemmas lease_eval = acquire_execution_ownership_def release_execution_ownership_def
  validate_execution_ownership_def validate_inputs_def sql_insert_lease_def sql_renew_lease_def
  same_owner_def holder_of_def str_eval fl_numeral Let_def demo_row_def

theorem stale_owner_is_fenced_witness:
  "\<exists>r. validate_execution_ownership
     (foldl lease_step [''acct'' \<mapsto> demo_row ''i1'' ''s1'' 1 130 100]
       ([Acquire ''acct'' ''paper'' ''i2'' ''s2'' (Fin 30) (Fin 130)] @
        [Release ''acct'' ''i2'' ''s2'' (Some 2) (Fin 131),
         Acquire ''acct'' ''paper'' ''i1'' ''s1'' (Fin 30) (Fin 132)]))
     ''acct'' ''i1'' ''s1'' (Some 1) (Fin 5) (Fin 133) = Inr r \<and> \<not> acquired r"
proof -
  let ?t = "[''acct'' \<mapsto> demo_row ''i1'' ''s1'' 1 130 100]"
  let ?xs = "[Acquire ''acct'' ''paper'' ''i2'' ''s2'' (Fin 30) (Fin 130)]"
  let ?ys = "[Release ''acct'' ''i2'' ''s2'' (Some 2) (Fin 131),
              Acquire ''acct'' ''paper'' ''i1'' ''s1'' (Fin 30) (Fin 132)]"
  have 1: "lease_step ?t (?xs ! 0) = [''acct'' \<mapsto> demo_row ''i2'' ''s2'' 2 160 130]"
    by (simp add: lease_eval)
  have 2: "lease_step [''acct'' \<mapsto> demo_row ''i2'' ''s2'' 2 160 130] (?ys ! 0)
      = [''acct'' \<mapsto> demo_row ''i2'' ''s2'' 2 131 131]"
    by (simp add: lease_eval)
  have 3: "lease_step [''acct'' \<mapsto> demo_row ''i2'' ''s2'' 2 131 131] (?ys ! 1)
      = [''acct'' \<mapsto> demo_row ''i1'' ''s1'' 3 162 132]"
    by (simp add: lease_eval)
  have run: "foldl lease_step ?t (?xs @ ?ys) = [''acct'' \<mapsto> demo_row ''i1'' ''s1'' 3 162 132]"
    using 1 2 3 by (simp del: lease_step.simps)
  obtain r where v: "validate_execution_ownership (foldl lease_step ?t (?xs @ ?ys))
      ''acct'' ''i1'' ''s1'' (Some 1) (Fin 5) (Fin 133) = Inr r"
    unfolding run by (simp add: lease_eval)
  have mid: "foldl lease_step ?t ?xs = [''acct'' \<mapsto> demo_row ''i2'' ''s2'' 2 160 130]"
    using 1 by (simp del: lease_step.simps)
  have "\<not> acquired r"
    by (rule stale_owner_is_fenced [where h = "(''i2'', ''s2'')" and k' = 2, OF _ _ _ v])
      (unfold mid, simp_all add: lease_eval)
  with v show ?thesis by blast
qed

text \<open>One owner at a time. Of one lease table, at whatever two times and required
  validities, only one combination of instance, startup id and token is validated for an
  account.\<close>

theorem single_validated_owner:
  assumes "validate_execution_ownership t a i1 s1 k1 v1 n1 = Inr r1" "acquired r1"
    and "validate_execution_ownership t a i2 s2 k2 v2 n2 = Inr r2" "acquired r2"
  shows "i1 = i2 \<and> s1 = s2 \<and> k1 = k2"
  using validate_acquired [OF assms(1,2)] validate_acquired [OF assms(3,4)] by auto

theorem single_validated_owner_witness:
  "\<exists>t r. validate_execution_ownership t ''acct'' ''i1'' ''s1'' (Some 1) (Fin 5) (Fin 120) = Inr r \<and> acquired r
     \<and> (''i1'' = ''i1'' \<and> ''s1'' = ''s1'' \<and> Some (1::int) = Some 1)"
proof -
  let ?t = "[''acct'' \<mapsto> \<lparr>l_mode = ''PAPER'', l_instance = ''i1'', l_startup = ''s1'', l_token = 1,
     l_expires = Fin 130, l_updated = Fin 100\<rparr>]"
  have "\<exists>r. validate_execution_ownership ?t ''acct'' ''i1'' ''s1'' (Some 1) (Fin 5) (Fin 120) = Inr r \<and> acquired r"
    by (simp add: validate_execution_ownership_def py_strip_def is_space_def fl_numeral Let_def)
  then show ?thesis using single_validated_owner by blast
qed

text \<open>What an acquisition does. A successful call touches only its own account; it
  grants the lease exactly when the row was absent, already the caller's, or expired at
  the call, provided the new expiry lies after the call; a first grant has token 1, a
  renewal keeps the token, a takeover adds one; and a refused caller leaves the foreign
  row as it was.\<close>

theorem acquire_grants:
  assumes "acquire_execution_ownership t a m i s ttl now = Inr (t', res)"
  shows "(\<forall>sc. sc \<noteq> py_strip a \<longrightarrow> t' sc = t sc) \<and>
    (case t (py_strip a) of
       None \<Rightarrow> fencing_token res = Some 1 \<and> acquired res = flt_less now (fadd now ttl)
     | Some r0 \<Rightarrow>
         if same_owner r0 i s then
           fencing_token res = Some (l_token r0) \<and> acquired res = flt_less now (fadd now ttl)
         else if flt_le (l_expires r0) now then
           fencing_token res = Some (l_token r0 + 1) \<and> acquired res = flt_less now (fadd now ttl)
         else t' (py_strip a) = Some r0 \<and> \<not> acquired res)"
proof -
  from acquire_Inr [OF assms] obtain row where
    row: "t' (py_strip a) = Some row" "\<forall>sc. sc \<noteq> py_strip a \<longrightarrow> t' sc = t sc"
      "fencing_token res = Some (l_token row)"
      "acquired res = (same_owner row i s \<and> flt_less now (l_expires row))"
    and old: "case t (py_strip a) of
        None \<Rightarrow> same_owner row i s \<and> l_token row = 1 \<and> l_expires row = fadd now ttl
      | Some r0 \<Rightarrow>
          if same_owner r0 i s then same_owner row i s \<and> l_token row = l_token r0 \<and> l_expires row = fadd now ttl
          else if flt_le (l_expires r0) now
            then same_owner row i s \<and> l_token row = l_token r0 + 1 \<and> l_expires row = fadd now ttl
          else row = r0" by blast
  from old row(1,3,4) show ?thesis
    by (cases "t (py_strip a)"; simp add: row(2) split: if_splits)
qed

theorem acquire_grants_witness:
  "\<exists>t' res. acquire_execution_ownership [''acct'' \<mapsto> \<lparr>l_mode = ''PAPER'', l_instance = ''i1'', l_startup = ''s1'',
        l_token = 7, l_expires = Fin 130, l_updated = Fin 100\<rparr>] '' acct'' ''paper'' ''i2'' ''s2'' (Fin 30) (Fin 130)
      = Inr (t', res) \<and> fencing_token res = Some 8 \<and> acquired res"
proof -
  let ?t = "[''acct'' \<mapsto> \<lparr>l_mode = ''PAPER'', l_instance = ''i1'', l_startup = ''s1'',
        l_token = 7, l_expires = Fin 130, l_updated = Fin 100\<rparr>]"
  obtain t' res where *: "acquire_execution_ownership ?t '' acct'' ''paper'' ''i2'' ''s2'' (Fin 30) (Fin 130) = Inr (t', res)"
    by (simp add: acquire_execution_ownership_def validate_inputs_def sql_insert_lease_def sql_renew_lease_def
        py_strip_def is_space_def fl_numeral Let_def)
  show ?thesis using * acquire_grants [OF *]
    by (simp add: py_strip_def is_space_def same_owner_def fl_numeral)
qed

text \<open>Acquire then validate. A granted lease validates for its owner, under the token
  the grant returned, exactly until the required validity reaches its expiry.\<close>

theorem acquire_then_validate:
  assumes "acquire_execution_ownership t a m i s ttl now = Inr (t', res)" "acquired res"
    and "is_finite mv" "flt_le (Fin 0) mv"
  shows "\<exists>r. validate_execution_ownership t' a i s (fencing_token res) mv later = Inr r \<and>
    acquired r = (\<not> flt_le (fadd now ttl) (fadd later mv))"
proof -
  from acquire_Inr [OF assms(1)] assms(2) obtain row where
    row: "t' (py_strip a) = Some row" "same_owner row i s" "fencing_token res = Some (l_token row)"
    "l_expires row = fadd now ttl"
    by (auto simp: same_owner_def split: option.splits if_splits)
  show ?thesis using validate_of_row [of t' a row i s mv later] row assms(3,4) by simp
qed


text \<open>Release hands over. After the owner has released its lease, another owner's
  successful acquisition at that time or later finds the row expired and takes it under
  the next token.\<close>

theorem release_then_takeover:
  assumes "release_execution_ownership t a i s token now = Inr (t', True)"
    and "acquire_execution_ownership t' a m i2 s2 ttl later = Inr (t'', res)"
    and "flt_le now later" and "(i2, s2) \<noteq> (i, s)"
  shows "\<exists>k. token = Some k \<and> fencing_token res = Some (k + 1)
    \<and> acquired res = flt_less later (fadd later ttl)"
proof -
  from release_Inr [OF assms(1)] obtain r where
    r: "same_owner r i s" "token = Some (l_token r)" "t' (py_strip a) = Some (r\<lparr>l_expires := now, l_updated := now\<rparr>)"
    by auto
  have "\<not> same_owner (r\<lparr>l_expires := now, l_updated := now\<rparr>) i2 s2"
    using r(1) assms(4) by (auto simp: same_owner_def)
  with acquire_Inr [OF assms(2)] r assms(3) show ?thesis by auto
qed

theorem release_then_takeover_witness:
  "\<exists>t' t'' res. release_execution_ownership [''acct'' \<mapsto> demo_row ''i1'' ''s1'' 1 130 100] ''acct'' ''i1'' ''s1'' (Some 1) (Fin 110)
       = Inr (t', True)
     \<and> acquire_execution_ownership t' ''acct'' ''paper'' ''i2'' ''s2'' (Fin 30) (Fin 110) = Inr (t'', res)
     \<and> fencing_token res = Some 2 \<and> acquired res"
proof -
  let ?t = "[''acct'' \<mapsto> demo_row ''i1'' ''s1'' 1 130 100]"
  let ?t' = "[''acct'' \<mapsto> demo_row ''i1'' ''s1'' 1 110 110]"
  have rel: "release_execution_ownership ?t ''acct'' ''i1'' ''s1'' (Some 1) (Fin 110) = Inr (?t', True)"
    by (simp add: lease_eval)
  obtain t'' res where acq: "acquire_execution_ownership ?t' ''acct'' ''paper'' ''i2'' ''s2'' (Fin 30) (Fin 110) = Inr (t'', res)"
    by (simp add: lease_eval)
  have "fencing_token res = Some 2" "acquired res"
    using release_then_takeover [OF rel acq] by (simp_all add: fl_numeral)
  with rel acq show ?thesis by blast
qed

theorem acquire_then_validate_witness:
  "\<exists>t' res r. acquire_execution_ownership Map.empty ''acct'' ''paper'' ''i1'' ''s1'' (Fin 30) (Fin 100) = Inr (t', res)
     \<and> validate_execution_ownership t' ''acct'' ''i1'' ''s1'' (fencing_token res) (Fin 5) (Fin 120) = Inr r \<and> acquired r"
proof -
  obtain t' res where acq: "acquire_execution_ownership Map.empty ''acct'' ''paper'' ''i1'' ''s1'' (Fin 30) (Fin 100) = Inr (t', res)"
    and "acquired res" by (simp add: lease_eval)
  with acquire_then_validate [OF acq, of "Fin 5" "Fin 120"] show ?thesis by (auto simp: fl_numeral)
qed

end
