(* ===== verification/RuntimeControl.thy ===== *)
theory RuntimeControl
  imports PyVal Machines
begin

section \<open>Runtime control: mode switch, kill switch, supervisor (\<^verbatim>\<open>runtime_control.py\<close>)\<close>

text \<open>
  The single row of \<^verbatim>\<open>runtime_control_state\<close>, its audit table, and the supervisor that
  starts and stops the runtime task. A timestamp is an argument of the operation that
  writes it. The readiness table is the list of its \<^verbatim>\<open>qualified\<close> column in id order, None
  where the table is missing. An operation accesses the database several times, each time in a
  transaction of its own that may fail and then leaves no trace: \<open>up n\<close> says whether the \<open>n\<close>-th
  access of the operation, in the order of the code, is answered. The runtime factory and the task's
  end are outside this module: the factory is an argument, the end of the task an event.
\<close>

subsection \<open>State\<close>

record control_row =
  c_mode_requested :: string
  c_mode_running :: "string option"
  c_kill :: bool
  c_kill_source :: "string option"
  c_kill_at :: "string option"
  c_status :: string
  c_last_error :: "string option"
  c_updated :: string

record audit_event =
  event_ts :: string
  action :: string
  requested_mode :: "string option"
  previous_mode :: "string option"
  success :: bool
  au_reason :: "string option"
  source :: string
  kill_active :: "bool option"
  readiness_status :: "string option"
  operator_acknowledged :: bool

record control_store =
  row :: control_row
  audits :: "audit_event list"
  reports :: "bool list option"

record RuntimeControlState =
  mode_requested :: string
  mode_running :: "string option"
  kill_switch_active :: bool
  kill_switch_source :: "string option"
  kill_switch_updated_at :: "string option"
  runtime_status :: string
  last_error :: "string option"
  updated_at :: string

definition VALID_MODES :: "string list" where
  "VALID_MODES = [''PAPER'', ''LIVE'']"

definition VALID_STATUSES :: "string list" where
  "VALID_STATUSES = [''STOPPED'', ''STARTING'', ''RUNNING_PAPER'', ''RUNNING_LIVE'', ''STOPPING'',
    ''ERROR'', ''KILL_SWITCH_ACTIVE'']"

definition initial_row :: "string \<Rightarrow> control_row" where
  \<comment> \<open>the row \<^verbatim>\<open>ensure_runtime_control_schema\<close> inserts where there is none\<close>
  "initial_row now = \<lparr>c_mode_requested = ''PAPER'', c_mode_running = None, c_kill = False,
     c_kill_source = None, c_kill_at = None, c_status = ''STOPPED'', c_last_error = None,
     c_updated = now\<rparr>"

subsection \<open>The store\<close>

definition str_default :: "string \<Rightarrow> string \<Rightarrow> string" where
  "str_default s d = (if s = [] then d else s)"

type_synonym answers = "nat \<Rightarrow> bool"

definition after :: "nat \<Rightarrow> answers \<Rightarrow> answers" where
  \<comment> \<open>the answers to an operation called after \<open>k\<close> accesses\<close>
  "after k up n = up (k + n)"

definition DB_ERROR :: exc where "DB_ERROR = RuntimeError ''SQLAlchemyError''"

definition read_state :: "bool \<Rightarrow> control_store \<Rightarrow> RuntimeControlState py" where
  "read_state up st =
    (if \<not> up then Inl DB_ERROR
     else let r = row st in Inr \<lparr>
       mode_requested = py_upper (str_default (c_mode_requested r) ''PAPER''),
       mode_running = (case c_mode_running r of None \<Rightarrow> None | Some m \<Rightarrow> if m = [] then None else Some (py_upper m)),
       kill_switch_active = c_kill r,
       kill_switch_source = c_kill_source r,
       kill_switch_updated_at = c_kill_at r,
       runtime_status = py_upper (str_default (c_status r) ''STOPPED''),
       last_error = c_last_error r,
       updated_at = c_updated r\<rparr>)"

definition latest_readiness_status :: "bool \<Rightarrow> control_store \<Rightarrow> string" where
  "latest_readiness_status up st =
    (if \<not> up then ''NOT_AVAILABLE''
     else case reports st of
       None \<Rightarrow> ''NOT_AVAILABLE''
     | Some qs \<Rightarrow> if qs = [] then ''NOT_AVAILABLE'' else if last qs then ''PASS'' else ''FAIL'')"

definition write_audit :: "bool \<Rightarrow> audit_event \<Rightarrow> control_store \<Rightarrow> control_store \<times> exc option" where
  "write_audit up e st = (if up then (st\<lparr>audits := audits st @ [e]\<rparr>, None) else (st, Some DB_ERROR))"

definition mode_switch_audit ::
  "string \<Rightarrow> string \<Rightarrow> string \<Rightarrow> bool \<Rightarrow> string option \<Rightarrow> string \<Rightarrow> string option \<Rightarrow> bool \<Rightarrow> audit_event" where
  "mode_switch_audit now mode prev ok why src ready ack =
    \<lparr>event_ts = now, action = ''MODE_SWITCH'', requested_mode = Some mode, previous_mode = Some prev,
     success = ok, au_reason = why, source = src, kill_active = None, readiness_status = ready,
     operator_acknowledged = ack\<rparr>"

definition mode_guard :: "string \<Rightarrow> RuntimeControlState \<Rightarrow> bool \<Rightarrow> string option \<Rightarrow> exc option" where
  \<comment> \<open>the checks of \<^verbatim>\<open>set_requested_mode\<close> in order; None when all pass\<close>
  "mode_guard mode state ack ready =
    (if mode \<notin> set VALID_MODES then Some (ValueError ''mode_requested must be PAPER or LIVE'')
     else if runtime_status state \<notin> {''STOPPED'', ''ERROR'', ''KILL_SWITCH_ACTIVE''} \<or> mode_running state \<noteq> None
       then Some (RuntimeError ''mode_requested can only be changed while runtime is stopped'')
     else if mode = ''LIVE'' \<and> \<not> ack
       then Some (RuntimeError ''LIVE mode blocked: explicit operator acknowledgement is required'')
     else if mode = ''LIVE'' \<and> ready \<noteq> Some ''PASS''
       then Some (RuntimeError (''LIVE mode blocked: readiness evidence is ''
              @ (case ready of None \<Rightarrow> ''None'' | Some r \<Rightarrow> r) @ ''; expected PASS''))
     else None)"

fun exc_text :: "exc \<Rightarrow> string" where
  \<comment> \<open>\<^verbatim>\<open>str(exc)\<close> of the exceptions raised with a message\<close>
  "exc_text (ValueError m) = m"
| "exc_text (RuntimeError m) = m"
| "exc_text (KeyError k) = repr_str k"
| "exc_text _ = []"

definition switch_mode ::
  "control_store \<Rightarrow> string \<Rightarrow> string \<Rightarrow> bool \<Rightarrow> string \<Rightarrow> string option \<Rightarrow> string \<Rightarrow> answers
    \<Rightarrow> control_store \<times> RuntimeControlState py" where
  \<comment> \<open>the update and its audit are two transactions, the state is read in a third\<close>
  "switch_mode st mode prev ack src ready now up =
    (if \<not> up 0 then (st, Inl DB_ERROR)
     else
       let st1 = st\<lparr>row := (row st)\<lparr>c_mode_requested := mode, c_last_error := None, c_updated := now\<rparr>\<rparr> in
       case write_audit (up 1) (mode_switch_audit now mode prev True None src ready ack) st1 of
         (st2, Some e) \<Rightarrow> (st2, Inl e)
       | (st2, None) \<Rightarrow> (st2, read_state (up 2) st2))"

definition set_requested_mode ::
  "control_store \<Rightarrow> string \<Rightarrow> bool \<Rightarrow> string \<Rightarrow> string \<Rightarrow> answers \<Rightarrow> control_store \<times> RuntimeControlState py" where
  \<comment> \<open>accesses: 0 state, 1 readiness, 2 update, 3 audit, 4 state, 5 audit of a failure\<close>
  "set_requested_mode st mode0 ack src now up =
    (let mode = py_upper (py_strip mode0) in
     case read_state (up 0) st of
       Inl e \<Rightarrow> (st, Inl e)
     | Inr state \<Rightarrow>
         let ready = (if mode = ''LIVE'' then Some (latest_readiness_status (up 1) st) else None);
             prev = mode_requested state;
             tried = (case mode_guard mode state ack ready of
                 Some e \<Rightarrow> (st, Inl e)
               | None \<Rightarrow> switch_mode st mode prev ack src ready now (after 2 up)) in
         case tried of
           (st1, Inr s) \<Rightarrow> (st1, Inr s)
         | (st1, Inl e) \<Rightarrow>
             (case write_audit (up 5) (mode_switch_audit now mode prev False (Some (exc_text e)) src ready ack) st1 of
                (st2, Some x) \<Rightarrow> (st2, Inl x)
              | (st2, None) \<Rightarrow> (st2, Inl e)))"

definition set_kill_switch :: "control_store \<Rightarrow> bool \<Rightarrow> string \<Rightarrow> string \<Rightarrow> answers \<Rightarrow> control_store \<times> RuntimeControlState py" where
  \<comment> \<open>accesses: 0 state, read only to switch off, 1 update, 2 audit, 3 state\<close>
  "set_kill_switch st active src now up =
    (case (if active then Inr ''KILL_SWITCH_ACTIVE'' else bindE (read_state (up 0) st) (\<lambda>state. Inr (runtime_status state))) of
       Inl e \<Rightarrow> (st, Inl e)
     | Inr status0 \<Rightarrow>
         if \<not> up 1 then (st, Inl DB_ERROR)
         else
           let status = (if \<not> active \<and> status0 = ''KILL_SWITCH_ACTIVE'' then ''STOPPED'' else status0);
               r = row st;
               st1 = st\<lparr>row := r\<lparr>c_kill := active, c_kill_source := Some src, c_kill_at := Some now,
                       c_status := status,
                       c_last_error := (if active then Some ''KILL_SWITCH_ACTIVE'' else c_last_error r),
                       c_mode_running := (if active then None else c_mode_running r),
                       c_updated := now\<rparr>\<rparr> in
           case write_audit (up 2) \<lparr>event_ts = now,
                   action = (if active then ''KILL_SWITCH_ON'' else ''KILL_SWITCH_OFF''),
                   requested_mode = None, previous_mode = None, success = True, au_reason = None,
                   source = src, kill_active = Some active, readiness_status = None,
                   operator_acknowledged = False\<rparr> st1 of
             (st2, Some e) \<Rightarrow> (st2, Inl e)
           | (st2, None) \<Rightarrow> (st2, read_state (up 3) st2))"

definition set_status ::
  "control_store \<Rightarrow> string \<Rightarrow> string option \<Rightarrow> string option \<Rightarrow> string \<Rightarrow> answers \<Rightarrow> control_store \<times> RuntimeControlState py" where
  \<comment> \<open>accesses: 0 update, 1 state\<close>
  "set_status st status0 running err now up =
    (let status = py_upper (py_strip status0) in
     if status \<notin> set VALID_STATUSES then (st, Inl (ValueError ''unsupported runtime_status''))
     else if \<not> up 0 then (st, Inl DB_ERROR)
     else let st1 = st\<lparr>row := (row st)\<lparr>c_status := status, c_mode_running := running,
                         c_last_error := err, c_updated := now\<rparr>\<rparr>
          in (st1, read_state (up 1) st1))"

definition is_kill_switch_active :: "bool \<Rightarrow> control_store \<Rightarrow> bool" where
  "is_kill_switch_active up st =
    (case read_state up st of Inl _ \<Rightarrow> True | Inr state \<Rightarrow> kill_switch_active state)"

subsection \<open>The supervisor\<close>

text \<open>The task is \<open>None\<close> before the first start, else it says whether it still runs.\<close>

record supervisor =
  store :: control_store
  task_running :: "bool option"

definition is_running :: "supervisor \<Rightarrow> bool" where
  "is_running sv = (task_running sv = Some True)"

text \<open>
  The factory builds an orchestrator for the requested mode, of which the supervisor reads
  the execution mode only, or raises.
\<close>

definition supervisor_start ::
  "(string \<Rightarrow> string py) \<Rightarrow> supervisor \<Rightarrow> string \<Rightarrow> answers \<Rightarrow> supervisor \<times> RuntimeControlState py" where
  \<comment> \<open>accesses: 0 state, 1 and 2 the first status, 3 and 4 RUNNING, 5 and 6 ERROR\<close>
  "supervisor_start factory sv now up =
    (case read_state (up 0) (store sv) of
       Inl e \<Rightarrow> (sv, Inl e)
     | Inr state \<Rightarrow>
         if kill_switch_active state then
           (let (st, r) = set_status (store sv) ''KILL_SWITCH_ACTIVE'' None (Some ''KILL_SWITCH_ACTIVE'') now (after 1 up)
            in (sv\<lparr>store := st\<rparr>, r))
         else if is_running sv then (sv, read_state (up 1) (store sv))
         else
           case set_status (store sv) ''STARTING'' None None now (after 1 up) of
             (st1, Inl e) \<Rightarrow> (sv\<lparr>store := st1\<rparr>, Inl e)
           | (st1, Inr _) \<Rightarrow>
               let mode = mode_requested state;
                   failed = (\<lambda>sv' msg. let (st, r) = set_status (store sv') ''ERROR'' None (Some msg) now (after 5 up)
                                       in (sv'\<lparr>store := st\<rparr>, r))
               in case factory mode of
                    Inl e \<Rightarrow> failed (sv\<lparr>store := st1\<rparr>) (exc_text e)
                  | Inr actual \<Rightarrow>
                      if actual \<noteq> mode then
                        failed (sv\<lparr>store := st1\<rparr>) (''Runtime mode mismatch: requested '' @ mode @ '', built '' @ actual)
                      else
                        (case set_status st1 (''RUNNING_'' @ actual) (Some actual) None now (after 3 up) of
                           (st2, Inl e) \<Rightarrow> failed (sv\<lparr>store := st2, task_running := Some True\<rparr>) (exc_text e)
                         | (st2, Inr s) \<Rightarrow> (sv\<lparr>store := st2, task_running := Some True\<rparr>, Inr s)))"

definition task_ended :: "supervisor \<Rightarrow> string option \<Rightarrow> string \<Rightarrow> answers \<Rightarrow> supervisor \<times> exc option" where
  \<comment> \<open>\<^verbatim>\<open>_run\<close> after \<^verbatim>\<open>orchestrator.start()\<close> returned (None) or raised (its message), and the exception
    the task ends with; accesses: 0 and 1 STOPPED, 2 and 3 ERROR\<close>
  "task_ended sv failure now up =
    (if \<not> is_running sv then (sv, None)
     else
       let errored = (\<lambda>st msg. set_status st ''ERROR'' None (Some msg) now (after 2 up));
           (st, r) = (case failure of
               Some m \<Rightarrow> errored (store sv) m
             | None \<Rightarrow> (case set_status (store sv) ''STOPPED'' None None now up of
                   (st1, Inl e) \<Rightarrow> errored st1 (exc_text e)
                 | ok \<Rightarrow> ok))
       in (sv\<lparr>store := st, task_running := Some False\<rparr>, case r of Inl e \<Rightarrow> Some e | Inr _ \<Rightarrow> None))"

datatype stop_outcome = Finished | Raised string | TimedOut

definition supervisor_stop :: "supervisor \<Rightarrow> stop_outcome \<Rightarrow> string \<Rightarrow> answers \<Rightarrow> supervisor \<times> RuntimeControlState py" where
  \<comment> \<open>accesses: 0 state, 1 and 2 STOPPING, 3 to 6 the end of the task, 7 and 8 STOPPED; a task that runs
    into the time limit is cancelled and writes no status\<close>
  "supervisor_stop sv outcome now up =
    (if \<not> is_running sv then
       (let (st, r) = set_status (store sv) ''STOPPED'' None None now up in (sv\<lparr>store := st\<rparr>, r))
     else case read_state (up 0) (store sv) of
       Inl e \<Rightarrow> (sv, Inl e)
     | Inr state \<Rightarrow>
         (case set_status (store sv) ''STOPPING'' (mode_running state) None now (after 1 up) of
            (st1, Inl e) \<Rightarrow> (sv\<lparr>store := st1\<rparr>, Inl e)
          | (st1, Inr _) \<Rightarrow>
              if outcome = TimedOut
              then (sv\<lparr>store := st1, task_running := Some False\<rparr>, Inl (RuntimeError ''TimeoutError''))
              else
                (case task_ended (sv\<lparr>store := st1\<rparr>) (case outcome of Raised m \<Rightarrow> Some m | _ \<Rightarrow> None) now (after 3 up) of
                   (sv2, Some e) \<Rightarrow> (sv2, Inl e)
                 | (sv2, None) \<Rightarrow>
                     let (st3, r) = set_status (store sv2) ''STOPPED'' None None now (after 7 up)
                     in (sv2\<lparr>store := st3\<rparr>, r))))"

subsection \<open>Runs\<close>

datatype control_op =
    SetMode string bool string string answers
  | KillSwitch bool string string answers
  | StartRuntime string answers
  | TaskEnds "string option" string answers
  | StopRuntime stop_outcome string answers
  | ReadinessReport bool

fun control_step :: "(string \<Rightarrow> string py) \<Rightarrow> supervisor \<Rightarrow> control_op \<Rightarrow> supervisor" where
  "control_step factory sv (SetMode m ack src now up) = sv\<lparr>store := fst (set_requested_mode (store sv) m ack src now up)\<rparr>"
| "control_step factory sv (KillSwitch b src now up) = sv\<lparr>store := fst (set_kill_switch (store sv) b src now up)\<rparr>"
| "control_step factory sv (StartRuntime now up) = fst (supervisor_start factory sv now up)"
| "control_step factory sv (TaskEnds f now up) = fst (task_ended sv f now up)"
| "control_step factory sv (StopRuntime oc now up) = fst (supervisor_stop sv oc now up)"
| "control_step factory sv (ReadinessReport q) =
     sv\<lparr>store := (store sv)\<lparr>reports := Some ((case reports (store sv) of None \<Rightarrow> [] | Some qs \<Rightarrow> qs) @ [q])\<rparr>\<rparr>"

definition initial_supervisor :: "string \<Rightarrow> supervisor" where
  "initial_supervisor now =
    \<lparr>store = \<lparr>row = initial_row now, audits = [], reports = None\<rparr>, task_running = None\<rparr>"

definition control_inv :: "control_store \<Rightarrow> bool" where
  "control_inv st \<longleftrightarrow>
     c_mode_requested (row st) \<in> set VALID_MODES \<and> c_status (row st) \<in> set VALID_STATUSES \<and>
     (\<forall>m. c_mode_running (row st) = Some m \<longrightarrow> m = c_mode_requested (row st) \<and> \<not> c_kill (row st)) \<and>
     (c_status (row st) = ''RUNNING_PAPER'' \<longrightarrow> c_mode_running (row st) = Some ''PAPER'') \<and>
     (c_status (row st) = ''RUNNING_LIVE'' \<longrightarrow> c_mode_running (row st) = Some ''LIVE'')"

subsection \<open>Facts about the operations\<close>

lemma valid_mode_upper [simp]: "m \<in> set VALID_MODES \<Longrightarrow> py_upper m = m \<and> py_strip m = m \<and> m \<noteq> []"
  by (auto simp: VALID_MODES_def py_upper_id py_strip_id is_space_def)

lemma valid_status_upper [simp]: "s \<in> set VALID_STATUSES \<Longrightarrow> py_upper s = s \<and> py_strip s = s \<and> s \<noteq> []"
  by (auto simp: VALID_STATUSES_def py_upper_id py_strip_id is_space_def)

lemma running_status_valid: "m \<in> set VALID_MODES \<Longrightarrow> ''RUNNING_'' @ m \<in> set VALID_STATUSES"
  by (auto simp: VALID_MODES_def VALID_STATUSES_def)

lemma read_state_inv:
  assumes "control_inv st" "read_state up st = Inr s"
  shows "mode_requested s = c_mode_requested (row st)" "runtime_status s = c_status (row st)"
    "mode_running s = c_mode_running (row st)" "kill_switch_active s = c_kill (row st)" "up"
proof -
  have m: "c_mode_requested (row st) \<in> set VALID_MODES" "c_status (row st) \<in> set VALID_STATUSES"
    using assms(1) by (auto simp: control_inv_def)
  show "mode_requested s = c_mode_requested (row st)" "runtime_status s = c_status (row st)"
    "kill_switch_active s = c_kill (row st)" "up"
    using assms(2) valid_mode_upper [OF m(1)] valid_status_upper [OF m(2)]
    by (auto simp: read_state_def str_default_def Let_def split: if_splits)
  show "mode_running s = c_mode_running (row st)"
  proof (cases "c_mode_running (row st)")
    case None
    then show ?thesis using assms(2) by (auto simp: read_state_def Let_def split: if_splits)
  next
    case (Some r)
    then have "r \<in> set VALID_MODES" using assms(1) m by (auto simp: control_inv_def)
    then show ?thesis using assms(2) Some valid_mode_upper [of r]
      by (auto simp: read_state_def Let_def split: if_splits)
  qed
qed

lemma latest_PASS: "latest_readiness_status up st = ''PASS'' \<longleftrightarrow>
    up \<and> (\<exists>qs. reports st = Some qs \<and> qs \<noteq> [] \<and> last qs)"
  by (auto simp: latest_readiness_status_def split: option.splits)

lemma write_audit_simps [simp]:
  "row (fst (write_audit up e st)) = row st" "reports (fst (write_audit up e st)) = reports st"
  "audits (fst (write_audit up e st)) = audits st @ (if up then [e] else [])"
  "snd (write_audit up e st) = (if up then None else Some DB_ERROR)"
  by (simp_all add: write_audit_def)

lemma mode_guard_NoneD:
  assumes "mode_guard mode state ack ready = None"
  shows "mode \<in> set VALID_MODES" "runtime_status state \<in> {''STOPPED'', ''ERROR'', ''KILL_SWITCH_ACTIVE''}"
    "mode_running state = None" "mode = ''LIVE'' \<longrightarrow> ack \<and> ready = Some ''PASS''"
  using assms by (auto simp: mode_guard_def split: if_splits)

text \<open>How each operation leaves the row and the audit.\<close>

lemma switch_mode_store:
  "fst (switch_mode st mode prev ack src ready now up) =
    (if \<not> up 0 then st
     else st\<lparr>row := (row st)\<lparr>c_mode_requested := mode, c_last_error := None, c_updated := now\<rparr>,
             audits := audits st @ (if up 1 then [mode_switch_audit now mode prev True None src ready ack] else [])\<rparr>)"
  by (simp add: switch_mode_def write_audit_def Let_def)

lemma set_requested_mode_cases:
  obtains (refused) e es where "set_requested_mode st m ack src now up = (st\<lparr>audits := audits st @ es\<rparr>, Inl e)"
  | (switched) mode state es where
      "mode = py_upper (py_strip m)" "read_state (up 0) st = Inr state"
      "mode_guard mode state ack (if mode = ''LIVE'' then Some (latest_readiness_status (up 1) st) else None) = None"
      "fst (set_requested_mode st m ack src now up) =
         st\<lparr>row := (row st)\<lparr>c_mode_requested := mode, c_last_error := None, c_updated := now\<rparr>,
            audits := audits st @ es\<rparr>"
      "up 3 \<Longrightarrow> mode_switch_audit now mode (mode_requested state) True None src
         (if mode = ''LIVE'' then Some (latest_readiness_status (up 1) st) else None) ack \<in> set es"
proof (cases "read_state (up 0) st")
  case (Inl e)
  then show ?thesis by (intro refused [of "[]" e]) (simp add: set_requested_mode_def Let_def)
next
  case (Inr state)
  define mode where "mode = py_upper (py_strip m)"
  define ready where "ready = (if mode = ''LIVE'' then Some (latest_readiness_status (up 1) st) else None)"
  define tried where "tried = (case mode_guard mode state ack ready of Some e \<Rightarrow> (st, Inl e)
      | None \<Rightarrow> switch_mode st mode (mode_requested state) ack src ready now (after 2 up))"
  have def: "set_requested_mode st m ack src now up = (case tried of (st1, Inr s) \<Rightarrow> (st1, Inr s)
      | (st1, Inl e) \<Rightarrow> (case write_audit (up 5) (mode_switch_audit now mode (mode_requested state) False (Some (exc_text e)) src ready ack) st1 of
           (st2, Some x) \<Rightarrow> (st2, Inl x) | (st2, None) \<Rightarrow> (st2, Inl e)))"
    by (simp only: set_requested_mode_def tried_def mode_def ready_def Let_def Inr sum.case)
  show ?thesis
  proof (cases "mode_guard mode state ack ready = None \<and> up 2")
    case False
    then obtain e where "tried = (st, Inl e)"
      by (cases "mode_guard mode state ack ready") (auto simp: tried_def switch_mode_def after_def)
    then show ?thesis
      by (cases "up 5") (auto simp: def write_audit_def intro: refused [of "[]"] refused)
  next
    case True
    then have st1: "fst tried = st\<lparr>row := (row st)\<lparr>c_mode_requested := mode, c_last_error := None, c_updated := now\<rparr>,
        audits := audits st @ (if up 3 then [mode_switch_audit now mode (mode_requested state) True None src ready ack] else [])\<rparr>"
      by (simp add: tried_def switch_mode_store after_def)
    have "\<exists>fs. fst (set_requested_mode st m ack src now up) = (fst tried)\<lparr>audits := audits (fst tried) @ fs\<rparr>"
      by (cases tried; cases "snd tried"; cases "up 5") (auto simp: def write_audit_def intro: exI [of _ "[]"])
    then obtain fs where "fst (set_requested_mode st m ack src now up) = (fst tried)\<lparr>audits := audits (fst tried) @ fs\<rparr>" ..
    then show ?thesis using True Inr
      by (intro switched [OF mode_def, of state "(if up 3 then [mode_switch_audit now mode (mode_requested state) True None src ready ack] else []) @ fs"])
        (simp_all add: st1 ready_def)
  qed
qed

lemma set_status_fst:
  "fst (set_status st s r e now up) =
    (if py_upper (py_strip s) \<in> set VALID_STATUSES \<and> up 0
     then st\<lparr>row := (row st)\<lparr>c_status := py_upper (py_strip s), c_mode_running := r, c_last_error := e, c_updated := now\<rparr>\<rparr>
     else st)"
  by (simp add: set_status_def Let_def)

lemma set_status_inv:
  assumes "control_inv st" "r = None \<or> r = Some (c_mode_requested (row st)) \<and> \<not> c_kill (row st)"
    and "py_upper (py_strip s) = ''RUNNING_PAPER'' \<longrightarrow> r = Some ''PAPER''"
    and "py_upper (py_strip s) = ''RUNNING_LIVE'' \<longrightarrow> r = Some ''LIVE''"
  shows "control_inv (fst (set_status st s r e now up))"
  using assms by (auto simp: set_status_fst control_inv_def)

lemma set_kill_switch_row:
  assumes "control_inv st"
  obtains (kept) "row (fst (set_kill_switch st b src now up)) = row st"
  | (set) status where "status \<in> set VALID_STATUSES" "b \<Longrightarrow> status = ''KILL_SWITCH_ACTIVE''" "\<not> b \<Longrightarrow> status \<in> {c_status (row st), ''STOPPED''}"
      "row (fst (set_kill_switch st b src now up)) = (row st)\<lparr>c_kill := b, c_kill_source := Some src, c_kill_at := Some now,
         c_status := status, c_last_error := (if b then Some ''KILL_SWITCH_ACTIVE'' else c_last_error (row st)),
         c_mode_running := (if b then None else c_mode_running (row st)), c_updated := now\<rparr>"
proof -
  have v: "''STOPPED'' \<in> set VALID_STATUSES" "''KILL_SWITCH_ACTIVE'' \<in> set VALID_STATUSES" "c_status (row st) \<in> set VALID_STATUSES"
    using assms by (simp_all add: VALID_STATUSES_def control_inv_def)
  show ?thesis
  proof (cases "up 1 \<and> (b \<or> (\<exists>s. read_state (up 0) st = Inr s))")
    case False
    then show ?thesis
      by (intro kept) (auto simp: set_kill_switch_def bindE_def split: sum.splits)
  next
    case True
    show ?thesis
    proof (cases b)
      case on: True
      then show ?thesis using True v
        by (intro set [of "''KILL_SWITCH_ACTIVE''"]) (auto simp: set_kill_switch_def write_audit_def Let_def)
    next
      case False
      then obtain s where s: "read_state (up 0) st = Inr s" using True by blast
      note r = read_state_inv [OF assms s]
      show ?thesis using True False s r v
        by (intro set [of "if c_status (row st) = ''KILL_SWITCH_ACTIVE'' then ''STOPPED'' else c_status (row st)"])
          (auto simp: set_kill_switch_def write_audit_def Let_def bindE_def)
    qed
  qed
qed

lemma set_kill_switch_inv: "control_inv st \<Longrightarrow> control_inv (fst (set_kill_switch st b src now up))"
proof -
  assume inv: "control_inv st"
  then show ?thesis
    by (cases rule: set_kill_switch_row [where b = b and src = src and now = now and up = up])
      (use inv in \<open>auto simp: control_inv_def\<close>)
qed

lemma set_requested_mode_inv: "control_inv st \<Longrightarrow> control_inv (fst (set_requested_mode st m ack src now up))"
proof (cases rule: set_requested_mode_cases [of st m ack src now up])
  case (refused e es)
  moreover assume "control_inv st"
  ultimately show ?thesis by (auto simp: control_inv_def)
next
  case (switched mode state es)
  assume inv: "control_inv st"
  note g = mode_guard_NoneD [OF switched(3)] and r = read_state_inv [OF inv switched(2)]
  have "c_mode_running (row st) = None" using g(3) r(3) by simp
  moreover have "c_status (row st) \<noteq> ''RUNNING_PAPER''" "c_status (row st) \<noteq> ''RUNNING_LIVE''"
    using g(2) r(2) by auto
  ultimately show ?thesis using inv g(1) unfolding switched(4) by (auto simp: control_inv_def)
qed

lemma status_texts [simp]:
  "py_upper (py_strip ''STOPPED'') = ''STOPPED''" "py_upper (py_strip ''ERROR'') = ''ERROR''"
  "py_upper (py_strip ''STARTING'') = ''STARTING''" "py_upper (py_strip ''STOPPING'') = ''STOPPING''"
  "py_upper (py_strip ''KILL_SWITCH_ACTIVE'') = ''KILL_SWITCH_ACTIVE''"
  by (simp_all add: py_upper_id py_strip_id is_space_def)

lemma running_text:
  "m \<in> set VALID_MODES \<Longrightarrow> py_upper (py_strip (''RUNNING_'' @ m)) = ''RUNNING_'' @ m"
  by (auto simp: VALID_MODES_def py_upper_id py_strip_id is_space_def)

lemma set_status_None_inv:
  "control_inv st \<Longrightarrow> py_upper (py_strip s) \<in> {''STOPPED'', ''ERROR'', ''STARTING'', ''KILL_SWITCH_ACTIVE''} \<Longrightarrow>
    control_inv (fst (set_status st s None e now up))"
  by (rule set_status_inv) auto

lemma set_status_keeps [simp]:
  "c_mode_requested (row (fst (set_status st s r e now up))) = c_mode_requested (row st)"
  "c_kill (row (fst (set_status st s r e now up))) = c_kill (row st)"
  "audits (fst (set_status st s r e now up)) = audits st"
  "reports (fst (set_status st s r e now up)) = reports st"
  by (simp_all add: set_status_fst)

text \<open>The supervisor writes the row only through \<open>set_status\<close>, a running mode only from a successful start.\<close>

inductive status_writes :: "control_store \<Rightarrow> control_store \<Rightarrow> bool" where
  nothing: "status_writes st st"
| idle: "status_writes st st1 \<Longrightarrow> status \<in> {''STOPPED'', ''ERROR'', ''STARTING'', ''KILL_SWITCH_ACTIVE''}
    \<Longrightarrow> status_writes st (fst (set_status st1 status None e now up))"
| stopping: "status_writes st st1 \<Longrightarrow> r = c_mode_running (row st1)
    \<Longrightarrow> status_writes st (fst (set_status st1 ''STOPPING'' r e now up))"
| running: "status_writes st st1 \<Longrightarrow> \<not> c_kill (row st1) \<Longrightarrow> m = c_mode_requested (row st1)
    \<Longrightarrow> status_writes st (fst (set_status st1 (''RUNNING_'' @ m) (Some m) e now up))"

lemma status_writes_keep: "status_writes st st1 \<Longrightarrow> c_mode_requested (row st1) = c_mode_requested (row st)
    \<and> c_kill (row st1) = c_kill (row st) \<and> audits st1 = audits st \<and> reports st1 = reports st"
  by (induction rule: status_writes.induct) auto

lemma status_writes_inv: "status_writes st st1 \<Longrightarrow> control_inv st \<Longrightarrow> control_inv st1"
proof (induction rule: status_writes.induct)
  case (idle st st1 status e now up)
  then show ?case by (auto intro!: set_status_None_inv)
next
  case (stopping st st1 r e now up)
  then have "r = None \<or> r = Some (c_mode_requested (row st1)) \<and> \<not> c_kill (row st1)"
    by (cases r) (auto simp: control_inv_def)
  then show ?case using stopping by (intro set_status_inv) auto
next
  case (running st st1 m e now up)
  then have "m \<in> set VALID_MODES" by (auto simp: control_inv_def)
  then show ?case using running running_text [of m]
    by (intro set_status_inv) (auto simp: VALID_MODES_def)
qed simp_all

lemma status_writes_trans: "status_writes st1 st2 \<Longrightarrow> status_writes st st1 \<Longrightarrow> status_writes st st2"
  by (induction rule: status_writes.induct) (blast intro: status_writes.intros)+

lemma set_status_pair: "set_status st s r e now up = (st1, res) \<Longrightarrow> st1 = fst (set_status st s r e now up)"
  by simp

lemma task_ended_writes: "status_writes (store sv) (store (fst (task_ended sv f now up)))"
  by (cases f) (auto simp: task_ended_def Let_def case_prod_unfold
      intro!: status_writes.intros dest!: set_status_pair split: prod.splits sum.splits)

lemma supervisor_stop_writes:
  assumes inv: "control_inv (store sv)"
  shows "status_writes (store sv) (store (fst (supervisor_stop sv oc now up)))"
proof (cases "is_running sv \<and> (\<exists>state. read_state (up 0) (store sv) = Inr state)")
  case False
  then show ?thesis
    by (auto simp: supervisor_stop_def Let_def case_prod_unfold intro!: status_writes.intros split: sum.splits)
next
  case True
  then obtain state where state: "read_state (up 0) (store sv) = Inr state" by blast
  let ?s = "set_status (store sv) ''STOPPING'' (mode_running state) None now (after 1 up)"
  let ?sv1 = "sv\<lparr>store := fst ?s\<rparr>"
  have 1: "status_writes (store sv) (fst ?s)"
    using read_state_inv(3) [OF inv state] by (intro status_writes.stopping status_writes.nothing)
  have 2: "status_writes (store sv) (store sv2)" if "task_ended ?sv1 f now u = (sv2, x)" for f u sv2 x
    using status_writes_trans [OF task_ended_writes [of ?sv1 f now u]] 1 that by simp
  show ?thesis using True state 1
    by (auto simp: supervisor_stop_def Let_def case_prod_unfold simp del: One_nat_def intro!: status_writes.idle dest: 2 split: prod.splits sum.splits option.splits)
qed

lemma set_status_None_writes:
  "status \<in> {''STOPPED'', ''ERROR'', ''STARTING'', ''KILL_SWITCH_ACTIVE''} \<Longrightarrow> status_writes st (fst (set_status st status None e now up))"
  by (intro status_writes.idle status_writes.nothing)

lemma supervisor_start_writes:
  assumes inv: "control_inv (store sv)"
  shows "status_writes (store sv) (store (fst (supervisor_start factory sv now up)))"
proof (cases "\<exists>state. read_state (up 0) (store sv) = Inr state \<and> \<not> kill_switch_active state \<and> \<not> is_running sv")
  case False
  then show ?thesis
    by (auto simp: supervisor_start_def Let_def case_prod_unfold intro!: set_status_None_writes status_writes.nothing split: sum.splits)
next
  case True
  then obtain state where state: "read_state (up 0) (store sv) = Inr state" "\<not> kill_switch_active state" "\<not> is_running sv" by blast
  note r = read_state_inv [OF inv state(1)]
  let ?st1 = "fst (set_status (store sv) ''STARTING'' None None now (after 1 up))"
  have 1: "status_writes (store sv) ?st1" by (rule set_status_None_writes) simp
  have 2: "status_writes (store sv) (fst (set_status ?st1 (''RUNNING_'' @ m) (Some m) e now u))" if "m = mode_requested state" for m e u
    using r state(2) that by (intro status_writes.running [OF 1]) auto
  have 3: "status_writes (store sv) (fst (set_status st ''ERROR'' None e now u))" if "status_writes (store sv) st" for st e u
    using that by (rule status_writes.idle) simp
  show ?thesis using state 1 2 3
    by (auto simp: supervisor_start_def Let_def case_prod_unfold simp del: One_nat_def append.simps split: prod.splits sum.splits)
qed

lemma supervisor_writes:
  assumes "control_inv (store sv)"
  shows "(\<exists>m ack src now up. x = SetMode m ack src now up) \<or> (\<exists>b src now up. x = KillSwitch b src now up) \<or> (\<exists>q. x = ReadinessReport q)
    \<or> status_writes (store sv) (store (control_step factory sv x))"
  using assms task_ended_writes supervisor_stop_writes supervisor_start_writes by (cases x) auto

lemma control_step_inv: "control_inv (store sv) \<Longrightarrow> control_inv (store (control_step factory sv x))"
proof (cases x)
  case (ReadinessReport q)
  moreover assume "control_inv (store sv)"
  ultimately show ?thesis by (simp add: control_inv_def)
qed (auto intro: set_requested_mode_inv set_kill_switch_inv status_writes_inv
      supervisor_start_writes task_ended_writes supervisor_stop_writes)

lemma initial_inv: "control_inv (store (initial_supervisor now))"
  by (simp add: initial_supervisor_def initial_row_def control_inv_def VALID_MODES_def VALID_STATUSES_def)

lemma set_kill_switch_keeps [simp]:
  "c_mode_requested (row (fst (set_kill_switch st b src now up))) = c_mode_requested (row st)"
  by (auto simp: set_kill_switch_def write_audit_def Let_def split: sum.splits)

lemma set_kill_switch_audits: "\<exists>es. audits (fst (set_kill_switch st b src now up)) = audits st @ es"
  by (auto simp: set_kill_switch_def write_audit_def Let_def split: sum.splits)

lemma control_step_audits:
  assumes "control_inv (store sv)"
  shows "\<exists>es. audits (store (control_step factory sv x)) = audits (store sv) @ es"
proof (cases x)
  case (SetMode m ack src now up)
  show ?thesis
    using SetMode by (cases rule: set_requested_mode_cases [of "store sv" m ack src now up]) auto
qed (use assms set_kill_switch_audits status_writes_keep [OF supervisor_start_writes] status_writes_keep [OF supervisor_stop_writes]
    status_writes_keep [OF task_ended_writes] in auto)

subsection \<open>Who may request LIVE\<close>

definition last_report_qualified :: "control_store \<Rightarrow> bool" where
  "last_report_qualified st \<longleftrightarrow> (\<exists>qs. reports st = Some qs \<and> qs \<noteq> [] \<and> last qs)"

fun switches_to_live :: "supervisor \<Rightarrow> control_op \<Rightarrow> bool" where
  \<comment> \<open>the operator's acknowledged request, with nothing running and the last readiness report qualified\<close>
  "switches_to_live sv (SetMode m ack src now up) \<longleftrightarrow> py_upper (py_strip m) = ''LIVE'' \<and> ack \<and> last_report_qualified (store sv)
     \<and> c_mode_running (row (store sv)) = None \<and> c_status (row (store sv)) \<in> {''STOPPED'', ''ERROR'', ''KILL_SWITCH_ACTIVE''}"
| "switches_to_live sv _ = False"

fun audit_answered :: "control_op \<Rightarrow> bool" where
  \<comment> \<open>the transaction of the audit of a switch did not fail\<close>
  "audit_answered (SetMode m ack src now up) = up 3" | "audit_answered _ = True"

definition live_authorised :: "audit_event list \<Rightarrow> bool" where
  \<comment> \<open>the audit holds a successful, acknowledged switch to LIVE with readiness PASS\<close>
  "live_authorised es \<longleftrightarrow> (\<exists>e \<in> set es. action e = ''MODE_SWITCH'' \<and> requested_mode e = Some ''LIVE'' \<and>
     success e \<and> operator_acknowledged e \<and> readiness_status e = Some ''PASS'')"

lemma live_only_by_switch:
  assumes inv: "control_inv (store sv)" and "c_mode_requested (row (store (control_step factory sv x))) = ''LIVE''"
    and "c_mode_requested (row (store sv)) \<noteq> ''LIVE''"
  shows "switches_to_live sv x" "audit_answered x \<Longrightarrow> live_authorised (audits (store (control_step factory sv x)))"
proof -
  have "\<not> status_writes (store sv) (store (control_step factory sv x))"
    using status_writes_keep assms(2,3) by metis
  then obtain m ack src now up where x: "x = SetMode m ack src now up"
    using supervisor_writes [OF inv, where x = x and factory = factory] assms(2,3) by auto
  have "switches_to_live sv x \<and> (audit_answered x \<longrightarrow> live_authorised (audits (store (control_step factory sv x))))"
  proof (cases rule: set_requested_mode_cases [of "store sv" m ack src now up])
    case (refused e es)
    then show ?thesis using assms(2,3) x by simp
  next
    case (switched mode state es)
    then have m: "mode = ''LIVE''" using assms(2) x by simp
    note g = mode_guard_NoneD [OF switched(3)] and r = read_state_inv [OF inv switched(2)]
    have ready: "last_report_qualified (store sv)" "ack" "latest_readiness_status (up 1) (store sv) = ''PASS''"
      using g(4) m latest_PASS [of "up 1" "store sv"] by (auto simp: last_report_qualified_def)
    have "switches_to_live sv x" using ready g(2,3) r switched(1) m x by auto
    moreover have "live_authorised (audits (store sv) @ es)" if "up 3"
      using switched(5) [OF that] m ready
      by (auto simp: live_authorised_def mode_switch_audit_def intro!: bexI [of _ "mode_switch_audit now ''LIVE'' (mode_requested state) True None src (Some ''PASS'') ack"])
    ultimately show ?thesis using switched(4) x by simp
  qed
  then show "switches_to_live sv x" "audit_answered x \<Longrightarrow> live_authorised (audits (store (control_step factory sv x)))" by blast+
qed

interpretation control: guarded_flag "control_step factory" "\<lambda>sv. control_inv (store sv)"
    "\<lambda>sv. c_mode_requested (row (store sv)) = ''LIVE''" switches_to_live for factory
  by unfold_locales (simp_all add: control_step_inv live_only_by_switch(1))

lemma run_audits: "control_inv (store sv) \<Longrightarrow> \<exists>es. audits (store (foldl (control_step factory) sv ops)) = audits (store sv) @ es"
proof (induction ops arbitrary: sv)
  case (Cons x ops)
  obtain es where "audits (store (control_step factory sv x)) = audits (store sv) @ es" using control_step_audits [OF Cons.prems] by blast
  moreover obtain fs where "audits (store (foldl (control_step factory) (control_step factory sv x) ops)) = audits (store (control_step factory sv x)) @ fs"
    using Cons.IH [OF control_step_inv [OF Cons.prems, of factory x]] by blast
  ultimately show ?case by simp
qed simp

lemma live_run_switched:
  assumes "c_mode_requested (row (store (foldl (control_step factory) (initial_supervisor now) ops))) = ''LIVE''"
  shows "\<exists>pre x post. ops = pre @ x # post \<and> switches_to_live (foldl (control_step factory) (initial_supervisor now) pre) x
    \<and> (audit_answered x \<longrightarrow> live_authorised (audits (store (foldl (control_step factory) (initial_supervisor now) ops))))"
proof -
  let ?run = "foldl (control_step factory) (initial_supervisor now)"
  have "c_mode_requested (row (store (initial_supervisor now))) \<noteq> ''LIVE''" by (simp add: initial_supervisor_def initial_row_def)
  from control.flag_granted [OF initial_inv this assms]
  obtain pre x post where p: "ops = pre @ x # post" "switches_to_live (?run pre) x"
      "c_mode_requested (row (store (?run (pre @ [x])))) = ''LIVE''" "c_mode_requested (row (store (?run pre))) \<noteq> ''LIVE''" by blast
  have inv: "control_inv (store (?run pre))" "control_inv (store (?run (pre @ [x])))"
    by (rule control.run_inv [OF initial_inv])+
  have "live_authorised (audits (store (?run ops)))" if "audit_answered x"
  proof -
    have "live_authorised (audits (store (?run (pre @ [x]))))"
      using live_only_by_switch(2) [OF inv(1), where x = x and factory = factory] p(3,4) that by simp
    moreover obtain es where "audits (store (?run ops)) = audits (store (?run (pre @ [x]))) @ es"
      using run_audits [OF inv(2), where ops = post and factory = factory] p(1) by auto
    ultimately show ?thesis by (auto simp: live_authorised_def)
  qed
  then show ?thesis using p(1,2) by blast
qed

subsection \<open>Properties\<close>

text \<open>C18: LIVE needs authority. Whatever mode switches, kill switches, starts, task ends, stops and
  readiness reports happen after the initial row is written, and whichever of their transactions
  fail: if LIVE is the requested mode, or the row says a LIVE runtime is running, some operation of the
  run was the operator's acknowledged switch to LIVE, made with nothing running and the last
  readiness report qualified, and the audit holds it as a successful switch with readiness PASS
  unless the transaction of that audit failed; and a row that says a runtime is running says so for
  the requested mode and with the kill switch off.\<close>

theorem live_mode_is_authorised:
  fixes factory :: "string \<Rightarrow> string py"
  assumes "sv = foldl (control_step factory) (initial_supervisor now) ops"
  shows "(c_mode_requested (row (store sv)) = ''LIVE'' \<or> c_status (row (store sv)) = ''RUNNING_LIVE''
          \<longrightarrow> (\<exists>pre x post. ops = pre @ x # post
                \<and> switches_to_live (foldl (control_step factory) (initial_supervisor now) pre) x
                \<and> (audit_answered x \<longrightarrow> live_authorised (audits (store sv)))))
     \<and> (\<forall>m. c_status (row (store sv)) = ''RUNNING_'' @ m \<longrightarrow>
          m = c_mode_requested (row (store sv)) \<and> \<not> c_kill (row (store sv)))"
proof -
  have inv: "control_inv (store sv)"
    unfolding assms by (rule control.run_inv [OF initial_inv])
  have "m = ''PAPER'' \<or> m = ''LIVE''" if "c_status (row (store sv)) = ''RUNNING_'' @ m" for m
    using inv that by (auto simp: control_inv_def VALID_STATUSES_def)
  moreover have "c_status (row (store sv)) = ''RUNNING_LIVE'' \<Longrightarrow> c_mode_requested (row (store sv)) = ''LIVE''"
    using inv by (auto simp: control_inv_def)
  ultimately show ?thesis using inv live_run_switched [of factory now ops, folded assms]
    by (auto simp: control_inv_def)
qed

theorem live_mode_is_authorised_witness:
  "let sv = foldl (control_step Inr) (initial_supervisor ''t0'')
              [ReadinessReport True, SetMode '' live'' True ''cli'' ''t1'' (\<lambda>_. True), StartRuntime ''t2'' (\<lambda>_. True)]
   in c_status (row (store sv)) = ''RUNNING_LIVE'' \<and> live_authorised (audits (store sv))"
proof -
  let ?ops = "[ReadinessReport True, SetMode '' live'' True ''cli'' ''t1'' (\<lambda>_. True), StartRuntime ''t2'' (\<lambda>_. True)]"
  let ?sv = "foldl (control_step Inr) (initial_supervisor ''t0'') ?ops"
  have "c_status (row (store ?sv)) = ''RUNNING_LIVE''"
    by (simp add: initial_supervisor_def initial_row_def set_requested_mode_def read_state_def str_eval switch_mode_def write_audit_def
        mode_guard_def VALID_MODES_def VALID_STATUSES_def latest_readiness_status_def after_def
        str_default_def supervisor_start_def set_status_def is_running_def Let_def)
  with live_mode_is_authorised [of ?sv Inr "''t0''" ?ops]
  obtain pre x post where p: "?ops = pre @ x # post" "audit_answered x \<longrightarrow> live_authorised (audits (store ?sv))" by blast
  have "list_all audit_answered ?ops" by simp
  then have "audit_answered x" unfolding p(1) by simp
  then show ?thesis using \<open>c_status (row (store ?sv)) = ''RUNNING_LIVE''\<close> p(2) by (simp only: Let_def)
qed

lemma lost_audit_leaves_live_requested:
  \<comment> \<open>the update is committed before the audit is written: an outage between them leaves LIVE requested
    with no successful switch on record, although the call raised\<close>
  "let sv = control_step Inr (initial_supervisor ''t0'') (ReadinessReport True);
       (st, r) = set_requested_mode (store sv) ''LIVE'' True ''cli'' ''t1'' (\<lambda>n. n < 3)
   in c_mode_requested (row st) = ''LIVE'' \<and> audits st = [] \<and> r = Inl DB_ERROR"
  by (simp add: initial_supervisor_def initial_row_def set_requested_mode_def read_state_def str_eval switch_mode_def write_audit_def
      mode_guard_def VALID_MODES_def latest_readiness_status_def after_def str_default_def Let_def)

text \<open>Mode switches. Only a switch that passes every check changes the row: it is to PAPER or LIVE, with
  the stored status stopped, in error or killed and nothing running, and for LIVE with an
  acknowledgement and the latest readiness report qualified.\<close>

theorem set_requested_mode_guarded:
  assumes "control_inv st" "row (fst (set_requested_mode st m ack src now up)) \<noteq> row st"
  shows "py_upper (py_strip m) \<in> set VALID_MODES \<and> c_mode_requested (row (fst (set_requested_mode st m ack src now up))) = py_upper (py_strip m)
        \<and> c_status (row st) \<in> {''STOPPED'', ''ERROR'', ''KILL_SWITCH_ACTIVE''} \<and> c_mode_running (row st) = None
        \<and> (py_upper (py_strip m) = ''LIVE'' \<longrightarrow> ack \<and> last_report_qualified st)"
proof (cases rule: set_requested_mode_cases [of st m ack src now up])
  case (refused e es)
  with assms(2) show ?thesis by auto
next
  case (switched mode state es)
  note g = mode_guard_NoneD [OF switched(3)] and r = read_state_inv [OF assms(1) switched(2)]
  show ?thesis using g r switched(1,4) latest_PASS [of "up 1" st] by (auto simp: last_report_qualified_def)
qed

text \<open>The kill switch. With the switch on, or with the database unreachable, the switch
  reads as active and a start runs no task; switching it on leaves nothing recorded as
  running once its update is committed.\<close>

theorem kill_switch_blocks_start:
  assumes "is_kill_switch_active (up 0) (store sv)"
  shows "task_running (fst (supervisor_start factory sv now up)) = task_running sv
     \<and> (v 1 \<longrightarrow> is_kill_switch_active b (fst (set_kill_switch st True src now v))
           \<and> c_mode_running (row (fst (set_kill_switch st True src now v))) = None
           \<and> c_status (row (fst (set_kill_switch st True src now v))) = ''KILL_SWITCH_ACTIVE'')"
proof
  show "task_running (fst (supervisor_start factory sv now up)) = task_running sv"
  proof (cases "read_state (up 0) (store sv)")
    case (Inr s)
    then have "kill_switch_active s" using assms by (simp add: is_kill_switch_active_def)
    then show ?thesis using Inr by (auto simp: supervisor_start_def Let_def case_prod_unfold)
  qed (simp add: supervisor_start_def)
qed (simp add: set_kill_switch_def read_state_def is_kill_switch_active_def write_audit_def Let_def)

text \<open>
  A cycle of the kill switch while the task runs leaves a row that says STOPPED although
  the task has not ended, and the mode can be switched meanwhile.
\<close>

lemma kill_switch_cycle_hides_running_task:
  "let up = (\<lambda>_. True); sv = foldl (control_step Inr) (initial_supervisor ''t0'')
              [StartRuntime ''t1'' up, KillSwitch True ''ui'' ''t2'' up, KillSwitch False ''ui'' ''t3'' up]
   in is_running sv \<and> c_status (row (store sv)) = ''STOPPED'' \<and> c_mode_running (row (store sv)) = None"
  by (simp add: initial_supervisor_def initial_row_def read_state_def str_eval set_kill_switch_def
      VALID_MODES_def VALID_STATUSES_def write_audit_def after_def bindE_def
      str_default_def supervisor_start_def set_status_def is_running_def Let_def)

end
