(* ===== verification/PortfolioAllocator.thy ===== *)
theory PortfolioAllocator
  imports PortfolioRisk "HOL-Library.Multiset"
begin

section \<open>Joint allocation of a candidate set (\<^verbatim>\<open>portfolio_risk.py\<close>)\<close>

text \<open>
  \<^verbatim>\<open>allocate_portfolio_candidates\<close> orders the candidates by preference and passes over them
  once, greedily: each is judged by the risk gate against a simulated snapshot, reduced to
  the capacity left, judged again, and its exposure added to the simulation. The pass is a
  recursion over the ordered candidates with the simulation as explicit state
  (\<open>AllocState\<close>). The SHA-256 identities of the inputs are not modelled. Python's sort is
  stable and so is the insertion sort here; they agree on keys without a NaN.
\<close>

subsection \<open>Candidates\<close>

fun allocation_json_safe :: "pyval \<Rightarrow> pyval" where
  "allocation_json_safe (VDict d) = VDict (sort_key fst (map (\<lambda>p. (fst p, allocation_json_safe (snd p))) d))"
| "allocation_json_safe (VList xs) = VList (map allocation_json_safe xs)"
| "allocation_json_safe (VFloat x) = (if is_finite x then VFloat x else VStr ''INVALID_NON_FINITE'')"
| "allocation_json_safe v = v"

fun first_number :: "pydict \<Rightarrow> string list \<Rightarrow> flt option py" where
  \<comment> \<open>the number of the first key that is present\<close>
  "first_number d [] = Inr None"
| "first_number d (k # ks) = (if dget d k \<noteq> VNone then maybe_num (dget d k) None else first_number d ks)"

record AllocCandidate =
  c_raw :: pydict
  c_inputs :: pyval
  c_id :: string
  c_symbol :: string
  c_side :: string
  c_entry :: "flt option"
  c_quantity :: "flt option"
  c_notional :: "flt option"
  c_risk :: "flt option"
  c_group :: string
  c_preferences :: "(string \<times> flt option) list"

definition NOTIONAL_KEYS :: "string list" where
  "NOTIONAL_KEYS = [''notional'', ''notional_usdt'', ''order_notional'', ''effective_notional'']"

definition preference_components :: "pydict \<Rightarrow> (string \<times> flt option) list py" where
  "preference_components raw =
    mapE (\<lambda>(name, ks). bindE (first_number raw ks) (\<lambda>x. Inr (name, x)))
      [(''expected_net_r'', [''expected_net_r'', ''expected_net_R'', ''expectancy_after_costs'']),
       (''effective_rr'', [''effective_rr'', ''expected_effective_r'']),
       (''score'', [''score'', ''decision_score'', ''symbol_score'']),
       (''execution_quality'', [''execution_quality'', ''liquidity_score''])]"

definition normalized_allocation_candidate :: "pydict \<Rightarrow> AllocCandidate py" where
  "normalized_allocation_candidate raw =
    (let symb = py_upper (py_strip (str_or (dget raw ''symbol'') []));
         side = py_upper (py_strip (str_or (dget raw ''side'') ''LONG'')) in
     bindE (first_number raw [''requested_quantity'', ''quantity'', ''qty'']) (\<lambda>qty.
     bindE (first_number raw [''entry'', ''entry_price'', ''price'']) (\<lambda>entry.
     bindE (first_number raw (''requested_notional'' # NOTIONAL_KEYS)) (\<lambda>given.
     bindE (preference_components raw) (\<lambda>prefs.
     bindE (first_number raw [''requested_risk'', ''risk_at_stop_usdt'', ''risk_at_stop'']) (\<lambda>risk.
     Inr \<lparr>c_raw = raw, c_inputs = allocation_json_safe (VDict raw),
       c_id = py_str (py_or (py_or (dget raw ''candidate_id'') (dget raw ''signal_id'')) (VStr (symb @ '':'' @ side))),
       c_symbol = symb, c_side = side, c_entry = entry, c_quantity = qty,
       c_notional = (case (given, qty, entry) of (None, Some q, Some p) \<Rightarrow> Some (flt_abs (fmul q p)) | _ \<Rightarrow> given),
       c_risk = risk,
       c_group = py_str (py_or (dget raw ''correlation_group'') (VStr (correlation_group_for_symbol symb []))),
       c_preferences = prefs\<rparr>))))))"

subsection \<open>Preference order\<close>

definition preference_value :: "AllocCandidate \<Rightarrow> string \<Rightarrow> flt" where
  "preference_value c k = (case map_of (c_preferences c) k of Some (Some x) \<Rightarrow> fneg x | _ \<Rightarrow> PInf)"

definition preference_sort_key :: "AllocCandidate \<Rightarrow> flt list \<times> string list" where
  "preference_sort_key c =
    (map (preference_value c) [''expected_net_r'', ''effective_rr'', ''score'', ''execution_quality''],
     [c_id c, c_symbol c, c_side c])"

fun key_less :: "flt list \<times> string list \<Rightarrow> flt list \<times> string list \<Rightarrow> bool" where
  \<comment> \<open>tuple order: the first component that differs decides\<close>
  "key_less (x # xs, s) (y # ys, t) = (if flt_eq x y then key_less (xs, s) (ys, t) else flt_less x y)"
| "key_less ([], s) ([], t) = (s < t)"
| "key_less _ _ = False"

fun insert_by_preference :: "AllocCandidate \<Rightarrow> AllocCandidate list \<Rightarrow> AllocCandidate list" where
  "insert_by_preference c [] = [c]"
| "insert_by_preference c (d # ds) =
    (if key_less (preference_sort_key c) (preference_sort_key d) then c # d # ds else d # insert_by_preference c ds)"

definition sort_by_preference :: "AllocCandidate list \<Rightarrow> AllocCandidate list" where
  "sort_by_preference cs = foldl (\<lambda>acc c. insert_by_preference c acc) [] cs"

subsection \<open>The simulation\<close>

record AllocState =
  total_exposure :: flt
  side_long :: flt
  side_short :: flt
  net_total :: flt
  symbol_exposures :: "(string \<times> flt) list"
  group_exposures :: "(string \<times> flt) list"
  group_counts :: "(string \<times> int) list"
  allocated_positions :: int

definition candidate_group_key :: "AllocCandidate \<Rightarrow> string" where
  "candidate_group_key c = group_key (c_group c) (c_side c)"

definition set_all :: "string list \<Rightarrow> 'v \<Rightarrow> (string \<times> 'v) list \<Rightarrow> (string \<times> 'v) list" where
  "set_all ks v d = foldl (\<lambda>acc k. AList.update k v acc) d ks"

definition initial_alloc_state :: "PortfolioRiskSnapshot \<Rightarrow> AllocCandidate list \<Rightarrow> AllocState" where
  \<comment> \<open>a legacy snapshot without the per-symbol maps: its scalars apply to every candidate\<close>
  "initial_alloc_state snap items =
    (let symbols = foldl (\<lambda>d (k, v). AList.update (py_upper k) v d) [] (symbol_notional_exposures snap);
         groups = correlation_group_exposures snap;
         legacy_groups = (groups = [] \<and> (case correlation_group snap of None \<Rightarrow> False | Some g \<Rightarrow> g \<noteq> []));
         keys = map (group_key (case correlation_group snap of None \<Rightarrow> [] | Some g \<Rightarrow> g)) (py_unique (map c_side items)) in
     \<lparr>total_exposure = opt_flt (total_notional_exposure snap), side_long = opt_flt (side_exposure_long snap),
      side_short = opt_flt (side_exposure_short snap), net_total = opt_flt (net_exposure snap),
      symbol_exposures = (if symbols = [] \<and> opt_flt (symbol_notional_exposure snap) \<noteq> Fin 0
        then set_all (map c_symbol items) (opt_flt (symbol_notional_exposure snap)) symbols else symbols),
      group_exposures = (if legacy_groups then set_all keys (opt_flt (correlation_group_exposure snap)) groups else groups),
      group_counts = (if legacy_groups
        then set_all keys (case correlated_position_count snap of None \<Rightarrow> 0 | Some n \<Rightarrow> n) (correlated_position_counts snap)
        else correlated_position_counts snap),
      allocated_positions = 0\<rparr>)"

definition override :: "pydict \<Rightarrow> string \<Rightarrow> pyval \<Rightarrow> pyval" where
  \<comment> \<open>the candidate's own evidence, where it has any\<close>
  "override raw k old = (if dget raw k \<noteq> VNone then dget raw k else old)"

definition candidate_snapshot :: "PortfolioRiskSnapshot \<Rightarrow> AllocCandidate \<Rightarrow> AllocState \<Rightarrow> PortfolioRiskSnapshot" where
  "candidate_snapshot base c st =
    (let raw = c_raw c; gk = candidate_group_key c in
     base\<lparr>open_position_count := map_option (\<lambda>n. n + allocated_positions st) (open_position_count base),
       concurrent_position_count := map_option (\<lambda>n. n + allocated_positions st) (concurrent_position_count base),
       total_notional_exposure := Some (total_exposure st),
       gross_exposure := Some (fadd (side_long st) (side_short st)),
       symbol_notional_exposure := Some (flt_at (symbol_exposures st) (c_symbol c)),
       side_exposure_long := Some (side_long st), side_exposure_short := Some (side_short st),
       net_exposure := Some (net_total st), correlation_group := Some (c_group c),
       correlation_group_exposure := Some (flt_at (group_exposures st) gk),
       correlated_position_count := Some (int_at (group_counts st) gk),
       symbol_cooldown_remaining_sec := override raw ''symbol_cooldown_remaining_sec'' (symbol_cooldown_remaining_sec base),
       trades_today_symbol := override raw ''trades_today_symbol'' (trades_today_symbol base),
       symbol_consecutive_loss_count := override raw ''symbol_consecutive_loss_count'' (symbol_consecutive_loss_count base),
       symbol_loss_cluster_active := override raw ''symbol_loss_cluster_active'' (symbol_loss_cluster_active base),
       risk_state_complete := override raw ''risk_state_complete'' (risk_state_complete base),
       risk_state_source := override raw ''risk_state_source'' (risk_state_source base)\<rparr>)"

subsection \<open>Capacity\<close>

type_synonym capacity = "flt \<times> string list"

definition count_cap :: "pyval \<Rightarrow> pyval \<Rightarrow> string \<Rightarrow> capacity \<Rightarrow> capacity py" where
  "count_cap bound current reason c =
    (if bound = VNone \<or> current = VNone then Inr c
     else bindE (py_int current) (\<lambda>n. bindE (py_int bound) (\<lambda>b.
       Inr (if b \<le> n then (Fin 0, snd c @ [reason]) else c))))"

definition room_cap :: "pyval \<Rightarrow> (flt \<Rightarrow> flt) \<Rightarrow> string \<Rightarrow> capacity \<Rightarrow> capacity py" where
  \<comment> \<open>\<open>room\<close> is what the limit leaves, negative room counts as none\<close>
  "room_cap bound room reason c =
    (if bound = VNone then Inr c
     else bindE (py_float bound) (\<lambda>b. let remaining = py_max (Fin 0) (room b) in
       Inr (if flt_less remaining (fst c) then (remaining, snd c @ [reason]) else c)))"

definition capacity_of :: "pydict \<Rightarrow> PortfolioRiskSnapshot \<Rightarrow> AllocState \<Rightarrow> AllocCandidate \<Rightarrow> flt \<Rightarrow> capacity py" where
  "capacity_of cfg sim st c requested =
    bindE (count_cap (max_open_positions sim) (int_opt_val (open_position_count sim)) ''MAX_OPEN_POSITIONS'' (requested, [])) (\<lambda>c1.
    bindE (count_cap (max_concurrent_positions sim) (int_opt_val (concurrent_position_count sim)) ''MAX_CONCURRENT_POSITIONS'' c1) (\<lambda>c2.
    bindE (count_cap (max_correlated_positions sim) (VInt (int_at (group_counts st) (candidate_group_key c))) ''CORRELATION_OVEREXPOSURE'' c2) (\<lambda>c3.
    bindE (room_cap (max_notional_exposure sim) (\<lambda>b. fsub b (total_exposure st)) ''MAX_NOTIONAL_EXPOSURE'' c3) (\<lambda>c4.
    bindE (room_cap (max_symbol_notional sim) (\<lambda>b. fsub b (flt_at (symbol_exposures st) (c_symbol c))) ''MAX_SYMBOL_NOTIONAL_EXPOSURE'' c4) (\<lambda>c5.
    bindE (room_cap (max_correlation_group_exposure sim) (\<lambda>b. fsub b (flt_at (group_exposures st) (candidate_group_key c))) ''CORRELATION_OVEREXPOSURE'' c5) (\<lambda>c6.
    bindE (room_cap (dget cfg ''max_same_side_exposure'') (\<lambda>b. fsub b (if c_side c = ''SHORT'' then side_short st else side_long st)) ''SAME_SIDE_OVEREXPOSURE'' c6) (\<lambda>c7.
    room_cap (dget cfg ''max_net_exposure'') (\<lambda>b. if c_side c = ''SHORT'' then fadd b (net_total st) else fsub b (net_total st)) ''NET_EXPOSURE_TOO_HIGH'' c7)))))))"

subsection \<open>The decision on one candidate\<close>

record CandidateAllocationDecision =
  al_id :: string
  al_symbol :: string
  al_side :: string
  al_action :: string
  al_reasons :: "string list"
  al_requested_notional :: "flt option"
  al_notional :: flt
  al_requested_risk :: "flt option"
  al_risk :: "flt option"
  al_requested_quantity :: "flt option"
  al_quantity :: "flt option"
  al_group :: string
  al_correlation :: flt
  al_concentration :: flt
  al_inputs :: pyval
  al_preferences :: "(string \<times> flt option) list"
  al_gate_accepted :: bool
  al_gate_reason :: string

definition REDUCIBLE_CAPACITY_REASONS :: "string list" where
  "REDUCIBLE_CAPACITY_REASONS = [''MAX_NOTIONAL_EXPOSURE'', ''MAX_SYMBOL_NOTIONAL_EXPOSURE'',
     ''CORRELATION_OVEREXPOSURE'', ''SAME_SIDE_OVEREXPOSURE'', ''NET_EXPOSURE_TOO_HIGH'']"

definition gate_candidate :: "AllocCandidate \<Rightarrow> pydict \<Rightarrow> pydict" where
  "gate_candidate c rest =
    [(''symbol'', VStr (c_symbol c)), (''side'', VStr (c_side c)), (''entry'', flt_opt_val (c_entry c))] @ rest"

definition final_allocation :: "pydict \<Rightarrow> PortfolioRiskSnapshot \<Rightarrow> AllocState \<Rightarrow> AllocCandidate \<Rightarrow> flt \<Rightarrow> capacity py" where
  \<comment> \<open>the capacity, and the gate once more on the reduced notional\<close>
  "final_allocation cfg snap st c requested =
    bindE (capacity_of cfg (candidate_snapshot snap c st) st c requested) (\<lambda>(cap, reasons).
    let allocated = py_max (Fin 0) (py_min requested cap) in
    if flt_less (Fin 0) allocated then
      bindE (evaluate_portfolio_risk (gate_candidate c [(''notional'', VFloat allocated)]) (candidate_snapshot snap c st) cfg) (\<lambda>gate.
        Inr (if risk_accepted gate then (allocated, reasons)
             else (Fin 0, reasons @ [if risk_reject_reason gate = [] then ''HARD_GATE_REJECTED'' else risk_reject_reason gate])))
    else Inr (allocated, reasons))"

definition explicit_hard_reason :: "AllocCandidate \<Rightarrow> string" where
  "explicit_hard_reason c = str_or (dget (c_raw c) ''hard_gate_reason'') []"

definition first_nonempty :: "string \<Rightarrow> string \<Rightarrow> string" where
  \<comment> \<open>\<^verbatim>\<open>s or t\<close>\<close>
  "first_nonempty s t = (if s = [] then t else s)"

definition allocation_for :: "pydict \<Rightarrow> PortfolioRiskSnapshot \<Rightarrow> AllocState \<Rightarrow> AllocCandidate \<Rightarrow> PortfolioRiskDecision \<Rightarrow> capacity py" where
  \<comment> \<open>notional and reasons; \<open>hard\<close> is the gate's verdict on the requested size\<close>
  "allocation_for cfg snap st c hard =
    (if dget (c_raw c) ''hard_gate_accepted'' = VBool False \<or> explicit_hard_reason c \<noteq> [] \<or>
        \<not> risk_accepted hard \<and> risk_reject_reason hard \<notin> set REDUCIBLE_CAPACITY_REASONS
     then Inr (Fin 0, [first_nonempty (explicit_hard_reason c) (first_nonempty (risk_reject_reason hard) ''HARD_GATE_REJECTED'')])
     else case c_notional c of
         None \<Rightarrow> Inr (Fin 0, [''INVALID_POSITION_SIZE''])
       | Some requested \<Rightarrow>
           if flt_le requested (Fin 0) \<or> \<not> is_finite requested then Inr (Fin 0, [''INVALID_POSITION_SIZE''])
           else final_allocation cfg snap st c requested)"

definition allocation_action :: "flt \<Rightarrow> flt option \<Rightarrow> string" where
  "allocation_action allocated requested =
    (if flt_le allocated (Fin 0) then ''REJECT''
     else if flt_less (fadd allocated (fl (1 / 1000000000000))) (opt_flt requested) then ''REDUCE_SIZE'' else ''APPROVE'')"

definition decide_candidate :: "pydict \<Rightarrow> PortfolioRiskSnapshot \<Rightarrow> AllocState \<Rightarrow> AllocCandidate \<Rightarrow> CandidateAllocationDecision py" where
  "decide_candidate cfg snap st c =
    bindE (evaluate_portfolio_risk
      (gate_candidate c [(''quantity'', flt_opt_val (c_quantity c)), (''notional'', flt_opt_val (c_notional c))])
      (candidate_snapshot snap c st) cfg) (\<lambda>hard.
    bindE (allocation_for cfg snap st c hard) (\<lambda>(allocated0, reasons0).
    let allocated = (if flt_le allocated0 (Fin 0) then Fin 0 else allocated0);
        action = allocation_action allocated0 (c_notional c);
        reasons = (if action = ''REJECT'' then (if reasons0 = [] then [''NO_PORTFOLIO_CAPACITY''] else reasons0)
                   else if action = ''APPROVE'' then [] else reasons0);
        scale = (if flt_le (opt_flt (c_notional c)) (Fin 0) then Fin 0 else fdiv allocated (opt_flt (c_notional c))) in
    Inr \<lparr>al_id = c_id c, al_symbol = c_symbol c, al_side = c_side c, al_action = action, al_reasons = py_unique reasons,
      al_requested_notional = c_notional c, al_notional = allocated, al_requested_risk = c_risk c,
      al_risk = map_option (\<lambda>r. fmul r scale) (c_risk c), al_requested_quantity = c_quantity c,
      al_quantity = map_option (\<lambda>q. fmul q scale) (c_quantity c), al_group = c_group c, al_correlation = allocated,
      al_concentration = (if no_equity (snap_equity snap) then Fin 0 else fdiv allocated (opt_flt (snap_equity snap))),
      al_inputs = c_inputs c, al_preferences = c_preferences c, al_gate_accepted = risk_accepted hard,
      al_gate_reason = first_nonempty (explicit_hard_reason c) (risk_reject_reason hard)\<rparr>))"

subsection \<open>The greedy pass\<close>

definition commit :: "AllocState \<Rightarrow> AllocCandidate \<Rightarrow> flt \<Rightarrow> AllocState" where
  "commit st c a =
    (if flt_less (Fin 0) a then
      st\<lparr>allocated_positions := allocated_positions st + 1, total_exposure := fadd (total_exposure st) a,
         symbol_exposures := bump (c_symbol c) a (symbol_exposures st),
         group_exposures := bump (candidate_group_key c) a (group_exposures st),
         group_counts := bump_int (candidate_group_key c) (group_counts st),
         side_short := (if c_side c = ''SHORT'' then fadd (side_short st) a else side_short st),
         side_long := (if c_side c = ''SHORT'' then side_long st else fadd (side_long st) a),
         net_total := (if c_side c = ''SHORT'' then fsub (net_total st) a else fadd (net_total st) a)\<rparr>
     else st)"

fun allocation_pass :: "pydict \<Rightarrow> PortfolioRiskSnapshot \<Rightarrow> AllocState \<Rightarrow> AllocCandidate list \<Rightarrow>
    (CandidateAllocationDecision list \<times> AllocState) py" where
  "allocation_pass cfg snap st [] = Inr ([], st)"
| "allocation_pass cfg snap st (c # cs) =
    bindE (decide_candidate cfg snap st c) (\<lambda>d.
    bindE (allocation_pass cfg snap (commit st c (al_notional d)) cs) (\<lambda>(ds, st').
    Inr (d # ds, st')))"

definition overall_action :: "CandidateAllocationDecision list \<Rightarrow> string" where
  "overall_action ds =
    (if \<not> list_ex (\<lambda>d. flt_less (Fin 0) (al_notional d)) ds then ''HOLD_CASH''
     else if list_all (\<lambda>d. al_action d = ''APPROVE'') ds then ''APPROVE'' else ''REDUCE_SIZE'')"

record PortfolioAllocationDecision =
  pa_mode :: string
  pa_timestamp :: string
  pa_action :: string
  pa_git_sha :: string
  pa_release :: string
  pa_runtime :: string
  pa_candidates :: "CandidateAllocationDecision list"

definition allocate_portfolio_candidates :: "pydict list \<Rightarrow> PortfolioRiskSnapshot \<Rightarrow> pydict \<Rightarrow> string \<Rightarrow> PortfolioAllocationDecision py" where
  "allocate_portfolio_candidates candidates snap cfg mode =
    bindE (mapE normalized_allocation_candidate candidates) (\<lambda>normalized.
    if \<not> distinct (map c_id normalized) then Inl (ValueError ''DUPLICATE_ALLOCATION_CANDIDATE_ID'')
    else bindE (allocation_pass cfg snap (initial_alloc_state snap normalized) (sort_by_preference normalized)) (\<lambda>(ds, st).
      Inr \<lparr>pa_mode = py_upper mode, pa_timestamp = snap_timestamp snap, pa_action = overall_action ds,
        pa_git_sha = py_str (dget_or cfg ''git_sha'' (dget_or cfg ''git_commit'' (VStr ''UNKNOWN_GIT_COMMIT''))),
        pa_release = py_str (dget_or cfg ''release_id'' (VStr ''UNKNOWN_RELEASE'')),
        pa_runtime = py_str (dget_or cfg ''runtime_identity'' (dget_or cfg ''runtime_instance_id'' (VStr ''UNKNOWN_RUNTIME''))),
        pa_candidates = ds\<rparr>))"

subsection \<open>Projection into a candidate\<close>

definition allocation_as_dict :: "CandidateAllocationDecision \<Rightarrow> pydict" where
  "allocation_as_dict a =
    [(''candidate_id'', VStr (al_id a)), (''symbol'', VStr (al_symbol a)), (''side'', VStr (al_side a)),
     (''action'', VStr (al_action a)), (''reason_codes'', VList (map VStr (al_reasons a))),
     (''requested_notional'', flt_opt_val (al_requested_notional a)), (''allocated_notional'', VFloat (al_notional a)),
     (''requested_risk'', flt_opt_val (al_requested_risk a)), (''allocated_risk'', flt_opt_val (al_risk a)),
     (''requested_quantity'', flt_opt_val (al_requested_quantity a)), (''allocated_quantity'', flt_opt_val (al_quantity a)),
     (''correlation_group'', VStr (al_group a)), (''correlation_contribution'', VFloat (al_correlation a)),
     (''concentration_contribution'', VFloat (al_concentration a)), (''candidate_inputs'', al_inputs a),
     (''preference_components'', VDict (map (\<lambda>(k, v). (k, flt_opt_val v)) (al_preferences a))),
     (''hard_gate_accepted'', VBool (al_gate_accepted a)), (''hard_gate_reason'', VStr (al_gate_reason a))]"

definition project_quantity :: "flt option \<Rightarrow> flt \<Rightarrow> pydict \<Rightarrow> pydict" where
  "project_quantity qty scale d =
    (case qty of None \<Rightarrow> d
     | Some q \<Rightarrow> let x = VFloat (fmul q scale); d' = dset ''qty'' x (dset ''quantity'' x d) in
         if ''effective_quantity'' \<in> fst ` set d' then dset ''effective_quantity'' x d' else d')"

definition apply_candidate_allocation :: "pydict \<Rightarrow> CandidateAllocationDecision \<Rightarrow> pydict py" where
  "apply_candidate_allocation cand a =
    (let projected = dset ''allocation_action'' (VStr (al_action a))
           (dset ''portfolio_allocation'' (VDict (allocation_as_dict a)) cand) in
     if al_action a \<in> {''APPROVE'', ''REDUCE_SIZE''} then
       bindE (first_number projected NOTIONAL_KEYS) (\<lambda>current.
       let downstream = (case current of None \<Rightarrow> al_notional a | Some x \<Rightarrow> py_min x (al_notional a));
           scale = (if flt_le (al_notional a) (Fin 0) then Fin 0 else fdiv downstream (al_notional a));
           d1 = dset ''allocated_risk'' (flt_opt_val (map_option (\<lambda>r. fmul r scale) (al_risk a)))
                  (dset ''allocated_notional'' (VFloat downstream) projected);
           d2 = foldl (\<lambda>d k. if k \<in> fst ` set d \<or> k = ''notional'' then dset k (VFloat downstream) d else d) d1 NOTIONAL_KEYS in
       Inr (project_quantity (al_quantity a) scale d2))
     else Inr (dset ''allocated_risk'' (VFloat (Fin 0)) (dset ''allocated_notional'' (VFloat (Fin 0)) projected)))"

subsection \<open>Facts about one decision\<close>

lemma gate_candidate_notional:
  "flt_less (Fin 0) a \<Longrightarrow> candidate_notional (gate_candidate c [(''notional'', VFloat a)]) cfg = Inr (Some a)"
  by (cases "c_entry c") (auto simp: candidate_notional_def gate_candidate_def maybe_num_def in_strs_def py_or_def flt_opt_val_def)

lemma gate_keeps_total:
  assumes "evaluate_portfolio_risk (gate_candidate c [(''notional'', VFloat a)]) (candidate_snapshot snap c st) cfg = Inr g"
    and "risk_accepted g" "flt_less (Fin 0) a"
  shows "keeps (VFloat (total_exposure st)) (max_notional_exposure snap) a"
  using assms(1)
proof (cases rule: evaluate_portfolio_riskE)
  case (pass n)
  have n: "n = a" using pass(1) gate_candidate_notional [OF assms(3)] by simp
  have "\<forall>x \<in> set (exposure_checks (candidate_snapshot snap c st) n). x = Inr None"
    using pass(3) by (simp add: first_reason_None risk_checks_def)
  then show ?thesis by (simp add: exposure_checks_def gate_none n candidate_snapshot_def Let_def flt_opt_val_def)
qed (use assms(2) in \<open>simp_all add: risk_fail_def\<close>)

definition granted :: "pydict \<Rightarrow> PortfolioRiskSnapshot \<Rightarrow> AllocState \<Rightarrow> AllocCandidate \<Rightarrow> flt \<Rightarrow> bool" where
  \<comment> \<open>an allocation the gate accepted, at most the requested notional\<close>
  "granted cfg snap st c a \<longleftrightarrow> flt_less (Fin 0) a \<and> is_finite a \<and> flt_le a (opt_flt (c_notional c)) \<and>
    (case evaluate_portfolio_risk (gate_candidate c [(''notional'', VFloat a)]) (candidate_snapshot snap c st) cfg of
       Inr g \<Rightarrow> risk_accepted g | Inl _ \<Rightarrow> False)"

lemma max_min_bounds:
  assumes "flt_less (Fin 0) (py_max (Fin 0) (py_min q x))" "is_finite q"
  shows "flt_le (py_max (Fin 0) (py_min q x)) q \<and> is_finite (py_max (Fin 0) (py_min q x))"
  using assms by (cases q; cases x) (auto simp: py_max_def py_min_def)

lemma final_allocationD:
  assumes "final_allocation cfg snap st c q = Inr (a, rs)" "is_finite q" "c_notional c = Some q"
  shows "a = Fin 0 \<or> granted cfg snap st c a"
proof -
  obtain cap rs0 where c: "capacity_of cfg (candidate_snapshot snap c st) st c q = Inr (cap, rs0)"
    using assms(1) by (auto simp: final_allocation_def bindE_Inr_iff)
  define al where "al = py_max (Fin 0) (py_min q cap)"
  show ?thesis
  proof (cases "flt_less (Fin 0) al")
    case True
    have "bindE (evaluate_portfolio_risk (gate_candidate c [(''notional'', VFloat al)]) (candidate_snapshot snap c st) cfg) (\<lambda>gate.
        Inr (if risk_accepted gate then (al, rs0)
             else (Fin 0, rs0 @ [if risk_reject_reason gate = [] then ''HARD_GATE_REJECTED'' else risk_reject_reason gate]))) = Inr (a, rs)"
      using assms(1) c True unfolding al_def by (simp add: final_allocation_def Let_def)
    then obtain g where g: "evaluate_portfolio_risk (gate_candidate c [(''notional'', VFloat al)]) (candidate_snapshot snap c st) cfg = Inr g"
        "if risk_accepted g then a = al else a = Fin 0"
      unfolding bindE_Inr_iff by (auto split: if_splits)
    show ?thesis
    proof (cases "risk_accepted g")
      case True
      then have "a = al" using g(2) by simp
      then show ?thesis using g(1) True \<open>flt_less (Fin 0) al\<close> max_min_bounds [of q cap] assms(2,3)
        by (simp add: granted_def al_def [symmetric])
    qed (use g in simp)
  next
    case False
    then have "a = al" using assms(1) c by (simp add: final_allocation_def Let_def al_def [symmetric])
    moreover have "al = Fin 0" using False by (auto simp: al_def py_max_def split: if_splits)
    ultimately show ?thesis by simp
  qed
qed

lemma allocation_forD:
  assumes "allocation_for cfg snap st c hard = Inr (a, rs)"
  shows "a = Fin 0 \<or> granted cfg snap st c a"
  using assms final_allocationD [of cfg snap st c _ a rs] unfolding allocation_for_def
  by (auto split: if_splits option.splits)

lemma decide_candidateD:
  assumes "decide_candidate cfg snap st c = Inr d"
  shows "al_notional d = Fin 0 \<and> al_action d = ''REJECT'' \<and> al_reasons d \<noteq> [] \<or>
    granted cfg snap st c (al_notional d) \<and> al_action d \<in> {''APPROVE'', ''REDUCE_SIZE''}"
    "al_requested_notional d = c_notional c" "al_id d = c_id c"
proof -
  obtain hard a rs where a: "allocation_for cfg snap st c hard = Inr (a, rs)"
    and d: "al_notional d = (if flt_le a (Fin 0) then Fin 0 else a)" "al_action d = allocation_action a (c_notional c)"
      "al_requested_notional d = c_notional c" "al_id d = c_id c"
      "al_reasons d = py_unique (if al_action d = ''REJECT'' then (if rs = [] then [''NO_PORTFOLIO_CAPACITY''] else rs)
                   else if al_action d = ''APPROVE'' then [] else rs)"
    using assms by (auto simp: decide_candidate_def bindE_Inr_iff Let_def)
  show "al_requested_notional d = c_notional c" "al_id d = c_id c" using d by simp_all
  from allocation_forD [OF a]
  show "al_notional d = Fin 0 \<and> al_action d = ''REJECT'' \<and> al_reasons d \<noteq> [] \<or>
    granted cfg snap st c (al_notional d) \<and> al_action d \<in> {''APPROVE'', ''REDUCE_SIZE''}"
  proof
    assume z: "a = Fin 0"
    then have "al_action d = ''REJECT''" using d by (simp add: allocation_action_def)
    then show ?thesis using d z by simp
  next
    assume g: "granted cfg snap st c a"
    then have "\<not> flt_le a (Fin 0)" by (auto simp: granted_def elim!: is_finiteE)
    then show ?thesis using d g by (simp add: allocation_action_def)
  qed
qed

subsection \<open>Facts about the pass\<close>

lemma granted_pos: "granted cfg snap st c a \<Longrightarrow> flt_less (Fin 0) a"
  by (simp add: granted_def)

lemma granted_keeps: "granted cfg snap st c a \<Longrightarrow> keeps (VFloat (total_exposure st)) (max_notional_exposure snap) a"
  unfolding granted_def by (auto intro: gate_keeps_total split: sum.splits)

lemma commit_total:
  assumes "is_f64 (total_exposure st)" "a = Fin 0 \<or> flt_less (Fin 0) a"
  shows "total_exposure (commit st c a) = fadd (total_exposure st) a" "is_f64 (total_exposure (commit st c a))"
  using assms by (auto simp: commit_def fadd_f64)

lemma pass_total:
  assumes "allocation_pass cfg snap st cs = Inr (ds, st')" "is_f64 (total_exposure st)"
  shows "total_exposure st' = foldl fadd (total_exposure st) (map al_notional ds) \<and>
    (list_all (\<lambda>d. al_notional d = Fin 0) ds \<or>
      max_notional_exposure snap = VNone \<or>
      (case py_float (max_notional_exposure snap) of Inr b \<Rightarrow> \<not> flt_less b (total_exposure st') | Inl _ \<Rightarrow> False))"
  using assms
proof (induction cs arbitrary: st ds)
  case (Cons c cs)
  obtain d es where d: "decide_candidate cfg snap st c = Inr d" "ds = d # es"
      "allocation_pass cfg snap (commit st c (al_notional d)) cs = Inr (es, st')"
    using Cons.prems(1) by (auto simp: bindE_Inr_iff)
  have a: "al_notional d = Fin 0 \<or> granted cfg snap st c (al_notional d)" using decide_candidateD(1) [OF d(1)] by blast
  then have z: "al_notional d = Fin 0 \<or> flt_less (Fin 0) (al_notional d)" using granted_pos by blast
  note ct = commit_total [OF Cons.prems(2) z]
  have IH: "total_exposure st' = foldl fadd (fadd (total_exposure st) (al_notional d)) (map al_notional es) \<and>
    (list_all (\<lambda>d. al_notional d = Fin 0) es \<or> max_notional_exposure snap = VNone \<or>
      (case py_float (max_notional_exposure snap) of Inr b \<Rightarrow> \<not> flt_less b (total_exposure st') | Inl _ \<Rightarrow> False))"
    using Cons.IH [OF d(3) ct(2)] by (simp add: ct(1))
  have zeros: "list_all (\<lambda>d. al_notional d = Fin 0) es \<Longrightarrow> is_f64 x \<Longrightarrow> foldl fadd x (map al_notional es) = x" for x
    by (induction es arbitrary: x) auto
  show ?case
  proof (cases "list_all (\<lambda>d. al_notional d = Fin 0) es")
    case True
    then have t: "total_exposure st' = fadd (total_exposure st) (al_notional d)" using IH zeros fadd_f64 by simp
    show ?thesis
    proof (cases "al_notional d = Fin 0")
      case True
      then show ?thesis using IH \<open>list_all _ es\<close> d(2) by simp
    next
      case False
      then have "keeps (VFloat (total_exposure st)) (max_notional_exposure snap) (al_notional d)" using a granted_keeps by blast
      then show ?thesis using IH d(2) t by (auto simp: keeps_def split: sum.splits)
    qed
  next
    case False
    then show ?thesis using IH d(2) by simp
  qed
qed simp

lemma pass_decisions:
  assumes "allocation_pass cfg snap st cs = Inr (ds, st')" "d \<in> set ds"
  shows "al_notional d = Fin 0 \<and> al_action d = ''REJECT'' \<and> al_reasons d \<noteq> [] \<or>
    flt_less (Fin 0) (al_notional d) \<and> is_finite (al_notional d) \<and>
    flt_le (al_notional d) (opt_flt (al_requested_notional d)) \<and> al_action d \<in> {''APPROVE'', ''REDUCE_SIZE''}"
  using assms
proof (induction cs arbitrary: st ds)
  case (Cons c cs)
  obtain e es where d: "decide_candidate cfg snap st c = Inr e" "ds = e # es"
      "allocation_pass cfg snap (commit st c (al_notional e)) cs = Inr (es, st')"
    using Cons.prems(1) by (auto simp: bindE_Inr_iff)
  show ?case
  proof (cases "d = e")
    case True
    then show ?thesis using decide_candidateD(1,2) [OF d(1)] by (auto simp: granted_def)
  next
    case False
    then show ?thesis using Cons.IH [OF d(3)] Cons.prems(2) d(2) by auto
  qed
qed simp

lemma pass_ids: "allocation_pass cfg snap st cs = Inr (ds, st') \<Longrightarrow> map al_id ds = map c_id cs"
  by (induction cs arbitrary: st ds) (auto simp: bindE_Inr_iff decide_candidateD(3))

lemma mset_insert_by_preference: "mset (insert_by_preference c cs) = add_mset c (mset cs)"
  by (induction cs) auto

lemma mset_sort_by_preference: "mset (sort_by_preference cs) = mset cs"
proof -
  have "mset (foldl (\<lambda>acc c. insert_by_preference c acc) acc cs) = mset acc + mset cs" for acc
    by (induction cs arbitrary: acc) (simp_all add: mset_insert_by_preference)
  then show ?thesis by (simp add: sort_by_preference_def)
qed


lemma allocateE:
  assumes "allocate_portfolio_candidates candidates snap cfg mode = Inr r"
  obtains normalized st' where "mapE normalized_allocation_candidate candidates = Inr normalized"
    "distinct (map c_id normalized)" "pa_action r = overall_action (pa_candidates r)"
    "allocation_pass cfg snap (initial_alloc_state snap normalized) (sort_by_preference normalized) = Inr (pa_candidates r, st')"
proof -
  obtain ns where n: "mapE normalized_allocation_candidate candidates = Inr ns" "distinct (map c_id ns)"
    and p: "bindE (allocation_pass cfg snap (initial_alloc_state snap ns) (sort_by_preference ns)) (\<lambda>(ds, st).
      Inr \<lparr>pa_mode = py_upper mode, pa_timestamp = snap_timestamp snap, pa_action = overall_action ds,
        pa_git_sha = py_str (dget_or cfg ''git_sha'' (dget_or cfg ''git_commit'' (VStr ''UNKNOWN_GIT_COMMIT''))),
        pa_release = py_str (dget_or cfg ''release_id'' (VStr ''UNKNOWN_RELEASE'')),
        pa_runtime = py_str (dget_or cfg ''runtime_identity'' (dget_or cfg ''runtime_instance_id'' (VStr ''UNKNOWN_RUNTIME''))),
        pa_candidates = ds\<rparr>) = Inr r"
    using assms unfolding allocate_portfolio_candidates_def bindE_Inr_iff [of "mapE _ _"] by (auto split: if_splits)
  obtain ds st' where "allocation_pass cfg snap (initial_alloc_state snap ns) (sort_by_preference ns) = Inr (ds, st')"
      "pa_candidates r = ds" "pa_action r = overall_action ds"
    using p by (auto simp: bindE_Inr_iff)
  then show ?thesis using that n by simp
qed

text \<open>The allocator decides every candidate exactly once and grants at most what was requested:
  a decision is a rejection with a reason and no exposure, or a positive finite notional not
  above the requested one; the cycle holds cash exactly when nothing was allocated.\<close>

theorem allocation_grants_at_most_requested:
  assumes "allocate_portfolio_candidates candidates snap cfg mode = Inr r"
  shows "distinct (map al_id (pa_candidates r)) \<and> length (pa_candidates r) = length candidates \<and>
    (\<forall>d \<in> set (pa_candidates r).
      al_notional d = Fin 0 \<and> al_action d = ''REJECT'' \<and> al_reasons d \<noteq> [] \<or>
      flt_less (Fin 0) (al_notional d) \<and> is_finite (al_notional d) \<and>
      flt_le (al_notional d) (opt_flt (al_requested_notional d)) \<and> al_action d \<in> {''APPROVE'', ''REDUCE_SIZE''}) \<and>
    (pa_action r = ''HOLD_CASH'') = list_all (\<lambda>d. al_notional d = Fin 0) (pa_candidates r)"
  using assms
proof (rule allocateE)
  fix ns st'
  assume n: "mapE normalized_allocation_candidate candidates = Inr ns" "distinct (map c_id ns)"
    and act: "pa_action r = overall_action (pa_candidates r)"
    and p: "allocation_pass cfg snap (initial_alloc_state snap ns) (sort_by_preference ns) = Inr (pa_candidates r, st')"
  have ids: "mset (map al_id (pa_candidates r)) = mset (map c_id ns)"
    using pass_ids [OF p] mset_sort_by_preference [of ns] by simp
  have len: "length ns = length candidates" using n(1) by (auto simp: mapE_Inr dest: list_all2_lengthD)
  have "distinct (map al_id (pa_candidates r))" using ids n(2) mset_eq_imp_distinct_iff by blast
  moreover have "length (pa_candidates r) = length candidates"
    using arg_cong [OF ids, of size] len by (metis length_map size_mset)
  moreover have "(pa_action r = ''HOLD_CASH'') = list_all (\<lambda>d. al_notional d = Fin 0) (pa_candidates r)"
    using pass_decisions [OF p] by (force simp: act overall_action_def list_ex_iff list_all_iff)
  ultimately show ?thesis using pass_decisions [OF p] by blast
qed

text \<open>C8: the allocator keeps the budget: adding the granted notionals to the snapshot's exposure, in
  order and with the rounding of the code, never ends above the exposure limit, unless nothing
  was granted.\<close>

theorem allocation_keeps_budget:
  assumes "allocate_portfolio_candidates candidates snap cfg mode = Inr r"
    and "total_notional_exposure snap = Some t" "is_f64 t" "py_float (max_notional_exposure snap) = Inr b"
  shows "list_all (\<lambda>d. al_notional d = Fin 0) (pa_candidates r) \<or>
    \<not> flt_less b (foldl fadd t (map al_notional (pa_candidates r)))"
  using assms(1)
proof (rule allocateE)
  fix ns st'
  assume p: "allocation_pass cfg snap (initial_alloc_state snap ns) (sort_by_preference ns) = Inr (pa_candidates r, st')"
  have "total_exposure (initial_alloc_state snap ns) = t" by (simp add: initial_alloc_state_def Let_def assms(2))
  with pass_total [OF p] assms(3,4) show ?thesis by (cases "max_notional_exposure snap") auto
qed

definition demo_candidate :: pydict where
  "demo_candidate = [(''candidate_id'', VStr ''A''), (''symbol'', VStr ''ETHUSDT''), (''side'', VStr ''LONG''),
     (''notional'', VFloat (Fin 512)), (''score'', VFloat (Fin 1))]"

lemma demo_normalized:
  "normalized_allocation_candidate demo_candidate =
    Inr \<lparr>c_raw = demo_candidate, c_inputs = allocation_json_safe (VDict demo_candidate), c_id = ''A'', c_symbol = ''ETHUSDT'',
      c_side = ''LONG'', c_entry = None, c_quantity = None, c_notional = Some (Fin 512), c_risk = None,
      c_group = ''CRYPTO_MAJOR'',
      c_preferences = [(''expected_net_r'', None), (''effective_rr'', None), (''score'', Some (Fin 1)), (''execution_quality'', None)]\<rparr>"
proof -
  have s: "py_upper (py_strip ''ETHUSDT'') = ''ETHUSDT''" "py_upper (py_strip ''LONG'') = ''LONG''"
    by (simp_all add: py_upper_id py_strip_id is_space_def)
  have g: "correlation_group_for_symbol ''ETHUSDT'' [] = ''CRYPTO_MAJOR''"
    by (simp add: correlation_group_for_symbol_def base_asset_def group_of_base_def QUOTE_SUFFIXES_def ends_with_def py_upper_id)
  have d: "dget demo_candidate ''candidate_id'' = VStr ''A''" "dget demo_candidate ''symbol'' = VStr ''ETHUSDT''"
    "dget demo_candidate ''side'' = VStr ''LONG''" "dget demo_candidate ''signal_id'' = VNone" "dget demo_candidate ''correlation_group'' = VNone"
    by (simp_all add: demo_candidate_def)
  have f: "first_number demo_candidate [''requested_quantity'', ''quantity'', ''qty''] = Inr None"
    "first_number demo_candidate [''entry'', ''entry_price'', ''price''] = Inr None"
    "first_number demo_candidate (''requested_notional'' # NOTIONAL_KEYS) = Inr (Some (Fin 512))"
    "first_number demo_candidate [''requested_risk'', ''risk_at_stop_usdt'', ''risk_at_stop''] = Inr None"
    "preference_components demo_candidate =
       Inr [(''expected_net_r'', None), (''effective_rr'', None), (''score'', Some (Fin 1)), (''execution_quality'', None)]"
    by (simp_all add: demo_candidate_def NOTIONAL_KEYS_def preference_components_def maybe_num_def in_strs_def)
  show ?thesis
    unfolding normalized_allocation_candidate_def d f by (simp add: s g Let_def py_or_def)
qed

definition demo_snap :: PortfolioRiskSnapshot where
  "demo_snap = \<lparr>snap_mode = ''PAPER'', snap_timestamp = ''t'', snap_equity = Some (Fin 1024), available_balance = Some (Fin 1024),
     open_position_count = Some 1, max_open_positions = VNone, concurrent_position_count = Some 1, max_concurrent_positions = VNone,
     total_notional_exposure = Some (Fin 64), max_notional_exposure = VFloat (Fin 256), symbol_notional_exposure = Some (Fin 0),
     max_symbol_notional = VNone, side_exposure_long = Some (Fin 64), side_exposure_short = Some (Fin 0),
     net_exposure = Some (Fin 64), gross_exposure = Some (Fin 64), leverage_estimate = None,
     symbol_cooldown_remaining_sec = VNone, trades_today_symbol = VNone, trades_today_global = None, daily_realized_pnl = None,
     daily_loss_pct = None, max_daily_loss_pct = VNone, rolling_peak_equity = None, rolling_drawdown_pct = None,
     max_rolling_drawdown_pct = VNone, consecutive_loss_count = None, symbol_consecutive_loss_count = VNone,
     loss_cluster_active = None, symbol_loss_cluster_active = VNone, risk_state_complete = VBool True, risk_state_source = VNone,
     risk_state_missing_fields = [], correlation_group = None, correlation_group_exposure = None,
     max_correlation_group_exposure = VNone, correlated_position_count = None, max_correlated_positions = VNone,
     symbol_notional_exposures = [(''SOLUSDT'', Fin 64)], correlation_group_exposures = [(''CRYPTO_HIGH_BETA_ALT:LONG'', Fin 64)],
     correlated_position_counts = [(''CRYPTO_HIGH_BETA_ALT:LONG'', 1)]\<rparr>"

definition demo_normal :: AllocCandidate where
  "demo_normal = \<lparr>c_raw = demo_candidate, c_inputs = allocation_json_safe (VDict demo_candidate), c_id = ''A'', c_symbol = ''ETHUSDT'',
      c_side = ''LONG'', c_entry = None, c_quantity = None, c_notional = Some (Fin 512), c_risk = None,
      c_group = ''CRYPTO_MAJOR'',
      c_preferences = [(''expected_net_r'', None), (''effective_rr'', None), (''score'', Some (Fin 1)), (''execution_quality'', None)]\<rparr>"

definition demo_sim :: AllocState where
  "demo_sim = \<lparr>total_exposure = Fin 64, side_long = Fin 64, side_short = Fin 0, net_total = Fin 64,
     symbol_exposures = [(''SOLUSDT'', Fin 64)], group_exposures = [(''CRYPTO_HIGH_BETA_ALT:LONG'', Fin 64)],
     group_counts = [(''CRYPTO_HIGH_BETA_ALT:LONG'', 1)], allocated_positions = 0\<rparr>"

lemma demo_initial: "initial_alloc_state demo_snap [demo_normal] = demo_sim"
  by (simp add: initial_alloc_state_def demo_snap_def demo_sim_def py_upper_id Let_def)

lemma demo_override: "k \<notin> fst ` set demo_candidate \<Longrightarrow> override demo_candidate k v = v"
  by (auto simp: override_def demo_candidate_def)

lemma demo_candidate_snapshot:
  "candidate_snapshot demo_snap demo_normal demo_sim = demo_snap\<lparr>gross_exposure := Some (Fin 64), correlation_group := Some ''CRYPTO_MAJOR'',
     correlation_group_exposure := Some (Fin 0), correlated_position_count := Some 0\<rparr>"
  by (simp add: candidate_snapshot_def demo_snap_def demo_sim_def demo_normal_def override_def demo_candidate_def candidate_group_key_def
      group_key_def flt_at_def int_at_def fl_eval Let_def)

lemma demo_gate:
  "evaluate_portfolio_risk (gate_candidate demo_normal [(''quantity'', VNone), (''notional'', VFloat (Fin 512))])
     (candidate_snapshot demo_snap demo_normal demo_sim) [] = Inr (risk_fail ''MAX_NOTIONAL_EXPOSURE'')"
  "evaluate_portfolio_risk (gate_candidate demo_normal [(''notional'', VFloat (Fin 192))])
     (candidate_snapshot demo_snap demo_normal demo_sim) [] = Inr (risk_pass (Fin 192))"
  unfolding demo_candidate_snapshot
  by (simp_all add: evaluate_portfolio_risk_def gate_candidate_def demo_normal_def demo_snap_def gate_eval
      int_to_float_small candidate_side_def fl_eval Let_def)

lemma demo_capacity:
  "capacity_of [] (candidate_snapshot demo_snap demo_normal demo_sim) demo_sim demo_normal (Fin 512) = Inr (Fin 192, [''MAX_NOTIONAL_EXPOSURE''])"
  unfolding demo_candidate_snapshot
  by (simp add: capacity_of_def count_cap_def room_cap_def demo_snap_def demo_sim_def fsub_def py_max_def fl_eval Let_def)

lemma demo_allocation:
  "\<exists>r. allocate_portfolio_candidates [demo_candidate] demo_snap [] ''PAPER'' = Inr r \<and>
     map al_notional (pa_candidates r) = [Fin 192] \<and> pa_action r = ''REDUCE_SIZE''"
proof -
  have h: "dget demo_candidate ''hard_gate_accepted'' = VNone" "explicit_hard_reason demo_normal = []"
    by (simp_all add: demo_candidate_def explicit_hard_reason_def demo_normal_def)
  have f: "allocation_for [] demo_snap demo_sim demo_normal (risk_fail ''MAX_NOTIONAL_EXPOSURE'') = Inr (Fin 192, [''MAX_NOTIONAL_EXPOSURE''])"
    using h demo_gate(2) demo_capacity
    by (simp add: allocation_for_def final_allocation_def REDUCIBLE_CAPACITY_REASONS_def risk_fail_def risk_pass_def
        demo_normal_def py_max_def py_min_def Let_def)
  have a: "allocation_action (Fin 192) (Some (Fin 512)) = ''REDUCE_SIZE''"
    by (simp add: allocation_action_def fl_eval)
  have s: "c_quantity demo_normal = None" "c_notional demo_normal = Some (Fin 512)" by (simp_all add: demo_normal_def)
  obtain d where d: "decide_candidate [] demo_snap demo_sim demo_normal = Inr d" "al_notional d = Fin 192" "al_action d = ''REDUCE_SIZE''"
    using demo_gate(1) f a by (simp add: decide_candidate_def s flt_opt_val_def Let_def)
  show ?thesis
    using demo_normalized [folded demo_normal_def] d demo_initial
    by (simp add: allocate_portfolio_candidates_def sort_by_preference_def overall_action_def)
qed

theorem allocation_grants_at_most_requested_witness:
  "\<exists>r. allocate_portfolio_candidates [demo_candidate] demo_snap [] ''PAPER'' = Inr r \<and> pa_action r \<noteq> ''HOLD_CASH'' \<and>
     length (pa_candidates r) = 1 \<and> al_action (hd (pa_candidates r)) \<noteq> ''REJECT''"
proof -
  obtain r where r: "allocate_portfolio_candidates [demo_candidate] demo_snap [] ''PAPER'' = Inr r"
      "map al_notional (pa_candidates r) = [Fin 192]" "pa_action r = ''REDUCE_SIZE''"
    using demo_allocation by metis
  obtain d where d: "pa_candidates r = [d]" "al_notional d = Fin 192" using r(2) by auto
  show ?thesis using allocation_grants_at_most_requested [OF r(1)] r d by auto
qed

theorem allocation_keeps_budget_witness:
  "\<exists>r. allocate_portfolio_candidates [demo_candidate] demo_snap [] ''PAPER'' = Inr r \<and>
     \<not> flt_less (Fin 256) (foldl fadd (Fin 64) (map al_notional (pa_candidates r)))"
proof -
  obtain r where r: "allocate_portfolio_candidates [demo_candidate] demo_snap [] ''PAPER'' = Inr r"
      "map al_notional (pa_candidates r) = [Fin 192]"
    using demo_allocation by metis
  obtain d where d: "pa_candidates r = [d]" "al_notional d = Fin 192" using r(2) by auto
  show ?thesis using allocation_keeps_budget [OF r(1), of "Fin 64" "Fin 256"] r d
    by (simp add: demo_snap_def is_f64_fin fl_eval)
qed

subsection \<open>Facts about the projection\<close>

lemma flt_le_self: "flt_le x x \<longleftrightarrow> x \<noteq> NaN"
  by (cases x) auto

lemma dget_project_quantity:
  "k \<notin> {''qty'', ''quantity'', ''effective_quantity''} \<Longrightarrow> dget (project_quantity q s d) k = dget d k"
  by (auto simp: project_quantity_def dget_dset Let_def split: option.splits)

lemma dget_notional_fold:
  "''notional'' \<in> set ks \<Longrightarrow>
    dget (foldl (\<lambda>d k. if k \<in> fst ` set d \<or> k = ''notional'' then dset k v d else d) d ks) ''notional'' = v"
proof -
  have keep: "dget d ''notional'' = v \<Longrightarrow>
      dget (foldl (\<lambda>d k. if k \<in> fst ` set d \<or> k = ''notional'' then dset k v d else d) d ks) ''notional'' = v" for d ks
    by (induction ks arbitrary: d) (auto simp: dget_dset)
  show "''notional'' \<in> set ks \<Longrightarrow> ?thesis"
    by (induction ks arbitrary: d) (auto simp: dget_dset keep)
qed

text \<open>A projection never enlarges an order: the notional written back is the granted one or the
  smaller notional the candidate already carried, and a rejected candidate gets zero.\<close>

theorem projection_never_enlarges:
  assumes "apply_candidate_allocation cand a = Inr d" and "al_notional a \<noteq> NaN"
    and "first_number cand NOTIONAL_KEYS \<noteq> Inr (Some NaN)"
  shows "(al_action a \<in> {''APPROVE'', ''REDUCE_SIZE''} \<and>
      (\<exists>x. dget d ''notional'' = VFloat x \<and> flt_le x (al_notional a) \<and>
        (x = al_notional a \<or> Inr (Some x) = first_number cand NOTIONAL_KEYS))) \<noteq>
    (al_action a \<notin> {''APPROVE'', ''REDUCE_SIZE''} \<and> dget d ''allocated_notional'' = VFloat (Fin 0))"
proof (cases "al_action a \<in> {''APPROVE'', ''REDUCE_SIZE''}")
  case True
  define projected where "projected = dset ''allocation_action'' (VStr (al_action a))
      (dset ''portfolio_allocation'' (VDict (allocation_as_dict a)) cand)"
  have keys: "first_number projected NOTIONAL_KEYS = first_number cand NOTIONAL_KEYS"
    by (simp add: projected_def NOTIONAL_KEYS_def dget_dset)
  obtain current where c: "first_number cand NOTIONAL_KEYS = Inr current"
    using assms(1) True by (auto simp: apply_candidate_allocation_def Let_def bindE_Inr_iff keys [unfolded projected_def])
  define x where "x = (case current of None \<Rightarrow> al_notional a | Some x \<Rightarrow> py_min x (al_notional a))"
  have "dget d ''notional'' = VFloat x"
    using assms(1) True
    by (auto simp: apply_candidate_allocation_def Let_def keys [unfolded projected_def] c x_def dget_project_quantity
        dget_notional_fold NOTIONAL_KEYS_def [THEN arg_cong [where f = set], simplified])
  moreover have "flt_le x (al_notional a)" "x = al_notional a \<or> Inr (Some x) = first_number cand NOTIONAL_KEYS"
    using assms(2,3) c flt_not_less by (auto simp: x_def py_min_def flt_le_self split: option.splits if_splits)
  ultimately show ?thesis using True by auto
next
  case False
  then show ?thesis using assms(1) by (auto simp: apply_candidate_allocation_def dget_dset)
qed


definition demo_grant :: CandidateAllocationDecision where
  "demo_grant = \<lparr>al_id = ''A'', al_symbol = ''X'', al_side = ''LONG'', al_action = ''APPROVE'',
     al_reasons = [], al_requested_notional = None, al_notional = Fin 64, al_requested_risk = None, al_risk = None,
     al_requested_quantity = None, al_quantity = None, al_group = ''G'', al_correlation = Fin 64, al_concentration = Fin 0,
     al_inputs = VNone, al_preferences = [], al_gate_accepted = True, al_gate_reason = []\<rparr>"

lemma demo_projection:
  "\<exists>d. apply_candidate_allocation demo_candidate demo_grant = Inr d \<and> dget d ''allocated_notional'' \<noteq> VFloat (Fin 0)"
  by (simp add: apply_candidate_allocation_def NOTIONAL_KEYS_def maybe_num_def in_strs_def py_min_def project_quantity_def
      demo_grant_def demo_candidate_def Let_def)

theorem projection_never_enlarges_witness:
  "\<exists>d x. apply_candidate_allocation demo_candidate demo_grant = Inr d \<and> dget d ''notional'' = VFloat x \<and> flt_le x (Fin 64)"
proof -
  obtain d where d: "apply_candidate_allocation demo_candidate demo_grant = Inr d" "dget d ''allocated_notional'' \<noteq> VFloat (Fin 0)"
    using demo_projection by blast
  have "first_number demo_candidate NOTIONAL_KEYS \<noteq> Inr (Some NaN)"
    by (simp add: demo_candidate_def NOTIONAL_KEYS_def maybe_num_def in_strs_def)
  from projection_never_enlarges [OF d(1) _ this] show ?thesis using d by (auto simp: demo_grant_def)
qed

lemma nan_candidate_is_projected:
  \<comment> \<open>\<^verbatim>\<open>min(nan, x)\<close> is nan: a NaN size in the candidate replaces the granted one\<close>
  "\<exists>d. apply_candidate_allocation [(''notional'', VFloat NaN)] demo_grant = Inr d \<and> dget d ''notional'' = VFloat NaN"
  by (simp add: apply_candidate_allocation_def NOTIONAL_KEYS_def maybe_num_def in_strs_def py_min_def project_quantity_def
      demo_grant_def Let_def)

end
