(* ===== verification/RealizedAccounting.thy ===== *)
theory RealizedAccounting
  imports PyVal
begin

section \<open>Cash identities (\<^verbatim>\<open>realized_accounting.py\<close>)\<close>

text \<open>
  What a closed position earned. A cash amount that is missing or not finite is None, and
  nothing sums over it: the ledger is complete or has no result. Profit and risk are floats
  as their annotations say; costs are whatever the caller collected.
\<close>

definition finite_cash :: "pyval \<Rightarrow> flt option" where
  \<comment> \<open>the only reader of a float that catches an OverflowError too\<close>
  "finite_cash v =
    (case v of VBool _ \<Rightarrow> None
     | _ \<Rightarrow> (case py_float v of Inl _ \<Rightarrow> None | Inr x \<Rightarrow> if is_finite x then Some x else None))"

record CashGeometry =
  geo_initial_risk :: flt
  geo_gross :: flt
  geo_gross_r :: "flt option"
  geo_final_slice :: flt

definition position_cash_geometry :: "flt \<Rightarrow> flt \<Rightarrow> flt \<Rightarrow> flt \<Rightarrow> string \<Rightarrow> flt option \<Rightarrow> flt \<Rightarrow> CashGeometry" where
  "position_cash_geometry fill stop quantity exit_price side remaining_quantity previous_gross =
    (let remaining = (case remaining_quantity of None \<Rightarrow> quantity | Some q \<Rightarrow> q);
         risk = fmul (flt_abs (fsub fill stop)) quantity;
         final_gross = fmul (fmul (fsub exit_price fill) remaining) (Fin (if side = ''SHORT'' then - 1 else 1));
         gross = fadd previous_gross final_gross in
     \<lparr>geo_initial_risk = risk, geo_gross = gross,
      geo_gross_r = (if flt_less (Fin 0) risk then Some (fdiv gross risk) else None), geo_final_slice = final_gross\<rparr>)"

record CashLedger =
  total_cost_usd :: "flt option"
  net_pnl_usd :: "flt option"
  net_r :: "flt option"
  ledger_missing :: "string list"

definition cost_cash :: "string \<Rightarrow> pyval \<Rightarrow> flt option" where
  \<comment> \<open>a usable cost: finite, and not negative unless it is funding\<close>
  "cost_cash key v =
    (case finite_cash v of None \<Rightarrow> None
     | Some cash \<Rightarrow> if flt_less cash (Fin 0) \<and> key \<noteq> ''funding_cost'' then None else Some cash)"

definition ledger_absent :: "flt \<Rightarrow> flt \<Rightarrow> (string \<times> pyval) list \<Rightarrow> string list \<Rightarrow> string list" where
  "ledger_absent gross_pnl initial_risk costs missing =
    missing @ map fst (filter (\<lambda>(k, v). cost_cash k v = None) costs)
    @ (if finite_cash (VFloat gross_pnl) = None then [''gross_pnl''] else [])
    @ (if finite_cash (VFloat initial_risk) = None \<or> flt_le initial_risk (Fin 0) then [''risk_usd''] else [])"

definition realized_cash_ledger :: "flt \<Rightarrow> flt \<Rightarrow> (string \<times> pyval) list \<Rightarrow> string list \<Rightarrow> CashLedger" where
  "realized_cash_ledger gross_pnl initial_risk costs missing =
    (let absent = ledger_absent gross_pnl initial_risk costs missing;
         parsed = List.map_filter (\<lambda>(k, v). cost_cash k v) costs;
         total_cost = (if absent = [] then Some (flt_sum parsed) else None);
         net = map_option (\<lambda>t. fsub gross_pnl t) total_cost in
     \<lparr>total_cost_usd = total_cost, net_pnl_usd = net, net_r = map_option (\<lambda>n. fdiv n initial_risk) net,
      ledger_missing = sorted_set absent\<rparr>)"

definition sum_cash :: "pyval list \<Rightarrow> flt option" where
  "sum_cash values =
    (let parsed = map finite_cash values in
     if None \<in> set parsed then None else Some (flt_sum (List.map_filter id parsed)))"

definition mean_cash :: "flt option \<Rightarrow> int \<Rightarrow> flt option" where
  "mean_cash total_cash count =
    (case total_cash of None \<Rightarrow> None | Some t \<Rightarrow> Some (if count = 0 then Fin 0 else fdiv t (Fin (of_int count))))"

lemma finite_cash_finite: "finite_cash v = Some x \<Longrightarrow> is_finite x"
  by (cases v) (auto simp: finite_cash_def split: sum.splits if_splits option.splits)

lemma finite_cash_VFloat [simp]: "finite_cash (VFloat x) = (if is_finite x then Some x else None)"
  by (simp add: finite_cash_def)

lemma cost_cash_bounds: "cost_cash k v = Some x \<Longrightarrow> is_finite x \<and> (k = ''funding_cost'' \<or> flt_le (Fin 0) x)"
  by (auto simp: cost_cash_def dest: finite_cash_finite elim!: is_finiteE split: option.splits if_splits)

lemma flt_sum_nonneg: "\<forall>x \<in> set xs. flt_le (Fin 0) x \<Longrightarrow> flt_le (Fin 0) (flt_sum xs)"
proof -
  have "\<forall>x \<in> set xs. flt_le (Fin 0) x \<Longrightarrow> flt_le (Fin 0) a \<Longrightarrow> flt_le (Fin 0) (foldl fadd a xs)" for a
    by (induction xs arbitrary: a) (simp_all add: fadd_nonneg)
  then show "\<forall>x \<in> set xs. flt_le (Fin 0) x \<Longrightarrow> ?thesis" by (simp add: flt_sum_def)
qed

text \<open>The cash ledger fails closed: it names a missing field exactly when it has no net result;
  a result rests on finite costs only, and without a funding item the costs are not negative.\<close>

theorem cash_ledger_fails_closed:
  "(ledger_missing (realized_cash_ledger g r costs missing) = []) =
     (net_pnl_usd (realized_cash_ledger g r costs missing) \<noteq> None) \<and>
   (net_pnl_usd (realized_cash_ledger g r costs missing) = None \<or>
     missing = [] \<and> is_finite g \<and> flt_less (Fin 0) r \<and>
     list_all (\<lambda>(k, v). cost_cash k v \<noteq> None) costs \<and>
     (''funding_cost'' \<in> fst ` set costs \<or> flt_le (Fin 0) (opt_flt (total_cost_usd (realized_cash_ledger g r costs missing)))))"
proof -
  have nn: "flt_le (Fin 0) (flt_sum (List.map_filter (\<lambda>(k, v). cost_cash k v) costs))" if "''funding_cost'' \<notin> fst ` set costs"
    using that cost_cash_bounds by (intro flt_sum_nonneg) (force simp: List.map_filter_def)
  have pos: "flt_less (Fin 0) r" if "is_finite r" "\<not> flt_le r (Fin 0)" using that by (auto elim!: is_finiteE)
  show ?thesis
    using nn pos by (auto simp: realized_cash_ledger_def Let_def ledger_absent_def list_all_iff filter_empty_conv split: if_splits)
qed

end
