(* ===== verification/BacktestPortfolio.thy ===== *)
theory BacktestPortfolio
  imports PortfolioRisk RealizedAccounting Machines PyTime
begin

section \<open>The portfolio of a backtest (\<^verbatim>\<open>BacktestPortfolioState\<close>)\<close>

text \<open>
  The mutable state behind a backtest's risk snapshots: open positions and pending entries,
  the equity and its peak, the daily results and counts. A method that raises keeps the
  changes it made before, so a step returns the state and the exception, if any.
\<close>

subsection \<open>Days\<close>

definition day_key :: "pyval \<Rightarrow> string py" where
  "day_key ts =
    bindE (catch_tv (py_float (py_or ts (VFloat (Fin 0)))) (Fin 0)) (\<lambda>raw.
    let seconds = (if flt_less (Fin 10000000000) raw then fdiv raw (Fin 1000) else raw) in
    if flt_less (Fin 0) seconds then utc_date seconds else Inr ''UNKNOWN_DAY'')"

subsection \<open>State\<close>

record BacktestPosition =
  bp_id :: string
  bp_symbol :: string
  bp_side :: string
  bp_notional :: flt
  bp_entry :: flt
  bp_opened :: int
  bp_group :: string

record BacktestPortfolioState =
  initial_equity :: flt
  current_equity :: "flt option"
  peak_equity :: "flt option"
  open_positions :: "(string \<times> BacktestPosition) list"
  pending_entries :: "(string \<times> flt) list"
  daily_pnl :: "(string \<times> flt) list"
  symbol_trade_counts :: "(string \<times> int) list"
  global_trade_counts :: "(string \<times> int) list"
  cooldowns :: "(string \<times> flt) list"
  loss_count :: int
  closed_position_ids :: "string set"
  cash_evidence_complete :: bool

definition new_portfolio :: "flt \<Rightarrow> BacktestPortfolioState" where
  \<comment> \<open>\<^verbatim>\<open>BacktestPortfolioState(initial_equity)\<close> after \<^verbatim>\<open>__post_init__\<close>\<close>
  "new_portfolio e = \<lparr>initial_equity = e, current_equity = Some e, peak_equity = Some e, open_positions = [],
     pending_entries = [], daily_pnl = [], symbol_trade_counts = [], global_trade_counts = [], cooldowns = [],
     loss_count = 0, closed_position_ids = {}, cash_evidence_complete = True\<rparr>"

subsection \<open>Methods\<close>

type_synonym effect = "BacktestPortfolioState \<times> exc option"

definition mark_pending :: "BacktestPortfolioState \<Rightarrow> string \<Rightarrow> flt option \<Rightarrow> effect" where
  "mark_pending s pid notional =
    (case notional of Some n \<Rightarrow> if flt_less (Fin 0) n then (s\<lparr>pending_entries := AList.update pid n (pending_entries s)\<rparr>, None) else (s, None)
     | None \<Rightarrow> (s, None))"

definition cancel_pending :: "BacktestPortfolioState \<Rightarrow> string \<Rightarrow> effect" where
  "cancel_pending s pid = (s\<lparr>pending_entries := AList.delete pid (pending_entries s)\<rparr>, None)"

definition make_position :: "string \<Rightarrow> string \<Rightarrow> string \<Rightarrow> flt \<Rightarrow> pyval \<Rightarrow> pyval \<Rightarrow> BacktestPosition py" where
  "make_position pid symb side n entry ts =
    bindE (py_float (py_or entry (VFloat (Fin 0)))) (\<lambda>px.
    bindE (py_int (py_or ts (VInt 0))) (\<lambda>t.
    Inr \<lparr>bp_id = pid, bp_symbol = symb, bp_side = py_upper side, bp_notional = n, bp_entry = px, bp_opened = t,
      bp_group = correlation_group_for_symbol symb []\<rparr>))"

definition open_position :: "BacktestPortfolioState \<Rightarrow> string \<Rightarrow> string \<Rightarrow> string \<Rightarrow> flt option \<Rightarrow> pyval \<Rightarrow> pyval \<Rightarrow> effect" where
  "open_position s pid symb side notional entry ts =
    (let s1 = fst (cancel_pending s pid) in
     case notional of None \<Rightarrow> (s1, None)
     | Some n \<Rightarrow> if flt_le n (Fin 0) then (s1, None)
         else (case make_position pid symb side n entry ts of
             Inl e \<Rightarrow> (s1, Some e)
           | Inr p \<Rightarrow> (s1\<lparr>open_positions := AList.update pid p (open_positions s1)\<rparr>, None)))"

definition loss_streak :: "int \<Rightarrow> flt \<Rightarrow> string \<Rightarrow> int" where
  "loss_streak n pnl reason =
    (if flt_less pnl (Fin 0) \<or> py_upper reason = ''SL_HIT'' then n + 1
     else if flt_less (Fin 0) pnl \<or> py_upper reason = ''TP_HIT'' then 0 else n)"

definition nonzero_or :: "flt option \<Rightarrow> flt \<Rightarrow> flt" where
  \<comment> \<open>\<^verbatim>\<open>x or y\<close> for an optional float\<close>
  "nonzero_or x y = (case x of None \<Rightarrow> y | Some v \<Rightarrow> if v = Fin 0 then y else v)"

definition close_position :: "BacktestPortfolioState \<Rightarrow> string \<Rightarrow> pyval \<Rightarrow> pyval \<Rightarrow> string \<Rightarrow> effect" where
  "close_position s pid ts net_pnl reason =
    (if pid \<in> closed_position_ids s then (s, None)
     else
       (let s1 = s\<lparr>closed_position_ids := insert pid (closed_position_ids s),
               pending_entries := AList.delete pid (pending_entries s),
               open_positions := AList.delete pid (open_positions s)\<rparr> in
        case (finite_cash net_pnl, cash_evidence_complete s1) of
          (Some pnl, True) \<Rightarrow>
            (let eq = fadd (opt_flt (current_equity s1)) pnl;
                 s2 = s1\<lparr>current_equity := Some eq,
                   peak_equity := Some (py_max (nonzero_or (peak_equity s1) (nonzero_or (Some eq) (Fin 0))) (nonzero_or (Some eq) (Fin 0)))\<rparr> in
             case day_key ts of
               Inl e \<Rightarrow> (s2, Some e)
             | Inr day \<Rightarrow> (s2\<lparr>daily_pnl := bump day pnl (daily_pnl s2), loss_count := loss_streak (loss_count s2) pnl reason\<rparr>, None))
        | _ \<Rightarrow> (s1\<lparr>cash_evidence_complete := False, current_equity := None\<rparr>, None)))"

definition record_trade_count :: "BacktestPortfolioState \<Rightarrow> string \<Rightarrow> pyval \<Rightarrow> effect" where
  "record_trade_count s symb ts =
    (case day_key ts of
       Inl e \<Rightarrow> (s, Some e)
     | Inr day \<Rightarrow> (s\<lparr>global_trade_counts := bump_int day (global_trade_counts s),
         symbol_trade_counts := bump_int (symb @ '':'' @ day) (symbol_trade_counts s)\<rparr>, None))"

definition notional_for :: "BacktestPortfolioState \<Rightarrow> pyval \<Rightarrow> pyval \<Rightarrow> pyval \<Rightarrow> pyval \<Rightarrow> flt option py" where
  "notional_for s balance risk_pct risk_scale notional =
    bindE (maybe_num notional None) (\<lambda>given.
    bindE (case given of Some x \<Rightarrow> Inr (Some x)
      | None \<Rightarrow> bindE (maybe_num balance (current_equity s)) (\<lambda>eq. bindE (maybe_num risk_pct None) (\<lambda>pct.
          Inr (case (eq, pct) of (Some e, Some p) \<Rightarrow> Some (fmul e (fdiv p (Fin 100))) | _ \<Rightarrow> None)))) (\<lambda>base.
    case base of None \<Rightarrow> Inr None
    | Some x \<Rightarrow> bindE (scale_candidate_exposure (VFloat x) risk_scale VNone False) (\<lambda>projection.
        Inr (case effective_notional projection of None \<Rightarrow> None
          | Some e \<Rightarrow> if flt_less (Fin 0) e then Some e else None))))"

definition positions_by_symbol :: "BacktestPortfolioState \<Rightarrow> (string \<times> pyval) list" where
  \<comment> \<open>the dictionary \<^verbatim>\<open>snapshot\<close> builds: one entry per symbol, the last position wins\<close>
  "positions_by_symbol s =
    foldl (\<lambda>d (_, p). AList.update (bp_symbol p) (VDict [(''notional'', VFloat (bp_notional p)), (''side'', VStr (bp_side p))]) d)
      [] (open_positions s)"

definition drawdown_of :: "BacktestPortfolioState \<Rightarrow> flt option" where
  "drawdown_of s =
    (case (peak_equity s, current_equity s) of
       (Some p, Some c) \<Rightarrow> if p = Fin 0 then None else Some (py_max (Fin 0) (fdiv (fsub p c) p))
     | _ \<Rightarrow> None)"

definition portfolio_snapshot :: "string \<Rightarrow> BacktestPortfolioState \<Rightarrow> string \<Rightarrow> string \<Rightarrow> string \<Rightarrow> pydict \<Rightarrow> pyval \<Rightarrow> PortfolioRiskSnapshot py" where
  "portfolio_snapshot clock s mode symb side cfg ts =
    bindE (day_key ts) (\<lambda>day.
    bindE (if truthy ts then bindE (py_float ts) (\<lambda>t. Inr (Some (fdiv t (Fin 1000)))) else Inr None) (\<lambda>now.
    bindE (snapshot_from_state clock
      \<lparr>st_mode = mode, st_symbol = symb, st_side = side, st_equity = current_equity s, st_available = current_equity s,
       st_positions = positions_by_symbol s, st_config = cfg, st_now = now, st_cooldown_until = cooldowns s,
       st_daily_pnl = (if cash_evidence_complete s then Some (flt_at (daily_pnl s) day) else None),
       st_trades_symbol = map_of (symbol_trade_counts s) (symb @ '':'' @ day), st_trades_global = map_of (global_trade_counts s) day,
       st_losses = Some (loss_count s), st_symbol_losses = None, st_peak = None, st_drawdown = drawdown_of s,
       st_complete = VNone, st_source = VNone, st_missing = [], st_overrides = []\<rparr>) (\<lambda>snap.
    Inr (if cash_evidence_complete s then snap
         else snap\<lparr>risk_state_complete := VBool False,
           risk_state_missing_fields := sorted_set (risk_state_missing_fields snap @ [''realized_net_cash''])\<rparr>))))"

subsection \<open>Runs\<close>

datatype portfolio_op =
    Pending string "flt option"
  | Cancel string
  | Open string string string "flt option" pyval pyval
  | Close string pyval pyval string
  | Trade string pyval

fun portfolio_effect :: "BacktestPortfolioState \<Rightarrow> portfolio_op \<Rightarrow> effect" where
  "portfolio_effect s (Pending pid n) = mark_pending s pid n"
| "portfolio_effect s (Cancel pid) = cancel_pending s pid"
| "portfolio_effect s (Open pid symb side n entry ts) = open_position s pid symb side n entry ts"
| "portfolio_effect s (Close pid ts pnl reason) = close_position s pid ts pnl reason"
| "portfolio_effect s (Trade symb ts) = record_trade_count s symb ts"

definition portfolio_step :: "BacktestPortfolioState \<Rightarrow> portfolio_op \<Rightarrow> BacktestPortfolioState" where
  \<comment> \<open>the state a caller goes on with, also after a caught exception\<close>
  "portfolio_step s x = fst (portfolio_effect s x)"

definition run_portfolio :: "flt \<Rightarrow> portfolio_op list \<Rightarrow> BacktestPortfolioState" where
  "run_portfolio e xs = foldl portfolio_step (new_portfolio e) xs"

subsection \<open>The abstract ledger\<close>

type_synonym cash_book = "(string \<times> flt option) list"

definition book_step :: "cash_book \<Rightarrow> portfolio_op \<Rightarrow> cash_book" where
  \<comment> \<open>the specification: the first close of a position enters its cash result, nothing else does\<close>
  "book_step b x =
    (case x of Close pid _ pnl _ \<Rightarrow> if pid \<in> fst ` set b then b else b @ [(pid, finite_cash pnl)] | _ \<Rightarrow> b)"

definition book_complete :: "cash_book \<Rightarrow> bool" where
  "book_complete b = list_all (\<lambda>p. snd p \<noteq> None) b"

definition book_equity :: "flt \<Rightarrow> cash_book \<Rightarrow> flt option" where
  "book_equity e b = (if book_complete b then Some (foldl fadd e (map (opt_flt \<circ> snd) b)) else None)"

definition implements :: "flt \<Rightarrow> BacktestPortfolioState \<Rightarrow> cash_book \<Rightarrow> bool" where
  "implements e s b \<longleftrightarrow> closed_position_ids s = fst ` set b \<and> cash_evidence_complete s = book_complete b \<and>
    current_equity s = book_equity e b"

lemma implements_new: "implements e (new_portfolio e) []"
  by (simp add: implements_def new_portfolio_def book_complete_def book_equity_def)

lemma other_steps:
  assumes "\<And>pid ts pnl reason. x \<noteq> Close pid ts pnl reason"
  shows "closed_position_ids (portfolio_step s x) = closed_position_ids s"
    "cash_evidence_complete (portfolio_step s x) = cash_evidence_complete s"
    "current_equity (portfolio_step s x) = current_equity s" "peak_equity (portfolio_step s x) = peak_equity s"
    "book_step b x = b"
  using assms by (cases x; simp add: portfolio_step_def mark_pending_def cancel_pending_def open_position_def
      record_trade_count_def book_step_def Let_def split: option.splits sum.splits)+

lemma close_again: "pid \<in> closed_position_ids s \<Longrightarrow> portfolio_step s (Close pid ts pnl reason) = s"
  by (simp add: portfolio_step_def close_position_def)

lemma close_cash:
  assumes "pid \<notin> closed_position_ids s" "finite_cash pnl = Some x" "cash_evidence_complete s"
  shows "closed_position_ids (portfolio_step s (Close pid ts pnl reason)) = insert pid (closed_position_ids s)"
    "cash_evidence_complete (portfolio_step s (Close pid ts pnl reason))"
    "current_equity (portfolio_step s (Close pid ts pnl reason)) = Some (fadd (opt_flt (current_equity s)) x)"
  using assms by (simp_all add: portfolio_step_def close_position_def Let_def split: sum.splits)

lemma close_no_cash:
  assumes "pid \<notin> closed_position_ids s" "finite_cash pnl = None \<or> \<not> cash_evidence_complete s"
  shows "closed_position_ids (portfolio_step s (Close pid ts pnl reason)) = insert pid (closed_position_ids s)"
    "\<not> cash_evidence_complete (portfolio_step s (Close pid ts pnl reason))"
    "current_equity (portfolio_step s (Close pid ts pnl reason)) = None"
  using assms by (auto simp: portfolio_step_def close_position_def Let_def split: option.splits bool.splits)

lemma implements_step:
  assumes "implements e s b"
  shows "implements e (portfolio_step s x) (book_step b x)"
proof (cases "\<exists>pid ts pnl reason. x = Close pid ts pnl reason")
  case False
  then show ?thesis using assms other_steps(1-4) [of x s] other_steps(5) [of x b] by (simp add: implements_def)
next
  case True
  then obtain pid ts pnl reason where x: "x = Close pid ts pnl reason" by blast
  have R: "closed_position_ids s = fst ` set b" "cash_evidence_complete s = book_complete b" "current_equity s = book_equity e b"
    using assms by (simp_all add: implements_def)
  show ?thesis
  proof (cases "pid \<in> closed_position_ids s")
    case True
    then show ?thesis using assms R(1) by (simp add: x close_again book_step_def)
  next
    case new: False
    have b: "book_step b (Close pid ts pnl reason) = b @ [(pid, finite_cash pnl)]"
      using new R(1) by (simp add: book_step_def)
    show ?thesis
    proof (cases "\<exists>c. finite_cash pnl = Some c \<and> cash_evidence_complete s")
      case True
      then obtain c where c: "finite_cash pnl = Some c" "cash_evidence_complete s" by blast
      show ?thesis using close_cash [OF new c] R c
        by (simp add: implements_def x b book_complete_def book_equity_def)
    next
      case False
      then have "finite_cash pnl = None \<or> \<not> cash_evidence_complete s" by (cases "finite_cash pnl") auto
      from close_no_cash [OF new this] show ?thesis using R False
        by (auto simp: implements_def x b book_complete_def book_equity_def)
    qed
  qed
qed

lemma run_implements: "implements e (run_portfolio e xs) (foldl book_step [] xs)"
proof -
  have "implements e s b \<Longrightarrow> implements e (foldl portfolio_step s xs) (foldl book_step b xs)" for s b
    by (induction xs arbitrary: s b) (simp_all add: implements_step)
  then show ?thesis using implements_new by (simp add: run_portfolio_def)
qed

text \<open>C16: the backtest portfolio implements a cash book: whatever the sequence of operations, raised
  exceptions included, the closed positions are those of the book, which enters the result of
  the first close of each position once and in order, and the equity is the initial equity plus
  those results, or unknown as soon as one of them is not a finite amount.\<close>

theorem backtest_refines_cash_book:
  "implements e (run_portfolio e xs) (foldl book_step [] xs)"
  by (rule run_implements)

subsection \<open>What no run undoes\<close>

definition cash_lost :: "BacktestPortfolioState \<Rightarrow> bool" where
  "cash_lost s \<longleftrightarrow> \<not> cash_evidence_complete s \<and> current_equity s = None"

lemma cash_lost_step: "cash_lost s \<Longrightarrow> cash_lost (portfolio_step s x)"
  by (cases x) (auto simp: cash_lost_def portfolio_step_def close_position_def mark_pending_def cancel_pending_def
      open_position_def record_trade_count_def Let_def split: option.splits sum.splits)

interpretation lost: invariant_machine portfolio_step cash_lost
  by unfold_locales (rule cash_lost_step)

lemma closed_ids_grow: "closed_position_ids s \<subseteq> closed_position_ids (portfolio_step s x)"
  by (cases x) (auto simp: portfolio_step_def close_position_def mark_pending_def cancel_pending_def
      open_position_def record_trade_count_def Let_def split: option.splits sum.splits bool.splits)

interpretation closed_ids: monotone_machine portfolio_step closed_position_ids
  by unfold_locales (rule closed_ids_grow)

lemma lost_equity: "implements e s b \<Longrightarrow> \<not> cash_evidence_complete s \<Longrightarrow> cash_lost s"
  by (simp add: implements_def cash_lost_def book_equity_def)

lemma run_append: "run_portfolio e (xs @ ys) = foldl portfolio_step (run_portfolio e xs) ys"
  by (simp add: run_portfolio_def)

lemma lost_snapshot:
  assumes "cash_lost s" "portfolio_snapshot clock s mode symb side cfg ts = Inr snap"
  shows "risk_state_complete snap = VBool False" "snap_equity snap = None"
  using assms by (auto simp: cash_lost_def portfolio_snapshot_def snapshot_from_state_def bindE_Inr_iff Let_def)

text \<open>C31: once a position closed without a finite cash result, no later operation restores the
  equity: every later snapshot is incomplete, and with the default policy the risk gate then
  rejects every candidate as unknown risk. Positions closed before stay closed.\<close>

theorem lost_cash_rejects_for_good:
  assumes "\<not> cash_evidence_complete (run_portfolio e xs)"
    and "portfolio_snapshot clock (run_portfolio e (xs @ ys)) mode symb side cfg ts = Inr snap"
    and "evaluate_portfolio_risk cand snap cfg' = Inr d"
    and "dget_or cfg' ''portfolio_risk_diagnostic_fail_open'' (VBool False) = VBool False"
    and "dget_or cfg' ''reject_unknown_portfolio_risk'' (VBool True) = VBool True"
  shows "\<not> risk_accepted d \<and> risk_reject_reason d = ''UNKNOWN_PORTFOLIO_RISK'' \<and>
    closed_position_ids (run_portfolio e xs) \<subseteq> closed_position_ids (run_portfolio e (xs @ ys))"
proof -
  have l: "cash_lost (run_portfolio e (xs @ ys))"
    unfolding run_append by (rule lost.run_inv [OF lost_equity [OF run_implements assms(1)]])
  have "d = risk_fail ''UNKNOWN_PORTFOLIO_RISK''"
    using assms(3-5) lost_snapshot [OF l assms(2)] by (auto simp: evaluate_portfolio_risk_def bindE_Inr_iff Let_def)
  then show ?thesis using closed_ids.run_mono [of "run_portfolio e xs" ys] by (simp add: risk_fail_def run_append)
qed

definition lost_run :: "portfolio_op list" where
  "lost_run = [Close ''A'' VNone VNone []]"

lemma lost_run_snapshot:
  "\<exists>snap. portfolio_snapshot ''t'' (run_portfolio (Fin 1000) (lost_run @ [Close ''B'' VNone (VInt 5) []]))
      ''BACKTEST'' ''ETHUSDT'' ''LONG'' [] VNone = Inr snap"
  by (simp add: lost_run_def run_portfolio_def portfolio_step_def close_position_def new_portfolio_def finite_cash_def
      int_to_float_small portfolio_snapshot_def day_key_def py_or_def positions_by_symbol_def snapshot_from_state_def
      loss_active_def Let_def)

lemma simple_candidate: "\<exists>d. candidate_notional [(''notional'', VFloat (Fin 8))] [] = Inr d"
  by (simp add: candidate_notional_def maybe_num_def in_strs_def py_or_def Let_def)

theorem lost_cash_rejects_for_good_witness:
  "\<exists>snap d. portfolio_snapshot ''t'' (run_portfolio (Fin 1000) (lost_run @ [Close ''B'' VNone (VInt 5) []]))
      ''BACKTEST'' ''ETHUSDT'' ''LONG'' [] VNone = Inr snap \<and>
    evaluate_portfolio_risk [(''notional'', VFloat (Fin 8))] snap [] = Inr d \<and>
    risk_reject_reason d = ''UNKNOWN_PORTFOLIO_RISK''"
proof -
  have c: "\<not> cash_evidence_complete (run_portfolio (Fin 1000) lost_run)"
    by (simp add: lost_run_def run_portfolio_def portfolio_step_def close_position_def new_portfolio_def finite_cash_def)
  obtain snap where s: "portfolio_snapshot ''t'' (run_portfolio (Fin 1000) (lost_run @ [Close ''B'' VNone (VInt 5) []]))
      ''BACKTEST'' ''ETHUSDT'' ''LONG'' [] VNone = Inr snap"
    using lost_run_snapshot by blast
  have "cash_lost (run_portfolio (Fin 1000) (lost_run @ [Close ''B'' VNone (VInt 5) []]))"
    unfolding run_append by (rule lost.run_inv [OF lost_equity [OF run_implements c]])
  note l = lost_snapshot [OF this s]
  obtain d where d: "evaluate_portfolio_risk [(''notional'', VFloat (Fin 8))] snap [] = Inr d"
    using simple_candidate l by (auto simp: evaluate_portfolio_risk_def Let_def)
  show ?thesis using lost_cash_rejects_for_good [OF c s d] s d by simp
qed

subsection \<open>Where the bookkeeping falls short\<close>

definition two_on_one_symbol :: "portfolio_op list" where
  "two_on_one_symbol =
    [Open ''A'' ''ETHUSDT'' ''LONG'' (Some (Fin 64)) (VFloat (Fin 100)) (VInt 0),
     Open ''B'' ''ETHUSDT'' ''LONG'' (Some (Fin 64)) (VFloat (Fin 100)) (VInt 0)]"

lemma positions_collapse_by_symbol:
  \<comment> \<open>two open positions on one symbol count as one, of half the exposure\<close>
  "length (open_positions (run_portfolio (Fin 1000) two_on_one_symbol)) = 2 \<and>
   (\<exists>snap. portfolio_snapshot ''t'' (run_portfolio (Fin 1000) two_on_one_symbol) ''BACKTEST'' ''ETHUSDT'' ''LONG'' [] VNone = Inr snap \<and>
     open_position_count snap = Some 1 \<and> total_notional_exposure snap = Some (Fin 64))"
  by (simp add: two_on_one_symbol_def run_portfolio_def portfolio_step_def open_position_def cancel_pending_def make_position_def
      new_portfolio_def py_or_def portfolio_snapshot_def day_key_def positions_by_symbol_def snapshot_from_state_def position_values_def
      maybe_num_def in_strs_def add_position_def no_exposure_def correlation_sides_def loss_active_def py_upper_id fl_eval Let_def)

lemma reopened_position_stays_open:
  \<comment> \<open>a position id that was closed once and is opened again can never be closed\<close>
  "length (open_positions (run_portfolio (Fin 1000)
     [Open ''A'' ''ETHUSDT'' ''LONG'' (Some (Fin 64)) (VFloat (Fin 100)) (VInt 0), Close ''A'' VNone (VFloat (Fin 1)) [],
      Open ''A'' ''ETHUSDT'' ''LONG'' (Some (Fin 64)) (VFloat (Fin 100)) (VInt 0), Close ''A'' VNone (VFloat (Fin 1)) []])) = 1"
  by (simp add: run_portfolio_def portfolio_step_def open_position_def cancel_pending_def make_position_def close_position_def
      new_portfolio_def py_or_def day_key_def Let_def)

end
