(* ===== verification/RemoteCommands.thy ===== *)
theory RemoteCommands
  imports PyTime Machines
begin

section \<open>Remote commands and the replay store (\<^verbatim>\<open>remote_control\<close>)\<close>

text \<open>
  The mail side of the remote control: the two read-only commands, their trusted argument
  vectors, the freshness window, the sender check and \<^verbatim>\<open>process_envelope\<close>, which reserves
  the message id before it runs anything. \<^verbatim>\<open>SQLiteReplayStore\<close> is shared with Telegram: a
  table of claimed ids and an append-only audit. A store operation takes the outcome of
  its transaction as an argument (\<open>True\<close>: the database raised and the transaction was
  rolled back). \<^verbatim>\<open>email.utils.parseaddr\<close> and \<^verbatim>\<open>datetime.fromisoformat\<close> are arguments;
  the executor is a callable argument in the code as well. \<^verbatim>\<open>CommandParseError\<close> is a
  ValueError.
\<close>

subsection \<open>Commands (\<^verbatim>\<open>commands.py\<close>)\<close>

record RemoteControlCommand =
  cmd_name :: string
  cmd_argv :: "string list"

record RemoteControlResult =
  res_command :: string
  res_returncode :: int
  res_stdout :: string
  res_stderr :: string

record RemoteControlDispatchResult =
  disp_command :: string
  disp_returncode :: int
  disp_stdout :: string
  disp_stderr :: string
  disp_formatted :: string

record RemoteControlConfig =
  rc_db :: string
  rc_cid :: string
  rc_run :: string
  rc_sender :: string

fun nonblank_text :: "pyval \<Rightarrow> bool" where
  "nonblank_text (VStr s) = (py_strip s \<noteq> [])"
| "nonblank_text _ = False"

fun text_of :: "pyval \<Rightarrow> string" where
  "text_of (VStr s) = s"
| "text_of _ = []"

definition load_remote_control_config :: "pyval \<Rightarrow> RemoteControlConfig py" where
  "load_remote_control_config data =
    (case data of VDict d \<Rightarrow>
       if set (map fst d) \<noteq> {''db'', ''cid'', ''run'', ''authorized_sender''}
         then Inl (ValueError ''remote control config must contain exactly db, cid, run, and authorized_sender'')
       else (case find (\<lambda>k. \<not> nonblank_text (dget d k)) [''db'', ''cid'', ''run'', ''authorized_sender''] of
           Some k \<Rightarrow> Inl (ValueError (''invalid remote control config field: '' @ k))
         | None \<Rightarrow> Inr \<lparr>rc_db = text_of (dget d ''db''), rc_cid = text_of (dget d ''cid''),
             rc_run = text_of (dget d ''run''), rc_sender = text_of (dget d ''authorized_sender'')\<rparr>)
     | _ \<Rightarrow> Inl (ValueError ''remote control config must be an object''))"

definition TRUSTED_KEYS :: "string list" where
  "TRUSTED_KEYS = [''remote_control_db_path'', ''remote_control_campaign_id'', ''remote_control_run_id'']"

definition trusted_values :: "RemoteControlConfig \<Rightarrow> (string \<times> string) list" where
  "trusted_values c = [(''remote_control_db_path'', rc_db c), (''remote_control_campaign_id'', rc_cid c),
     (''remote_control_run_id'', rc_run c)]"

definition require_trusted_config :: "(string \<times> string) list \<Rightarrow> string list \<Rightarrow> (string \<times> string) list py" where
  "require_trusted_config config ks =
    mapE (\<lambda>k. case map_of config k of None \<Rightarrow> Inl (ValueError (''missing trusted config value: '' @ k))
            | Some v \<Rightarrow> if v = [] then Inl (ValueError (''missing trusted config value: '' @ k)) else Inr (k, v)) ks"

definition str_at :: "(string \<times> string) list \<Rightarrow> string \<Rightarrow> string" where
  "str_at d k = (case map_of d k of None \<Rightarrow> [] | Some v \<Rightarrow> v)"

definition parse_remote_command :: "string \<Rightarrow> string py" where
  "parse_remote_command text =
    (if text = ''AF STATUS'' then Inr ''STATUS'' else if text = ''AF HEALTH'' then Inr ''HEALTH''
     else Inl (ValueError ''unsupported remote control command''))"

definition ops_argv :: "string \<Rightarrow> (string \<times> string) list \<Rightarrow> string list" where
  "ops_argv verb trusted = [''burnin_ops'', ''--db'', str_at trusted ''remote_control_db_path'', verb,
     ''--campaign-id'', str_at trusted ''remote_control_campaign_id'', ''--run-id'', str_at trusted ''remote_control_run_id'']"

definition map_remote_command :: "string \<Rightarrow> (string \<times> string) list \<Rightarrow> RemoteControlCommand py" where
  "map_remote_command command config =
    bindE (require_trusted_config config TRUSTED_KEYS) (\<lambda>trusted.
    if command = ''STATUS'' then Inr \<lparr>cmd_name = ''STATUS'', cmd_argv = ops_argv ''status'' trusted\<rparr>
    else if command = ''HEALTH'' then Inr \<lparr>cmd_name = ''HEALTH'', cmd_argv = ops_argv ''health'' trusted\<rparr>
    else Inl (ValueError ''unsupported remote control command''))"

definition format_result :: "string \<Rightarrow> int \<Rightarrow> string \<Rightarrow> string \<Rightarrow> string" where
  "format_result command rc out err =
    join '' | '' ([command @ '': '' @ (if rc = 0 then ''OK'' else ''FAIL'') @ '' rc='' @ show_int rc]
      @ (if out = [] then [] else [''stdout='' @ out]) @ (if err = [] then [] else [''stderr='' @ err]))"

definition format_remote_control_result :: "RemoteControlResult \<Rightarrow> nat \<Rightarrow> string" where
  "format_remote_control_result r n =
    format_result (res_command r) (res_returncode r) (take n (res_stdout r)) (take n (res_stderr r))"

definition checked_command :: "RemoteControlCommand \<Rightarrow> (string \<times> string) list \<Rightarrow> unit py" where
  \<comment> \<open>only the argument vector the trusted configuration implies is ever run\<close>
  "checked_command command config =
    (if cmd_name command \<notin> {''STATUS'', ''HEALTH''} then Inl (ValueError ''unsupported remote control command'')
     else bindE (map_remote_command (cmd_name command) config) (\<lambda>expected.
       if cmd_argv command \<noteq> cmd_argv expected then Inl (ValueError ''unexpected remote control argv'') else Inr ()))"

definition execute_remote_command ::
  "(string list \<Rightarrow> (int \<times> string \<times> string) py) \<Rightarrow> RemoteControlCommand \<Rightarrow> (string \<times> string) list \<Rightarrow> nat \<Rightarrow> RemoteControlResult py" where
  \<comment> \<open>\<open>run\<close> is \<^verbatim>\<open>subprocess.run\<close> of an argument vector without a shell\<close>
  "execute_remote_command run command config n =
    bindE (checked_command command config) (\<lambda>_.
    bindE (run (cmd_argv command)) (\<lambda>(rc, out, err).
    Inr \<lparr>res_command = cmd_name command, res_returncode = rc, res_stdout = take n out, res_stderr = take n err\<rparr>))"

definition dispatch_remote_control_command ::
  "(RemoteControlCommand \<Rightarrow> RemoteControlResult py) \<Rightarrow> RemoteControlCommand \<Rightarrow> (string \<times> string) list \<Rightarrow> nat \<Rightarrow> RemoteControlDispatchResult py" where
  "dispatch_remote_control_command executor command config n =
    bindE (checked_command command config) (\<lambda>_.
    bindE (executor command) (\<lambda>r.
    Inr \<lparr>disp_command = res_command r, disp_returncode = res_returncode r, disp_stdout = take n (res_stdout r),
      disp_stderr = take n (res_stderr r), disp_formatted = format_remote_control_result r n\<rparr>))"

definition run_remote_control_text ::
  "(RemoteControlCommand \<Rightarrow> RemoteControlResult py) \<Rightarrow> string \<Rightarrow> RemoteControlConfig \<Rightarrow> nat \<Rightarrow> RemoteControlDispatchResult py" where
  "run_remote_control_text executor text config n =
    bindE (parse_remote_command text) (\<lambda>name.
    bindE (map_remote_command name (trusted_values config)) (\<lambda>mapped.
    dispatch_remote_control_command executor mapped (trusted_values config) n))"

subsection \<open>Freshness (\<^verbatim>\<open>freshness.py\<close>)\<close>

datatype py_datetime = Aware int | Naive
  \<comment> \<open>an aware one is the instant it denotes\<close>

datatype received = AtText string | AtDatetime py_datetime | AtOther

definition MAX_COMMAND_AGE :: int where "MAX_COMMAND_AGE = 600000000"
definition FUTURE_CLOCK_TOLERANCE :: int where "FUTURE_CLOCK_TOLERANCE = 60000000"

definition parse_aware_timestamp :: "(string \<Rightarrow> py_datetime option) \<Rightarrow> received \<Rightarrow> string \<Rightarrow> int py" where
  "parse_aware_timestamp from_iso value name =
    (let parsed = (case value of AtText s \<Rightarrow> from_iso (py_strip s) | AtDatetime d \<Rightarrow> Some d | AtOther \<Rightarrow> None) in
     case parsed of
       None \<Rightarrow> Inl (ValueError (''remote control '' @ name @ '' must be a valid timestamp''))
     | Some Naive \<Rightarrow> Inl (ValueError (''remote control '' @ name @ '' must be timezone-aware''))
     | Some (Aware t) \<Rightarrow> Inr t)"

definition validate_message_freshness :: "(string \<Rightarrow> py_datetime option) \<Rightarrow> received \<Rightarrow> py_datetime \<Rightarrow> int py" where
  "validate_message_freshness from_iso received_at clock =
    bindE (parse_aware_timestamp from_iso received_at ''received_at'') (\<lambda>timestamp.
    bindE (parse_aware_timestamp from_iso (AtDatetime clock) ''current time'') (\<lambda>now.
    if MAX_COMMAND_AGE < now - timestamp then Inl (ValueError ''remote control message has expired'')
    else if now - timestamp < - FUTURE_CLOCK_TOLERANCE then Inl (ValueError ''remote control message timestamp is too far in the future'')
    else Inr timestamp))"

subsection \<open>Senders (\<^verbatim>\<open>auth.py\<close>)\<close>

definition is_valid_mailbox :: "string \<Rightarrow> bool" where
  "is_valid_mailbox mailbox \<longleftrightarrow>
    \<not> list_ex is_space mailbox \<and> count_list mailbox (CHR ''@'') = 1 \<and>
    takeWhile (\<lambda>c. c \<noteq> CHR ''@'') mailbox \<noteq> [] \<and>
    tl (dropWhile (\<lambda>c. c \<noteq> CHR ''@'') mailbox) \<noteq> [] \<and>
    CHR ''.'' \<in> set (tl (dropWhile (\<lambda>c. c \<noteq> CHR ''@'') mailbox))"

fun split_words :: "string \<Rightarrow> string \<Rightarrow> string list" where
  \<comment> \<open>\<^verbatim>\<open>s.split()\<close>; the first argument is the word read so far\<close>
  "split_words w [] = (if w = [] then [] else [w])"
| "split_words w (c # cs) =
    (if is_space c then (if w = [] then split_words [] cs else w # split_words [] cs) else split_words (w @ [c]) cs)"

definition normalize_mailbox :: "(string \<Rightarrow> string) \<Rightarrow> pyval \<Rightarrow> string py" where
  \<comment> \<open>\<open>parseaddr\<close> gives the address part\<close>
  "normalize_mailbox parseaddr sender =
    (case sender of
       VStr s \<Rightarrow>
         if py_strip s = [] then Inl (ValueError ''remote control sender must be a non-empty string'')
         else (let m = parseaddr (py_strip s); parts = split_words [] (py_strip s);
                   m2 = (if \<not> is_valid_mailbox m \<and> parts \<noteq> [] then parseaddr (last parts) else m) in
               if is_valid_mailbox m2 then Inr (py_lower m2)
               else Inl (ValueError ''remote control sender must contain a valid mailbox''))
     | _ \<Rightarrow> Inl (ValueError ''remote control sender must be a non-empty string''))"

definition is_sender_allowed :: "(string \<Rightarrow> string) \<Rightarrow> pyval \<Rightarrow> pyval list \<Rightarrow> bool" where
  "is_sender_allowed parseaddr sender allowed =
    (if allowed = [] then False
     else case normalize_mailbox parseaddr sender of
         Inl _ \<Rightarrow> False
       | Inr s \<Rightarrow> (case mapE (normalize_mailbox parseaddr) allowed of Inl _ \<Rightarrow> False | Inr ss \<Rightarrow> s \<in> set ss))"

subsection \<open>The replay store (\<^verbatim>\<open>audit.py\<close>)\<close>

record audit_row =
  au_transport :: string
  au_update :: "string option"
  au_identity :: "string option"
  au_command :: "string option"
  au_result :: string
  au_reason :: "string option"

record ReplayStore =
  replay_ids :: "string set"
  replay_audit :: "audit_row list"

definition MAX_MESSAGE_ID_CHARS :: nat where "MAX_MESSAGE_ID_CHARS = 128"

definition claim_message_id :: "ReplayStore \<Rightarrow> string \<Rightarrow> bool \<Rightarrow> ReplayStore \<times> bool py" where
  \<comment> \<open>the INSERT into the table with the id as primary key\<close>
  "claim_message_id r mid db_fails =
    (let m = py_strip mid in
     if m = [] then (r, Inl (ValueError ''message_id must be a non-empty string''))
     else if MAX_MESSAGE_ID_CHARS < length m then (r, Inl (ValueError ''message_id is too long''))
     else if db_fails then (r, Inl DatabaseError)
     else if m \<in> replay_ids r then (r, Inr False)
     else (r\<lparr>replay_ids := insert m (replay_ids r)\<rparr>, Inr True))"

definition strip_or_none :: "string option \<Rightarrow> string option" where
  "strip_or_none v = (case v of None \<Rightarrow> None | Some s \<Rightarrow> if py_strip s = [] then None else Some (py_strip s))"

definition record_remote_control_audit :: "ReplayStore \<Rightarrow> audit_row \<Rightarrow> bool \<Rightarrow> ReplayStore \<times> unit py" where
  "record_remote_control_audit r row db_fails =
    (if py_strip (au_transport row) = [] then (r, Inl (ValueError ''transport must be a non-empty string''))
     else if au_result row \<notin> {''ACCEPTED'', ''REJECTED''}
       then (r, Inl (ValueError ''remote control audit result must be ACCEPTED or REJECTED''))
     else if db_fails then (r, Inl DatabaseError)
     else (r\<lparr>replay_audit := replay_audit r @ [\<lparr>au_transport = py_strip (au_transport row), au_update = strip_or_none (au_update row),
         au_identity = strip_or_none (au_identity row), au_command = strip_or_none (au_command row), au_result = au_result row,
         au_reason = strip_or_none (au_reason row)\<rparr>]\<rparr>, Inr ()))"

subsection \<open>Envelopes (\<^verbatim>\<open>controller.py\<close>)\<close>

record Envelope =
  env_message_id :: pyval
  env_sender :: pyval
  env_body :: pyval
  env_received_at :: received

definition MAX_BODY_CHARS :: nat where "MAX_BODY_CHARS = 1024"

definition required_field :: "pyval \<Rightarrow> string \<Rightarrow> string py" where
  "required_field value name =
    (if nonblank_text value then Inr (py_strip (text_of value))
     else Inl (ValueError (''remote control envelope '' @ name @ '' must be a non-empty string'')))"

definition envelope_checks ::
  "(string \<Rightarrow> string) \<Rightarrow> (string \<Rightarrow> py_datetime option) \<Rightarrow> py_datetime \<Rightarrow> pyval list \<Rightarrow> Envelope \<Rightarrow> (string \<times> string) py" where
  \<comment> \<open>everything before the message id is reserved: the command and the id\<close>
  "envelope_checks parseaddr from_iso now allowed env =
    bindE (bindE (required_field (env_sender env) ''sender'') (\<lambda>_. normalize_mailbox parseaddr (env_sender env))) (\<lambda>sender.
    if \<not> is_sender_allowed parseaddr (VStr sender) allowed then Inl (ValueError ''unauthorized remote control sender'')
    else bindE (validate_message_freshness from_iso (env_received_at env) now) (\<lambda>_.
    bindE (required_field (env_body env) ''body'') (\<lambda>body.
    if CHR 0x0A \<in> set body \<or> CHR 0x0D \<in> set body then Inl (ValueError ''remote control body must be a single line'')
    else if MAX_BODY_CHARS < length body then Inl (ValueError ''remote control body is too long'')
    else bindE (parse_remote_command body) (\<lambda>name.
    bindE (required_field (env_message_id env) ''message_id'') (\<lambda>mid.
    if MAX_MESSAGE_ID_CHARS < length mid then Inl (ValueError ''remote control message_id is too long'')
    else Inr (name, mid))))))"

definition process_envelope ::
  "(string \<Rightarrow> string) \<Rightarrow> (string \<Rightarrow> py_datetime option) \<Rightarrow> (RemoteControlCommand \<Rightarrow> RemoteControlResult py) \<Rightarrow>
   RemoteControlConfig \<Rightarrow> pyval list \<Rightarrow> nat \<Rightarrow> ReplayStore \<Rightarrow> py_datetime \<times> bool \<times> Envelope \<Rightarrow>
   ReplayStore \<times> string list \<times> RemoteControlDispatchResult py" where
  \<comment> \<open>with the ids of the messages that were dispatched; the inputs of one call are the clock,
     the outcome of the store's transaction and the envelope\<close>
  "process_envelope parseaddr from_iso executor config allowed n r x =
    (case x of (now, db_fails, env) \<Rightarrow>
     case envelope_checks parseaddr from_iso now allowed env of
       Inl e \<Rightarrow> (r, [], Inl e)
     | Inr (name, mid) \<Rightarrow>
       (case claim_message_id r mid db_fails of
          (r', Inl e) \<Rightarrow> (r', [], Inl e)
        | (r', Inr False) \<Rightarrow> (r', [], Inl (ValueError ''duplicate remote control message_id''))
        | (r', Inr True) \<Rightarrow> (r', [mid],
            bindE (map_remote_command name (trusted_values config)) (\<lambda>command.
              dispatch_remote_control_command executor command (trusted_values config) n))))"

subsection \<open>Messages through the configuration file (\<^verbatim>\<open>__init__.py\<close>, \<^verbatim>\<open>envelope.py\<close>)\<close>

definition message_body :: "pyval \<Rightarrow> string py" where
  "message_body body =
    (if \<not> nonblank_text body then Inl (ValueError ''remote control body must be a non-empty string'')
     else let s = text_of body in
       if CHR 0x0A \<in> set s \<or> CHR 0x0D \<in> set s then Inl (ValueError ''remote control body must be a single line'')
       else if MAX_BODY_CHARS < length s then Inl (ValueError ''remote control body is too long'')
       else Inr (py_strip s))"

definition message_checks ::
  "(string \<Rightarrow> py_datetime option) \<Rightarrow> py_datetime \<Rightarrow> RemoteControlConfig \<Rightarrow> pyval \<Rightarrow> pyval \<Rightarrow> received \<Rightarrow> string py" where
  \<comment> \<open>the sender, the time and the message id, before the id is reserved\<close>
  "message_checks from_iso now config sender message_id received_at =
    (if \<not> nonblank_text sender then Inl (ValueError ''remote control sender must be a non-empty string'')
     else if py_strip (text_of sender) \<noteq> rc_sender config then Inl (ValueError ''unauthorized remote control sender'')
     else bindE (validate_message_freshness from_iso received_at now) (\<lambda>_.
       if \<not> nonblank_text message_id then Inl (ValueError ''remote control message_id must be a non-empty string'')
       else let mid = py_strip (text_of message_id) in
         if MAX_MESSAGE_ID_CHARS < length mid then Inl (ValueError ''remote control message_id is too long'') else Inr mid))"

definition run_remote_control_message ::
  "(string \<Rightarrow> py_datetime option) \<Rightarrow> (RemoteControlCommand \<Rightarrow> RemoteControlResult py) \<Rightarrow> RemoteControlConfig py \<Rightarrow> nat \<Rightarrow>
   ReplayStore \<Rightarrow> py_datetime \<Rightarrow> bool \<Rightarrow> pyval \<Rightarrow> pyval \<Rightarrow> received \<Rightarrow> pyval \<Rightarrow> ReplayStore \<times> RemoteControlDispatchResult py" where
  \<comment> \<open>here the body is looked at after the message id has been reserved\<close>
  "run_remote_control_message from_iso executor config_file n r now db_fails sender message_id received_at body =
    (case bindE config_file (\<lambda>config. bindE (message_checks from_iso now config sender message_id received_at) (\<lambda>mid. Inr (config, mid))) of
       Inl e \<Rightarrow> (r, Inl e)
     | Inr (config, mid) \<Rightarrow>
       (case claim_message_id r mid db_fails of
          (r', Inl e) \<Rightarrow> (r', Inl e)
        | (r', Inr False) \<Rightarrow> (r', Inl (ValueError ''duplicate remote control message_id''))
        | (r', Inr True) \<Rightarrow> (r',
            bindE (message_body body) (\<lambda>text. bindE (parse_remote_command text) (\<lambda>name.
            bindE (map_remote_command name (trusted_values config)) (\<lambda>command.
            dispatch_remote_control_command executor command (trusted_values config) n))))))"

definition strip_required :: "pyval \<Rightarrow> string \<Rightarrow> pyval py" where
  "strip_required value name =
    (if nonblank_text value then Inr (VStr (py_strip (text_of value)))
     else Inl (ValueError (''remote control envelope '' @ name @ '' must be a non-empty string'')))"

definition run_remote_control_envelope ::
  "(string \<Rightarrow> string) \<Rightarrow> (string \<Rightarrow> py_datetime option) \<Rightarrow> (RemoteControlCommand \<Rightarrow> RemoteControlResult py) \<Rightarrow>
   RemoteControlConfig py \<Rightarrow> pyval list \<Rightarrow> nat \<Rightarrow> ReplayStore \<Rightarrow> py_datetime \<Rightarrow> bool \<Rightarrow> Envelope \<Rightarrow> pyval \<Rightarrow>
   ReplayStore \<times> RemoteControlDispatchResult py" where
  "run_remote_control_envelope parseaddr from_iso executor config_file allowed n r now db_fails env subject =
    (case bindE (strip_required (env_sender env) ''sender'') (\<lambda>sender.
          if \<not> is_sender_allowed parseaddr sender allowed then Inl (ValueError ''unauthorized remote control sender'')
          else bindE (strip_required (env_body env) ''body'') (\<lambda>body.
            bindE (normalize_mailbox parseaddr sender) (\<lambda>mailbox.
            bindE (strip_required (env_message_id env) ''message_id'') (\<lambda>mid.
            if (case subject of VNone \<Rightarrow> False | VStr _ \<Rightarrow> False | _ \<Rightarrow> True)
              then Inl (ValueError ''remote control envelope subject must be a string'')
            else Inr (mailbox, mid, body))))) of
       Inl e \<Rightarrow> (r, Inl e)
     | Inr (mailbox, mid, body) \<Rightarrow>
         run_remote_control_message from_iso executor config_file n r now db_fails (VStr mailbox) mid (env_received_at env) body)"

subsection \<open>Facts about the replay store\<close>

lemma claim_message_id_True:
  "claim_message_id r mid f = (r', Inr True) \<Longrightarrow>
    py_strip mid \<notin> replay_ids r \<and> replay_ids r' = insert (py_strip mid) (replay_ids r) \<and> replay_audit r' = replay_audit r"
  by (auto simp: claim_message_id_def Let_def split: if_splits)

lemma claim_message_id_not:
  "claim_message_id r mid f = (r', x) \<Longrightarrow> x \<noteq> Inr True \<Longrightarrow> r' = r"
  by (auto simp: claim_message_id_def Let_def split: if_splits)

lemma audit_keeps_ids: "replay_ids (fst (record_remote_control_audit r row f)) = replay_ids r"
  by (simp add: record_remote_control_audit_def)

lemma envelope_checks_id: "envelope_checks pa fiso now allowed env = Inr (name, mid) \<Longrightarrow> py_strip mid = mid"
  by (auto simp: envelope_checks_def bindE_Inr_iff required_field_def split: if_splits)

definition envelope_step where
  "envelope_step pa fiso ex cfg allowed n r x = fst (process_envelope pa fiso ex cfg allowed n r x)"

definition envelope_dispatches where
  "envelope_dispatches pa fiso ex cfg allowed n r x = fst (snd (process_envelope pa fiso ex cfg allowed n r x))"

lemma process_envelope_claims:
  assumes "process_envelope pa fiso ex cfg allowed n r x = (r', ids, res)"
  shows "distinct ids \<and> set ids \<inter> replay_ids r = {} \<and> replay_ids r \<union> set ids \<subseteq> replay_ids r'"
proof -
  obtain now f env where x: "x = (now, f, env)" by (cases x)
  show ?thesis
  proof (cases "envelope_checks pa fiso now allowed env")
    case (Inl e)
    then show ?thesis using assms by (auto simp: process_envelope_def x)
  next
    case (Inr p)
    obtain name mid where p: "p = (name, mid)" by (cases p)
    obtain r1 c where c: "claim_message_id r mid f = (r1, c)" by fastforce
    show ?thesis
    proof (cases "c = Inr True")
      case True
      then have "ids = [mid] \<and> r' = r1" using assms Inr p c by (simp add: process_envelope_def x)
      moreover have "py_strip mid \<notin> replay_ids r \<and> replay_ids r1 = insert (py_strip mid) (replay_ids r)"
        using claim_message_id_True c True by blast
      ultimately show ?thesis using envelope_checks_id [OF Inr [unfolded p]] by auto
    next
      case False
      then have "r1 = r" using claim_message_id_not c by blast
      then have "ids = [] \<and> r' = r"
      proof (cases c)
        case (Inl e)
        then show ?thesis using assms \<open>envelope_checks _ _ _ _ _ = _\<close> p c \<open>r1 = r\<close> by (simp add: process_envelope_def x)
      next
        case (Inr b)
        then show ?thesis using assms \<open>envelope_checks _ _ _ _ _ = _\<close> p c \<open>r1 = r\<close> False by (simp add: process_envelope_def x)
      qed
      then show ?thesis by simp
    qed
  qed
qed

interpretation envelopes: once_only "envelope_step pa fiso ex cfg allowed n" "envelope_dispatches pa fiso ex cfg allowed n" replay_ids
  for pa fiso ex cfg allowed n
proof unfold_locales
  fix s x
  obtain r' ids res where "process_envelope pa fiso ex cfg allowed n s x = (r', ids, res)" by (cases "process_envelope pa fiso ex cfg allowed n s x") auto
  from process_envelope_claims [OF this] this
  show "distinct (envelope_dispatches pa fiso ex cfg allowed n s x)"
    "set (envelope_dispatches pa fiso ex cfg allowed n s x) \<inter> replay_ids s = {}"
    "replay_ids s \<union> set (envelope_dispatches pa fiso ex cfg allowed n s x) \<subseteq> replay_ids (envelope_step pa fiso ex cfg allowed n s x)"
    by (simp_all add: envelope_step_def envelope_dispatches_def)
qed

text \<open>A mail message is dispatched at most once: over any sequence of envelopes, clocks and store
  failures, the dispatched message ids are distinct and none was reserved before.\<close>

theorem envelope_dispatched_once:
  "distinct (trace (envelope_step pa fiso ex cfg allowed n) (envelope_dispatches pa fiso ex cfg allowed n) r xs) \<and>
   set (trace (envelope_step pa fiso ex cfg allowed n) (envelope_dispatches pa fiso ex cfg allowed n) r xs) \<inter> replay_ids r = {}"
  by (rule envelopes.trace_once)

text \<open>What a mail message can make the program do: a message is dispatched only from an allowed sender,
  inside the freshness window, and then the executor gets exactly the argument vector of the
  trusted configuration for STATUS or HEALTH.\<close>

theorem envelope_runs_trusted_command_only:
  assumes "process_envelope pa fiso ex cfg allowed n r (now, f, env) = (r', [mid], Inr res)"
  shows "(\<exists>sender. normalize_mailbox pa (env_sender env) = Inr sender \<and> is_sender_allowed pa (VStr sender) allowed) \<and>
    (\<exists>t0 t1. parse_aware_timestamp fiso (env_received_at env) ''received_at'' = Inr t0 \<and> now = Aware t1 \<and>
      - FUTURE_CLOCK_TOLERANCE \<le> t1 - t0 \<and> t1 - t0 \<le> MAX_COMMAND_AGE) \<and>
    (\<exists>name verb result. (name, verb) \<in> {(''STATUS'', ''status''), (''HEALTH'', ''health'')} \<and>
      ex \<lparr>cmd_name = name, cmd_argv = ops_argv verb (trusted_values cfg)\<rparr> = Inr result \<and>
      disp_command res = res_command result \<and> disp_returncode res = res_returncode result)"
proof -
  obtain name where c: "envelope_checks pa fiso now allowed env = Inr (name, mid)"
    and d: "bindE (map_remote_command name (trusted_values cfg)) (\<lambda>command.
              dispatch_remote_control_command ex command (trusted_values cfg) n) = Inr res"
    using assms by (auto simp: process_envelope_def split: sum.splits prod.splits bool.splits)
  have tv: "require_trusted_config (trusted_values cfg) TRUSTED_KEYS = Inr t \<Longrightarrow> t = trusted_values cfg" for t
    by (auto simp: require_trusted_config_def TRUSTED_KEYS_def trusted_values_def bindE_Inr_iff split: if_splits)
  obtain sender body where s: "normalize_mailbox pa (env_sender env) = Inr sender" "is_sender_allowed pa (VStr sender) allowed"
    and fr: "\<exists>t. validate_message_freshness fiso (env_received_at env) now = Inr t"
    and n: "parse_remote_command body = Inr name"
    using c by (auto simp: envelope_checks_def bindE_Inr_iff split: if_splits)
  have fresh: "\<exists>t0 t1. parse_aware_timestamp fiso (env_received_at env) ''received_at'' = Inr t0 \<and> now = Aware t1 \<and>
      - FUTURE_CLOCK_TOLERANCE \<le> t1 - t0 \<and> t1 - t0 \<le> MAX_COMMAND_AGE"
    using fr by (cases now) (auto simp: validate_message_freshness_def bindE_Inr_iff parse_aware_timestamp_def [of fiso "AtDatetime now" for now]
        split: if_splits)
  have "name = ''STATUS'' \<or> name = ''HEALTH''" using n by (auto simp: parse_remote_command_def split: if_splits)
  then obtain verb where v: "(name, verb) \<in> {(''STATUS'', ''status''), (''HEALTH'', ''health'')}" by auto
  obtain command where m: "map_remote_command name (trusted_values cfg) = Inr command"
    and x: "dispatch_remote_control_command ex command (trusted_values cfg) n = Inr res"
    using d by (auto simp: bindE_Inr_iff)
  have "command = \<lparr>cmd_name = name, cmd_argv = ops_argv verb (trusted_values cfg)\<rparr>"
    using m v by (auto simp: map_remote_command_def bindE_Inr_iff dest!: tv)
  moreover obtain result where "ex command = Inr result" "disp_command res = res_command result" "disp_returncode res = res_returncode result"
    using x by (auto simp: dispatch_remote_control_command_def bindE_Inr_iff)
  ultimately show ?thesis using s fresh v by metis
qed

end
