(* ===== verification/TelegramAdapter.thy ===== *)
theory TelegramAdapter
  imports RemoteCommands
begin

section \<open>Telegram updates (\<^verbatim>\<open>telegram_adapter.py\<close>)\<close>

text \<open>
  \<^verbatim>\<open>process_telegram_update\<close> turns one update of the Bot API into a verified request: it
  validates the fields, checks the allowlists, parses the command, reserves the update id
  and writes the audit. The request carries a capability object only this function has, so
  a value of the type \<open>TelegramRequest\<close> stands for a verified one; the check of the
  capability always succeeds on it. The two flags of a call are the failures of the replay
  transaction and of the audit transaction.
\<close>

definition ALLOWED_TELEGRAM_COMMANDS :: "(string \<times> string) list" where
  "ALLOWED_TELEGRAM_COMMANDS =
    [(''/status'', ''STATUS''), (''/health'', ''HEALTH''), (''/report'', ''REPORT''), (''/rejects'', ''REJECTS''),
     (''/labels'', ''LABELS''), (''/errors'', ''ERRORS''), (''/preflight'', ''PREFLIGHT''), (''/pause'', ''PAUSE''),
     (''/resume'', ''RESUME''), (''/recovery'', ''RECOVERY''), (''/help'', ''HELP'')]"

definition ARGUMENT_COMMANDS :: "(string \<times> string) list" where
  "ARGUMENT_COMMANDS = [(''/confirm'', ''CONFIRM''), (''/cancel'', ''CANCEL'')]"

definition MAX_TELEGRAM_TEXT_CHARS :: nat where "MAX_TELEGRAM_TEXT_CHARS = 128"
definition MAX_TELEGRAM_ID_CHARS :: nat where "MAX_TELEGRAM_ID_CHARS = 64"

definition is_alnum :: "char \<Rightarrow> bool" where
  "is_alnum c \<longleftrightarrow> is_digit_char c \<or> (let n = (of_char c :: nat) in 65 \<le> n \<and> n \<le> 90 \<or> 97 \<le> n \<and> n \<le> 122)"

definition confirmation_id_ok :: "string \<Rightarrow> bool" where
  \<comment> \<open>the pattern \<^verbatim>\<open>[A-Za-z0-9_-]{16,96}\<close> of the whole text\<close>
  "confirmation_id_ok s \<longleftrightarrow> 16 \<le> length s \<and> length s \<le> 96 \<and>
     list_all (\<lambda>c. is_alnum c \<or> c = CHR ''_'' \<or> c = CHR ''-'') s"

record TelegramConfig =
  allowed_user_ids :: "string set"
  allowed_chat_ids :: "string set"

record TelegramRequest =
  tr_update_id :: string
  tr_user_id :: string
  tr_chat_id :: string
  tr_identity :: string
  tr_command :: RemoteControlCommand

record AdapterResult =
  ar_accepted :: bool
  ar_command :: "string option"
  ar_reason :: "string option"
  ar_request :: "TelegramRequest option"

subsection \<open>Fields\<close>

definition signed_digits :: "string \<Rightarrow> bool" where
  \<comment> \<open>\<^verbatim>\<open>s.lstrip("-").isdigit()\<close>\<close>
  "signed_digits s \<longleftrightarrow> (let d = dropWhile (\<lambda>c. c = CHR ''-'') s in d \<noteq> [] \<and> list_all is_digit_char d)"

definition required_id :: "pyval \<Rightarrow> string py" where
  "required_id value =
    (case value of
       VInt _ \<Rightarrow> (let s = py_strip (py_str value) in
         if s = [] \<or> MAX_TELEGRAM_ID_CHARS < length s \<or> \<not> signed_digits s then Inl (ValueError ''MALFORMED_UPDATE'') else Inr s)
     | VStr _ \<Rightarrow> (let s = py_strip (py_str value) in
         if s = [] \<or> MAX_TELEGRAM_ID_CHARS < length s \<or> \<not> signed_digits s then Inl (ValueError ''MALFORMED_UPDATE'') else Inr s)
     | _ \<Rightarrow> Inl (ValueError ''MALFORMED_UPDATE''))"

definition required_mapping :: "pyval \<Rightarrow> pydict py" where
  "required_mapping value = (case value of VDict d \<Rightarrow> Inr d | _ \<Rightarrow> Inl (ValueError ''MALFORMED_UPDATE''))"

definition required_text :: "pyval \<Rightarrow> string py" where
  "required_text value = (if nonblank_text value then Inr (text_of value) else Inl (ValueError ''MALFORMED_UPDATE''))"

definition normalize_allowlist :: "pyval list \<Rightarrow> string set py" where
  "normalize_allowlist values = bindE (mapE required_id values) (\<lambda>ids. Inr (set ids))"

definition from_allowlists :: "pyval list \<Rightarrow> pyval list \<Rightarrow> TelegramConfig py" where
  "from_allowlists users chats =
    bindE (normalize_allowlist users) (\<lambda>u. bindE (normalize_allowlist chats) (\<lambda>c.
    Inr \<lparr>allowed_user_ids = u, allowed_chat_ids = c\<rparr>))"

definition authorize :: "string \<Rightarrow> string \<Rightarrow> TelegramConfig \<Rightarrow> unit py" where
  "authorize user_id chat_id config =
    (if allowed_user_ids config = {} \<and> allowed_chat_ids config = {} then Inl (ValueError ''UNAUTHORIZED_IDENTITY'')
     else if allowed_user_ids config \<noteq> {} \<and> user_id \<notin> allowed_user_ids config then Inl (ValueError ''UNAUTHORIZED_IDENTITY'')
     else if allowed_chat_ids config \<noteq> {} \<and> chat_id \<notin> allowed_chat_ids config then Inl (ValueError ''UNAUTHORIZED_IDENTITY'')
     else Inr ())"

fun split_on :: "char \<Rightarrow> string \<Rightarrow> string list" where
  \<comment> \<open>\<^verbatim>\<open>s.split(sep)\<close> for a one-character separator\<close>
  "split_on sep [] = [[]]"
| "split_on sep (c # cs) =
    (if c = sep then [] # split_on sep cs
     else case split_on sep cs of [] \<Rightarrow> [[c]] | w # ws \<Rightarrow> (c # w) # ws)"

definition parse_telegram_remote_command :: "string \<Rightarrow> RemoteControlCommand py" where
  "parse_telegram_remote_command text =
    (let s = py_strip text in
     if s = [] \<or> CHR 0x0A \<in> set s \<or> CHR 0x0D \<in> set s \<or> MAX_TELEGRAM_TEXT_CHARS < length s then Inl (ValueError ''MALFORMED_UPDATE'')
     else if \<not> list_ex is_space s then
       (case map_of ALLOWED_TELEGRAM_COMMANDS (py_lower s) of
          None \<Rightarrow> Inl (ValueError ''UNSUPPORTED_COMMAND'')
        | Some name \<Rightarrow> Inr \<lparr>cmd_name = name, cmd_argv = [name]\<rparr>)
     else (case split_on (CHR '' '') s of
         [verb, arg] \<Rightarrow>
           if verb = [] \<or> arg = [] \<or> list_ex is_space arg then Inl (ValueError ''UNSUPPORTED_COMMAND'')
           else (case map_of ARGUMENT_COMMANDS (py_lower verb) of
               None \<Rightarrow> Inl (ValueError ''UNSUPPORTED_COMMAND'')
             | Some name \<Rightarrow> if confirmation_id_ok arg then Inr \<lparr>cmd_name = name, cmd_argv = [name, arg]\<rparr>
                 else Inl (ValueError ''UNSUPPORTED_COMMAND''))
       | _ \<Rightarrow> Inl (ValueError ''UNSUPPORTED_COMMAND'')))"

definition parse_telegram_command :: "string \<Rightarrow> string py" where
  "parse_telegram_command text =
    bindE (parse_telegram_remote_command text) (\<lambda>c.
    if length (cmd_argv c) \<noteq> 1 then Inl (ValueError ''UNSUPPORTED_COMMAND'') else Inr (cmd_name c))"

subsection \<open>One update\<close>

record UpdateFields =
  \<comment> \<open>the locals the audit row of a rejection reads: what was known when it was rejected\<close>
  uf_update_id :: "string option"
  uf_identity :: "string option"
  uf_command :: "string option"

definition identity_text :: "string \<Rightarrow> string \<Rightarrow> string" where
  "identity_text user_id chat_id = ''telegram:user_id='' @ user_id @ '';chat_id='' @ chat_id"

definition parse_update :: "pydict \<Rightarrow> TelegramConfig \<Rightarrow> UpdateFields \<times> TelegramRequest py" where
  \<comment> \<open>the body of the try block up to the reservation\<close>
  "parse_update update config =
    (let none = \<lparr>uf_update_id = None, uf_identity = None, uf_command = None\<rparr> in
     case required_id (dget update ''update_id'') of
       Inl e \<Rightarrow> (none, Inl e)
     | Inr uid \<Rightarrow>
       (let f1 = none\<lparr>uf_update_id := Some uid\<rparr> in
        case bindE (required_mapping (dget update ''message'')) (\<lambda>message.
             bindE (required_text (dget message ''text'')) (\<lambda>text.
             bindE (required_mapping (dget message ''from'')) (\<lambda>sender.
             bindE (required_mapping (dget message ''chat'')) (\<lambda>chat.
             bindE (required_id (dget sender ''id'')) (\<lambda>user_id.
             bindE (required_id (dget chat ''id'')) (\<lambda>chat_id.
             Inr (text, user_id, chat_id))))))) of
          Inl e \<Rightarrow> (f1, Inl e)
        | Inr (text, user_id, chat_id) \<Rightarrow>
          (let f2 = f1\<lparr>uf_identity := Some (identity_text user_id chat_id)\<rparr> in
           case bindE (authorize user_id chat_id config) (\<lambda>_. parse_telegram_remote_command text) of
             Inl e \<Rightarrow> (f2, Inl e)
           | Inr command \<Rightarrow> (f2\<lparr>uf_command := Some (cmd_name command)\<rparr>,
               Inr \<lparr>tr_update_id = uid, tr_user_id = user_id, tr_chat_id = chat_id,
                 tr_identity = identity_text user_id chat_id, tr_command = command\<rparr>))))"

definition replay_key :: "string \<Rightarrow> string" where
  "replay_key uid = ''telegram:'' @ uid"

definition update_audit :: "UpdateFields \<Rightarrow> string option \<Rightarrow> audit_row" where
  "update_audit f reason =
    \<lparr>au_transport = ''telegram'', au_update = uf_update_id f, au_identity = uf_identity f, au_command = uf_command f,
     au_result = (if reason = None then ''ACCEPTED'' else ''REJECTED''), au_reason = reason\<rparr>"

definition reject_update :: "ReplayStore \<Rightarrow> UpdateFields \<Rightarrow> exc \<Rightarrow> bool \<Rightarrow> ReplayStore \<times> AdapterResult py" where
  \<comment> \<open>\<^verbatim>\<open>except (CommandParseError, ValueError)\<close>; anything else propagates\<close>
  "reject_update r f e audit_fails =
    (case e of
       ValueError msg \<Rightarrow>
         (let reason = (if msg = [] then ''MALFORMED_UPDATE'' else msg) in
          case record_remote_control_audit r (update_audit f (Some reason)) audit_fails of
            (r', Inl e') \<Rightarrow> (r', Inl e')
          | (r', Inr _) \<Rightarrow> (r', Inr \<lparr>ar_accepted = False, ar_command = uf_command f, ar_reason = Some reason, ar_request = None\<rparr>))
     | _ \<Rightarrow> (r, Inl e))"

definition process_telegram_update ::
  "TelegramConfig \<Rightarrow> ReplayStore \<Rightarrow> pydict \<Rightarrow> bool \<Rightarrow> bool \<Rightarrow> ReplayStore \<times> AdapterResult py" where
  "process_telegram_update config r update claim_fails audit_fails =
    (case parse_update update config of
       (f, Inl e) \<Rightarrow> reject_update r f e audit_fails
     | (f, Inr request) \<Rightarrow>
       (case claim_message_id r (replay_key (tr_update_id request)) claim_fails of
          (r1, Inl e) \<Rightarrow> reject_update r1 f e audit_fails
        | (r1, Inr False) \<Rightarrow> reject_update r1 f (ValueError ''DUPLICATE_UPDATE_ID'') audit_fails
        | (r1, Inr True) \<Rightarrow>
          (case record_remote_control_audit r1 (update_audit f None) audit_fails of
             (r2, Inl e) \<Rightarrow> reject_update r2 f e audit_fails
           | (r2, Inr _) \<Rightarrow> (r2, Inr \<lparr>ar_accepted = True, ar_command = Some (cmd_name (tr_command request)), ar_reason = None,
               ar_request = Some request\<rparr>))))"

subsection \<open>Facts about updates\<close>

lemma required_id_strip: "required_id v = Inr s \<Longrightarrow> py_strip s = s \<and> s \<noteq> []"
  by (cases v) (auto simp: required_id_def Let_def split: if_splits)

lemma parse_update_Inr:
  assumes "parse_update update config = (f, Inr req)"
  shows "required_id (dget update ''update_id'') = Inr (tr_update_id req)"
    "authorize (tr_user_id req) (tr_chat_id req) config = Inr ()"
    "Inr (tr_command req) \<in> range parse_telegram_remote_command"
proof -
  show "required_id (dget update ''update_id'') = Inr (tr_update_id req)"
    using assms by (auto simp: parse_update_def Let_def split: sum.splits)
  show "authorize (tr_user_id req) (tr_chat_id req) config = Inr ()"
    using assms by (auto simp: parse_update_def Let_def bindE_Inr_iff split: sum.splits)
  obtain t where "parse_telegram_remote_command t = Inr (tr_command req)"
    using assms by (auto simp: parse_update_def Let_def bindE_Inr_iff split: sum.splits)
  then show "Inr (tr_command req) \<in> range parse_telegram_remote_command" by (metis rangeI)
qed

lemma reject_update_keeps: "replay_ids (fst (reject_update r f e a)) = replay_ids r"
  using audit_keeps_ids [of r _ a] by (auto simp: reject_update_def Let_def split: exc.splits prod.splits sum.splits) (metis fst_conv)+

lemma reject_update_none: "snd (reject_update r f e a) = Inr res \<Longrightarrow> \<not> ar_accepted res \<and> ar_request res = None"
  by (auto simp: reject_update_def Let_def split: exc.splits prod.splits sum.splits)

lemma replay_key_strip: "py_strip uid = uid \<Longrightarrow> uid \<noteq> [] \<Longrightarrow> py_strip (replay_key uid) = replay_key uid"
proof (rule py_strip_id)
  assume a: "py_strip uid = uid" "uid \<noteq> []"
  have "\<not> is_space (hd (rev uid))"
  proof -
    have "rev uid = dropWhile is_space (rev (dropWhile is_space uid))" using a(1) by (metis py_strip_def rev_rev_ident)
    then show ?thesis using a(2) hd_dropWhile [of is_space "rev (dropWhile is_space uid)"] by (metis rev_is_Nil_conv)
  qed
  then show "\<not> is_space (last (replay_key uid))" using a(2) by (simp add: replay_key_def hd_rev)
qed (simp_all add: replay_key_def is_space_def)

lemma accepted_request:
  assumes "process_telegram_update config r update cf af = (r', Inr res)" "ar_request res = Some req"
  shows "replay_key (tr_update_id req) \<notin> replay_ids r" "replay_ids r' = insert (replay_key (tr_update_id req)) (replay_ids r)"
    "authorize (tr_user_id req) (tr_chat_id req) config = Inr ()"
    "Inr (tr_command req) \<in> range parse_telegram_remote_command"
proof -
  obtain f p where p: "parse_update update config = (f, p)" by fastforce
  have none: "reject_update r1 f e af = (r', Inr res) \<Longrightarrow> False" for r1 e
    using reject_update_none [of r1 f e af res] assms(2) by simp
  obtain q where q: "p = Inr q" using assms(1) none p by (cases p) (auto simp: process_telegram_update_def)
  obtain r1 c where c: "claim_message_id r (replay_key (tr_update_id q)) cf = (r1, c)" by fastforce
  have t: "c = Inr True"
    using assms(1) none p q c by (cases c) (auto simp: process_telegram_update_def split: bool.splits)
  obtain r2 w where w: "record_remote_control_audit r1 (update_audit f None) af = (r2, w)" by fastforce
  have "\<exists>u. w = Inr u" using assms(1) none p q c t w by (cases w) (auto simp: process_telegram_update_def)
  then have e: "r' = r2" "req = q" using assms p q c t w by (auto simp: process_telegram_update_def)
  note P = parse_update_Inr [OF p [unfolded q]]
  have k: "py_strip (replay_key (tr_update_id q)) = replay_key (tr_update_id q)"
    using required_id_strip [OF P(1)] replay_key_strip by blast
  have "replay_ids r2 = replay_ids r1" using audit_keeps_ids [of r1 "update_audit f None" af] w by simp
  then show "replay_key (tr_update_id req) \<notin> replay_ids r" "replay_ids r' = insert (replay_key (tr_update_id req)) (replay_ids r)"
    using claim_message_id_True [OF c [unfolded t]] k e by simp_all
  show "authorize (tr_user_id req) (tr_chat_id req) config = Inr ()" "Inr (tr_command req) \<in> range parse_telegram_remote_command"
    using P(2,3) e by simp_all
qed

lemma update_keeps_claims: "replay_ids r \<subseteq> replay_ids (fst (process_telegram_update config r update cf af))"
proof -
  obtain f p where p: "parse_update update config = (f, p)" by fastforce
  show ?thesis
  proof (cases p)
    case (Inl e)
    then show ?thesis using p reject_update_keeps by (simp add: process_telegram_update_def)
  next
    case (Inr q)
    obtain r1 c where c: "claim_message_id r (replay_key (tr_update_id q)) cf = (r1, c)" by fastforce
    have sub: "replay_ids r \<subseteq> replay_ids r1"
      using c claim_message_id_True claim_message_id_not by (metis order_refl subset_insertI)
    obtain r2 w where w: "record_remote_control_audit r1 (update_audit f None) af = (r2, w)" by fastforce
    have "replay_ids r2 = replay_ids r1" using audit_keeps_ids [of r1 "update_audit f None" af] w by simp
    then show ?thesis using p Inr c w sub reject_update_keeps
      by (auto simp: process_telegram_update_def split: sum.splits bool.splits)
  qed
qed

end
