(* ===== verification/TelegramControl.thy ===== *)
theory TelegramControl
  imports TelegramAdapter
begin

section \<open>Confirmations (\<^verbatim>\<open>telegram_control.py\<close>)\<close>

text \<open>
  A mutation of the PAPER campaign needs a confirmation: a row with a fresh id, bound to
  the operation, campaign and run, that expires and can be consumed once. The table is a
  map from the id to the row; a row is never deleted. The flag of an operation says that
  the database raised, and then the transaction was rolled back. The clock is an instant in
  microseconds and the new id comes from the id factory; both are arguments, as is the
  SHA-256 digest of a notification.
\<close>

definition CONFIRMABLE_OPERATIONS :: "string list" where
  "CONFIRMABLE_OPERATIONS = [''PAUSE'', ''RESUME'', ''RECOVERY'']"

record Confirmation =
  cf_operation :: string
  cf_campaign :: string
  cf_run :: string
  cf_status :: string
  cf_created :: int
  cf_expires :: int
  cf_consumed :: "int option"
  cf_result :: "string option"

record ControlStore =
  cs_confirmations :: "string \<rightharpoonup> Confirmation"
  cs_notifications :: "string \<rightharpoonup> string option \<times> int"

definition empty_control :: ControlStore where
  "empty_control = \<lparr>cs_confirmations = Map.empty, cs_notifications = Map.empty\<rparr>"

record TelegramConfirmation =
  tc_id :: string
  tc_operation :: string
  tc_campaign :: string
  tc_run :: string
  tc_expires :: int

definition token_ok :: "string \<Rightarrow> bool" where
  \<comment> \<open>the pattern \<^verbatim>\<open>[A-Za-z0-9_.:-]{1,128}\<close> of the whole text\<close>
  "token_ok s \<longleftrightarrow> 1 \<le> length s \<and> length s \<le> 128 \<and>
     list_all (\<lambda>c. is_alnum c \<or> c \<in> set ''_.:-'') s"

definition safe_token :: "string \<Rightarrow> string \<Rightarrow> string py" where
  "safe_token value code = (let s = py_strip value in if token_ok s then Inr s else Inl (ControlError code))"

definition confirmation_id :: "string \<Rightarrow> string py" where
  "confirmation_id value =
    (let s = py_strip value in if confirmation_id_ok s then Inr s else Inl (ControlError ''INVALID_CONFIRMATION_ID''))"

definition clamped_ttl :: "flt \<Rightarrow> flt" where
  "clamped_ttl ttl = py_min (py_max ttl (Fin 15)) (Fin 600)"

definition confirmation_of :: "string \<Rightarrow> Confirmation \<Rightarrow> TelegramConfirmation" where
  "confirmation_of cid row = \<lparr>tc_id = cid, tc_operation = cf_operation row, tc_campaign = cf_campaign row,
     tc_run = cf_run row, tc_expires = cf_expires row\<rparr>"

definition put_row :: "ControlStore \<Rightarrow> string \<Rightarrow> Confirmation \<Rightarrow> ControlStore" where
  "put_row st cid row = st\<lparr>cs_confirmations := (cs_confirmations st)(cid \<mapsto> row)\<rparr>"

subsection \<open>Operations\<close>

definition new_row :: "string \<Rightarrow> string \<Rightarrow> string \<Rightarrow> flt \<Rightarrow> int \<Rightarrow> string \<Rightarrow> (string \<times> Confirmation) py" where
  \<comment> \<open>the checks and the row to insert\<close>
  "new_row operation campaign run ttl now fresh =
    (let op = py_upper operation in
     if op \<notin> set CONFIRMABLE_OPERATIONS then Inl (ControlError ''UNSUPPORTED_OPERATION'')
     else bindE (safe_token campaign ''INVALID_CAMPAIGN_ID'') (\<lambda>c.
       bindE (safe_token run ''INVALID_RUN_ID'') (\<lambda>r.
       case clamped_ttl ttl of
         Fin seconds \<Rightarrow> bindE (confirmation_id fresh) (\<lambda>cid.
           Inr (cid, \<lparr>cf_operation = op, cf_campaign = c, cf_run = r, cf_status = ''PENDING'', cf_created = now,
             cf_expires = now + seconds_to_micros seconds, cf_consumed = None, cf_result = None\<rparr>))
       | _ \<Rightarrow> Inl (ValueError ''cannot convert float NaN to integer''))))"

definition create_confirmation ::
  "ControlStore \<Rightarrow> string \<Rightarrow> string \<Rightarrow> string \<Rightarrow> flt \<Rightarrow> int \<Rightarrow> string \<Rightarrow> bool \<Rightarrow> ControlStore \<times> TelegramConfirmation py" where
  \<comment> \<open>a database failure is one of the statement; a commit that fails after the insert, which leaves the
      row in the open transaction of the connection, is not modelled\<close>
  "create_confirmation st operation campaign run ttl now fresh db_fails =
    (case new_row operation campaign run ttl now fresh of
       Inl e \<Rightarrow> (st, Inl e)
     | Inr (cid, row) \<Rightarrow>
         if db_fails then (st, Inl DatabaseError)
         else if cs_confirmations st cid \<noteq> None then (st, Inl (ControlError ''CONFIRMATION_ID_COLLISION''))
         else (put_row st cid row, Inr (confirmation_of cid row)))"

definition identity_args :: "string \<Rightarrow> string \<Rightarrow> string \<Rightarrow> (string \<times> string \<times> string) py" where
  "identity_args cid campaign run =
    bindE (confirmation_id cid) (\<lambda>i. bindE (safe_token campaign ''INVALID_CAMPAIGN_ID'') (\<lambda>c.
    bindE (safe_token run ''INVALID_RUN_ID'') (\<lambda>r. Inr (i, c, r))))"

definition consume_confirmation ::
  "ControlStore \<Rightarrow> string \<Rightarrow> string \<Rightarrow> string \<Rightarrow> int \<Rightarrow> bool \<Rightarrow> ControlStore \<times> TelegramConfirmation py" where
  "consume_confirmation st cid campaign run now db_fails =
    (case identity_args cid campaign run of
       Inl e \<Rightarrow> (st, Inl e)
     | Inr (i, c, r) \<Rightarrow>
       if db_fails then (st, Inl DatabaseError)
       else (case cs_confirmations st i of
           None \<Rightarrow> (st, Inl (ControlError ''CONFIRMATION_NOT_FOUND''))
         | Some row \<Rightarrow>
             if cf_status row \<noteq> ''PENDING'' then (st, Inl (ControlError ''CONFIRMATION_NOT_PENDING''))
             else if cf_expires row \<le> now
               then (put_row st i (row\<lparr>cf_status := ''EXPIRED''\<rparr>), Inl (ControlError ''CONFIRMATION_EXPIRED''))
             else if cf_campaign row \<noteq> c \<or> cf_run row \<noteq> r
               then (put_row st i (row\<lparr>cf_status := ''CANCELLED'', cf_result := Some ''IDENTITY_MISMATCH''\<rparr>),
                     Inl (ControlError ''CONFIRMATION_IDENTITY_MISMATCH''))
             else (put_row st i (row\<lparr>cf_status := ''CONSUMED'', cf_consumed := Some now\<rparr>), Inr (confirmation_of i row))))"

definition cancel_confirmation ::
  "ControlStore \<Rightarrow> string \<Rightarrow> string \<Rightarrow> string \<Rightarrow> bool \<Rightarrow> ControlStore \<times> string py" where
  "cancel_confirmation st cid campaign run db_fails =
    (case identity_args cid campaign run of
       Inl e \<Rightarrow> (st, Inl e)
     | Inr (i, c, r) \<Rightarrow>
       if db_fails then (st, Inl DatabaseError)
       else (case cs_confirmations st i of
           None \<Rightarrow> (st, Inl (ControlError ''CONFIRMATION_NOT_FOUND''))
         | Some row \<Rightarrow>
             if cf_campaign row \<noteq> c \<or> cf_run row \<noteq> r then (st, Inl (ControlError ''CONFIRMATION_IDENTITY_MISMATCH''))
             else if cf_status row \<noteq> ''PENDING'' then (st, Inl (ControlError ''CONFIRMATION_NOT_PENDING''))
             else (put_row st i (row\<lparr>cf_status := ''CANCELLED'', cf_result := Some ''OPERATOR_CANCELLED''\<rparr>),
                   Inr (cf_operation row))))"

definition record_confirmation_result :: "ControlStore \<Rightarrow> string \<Rightarrow> string \<Rightarrow> bool \<Rightarrow> ControlStore \<times> unit py" where
  "record_confirmation_result st cid code db_fails =
    (case bindE (confirmation_id cid) (\<lambda>i. bindE (safe_token code ''INVALID_RESULT_CODE'') (\<lambda>k. Inr (i, k))) of
       Inl e \<Rightarrow> (st, Inl e)
     | Inr (i, k) \<Rightarrow>
       if db_fails then (st, Inl DatabaseError)
       else (case cs_confirmations st i of
           Some row \<Rightarrow> if cf_status row = ''CONSUMED'' then (put_row st i (row\<lparr>cf_result := Some k\<rparr>), Inr ())
             else (st, Inl (ControlError ''CONFIRMATION_RESULT_NOT_RECORDABLE''))
         | None \<Rightarrow> (st, Inl (ControlError ''CONFIRMATION_RESULT_NOT_RECORDABLE''))))"

definition notification_state :: "ControlStore \<Rightarrow> string \<Rightarrow> (string option \<times> int option) py" where
  "notification_state st key =
    bindE (safe_token key ''INVALID_NOTIFICATION_KEY'') (\<lambda>k.
    Inr (case cs_notifications st k of None \<Rightarrow> (None, None)
      | Some (digest, t) \<Rightarrow> (if digest = Some [] then None else digest, Some t)))"

definition record_notification :: "(string \<Rightarrow> string) \<Rightarrow> ControlStore \<Rightarrow> string \<Rightarrow> string \<Rightarrow> int \<Rightarrow> bool \<Rightarrow> ControlStore \<times> string py" where
  "record_notification digest st key payload now db_fails =
    (case safe_token key ''INVALID_NOTIFICATION_KEY'' of
       Inl e \<Rightarrow> (st, Inl e)
     | Inr k \<Rightarrow> if db_fails then (st, Inl DatabaseError)
         else (st\<lparr>cs_notifications := (cs_notifications st)(k \<mapsto> (Some (digest payload), now))\<rparr>, Inr (digest payload)))"

subsection \<open>The table as a machine\<close>

datatype control_op =
    Create string string string flt int string bool
  | Consume string string string int bool
  | Cancel string string string bool
  | RecordResult string string bool
  | Notify string string int bool

fun control_step :: "ControlStore \<Rightarrow> control_op \<Rightarrow> ControlStore" where
  "control_step st (Create op c r ttl now fresh f) = fst (create_confirmation st op c r ttl now fresh f)"
| "control_step st (Consume cid c r now f) = fst (consume_confirmation st cid c r now f)"
| "control_step st (Cancel cid c r f) = fst (cancel_confirmation st cid c r f)"
| "control_step st (RecordResult cid k f) = fst (record_confirmation_result st cid k f)"
| "control_step st (Notify k d now f) = fst (record_notification (\<lambda>p. d) st k d now f)"

fun consumed_by :: "ControlStore \<Rightarrow> control_op \<Rightarrow> string list" where
  \<comment> \<open>the id of the confirmation an operation consumed\<close>
  "consumed_by st (Consume cid c r now f) =
    (case consume_confirmation st cid c r now f of (_, Inr k) \<Rightarrow> [tc_id k] | _ \<Rightarrow> [])"
| "consumed_by st _ = []"

fun created_by :: "ControlStore \<Rightarrow> control_op \<Rightarrow> TelegramConfirmation list" where
  "created_by st (Create op c r ttl now fresh f) =
    (case create_confirmation st op c r ttl now fresh f of (_, Inr k) \<Rightarrow> [k] | _ \<Rightarrow> [])"
| "created_by st _ = []"

definition settled :: "ControlStore \<Rightarrow> string set" where
  \<comment> \<open>the confirmations that are not pending any more\<close>
  "settled st = {cid. case cs_confirmations st cid of None \<Rightarrow> False | Some row \<Rightarrow> cf_status row \<noteq> ''PENDING''}"

inductive control_change :: "ControlStore \<Rightarrow> string \<Rightarrow> Confirmation option \<Rightarrow> Confirmation \<Rightarrow> bool" for st where
  \<comment> \<open>the only changes a row can undergo\<close>
  insert_row: "cs_confirmations st cid = None \<Longrightarrow> cf_status row = ''PENDING'' \<Longrightarrow> cf_operation row \<in> set CONFIRMABLE_OPERATIONS \<Longrightarrow>
     control_change st cid None row"
| settle_row: "cs_confirmations st cid = Some row \<Longrightarrow> cf_status row = ''PENDING'' \<Longrightarrow> s \<noteq> ''PENDING'' \<Longrightarrow>
     control_change st cid (Some row) (row\<lparr>cf_status := s, cf_consumed := c, cf_result := k\<rparr>)"
| result_row: "cs_confirmations st cid = Some row \<Longrightarrow> cf_status row = ''CONSUMED'' \<Longrightarrow>
     control_change st cid (Some row) (row\<lparr>cf_result := k\<rparr>)"

inductive_cases control_changeE: "control_change st cid old row"

definition settles :: "ControlStore \<Rightarrow> ControlStore \<Rightarrow> string \<Rightarrow> string \<Rightarrow> bool" where
  \<comment> \<open>a pending row gets another status\<close>
  "settles st st' i s \<longleftrightarrow> s \<noteq> ''PENDING'' \<and>
    (\<exists>row d k. cs_confirmations st i = Some row \<and> cf_status row = ''PENDING'' \<and>
      st' = put_row st i (row\<lparr>cf_status := s, cf_consumed := d, cf_result := k\<rparr>))"

lemma settlesI0:
  "cs_confirmations st i = Some row \<Longrightarrow> cf_status row = ''PENDING'' \<Longrightarrow> s \<noteq> ''PENDING'' \<Longrightarrow>
    new = row\<lparr>cf_status := s, cf_consumed := d, cf_result := k\<rparr> \<Longrightarrow> settles st (put_row st i new) i s"
  unfolding settles_def by blast

lemma settlesI:
  assumes "cs_confirmations st i = Some row" "cf_status row = ''PENDING''" "s \<noteq> ''PENDING''"
  shows "settles st (put_row st i (row\<lparr>cf_status := s\<rparr>)) i s"
    "settles st (put_row st i (row\<lparr>cf_status := s, cf_result := k\<rparr>)) i s"
    "settles st (put_row st i (row\<lparr>cf_status := s, cf_consumed := d\<rparr>)) i s"
proof -
  show "settles st (put_row st i (row\<lparr>cf_status := s\<rparr>)) i s"
    by (rule settlesI0 [OF assms, where d = "cf_consumed row" and k = "cf_result row"]) simp
  show "settles st (put_row st i (row\<lparr>cf_status := s, cf_result := k\<rparr>)) i s"
    by (rule settlesI0 [OF assms, where d = "cf_consumed row" and k = k]) simp
  show "settles st (put_row st i (row\<lparr>cf_status := s, cf_consumed := d\<rparr>)) i s"
    by (rule settlesI0 [OF assms, where d = d and k = "cf_result row"]) simp
qed

lemma consume_cases:
  assumes "consume_confirmation st cid c r now f = (st', res)"
  shows "(\<exists>e. res = Inl e \<and> (st' = st \<or> (\<exists>i s. settles st st' i s))) \<or>
    (\<exists>i c' r' row. identity_args cid c r = Inr (i, c', r') \<and> cs_confirmations st i = Some row \<and> cf_status row = ''PENDING'' \<and>
      now < cf_expires row \<and> cf_campaign row = c' \<and> cf_run row = r' \<and> res = Inr (confirmation_of i row) \<and>
      settles st st' i ''CONSUMED'')"
proof (cases "identity_args cid c r")
  case (Inl e)
  then show ?thesis using assms by (auto simp: consume_confirmation_def)
next
  case (Inr p)
  obtain i c' r' where p: "p = (i, c', r')" by (cases p)
  show ?thesis
  proof (cases "f \<or> cs_confirmations st i = None")
    case True
    then show ?thesis using assms Inr p by (auto simp: consume_confirmation_def split: if_splits)
  next
    case False
    then obtain row where row: "cs_confirmations st i = Some row" "\<not> f" by auto
    have body: "(if cf_status row \<noteq> ''PENDING'' then (st, Inl (ControlError ''CONFIRMATION_NOT_PENDING''))
             else if cf_expires row \<le> now
               then (put_row st i (row\<lparr>cf_status := ''EXPIRED''\<rparr>), Inl (ControlError ''CONFIRMATION_EXPIRED''))
             else if cf_campaign row \<noteq> c' \<or> cf_run row \<noteq> r'
               then (put_row st i (row\<lparr>cf_status := ''CANCELLED'', cf_result := Some ''IDENTITY_MISMATCH''\<rparr>),
                     Inl (ControlError ''CONFIRMATION_IDENTITY_MISMATCH''))
             else (put_row st i (row\<lparr>cf_status := ''CONSUMED'', cf_consumed := Some now\<rparr>), Inr (confirmation_of i row))) = (st', res)"
      using assms Inr p row by (simp add: consume_confirmation_def)
    consider "st' = st" "\<exists>e. res = Inl e" | (settled) s where "\<exists>e. res = Inl e" "settles st st' i s"
      | (ok) "cf_status row = ''PENDING''" "now < cf_expires row" "cf_campaign row = c'" "cf_run row = r'"
        "st' = put_row st i (row\<lparr>cf_status := ''CONSUMED'', cf_consumed := Some now\<rparr>)" "res = Inr (confirmation_of i row)"
    proof (cases "cf_status row = ''PENDING''")
      case True
      have s: "settles st (put_row st i (row\<lparr>cf_status := ''EXPIRED''\<rparr>)) i ''EXPIRED''"
        "settles st (put_row st i (row\<lparr>cf_status := ''CANCELLED'', cf_result := Some ''IDENTITY_MISMATCH''\<rparr>)) i ''CANCELLED''"
        using settlesI(1) [OF row(1) True] settlesI(2) [OF row(1) True] by simp_all
      show ?thesis
      proof (cases "cf_expires row \<le> now")
        case le: True
        then have "st' = put_row st i (row\<lparr>cf_status := ''EXPIRED''\<rparr>)" "\<exists>e. res = Inl e" using body True by auto
        then show ?thesis using that(2) s(1) by blast
      next
        case gt: False
        show ?thesis
        proof (cases "cf_campaign row = c' \<and> cf_run row = r'")
          case same: True
          then show ?thesis using that(3) body True gt by auto
        next
          case diff: False
          then have "st' = put_row st i (row\<lparr>cf_status := ''CANCELLED'', cf_result := Some ''IDENTITY_MISMATCH''\<rparr>)" "\<exists>e. res = Inl e"
            using body True gt by auto
          then show ?thesis using that(2) s(2) by blast
        qed
      qed
    next
      case False
      then have "st' = st" "\<exists>e. res = Inl e" using body by auto
      then show ?thesis by (rule that(1))
    qed
    then show ?thesis
    proof cases
      case ok
      have "settles st st' i ''CONSUMED''" unfolding ok(5) by (rule settlesI(3) [OF row(1) ok(1)]) simp
      then show ?thesis using Inr p row ok by auto
    qed (use Inr p in blast)+
  qed
qed

lemma cancel_cases:
  assumes "cancel_confirmation st cid c r f = (st', res)"
  shows "st' = st \<or> (\<exists>i. settles st st' i ''CANCELLED'')"
proof (cases "identity_args cid c r")
  case (Inl e)
  then show ?thesis using assms by (auto simp: cancel_confirmation_def)
next
  case (Inr p)
  obtain i c' r' where p: "p = (i, c', r')" by (cases p)
  show ?thesis
  proof (cases "\<exists>row. \<not> f \<and> cs_confirmations st i = Some row \<and> cf_campaign row = c' \<and> cf_run row = r' \<and> cf_status row = ''PENDING''")
    case True
    then obtain row where r: "\<not> f" "cs_confirmations st i = Some row" "cf_campaign row = c'" "cf_run row = r'" "cf_status row = ''PENDING''"
      by blast
    then have "st' = put_row st i (row\<lparr>cf_status := ''CANCELLED'', cf_result := Some ''OPERATOR_CANCELLED''\<rparr>)"
      using assms Inr p by (auto simp: cancel_confirmation_def)
    moreover have "settles st (put_row st i (row\<lparr>cf_status := ''CANCELLED'', cf_result := Some ''OPERATOR_CANCELLED''\<rparr>)) i ''CANCELLED''"
      by (rule settlesI(2) [OF r(2,5)]) simp
    ultimately show ?thesis by blast
  next
    case False
    then show ?thesis using assms Inr p by (auto simp: cancel_confirmation_def split: option.splits if_splits)
  qed
qed

lemma settles_change:
  "settles st st' i s \<Longrightarrow> \<exists>row new. cs_confirmations st i = Some row \<and> control_change st i (Some row) new \<and>
    cs_confirmations st' = (cs_confirmations st)(i \<mapsto> new) \<and> cf_status new = s"
proof -
  assume "settles st st' i s"
  then obtain row d k where r: "s \<noteq> ''PENDING''" "cs_confirmations st i = Some row" "cf_status row = ''PENDING''"
      "st' = put_row st i (row\<lparr>cf_status := s, cf_consumed := d, cf_result := k\<rparr>)"
    unfolding settles_def by blast
  then show ?thesis using settle_row [OF r(2,3,1), where c = d and k = k] by (fastforce simp: put_row_def)
qed

lemma step_changes:
  "cs_confirmations (control_step st x) = cs_confirmations st \<or>
   (\<exists>cid old row. control_change st cid old row \<and> cs_confirmations (control_step st x) = (cs_confirmations st)(cid \<mapsto> row))"
proof (cases x)
  case (Create op c r ttl now fresh f)
  show ?thesis
  proof (cases "new_row op c r ttl now fresh")
    case (Inl e)
    then show ?thesis by (simp add: Create create_confirmation_def)
  next
    case (Inr p)
    obtain cid row where p: "p = (cid, row)" by (cases p)
    have "cf_status row = ''PENDING''" "cf_operation row \<in> set CONFIRMABLE_OPERATIONS"
      using Inr p by (cases "clamped_ttl ttl"; auto simp: new_row_def Let_def bindE_Inr_iff split: if_splits)+
    then show ?thesis using Inr p insert_row [of st cid row]
      by (auto simp: Create create_confirmation_def put_row_def)
  qed
next
  case (Consume cid c r now f)
  obtain st' res where e: "consume_confirmation st cid c r now f = (st', res)" by fastforce
  then have "st' = st \<or> (\<exists>i s. settles st st' i s)" using consume_cases by blast
  then show ?thesis using settles_change e Consume by auto blast
next
  case (Cancel cid c r f)
  obtain st' res where e: "cancel_confirmation st cid c r f = (st', res)" by fastforce
  then have "st' = st \<or> (\<exists>i s. settles st st' i s)" using cancel_cases by blast
  then show ?thesis using settles_change e Cancel by auto blast
next
  case (RecordResult cid k f)
  then show ?thesis
    using result_row by (auto simp: record_confirmation_result_def put_row_def split: sum.splits option.splits if_splits) blast+
next
  case (Notify k d now f)
  then show ?thesis by (simp add: record_notification_def split: sum.splits)
qed

subsection \<open>A confirmation is consumed once\<close>

lemma change_settled:
  "control_change st cid old row \<Longrightarrow> cs_confirmations st' = (cs_confirmations st)(cid \<mapsto> row) \<Longrightarrow> settled st \<subseteq> settled st'"
  by (erule control_change.cases) (auto simp: settled_def)

lemma settled_grows: "settled st \<subseteq> settled (control_step st x)"
proof -
  have "cs_confirmations (control_step st x) = cs_confirmations st \<Longrightarrow> settled (control_step st x) = settled st"
    by (simp add: settled_def)
  then show ?thesis using step_changes [of st x] change_settled by blast
qed

lemma consumed_settles:
  assumes "consume_confirmation st cid c r now f = (st', Inr k)"
  shows "tc_id k \<notin> settled st \<and> tc_id k \<in> settled st'"
proof -
  obtain i row where r: "cs_confirmations st i = Some row" "cf_status row = ''PENDING''" "k = confirmation_of i row" "settles st st' i ''CONSUMED''"
    using consume_cases [OF assms] by auto
  then show ?thesis using settles_change [OF r(4)] by (auto simp: settled_def confirmation_of_def)
qed

interpretation confirmations: once_only control_step consumed_by settled
proof unfold_locales
  fix st x
  have c: "set (consumed_by st x) \<inter> settled st = {} \<and> set (consumed_by st x) \<subseteq> settled (control_step st x) \<and> distinct (consumed_by st x)"
  proof (cases x)
    case (Consume cid c r now f)
    obtain st' res where e: "consume_confirmation st cid c r now f = (st', res)" by fastforce
    then show ?thesis using consumed_settles [of st cid c r now f st'] by (cases res) (auto simp: Consume)
  qed simp_all
  then show "distinct (consumed_by st x)" "set (consumed_by st x) \<inter> settled st = {}" by blast+
  show "settled st \<union> set (consumed_by st x) \<subseteq> settled (control_step st x)" using c settled_grows by blast
qed

definition known_rows :: "TelegramConfirmation list \<Rightarrow> ControlStore \<Rightarrow> bool" where
  \<comment> \<open>every row is one of the created confirmations, unchanged but for its status\<close>
  "known_rows ks st \<longleftrightarrow> (\<forall>cid row. cs_confirmations st cid = Some row \<longrightarrow>
     confirmation_of cid row \<in> set ks \<and> cf_operation row \<in> set CONFIRMABLE_OPERATIONS)"

lemma known_update:
  assumes "known_rows ks st" "cs_confirmations st' = (cs_confirmations st)(i \<mapsto> new)"
    and "confirmation_of i new \<in> set ks" "cf_operation new \<in> set CONFIRMABLE_OPERATIONS"
  shows "known_rows ks st'"
  using assms by (auto simp: known_rows_def)

lemma known_settles: "known_rows ks st \<Longrightarrow> settles st st' i s \<Longrightarrow> known_rows ks st'"
  by (auto simp: settles_def put_row_def known_rows_def confirmation_of_def split: if_splits)

lemma known_step: "known_rows ks st \<Longrightarrow> known_rows (ks @ created_by st x) (control_step st x)"
proof (cases x)
  case (Create op c r ttl now fresh f)
  assume k: "known_rows ks st"
  show ?thesis
  proof (cases "\<exists>cid row. new_row op c r ttl now fresh = Inr (cid, row) \<and> \<not> f \<and> cs_confirmations st cid = None")
    case True
    then obtain cid row where n: "new_row op c r ttl now fresh = Inr (cid, row)" "\<not> f" "cs_confirmations st cid = None" by blast
    then have "created_by st x = [confirmation_of cid row]" "control_step st x = put_row st cid row"
      by (simp_all add: Create create_confirmation_def)
    moreover have "cf_operation row \<in> set CONFIRMABLE_OPERATIONS"
      using n(1) by (cases "clamped_ttl ttl"; auto simp: new_row_def Let_def bindE_Inr_iff split: if_splits)
    ultimately show ?thesis using k by (auto simp: known_rows_def put_row_def)
  next
    case False
    then have "control_step st x = st" "created_by st x = []"
      by (auto simp: Create create_confirmation_def split: sum.splits prod.splits)
    then show ?thesis using k by simp
  qed
next
  case (Consume cid c r now f)
  assume k: "known_rows ks st"
  obtain st' res where e: "consume_confirmation st cid c r now f = (st', res)" by fastforce
  then have "st' = st \<or> (\<exists>i s. settles st st' i s)" using consume_cases by blast
  then show ?thesis using known_settles k e Consume by auto
next
  case (Cancel cid c r f)
  assume k: "known_rows ks st"
  obtain st' res where e: "cancel_confirmation st cid c r f = (st', res)" by fastforce
  then have "st' = st \<or> (\<exists>i. settles st st' i ''CANCELLED'')" using cancel_cases by blast
  then show ?thesis using known_settles k e Cancel by auto
next
  case (RecordResult cid code f)
  assume k: "known_rows ks st"
  then show ?thesis
    by (auto simp: RecordResult record_confirmation_result_def put_row_def known_rows_def confirmation_of_def
        split: sum.splits option.splits if_splits)
next
  case (Notify key d now f)
  assume k: "known_rows ks st"
  then show ?thesis by (auto simp: Notify record_notification_def known_rows_def split: sum.splits)
qed

lemma known_run: "known_rows ks st \<Longrightarrow> known_rows (ks @ trace control_step created_by st xs) (foldl control_step st xs)"
proof (induction xs arbitrary: ks st)
  case (Cons x xs)
  from Cons.IH [OF known_step [OF Cons.prems, of x]] show ?case by simp
qed simp

text \<open>C20: a confirmation authorises one action: over any sequence of operations on the store no
  confirmation is consumed twice, and a consumed one was created before for a confirmable
  operation and exactly the campaign and run it is consumed for, and has not expired.\<close>

theorem confirmation_authorises_once:
  assumes "consume_confirmation (foldl control_step empty_control xs) cid c r now f = (st', Inr k)"
  shows "k \<in> set (trace control_step created_by empty_control xs) \<and>
    identity_args cid c r = Inr (tc_id k, tc_campaign k, tc_run k) \<and> now < tc_expires k \<and>
    tc_operation k \<in> set CONFIRMABLE_OPERATIONS \<and>
    tc_id k \<notin> set (trace control_step consumed_by empty_control xs) \<and>
    distinct (trace control_step consumed_by empty_control xs)"
proof -
  let ?st = "foldl control_step empty_control xs"
  obtain i row where r: "identity_args cid c r = Inr (i, cf_campaign row, cf_run row)" "cs_confirmations ?st i = Some row"
      "now < cf_expires row" "k = confirmation_of i row"
    using consume_cases [OF assms] by auto
  have "known_rows [] empty_control" by (simp add: known_rows_def empty_control_def)
  from known_run [OF this, of xs] r(2)
  have "confirmation_of i row \<in> set (trace control_step created_by empty_control xs)" "cf_operation row \<in> set CONFIRMABLE_OPERATIONS"
    by (simp_all add: known_rows_def)
  moreover have "distinct (trace control_step consumed_by empty_control (xs @ [Consume cid c r now f]))"
    using confirmations.trace_once by blast
  moreover have "trace control_step consumed_by st (xs @ [y]) = trace control_step consumed_by st xs @ consumed_by (foldl control_step st xs) y"
    for st y by (induction xs arbitrary: st) auto
  ultimately show ?thesis using r assms by (auto simp: confirmation_of_def)
qed

definition demo_confirmation_id :: string where
  "demo_confirmation_id = replicate 16 (CHR ''A'')"

lemma demo_create:
  "create_confirmation empty_control ''PAUSE'' ''camp'' ''run'' (Fin 120) 0 demo_confirmation_id False =
    (put_row empty_control demo_confirmation_id \<lparr>cf_operation = ''PAUSE'', cf_campaign = ''camp'', cf_run = ''run'', cf_status = ''PENDING'',
       cf_created = 0, cf_expires = 120000000, cf_consumed = None, cf_result = None\<rparr>,
     Inr \<lparr>tc_id = demo_confirmation_id, tc_operation = ''PAUSE'', tc_campaign = ''camp'', tc_run = ''run'', tc_expires = 120000000\<rparr>)"
  and demo_identity: "identity_args demo_confirmation_id ''camp'' ''run'' = Inr (demo_confirmation_id, ''camp'', ''run'')"
proof -
  have s: "py_strip demo_confirmation_id = demo_confirmation_id" "confirmation_id_ok demo_confirmation_id"
    "py_strip ''camp'' = ''camp''" "py_strip ''run'' = ''run''" "token_ok ''camp''" "token_ok ''run''" "py_upper ''PAUSE'' = ''PAUSE''"
    by (simp_all add: demo_confirmation_id_def py_strip_id is_space_def confirmation_id_ok_def token_ok_def is_alnum_def numeral_eq_Suc
        py_upper_id)
  have t: "clamped_ttl (Fin 120) = Fin 120" "seconds_to_micros 120 = 120000000"
    by (simp_all add: clamped_ttl_def py_max_def py_min_def seconds_to_micros_def)
  show "create_confirmation empty_control ''PAUSE'' ''camp'' ''run'' (Fin 120) 0 demo_confirmation_id False =
    (put_row empty_control demo_confirmation_id \<lparr>cf_operation = ''PAUSE'', cf_campaign = ''camp'', cf_run = ''run'', cf_status = ''PENDING'',
       cf_created = 0, cf_expires = 120000000, cf_consumed = None, cf_result = None\<rparr>,
     Inr \<lparr>tc_id = demo_confirmation_id, tc_operation = ''PAUSE'', tc_campaign = ''camp'', tc_run = ''run'', tc_expires = 120000000\<rparr>)"
    by (simp add: create_confirmation_def new_row_def CONFIRMABLE_OPERATIONS_def safe_token_def confirmation_id_def s t
        empty_control_def confirmation_of_def)
  show "identity_args demo_confirmation_id ''camp'' ''run'' = Inr (demo_confirmation_id, ''camp'', ''run'')"
    by (simp add: identity_args_def safe_token_def confirmation_id_def s)
qed

theorem confirmation_authorises_once_witness:
  "\<exists>st' k. consume_confirmation (foldl control_step empty_control [Create ''PAUSE'' ''camp'' ''run'' (Fin 120) 0 demo_confirmation_id False])
      demo_confirmation_id ''camp'' ''run'' 60000000 False = (st', Inr k) \<and>
    k \<in> set (trace control_step created_by empty_control [Create ''PAUSE'' ''camp'' ''run'' (Fin 120) 0 demo_confirmation_id False])"
proof -
  have "\<exists>st' k. consume_confirmation (foldl control_step empty_control [Create ''PAUSE'' ''camp'' ''run'' (Fin 120) 0 demo_confirmation_id False])
      demo_confirmation_id ''camp'' ''run'' 60000000 False = (st', Inr k)"
    by (simp add: demo_create demo_identity consume_confirmation_def put_row_def)
  then show ?thesis using confirmation_authorises_once by blast
qed

end
