(* ===== verification/TelegramController.thy ===== *)
theory TelegramController
  imports TelegramControl
begin

section \<open>Executing a verified request (\<^verbatim>\<open>telegram_controller.py\<close>)\<close>

text \<open>
  \<^verbatim>\<open>process_telegram_request\<close> carries out one command. Queries and the two status commands
  call an executor; a mutation only creates a confirmation; CONFIRM consumes one and then
  calls the action executor. The executors are callables handed in by the service: here
  functions of the environment, whose result may be an exception or, as the code checks, no
  result object (\<open>None\<close>). What is called is returned as a list of calls, so that the
  theorems can speak of it. The function catches every exception and always answers.
\<close>

datatype remote_call =
    ExecutorCall "string list"
  | QueryCall string
  | ActionCall string string
  \<comment> \<open>the operation and the confirmation it rests on\<close>

type_synonym executor_result = "RemoteControlResult option py"

record RequestEnv =
  re_executor :: "(RemoteControlCommand \<Rightarrow> executor_result) option"
  re_query :: "RemoteControlCommand \<Rightarrow> executor_result"
  re_action :: "string \<Rightarrow> executor_result"
  re_has_store :: bool
  re_config :: "pydict option"
  re_ttl :: flt
  re_now :: int
  re_fresh_id :: string
  re_db_fails :: bool
  re_record_fails :: bool

definition EXECUTOR_COMMANDS :: "string list" where "EXECUTOR_COMMANDS = [''STATUS'', ''HEALTH'']"

definition QUERY_COMMANDS :: "string list" where
  "QUERY_COMMANDS = [''REPORT'', ''REJECTS'', ''LABELS'', ''ERRORS'', ''PREFLIGHT'']"

definition CONTROLLER_COMMANDS :: "string list" where
  "CONTROLLER_COMMANDS = EXECUTOR_COMMANDS @ QUERY_COMMANDS @ CONFIRMABLE_OPERATIONS @ [''CONFIRM'', ''CANCEL'', ''HELP'']"

definition EXECUTABLE_TELEGRAM_COMMANDS :: "string list" where
  "EXECUTABLE_TELEGRAM_COMMANDS = [''/status'', ''/health'', ''/report'', ''/rejects'', ''/labels'', ''/errors'', ''/help'',
     ''/preflight'', ''/pause'', ''/resume'', ''/recovery'', ''/confirm <id>'', ''/cancel <id>'']"

definition SAFE_QUERY_ERROR :: string where "SAFE_QUERY_ERROR = ''remote control query failed safely''"
definition SAFE_CONTROL_ERROR :: string where "SAFE_CONTROL_ERROR = ''remote control executor failed safely''"

subsection \<open>Answers\<close>

definition one_line :: "string \<Rightarrow> string" where
  \<comment> \<open>carriage returns and newlines become spaces\<close>
  "one_line s = map (\<lambda>c. if c = CHR 0x0D \<or> c = CHR 0x0A then CHR '' '' else c) s"

definition safe_output :: "string \<Rightarrow> nat \<Rightarrow> string" where
  "safe_output v n = take (max 1 n) (one_line v)"

definition dispatch_result :: "string \<Rightarrow> int \<Rightarrow> string \<Rightarrow> string \<Rightarrow> nat \<Rightarrow> RemoteControlDispatchResult" where
  "dispatch_result command rc out err n =
    \<lparr>disp_command = command, disp_returncode = rc, disp_stdout = safe_output out n, disp_stderr = safe_output err n,
     disp_formatted = format_result command rc (safe_output out n) (safe_output err n)\<rparr>"

definition safe_failure :: "string \<Rightarrow> string \<Rightarrow> nat \<Rightarrow> RemoteControlDispatchResult" where
  "safe_failure command msg n =
    dispatch_result (if command \<in> set CONTROLLER_COMMANDS then command else ''UNSUPPORTED'') 1 [] msg n"

definition validated_result :: "string \<Rightarrow> RemoteControlResult option \<Rightarrow> nat \<Rightarrow> RemoteControlDispatchResult" where
  "validated_result expected r n =
    (case r of
       Some x \<Rightarrow> if res_command x = expected
         then dispatch_result (res_command x) (res_returncode x) (res_stdout x) (res_stderr x) n
         else safe_failure expected ''INVALID_EXECUTOR_RESULT'' n
     | None \<Rightarrow> safe_failure expected ''INVALID_EXECUTOR_RESULT'' n)"

definition build_telegram_help_text :: string where
  "build_telegram_help_text = ''Supported commands: '' @ join '' '' EXECUTABLE_TELEGRAM_COMMANDS
     @ ''. PAPER mutations require expiring single-use confirmation; LIVE/order mutation is unavailable.''"

definition trusted_config_values :: "pydict option \<Rightarrow> (string \<times> string) list py" where
  "trusted_config_values config =
    (case config of
       None \<Rightarrow> Inl (ValueError ''trusted config unavailable'')
     | Some d \<Rightarrow> mapE (\<lambda>k. if nonblank_text (dget d k) then Inr (k, py_strip (text_of (dget d k)))
         else Inl (ValueError ''trusted config value unavailable'')) TRUSTED_KEYS)"

subsection \<open>The branches\<close>

type_synonym processed = "ControlStore \<times> remote_call list \<times> RemoteControlDispatchResult"

definition run_executor :: "RequestEnv \<Rightarrow> ControlStore \<Rightarrow> RemoteControlCommand \<Rightarrow> (string \<times> string) list \<Rightarrow> nat \<Rightarrow> processed" where
  "run_executor env st command trusted n =
    (if cmd_argv command \<noteq> [cmd_name command] then (st, [], safe_failure (cmd_name command) ''UNSUPPORTED_COMMAND'' n)
     else case re_executor env of
       None \<Rightarrow> (st, [], safe_failure (cmd_name command) ''EXECUTOR_UNAVAILABLE'' n)
     | Some ex \<Rightarrow>
       (case map_remote_command (cmd_name command) trusted of
          Inl _ \<Rightarrow> (st, [], safe_failure (cmd_name command) SAFE_CONTROL_ERROR n)
        | Inr mapped \<Rightarrow>
          (st, [ExecutorCall (cmd_argv mapped)],
           case ex mapped of Inl _ \<Rightarrow> safe_failure (cmd_name command) SAFE_CONTROL_ERROR n
           | Inr r \<Rightarrow> validated_result (cmd_name command) r n)))"

definition run_query :: "RequestEnv \<Rightarrow> ControlStore \<Rightarrow> RemoteControlCommand \<Rightarrow> nat \<Rightarrow> processed" where
  "run_query env st command n =
    (if cmd_argv command \<noteq> [cmd_name command] then (st, [], safe_failure (cmd_name command) ''UNSUPPORTED_COMMAND'' n)
     else (st, [QueryCall (cmd_name command)],
       case re_query env command of Inl _ \<Rightarrow> safe_failure (cmd_name command) SAFE_QUERY_ERROR n
       | Inr r \<Rightarrow> validated_result (cmd_name command) r n))"

definition run_mutation :: "RequestEnv \<Rightarrow> ControlStore \<Rightarrow> RemoteControlCommand \<Rightarrow> (string \<times> string) list \<Rightarrow> nat \<Rightarrow> processed" where
  \<comment> \<open>a mutation command only asks for its confirmation\<close>
  "run_mutation env st command trusted n =
    (if cmd_argv command \<noteq> [cmd_name command] then (st, [], safe_failure (cmd_name command) ''UNSUPPORTED_COMMAND'' n)
     else if \<not> re_has_store env then (st, [], safe_failure (cmd_name command) ''CONTROL_STORE_UNAVAILABLE'' n)
     else case create_confirmation st (cmd_name command) (str_at trusted ''remote_control_campaign_id'')
            (str_at trusted ''remote_control_run_id'') (re_ttl env) (re_now env) (re_fresh_id env) (re_db_fails env) of
         (st', Inl _) \<Rightarrow> (st', [], safe_failure (cmd_name command) SAFE_CONTROL_ERROR n)
       | (st', Inr k) \<Rightarrow> (st', [], dispatch_result (cmd_name command) 0
           (''CONFIRM_REQUIRED id='' @ tc_id k @ '' operation='' @ tc_operation k @ '' expires='' @ iso_text (tc_expires k)) [] n))"

definition control_failure :: "string \<Rightarrow> exc \<Rightarrow> nat \<Rightarrow> RemoteControlDispatchResult" where
  \<comment> \<open>\<^verbatim>\<open>except TelegramControlError\<close> shows the code, \<^verbatim>\<open>except Exception\<close> a fixed text\<close>
  "control_failure command e n =
    (case e of ControlError code \<Rightarrow> safe_failure command code n | _ \<Rightarrow> safe_failure command SAFE_CONTROL_ERROR n)"

definition run_cancel :: "RequestEnv \<Rightarrow> ControlStore \<Rightarrow> string \<Rightarrow> (string \<times> string) list \<Rightarrow> nat \<Rightarrow> processed" where
  "run_cancel env st cid trusted n =
    (case cancel_confirmation st cid (str_at trusted ''remote_control_campaign_id'') (str_at trusted ''remote_control_run_id'') (re_db_fails env) of
       (st', Inl e) \<Rightarrow> (st', [], control_failure ''CANCEL'' e n)
     | (st', Inr operation) \<Rightarrow> (st', [], dispatch_result ''CANCEL'' 0 (''CANCELLED id='' @ cid @ '' operation='' @ operation) [] n))"

definition confirm_answer :: "TelegramConfirmation \<Rightarrow> RemoteControlResult option \<Rightarrow> bool \<Rightarrow> nat \<Rightarrow> RemoteControlDispatchResult" where
  \<comment> \<open>the flag: the result of a successful action could not be recorded\<close>
  "confirm_answer k result unrecorded n =
    (if unrecorded then safe_failure ''CONFIRM'' ''CONTROL_AUDIT_PERSIST_FAILED'' n
     else case result of
         Some r \<Rightarrow> if res_command r \<noteq> tc_operation k then safe_failure ''CONFIRM'' ''INVALID_EXECUTOR_RESULT'' n
           else dispatch_result ''CONFIRM'' (res_returncode r) (py_strip (tc_operation k @ '' '' @ res_stdout r)) (res_stderr r) n
       | None \<Rightarrow> safe_failure ''CONFIRM'' ''INVALID_EXECUTOR_RESULT'' n)"

definition action_result :: "RequestEnv \<Rightarrow> string \<Rightarrow> RemoteControlResult option" where
  "action_result env operation =
    (case re_action env operation of
       Inl _ \<Rightarrow> Some \<lparr>res_command = operation, res_returncode = 1, res_stdout = [], res_stderr = SAFE_CONTROL_ERROR\<rparr>
     | Inr r \<Rightarrow> r)"

definition result_code :: "RemoteControlResult option \<Rightarrow> string" where
  "result_code r = (case r of Some x \<Rightarrow> if res_returncode x = 0 then ''SUCCESS'' else ''FAILED'' | None \<Rightarrow> ''FAILED'')"

definition run_confirm :: "RequestEnv \<Rightarrow> ControlStore \<Rightarrow> string \<Rightarrow> (string \<times> string) list \<Rightarrow> nat \<Rightarrow> processed" where
  \<comment> \<open>the confirmation is consumed, durably, before the action runs\<close>
  "run_confirm env st cid trusted n =
    (case consume_confirmation st cid (str_at trusted ''remote_control_campaign_id'') (str_at trusted ''remote_control_run_id'')
        (re_now env) (re_db_fails env) of
       (st1, Inl e) \<Rightarrow> (st1, [], control_failure ''CONFIRM'' e n)
     | (st1, Inr k) \<Rightarrow>
       (let result = action_result env (tc_operation k); code = result_code result in
        case record_confirmation_result st1 cid code (re_record_fails env) of
          (st2, Inl _) \<Rightarrow> (st2, [ActionCall (tc_operation k) (tc_id k)], confirm_answer k result (code = ''SUCCESS'') n)
        | (st2, Inr _) \<Rightarrow> (st2, [ActionCall (tc_operation k) (tc_id k)], confirm_answer k result False n)))"

definition run_with_config :: "RequestEnv \<Rightarrow> ControlStore \<Rightarrow> RemoteControlCommand \<Rightarrow> (string \<times> string) list \<Rightarrow> nat \<Rightarrow> processed" where
  "run_with_config env st command trusted n =
    (let name = cmd_name command in
     if name \<in> set EXECUTOR_COMMANDS then run_executor env st command trusted n
     else if name \<in> set QUERY_COMMANDS then run_query env st command n
     else if name \<in> set CONFIRMABLE_OPERATIONS then run_mutation env st command trusted n
     else if name = ''CONFIRM'' \<or> name = ''CANCEL'' then
       (if length (cmd_argv command) \<noteq> 2 \<or> hd (cmd_argv command) \<noteq> name then (st, [], safe_failure name ''UNSUPPORTED_COMMAND'' n)
        else if \<not> re_has_store env then (st, [], safe_failure name ''CONTROL_STORE_UNAVAILABLE'' n)
        else if name = ''CANCEL'' then run_cancel env st (cmd_argv command ! 1) trusted n
        else run_confirm env st (cmd_argv command ! 1) trusted n)
     else (st, [], safe_failure name ''UNSUPPORTED_COMMAND'' n))"

definition process_telegram_request :: "RequestEnv \<Rightarrow> ControlStore \<Rightarrow> TelegramRequest \<Rightarrow> nat \<Rightarrow> processed" where
  "process_telegram_request env st request n =
    (let command = tr_command request; name = cmd_name command in
     if name = ''HELP'' then (st, [], dispatch_result ''HELP'' 0 build_telegram_help_text [] n)
     else if name \<notin> set CONTROLLER_COMMANDS then (st, [], safe_failure name ''UNSUPPORTED_COMMAND'' n)
     else case trusted_config_values (re_config env) of
         Inl _ \<Rightarrow> (st, [], safe_failure name SAFE_CONTROL_ERROR n)
       | Inr trusted \<Rightarrow> run_with_config env st command trusted n)"

subsection \<open>What a request can do to the store\<close>

fun action_ids :: "remote_call list \<Rightarrow> string list" where
  \<comment> \<open>the confirmations the called actions rest on\<close>
  "action_ids [] = []"
| "action_ids (ActionCall op cid # cs) = cid # action_ids cs"
| "action_ids (_ # cs) = action_ids cs"

definition control_path :: "ControlStore \<Rightarrow> ControlStore \<Rightarrow> remote_call list \<Rightarrow> bool" where
  \<comment> \<open>the store changed by operations of its own, and every action rests on a confirmation they consumed\<close>
  "control_path st st' calls \<longleftrightarrow>
    (\<exists>ops. st' = foldl control_step st ops \<and> action_ids calls = trace control_step consumed_by st ops)"

lemma control_path_refl: "action_ids calls = [] \<Longrightarrow> control_path st st calls"
  unfolding control_path_def by (rule exI [of _ "[]"]) simp

lemma run_confirm_path:
  assumes "run_confirm env st cid trusted n = (st', calls, answer)"
  shows "control_path st st' calls"
proof -
  define c where "c = str_at trusted ''remote_control_campaign_id''"
  define r where "r = str_at trusted ''remote_control_run_id''"
  obtain st1 res where e: "consume_confirmation st cid c r (re_now env) (re_db_fails env) = (st1, res)" by fastforce
  show ?thesis
  proof (cases res)
    case (Inl x)
    then have "st' = foldl control_step st [Consume cid c r (re_now env) (re_db_fails env)]"
        "action_ids calls = trace control_step consumed_by st [Consume cid c r (re_now env) (re_db_fails env)]"
      using assms e by (auto simp: run_confirm_def c_def [symmetric] r_def [symmetric])
    then show ?thesis unfolding control_path_def by blast
  next
    case (Inr k)
    define code where "code = result_code (action_result env (tc_operation k))"
    obtain st2 w where w: "record_confirmation_result st1 cid code (re_record_fails env) = (st2, w)" by fastforce
    have "st' = st2" "calls = [ActionCall (tc_operation k) (tc_id k)]"
      using assms e Inr w
      by (cases w; simp add: run_confirm_def c_def [symmetric] r_def [symmetric] code_def [symmetric] Let_def)+
    then have "st' = foldl control_step st [Consume cid c r (re_now env) (re_db_fails env), RecordResult cid code (re_record_fails env)]"
        "action_ids calls = trace control_step consumed_by st [Consume cid c r (re_now env) (re_db_fails env), RecordResult cid code (re_record_fails env)]"
      using e Inr w by auto
    then show ?thesis unfolding control_path_def by blast
  qed
qed

lemma run_cancel_path:
  assumes "run_cancel env st cid trusted n = (st', calls, answer)"
  shows "control_path st st' calls"
proof -
  define c where "c = str_at trusted ''remote_control_campaign_id''"
  define r where "r = str_at trusted ''remote_control_run_id''"
  have "st' = foldl control_step st [Cancel cid c r (re_db_fails env)]"
    "action_ids calls = trace control_step consumed_by st [Cancel cid c r (re_db_fails env)]"
    using assms by (auto simp: run_cancel_def c_def [symmetric] r_def [symmetric] split: sum.splits prod.splits)
  then show ?thesis unfolding control_path_def by blast
qed

lemma run_mutation_path:
  assumes "run_mutation env st command trusted n = (st', calls, answer)"
  shows "control_path st st' calls"
proof -
  define c where "c = str_at trusted ''remote_control_campaign_id''"
  define r where "r = str_at trusted ''remote_control_run_id''"
  define x where "x = Create (cmd_name command) c r (re_ttl env) (re_now env) (re_fresh_id env) (re_db_fails env)"
  have "calls = [] \<and> (st' = st \<or> st' = control_step st x)"
    using assms by (auto simp: run_mutation_def x_def c_def [symmetric] r_def [symmetric] split: if_splits sum.splits prod.splits)
  then have "calls = [] \<and> (st' = st \<or> st' = foldl control_step st [x] \<and> action_ids calls = trace control_step consumed_by st [x])"
    by (simp add: x_def)
  then show ?thesis using control_path_refl unfolding control_path_def by (metis action_ids.simps(1))
qed

lemma request_path:
  assumes "process_telegram_request env st request n = (st', calls, answer)"
  shows "control_path st st' calls"
proof -
  let ?cmd = "tr_command request"
  have q: "run_executor env st c t n = (st', calls, answer) \<Longrightarrow> st' = st \<and> action_ids calls = []" for c t
    by (auto simp: run_executor_def split: if_splits option.splits sum.splits)
  have q2: "run_query env st c n = (st', calls, answer) \<Longrightarrow> st' = st \<and> action_ids calls = []" for c
    by (auto simp: run_query_def split: if_splits)
  consider "st' = st" "action_ids calls = []"
    | t where "run_executor env st ?cmd t n = (st', calls, answer)" | "run_query env st ?cmd n = (st', calls, answer)"
    | t where "run_mutation env st ?cmd t n = (st', calls, answer)"
    | cid t where "run_cancel env st cid t n = (st', calls, answer)" | cid t where "run_confirm env st cid t n = (st', calls, answer)"
    using assms unfolding process_telegram_request_def run_with_config_def Let_def
    by (auto split: if_splits sum.splits)
  then show ?thesis
  proof cases
    case 1
    then show ?thesis using control_path_refl by simp
  next
    case 2
    then show ?thesis using q control_path_refl by blast
  next
    case 3
    then show ?thesis using q2 control_path_refl by blast
  qed (rule run_mutation_path run_cancel_path run_confirm_path, assumption)+
qed

end
