(* ===== verification/TelegramState.thy ===== *)
theory TelegramState
  imports TelegramAdapter PortfolioRisk "HOL-Library.Option_ord"
begin

section \<open>Durable transport state (\<^verbatim>\<open>telegram_state.py\<close>)\<close>

text \<open>
  Two tables: the next update offset, stored as text, and the responses that still have to
  be delivered. Every write is one transaction; its flag says that the database, or the
  hook before the commit, raised, and then nothing changed. The clock counts the seconds
  \<^verbatim>\<open>CURRENT_TIMESTAMP\<close> resolves; a pending row keeps the time it was created.
\<close>

definition MAX_TELEGRAM_RESPONSE_CHARS :: nat where "MAX_TELEGRAM_RESPONSE_CHARS = 3900"

record PendingRow =
  pr_chat :: string
  pr_text :: string
  pr_failure :: "string option"
  pr_retries :: int
  pr_created :: int

record TransportStore =
  ts_offset :: "string option"
  ts_pending :: "(string \<times> PendingRow) list"

definition empty_transport :: TransportStore where
  "empty_transport = \<lparr>ts_offset = None, ts_pending = []\<rparr>"

record StoredDelivery =
  sd_update_id :: string
  sd_chat :: string
  sd_text :: string
  sd_failure :: "string option"
  sd_retries :: int

subsection \<open>Validation\<close>

definition validate_stored_offset :: "string \<Rightarrow> int py" where
  "validate_stored_offset value =
    (if value = [] \<or> MAX_TELEGRAM_ID_CHARS + 1 < length value then Inl (ValueError ''invalid persisted Telegram offset'')
     else case parse_int value of
         None \<Rightarrow> Inl (ValueError ''invalid persisted Telegram offset'')
       | Some n \<Rightarrow> if show_int n \<noteq> value then Inl (ValueError ''invalid persisted Telegram offset'') else Inr n)"

definition validate_normalized_id :: "string \<Rightarrow> string \<Rightarrow> string py" where
  "validate_normalized_id value name =
    (let bad = Inl (ValueError (''invalid persisted Telegram '' @ name)) in
     if value = [] \<or> MAX_TELEGRAM_ID_CHARS < length value \<or> \<not> signed_digits value then bad
     else case parse_int value of
         None \<Rightarrow> Inl (ValueError ''invalid literal for int() with base 10'')
       | Some n \<Rightarrow> if show_int n \<noteq> value then bad else Inr value)"

definition validate_response_text :: "string \<Rightarrow> string py" where
  "validate_response_text value =
    (if value = [] \<or> MAX_TELEGRAM_RESPONSE_CHARS < length value \<or> CHR 0x0D \<in> set value \<or> CHR 0x0A \<in> set value
     then Inl (ValueError ''invalid persisted Telegram response text'') else Inr value)"

definition validate_pending_row :: "string \<times> PendingRow \<Rightarrow> StoredDelivery py" where
  "validate_pending_row row =
    (case row of (uid, p) \<Rightarrow>
     bindE (validate_normalized_id uid ''update_id'') (\<lambda>u.
     bindE (validate_normalized_id (pr_chat p) ''chat_id'') (\<lambda>c.
     bindE (validate_response_text (pr_text p)) (\<lambda>t.
     if pr_failure p \<notin> {None, Some ''SEND_MESSAGE_FAILED'', Some ''DELIVERY_ACK_FAILED''}
       then Inl (ValueError ''invalid persisted Telegram failure reason'')
     else if pr_retries p < 0 then Inl (ValueError ''invalid persisted Telegram retry count'')
     else Inr \<lparr>sd_update_id = u, sd_chat = c, sd_text = t, sd_failure = pr_failure p, sd_retries = pr_retries p\<rparr>))))"

subsection \<open>Operations\<close>

definition load_offset :: "TransportStore \<Rightarrow> int option py" where
  "load_offset st =
    (case ts_offset st of None \<Rightarrow> Inr None | Some s \<Rightarrow> bindE (validate_stored_offset s) (\<lambda>n. Inr (Some n)))"

definition monotonic_offset :: "TransportStore \<Rightarrow> int \<Rightarrow> int py" where
  "monotonic_offset st next_offset =
    bindE (load_offset st) (\<lambda>current. Inr (case current of None \<Rightarrow> next_offset | Some c \<Rightarrow> max c next_offset))"

definition acknowledge_offset :: "TransportStore \<Rightarrow> int \<Rightarrow> bool \<Rightarrow> TransportStore \<times> int py" where
  "acknowledge_offset st next_offset db_fails =
    (case monotonic_offset st next_offset of
       Inl e \<Rightarrow> (st, Inl e)
     | Inr d \<Rightarrow> if db_fails then (st, Inl DatabaseError) else (st\<lparr>ts_offset := Some (show_int d)\<rparr>, Inr d))"

definition upsert_pending :: "TransportStore \<Rightarrow> string \<Rightarrow> string \<Rightarrow> string \<Rightarrow> int \<Rightarrow> (string \<times> PendingRow) list" where
  "upsert_pending st uid chat text clock =
    AList.update uid
      (case map_of (ts_pending st) uid of
         None \<Rightarrow> \<lparr>pr_chat = chat, pr_text = text, pr_failure = None, pr_retries = 0, pr_created = clock\<rparr>
       | Some p \<Rightarrow> p\<lparr>pr_chat := chat, pr_text := text\<rparr>) (ts_pending st)"

definition persist_pending_with_offset ::
  "TransportStore \<Rightarrow> string \<Rightarrow> string \<Rightarrow> string \<Rightarrow> int \<Rightarrow> int \<Rightarrow> bool \<Rightarrow> TransportStore \<times> int py" where
  "persist_pending_with_offset st uid chat text next_offset clock db_fails =
    (case bindE (validate_normalized_id uid ''update_id'') (\<lambda>_. bindE (validate_normalized_id chat ''chat_id'') (\<lambda>_.
          bindE (validate_response_text text) (\<lambda>_. monotonic_offset st next_offset))) of
       Inl e \<Rightarrow> (st, Inl e)
     | Inr d \<Rightarrow> if db_fails then (st, Inl DatabaseError)
         else (\<lparr>ts_offset = Some (show_int d), ts_pending = upsert_pending st uid chat text clock\<rparr>, Inr d))"

definition load_pending :: "TransportStore \<Rightarrow> StoredDelivery list py" where
  \<comment> \<open>ordered by creation time, then id\<close>
  "load_pending st = mapE validate_pending_row (sort_key (\<lambda>(uid, p). pr_created p) (sort_key fst (ts_pending st)))"

definition record_delivery_failure :: "TransportStore \<Rightarrow> string \<Rightarrow> bool \<Rightarrow> TransportStore \<times> unit py" where
  "record_delivery_failure st uid db_fails =
    (case validate_normalized_id uid ''update_id'' of
       Inl e \<Rightarrow> (st, Inl e)
     | Inr _ \<Rightarrow> (case map_of (ts_pending st) uid of
         None \<Rightarrow> (st, Inl (ValueError ''pending Telegram delivery not found''))
       | Some p \<Rightarrow> if db_fails then (st, Inl DatabaseError)
           else (st\<lparr>ts_pending := AList.update uid (p\<lparr>pr_failure := Some ''SEND_MESSAGE_FAILED'', pr_retries := pr_retries p + 1\<rparr>) (ts_pending st)\<rparr>, Inr ())))"

definition mark_delivered :: "TransportStore \<Rightarrow> string \<Rightarrow> bool \<Rightarrow> TransportStore \<times> unit py" where
  "mark_delivered st uid db_fails =
    (case validate_normalized_id uid ''update_id'' of
       Inl e \<Rightarrow> (st, Inl e)
     | Inr _ \<Rightarrow> (case map_of (ts_pending st) uid of
         None \<Rightarrow> (st, Inl (ValueError ''pending Telegram delivery not found''))
       | Some _ \<Rightarrow> if db_fails then (st, Inl DatabaseError)
           else (st\<lparr>ts_pending := AList.delete uid (ts_pending st)\<rparr>, Inr ())))"

subsection \<open>Numbers as text\<close>

lemma digits_value_append: "digits_value acc (xs @ ys) = digits_value (digits_value acc xs) ys"
  by (induction xs arbitrary: acc) auto

lemma digit_char: "n < 10 \<Longrightarrow> (of_char (char_of (48 + n) :: char) :: nat) = 48 + n"
  by simp

lemma show_nat_digits: "list_all is_digit_char (show_nat n) \<and> show_nat n \<noteq> [] \<and> digits_value 0 (show_nat n) = n"
proof (induction n rule: less_induct)
  case (less n)
  show ?case
  proof (cases "n < 10")
    case True
    then show ?thesis by (subst (1 2 3) show_nat.simps) (simp add: is_digit_char_def digit_char)
  next
    case False
    then have IH: "list_all is_digit_char (show_nat (n div 10)) \<and> show_nat (n div 10) \<noteq> [] \<and> digits_value 0 (show_nat (n div 10)) = n div 10"
      by (intro less.IH) simp
    have e: "show_nat n = show_nat (n div 10) @ [char_of (48 + n mod 10)]" using False by (subst show_nat.simps) simp
    have "n mod 10 \<le> 9" by arith
    then have c: "(of_char (char_of (48 + n mod 10) :: char) :: nat) = 48 + n mod 10" "is_digit_char (char_of (48 + n mod 10))"
      using digit_char [of "n mod 10"] by (auto simp: is_digit_char_def)
    show ?thesis unfolding e using IH c by (simp add: digits_value_append)
  qed
qed

lemma underscores_digits: "list_all is_digit_char s \<Longrightarrow> underscores_ok d s"
  by (induction s arbitrary: d) (auto simp: is_digit_char_def)

lemma digits_no_underscore: "list_all is_digit_char s \<Longrightarrow> filter (\<lambda>c. c \<noteq> CHR ''_'') s = s"
  by (induction s) (auto simp: is_digit_char_def)

lemma digits_not_space: "is_digit_char c \<Longrightarrow> \<not> is_space c"
  by (auto simp: is_digit_char_def is_space_def)

lemma strip_number:
  assumes "list_all is_digit_char s" "s \<noteq> []"
  shows "py_strip s = s" "py_strip (CHR ''-'' # s) = CHR ''-'' # s"
proof -
  have h: "\<not> is_space (hd s)" "\<not> is_space (last s)" using assms digits_not_space by (auto simp: list_all_iff)
  then show "py_strip s = s" using assms by (intro py_strip_id)
  show "py_strip (CHR ''-'' # s) = CHR ''-'' # s" using assms h(2) by (intro py_strip_id) (auto simp: is_space_def)
qed

lemma parse_digits:
  assumes "list_all is_digit_char s" "s \<noteq> []"
  shows "parse_int s = Some (int (digits_value 0 s))" "parse_int (CHR ''-'' # s) = Some (- int (digits_value 0 s))"
proof -
  have "hd s \<noteq> CHR ''-''" "hd s \<noteq> CHR ''+''" using assms by (cases s; auto simp: is_digit_char_def)+
  then have sp: "split_sign s = (False, s)" using assms(2) by (cases s) (auto simp: split_sign_def)
  have sn: "split_sign (CHR ''-'' # s) = (True, s)" by (simp add: split_sign_def)
  show "parse_int s = Some (int (digits_value 0 s))"
    using assms by (simp add: parse_int_def strip_number sp digits_no_underscore underscores_digits Let_def)
  show "parse_int (CHR ''-'' # s) = Some (- int (digits_value 0 s))"
    using assms by (simp add: parse_int_def strip_number sn digits_no_underscore underscores_digits Let_def)
qed

lemma parse_show_int [simp]: "parse_int (show_int n) = Some n"
  using parse_digits show_nat_digits by (simp add: show_int_def)

lemma show_int_not_Nil [simp]: "show_int n \<noteq> []"
  using show_nat_digits by (simp add: show_int_def)

lemma signed_digits_show_int: "signed_digits (show_int n)"
proof -
  have d: "dropWhile (\<lambda>c. c = CHR ''-'') (show_nat k) = show_nat k" for k
  proof -
    have "hd (show_nat k) \<noteq> CHR ''-''" using show_nat_digits [of k] by (cases "show_nat k") (auto simp: is_digit_char_def)
    then show ?thesis using show_nat_digits [of k] by (cases "show_nat k") auto
  qed
  have "signed_digits (show_nat k)" for k
    unfolding signed_digits_def Let_def d using show_nat_digits by blast
  moreover have "signed_digits (CHR ''-'' # t) = signed_digits t" for t by (simp add: signed_digits_def)
  ultimately show ?thesis by (simp add: show_int_def)
qed

subsection \<open>The durable offset\<close>

definition durable_offset :: "TransportStore \<Rightarrow> int option" where
  "durable_offset st = (case ts_offset st of None \<Rightarrow> None | Some s \<Rightarrow> parse_int s)"

datatype transport_op =
    Acknowledge int bool
  | Persist string string string int int bool
  | Failed string bool
  | Delivered string bool

fun transport_step :: "TransportStore \<Rightarrow> transport_op \<Rightarrow> TransportStore" where
  "transport_step st (Acknowledge n f) = fst (acknowledge_offset st n f)"
| "transport_step st (Persist uid chat text n clock f) = fst (persist_pending_with_offset st uid chat text n clock f)"
| "transport_step st (Failed uid f) = fst (record_delivery_failure st uid f)"
| "transport_step st (Delivered uid f) = fst (mark_delivered st uid f)"

lemma load_offset_durable: "load_offset st = Inr m \<Longrightarrow> durable_offset st = m"
  by (auto simp: load_offset_def durable_offset_def validate_stored_offset_def bindE_Inr_iff split: option.splits if_splits)

lemma durable_of_text: "ts_offset st = Some (show_int d) \<Longrightarrow> durable_offset st = Some d"
  by (simp add: durable_offset_def)

lemma monotonic_offset_ge:
  assumes "monotonic_offset st n = Inr d"
  shows "n \<le> d" "durable_offset st \<le> Some d"
proof -
  obtain cur where c: "load_offset st = Inr cur" "d = (case cur of None \<Rightarrow> n | Some c \<Rightarrow> max c n)"
    using assms by (auto simp: monotonic_offset_def bindE_Inr_iff)
  then show "n \<le> d" "durable_offset st \<le> Some d" using load_offset_durable [OF c(1)] by (auto split: option.splits)
qed

lemma acknowledge_cases:
  "acknowledge_offset st n f = (st', r) \<Longrightarrow>
    (case r of Inl _ \<Rightarrow> st' = st
     | Inr d \<Rightarrow> monotonic_offset st n = Inr d \<and> ts_offset st' = Some (show_int d) \<and> ts_pending st' = ts_pending st)"
  by (auto simp: acknowledge_offset_def split: sum.splits if_splits)

lemma persist_cases:
  "persist_pending_with_offset st uid chat text n clock f = (st', r) \<Longrightarrow>
    (case r of Inl _ \<Rightarrow> st' = st
     | Inr d \<Rightarrow> monotonic_offset st n = Inr d \<and> ts_offset st' = Some (show_int d) \<and>
         ts_pending st' = upsert_pending st uid chat text clock)"
  by (auto simp: persist_pending_with_offset_def bindE_Inr_iff split: sum.splits if_splits)

lemma transport_step_mono: "durable_offset st \<le> durable_offset (transport_step st x)"
proof (cases x)
  case (Acknowledge n f)
  obtain st' r where a: "acknowledge_offset st n f = (st', r)" by fastforce
  have "st' = st \<or> durable_offset st \<le> durable_offset st'"
    using acknowledge_cases [OF a] monotonic_offset_ge(2) by (auto simp: durable_of_text split: sum.splits)
  then show ?thesis using a Acknowledge by auto
next
  case (Persist uid chat resp n clock f)
  obtain st' r where a: "persist_pending_with_offset st uid chat resp n clock f = (st', r)" by fastforce
  have "st' = st \<or> durable_offset st \<le> durable_offset st'"
    using persist_cases [OF a] monotonic_offset_ge(2) by (auto simp: durable_of_text split: sum.splits)
  then show ?thesis using a Persist by auto
qed (auto simp: durable_offset_def record_delivery_failure_def mark_delivered_def split: sum.splits option.splits)

interpretation offsets: monotone_machine transport_step durable_offset
  by unfold_locales (rule transport_step_mono)

text \<open>C34: an acknowledged offset survives: what \<^verbatim>\<open>acknowledge_offset\<close> returned is what a restart loads,
  it is at least the acknowledged one and at least the one stored before, and no later sequence
  of operations, failing transactions included, lowers it.\<close>

theorem acknowledged_offset_survives:
  assumes "acknowledge_offset st n f = (st', Inr d)" and "length (show_int d) \<le> 65"
  shows "load_offset st' = Inr (Some d) \<and> n \<le> d \<and> durable_offset st \<le> Some d \<and>
    Some d \<le> durable_offset (foldl transport_step st' xs)"
proof -
  have m: "monotonic_offset st n = Inr d" "ts_offset st' = Some (show_int d)" using acknowledge_cases [OF assms(1)] by auto
  have "load_offset st' = Inr (Some d)"
    using m(2) assms(2) by (simp add: load_offset_def validate_stored_offset_def MAX_TELEGRAM_ID_CHARS_def)
  moreover have "durable_offset st' = Some d" using m(2) by (simp add: durable_offset_def)
  ultimately show ?thesis using monotonic_offset_ge [OF m(1)] offsets.run_mono [of st' xs] by simp
qed

theorem acknowledged_offset_survives_witness:
  "load_offset (fst (acknowledge_offset empty_transport 7 False)) = Inr (Some 7)"
proof -
  have "acknowledge_offset empty_transport 7 False = (\<lparr>ts_offset = Some (show_int 7), ts_pending = []\<rparr>, Inr 7)"
    by (simp add: acknowledge_offset_def monotonic_offset_def load_offset_def empty_transport_def)
  from acknowledged_offset_survives [OF this, of "[]"] this show ?thesis by (simp add: show_int_def show_nat.simps)
qed

subsection \<open>A stored offset that cannot be read back\<close>

lemma oversized_offset_bricks_the_store:
  \<comment> \<open>acknowledging accepts any integer, loading refuses more than 65 characters: from then on every
      load and every acknowledgement raises\<close>
  assumes "acknowledge_offset st n f = (st', Inr d)" and "65 < length (show_int d)"
  shows "\<exists>e. load_offset st' = Inl e \<and> (\<forall>m g. acknowledge_offset st' m g = (st', Inl e))"
proof -
  have m: "ts_offset st' = Some (show_int d)" using acknowledge_cases [OF assms(1)] by auto
  then have l: "load_offset st' = Inl (ValueError ''invalid persisted Telegram offset'')"
    using assms(2) by (simp add: load_offset_def validate_stored_offset_def MAX_TELEGRAM_ID_CHARS_def)
  then show ?thesis by (simp add: acknowledge_offset_def monotonic_offset_def)
qed

lemma oversized_offset_exists:
  "\<exists>st' d. acknowledge_offset empty_transport (10 ^ 65) False = (st', Inr d) \<and> 65 < length (show_int d)"
proof -
  have "length (show_nat (10 ^ k)) = Suc k" for k
  proof (induction k)
    case 0
    then show ?case by (simp add: show_nat.simps)
  next
    case (Suc k)
    have "(10 :: nat) ^ Suc k \<ge> 10" by simp
    then have "show_nat (10 ^ Suc k) = show_nat (10 ^ Suc k div 10) @ [char_of (48 + 10 ^ Suc k mod 10 :: nat)]"
      by (subst show_nat.simps) simp
    then show ?case using Suc by simp
  qed
  then have "length (show_int (10 ^ 65)) = 66" by (simp add: show_int_def nat_power_eq del: power_numeral)
  then show ?thesis by (simp add: acknowledge_offset_def monotonic_offset_def load_offset_def empty_transport_def del: power_numeral)
qed

end
