(* ===== verification/TelegramTransport.thy ===== *)
theory TelegramTransport
  imports TelegramController TelegramState "HOL-Library.Multiset"
begin

section \<open>Polling and delivery (\<^verbatim>\<open>telegram_transport.py\<close>)\<close>

text \<open>
  One poll reads a batch of updates and handles them in order: the adapter verifies an
  update, the controller executes it, the answer is made durable together with the next
  offset, and only then sent. Each update comes with an environment that says how the
  world behaved while it was handled: which transactions failed, what the executors
  returned, what the Bot API answered. The theorems hold for every environment, so for
  every crash-free interleaving of failures. The controller answers every request, so the
  handler around it for unexpected exceptions never runs and is left out.
\<close>

record UpdateEnv =
  ue_claim_fails :: bool
  ue_audit_fails :: bool
  ue_request :: RequestEnv
  ue_offset_fails :: bool
  ue_clock :: int
  ue_send :: "pydict py"
  ue_mark_fails :: bool

record Delivery =
  dl_update_id :: string
  dl_chat :: string
  dl_text :: string
  dl_status :: string
  dl_failure :: "string option"

record RemoteState =
  rs_replay :: ReplayStore
  rs_control :: ControlStore
  rs_transport :: "TransportStore option"

record PollResult =
  po_offset :: "int option"
  po_seen :: nat
  po_accepted :: nat
  po_rejected :: nat
  po_sent :: nat
  po_send_failures :: nat
  po_acknowledged :: nat
  po_pending :: "Delivery list"
  po_failures :: nat
  po_error :: "string option"

definition empty_poll_result :: "int option \<Rightarrow> string option \<Rightarrow> PollResult" where
  "empty_poll_result next_offset err =
    \<lparr>po_offset = next_offset, po_seen = 0, po_accepted = 0, po_rejected = 0, po_sent = 0, po_send_failures = 0,
     po_acknowledged = 0, po_pending = [], po_failures = 0, po_error = err\<rparr>"

subsection \<open>Text\<close>

fun replace_all :: "string \<Rightarrow> string \<Rightarrow> nat \<Rightarrow> string \<Rightarrow> string" where
  \<comment> \<open>\<^verbatim>\<open>s.replace(old, new)\<close> for a nonempty \<open>old\<close>; the number counts the characters of a match still to skip\<close>
  "replace_all old new k [] = []"
| "replace_all old new (Suc k) (c # cs) = replace_all old new k cs"
| "replace_all old new 0 (c # cs) =
    (if take (length old) (c # cs) = old then new @ replace_all old new (length old - 1) cs
     else c # replace_all old new 0 cs)"

definition redact :: "string list \<Rightarrow> string \<Rightarrow> string" where
  "redact secrets s = foldl (\<lambda>t secret. if secret = [] then t else replace_all secret ''[redacted]'' 0 t) s secrets"

definition telegram_safe_text :: "string \<Rightarrow> nat \<Rightarrow> string list \<Rightarrow> string" where
  "telegram_safe_text s n secrets = take n (redact secrets (one_line s))"

definition config_secrets :: "string \<Rightarrow> pydict option \<Rightarrow> string list" where
  "config_secrets bot_token config =
    filter (\<lambda>v. v \<noteq> []) (py_strip bot_token #
      (case config of None \<Rightarrow> [] | Some d \<Rightarrow> map (\<lambda>k. str_or (dget d k) []) TRUSTED_KEYS))"

subsection \<open>Offsets\<close>

definition update_number :: "pyval \<Rightarrow> int option" where
  "update_number update =
    (case update of VDict d \<Rightarrow> (case dget d ''update_id'' of VInt n \<Rightarrow> Some n | _ \<Rightarrow> None) | _ \<Rightarrow> None)"

definition acknowledge_update :: "int option \<Rightarrow> int option \<Rightarrow> int option" where
  "acknowledge_update offset update_id =
    (case update_id of None \<Rightarrow> offset
     | Some u \<Rightarrow> Some (case offset of None \<Rightarrow> u + 1 | Some k \<Rightarrow> max k (u + 1)))"

definition initialize_offset :: "int option \<Rightarrow> TransportStore option \<Rightarrow> bool \<Rightarrow> TransportStore option \<times> int option py" where
  "initialize_offset offset store db_fails =
    (case store of
       None \<Rightarrow> (None, Inr offset)
     | Some st \<Rightarrow>
       (case offset of
          None \<Rightarrow> (Some st, load_offset st)
        | Some k \<Rightarrow> (case acknowledge_offset st k db_fails of
            (st', Inl e) \<Rightarrow> (Some st', Inl e)
          | (st', Inr _) \<Rightarrow> (Some st', load_offset st'))))"

definition persist_terminal_offset :: "int option \<Rightarrow> int option \<Rightarrow> TransportStore option \<Rightarrow> bool \<Rightarrow> TransportStore option \<times> int option py" where
  "persist_terminal_offset offset update_id store db_fails =
    (let next_offset = acknowledge_update offset update_id in
     case (store, next_offset) of
       (Some st, Some k) \<Rightarrow> (case acknowledge_offset st k db_fails of
           (st', Inl e) \<Rightarrow> (Some st', Inl e)
         | (st', Inr d) \<Rightarrow> (Some st', Inr (Some d)))
     | _ \<Rightarrow> (store, Inr next_offset))"

subsection \<open>Delivery\<close>

definition mint_delivery :: "string \<Rightarrow> string \<Rightarrow> string \<Rightarrow> Delivery" where
  "mint_delivery uid chat txt = \<lparr>dl_update_id = uid, dl_chat = chat, dl_text = txt, dl_status = ''PENDING'', dl_failure = None\<rparr>"

definition restore_delivery :: "StoredDelivery \<Rightarrow> Delivery" where
  "restore_delivery s = \<lparr>dl_update_id = sd_update_id s, dl_chat = sd_chat s, dl_text = sd_text s, dl_status = ''PENDING'',
     dl_failure = sd_failure s\<rparr>"

definition delivery_with_failure :: "Delivery \<Rightarrow> string \<Rightarrow> Delivery" where
  "delivery_with_failure d reason = d\<lparr>dl_status := ''PENDING'', dl_failure := Some reason\<rparr>"

definition sent_ok :: "pydict py \<Rightarrow> bool" where
  "sent_ok r = (case r of Inl _ \<Rightarrow> False | Inr d \<Rightarrow> dget d ''ok'' = VBool True)"

definition deliver_response :: "pydict py \<Rightarrow> Delivery \<Rightarrow> Delivery py" where
  \<comment> \<open>\<^verbatim>\<open>deliver_telegram_response\<close>; the argument is what \<^verbatim>\<open>send_message\<close> did\<close>
  "deliver_response send d =
    (if dl_status d = ''DELIVERED'' then Inr d
     else if dl_status d \<noteq> ''PENDING'' then Inl (ValueError ''invalid Telegram response delivery status'')
     else if sent_ok send then Inr (d\<lparr>dl_status := ''DELIVERED'', dl_failure := None\<rparr>)
     else Inr (d\<lparr>dl_failure := Some ''SEND_MESSAGE_FAILED''\<rparr>))"

definition settle_delivery :: "UpdateEnv \<Rightarrow> TransportStore option \<Rightarrow> Delivery \<Rightarrow> PollResult \<Rightarrow> TransportStore option \<times> PollResult" where
  \<comment> \<open>the bookkeeping after the attempt to send\<close>
  "settle_delivery env store d r =
    (if dl_status d = ''DELIVERED'' then
       (let r1 = r\<lparr>po_sent := po_sent r + 1\<rparr> in
        case store of None \<Rightarrow> (None, r1)
        | Some st \<Rightarrow> (case mark_delivered st (dl_update_id d) (ue_mark_fails env) of
            (st', Inr _) \<Rightarrow> (Some st', r1)
          | (st', Inl _) \<Rightarrow> (Some st', r1\<lparr>po_pending := po_pending r @ [delivery_with_failure d ''DELIVERY_ACK_FAILED'']\<rparr>)))
     else
       (let r1 = r\<lparr>po_send_failures := po_send_failures r + 1, po_pending := po_pending r @ [d]\<rparr> in
        case store of None \<Rightarrow> (None, r1)
        | Some st \<Rightarrow> (case record_delivery_failure st (dl_update_id d) (ue_mark_fails env) of
            (st', Inr _) \<Rightarrow> (Some st', r1)
          | (st', Inl _) \<Rightarrow> (Some st', r1\<lparr>po_failures := po_failures r + 1\<rparr>))))"

subsection \<open>One update\<close>

datatype flow = Continue PollResult | Stop PollResult

fun flow_result :: "flow \<Rightarrow> PollResult" where
  "flow_result (Continue r) = r"
| "flow_result (Stop r) = r"

type_synonym executed = "(TelegramRequest \<times> remote_call list) list"
  \<comment> \<open>the requests that were processed, with the calls each made\<close>

definition drop_update :: "UpdateEnv \<Rightarrow> pyval \<Rightarrow> RemoteState \<Rightarrow> PollResult \<Rightarrow> RemoteState \<times> executed \<times> flow" where
  \<comment> \<open>a rejected update: only its offset is stored\<close>
  "drop_update env update s r =
    (case persist_terminal_offset (po_offset r) (update_number update) (rs_transport s) (ue_offset_fails env) of
       (store, Inl _) \<Rightarrow> (s\<lparr>rs_transport := store\<rparr>, [], Stop (r\<lparr>po_error := Some ''STATE_PERSIST_FAILED''\<rparr>))
     | (store, Inr k) \<Rightarrow> (s\<lparr>rs_transport := store\<rparr>, [], Continue (r\<lparr>po_offset := k\<rparr>)))"

definition send_answer :: "UpdateEnv \<Rightarrow> RemoteState \<Rightarrow> Delivery \<Rightarrow> int option \<Rightarrow> PollResult \<Rightarrow> RemoteState \<times> flow" where
  "send_answer env s d ack r =
    (case deliver_response (ue_send env) d of
       Inl _ \<Rightarrow> (s, Stop r)
     | Inr d' \<Rightarrow>
       (case settle_delivery env (rs_transport s) d' r of
          (store, r') \<Rightarrow> (s\<lparr>rs_transport := store\<rparr>, Continue (if rs_transport s = None then r'\<lparr>po_offset := ack\<rparr> else r'))))"

definition answer_update :: "UpdateEnv \<Rightarrow> pyval \<Rightarrow> RemoteState \<Rightarrow> Delivery \<Rightarrow> PollResult \<Rightarrow> RemoteState \<times> flow" where
  \<comment> \<open>make the answer durable with the next offset, then send it\<close>
  "answer_update env update s d r =
    (let ack = acknowledge_update (po_offset r) (update_number update);
         failed = r\<lparr>po_failures := po_failures r + 1, po_pending := po_pending r @ [d]\<rparr> in
     case rs_transport s of
       None \<Rightarrow> send_answer env s d ack r
     | Some st \<Rightarrow>
       (case ack of
          None \<Rightarrow> (s, Stop (failed\<lparr>po_error := Some ''INVALID_UPDATE_ID''\<rparr>))
        | Some k \<Rightarrow>
          (case persist_pending_with_offset st (dl_update_id d) (dl_chat d) (dl_text d) k (ue_clock env) (ue_offset_fails env) of
             (st', Inl _) \<Rightarrow> (s\<lparr>rs_transport := Some st'\<rparr>, Stop (failed\<lparr>po_error := Some ''STATE_PERSIST_FAILED''\<rparr>))
           | (st', Inr k') \<Rightarrow> send_answer env (s\<lparr>rs_transport := Some st'\<rparr>) d ack (r\<lparr>po_offset := Some k'\<rparr>))))"

definition as_mapping :: "pyval \<Rightarrow> pydict" where
  "as_mapping v = (case v of VDict d \<Rightarrow> d | _ \<Rightarrow> [])"

definition handle_update ::
  "TelegramConfig \<Rightarrow> string \<Rightarrow> nat \<Rightarrow> RemoteState \<Rightarrow> PollResult \<Rightarrow> pyval \<Rightarrow> UpdateEnv \<Rightarrow> RemoteState \<times> executed \<times> flow" where
  "handle_update config bot_token n s r0 update env =
    (let r = r0\<lparr>po_seen := po_seen r0 + 1\<rparr> in
     case process_telegram_update config (rs_replay s) (as_mapping update) (ue_claim_fails env) (ue_audit_fails env) of
       (replay, Inl _) \<Rightarrow> drop_update env update (s\<lparr>rs_replay := replay\<rparr>)
           (r\<lparr>po_rejected := po_rejected r + 1, po_failures := po_failures r + 1\<rparr>)
     | (replay, Inr res) \<Rightarrow>
       (case (ar_accepted res, ar_request res) of
          (True, Some request) \<Rightarrow>
            (case process_telegram_request (ue_request env) (rs_control s) request n of
               (control, calls, response) \<Rightarrow>
                 (let d = mint_delivery (tr_update_id request) (tr_chat_id request)
                        (telegram_safe_text (disp_formatted response) n (config_secrets bot_token (re_config (ue_request env))));
                      r1 = r\<lparr>po_accepted := po_accepted r + 1, po_acknowledged := po_acknowledged r + 1\<rparr> in
                  case answer_update env update (s\<lparr>rs_replay := replay, rs_control := control\<rparr>) d r1 of
                    (s', f) \<Rightarrow> (s', [(request, calls)], f)))
        | _ \<Rightarrow> drop_update env update (s\<lparr>rs_replay := replay\<rparr>) (r\<lparr>po_rejected := po_rejected r + 1\<rparr>)))"

subsection \<open>Polls\<close>

fun handle_updates ::
  "TelegramConfig \<Rightarrow> string \<Rightarrow> nat \<Rightarrow> RemoteState \<Rightarrow> PollResult \<Rightarrow> (pyval \<times> UpdateEnv) list \<Rightarrow> RemoteState \<times> executed \<times> PollResult" where
  "handle_updates config bot_token n s r [] = (s, [], r)"
| "handle_updates config bot_token n s r ((u, env) # us) =
    (case handle_update config bot_token n s r u env of
       (s1, ex, Stop r1) \<Rightarrow> (s1, ex, r1)
     | (s1, ex, Continue r1) \<Rightarrow>
         (case handle_updates config bot_token n s1 r1 us of (s2, ex', r2) \<Rightarrow> (s2, ex @ ex', r2)))"

record PollInput =
  \<comment> \<open>the world of one poll: what \<^verbatim>\<open>getUpdates\<close> did, and the world of the i-th update of the batch\<close>
  pi_offset :: "int option"
  pi_init_fails :: bool
  pi_payload :: "pydict py"
  pi_env :: "nat \<Rightarrow> UpdateEnv"

definition telegram_result_list :: "pydict \<Rightarrow> pyval list py" where
  "telegram_result_list payload =
    (if dget payload ''ok'' \<noteq> VBool True then Inl (ValueError ''TELEGRAM_API_NOT_OK'')
     else case dget payload ''result'' of VList us \<Rightarrow> Inr us | _ \<Rightarrow> Inl (ValueError ''TELEGRAM_RESULT_NOT_LIST''))"

definition poll_telegram_once ::
  "TelegramConfig \<Rightarrow> string \<Rightarrow> nat \<Rightarrow> RemoteState \<Rightarrow> PollInput \<Rightarrow> RemoteState \<times> executed \<times> PollResult" where
  "poll_telegram_once config bot_token n s i =
    (case initialize_offset (pi_offset i) (rs_transport s) (pi_init_fails i) of
       (store, Inl _) \<Rightarrow> (s\<lparr>rs_transport := store\<rparr>, [], empty_poll_result (pi_offset i) (Some ''STATE_LOAD_FAILED''))
     | (store, Inr k) \<Rightarrow>
       (case bindE (pi_payload i) telegram_result_list of
          Inl _ \<Rightarrow> (s\<lparr>rs_transport := store\<rparr>, [], empty_poll_result k (Some ''GET_UPDATES_FAILED''))
        | Inr us \<Rightarrow> handle_updates config bot_token n (s\<lparr>rs_transport := store\<rparr>) (empty_poll_result k None)
            (zip us (map (pi_env i) [0..<length us]))))"

fun poll_telegram_loop ::
  "TelegramConfig \<Rightarrow> string \<Rightarrow> nat \<Rightarrow> RemoteState \<Rightarrow> int option \<Rightarrow> PollInput list \<Rightarrow> RemoteState \<times> executed \<times> PollResult list" where
  \<comment> \<open>one input per iteration; the offset is handed on\<close>
  "poll_telegram_loop config bot_token n s offset [] = (s, [], [])"
| "poll_telegram_loop config bot_token n s offset (i # is) =
    (case poll_telegram_once config bot_token n s (i\<lparr>pi_offset := offset\<rparr>) of
       (s1, ex, r) \<Rightarrow> (case poll_telegram_loop config bot_token n s1 (po_offset r) is of
          (s2, ex', rs) \<Rightarrow> (s2, ex @ ex', r # rs)))"

subsection \<open>Retries\<close>

fun retry_deliveries :: "TransportStore \<Rightarrow> (StoredDelivery \<times> pydict py \<times> bool) list \<Rightarrow> TransportStore \<times> Delivery list" where
  \<comment> \<open>each stored answer with the outcome of sending it and of the transaction after it\<close>
  "retry_deliveries st [] = (st, [])"
| "retry_deliveries st ((stored, send, db_fails) # rest) =
    (case deliver_response send (restore_delivery stored) of
       Inl _ \<Rightarrow> (st, [])
     | Inr d \<Rightarrow>
       (if dl_status d = ''DELIVERED'' then
          (case mark_delivered st (dl_update_id d) db_fails of
             (st', Inr _) \<Rightarrow> (case retry_deliveries st' rest of (st2, ds) \<Rightarrow> (st2, d # ds))
           | (st', Inl _) \<Rightarrow> (case retry_deliveries st' rest of (st2, ds) \<Rightarrow> (st2, delivery_with_failure d ''DELIVERY_ACK_FAILED'' # ds)))
        else
          (case record_delivery_failure st (dl_update_id d) db_fails of
             (st', _) \<Rightarrow> (case retry_deliveries st' rest of (st2, ds) \<Rightarrow> (st2, d # ds)))))"

definition retry_pending_telegram_responses :: "TransportStore \<Rightarrow> (StoredDelivery \<Rightarrow> pydict py \<times> bool) \<Rightarrow> TransportStore \<times> Delivery list" where
  "retry_pending_telegram_responses st world =
    (case load_pending st of Inl _ \<Rightarrow> (st, []) | Inr ds \<Rightarrow> retry_deliveries st (map (\<lambda>d. (d, world d)) ds))"

subsection \<open>What polling can do\<close>

definition executed_key :: "TelegramRequest \<times> remote_call list \<Rightarrow> string" where
  "executed_key x = replay_key (tr_update_id (fst x))"

definition executed_keys :: "executed \<Rightarrow> string list" where
  "executed_keys ex = map executed_key ex"

definition executed_actions :: "executed \<Rightarrow> string list" where
  \<comment> \<open>the confirmations the called actions rest on\<close>
  "executed_actions ex = concat (map (\<lambda>x. action_ids (snd x)) ex)"

definition verified_request :: "TelegramConfig \<Rightarrow> TelegramRequest \<Rightarrow> bool" where
  "verified_request config req \<longleftrightarrow> authorize (tr_user_id req) (tr_chat_id req) config = Inr () \<and>
     Inr (tr_command req) \<in> range parse_telegram_remote_command"

definition fresh_run :: "string set \<Rightarrow> string set \<Rightarrow> string list \<Rightarrow> bool" where
  \<comment> \<open>from one set of claimed keys to another, claiming each of the keys once\<close>
  "fresh_run c c' ks \<longleftrightarrow> distinct ks \<and> set ks \<inter> c = {} \<and> c \<union> set ks \<subseteq> c'"

lemma fresh_run_append: "fresh_run a b ks \<Longrightarrow> fresh_run b c ls \<Longrightarrow> fresh_run a c (ks @ ls)"
  by (auto simp: fresh_run_def)

lemma fresh_run_refl [simp]: "fresh_run a a []"
  by (simp add: fresh_run_def)

definition polled :: "TelegramConfig \<Rightarrow> RemoteState \<Rightarrow> RemoteState \<Rightarrow> executed \<Rightarrow> bool" where
  "polled config s s' ex \<longleftrightarrow>
     fresh_run (replay_ids (rs_replay s)) (replay_ids (rs_replay s')) (executed_keys ex) \<and>
     fresh_run (settled (rs_control s)) (settled (rs_control s')) (executed_actions ex) \<and>
     list_all (\<lambda>x. verified_request config (fst x)) ex"

lemma polled_append: "polled config s s1 ex \<Longrightarrow> polled config s1 s2 ex' \<Longrightarrow> polled config s s2 (ex @ ex')"
  unfolding polled_def executed_keys_def executed_actions_def by (auto intro: fresh_run_append)

lemma polled_idle:
  "replay_ids (rs_replay s) \<subseteq> replay_ids (rs_replay s') \<Longrightarrow> rs_control s' = rs_control s \<Longrightarrow> polled config s s' []"
  by (simp add: polled_def fresh_run_def executed_keys_def executed_actions_def)

lemma control_path_fresh:
  assumes "control_path st st' calls"
  shows "fresh_run (settled st) (settled st') (action_ids calls)"
proof -
  obtain ops where o: "st' = foldl control_step st ops" "action_ids calls = trace control_step consumed_by st ops"
    using assms unfolding control_path_def by blast
  have "settled st \<union> set (trace control_step consumed_by st ops) \<subseteq> settled (foldl control_step st ops)"
  proof (induction ops arbitrary: st)
    case (Cons x ops)
    have "settled st \<union> set (consumed_by st x) \<subseteq> settled (control_step st x)" by (rule confirmations.acts_claimed)
    then show ?case using Cons [of "control_step st x"] by auto
  qed simp
  then show ?thesis using o confirmations.trace_once [of st ops] by (simp add: fresh_run_def)
qed

lemma drop_update_keeps:
  "drop_update env u s r = (s', ex, f) \<Longrightarrow> ex = [] \<and> rs_replay s' = rs_replay s \<and> rs_control s' = rs_control s"
  by (auto simp: drop_update_def split: prod.splits sum.splits)

lemma send_answer_keeps:
  "send_answer env s d ack r = (s', f) \<Longrightarrow> rs_replay s' = rs_replay s \<and> rs_control s' = rs_control s"
  by (auto simp: send_answer_def split: prod.splits sum.splits)

lemma answer_update_keeps:
  "answer_update env u s d r = (s', f) \<Longrightarrow> rs_replay s' = rs_replay s \<and> rs_control s' = rs_control s"
  by (auto simp: answer_update_def Let_def split: prod.splits sum.splits option.splits dest: send_answer_keeps)

lemma handle_update_polled:
  assumes "handle_update config tok n s r0 u env = (s', ex, f)"
  shows "polled config s s' ex"
proof -
  define r where "r = r0\<lparr>po_seen := po_seen r0 + 1\<rparr>"
  obtain replay res where p: "process_telegram_update config (rs_replay s) (as_mapping u) (ue_claim_fails env) (ue_audit_fails env) = (replay, res)"
    by fastforce
  have grow: "replay_ids (rs_replay s) \<subseteq> replay_ids replay" using update_keeps_claims p by (metis fst_conv)
  have idle: "drop_update env u (s\<lparr>rs_replay := replay\<rparr>) r1 = (s', ex, f) \<Longrightarrow> polled config s s' ex" for r1
    using polled_idle [of s s' config] grow by (auto dest!: drop_update_keeps)
  show ?thesis
  proof (cases "\<exists>a req. res = Inr a \<and> ar_accepted a \<and> ar_request a = Some req")
    case False
    then have "\<exists>r1. drop_update env u (s\<lparr>rs_replay := replay\<rparr>) r1 = (s', ex, f)"
      using assms p by (auto simp: handle_update_def Let_def split: sum.splits bool.splits option.splits)
    then show ?thesis using idle by blast
  next
    case True
    then obtain a req where a: "res = Inr a" "ar_accepted a" "ar_request a = Some req" by blast
    obtain control calls resp where c: "process_telegram_request (ue_request env) (rs_control s) req n = (control, calls, resp)"
      by (cases "process_telegram_request (ue_request env) (rs_control s) req n") auto
    obtain d r1 where w: "answer_update env u (s\<lparr>rs_replay := replay, rs_control := control\<rparr>) d r1 = (s', f)" and ex: "ex = [(req, calls)]"
      using assms p a c by (auto simp: handle_update_def Let_def split: prod.splits)
    have k: "rs_replay s' = replay" "rs_control s' = control" using answer_update_keeps [OF w] by simp_all
    note A = accepted_request [OF p [unfolded a(1)] a(3)]
    show ?thesis
      using A k control_path_fresh [OF request_path [OF c]]
      by (simp add: ex polled_def executed_keys_def executed_key_def executed_actions_def verified_request_def fresh_run_def)
  qed
qed

lemma handle_updates_polled:
  "handle_updates config tok n s r us = (s', ex, r') \<Longrightarrow> polled config s s' ex"
proof (induction us arbitrary: s r s' ex r')
  case Nil
  then show ?case by (auto intro: polled_idle)
next
  case (Cons x us)
  obtain u env where x: "x = (u, env)" by (cases x)
  obtain s1 ex1 f where h: "handle_update config tok n s r u env = (s1, ex1, f)"
    by (cases "handle_update config tok n s r u env") auto
  note P = handle_update_polled [OF h]
  show ?case
  proof (cases f)
    case (Stop r1)
    then show ?thesis using Cons.prems P by (simp add: x h)
  next
    case (Continue r1)
    obtain s2 ex2 r2 where t: "handle_updates config tok n s1 r1 us = (s2, ex2, r2)"
      by (cases "handle_updates config tok n s1 r1 us") auto
    then show ?thesis using Cons.prems P Cons.IH [OF t] polled_append by (simp add: x h Continue) metis
  qed
qed

lemma poll_polled:
  assumes "poll_telegram_once config tok n s i = (s', ex, r)"
  shows "polled config s s' ex"
proof -
  obtain store k where k: "initialize_offset (pi_offset i) (rs_transport s) (pi_init_fails i) = (store, k)" by fastforce
  have idle: "polled config s (s\<lparr>rs_transport := store\<rparr>) []" by (rule polled_idle) simp_all
  show ?thesis
  proof (cases "\<exists>o' us. k = Inr o' \<and> bindE (pi_payload i) telegram_result_list = Inr us")
    case True
    then obtain o' us where "k = Inr o'" "bindE (pi_payload i) telegram_result_list = Inr us" by blast
    then have "polled config (s\<lparr>rs_transport := store\<rparr>) s' ex"
      using assms k handle_updates_polled by (simp add: poll_telegram_once_def)
    then show ?thesis using polled_append [OF idle] by simp
  next
    case False
    then have "s' = s\<lparr>rs_transport := store\<rparr> \<and> ex = []"
      using assms k by (auto simp: poll_telegram_once_def split: sum.splits)
    then show ?thesis using idle by simp
  qed
qed

definition poll_step :: "TelegramConfig \<Rightarrow> string \<Rightarrow> nat \<Rightarrow> RemoteState \<Rightarrow> PollInput \<Rightarrow> RemoteState" where
  "poll_step config tok n s i = fst (poll_telegram_once config tok n s i)"

definition poll_executed :: "TelegramConfig \<Rightarrow> string \<Rightarrow> nat \<Rightarrow> RemoteState \<Rightarrow> PollInput \<Rightarrow> executed" where
  "poll_executed config tok n s i = fst (snd (poll_telegram_once config tok n s i))"

lemma poll_step_polled: "polled config s (poll_step config tok n s i) (poll_executed config tok n s i)"
  by (cases "poll_telegram_once config tok n s i")
     (auto simp: poll_step_def poll_executed_def intro: poll_polled)

interpretation updates: once_only "poll_step config tok n" "\<lambda>s i. executed_keys (poll_executed config tok n s i)"
    "\<lambda>s. replay_ids (rs_replay s)"
  for config tok n
  using poll_step_polled by unfold_locales (auto simp: polled_def fresh_run_def)

interpretation actions: once_only "poll_step config tok n" "\<lambda>s i. executed_actions (poll_executed config tok n s i)"
    "\<lambda>s. settled (rs_control s)"
  for config tok n
  using poll_step_polled by unfold_locales (auto simp: polled_def fresh_run_def)

text \<open>C15: nothing remote runs twice: over any sequence of polls, with any offsets, repeated updates and
  any failures of the stores and the network, every update is executed at most once, every
  confirmation triggers at most one action, and neither was settled before.\<close>

theorem remote_actions_run_once:
  "distinct (trace (poll_step config tok n) (\<lambda>s i. executed_keys (poll_executed config tok n s i)) s xs) \<and>
   set (trace (poll_step config tok n) (\<lambda>s i. executed_keys (poll_executed config tok n s i)) s xs) \<inter> replay_ids (rs_replay s) = {} \<and>
   distinct (trace (poll_step config tok n) (\<lambda>s i. executed_actions (poll_executed config tok n s i)) s xs) \<and>
   set (trace (poll_step config tok n) (\<lambda>s i. executed_actions (poll_executed config tok n s i)) s xs) \<inter> settled (rs_control s) = {}"
  using updates.trace_once [of config tok n s xs] actions.trace_once [of config tok n s xs] by blast

lemma loop_polled: "poll_telegram_loop config tok n s offset is = (s', ex, rs) \<Longrightarrow> polled config s s' ex"
proof (induction "is" arbitrary: s offset s' ex rs)
  case Nil
  then show ?case by (auto intro: polled_idle)
next
  case (Cons i "is")
  obtain s1 ex1 r where h: "poll_telegram_once config tok n s (i\<lparr>pi_offset := offset\<rparr>) = (s1, ex1, r)"
    by (cases "poll_telegram_once config tok n s (i\<lparr>pi_offset := offset\<rparr>)") auto
  obtain s2 ex2 rs2 where t: "poll_telegram_loop config tok n s1 (po_offset r) is = (s2, ex2, rs2)"
    by (cases "poll_telegram_loop config tok n s1 (po_offset r) is") auto
  have "polled config s s2 (ex1 @ ex2)" by (rule polled_append [OF poll_polled [OF h] Cons.IH [OF t]])
  then show ?case using Cons.prems by (simp add: h t)
qed

subsection \<open>Retrying until everything is delivered\<close>

definition pending_ok :: "TransportStore \<Rightarrow> bool" where
  \<comment> \<open>the rows have different ids and every row can be read back\<close>
  "pending_ok st \<longleftrightarrow> distinct (map fst (ts_pending st)) \<and>
     (\<forall>row \<in> set (ts_pending st). \<exists>d. validate_pending_row row = Inr d)"

lemma validate_pending_row_Inr:
  "validate_pending_row (uid, p) = Inr d \<longleftrightarrow>
    validate_normalized_id uid ''update_id'' = Inr uid \<and> validate_normalized_id (pr_chat p) ''chat_id'' = Inr (pr_chat p) \<and>
    validate_response_text (pr_text p) = Inr (pr_text p) \<and>
    pr_failure p \<in> {None, Some ''SEND_MESSAGE_FAILED'', Some ''DELIVERY_ACK_FAILED''} \<and> 0 \<le> pr_retries p \<and>
    d = \<lparr>sd_update_id = uid, sd_chat = pr_chat p, sd_text = pr_text p, sd_failure = pr_failure p, sd_retries = pr_retries p\<rparr>"
proof -
  have i: "validate_normalized_id v nm = Inr w \<Longrightarrow> w = v" for v nm w
    by (auto simp: validate_normalized_id_def Let_def split: if_splits option.splits)
  have t: "validate_response_text v = Inr w \<Longrightarrow> w = v" for v w
    by (auto simp: validate_response_text_def split: if_splits)
  show ?thesis by (auto simp: validate_pending_row_def bindE_Inr_iff dest: i t)
qed

lemma pending_ok_update:
  assumes "pending_ok st" "\<exists>d. validate_pending_row (uid, p) = Inr d" "ts_pending st' = AList.update uid p (ts_pending st)"
  shows "pending_ok st'"
proof -
  have sub: "set (AList.update uid p xs) \<subseteq> insert (uid, p) (set xs)" for xs :: "(string \<times> PendingRow) list"
    by (induction xs) auto
  have "distinct (map fst (AList.update uid p xs))" if "distinct (map fst xs)" for xs :: "(string \<times> PendingRow) list"
    using that by (rule AList.distinct_update)
  then show ?thesis using assms sub unfolding pending_ok_def by (metis insertE subsetD)
qed

lemma pending_ok_row: "pending_ok st \<Longrightarrow> map_of (ts_pending st) uid = Some p \<Longrightarrow> \<exists>d. validate_pending_row (uid, p) = Inr d"
  unfolding pending_ok_def by (meson map_of_SomeD)

lemma upsert_ok:
  assumes "pending_ok st" "validate_normalized_id uid ''update_id'' = Inr uid" "validate_normalized_id chat ''chat_id'' = Inr chat"
    "validate_response_text reply = Inr reply" "ts_pending st' = upsert_pending st uid chat reply clock"
  shows "pending_ok st'"
proof -
  define row where "row = (case map_of (ts_pending st) uid of
      None \<Rightarrow> \<lparr>pr_chat = chat, pr_text = reply, pr_failure = None, pr_retries = 0, pr_created = clock\<rparr>
    | Some p \<Rightarrow> p\<lparr>pr_chat := chat, pr_text := reply\<rparr>)"
  have "\<exists>d. validate_pending_row (uid, row) = Inr d"
    using assms(2-4) pending_ok_row [OF assms(1), of uid]
    by (cases "map_of (ts_pending st) uid") (auto simp: row_def validate_pending_row_Inr)
  from pending_ok_update [OF assms(1) this] show ?thesis using assms(5) by (simp add: upsert_pending_def row_def)
qed

lemma transport_step_ok: "pending_ok st \<Longrightarrow> pending_ok (transport_step st x)"
proof (cases x)
  case (Acknowledge k f)
  assume ok: "pending_ok st"
  obtain st' r where a: "acknowledge_offset st k f = (st', r)" by fastforce
  then have "ts_pending st' = ts_pending st" using acknowledge_cases [OF a] by (auto split: sum.splits)
  then show ?thesis using ok a Acknowledge by (simp add: pending_ok_def)
next
  case (Persist uid chat reply k clock f)
  assume ok: "pending_ok st"
  obtain st' r where a: "persist_pending_with_offset st uid chat reply k clock f = (st', r)" by fastforce
  show ?thesis
  proof (cases r)
    case (Inl e)
    then show ?thesis using persist_cases [OF a] ok a Persist by simp
  next
    case (Inr d)
    then obtain u c t where "validate_normalized_id uid ''update_id'' = Inr u" "validate_normalized_id chat ''chat_id'' = Inr c"
        "validate_response_text reply = Inr t"
      using a by (auto simp: persist_pending_with_offset_def bindE_Inr_iff split: sum.splits if_splits)
    moreover have "u = uid" "c = chat" "t = reply" using calculation
      by (auto simp: validate_normalized_id_def validate_response_text_def Let_def split: if_splits option.splits)
    ultimately show ?thesis using upsert_ok ok persist_cases [OF a] Inr a Persist by auto
  qed
next
  case (Failed uid f)
  assume ok: "pending_ok st"
  show ?thesis
  proof (cases "map_of (ts_pending st) uid")
    case None
    then show ?thesis using ok by (simp add: Failed record_delivery_failure_def split: sum.splits)
  next
    case (Some p)
    define q where "q = p\<lparr>pr_failure := Some ''SEND_MESSAGE_FAILED'', pr_retries := pr_retries p + 1\<rparr>"
    have q: "\<exists>d. validate_pending_row (uid, q) = Inr d"
      using pending_ok_row [OF ok Some] by (auto simp: q_def validate_pending_row_Inr)
    have "ts_pending (transport_step st x) = ts_pending st \<or> ts_pending (transport_step st x) = AList.update uid q (ts_pending st)"
      using Some by (simp add: Failed record_delivery_failure_def q_def split: sum.splits)
    then show ?thesis using pending_ok_update [OF ok q] ok by (auto simp: pending_ok_def)
  qed
next
  case (Delivered uid f)
  assume ok: "pending_ok st"
  then show ?thesis
    by (auto simp: Delivered mark_delivered_def pending_ok_def AList.delete_eq distinct_map inj_on_def split: sum.splits option.splits)
qed

interpretation pending_rows: invariant_machine transport_step pending_ok
  by unfold_locales (rule transport_step_ok)

lemma load_pending_ok:
  assumes "pending_ok st"
  shows "\<exists>ds. load_pending st = Inr ds \<and> distinct (map sd_update_id ds) \<and> set (map sd_update_id ds) = fst ` set (ts_pending st)"
proof -
  define xs where "xs = sort_key (\<lambda>(uid, p). pr_created p) (sort_key fst (ts_pending st))"
  have s: "set xs = set (ts_pending st)" and m: "mset xs = mset (ts_pending st)" by (simp_all add: xs_def)
  have "\<forall>x\<in>set xs. \<exists>d. validate_pending_row x = Inr d" using assms s by (simp add: pending_ok_def)
  then obtain ds where d: "mapE validate_pending_row xs = Inr ds"
  proof (induction xs arbitrary: thesis)
    case (Cons x xs)
    obtain y where y: "validate_pending_row x = Inr y" using Cons.prems(2) by auto
    obtain ys where "mapE validate_pending_row xs = Inr ys" using Cons.IH Cons.prems(2) by auto
    then show ?case using Cons.prems(1) y by simp
  qed simp
  have "map sd_update_id ds = map fst xs"
    using d unfolding mapE_Inr by (induction xs ds rule: list_all2_induct) (auto simp: validate_pending_row_Inr)
  moreover have "distinct (map fst xs)"
    using assms m unfolding pending_ok_def by (metis mset_eq_imp_distinct_iff mset_map)
  moreover have "load_pending st = Inr ds" using d by (simp add: load_pending_def xs_def)
  moreover have "set (map fst xs) = fst ` set (ts_pending st)" using s by simp
  ultimately show ?thesis by metis
qed

definition delivered_form :: "StoredDelivery \<Rightarrow> Delivery" where
  "delivered_form d = (restore_delivery d)\<lparr>dl_status := ''DELIVERED'', dl_failure := None\<rparr>"

lemma deliver_sent: "sent_ok send \<Longrightarrow> deliver_response send (restore_delivery d) = Inr (delivered_form d)"
  by (simp add: deliver_response_def delivered_form_def restore_delivery_def)

lemma mark_delivered_pending:
  assumes "pending_ok st" "uid \<in> fst ` set (ts_pending st)"
  shows "mark_delivered st uid False = (st\<lparr>ts_pending := AList.delete uid (ts_pending st)\<rparr>, Inr ())"
proof -
  obtain p where p: "map_of (ts_pending st) uid = Some p" using assms(2) by (metis map_of_eq_None_iff not_None_eq)
  have "validate_normalized_id uid ''update_id'' = Inr uid" using pending_ok_row [OF assms(1) p] by (auto simp: validate_pending_row_Inr)
  then show ?thesis using p by (simp add: mark_delivered_def)
qed

lemma retry_all:
  assumes "pending_ok st" "distinct (map sd_update_id ds)" "set (map sd_update_id ds) \<subseteq> fst ` set (ts_pending st)"
    and "\<forall>d\<in>set ds. sent_ok (fst (world d)) \<and> \<not> snd (world d)"
  shows "\<exists>st'. retry_deliveries st (map (\<lambda>d. (d, world d)) ds) = (st', map delivered_form ds) \<and>
    ts_offset st' = ts_offset st \<and> ts_pending st' = filter (\<lambda>x. fst x \<notin> sd_update_id ` set ds) (ts_pending st)"
  using assms
proof (induction ds arbitrary: st)
  case Nil
  then show ?case by simp
next
  case (Cons d ds)
  define st1 where "st1 = st\<lparr>ts_pending := AList.delete (sd_update_id d) (ts_pending st)\<rparr>"
  obtain send f where w: "world d = (send, f)" by (cases "world d")
  then have send: "sent_ok send" "\<not> f" using Cons.prems(4) by auto
  have mark: "mark_delivered st (sd_update_id d) False = (st1, Inr ())"
    unfolding st1_def using Cons.prems by (intro mark_delivered_pending) auto
  have "pending_ok st1" using transport_step_ok [OF Cons.prems(1), of "Delivered (sd_update_id d) False"] mark by simp
  moreover have "set (map sd_update_id ds) \<subseteq> fst ` set (ts_pending st1)"
  proof -
    have "set (map fst (ts_pending st1)) = set (map fst (ts_pending st)) - {sd_update_id d}"
      unfolding st1_def by (simp add: AList.delete_keys del: set_map)
    moreover have "sd_update_id d \<notin> set (map sd_update_id ds)" "set (map sd_update_id ds) \<subseteq> set (map fst (ts_pending st))"
      using Cons.prems(2,3) by simp_all
    ultimately have "set (map sd_update_id ds) \<subseteq> set (map fst (ts_pending st1))" by blast
    then show ?thesis by simp
  qed
  ultimately obtain st' where IH: "retry_deliveries st1 (map (\<lambda>d. (d, world d)) ds) = (st', map delivered_form ds)"
      "ts_offset st' = ts_offset st1" "ts_pending st' = filter (\<lambda>x. fst x \<notin> sd_update_id ` set ds) (ts_pending st1)"
    using Cons.IH [of st1] Cons.prems(2,4) by auto
  have "dl_status (delivered_form d) = ''DELIVERED''" "dl_update_id (delivered_form d) = sd_update_id d"
    by (simp_all add: delivered_form_def restore_delivery_def)
  then have "retry_deliveries st (map (\<lambda>d. (d, world d)) (d # ds)) = (st', map delivered_form (d # ds))"
    using w send mark IH(1) by (simp add: deliver_sent)
  moreover have "ts_pending st' = filter (\<lambda>x. fst x \<notin> sd_update_id ` set (d # ds)) (ts_pending st)"
    unfolding IH(3) st1_def by (auto simp: AList.delete_eq intro!: filter_cong)
  ultimately show ?case using IH(2) by (auto simp: st1_def)
qed

text \<open>C24: once the network and the database work again, nothing stays undelivered: from any store the
  operations can reach, one retry reads every pending response back, delivers each of them once,
  and leaves no row and the same offset.\<close>

theorem retry_delivers_everything:
  assumes "st = foldl transport_step empty_transport xs"
    and "\<forall>d. sent_ok (fst (world d)) \<and> \<not> snd (world d)"
  shows "\<exists>st' ds. load_pending st = Inr ds \<and> retry_pending_telegram_responses st world = (st', map delivered_form ds) \<and>
    set (map sd_update_id ds) = fst ` set (ts_pending st) \<and> distinct (map sd_update_id ds) \<and>
    st' = \<lparr>ts_offset = ts_offset st, ts_pending = []\<rparr>"
proof -
  have "pending_ok empty_transport" by (simp add: pending_ok_def empty_transport_def)
  then have ok: "pending_ok st" unfolding assms(1) by (rule pending_rows.run_inv)
  obtain ds where d: "load_pending st = Inr ds" "distinct (map sd_update_id ds)" "set (map sd_update_id ds) = fst ` set (ts_pending st)"
    using load_pending_ok [OF ok] by blast
  obtain st' where r: "retry_deliveries st (map (\<lambda>d. (d, world d)) ds) = (st', map delivered_form ds)"
      "ts_offset st' = ts_offset st" "ts_pending st' = filter (\<lambda>x. fst x \<notin> sd_update_id ` set ds) (ts_pending st)"
    using retry_all [OF ok d(2)] d(3) assms(2) by blast
  have "ts_pending st' = []" using r(3) d(3) by (auto simp: filter_empty_conv)
  then have "st' = \<lparr>ts_offset = ts_offset st, ts_pending = []\<rparr>" using r(2) by simp
  then show ?thesis using d r(1) by (simp add: retry_pending_telegram_responses_def)
qed

theorem retry_delivers_everything_witness:
  "\<exists>st' ds. retry_pending_telegram_responses (foldl transport_step empty_transport [Persist ''7'' ''5'' ''hello'' 8 0 False])
      (\<lambda>_. (Inr [(''ok'', VBool True)], False)) = (st', map delivered_form ds) \<and>
    map sd_update_id ds = [''7''] \<and> ts_pending st' = []"
proof -
  have shown: "show_int 7 = ''7''" "show_int 5 = ''5''" "show_int 8 = ''8''" by code_simp+
  have "parse_int ''7'' = Some 7" "parse_int ''5'' = Some 5" using parse_show_int [of 7] parse_show_int [of 5] shown by simp_all
  then have n: "validate_normalized_id ''7'' k = Inr ''7''" "validate_normalized_id ''5'' k = Inr ''5''" for k
    using shown by (simp_all add: validate_normalized_id_def signed_digits_def is_digit_char_def MAX_TELEGRAM_ID_CHARS_def)
  have st: "foldl transport_step empty_transport [Persist ''7'' ''5'' ''hello'' 8 0 False] =
      \<lparr>ts_offset = Some ''8'', ts_pending = [(''7'', \<lparr>pr_chat = ''5'', pr_text = ''hello'', pr_failure = None, pr_retries = 0, pr_created = 0\<rparr>)]\<rparr>"
    by (simp add: persist_pending_with_offset_def n validate_response_text_def MAX_TELEGRAM_RESPONSE_CHARS_def monotonic_offset_def
        load_offset_def empty_transport_def upsert_pending_def shown)
  have "\<forall>d :: StoredDelivery. sent_ok (fst ((\<lambda>_. (Inr [(''ok'', VBool True)], False)) d)) \<and> \<not> snd ((\<lambda>_. (Inr [(''ok'', VBool True)], False)) d)"
    by (simp add: sent_ok_def dget_def)
  from retry_delivers_everything [OF refl this, of "[Persist ''7'' ''5'' ''hello'' 8 0 False]"]
  obtain st' ds where r: "retry_pending_telegram_responses (foldl transport_step empty_transport [Persist ''7'' ''5'' ''hello'' 8 0 False])
      (\<lambda>_. (Inr [(''ok'', VBool True)], False)) = (st', map delivered_form ds)"
      and k: "set (map sd_update_id ds) = fst ` set (ts_pending (foldl transport_step empty_transport [Persist ''7'' ''5'' ''hello'' 8 0 False]))"
      and u: "distinct (map sd_update_id ds)" "ts_pending st' = []" by (elim exE conjE) simp
  have k7: "set (map sd_update_id ds) = {''7''}" using k unfolding st by simp
  have "card (set (map sd_update_id ds)) = length ds" using distinct_card [OF u(1)] by simp
  then have "length ds = 1" using k7 by simp
  then have "map sd_update_id ds = [''7'']" using k7 by (cases ds) auto
  then show ?thesis using r u(2) by (intro exI [of _ st'] exI [of _ ds] conjI)
qed

definition identity_allowed :: "TelegramConfig \<Rightarrow> TelegramRequest \<Rightarrow> bool" where
  \<comment> \<open>some allowlist is configured and every configured one has the identity\<close>
  "identity_allowed config req \<longleftrightarrow>
     \<not> (allowed_user_ids config = {} \<and> allowed_chat_ids config = {}) \<and>
     (allowed_user_ids config = {} \<or> tr_user_id req \<in> allowed_user_ids config) \<and>
     (allowed_chat_ids config = {} \<or> tr_chat_id req \<in> allowed_chat_ids config)"

text \<open>Only the operator is obeyed: every request a polling loop executes, whatever the updates contain,
  comes from an allowed user in an allowed chat, with at least one allowlist configured, and is one
  of the supported commands.\<close>

theorem loop_executes_verified_only:
  "list_all (\<lambda>x. identity_allowed config (fst x) \<and>
      cmd_name (tr_command (fst x)) \<in> set (map snd (ALLOWED_TELEGRAM_COMMANDS @ ARGUMENT_COMMANDS)))
     (fst (snd (poll_telegram_loop config tok n s offset is)))"
proof -
  have cmd: "cmd_name c \<in> set (map snd (ALLOWED_TELEGRAM_COMMANDS @ ARGUMENT_COMMANDS))"
    if "Inr c \<in> range parse_telegram_remote_command" for c
  proof -
    from that obtain t where t: "parse_telegram_remote_command t = Inr c" by force
    then have "\<exists>k. map_of ALLOWED_TELEGRAM_COMMANDS k = Some (cmd_name c) \<or> map_of ARGUMENT_COMMANDS k = Some (cmd_name c)"
      by (auto simp: parse_telegram_remote_command_def Let_def split: if_splits option.splits list.splits)
    then have "\<exists>x \<in> set (ALLOWED_TELEGRAM_COMMANDS @ ARGUMENT_COMMANDS). cmd_name c = snd x"
      unfolding set_append by (metis UnCI map_of_SomeD snd_conv)
    then show ?thesis unfolding set_map by blast
  qed
  obtain s' ex rs where l: "poll_telegram_loop config tok n s offset is = (s', ex, rs)"
    by (cases "poll_telegram_loop config tok n s offset is") auto
  from loop_polled [OF l] have "list_all (\<lambda>x. verified_request config (fst x)) ex" by (simp add: polled_def)
  then have "list_all (\<lambda>x. identity_allowed config (fst x) \<and>
      cmd_name (tr_command (fst x)) \<in> set (map snd (ALLOWED_TELEGRAM_COMMANDS @ ARGUMENT_COMMANDS))) ex"
    by (rule list.pred_mono_strong) (use cmd in \<open>auto simp: verified_request_def authorize_def identity_allowed_def split: if_splits\<close>)
  then show ?thesis by (simp add: l)
qed

end
