(* ===== verification/Spec2Isabelle.thy ===== *)
theory Spec2Isabelle
  imports RuntimeStartup SignalGeometry LiveReadiness OrderCycle ProviderFailures Lifecycle ExecutionOwnership RuntimeControl ExecutionContext PortfolioAllocator BacktestPortfolio TelegramTransport
begin

text \<open>
  AlphaForge is an execution-aware trading research and PAPER execution platform
  (\<^verbatim>\<open>src/alphaforge\<close>). A candidate order passes a chain of decision functions over
  loosely typed dictionaries; stateful stores guard who may trade, in which mode, and what an
  operator may do remotely; and a runtime starts, recovers and reconciles itself with the exchange
  before and while it trades. This development models that decision and safety core.

  \<^bold>\<open>The parts and how they interact.\<close>
  \<^item> \<open>PyFloat\<close>, \<open>PyVal\<close>, \<open>PyTime\<close>: the Python the code uses. A float is an exact rational that
    is rounded after each operation (binary64, half to even, overflow to infinity), an
    infinity or a NaN; a value is a \<open>pyval\<close>, a dictionary an association list, an operation
    that may raise returns \<open>exc + 'a\<close>. \<open>Machines\<close> states the interfaces of the stateful
    parts (an invariant, an append-only log, a monotone measure, a key claimed before it is
    acted on), which each part interprets on its own step function.
  \<^item> \<open>Lifecycle\<close> (\<^verbatim>\<open>lifecycle_contract.py\<close>, \<^verbatim>\<open>contracts.py\<close>): the events of a trade and the tables
    that say which may follow which.
  \<^item> \<open>ExecutionCost\<close>, \<open>ExecutionSafety\<close>, \<open>ExecutionGeometry\<close>, \<open>ExecutionContext\<close>
    (\<^verbatim>\<open>execution.py\<close>, \<^verbatim>\<open>effective_rr.py\<close>): evidence classes, cost model, effective risk/reward,
    microstructure authority and the safety gates; fills, stops and cost provenance; the
    builder of the context the gates read.
  \<^item> \<open>SignalGeometry\<close> (\<^verbatim>\<open>signal_geometry.py\<close>, \<^verbatim>\<open>regime_authority.py\<close>): entry, stop and target from
    candles, the two builders with a body each as in the code, and which regimes may guide a trade.
  \<^item> \<open>PortfolioSizing\<close>, \<open>PortfolioRisk\<close>, \<open>PortfolioAllocator\<close>, \<open>RealizedAccounting\<close>,
    \<open>BacktestPortfolio\<close> (\<^verbatim>\<open>portfolio_risk.py\<close>, \<^verbatim>\<open>realized_accounting.py\<close>): sizes from a risk
    budget, the snapshot of open positions and its limits, the allocation of a batch, and the
    backtest's cash and positions, which refine a cash book.
  \<^item> \<open>OrderQuality\<close>, \<open>OrderCycle\<close> (\<^verbatim>\<open>order.py\<close>): candidates, the quality gate, the projection of an
    allocation, the live authorization, execution and audit, composed to \<^verbatim>\<open>run_order_cycle\<close>, the PAPER
    pre-submit cycle and the signal decision. A cycle is a function of its context and of its
    services (exchange, balance, messages), which may raise; it returns the trace of what it did, so
    an exception keeps what happened before it.
  \<^item> \<open>ExecutionOwnership\<close> (\<^verbatim>\<open>execution_ownership.py\<close>): leases with fencing tokens;
    \<open>RuntimeControl\<close> (\<^verbatim>\<open>runtime_control.py\<close>): requested mode, kill switch, audit, supervised task; an
    operation is a sequence of transactions, each of which may fail on its own.
  \<^item> \<open>ReleaseGates\<close> (\<^verbatim>\<open>release_gates.py\<close>, \<^verbatim>\<open>release_identity.py\<close>, \<^verbatim>\<open>rollback_evidence.py\<close> and the two
    evidence modules): the tables of canary, rollback, runbook and acknowledgement evidence as lists of
    rows, and the snapshot that judges them. \<open>ReadinessEvidence\<close> (\<^verbatim>\<open>runtime_heartbeat.py\<close>,
    \<^verbatim>\<open>alert_delivery.py\<close>), \<open>LiveReadiness\<close> (\<^verbatim>\<open>live_readiness.py\<close>): checks over what a run recorded, gates and
    the verdict.
  \<^item> \<open>DecisionInvariant\<close> (\<^verbatim>\<open>decision_invariant.py\<close>): what every surface must agree on before an order;
    \<open>LivePrecheck\<close> (\<^verbatim>\<open>runtime.py\<close>): the parity evidence of the three modes and the other inputs of the
    readiness evaluation. \<open>SafetyContracts\<close> (\<^verbatim>\<open>derivatives_contract.py\<close>, \<^verbatim>\<open>exchange_safety_gates.py\<close>,
    \<^verbatim>\<open>execution_context_contract.py\<close>, \<^verbatim>\<open>parity_guard.py\<close>): smaller contracts of the same kind.
  \<^item> \<open>ProviderFailures\<close> (\<^verbatim>\<open>provider_failures.py\<close>): what an exception or a failed snapshot of a provider
    means. \<open>Reconciliation\<close> (\<^verbatim>\<open>reconciliation.py\<close>): the runtime's orders, positions and fills against the
    exchange's. \<open>RuntimeReconciliation\<close>, \<open>RuntimeRecovery\<close>, \<open>RuntimeStartup\<close> (\<^verbatim>\<open>runtime.py\<close>,
    \<^verbatim>\<open>runtime_state.py\<close>): the reconciliation cycle with its evidence transaction, timeouts and every
    failure that blocks execution, over the state \<open>runtime\<close>; what a restart must know; and the start as a
    list of stages, which uses the other two, the readiness evaluation and the health records.
  \<^item> \<open>RemoteCommands\<close>, \<open>TelegramAdapter\<close>, \<open>TelegramState\<close>, \<open>TelegramControl\<close>,
    \<open>TelegramController\<close>, \<open>TelegramTransport\<close> (\<^verbatim>\<open>remote_control/\<close>): verification of messages and
    updates, the replay store, confirmations, execution of requests, durable delivery. The
    transport composes the other five.

  \<^bold>\<open>What the lemmas show.\<close> For every guard: acceptance implies each protected limit, for all
  inputs, malformed ones included (the functions are total on \<open>pyval\<close>, and an exception is a
  value). For every store: an invariant over all sequences of operations, where each
  transaction may fail. For the cycles and the runtime: what must have happened before an order is
  sent, a release gate passes, or execution is unblocked. The bounds lemmas rest on the monotonicity
  of rounding (\<open>PyFloat\<close>). Lemmas named as behaviours (a NaN that passes, a reason that is lost) state what the
  code does where that differs from what it means to do.

  \<^bold>\<open>Loops.\<close> Most run over finite lists. The search of \<open>classify_loop\<close> over causes and contexts runs on a
  heap of exceptions that may be cyclic; its fuel is one more than the size of the heap, and the
  termination theorem shows that this is enough. The retries of \<open>persist_cycle\<close> end by the measure
  of attempts left.

  \<^bold>\<open>Assumptions.\<close> One process uses a store at a time and a failed transaction leaves no trace;
  callables handed in by a caller (executors, the HTTP client, clocks, id factories, digests, git,
  address and date parsers) are arguments, and so are what SQL queries count, what providers answer and
  what \<^verbatim>\<open>_evaluate_pre_submit\<close> returned for a sample. A column that holds JSON is the decoded value, or its
  failure to decode. Text is ASCII; \<^verbatim>\<open>sum\<close> is the left fold of CPython 3.11.

  \<^bold>\<open>Not modelled.\<close> The scan and position-management loops of \<^verbatim>\<open>runtime.py\<close> and its task supervision, the
  hooks of \<^verbatim>\<open>order.py\<close> around a trade (\<^verbatim>\<open>before_virtual_order\<close>, \<^verbatim>\<open>before_real_order\<close>,
  \<^verbatim>\<open>after_position_close\<close>), \<^verbatim>\<open>backtest_order.py\<close>, \<^verbatim>\<open>burnin_*.py\<close>, storage maintenance, the dashboard,
  reports, agents, forecasting and configuration parsing: input/output or numeric heuristics around
  the modelled functions. Texts of messages and diagnostics that only repeat inputs are left out where
  a theory says so.
\<close>

end
